(* ===== verification/JM_Prelude.thy ===== *)
theory JM_Prelude
  imports Main "HOL-Library.AList" "HOL-Library.List_Lexorder" "HOL-Library.Char_ord"
begin

text \<open>
  Shared vocabulary of the development: the Python values that cross component borders, the
  exceptions, dictionaries, string helpers and the generic lemmas on lists and association
  lists that the component theories use.

  \<^item> A Python value of type \<^verbatim>\<open>Any\<close> is a \<open>pyval\<close>. Numbers in payloads are integers: floating
    point payload values are outside the model.
  \<^item> A Python \<^verbatim>\<open>dict\<close> with string keys is an association list \<open>pydict\<close> in insertion order.
    \<open>AList.update\<close> overwrites in place and appends a new key, as \<^verbatim>\<open>d[k] = v\<close> does.
  \<^item> A \<^verbatim>\<open>frozenset\<close> or \<^verbatim>\<open>tuple\<close> of strings is a list; the order of a list that stands for a set
    is the (unspecified) order in which Python iterates over it.
  \<^item> \<^verbatim>\<open>datetime\<close> values are integers (a common unit, say microseconds since the epoch).
    Every call of \<^verbatim>\<open>utc_now()\<close> and \<^verbatim>\<open>uuid4()\<close> is an argument of the definition that makes it.
\<close>

section \<open>Values, exceptions, results\<close>

type_synonym time = int

datatype pyval =
    PyNone
  | PyBool bool
  | PyInt int
  | PyStr string
  | PyList "pyval list"
  | PyDict "(string \<times> pyval) list"

type_synonym pydict = "(string \<times> pyval) list"

datatype py_error =
    PermissionError string
  | ValueError string
  | KeyError string
  | TypeError string
  | RuntimeError string
  | AttributeError string
  | AssertionError string
  | IntegrityError string
  | ConnectionError string
  | TimeoutError string
  | IntakeRejected string string
  | LeaseError string string
  | ProcessRunnerError string string
  | RepositorySafetyError string string
  | FileNotFoundError string

type_synonym 'a result = "py_error + 'a"

text \<open>Sequencing of statements that may raise: the first exception ends the block.\<close>

definition bind_result :: "'a result \<Rightarrow> ('a \<Rightarrow> 'b result) \<Rightarrow> 'b result" where
  "bind_result r f = (case r of Inl e \<Rightarrow> Inl e | Inr x \<Rightarrow> f x)"

lemma bind_result_simps [simp]:
  "bind_result (Inl e) f = Inl e"
  "bind_result (Inr x) f = f x"
  by (simp_all add: bind_result_def)

lemma bind_result_Inr_iff: "bind_result r f = Inr y \<longleftrightarrow> (\<exists>x. r = Inr x \<and> f x = Inr y)"
  by (cases r) auto

text \<open>An awaited call returns, raises an \<^verbatim>\<open>Exception\<close>, or is cancelled: \<^verbatim>\<open>asyncio.CancelledError\<close> is
  not an \<^verbatim>\<open>Exception\<close> and passes every \<^verbatim>\<open>except Exception\<close>.\<close>

datatype 'a outcome = Returned 'a | Raised py_error | Cancelled

text \<open>A coroutine acts on a state; what follows an \<^verbatim>\<open>await\<close> runs only when it returned.\<close>

type_synonym ('s, 'a) action = "'s \<Rightarrow> 'a outcome \<times> 's"

definition bind_action :: "('s, 'a) action \<Rightarrow> ('a \<Rightarrow> ('s, 'b) action) \<Rightarrow> ('s, 'b) action" where
  "bind_action m f s =
     (case m s of
        (Returned x, s1) \<Rightarrow> f x s1
      | (Raised e, s1) \<Rightarrow> (Raised e, s1)
      | (Cancelled, s1) \<Rightarrow> (Cancelled, s1))"

definition act :: "'a \<Rightarrow> ('s, 'a) action" where
  "act x s = (Returned x, s)"

definition fail :: "py_error \<Rightarrow> ('s, 'a) action" where
  "fail e s = (Raised e, s)"

definition attempt_of :: "'a result \<Rightarrow> ('s, 'a) action" where
  "attempt_of r = (case r of Inl e \<Rightarrow> fail e | Inr x \<Rightarrow> act x)"

definition update_state :: "('s \<Rightarrow> 's) \<Rightarrow> ('s, unit) action" where
  "update_state f s = (Returned (), f s)"

definition read_state :: "('s \<Rightarrow> 'a) \<Rightarrow> ('s, 'a) action" where
  "read_state f s = (Returned (f s), s)"

fun for_each :: "('a \<Rightarrow> ('s, unit) action) \<Rightarrow> 'a list \<Rightarrow> ('s, unit) action" where
  "for_each f [] = act ()"
| "for_each f (x # xs) = bind_action (f x) (\<lambda>_. for_each f xs)"

text \<open>An operation on a part of the state that is reached by \<open>get\<close> and \<open>put\<close>.\<close>

definition on_part ::
  "('s \<Rightarrow> 'p) \<Rightarrow> ('p \<Rightarrow> 's \<Rightarrow> 's) \<Rightarrow> ('p \<Rightarrow> 'a result \<times> 'p) \<Rightarrow> ('s, 'a) action" where
  "on_part get put f s =
     (case f (get s) of
        (Inl e, p) \<Rightarrow> (Raised e, put p s)
      | (Inr x, p) \<Rightarrow> (Returned x, put p s))"

text \<open>\<open>keeps I m\<close>: however \<open>m\<close> ends, \<open>I\<close> still holds; \<open>yields I m Q\<close>: besides, a returned value
  satisfies \<open>Q\<close>.\<close>

definition keeps :: "('s \<Rightarrow> bool) \<Rightarrow> ('s, 'a) action \<Rightarrow> bool" where
  "keeps I m \<longleftrightarrow> (\<forall>s. I s \<longrightarrow> I (snd (m s)))"

definition yields :: "('s \<Rightarrow> bool) \<Rightarrow> ('s, 'a) action \<Rightarrow> ('a \<Rightarrow> 's \<Rightarrow> bool) \<Rightarrow> bool" where
  "yields I m Q \<longleftrightarrow> (\<forall>s. I s \<longrightarrow> I (snd (m s)) \<and> (\<forall>x. fst (m s) = Returned x \<longrightarrow> Q x (snd (m s))))"

lemma keepsD: "keeps I m \<Longrightarrow> I s \<Longrightarrow> I (snd (m s))"
  by (simp add: keeps_def)

lemma keeps_bind:
  assumes "keeps I m" and "\<And>x. keeps I (f x)"
  shows "keeps I (bind_action m f)"
  using assms unfolding keeps_def bind_action_def
  by (auto split: prod.splits outcome.splits)

lemma keeps_bind_yields:
  assumes "yields I m Q" and "\<And>x s. I s \<Longrightarrow> Q x s \<Longrightarrow> I (snd (f x s))"
  shows "keeps I (bind_action m f)"
  using assms unfolding keeps_def yields_def bind_action_def
  by (auto split: prod.splits outcome.splits)

lemma keeps_act: "keeps I (act x)"
  by (simp add: keeps_def act_def)

lemma keeps_fail: "keeps I (fail e)"
  by (simp add: keeps_def fail_def)

lemma keeps_attempt_of: "keeps I (attempt_of r)"
  by (cases r) (simp_all add: attempt_of_def keeps_act keeps_fail)

lemma keeps_read: "keeps I (read_state f)"
  by (simp add: keeps_def read_state_def)

lemma keeps_update: "(\<And>s. I s \<Longrightarrow> I (f s)) \<Longrightarrow> keeps I (update_state f)"
  by (simp add: keeps_def update_state_def)

lemma keeps_each: "(\<And>x. keeps I (f x)) \<Longrightarrow> keeps I (for_each f xs)"
  by (induction xs) (auto intro: keeps_act keeps_bind)

lemma keeps_if: "keeps I m \<Longrightarrow> keeps I n \<Longrightarrow> keeps I (if b then m else n)"
  by simp

lemma keeps_on_part:
  assumes "\<And>s. I s \<Longrightarrow> I (put (snd (f (get s))) s)"
  shows "keeps I (on_part get put f)"
  using assms unfolding keeps_def on_part_def by (auto split: prod.splits sum.splits) (metis snd_conv)+

lemmas keeps_rules = keeps_bind keeps_act keeps_fail keeps_attempt_of keeps_read keeps_each keeps_if

lemma bind_action_simps [simp]:
  "m s = (Returned x, s1) \<Longrightarrow> bind_action m f s = f x s1"
  "m s = (Raised e, s1) \<Longrightarrow> bind_action m f s = (Raised e, s1)"
  "m s = (Cancelled, s1) \<Longrightarrow> bind_action m f s = (Cancelled, s1)"
  by (simp_all add: bind_action_def)

lemma action_simps [simp]:
  "act x s = (Returned x, s)" "fail e s = (Raised e, s)" "update_state g s = (Returned (), g s)"
  "read_state h s = (Returned (h s), s)" "attempt_of (Inl e) = fail e" "attempt_of (Inr x) = act x"
  by (simp_all add: act_def fail_def update_state_def read_state_def attempt_of_def)

section \<open>Named collections\<close>

named_theorems py_simps \<open>evaluation of the Python helpers\<close>
named_theorems registry_simps \<open>facts about the built-in capability table\<close>
named_theorems lease_simps \<open>effect of the lease operations on the lease tables\<close>

section \<open>Truth values, lookups and conversions\<close>

text \<open>\<^verbatim>\<open>bool(x)\<close>: the falsy values are None, False, 0 and the empty string, list and dict.\<close>

fun truthy :: "pyval \<Rightarrow> bool" where
  "truthy PyNone = False"
| "truthy (PyBool b) = b"
| "truthy (PyInt i) = (i \<noteq> 0)"
| "truthy (PyStr s) = (s \<noteq> [])"
| "truthy (PyList xs) = (xs \<noteq> [])"
| "truthy (PyDict d) = (d \<noteq> [])"

text \<open>\<^verbatim>\<open>d.get(k)\<close> and \<^verbatim>\<open>d.get(k, default)\<close>.\<close>

definition dget :: "pydict \<Rightarrow> string \<Rightarrow> pyval" where
  "dget d k = (case map_of d k of None \<Rightarrow> PyNone | Some v \<Rightarrow> v)"

definition dget_default :: "pydict \<Rightarrow> string \<Rightarrow> pyval \<Rightarrow> pyval" where
  "dget_default d k v0 = (case map_of d k of None \<Rightarrow> v0 | Some v \<Rightarrow> v)"

text \<open>\<^verbatim>\<open>k in d\<close>.\<close>

definition has_key :: "('k \<times> 'v) list \<Rightarrow> 'k \<Rightarrow> bool" where
  "has_key d k \<longleftrightarrow> (\<exists>p \<in> set d. fst p = k)"

text \<open>\<^verbatim>\<open>{**a, **b}\<close>: the entries of \<open>b\<close> written over \<open>a\<close>.\<close>

definition dmerge :: "('k \<times> 'v) list \<Rightarrow> ('k \<times> 'v) list \<Rightarrow> ('k \<times> 'v) list" where
  "dmerge a b = fold (\<lambda>(k, v) d. AList.update k v d) b a"

text \<open>\<^verbatim>\<open>x or y\<close> on values.\<close>

definition py_or :: "pyval \<Rightarrow> pyval \<Rightarrow> pyval" where
  "py_or x y = (if truthy x then x else y)"

text \<open>An optional string: \<^verbatim>\<open>str | None\<close>.\<close>

definition opt_str :: "string option \<Rightarrow> pyval" where
  "opt_str x = (case x of None \<Rightarrow> PyNone | Some s \<Rightarrow> PyStr s)"

definition opt_truthy :: "string option \<Rightarrow> bool" where
  "opt_truthy x = (case x of None \<Rightarrow> False | Some s \<Rightarrow> s \<noteq> [])"

text \<open>\<^verbatim>\<open>dict(x or {})\<close> and \<^verbatim>\<open>tuple(x or ())\<close> for a value read out of a mapping; a value of
  another type makes Python raise, and the callers pass dictionaries and lists only.\<close>

fun as_dict :: "pyval \<Rightarrow> pydict" where
  "as_dict (PyDict d) = d"
| "as_dict _ = []"

fun as_list :: "pyval \<Rightarrow> pyval list" where
  "as_list (PyList xs) = xs"
| "as_list _ = []"

text \<open>\<^verbatim>\<open>[f(x) for x in xs]\<close>, where the first exception ends the comprehension.\<close>

fun map_result :: "('a \<Rightarrow> 'b result) \<Rightarrow> 'a list \<Rightarrow> 'b list result" where
  "map_result f [] = Inr []"
| "map_result f (x # xs) = bind_result (f x) (\<lambda>y. bind_result (map_result f xs) (\<lambda>ys. Inr (y # ys)))"

text \<open>\<^verbatim>\<open>tuple(x)\<close> and \<^verbatim>\<open>dict(x)\<close> of any value: a sequence yields its items, a text its characters, a
  dictionary its keys; \<^verbatim>\<open>dict\<close> takes a dictionary or a sequence of pairs. Keys are texts: a pair
  whose first item is not a text is reported as the \<^verbatim>\<open>TypeError\<close> of an unhashable key.\<close>

fun to_seq :: "pyval \<Rightarrow> pyval list result" where
  "to_seq (PyList xs) = Inr xs"
| "to_seq (PyStr s) = Inr (map (\<lambda>c. PyStr [c]) s)"
| "to_seq (PyDict d) = Inr (map (\<lambda>p. PyStr (fst p)) d)"
| "to_seq _ = Inl (TypeError ''object is not iterable'')"

definition to_pair :: "pyval \<Rightarrow> (string \<times> pyval) result" where
  "to_pair v = bind_result (to_seq v) (\<lambda>items. case items of
      [PyStr k, x] \<Rightarrow> Inr (k, x)
    | [_, _] \<Rightarrow> Inl (TypeError ''unhashable type'')
    | _ \<Rightarrow> Inl (ValueError ''dictionary update sequence element has wrong length; 2 is required''))"

definition to_dict :: "pyval \<Rightarrow> pydict result" where
  "to_dict v =
     (case v of
        PyDict d \<Rightarrow> Inr d
      | _ \<Rightarrow> bind_result (to_seq v) (\<lambda>items. bind_result (map_result to_pair items) (\<lambda>pairs.
             Inr (dmerge [] pairs))))"

text \<open>\<^verbatim>\<open>xs.index(x)\<close> for a member of the sequence.\<close>

fun index_of :: "'a \<Rightarrow> 'a list \<Rightarrow> nat" where
  "index_of x [] = 0"
| "index_of x (y # ys) = (if x = y then 0 else Suc (index_of x ys))"

section \<open>Printing: str and repr\<close>

fun digits_of :: "nat \<Rightarrow> string" where
  "digits_of n =
     (if n < 10 then [char_of (48 + n)] else digits_of (n div 10) @ [char_of (48 + n mod 10)])"

declare digits_of.simps [simp del]

definition int_str :: "int \<Rightarrow> string" where
  "int_str i = (if i < 0 then ''-'' @ digits_of (nat (- i)) else digits_of (nat i))"

definition join :: "string \<Rightarrow> string list \<Rightarrow> string" where
  "join sep xs = (case xs of [] \<Rightarrow> [] | y # ys \<Rightarrow> y @ concat (map (\<lambda>z. sep @ z) ys))"

text \<open>\<^verbatim>\<open>repr\<close> of a string (code point 39 is the single quote, 92 the backslash). Of the code points
  below 256, those below 32, 127 to 160 and 173 are not printable and become hexadecimal escapes.\<close>

definition hex_lower :: "nat \<Rightarrow> char" where
  "hex_lower n = (if n < 10 then char_of (48 + n) else char_of (87 + n))"

definition str_repr :: "string \<Rightarrow> string" where
  "str_repr s =
     (let sq = (char_of (39::nat) :: char); dq = (char_of (34::nat) :: char); bs = char_of (92::nat);
          q = (if sq \<in> set s \<and> dq \<notin> set s then dq else sq);
          esc = (\<lambda>c. let n = (of_char c :: nat) in
                     if c = bs then [bs, bs]
                     else if c = q then [bs, q]
                     else if n = 10 then [bs, CHR ''n'']
                     else if n = 9 then [bs, CHR ''t'']
                     else if n = 13 then [bs, CHR ''r'']
                     else if n < 32 \<or> (127 \<le> n \<and> n \<le> 160) \<or> n = 173
                       then [bs, CHR ''x'', hex_lower (n div 16), hex_lower (n mod 16)]
                     else [c])
      in [q] @ concat (map esc s) @ [q])"

fun py_repr :: "pyval \<Rightarrow> string" where
  "py_repr PyNone = ''None''"
| "py_repr (PyBool b) = (if b then ''True'' else ''False'')"
| "py_repr (PyInt i) = int_str i"
| "py_repr (PyStr s) = str_repr s"
| "py_repr (PyList xs) = ''['' @ join '', '' (map py_repr xs) @ '']''"
| "py_repr (PyDict d) =
     ''{'' @ join '', '' (map (\<lambda>kv. str_repr (fst kv) @ '': '' @ py_repr (snd kv)) d) @ ''}''"

fun py_str :: "pyval \<Rightarrow> string" where
  "py_str (PyStr s) = s"
| "py_str v = py_repr v"

text \<open>\<^verbatim>\<open>sep.join(xs)\<close> raises on an item that is not a text.\<close>

fun to_text :: "pyval \<Rightarrow> string result" where
  "to_text (PyStr s) = Inr s"
| "to_text _ = Inl (TypeError ''sequence item: expected str instance'')"

definition join_values :: "string \<Rightarrow> pyval list \<Rightarrow> string result" where
  "join_values sep xs = bind_result (map_result to_text xs) (\<lambda>ss. Inr (join sep ss))"

section \<open>Text helpers\<close>

text \<open>\<^verbatim>\<open>str.lower()\<close> on code points below 256, prefix and substring tests.\<close>

definition lower_char :: "char \<Rightarrow> char" where
  "lower_char c =
     (let n = (of_char c :: nat)
      in if (65 \<le> n \<and> n \<le> 90) \<or> (192 \<le> n \<and> n \<le> 222 \<and> n \<noteq> 215) then char_of (n + 32) else c)"

definition py_lower :: "string \<Rightarrow> string" where
  "py_lower s = map lower_char s"

fun starts_with :: "string \<Rightarrow> string \<Rightarrow> bool" where
  "starts_with [] s = True"
| "starts_with (c # p) [] = False"
| "starts_with (c # p) (d # s) = (c = d \<and> starts_with p s)"

fun substring :: "string \<Rightarrow> string \<Rightarrow> bool" where
  "substring p [] = (p = [])"
| "substring p (d # s) = (starts_with p (d # s) \<or> substring p s)"

text \<open>\<^verbatim>\<open>production_mode()\<close> of \<^verbatim>\<open>src/src/joymesh/control_plane/security.py\<close>, from the value of
  \<^verbatim>\<open>JOYMESH_ENV\<close>.\<close>

definition production_mode :: "string option \<Rightarrow> bool" where
  "production_mode env \<longleftrightarrow>
     py_lower (case env of None \<Rightarrow> ''development'' | Some v \<Rightarrow> v) \<in> {''production'', ''prod''}"

text \<open>\<^verbatim>\<open>str(exc)\<close> and \<^verbatim>\<open>type(exc).__name__\<close>.\<close>

fun error_text :: "py_error \<Rightarrow> string" where
  "error_text (PermissionError m) = m"
| "error_text (ValueError m) = m"
| "error_text (KeyError k) = str_repr k"
| "error_text (TypeError m) = m"
| "error_text (RuntimeError m) = m"
| "error_text (AttributeError m) = m"
| "error_text (AssertionError m) = m"
| "error_text (IntegrityError m) = m"
| "error_text (ConnectionError m) = m"
| "error_text (TimeoutError m) = m"
| "error_text (IntakeRejected code m) = m"
| "error_text (LeaseError code m) = m"
| "error_text (ProcessRunnerError code m) = m"
| "error_text (RepositorySafetyError code m) = m"
| "error_text (FileNotFoundError m) = m"

fun error_name :: "py_error \<Rightarrow> string" where
  "error_name (PermissionError m) = ''PermissionError''"
| "error_name (ValueError m) = ''ValueError''"
| "error_name (KeyError k) = ''KeyError''"
| "error_name (TypeError m) = ''TypeError''"
| "error_name (RuntimeError m) = ''RuntimeError''"
| "error_name (AttributeError m) = ''AttributeError''"
| "error_name (AssertionError m) = ''AssertionError''"
| "error_name (IntegrityError m) = ''IntegrityError''"
| "error_name (ConnectionError m) = ''ConnectionError''"
| "error_name (TimeoutError m) = ''TimeoutError''"
| "error_name (IntakeRejected code m) = ''IntakeRejected''"
| "error_name (LeaseError code m) = ''ProviderRouteLeaseError''"
| "error_name (ProcessRunnerError code m) = ''ProcessRunnerError''"
| "error_name (RepositorySafetyError code m) = ''RepositorySafetyError''"
| "error_name (FileNotFoundError m) = ''FileNotFoundError''"

section \<open>Reading numbers\<close>

text \<open>\<^verbatim>\<open>int(x)\<close>: integers and booleans as they are, text with optional white space, sign and single
  underscores between digits; other values raise.\<close>

definition digit :: "char \<Rightarrow> bool" where
  "digit c \<longleftrightarrow> 48 \<le> (of_char c :: nat) \<and> (of_char c :: nat) \<le> 57"

definition space :: "char \<Rightarrow> bool" where
  "space c \<longleftrightarrow> (of_char c :: nat) \<in> {9, 10, 11, 12, 13, 28, 29, 30, 31, 32, 133, 160}"

definition py_strip :: "string \<Rightarrow> string" where
  "py_strip s = rev (dropWhile space (rev (dropWhile space s)))"

fun parse_digits :: "bool \<Rightarrow> int \<Rightarrow> string \<Rightarrow> int option" where
  "parse_digits prev acc [] = (if prev then Some acc else None)"
| "parse_digits prev acc (c # s) =
     (if digit c then parse_digits True (acc * 10 + int (of_char c - 48)) s
      else if c = CHR ''_'' \<and> prev then parse_digits False acc s
      else None)"

fun py_int :: "pyval \<Rightarrow> int result" where
  "py_int (PyInt i) = Inr i"
| "py_int (PyBool b) = Inr (of_bool b)"
| "py_int (PyStr s) =
     (let t = py_strip s;
          n = (case t of
                 c # u \<Rightarrow> if c = CHR ''-'' then map_option uminus (parse_digits False 0 u)
                          else if c = CHR ''+'' then parse_digits False 0 u
                          else parse_digits False 0 t
               | [] \<Rightarrow> None)
      in case n of
           Some i \<Rightarrow> Inr i
         | None \<Rightarrow> Inl (ValueError (''invalid literal for int() with base 10: '' @ str_repr s)))"
| "py_int _ = Inl (TypeError ''int() argument must be a string, a bytes-like object or a real number'')"

section \<open>Value equality\<close>

text \<open>\<^verbatim>\<open>==\<close> on values: booleans count as 0 and 1, dictionaries compare without order.\<close>

lemma size_pair_member:
  "(k, v) \<in> set d \<Longrightarrow> size v < Suc (size_list (size_prod (\<lambda>_. 0) size) d)"
  by (induction d) (auto simp del: size_list_conv_sum_list)

lemma size_zip_member:
  "(v, w) \<in> set (zip xs ys) \<Longrightarrow> size v < Suc (size_list size xs)"
  by (induction xs ys rule: list_induct2') auto

function py_eq :: "pyval \<Rightarrow> pyval \<Rightarrow> bool" where
  "py_eq v w = (case v of
       PyNone \<Rightarrow> w = PyNone
     | PyBool b \<Rightarrow> (case w of PyBool c \<Rightarrow> b = c | PyInt j \<Rightarrow> of_bool b = j | _ \<Rightarrow> False)
     | PyInt i \<Rightarrow> (case w of PyBool c \<Rightarrow> i = of_bool c | PyInt j \<Rightarrow> i = j | _ \<Rightarrow> False)
     | PyStr s \<Rightarrow> w = PyStr s
     | PyList xs \<Rightarrow> (case w of
           PyList ys \<Rightarrow> length xs = length ys \<and> (\<forall>p \<in> set (zip xs ys). py_eq (fst p) (snd p))
         | _ \<Rightarrow> False)
     | PyDict d \<Rightarrow> (case w of
           PyDict e \<Rightarrow> length d = length e \<and>
             (\<forall>p \<in> set d. case map_of e (fst p) of None \<Rightarrow> False | Some u \<Rightarrow> py_eq (snd p) u)
         | _ \<Rightarrow> False))"
  by pat_completeness auto

termination
  by (relation "measure (\<lambda>(v, w). size v)") (auto intro: size_pair_member size_zip_member)

declare py_eq.simps [simp del]

section \<open>Generic lemmas\<close>

lemma sort_key_eq_Nil [simp]: "sort_key f xs = [] \<longleftrightarrow> xs = []"
  by (metis set_empty set_sort)

lemma map_of_key_obtain:
  assumes "k \<in> fst ` set m"
  obtains v where "map_of m k = Some v"
  using assms by (cases "map_of m k") (auto simp: map_of_eq_None_iff)

lemma map_of_update [simp]: "map_of (AList.update k v m) = (map_of m)(k \<mapsto> v)"
  by (rule ext) (simp add: update_conv)

lemma update_new_key: "k \<notin> fst ` set m \<Longrightarrow> AList.update k v m = m @ [(k, v)]"
  by (induction m) auto

lemma fold_update_distinct:
  assumes "distinct (map f xs)" and "fst ` set m \<inter> f ` set xs = {}"
  shows "fold (\<lambda>x m. AList.update (f x) (g x) m) xs m = m @ map (\<lambda>x. (f x, g x)) xs"
  using assms by (induction xs arbitrary: m) (auto simp: update_new_key)

text \<open>A Python dictionary holds each key once. The predicate is kept folded, so that lookups stay
  \<open>map_of\<close> terms.\<close>

definition dict_ok :: "('k \<times> 'v) list \<Rightarrow> bool" where
  "dict_ok m \<longleftrightarrow> distinct (map fst m)"

lemma dict_ok_Nil [simp]: "dict_ok []"
  by (simp add: dict_ok_def)

lemma dict_ok_update [simp]: "dict_ok m \<Longrightarrow> dict_ok (AList.update k v m)"
  by (simp add: dict_ok_def distinct_update)

lemma dict_ok_delete [simp]: "dict_ok m \<Longrightarrow> dict_ok (AList.delete k m)"
  by (simp add: dict_ok_def distinct_delete)

lemma dict_values: "dict_ok m \<Longrightarrow> v \<in> snd ` set m \<longleftrightarrow> (\<exists>k. map_of m k = Some v)"
  by (force simp: dict_ok_def)

lemma map_of_delete [simp]: "map_of (AList.delete k m) = (map_of m)(k := None)"
  by (rule ext) (simp add: delete_conv)

end
