(* ===== verification/Capabilities.thy ===== *)
theory Capabilities
  imports JM_Prelude
begin

text \<open>
  The capability registry and the dependency expansion
  (\<^verbatim>\<open>src/src/joymesh/runtime_v1/capabilities.py\<close>): the table of capability definitions, the
  registry lookups, and the work-list loop of \<open>expand_capabilities\<close>, which is shown to compute
  exactly the dependency closure of the request and to fail exactly when the closure touches an
  unknown, a prohibited or a conflicting capability.
\<close>

section \<open>Definitions\<close>

record CapabilityDefinition =
  capability_id :: string
  cap_description :: string
  risk_level :: string
  dependencies :: "string list"
  conflicts :: "string list"
  default_approval_class :: string
  routable :: bool
  experimental :: bool
  definition_revision :: string

definition capdef ::
  "string \<Rightarrow> string \<Rightarrow> string \<Rightarrow> string list \<Rightarrow> string list \<Rightarrow> string \<Rightarrow> bool \<Rightarrow> bool
   \<Rightarrow> CapabilityDefinition" where
  "capdef i d r deps confl appr rt ex =
     \<lparr>capability_id = i, cap_description = d, risk_level = r, dependencies = deps,
      conflicts = confl, default_approval_class = appr, routable = rt, experimental = ex,
      definition_revision = ''2026-07-29.1''\<rparr>"

definition capability_table_1 :: "CapabilityDefinition list" where
  "capability_table_1 = [
   capdef ''repository.read'' ''Read repository files and structure'' ''low''
     [''filesystem.read'', ''workspace.contained''] [] ''none'' True False,
   capdef ''repository.search'' ''Search repository contents'' ''low''
     [''repository.read''] [] ''none'' True False,
   capdef ''repository.summarise'' ''Summarise repository architecture or contents'' ''low''
     [''repository.read'', ''structured_output''] [] ''none'' True False,
   capdef ''repository.write'' ''Create or modify repository files'' ''high''
     [''filesystem.write''] [] ''explicit'' True False,
   capdef ''repository.patch'' ''Apply patches to repository files'' ''high''
     [''repository.write''] [] ''explicit'' True False,
   capdef ''filesystem.read'' ''Read files inside an approved workspace'' ''low''
     [''workspace.contained''] [] ''none'' True False,
   capdef ''filesystem.write'' ''Write files inside an approved workspace'' ''high''
     [''workspace.contained''] [] ''explicit'' True False,
   capdef ''structured_output'' ''Emit structured machine-readable output'' ''low''
     [] [] ''none'' True False,
   capdef ''streaming_output'' ''Stream incremental execution events'' ''low''
     [] [] ''none'' True False,
   capdef ''shell.execute'' ''Execute shell commands'' ''critical''
     [''process_tree.cancel''] [] ''explicit'' True False,
   capdef ''shell.cancel'' ''Cancel shell command processes'' ''medium''
     [''process_tree.cancel''] [] ''none'' True False,
   capdef ''git.read'' ''Read Git metadata and history'' ''low''
     [''repository.read''] [] ''none'' True False,
   capdef ''git.diff'' ''Inspect Git diffs'' ''low''
     [''git.read''] [] ''none'' True False]"

definition capability_table_2 :: "CapabilityDefinition list" where
  "capability_table_2 = [
   capdef ''git.commit'' ''Create Git commits'' ''high''
     [''repository.write'', ''filesystem.write''] [] ''explicit'' True False,
   capdef ''git.push'' ''Push Git commits to a remote'' ''critical''
     [''git.commit''] [] ''step_up'' True False,
   capdef ''dependency.install'' ''Install package dependencies'' ''critical''
     [''shell.execute''] [] ''explicit'' True False,
   capdef ''test.execute'' ''Run tests'' ''high''
     [''shell.execute'', ''process_tree.cancel''] [] ''explicit'' True False,
   capdef ''build.execute'' ''Run builds'' ''high''
     [''shell.execute'', ''process_tree.cancel''] [] ''explicit'' True False,
   capdef ''network.read'' ''Read from the network'' ''medium''
     [] [] ''explicit'' True False,
   capdef ''network.write'' ''Write to the network'' ''critical''
     [''network.read''] [] ''step_up'' True False,
   capdef ''session.resume'' ''Resume a prior connector session'' ''medium''
     [] [] ''explicit'' True True,
   capdef ''session.fork'' ''Fork a connector session'' ''medium''
     [''session.resume''] [] ''explicit'' True True,
   capdef ''browser.use'' ''Drive a browser'' ''high''
     [''network.write''] [] ''explicit'' True True,
   capdef ''mcp.use'' ''Call MCP tools'' ''high''
     [] [] ''explicit'' True True,
   capdef ''images.read'' ''Read image inputs'' ''low''
     [''filesystem.read''] [] ''none'' True False,
   capdef ''workspace.contained'' ''Execution is confined to an approved workspace'' ''low''
     [] [] ''none'' True False,
   capdef ''process_tree.cancel'' ''Cancel the full process tree for an execution'' ''medium''
     [] [] ''none'' True False]"

text \<open>The tuple \<^verbatim>\<open>_CAPABILITIES\<close>.\<close>

definition CAPABILITIES :: "CapabilityDefinition list" where
  "CAPABILITIES = capability_table_1 @ capability_table_2"

type_synonym registry = "(string \<times> CapabilityDefinition) list"

text \<open>\<^verbatim>\<open>CapabilityRegistry(definitions)\<close>: an empty or missing tuple means the built-in table.\<close>

definition CapabilityRegistry :: "CapabilityDefinition list option \<Rightarrow> registry" where
  "CapabilityRegistry defs =
     (let items = (case defs of None \<Rightarrow> CAPABILITIES | Some [] \<Rightarrow> CAPABILITIES | Some ds \<Rightarrow> ds)
      in fold (\<lambda>item r. AList.update (capability_id item) item r) items [])"

definition registry_get :: "registry \<Rightarrow> string \<Rightarrow> CapabilityDefinition result" where
  "registry_get reg c =
     (case map_of reg c of None \<Rightarrow> Inl (KeyError (''unknown capability: '' @ c)) | Some d \<Rightarrow> Inr d)"

definition registry_all :: "registry \<Rightarrow> CapabilityDefinition list" where
  "registry_all reg = map (\<lambda>k. the (map_of reg k)) (sort (map fst reg))"

definition known :: "registry \<Rightarrow> string \<Rightarrow> bool" where
  "known reg c \<longleftrightarrow> has_key reg c"

text \<open>
  The work-list loop. The list \<open>stack\<close> holds Python's stack with its top first, so that
  \<^verbatim>\<open>stack.pop()\<close> takes the head and \<^verbatim>\<open>stack.append(d)\<close> conses.
\<close>

definition push_dependencies :: "string list \<Rightarrow> string list \<Rightarrow> string list \<Rightarrow> string list" where
  "push_dependencies deps expanded stack =
     fold (\<lambda>d st. if d \<in> set expanded then st else d # st) deps stack"

lemma registry_get_Inr: "registry_get reg c = Inr d \<longleftrightarrow> map_of reg c = Some d"
  by (simp add: registry_get_def split: option.split)

lemma known_iff: "known reg c \<longleftrightarrow> c \<in> fst ` set reg"
  by (auto simp: known_def has_key_def)

function expand_loop ::
  "registry \<Rightarrow> string list \<Rightarrow> string list \<Rightarrow> string list \<Rightarrow> string list result" where
  "expand_loop reg prohibited [] expanded = Inr expanded"
| "expand_loop reg prohibited (current # stack) expanded =
     (if current \<in> set expanded then expand_loop reg prohibited stack expanded
      else if current \<in> set prohibited then
        Inl (ValueError (''prohibited capability required by expansion: '' @ current))
      else (case registry_get reg current of
          Inl e \<Rightarrow> Inl e
        | Inr d \<Rightarrow>
            (let expanded' = expanded @ [current]
             in expand_loop reg prohibited (push_dependencies (dependencies d) expanded' stack)
                  expanded')))"
  by pat_completeness auto

termination
proof (relation "measures [\<lambda>(reg, p, st, ex). card (fst ` set reg - set ex), \<lambda>(reg, p, st, ex). length st]",
    goal_cases)
  case (3 reg prohibited current stack expanded d)
  then have "current \<in> fst ` set reg - set expanded"
    by (auto simp: registry_get_Inr dest!: map_of_SomeD intro: rev_image_eqI)
  then have "card (fst ` set reg - set expanded - {current}) < card (fst ` set reg - set expanded)"
    by (intro psubset_card_mono) auto
  moreover have "fst ` set reg - set (expanded @ [current]) = fst ` set reg - set expanded - {current}"
    by auto
  ultimately show ?case using 3 by simp
qed auto

text \<open>The final loop over the expanded set: the first member with a conflict raises.\<close>

fun conflict_check :: "registry \<Rightarrow> string list \<Rightarrow> string list \<Rightarrow> unit result" where
  "conflict_check reg expanded [] = Inr ()"
| "conflict_check reg expanded (c # cs) =
     (case registry_get reg c of
        Inl e \<Rightarrow> Inl e
      | Inr d \<Rightarrow>
          (let clash = filter (\<lambda>x. x \<in> set expanded) (conflicts d)
           in if clash \<noteq> [] then
                Inl (ValueError (''capability '' @ c @ '' conflicts with '' @ join '', '' (sort clash)))
              else conflict_check reg expanded cs))"

definition expand_capabilities ::
  "registry \<Rightarrow> string list \<Rightarrow> string list \<Rightarrow> string list result" where
  "expand_capabilities reg requested prohibited =
     (let unknown = sort (remdups (filter (\<lambda>c. \<not> known reg c) (requested @ prohibited)));
          overridden = sort (filter (\<lambda>c. c \<in> set prohibited) requested)
      in if unknown \<noteq> [] then Inl (ValueError (''unknown capabilities: '' @ join '', '' unknown))
         else if overridden \<noteq> [] then
           Inl (ValueError (''prohibited capabilities override requested capabilities: ''
                              @ join '', '' overridden))
         else (case expand_loop reg prohibited (rev requested) [] of
             Inl e \<Rightarrow> Inl e
           | Inr expanded \<Rightarrow>
               (case conflict_check reg expanded expanded of
                  Inl e \<Rightarrow> Inl e
                | Inr _ \<Rightarrow> Inr expanded)))"

definition READ_ONLY_CAPABILITIES :: "string list" where
  "READ_ONLY_CAPABILITIES =
     [''repository.read'', ''repository.search'', ''repository.summarise'', ''filesystem.read'',
      ''structured_output'', ''streaming_output'', ''workspace.contained'', ''process_tree.cancel'']"

definition MUTATING_CAPABILITIES :: "string list" where
  "MUTATING_CAPABILITIES =
     [''repository.write'', ''repository.patch'', ''filesystem.write'', ''shell.execute'',
      ''git.commit'', ''git.push'', ''dependency.install'', ''test.execute'', ''build.execute'',
      ''network.write'']"

section \<open>Specification: the dependency closure\<close>

definition depends_on :: "registry \<Rightarrow> string \<Rightarrow> string \<Rightarrow> bool" where
  "depends_on reg a b \<longleftrightarrow> (\<exists>d. map_of reg a = Some d \<and> b \<in> set (dependencies d))"

definition dep_closure :: "registry \<Rightarrow> string set \<Rightarrow> string set" where
  "dep_closure reg S = {c. \<exists>r \<in> S. (depends_on reg)\<^sup>*\<^sup>* r c}"

definition conflict_free :: "registry \<Rightarrow> string set \<Rightarrow> bool" where
  "conflict_free reg S \<longleftrightarrow>
     (\<forall>c \<in> S. \<forall>d. map_of reg c = Some d \<longrightarrow> set (conflicts d) \<inter> S = {})"

lemma dep_closure_superset: "S \<subseteq> dep_closure reg S"
  by (auto simp: dep_closure_def)

lemma dep_closure_step: "a \<in> dep_closure reg S \<Longrightarrow> depends_on reg a b \<Longrightarrow> b \<in> dep_closure reg S"
  by (auto simp: dep_closure_def intro: rtranclp.rtrancl_into_rtrancl)

lemma dep_closure_least:
  assumes "S \<subseteq> E" and "\<And>a b. a \<in> E \<Longrightarrow> depends_on reg a b \<Longrightarrow> b \<in> E"
  shows "dep_closure reg S \<subseteq> E"
proof
  fix c assume "c \<in> dep_closure reg S"
  then obtain r where "r \<in> S" and "(depends_on reg)\<^sup>*\<^sup>* r c" by (auto simp: dep_closure_def)
  from this(2) show "c \<in> E" by (induction rule: rtranclp_induct) (use \<open>r \<in> S\<close> assms in auto)
qed

lemma dep_closure_mono: "S \<subseteq> dep_closure reg T \<Longrightarrow> dep_closure reg S \<subseteq> dep_closure reg T"
  by (intro dep_closure_least) (auto intro: dep_closure_step)

section \<open>The work-list loop\<close>

lemma set_push_dependencies:
  "set (push_dependencies deps ex st) = (set deps - set ex) \<union> set st"
  unfolding push_dependencies_def by (induction deps arbitrary: st) auto

text \<open>Loop invariant: every dependency of an expanded capability is expanded or on the stack.\<close>

definition pending_closed :: "registry \<Rightarrow> string list \<Rightarrow> string list \<Rightarrow> bool" where
  "pending_closed reg ex st \<longleftrightarrow>
     (\<forall>a b. a \<in> set ex \<longrightarrow> depends_on reg a b \<longrightarrow> b \<in> set ex \<union> set st)"

lemma pending_closed_push:
  assumes "pending_closed reg ex (c # st)" and "map_of reg c = Some d"
  shows "pending_closed reg (ex @ [c]) (push_dependencies (dependencies d) (ex @ [c]) st)"
  using assms by (auto simp: pending_closed_def set_push_dependencies depends_on_def)

lemma expand_loop_sound:
  assumes "expand_loop reg prohibited st ex = Inr E" and "pending_closed reg ex st"
    and "distinct ex" and "set ex \<subseteq> fst ` set reg - set prohibited"
  shows "distinct E \<and> set E \<subseteq> fst ` set reg - set prohibited \<and> pending_closed reg E []
         \<and> set ex \<union> set st \<subseteq> set E \<and> set E \<subseteq> dep_closure reg (set ex \<union> set st)"
  using assms
proof (induction reg prohibited st ex rule: expand_loop.induct)
  case (1 reg prohibited ex)
  then show ?case using dep_closure_superset[of "set ex" reg] by auto
next
  case (2 reg prohibited c st ex)
  show ?case
  proof (cases "c \<in> set ex")
    case True
    with "2.prems" have "pending_closed reg ex st" by (auto simp: pending_closed_def)
    with 2 True have "distinct E \<and> set E \<subseteq> fst ` set reg - set prohibited \<and> pending_closed reg E []
      \<and> set ex \<union> set st \<subseteq> set E \<and> set E \<subseteq> dep_closure reg (set ex \<union> set st)" by simp
    with True show ?thesis by (simp add: insert_absorb)
  next
    case new: False
    with "2.prems"(1) obtain d where c: "c \<notin> set prohibited" and d: "registry_get reg c = Inr d"
      by (auto split: if_splits sum.splits)
    let ?st = "push_dependencies (dependencies d) (ex @ [c]) st"
    have dm: "map_of reg c = Some d" using d by (simp add: registry_get_Inr)
    have run: "expand_loop reg prohibited ?st (ex @ [c]) = Inr E"
      using "2.prems"(1) new c d by (simp add: Let_def)
    have "c \<in> fst ` set reg" using dm by (auto dest!: map_of_SomeD intro: rev_image_eqI)
    then have ih: "distinct E \<and> set E \<subseteq> fst ` set reg - set prohibited \<and> pending_closed reg E []
      \<and> set (ex @ [c]) \<union> set ?st \<subseteq> set E \<and> set E \<subseteq> dep_closure reg (set (ex @ [c]) \<union> set ?st)"
      using "2.IH"(2)[OF new c d refl run] pending_closed_push[OF "2.prems"(2) dm] "2.prems"(3,4) new c
      by auto
    have "set (ex @ [c]) \<union> set ?st \<subseteq> dep_closure reg (set ex \<union> set (c # st))"
      using dep_closure_superset[of "set ex \<union> set (c # st)" reg] dm
      by (auto simp: set_push_dependencies depends_on_def intro: dep_closure_step[of c])
    then have "dep_closure reg (set (ex @ [c]) \<union> set ?st) \<subseteq> dep_closure reg (set ex \<union> set (c # st))"
      by (rule dep_closure_mono)
    with ih show ?thesis by (auto simp: set_push_dependencies)
  qed
qed

lemma expand_loop_complete:
  assumes "dep_closure reg (set ex \<union> set st) \<subseteq> fst ` set reg - set prohibited"
  shows "\<exists>E. expand_loop reg prohibited st ex = Inr E"
  using assms
proof (induction reg prohibited st ex rule: expand_loop.induct)
  case (1 reg prohibited ex)
  then show ?case by simp
next
  case (2 reg prohibited c st ex)
  show ?case
  proof (cases "c \<in> set ex")
    case True
    with 2 show ?thesis by (simp add: insert_absorb)
  next
    case new: False
    have "c \<in> fst ` set reg - set prohibited"
      using "2.prems" dep_closure_superset[of "set ex \<union> set (c # st)" reg] by auto
    then obtain d where c: "c \<notin> set prohibited" and dm: "map_of reg c = Some d"
      by (metis DiffE map_of_key_obtain)
    let ?st = "push_dependencies (dependencies d) (ex @ [c]) st"
    have d: "registry_get reg c = Inr d" using dm by (simp add: registry_get_Inr)
    have "set (ex @ [c]) \<union> set ?st \<subseteq> dep_closure reg (set ex \<union> set (c # st))"
      using dep_closure_superset[of "set ex \<union> set (c # st)" reg] dm
      by (auto simp: set_push_dependencies depends_on_def intro: dep_closure_step[of c])
    then have "dep_closure reg (set (ex @ [c]) \<union> set ?st) \<subseteq> fst ` set reg - set prohibited"
      using dep_closure_mono "2.prems" by blast
    with "2.IH"(2)[OF new c d refl] new c d show ?thesis by (simp add: Let_def)
  qed
qed

lemma conflict_check_Inr:
  assumes "set cs \<subseteq> fst ` set reg"
  shows "conflict_check reg ex cs = Inr () \<longleftrightarrow>
     (\<forall>c \<in> set cs. \<forall>d. map_of reg c = Some d \<longrightarrow> set (conflicts d) \<inter> set ex = {})"
  using assms
proof (induction cs)
  case (Cons c cs)
  then obtain d where d: "map_of reg c = Some d" "registry_get reg c = Inr d"
    by (auto simp: registry_get_Inr elim!: map_of_key_obtain)
  have "filter (\<lambda>x. x \<in> set ex) (conflicts d) = [] \<longleftrightarrow> set (conflicts d) \<inter> set ex = {}"
    by (auto simp: filter_empty_conv)
  with Cons d show ?case by (auto simp: Let_def)
qed simp

lemma expand_capabilities_InrD:
  assumes "expand_capabilities reg requested prohibited = Inr E"
  shows "distinct E" and "set E = dep_closure reg (set requested)"
    and "set E \<subseteq> fst ` set reg" and "set E \<inter> set prohibited = {}"
    and "conflict_free reg (set E)" and "set requested \<union> set prohibited \<subseteq> fst ` set reg"
proof -
  from assms have loop: "expand_loop reg prohibited (rev requested) [] = Inr E"
    and confl: "conflict_check reg E E = Inr ()"
    and kn: "\<forall>c \<in> set requested \<union> set prohibited. known reg c"
    by (auto simp: expand_capabilities_def Let_def filter_empty_conv split: if_splits sum.splits)
  note snd = expand_loop_sound[OF loop, simplified pending_closed_def, simplified]
  show "distinct E" and inreg: "set E \<subseteq> fst ` set reg" and "set E \<inter> set prohibited = {}"
    using snd by auto
  show "set E = dep_closure reg (set requested)"
  proof
    show "dep_closure reg (set requested) \<subseteq> set E"
      using snd by (intro dep_closure_least) blast+
  qed (use snd in blast)
  show "conflict_free reg (set E)"
    using confl conflict_check_Inr[OF inreg, of E] by (auto simp: conflict_free_def)
  show "set requested \<union> set prohibited \<subseteq> fst ` set reg" using kn by (auto simp: known_iff)
qed

section \<open>The built-in table\<close>

lemmas capability_table_defs =
  CAPABILITIES_def capability_table_1_def capability_table_2_def capdef_def

lemma CAPABILITIES_ids_distinct: "distinct (map capability_id CAPABILITIES)"
  by code_simp

lemma builtin_registry_eq:
  "CapabilityRegistry None = map (\<lambda>d. (capability_id d, d)) CAPABILITIES"
  using CAPABILITIES_ids_distinct
  by (simp add: CapabilityRegistry_def fold_update_distinct[where m = "[]", simplified])

lemma CAPABILITIES_dependencies_known:
  "list_all (\<lambda>d. list_all (\<lambda>c. c \<in> set (map capability_id CAPABILITIES)) (dependencies d)) CAPABILITIES"
  by code_simp

lemma CAPABILITIES_no_conflicts: "list_all (\<lambda>d. conflicts d = []) CAPABILITIES"
  by code_simp

lemma builtin_lookup_mem: "map_of (CapabilityRegistry None) c = Some d \<Longrightarrow> d \<in> set CAPABILITIES"
  by (auto simp: builtin_registry_eq dest: map_of_SomeD)

lemma builtin_registry_closed:
  assumes "S \<subseteq> fst ` set (CapabilityRegistry None)"
  shows "dep_closure (CapabilityRegistry None) S \<subseteq> fst ` set (CapabilityRegistry None)"
proof (rule dep_closure_least[OF assms])
  fix a b
  assume "depends_on (CapabilityRegistry None) a b"
  then show "b \<in> fst ` set (CapabilityRegistry None)"
    using CAPABILITIES_dependencies_known
    by (auto simp: depends_on_def list_all_iff builtin_registry_eq image_image
        dest!: builtin_lookup_mem[unfolded builtin_registry_eq])
qed

lemma builtin_conflict_free: "conflict_free (CapabilityRegistry None) S"
  using CAPABILITIES_no_conflicts
  by (auto simp: conflict_free_def list_all_iff dest!: builtin_lookup_mem)

lemma expand_capabilities_succeeds:
  "(\<exists>E. expand_capabilities reg requested prohibited = Inr E) \<longleftrightarrow>
     set prohibited \<subseteq> fst ` set reg
     \<and> dep_closure reg (set requested) \<subseteq> fst ` set reg - set prohibited
     \<and> conflict_free reg (dep_closure reg (set requested))" (is "?L \<longleftrightarrow> ?R")
proof
  assume ?L
  then obtain E where E: "expand_capabilities reg requested prohibited = Inr E" ..
  note expand_capabilities_InrD[OF E]
  then show ?R by auto
next
  assume R: ?R
  then have req: "set requested \<subseteq> fst ` set reg - set prohibited"
    using dep_closure_superset[of "set requested" reg] by blast
  obtain E where loop: "expand_loop reg prohibited (rev requested) [] = Inr E"
    using expand_loop_complete[of reg "[]" "rev requested" prohibited] R by auto
  note snd = expand_loop_sound[OF loop, simplified pending_closed_def, simplified]
  have "set E = dep_closure reg (set requested)"
  proof
    show "dep_closure reg (set requested) \<subseteq> set E"
      using snd by (intro dep_closure_least) blast+
  qed (use snd in blast)
  then have "conflict_check reg E E = Inr ()"
    using R conflict_check_Inr[of E reg E] by (auto simp: conflict_free_def)
  moreover have "filter (\<lambda>c. \<not> known reg c) (requested @ prohibited) = []"
    and "filter (\<lambda>c. c \<in> set prohibited) requested = []"
    using req R by (auto simp: filter_empty_conv known_iff)
  ultimately show ?L using loop unfolding expand_capabilities_def Let_def by simp
qed

section \<open>Properties\<close>

text \<open>C16: When \<open>expand_capabilities\<close> returns, its result holds each capability once and is
  exactly the dependency closure of the request: everything reachable from a requested capability
  over the registry's dependencies, nothing more. No member is prohibited and no two members
  conflict.\<close>

theorem expand_capabilities_closure:
  assumes "expand_capabilities reg requested prohibited = Inr E"
  shows "distinct E \<and> set E = dep_closure reg (set requested)
         \<and> set E \<inter> set prohibited = {} \<and> conflict_free reg (set E)"
  using expand_capabilities_InrD[OF assms] by simp

theorem expand_capabilities_closure_witness:
  "expand_capabilities (CapabilityRegistry None) [''git.diff''] [''git.push'']
     = Inr [''git.diff'', ''git.read'', ''repository.read'', ''workspace.contained'', ''filesystem.read'']
   \<and> dep_closure (CapabilityRegistry None) (set [''git.diff''])
     = {''git.diff'', ''git.read'', ''repository.read'', ''workspace.contained'', ''filesystem.read''}"
proof -
  have run: "expand_capabilities (CapabilityRegistry None) [''git.diff''] [''git.push'']
     = Inr [''git.diff'', ''git.read'', ''repository.read'', ''workspace.contained'', ''filesystem.read'']"
    by code_simp
  show ?thesis using run expand_capabilities_closure[OF run] by simp
qed

text \<open>\<open>expand_capabilities\<close> succeeds exactly when every prohibited capability is known, the
  dependency closure of the request stays inside the registry and avoids the prohibited
  capabilities, and the closure is free of conflicts; in every other case it raises.\<close>

theorem expand_capabilities_succeeds_iff:
  "(\<exists>E. expand_capabilities reg requested prohibited = Inr E) \<longleftrightarrow>
     (set prohibited \<subseteq> fst ` set reg
      \<and> dep_closure reg (set requested) \<subseteq> fst ` set reg - set prohibited
      \<and> conflict_free reg (dep_closure reg (set requested)))"
  by (rule expand_capabilities_succeeds)

end
