(* ===== verification/Runtime_Models.thy ===== *)
theory Runtime_Models
  imports JM_Prelude
begin

text \<open>
  The data of the runtime core (\<^verbatim>\<open>src/src/joymesh/runtime_v1/models.py\<close> and the enumerations of
  \<^verbatim>\<open>src/src/joymesh/connectors/lifecycle_models.py\<close> it uses): task requests and records, policy
  decisions, workspace placements, route candidates, leases and attempts. Frozen dataclasses are
  records; a field name carries a short prefix of its class because record selectors are global.
\<close>

section \<open>Enumerations\<close>

datatype RuntimeTaskStatus =
    PENDING | APPROVAL_REQUIRED | ROUTING | QUEUED | LEASED | OFFERED | ACCEPTED | RUNNING
  | RECONCILING | SUCCEEDED | FAILED | CANCELLED | REJECTED

datatype FailureClass =
    NODE_UNAVAILABLE | NODE_DISCONNECTED | CONNECTOR_UNAVAILABLE | AUTHENTICATION_INVALID
  | CERTIFICATION_INVALID | WORKSPACE_UNAVAILABLE | QUOTA_EXHAUSTED | RATE_LIMITED
  | OFFER_TIMEOUT | TASK_TIMEOUT | PROCESS_FAILURE | POLICY_REJECTED | USER_CANCELLED
  | UNCERTAIN_EXECUTION | UNKNOWN_FAILURE

datatype LeaseStatus = LEASE_ACTIVE | LEASE_EXPIRED | LEASE_RELEASED | LEASE_RECONCILING

fun lease_status_value :: "LeaseStatus \<Rightarrow> string" where
  "lease_status_value LEASE_ACTIVE = ''active''"
| "lease_status_value LEASE_EXPIRED = ''expired''"
| "lease_status_value LEASE_RELEASED = ''released''"
| "lease_status_value LEASE_RECONCILING = ''reconciling''"

datatype ConnectorExecutionOrigin = REMOTE_NODE | INLINE_DEVELOPMENT | MOCK_TEST

datatype EvidenceTrustLevel = MOCK | DEVELOPMENT | NODE_ATTESTED

datatype NodeConnectorState =
    NC_UNKNOWN | NC_NOT_AVAILABLE | NC_AVAILABLE_TO_INSTALL | NC_INSTALL_PLAN_REQUIRED
  | NC_INSTALL_APPROVAL_REQUIRED | NC_INSTALLING | NC_INSTALLED | NC_EXECUTABLE_BROKEN
  | NC_AUTHENTICATION_REQUIRED | NC_AUTHENTICATION_IN_PROGRESS | NC_AUTHENTICATED
  | NC_AUTHENTICATION_FAILED | NC_VERIFICATION_REQUIRED | NC_VERIFICATION_IN_PROGRESS
  | NC_VERIFIED | NC_CERTIFICATION_REQUIRED | NC_CERTIFICATION_IN_PROGRESS | NC_CERTIFIED
  | NC_CERTIFICATION_FAILED | NC_IDE_ONLY | NC_BLOCKED | NC_NEEDS_REPAIR
  | NC_UNSUPPORTED_PLATFORM | NC_ROUTING_DISABLED | NC_READY

fun connector_state_value :: "NodeConnectorState \<Rightarrow> string" where
  "connector_state_value NC_UNKNOWN = ''unknown''"
| "connector_state_value NC_NOT_AVAILABLE = ''not_available''"
| "connector_state_value NC_AVAILABLE_TO_INSTALL = ''available_to_install''"
| "connector_state_value NC_INSTALL_PLAN_REQUIRED = ''install_plan_required''"
| "connector_state_value NC_INSTALL_APPROVAL_REQUIRED = ''install_approval_required''"
| "connector_state_value NC_INSTALLING = ''installing''"
| "connector_state_value NC_INSTALLED = ''installed''"
| "connector_state_value NC_EXECUTABLE_BROKEN = ''executable_broken''"
| "connector_state_value NC_AUTHENTICATION_REQUIRED = ''authentication_required''"
| "connector_state_value NC_AUTHENTICATION_IN_PROGRESS = ''authentication_in_progress''"
| "connector_state_value NC_AUTHENTICATED = ''authenticated''"
| "connector_state_value NC_AUTHENTICATION_FAILED = ''authentication_failed''"
| "connector_state_value NC_VERIFICATION_REQUIRED = ''verification_required''"
| "connector_state_value NC_VERIFICATION_IN_PROGRESS = ''verification_in_progress''"
| "connector_state_value NC_VERIFIED = ''verified''"
| "connector_state_value NC_CERTIFICATION_REQUIRED = ''certification_required''"
| "connector_state_value NC_CERTIFICATION_IN_PROGRESS = ''certification_in_progress''"
| "connector_state_value NC_CERTIFIED = ''certified''"
| "connector_state_value NC_CERTIFICATION_FAILED = ''certification_failed''"
| "connector_state_value NC_IDE_ONLY = ''ide_only''"
| "connector_state_value NC_BLOCKED = ''blocked''"
| "connector_state_value NC_NEEDS_REPAIR = ''needs_repair''"
| "connector_state_value NC_UNSUPPORTED_PLATFORM = ''unsupported_platform''"
| "connector_state_value NC_ROUTING_DISABLED = ''routing_disabled''"
| "connector_state_value NC_READY = ''ready''"

section \<open>Records\<close>

record RuntimeTaskRequest =
  rq_workspace_id :: string
  rq_prompt :: string
  rq_requested_capabilities :: "string list"
  rq_policy_profile :: string
  rq_prohibited_capabilities :: "string list"
  rq_preferred_connectors :: "string list"
  rq_required_connector :: "string option"
  rq_preferred_providers :: "string list"
  rq_required_provider :: "string option"
  rq_preferred_nodes :: "string list"
  rq_required_node :: "string option"
  rq_timeout_seconds :: int
  rq_max_attempts :: int
  rq_user_id :: string
  rq_task_id :: string
  rq_created_at :: time

record RuntimeTaskRecord =
  rt_task_id :: string
  rt_correlation_id :: "string option"
  rt_mission_id :: "string option"
  rt_trace_id :: "string option"
  rt_metadata :: pydict
  rt_workspace_id :: string
  rt_user_id :: string
  rt_prompt_digest :: string
  rt_prompt_size :: int
  rt_requested_capabilities :: "string list"
  rt_prohibited_capabilities :: "string list"
  rt_expanded_capabilities :: "string list"
  rt_policy_profile :: string
  rt_preferred_connectors :: "string list"
  rt_required_connector :: "string option"
  rt_preferred_providers :: "string list"
  rt_required_provider :: "string option"
  rt_preferred_nodes :: "string list"
  rt_required_node :: "string option"
  rt_timeout_seconds :: int
  rt_max_attempts :: int
  rt_status :: RuntimeTaskStatus
  rt_selected_node_id :: "string option"
  rt_selected_connector_id :: "string option"
  rt_selected_backend_id :: "string option"
  rt_selected_harness_id :: "string option"
  rt_execution_id :: "string option"
  rt_execution_decision_reason :: "string option"
  rt_execution_fallback_order :: "string list"
  rt_provider_routing_required :: bool
  rt_selected_provider_id :: "string option"
  rt_selected_provider_route_id :: "string option"
  rt_selected_provider_route_manager_id :: "string option"
  rt_selected_model_id :: "string option"
  rt_provider_selection_reason :: "string option"
  rt_approval_required :: bool
  rt_created_at :: time
  rt_updated_at :: time
  rt_detail :: "string option"

record PolicyDecision =
  pd_allowed :: bool
  pd_granted_capabilities :: "string list"
  pd_denied_capabilities :: "string list"
  pd_approval_requirements :: "string list"
  pd_reasons :: "string list"

record WorkspacePlacement =
  wp_workspace_id :: string
  wp_node_id :: string
  wp_local_path :: string
  wp_fingerprint :: string
  wp_writable :: bool
  wp_last_verified_at :: time
  wp_expose_path :: bool

text \<open>Scores and scoring factors are integer-valued floats in the code (sums of 100, 15, 10, 8, and
  multiples of counters and indices), hence exact; they are integers here.\<close>

record RouteCandidate =
  rc_node_id :: string
  rc_connector_id :: string
  rc_policy_profile :: string
  rc_certified_capabilities :: "string list"
  rc_score :: int
  rc_eligible :: bool
  rc_rejection_reasons :: "string list"
  rc_scoring_factors :: "(string \<times> int) list"

record TaskLease =
  tl_lease_id :: string
  tl_task_id :: string
  tl_node_id :: string
  tl_connector_id :: string
  tl_attempt_id :: string
  tl_fencing_token :: int
  tl_acquired_at :: time
  tl_expires_at :: time
  tl_heartbeat_at :: time
  tl_status :: LeaseStatus

record ExecutionAttempt =
  ea_attempt_id :: string
  ea_task_id :: string
  ea_attempt_number :: int
  ea_node_id :: string
  ea_connector_id :: string
  ea_lease_id :: string
  ea_execution_origin :: ConnectorExecutionOrigin
  ea_status :: string
  ea_started_at :: "time option"
  ea_terminal_at :: "time option"
  ea_failure_class :: "FailureClass option"
  ea_retry_safe :: bool

end
