(* ===== verification/Policy.thy ===== *)
theory Policy
  imports Capabilities Runtime_Models
begin

text \<open>
  Policy profiles and their evaluation (\<^verbatim>\<open>src/src/joymesh/runtime_v1/policy.py\<close>). A decision
  that allows a request grants exactly the dependency closure of the request, inside the profile's
  allowed set and outside its denied set; the two production-safe profiles never grant a mutating
  capability; evaluation raises only for an unknown profile or a registry with a dangling
  dependency.
\<close>

section \<open>Definitions\<close>

record PolicyProfile =
  pp_profile_id :: string
  pp_description :: string
  pp_allowed :: "string list"
  pp_denied :: "string list"
  pp_require_node_attested :: bool
  pp_require_noninteractive_auth :: bool
  pp_enabled :: bool
  pp_approval_for :: "string list"

definition profile_read_only :: PolicyProfile where
  "profile_read_only =
     \<lparr>pp_profile_id = ''read_only'',
      pp_description = ''Read-only repository analysis without mutation or shell'',
      pp_allowed = READ_ONLY_CAPABILITIES,
      pp_denied = MUTATING_CAPABILITIES @ [''session.resume'', ''session.fork''],
      pp_require_node_attested = True, pp_require_noninteractive_auth = False,
      pp_enabled = True, pp_approval_for = []\<rparr>"

definition profile_developer :: PolicyProfile where
  "profile_developer =
     \<lparr>pp_profile_id = ''developer'',
      pp_description = ''Local developer work with explicit approvals for mutation'',
      pp_allowed = READ_ONLY_CAPABILITIES @
        [''repository.write'', ''repository.patch'', ''filesystem.write'', ''shell.execute'',
         ''git.read'', ''git.diff'', ''test.execute'', ''build.execute''],
      pp_denied = [''git.push'', ''network.write''],
      pp_require_node_attested = True, pp_require_noninteractive_auth = False,
      pp_enabled = True,
      pp_approval_for =
        [''repository.write'', ''repository.patch'', ''filesystem.write'', ''shell.execute'',
         ''test.execute'', ''build.execute'']\<rparr>"

definition profile_ci :: PolicyProfile where
  "profile_ci =
     \<lparr>pp_profile_id = ''ci'',
      pp_description = ''Deterministic CI with non-interactive authentication'',
      pp_allowed = READ_ONLY_CAPABILITIES @
        [''test.execute'', ''build.execute'', ''shell.execute'', ''git.read'', ''git.diff''],
      pp_denied = [''git.push'', ''git.commit'', ''network.write'', ''session.resume''],
      pp_require_node_attested = True, pp_require_noninteractive_auth = True,
      pp_enabled = True,
      pp_approval_for = [''test.execute'', ''build.execute'', ''shell.execute'']\<rparr>"

definition profile_production_restricted :: PolicyProfile where
  "profile_production_restricted =
     \<lparr>pp_profile_id = ''production_restricted'',
      pp_description = ''Production-safe restricted capabilities with node-attested evidence'',
      pp_allowed = READ_ONLY_CAPABILITIES,
      pp_denied = MUTATING_CAPABILITIES @ [''session.resume'', ''browser.use''],
      pp_require_node_attested = True, pp_require_noninteractive_auth = False,
      pp_enabled = True, pp_approval_for = []\<rparr>"

definition profile_autonomous :: PolicyProfile where
  "profile_autonomous =
     \<lparr>pp_profile_id = ''autonomous'',
      pp_description = ''Autonomous multi-step work (disabled by default)'',
      pp_allowed = [], pp_denied = [],
      pp_require_node_attested = True, pp_require_noninteractive_auth = False,
      pp_enabled = False, pp_approval_for = []\<rparr>"

definition PROFILES :: "(string \<times> PolicyProfile) list" where
  "PROFILES =
     [(''read_only'', profile_read_only), (''developer'', profile_developer), (''ci'', profile_ci),
      (''production_restricted'', profile_production_restricted),
      (''autonomous'', profile_autonomous)]"

record PolicyEngine =
  pe_registry :: registry
  pe_profiles :: "(string \<times> PolicyProfile) list"

text \<open>
  The constructor. \<open>env\<close> is the value of the environment variable
  \<^verbatim>\<open>JOYMESH_AUTONOMOUS_POLICY\<close>, read when \<open>autonomous_enabled\<close> is not given.
\<close>

definition init_PolicyEngine ::
  "registry option \<Rightarrow> (string \<times> PolicyProfile) list option \<Rightarrow> bool option \<Rightarrow> string option
   \<Rightarrow> PolicyEngine" where
  "init_PolicyEngine registry profiles autonomous_enabled env =
     (let reg = (case registry of None \<Rightarrow> CapabilityRegistry None | Some r \<Rightarrow> r);
          profs = (case profiles of None \<Rightarrow> PROFILES | Some [] \<Rightarrow> PROFILES | Some ps \<Rightarrow> ps);
          auto_on = (case autonomous_enabled of
              Some b \<Rightarrow> b
            | None \<Rightarrow> (case env of None \<Rightarrow> ''0'' | Some v \<Rightarrow> v) = ''1'')
      in case map_of profs ''autonomous'' of
           Some profile \<Rightarrow>
             if auto_on then
               \<lparr>pe_registry = reg,
                pe_profiles = AList.update ''autonomous''
                  \<lparr>pp_profile_id = pp_profile_id profile, pp_description = pp_description profile,
                   pp_allowed = map capability_id (registry_all reg), pp_denied = [],
                   pp_require_node_attested = True, pp_require_noninteractive_auth = False,
                   pp_enabled = True, pp_approval_for = []\<rparr> profs\<rparr>
             else \<lparr>pe_registry = reg, pe_profiles = profs\<rparr>
         | None \<Rightarrow> \<lparr>pe_registry = reg, pe_profiles = profs\<rparr>)"

definition list_profiles :: "PolicyEngine \<Rightarrow> PolicyProfile list" where
  "list_profiles e = map (\<lambda>k. the (map_of (pe_profiles e) k)) (sort (map fst (pe_profiles e)))"

definition get_profile :: "PolicyEngine \<Rightarrow> string \<Rightarrow> PolicyProfile result" where
  "get_profile e pid =
     (case map_of (pe_profiles e) pid of
        None \<Rightarrow> Inl (KeyError (''unknown policy profile: '' @ pid))
      | Some p \<Rightarrow> Inr p)"

definition denial :: "string list \<Rightarrow> string list \<Rightarrow> PolicyDecision" where
  "denial denied reasons =
     \<lparr>pd_allowed = False, pd_granted_capabilities = [], pd_denied_capabilities = denied,
      pd_approval_requirements = [], pd_reasons = reasons\<rparr>"

definition evaluate ::
  "PolicyEngine \<Rightarrow> RuntimeTaskRequest \<Rightarrow> RouteCandidate option \<Rightarrow> PolicyDecision result" where
  "evaluate e request candidate =
     (case get_profile e (rq_policy_profile request) of
        Inl err \<Rightarrow> Inl err
      | Inr profile \<Rightarrow>
          if \<not> pp_enabled profile then
            Inr (denial (rq_requested_capabilities request)
                   [''policy '' @ pp_profile_id profile @ '' is disabled''])
          else (case expand_capabilities (pe_registry e) (rq_requested_capabilities request)
                       (rq_prohibited_capabilities request) of
              Inl (ValueError msg) \<Rightarrow> Inr (denial (rq_requested_capabilities request) [msg])
            | Inl err \<Rightarrow> Inl err
            | Inr expanded \<Rightarrow>
                (let denied = filter (\<lambda>c. c \<in> set (pp_denied profile) \<or> c \<notin> set (pp_allowed profile))
                                expanded
                 in if denied \<noteq> [] then
                      Inr (denial denied
                             [''policy rejected capabilities: '' @ join '', '' (sort denied)])
                    else
                      (let missing = (case candidate of
                                        None \<Rightarrow> []
                                      | Some cand \<Rightarrow>
                                          filter (\<lambda>c. c \<notin> set (rc_certified_capabilities cand)) expanded)
                       in if missing \<noteq> [] then
                            Inr (denial missing
                                   [''capabilities not certified: '' @ join '', '' (sort missing)])
                          else
                            (let approvals = sort (filter (\<lambda>c. c \<in> set (pp_approval_for profile)) expanded)
                             in Inr \<lparr>pd_allowed = True, pd_granted_capabilities = expanded,
                                     pd_denied_capabilities = [],
                                     pd_approval_requirements = approvals,
                                     pd_reasons =
                                       (if approvals \<noteq> []
                                        then [''explicit approval required for: '' @ join '', '' approvals]
                                        else [])
                                       @ [''policy '' @ pp_profile_id profile
                                            @ '' allowed expanded capabilities'']\<rparr>)))))"

section \<open>Lemmas\<close>

lemma denial_simps [simp]:
  "pd_allowed (denial d r) = False" "pd_granted_capabilities (denial d r) = []"
  "pd_approval_requirements (denial d r) = []" "pd_reasons (denial d r) = r"
  by (simp_all add: denial_def)

lemma evaluate_allowedD:
  assumes "evaluate e request candidate = Inr d" and "pd_allowed d"
  obtains profile expanded where
    "get_profile e (rq_policy_profile request) = Inr profile" and "pp_enabled profile"
    and "expand_capabilities (pe_registry e) (rq_requested_capabilities request)
           (rq_prohibited_capabilities request) = Inr expanded"
    and "pd_granted_capabilities d = expanded"
    and "set expanded \<subseteq> set (pp_allowed profile) - set (pp_denied profile)"
    and "\<And>cand. candidate = Some cand \<Longrightarrow> set expanded \<subseteq> set (rc_certified_capabilities cand)"
    and "pd_approval_requirements d = sort (filter (\<lambda>c. c \<in> set (pp_approval_for profile)) expanded)"
    and "pd_denied_capabilities d = []"
  using assms that
  by (auto simp: evaluate_def Let_def filter_empty_conv subset_eq
      split: sum.splits if_splits option.splits py_error.splits)

lemma evaluate_denied_grants_nothing:
  "evaluate e request candidate = Inr d \<Longrightarrow> \<not> pd_allowed d \<Longrightarrow> pd_granted_capabilities d = []"
  by (auto simp: evaluate_def Let_def split: sum.splits if_splits option.splits py_error.splits)

abbreviation builtin_engine :: "bool option \<Rightarrow> string option \<Rightarrow> PolicyEngine" where
  "builtin_engine autonomous env \<equiv> init_PolicyEngine None None autonomous env"

lemmas PROFILES_defs =
  PROFILES_def profile_read_only_def profile_developer_def profile_ci_def
  profile_production_restricted_def profile_autonomous_def

lemma builtin_engine_registry [simp]: "pe_registry (builtin_engine a env) = CapabilityRegistry None"
  by (simp add: init_PolicyEngine_def Let_def split: option.split)

lemma builtin_engine_profile:
  "p \<noteq> ''autonomous'' \<Longrightarrow> map_of (pe_profiles (builtin_engine a env)) p = map_of PROFILES p"
  by (simp add: init_PolicyEngine_def Let_def split: option.split)

lemma builtin_engine_profile_ids:
  "map_of (pe_profiles (builtin_engine a env)) p = None \<longleftrightarrow> p \<notin> fst ` set PROFILES"
  by (cases "p = ''autonomous''")
     (auto simp: builtin_engine_profile map_of_eq_None_iff init_PolicyEngine_def PROFILES_def Let_def)

lemma expand_loop_KeyError:
  "expand_loop reg prohibited st ex = Inl e \<Longrightarrow> \<not> (\<exists>msg. e = ValueError msg)
   \<Longrightarrow> \<not> dep_closure reg (set ex \<union> set st) \<subseteq> fst ` set reg"
proof (induction reg prohibited st ex rule: expand_loop.induct)
  case (1 reg prohibited ex)
  then show ?case by simp
next
  case (2 reg prohibited c st ex)
  show ?case
  proof (cases "c \<in> set ex")
    case True
    with 2 show ?thesis by (simp add: insert_absorb)
  next
    case new: False
    with "2.prems" have c: "c \<notin> set prohibited" by (auto split: if_splits)
    show ?thesis
    proof (cases "registry_get reg c")
      case (Inl err)
      then have "c \<notin> fst ` set reg"
        by (auto simp: registry_get_def map_of_eq_None_iff split: option.splits)
      then show ?thesis using dep_closure_superset[of "set ex \<union> set (c # st)" reg] by auto
    next
      case (Inr d)
      let ?st = "push_dependencies (dependencies d) (ex @ [c]) st"
      have "\<not> dep_closure reg (set (ex @ [c]) \<union> set ?st) \<subseteq> fst ` set reg"
        using "2.IH"(2)[OF new c Inr refl] "2.prems" new c Inr by (simp add: Let_def)
      moreover have "set (ex @ [c]) \<union> set ?st \<subseteq> dep_closure reg (set ex \<union> set (c # st))"
        using dep_closure_superset[of "set ex \<union> set (c # st)" reg] Inr
        by (auto simp: registry_get_Inr set_push_dependencies depends_on_def intro: dep_closure_step[of c])
      ultimately show ?thesis using dep_closure_mono by blast
    qed
  qed
qed

lemma conflict_check_ValueError:
  "conflict_check reg ex cs = Inl e \<Longrightarrow> set cs \<subseteq> fst ` set reg \<Longrightarrow> \<exists>msg. e = ValueError msg"
  by (induction cs) (auto simp: registry_get_def map_of_eq_None_iff Let_def split: option.splits if_splits)

lemma expand_builtin_ValueError:
  assumes "expand_capabilities (CapabilityRegistry None) requested prohibited = Inl e"
  shows "\<exists>msg. e = ValueError msg"
proof (rule ccontr)
  let ?reg = "CapabilityRegistry None"
  assume no: "\<not> (\<exists>msg. e = ValueError msg)"
  have kn: "set requested \<subseteq> fst ` set ?reg"
    using assms no
    by (auto simp: expand_capabilities_def Let_def filter_empty_conv known_iff split: if_splits)
  have closed: "dep_closure ?reg (set requested) \<subseteq> fst ` set ?reg"
    by (rule builtin_registry_closed[OF kn])
  show False
  proof (cases "expand_loop ?reg prohibited (rev requested) []")
    case (Inl err)
    with assms no have "\<not> (\<exists>msg. err = ValueError msg)"
      by (auto simp: expand_capabilities_def Let_def split: if_splits)
    with expand_loop_KeyError[OF Inl] closed show False by simp
  next
    case (Inr E)
    then have "set E \<subseteq> fst ` set ?reg"
      using expand_loop_sound[OF Inr, simplified pending_closed_def, simplified] by auto
    with conflict_check_ValueError[of ?reg E E] assms no Inr show False
      by (auto simp: expand_capabilities_def Let_def split: if_splits sum.splits)
  qed
qed

section \<open>Properties\<close>

text \<open>C17: A decision that allows a request grants exactly the dependency closure of the requested
  capabilities; the grant lies inside the profile's allowed set, avoids its denied set and the
  request's prohibited set, and is covered by the certification of the candidate when one is given;
  the approval requirements are exactly the granted capabilities the profile wants approved.\<close>

theorem evaluate_grants_closure:
  assumes "evaluate e request candidate = Inr d" and "pd_allowed d"
    and "map_of (pe_profiles e) (rq_policy_profile request) = Some profile"
  shows "set (pd_granted_capabilities d) = dep_closure (pe_registry e) (set (rq_requested_capabilities request))
    \<and> set (pd_granted_capabilities d)
        \<subseteq> set (pp_allowed profile) - set (pp_denied profile) - set (rq_prohibited_capabilities request)
    \<and> (\<forall>cand. candidate = Some cand \<longrightarrow>
         set (pd_granted_capabilities d) \<subseteq> set (rc_certified_capabilities cand))
    \<and> set (pd_approval_requirements d) = set (pp_approval_for profile) \<inter> set (pd_granted_capabilities d)"
proof -
  obtain expanded where
    x: "expand_capabilities (pe_registry e) (rq_requested_capabilities request)
          (rq_prohibited_capabilities request) = Inr expanded"
    and g: "pd_granted_capabilities d = expanded"
    and "set expanded \<subseteq> set (pp_allowed profile) - set (pp_denied profile)"
    and "\<And>cand. candidate = Some cand \<Longrightarrow> set expanded \<subseteq> set (rc_certified_capabilities cand)"
    and "pd_approval_requirements d = sort (filter (\<lambda>c. c \<in> set (pp_approval_for profile)) expanded)"
    using assms(3) by (auto simp: get_profile_def intro: evaluate_allowedD[OF assms(1,2)])
  then show ?thesis using expand_capabilities_InrD(2,4)[OF x] by auto
qed

definition example_request :: "string list \<Rightarrow> string \<Rightarrow> RuntimeTaskRequest" where
  "example_request caps profile =
     \<lparr>rq_workspace_id = ''ws'', rq_prompt = ''p'', rq_requested_capabilities = caps,
      rq_policy_profile = profile, rq_prohibited_capabilities = [], rq_preferred_connectors = [],
      rq_required_connector = None, rq_preferred_providers = [], rq_required_provider = None,
      rq_preferred_nodes = [], rq_required_node = None, rq_timeout_seconds = 300,
      rq_max_attempts = 2, rq_user_id = ''anonymous'', rq_task_id = ''t1'', rq_created_at = 0\<rparr>"

theorem evaluate_grants_closure_witness:
  "set (pd_granted_capabilities (projr (evaluate (builtin_engine (Some False) None)
        (example_request [''repository.write''] ''developer'') None)))
   = dep_closure (CapabilityRegistry None) {''repository.write''}"
proof -
  let ?e = "builtin_engine (Some False) None"
  let ?r = "example_request [''repository.write''] ''developer''"
  have 1: "isl (evaluate ?e ?r None) = False" by code_simp
  have 2: "pd_allowed (projr (evaluate ?e ?r None))" by code_simp
  have 3: "map_of (pe_profiles ?e) (rq_policy_profile ?r) = Some profile_developer"
    by (simp add: builtin_engine_profile example_request_def PROFILES_def)
  have "evaluate ?e ?r None = Inr (projr (evaluate ?e ?r None))" using 1 by (simp add: sum.collapse)
  from evaluate_grants_closure[OF this 2 3] show ?thesis by (simp add: example_request_def)
qed

text \<open>C22: With autonomous mode off, no built-in profile grants a mutating capability that is not
  listed among the decision's approval requirements.\<close>

theorem mutating_grants_need_approval:
  assumes "evaluate (builtin_engine (Some False) env) request candidate = Inr d"
  shows "set (pd_granted_capabilities d) \<inter> set MUTATING_CAPABILITIES \<subseteq> set (pd_approval_requirements d)"
proof (cases "pd_allowed d")
  case True
  show ?thesis
  proof (rule evaluate_allowedD[OF assms True])
    fix profile expanded
    assume p: "get_profile (builtin_engine (Some False) env) (rq_policy_profile request) = Inr profile"
      and g: "pd_granted_capabilities d = expanded"
      and sub: "set expanded \<subseteq> set (pp_allowed profile) - set (pp_denied profile)"
      and a: "pd_approval_requirements d = sort (filter (\<lambda>c. c \<in> set (pp_approval_for profile)) expanded)"
    from p have "map_of PROFILES (rq_policy_profile request) = Some profile"
      by (auto simp: get_profile_def init_PolicyEngine_def Let_def split: option.splits)
    then have "(set (pp_allowed profile) - set (pp_denied profile)) \<inter> set MUTATING_CAPABILITIES
          \<subseteq> set (pp_approval_for profile)"
      by (auto simp: PROFILES_defs READ_ONLY_CAPABILITIES_def MUTATING_CAPABILITIES_def split: if_splits)
    with g sub a show ?thesis by auto
  qed
next
  case False
  with evaluate_denied_grants_nothing[OF assms] show ?thesis by simp
qed

theorem mutating_grants_need_approval_witness:
  "set (pd_granted_capabilities (projr (evaluate (builtin_engine (Some False) None)
        (example_request [''test.execute''] ''ci'') None))) \<inter> set MUTATING_CAPABILITIES
   \<subseteq> set (pd_approval_requirements (projr (evaluate (builtin_engine (Some False) None)
        (example_request [''test.execute''] ''ci'') None)))
   \<and> ''test.execute'' \<in> set (pd_granted_capabilities (projr (evaluate (builtin_engine (Some False) None)
        (example_request [''test.execute''] ''ci'') None)))"
proof -
  let ?v = "evaluate (builtin_engine (Some False) None) (example_request [''test.execute''] ''ci'') None"
  have 1: "isl ?v = False" by code_simp
  have 2: "''test.execute'' \<in> set (pd_granted_capabilities (projr ?v))" by code_simp
  have "?v = Inr (projr ?v)" using 1 by (simp add: sum.collapse)
  from mutating_grants_need_approval[OF this] 2 show ?thesis by blast
qed

text \<open>Under the profiles \<open>read_only\<close> and \<open>production_restricted\<close> of the built-in engine no
  decision ever grants a mutating capability, whatever the request, the candidate and the
  autonomous switch.\<close>

theorem read_only_profiles_never_mutate:
  assumes "evaluate (builtin_engine autonomous env) request candidate = Inr d"
    and "rq_policy_profile request \<in> {''read_only'', ''production_restricted''}"
  shows "set (pd_granted_capabilities d) \<inter> set MUTATING_CAPABILITIES = {}"
proof (cases "pd_allowed d")
  case True
  show ?thesis
  proof (rule evaluate_allowedD[OF assms(1) True])
    fix profile expanded
    assume p: "get_profile (builtin_engine autonomous env) (rq_policy_profile request) = Inr profile"
      and g: "pd_granted_capabilities d = expanded"
      and sub: "set expanded \<subseteq> set (pp_allowed profile) - set (pp_denied profile)"
    from assms(2) have "rq_policy_profile request \<noteq> ''autonomous''" by auto
    with p have "map_of PROFILES (rq_policy_profile request) = Some profile"
      by (auto simp: get_profile_def builtin_engine_profile split: option.splits)
    with assms(2) have "set MUTATING_CAPABILITIES \<subseteq> set (pp_denied profile)"
      by (auto simp: PROFILES_defs split: if_splits)
    with g sub show ?thesis by auto
  qed
next
  case False
  with evaluate_denied_grants_nothing[OF assms(1)] show ?thesis by simp
qed

theorem read_only_profiles_never_mutate_witness:
  "set (pd_granted_capabilities (projr (evaluate (builtin_engine None (Some ''1''))
        (example_request [''repository.search''] ''read_only'') None))) \<inter> set MUTATING_CAPABILITIES = {}"
proof -
  let ?r = "example_request [''repository.search''] ''read_only''"
  let ?v = "evaluate (builtin_engine None (Some ''1'')) ?r None"
  have 1: "isl ?v = False" by code_simp
  have 2: "rq_policy_profile ?r \<in> {''read_only'', ''production_restricted''}"
    by (simp add: example_request_def)
  have "?v = Inr (projr ?v)" using 1 by (simp add: sum.collapse)
  from read_only_profiles_never_mutate[OF this 2] show ?thesis .
qed

text \<open>With the built-in registry and profiles, \<open>evaluate\<close> returns a decision exactly when the
  request names one of the five built-in profiles: unknown capabilities, prohibited overlaps and
  policy violations are decisions with \<open>allowed = False\<close>, never exceptions.\<close>

theorem evaluate_builtin_total:
  "(\<exists>d. evaluate (builtin_engine autonomous env) request candidate = Inr d)
     \<longleftrightarrow> rq_policy_profile request \<in> fst ` set PROFILES"
proof -
  have prof: "(\<exists>p. get_profile (builtin_engine autonomous env) (rq_policy_profile request) = Inr p)
      \<longleftrightarrow> rq_policy_profile request \<in> fst ` set PROFILES"
    using builtin_engine_profile_ids[of autonomous env "rq_policy_profile request"]
    by (auto simp: get_profile_def split: option.splits)
  show ?thesis
  proof (cases "get_profile (builtin_engine autonomous env) (rq_policy_profile request)")
    case (Inl err)
    with prof show ?thesis by (simp add: evaluate_def)
  next
    case (Inr p)
    have "\<exists>d. evaluate (builtin_engine autonomous env) request candidate = Inr d"
      using Inr expand_builtin_ValueError
      by (fastforce simp: evaluate_def Let_def split: sum.splits)
    with prof Inr show ?thesis by blast
  qed
qed

end
