(* ===== verification/Scheduler.thy ===== *)
theory Scheduler
  imports Policy "HOL-Library.Product_Lexorder" "HOL-Library.Multiset"
begin

text \<open>
  The deterministic multi-node route scheduler (\<^verbatim>\<open>src/src/joymesh/runtime_v1/scheduler.py\<close>):
  node and connector snapshots, the rejection reasons and the score of one node/connector pair,
  and \<open>rank_candidates\<close>, which collects and sorts all pairs. The process environment enters as the
  flag \<open>production\<close> (\<^verbatim>\<open>production_mode()\<close>).
\<close>

section \<open>Definitions\<close>

record SchedulerConnectorSnapshot =
  sc_connector_id :: string
  sc_installed :: bool
  sc_readiness :: NodeConnectorState
  sc_authenticated :: bool
  sc_routing_enabled :: bool
  sc_certified_capabilities :: "string list"
  sc_trust_level :: "EvidenceTrustLevel option"
  sc_execution_origin :: "ConnectorExecutionOrigin option"

record SchedulerNodeSnapshot =
  sn_node_id :: string
  sn_online :: bool
  sn_revoked :: bool
  sn_session_authenticated :: bool
  sn_connectors :: "(string \<times> SchedulerConnectorSnapshot) list"
  sn_placements :: "WorkspacePlacement list"
  sn_concurrency :: int
  sn_queue_depth :: int
  sn_recent_failures :: int

definition placement_for :: "SchedulerNodeSnapshot \<Rightarrow> string \<Rightarrow> WorkspacePlacement option" where
  "placement_for node wid = find (\<lambda>p. wp_workspace_id p = wid) (sn_placements node)"

definition needs_write :: "string list \<Rightarrow> bool" where
  "needs_write caps \<longleftrightarrow>
     list_ex (\<lambda>c. c \<in> set [''repository.write'', ''repository.patch'', ''filesystem.write'',
                            ''git.commit'', ''dependency.install'']) caps"

text \<open>A reason is appended under its guard.\<close>

abbreviation guard :: "bool \<Rightarrow> string \<Rightarrow> string list" where
  "guard b msg \<equiv> (if b then [msg] else [])"

text \<open>\<^verbatim>\<open>if request.required_node and node.node_id != request.required_node\<close>.\<close>

definition mismatch :: "string option \<Rightarrow> string \<Rightarrow> bool" where
  "mismatch required actual =
     (case required of None \<Rightarrow> False | Some r \<Rightarrow> r \<noteq> [] \<and> actual \<noteq> r)"

definition rejection_reasons ::
  "bool \<Rightarrow> RuntimeTaskRequest \<Rightarrow> string list \<Rightarrow> SchedulerNodeSnapshot \<Rightarrow> string
   \<Rightarrow> SchedulerConnectorSnapshot \<Rightarrow> PolicyDecision \<Rightarrow> string list" where
  "rejection_reasons production request required node cid connector decision =
     guard (mismatch (rq_required_node request) (sn_node_id node)) ''required node mismatch''
     @ guard (mismatch (rq_required_connector request) cid) ''required connector mismatch''
     @ guard (sn_revoked node) ''node revoked''
     @ guard (\<not> sn_online node) ''node offline''
     @ guard (\<not> sn_session_authenticated node) ''node session not authenticated''
     @ guard (\<not> sc_installed connector) ''connector not installed''
     @ guard (sc_readiness connector \<noteq> NC_READY)
         (''connector readiness is '' @ connector_state_value (sc_readiness connector))
     @ guard (\<not> sc_authenticated connector) ''connector authentication invalid''
     @ guard (\<not> sc_routing_enabled connector) ''routing disabled''
     @ (let missing = filter (\<lambda>c. c \<notin> set (sc_certified_capabilities connector)) required
        in guard (missing \<noteq> []) (''capabilities not certified: '' @ join '', '' (sort missing)))
     @ (if production then
          guard (sc_trust_level connector \<noteq> Some NODE_ATTESTED)
            ''production requires node-attested evidence''
          @ guard (sc_execution_origin connector \<noteq> Some REMOTE_NODE)
              ''production requires remote_node execution origin''
        else [])
     @ (case placement_for node (rq_workspace_id request) of
          None \<Rightarrow> [''workspace placement missing'']
        | Some p \<Rightarrow> guard (\<not> wp_writable p \<and> needs_write required)
                      ''read-only workspace rejects write capabilities'')
     @ (if pd_allowed decision then [] else pd_reasons decision)"

definition scoring_factors ::
  "RuntimeTaskRequest \<Rightarrow> SchedulerNodeSnapshot \<Rightarrow> string \<Rightarrow> (string \<times> int) list" where
  "scoring_factors request node cid =
     [(''base'', 100), (''concurrency'', - sn_concurrency node * 2),
      (''queue_depth'', - sn_queue_depth node), (''recent_failures'', - sn_recent_failures node * 3)]
     @ (if cid \<in> set (rq_preferred_connectors request)
        then [(''preferred_connector'', 10 - int (index_of cid (rq_preferred_connectors request)))]
        else [])
     @ (if sn_node_id node \<in> set (rq_preferred_nodes request)
        then [(''preferred_node'', 8 - int (index_of (sn_node_id node) (rq_preferred_nodes request)))]
        else [])
     @ (case placement_for node (rq_workspace_id request) of
          None \<Rightarrow> [] | Some _ \<Rightarrow> [(''workspace_locality'', 15)])"

text \<open>The probe candidate given to the second policy evaluation, and the candidate itself.\<close>

definition probe_candidate ::
  "RuntimeTaskRequest \<Rightarrow> SchedulerNodeSnapshot \<Rightarrow> string \<Rightarrow> SchedulerConnectorSnapshot
   \<Rightarrow> RouteCandidate" where
  "probe_candidate request node cid connector =
     \<lparr>rc_node_id = sn_node_id node, rc_connector_id = cid,
      rc_policy_profile = rq_policy_profile request,
      rc_certified_capabilities = sc_certified_capabilities connector,
      rc_score = 0, rc_eligible = False, rc_rejection_reasons = [], rc_scoring_factors = []\<rparr>"

definition candidate_for ::
  "bool \<Rightarrow> PolicyEngine \<Rightarrow> RuntimeTaskRequest \<Rightarrow> string list \<Rightarrow> SchedulerNodeSnapshot \<Rightarrow> string
   \<Rightarrow> SchedulerConnectorSnapshot \<Rightarrow> RouteCandidate result" where
  "candidate_for production engine request required node cid connector =
     (case evaluate engine request (Some (probe_candidate request node cid connector)) of
        Inl err \<Rightarrow> Inl err
      | Inr decision \<Rightarrow>
          (let reasons = rejection_reasons production request required node cid connector decision;
               factors = scoring_factors request node cid;
               score = 100 + (sum_list (map snd factors) - 100);
               eligible = (reasons = [])
           in Inr \<lparr>rc_node_id = sn_node_id node, rc_connector_id = cid,
                   rc_policy_profile = rq_policy_profile request,
                   rc_certified_capabilities = sc_certified_capabilities connector,
                   rc_score = (if eligible then score else 0), rc_eligible = eligible,
                   rc_rejection_reasons = reasons,
                   rc_scoring_factors = (if eligible then factors else [])\<rparr>))"

text \<open>The two nested loops, over the nodes by id and over each node's connectors by id; an
  exception leaves both.\<close>

fun collect_connectors ::
  "bool \<Rightarrow> PolicyEngine \<Rightarrow> RuntimeTaskRequest \<Rightarrow> string list \<Rightarrow> SchedulerNodeSnapshot
   \<Rightarrow> (string \<times> SchedulerConnectorSnapshot) list \<Rightarrow> RouteCandidate list result" where
  "collect_connectors production engine request required node [] = Inr []"
| "collect_connectors production engine request required node ((cid, connector) # rest) =
     (case candidate_for production engine request required node cid connector of
        Inl err \<Rightarrow> Inl err
      | Inr c \<Rightarrow>
          (case collect_connectors production engine request required node rest of
             Inl err \<Rightarrow> Inl err
           | Inr cs \<Rightarrow> Inr (c # cs)))"

fun collect_nodes ::
  "bool \<Rightarrow> PolicyEngine \<Rightarrow> RuntimeTaskRequest \<Rightarrow> string list \<Rightarrow> SchedulerNodeSnapshot list
   \<Rightarrow> RouteCandidate list result" where
  "collect_nodes production engine request required [] = Inr []"
| "collect_nodes production engine request required (node # rest) =
     (case collect_connectors production engine request required node
             (sort_key fst (sn_connectors node)) of
        Inl err \<Rightarrow> Inl err
      | Inr cs \<Rightarrow>
          (case collect_nodes production engine request required rest of
             Inl err \<Rightarrow> Inl err
           | Inr others \<Rightarrow> Inr (cs @ others)))"

definition rank_key :: "RouteCandidate \<Rightarrow> int \<times> int \<times> string \<times> string" where
  "rank_key c = (if rc_eligible c then 0 else 1, - rc_score c, rc_node_id c, rc_connector_id c)"

definition rank_candidates ::
  "bool \<Rightarrow> PolicyEngine \<Rightarrow> RuntimeTaskRequest \<Rightarrow> SchedulerNodeSnapshot list
   \<Rightarrow> RouteCandidate list result" where
  "rank_candidates production engine request nodes =
     (case evaluate engine request None of
        Inl err \<Rightarrow> Inl err
      | Inr base \<Rightarrow>
          if \<not> pd_allowed base then
            Inr [\<lparr>rc_node_id = ''*'', rc_connector_id = ''*'',
                  rc_policy_profile = rq_policy_profile request, rc_certified_capabilities = [],
                  rc_score = 0, rc_eligible = False, rc_rejection_reasons = pd_reasons base,
                  rc_scoring_factors = []\<rparr>]
          else
            (case collect_nodes production engine request (pd_granted_capabilities base)
                    (sort_key sn_node_id nodes) of
               Inl err \<Rightarrow> Inl err
             | Inr candidates \<Rightarrow> Inr (sort_key rank_key candidates)))"

section \<open>Lemmas\<close>

lemma collect_connectors_set:
  "collect_connectors production engine request required node conns = Inr cs \<Longrightarrow>
   c \<in> set cs \<Longrightarrow> \<exists>(cid, connector) \<in> set conns.
     candidate_for production engine request required node cid connector = Inr c"
  by (induction conns arbitrary: cs) (auto split: sum.splits)

lemma collect_nodes_set:
  "collect_nodes production engine request required nodes = Inr cs \<Longrightarrow>
   c \<in> set cs \<Longrightarrow> \<exists>node \<in> set nodes. \<exists>(cid, connector) \<in> set (sn_connectors node).
     candidate_for production engine request required node cid connector = Inr c"
  by (induction nodes arbitrary: cs) (force split: sum.splits dest: collect_connectors_set)+

text \<open>What an eligible pair has to satisfy: the contract the scheduler promises to its callers.\<close>

definition eligible_pair ::
  "bool \<Rightarrow> RuntimeTaskRequest \<Rightarrow> string list \<Rightarrow> SchedulerNodeSnapshot \<Rightarrow> string
   \<Rightarrow> SchedulerConnectorSnapshot \<Rightarrow> bool" where
  "eligible_pair production request required node cid connector \<longleftrightarrow>
     \<not> mismatch (rq_required_node request) (sn_node_id node)
     \<and> \<not> mismatch (rq_required_connector request) cid
     \<and> \<not> sn_revoked node \<and> sn_online node \<and> sn_session_authenticated node
     \<and> sc_installed connector \<and> sc_readiness connector = NC_READY
     \<and> sc_authenticated connector \<and> sc_routing_enabled connector
     \<and> set required \<subseteq> set (sc_certified_capabilities connector)
     \<and> (production \<longrightarrow> sc_trust_level connector = Some NODE_ATTESTED
          \<and> sc_execution_origin connector = Some REMOTE_NODE)
     \<and> (\<exists>p. placement_for node (rq_workspace_id request) = Some p
          \<and> (needs_write required \<longrightarrow> wp_writable p))"

lemma evaluate_candidate:
  assumes "evaluate engine request None = Inr base" and "pd_allowed base"
    and "evaluate engine request (Some cand) = Inr d"
  shows "pd_allowed d \<longleftrightarrow> set (pd_granted_capabilities base) \<subseteq> set (rc_certified_capabilities cand)"
    and "pd_allowed d \<or> pd_reasons d \<noteq> []"
  using assms
  by (auto simp: evaluate_def Let_def filter_empty_conv split: sum.splits if_splits py_error.splits)

lemma evaluate_candidate_Inr:
  "evaluate engine request None = Inr base \<Longrightarrow> pd_allowed base \<Longrightarrow>
   \<exists>d. evaluate engine request (Some cand) = Inr d"
  by (auto simp: evaluate_def Let_def split: sum.splits if_splits py_error.splits)

lemma rejection_reasons_empty:
  assumes "evaluate engine request None = Inr base" and "pd_allowed base"
    and "evaluate engine request (Some (probe_candidate request node cid connector)) = Inr d"
  shows "rejection_reasons production request (pd_granted_capabilities base) node cid connector d = []
     \<longleftrightarrow> eligible_pair production request (pd_granted_capabilities base) node cid connector"
  using evaluate_candidate[OF assms]
  unfolding rejection_reasons_def eligible_pair_def
  by (auto simp: Let_def filter_empty_conv probe_candidate_def subset_eq split: option.split)

lemma candidate_for_base:
  assumes "evaluate engine request None = Inr base" and "pd_allowed base"
    and "candidate_for production engine request (pd_granted_capabilities base) node cid connector = Inr c"
  shows "rc_eligible c \<longleftrightarrow> eligible_pair production request (pd_granted_capabilities base) node cid connector"
    and "rc_node_id c = sn_node_id node" and "rc_connector_id c = cid"
    and "rc_score c = (if rc_eligible c then sum_list (map snd (scoring_factors request node cid)) else 0)"
  using assms rejection_reasons_empty[OF assms(1,2), of node cid connector]
  by (auto simp: candidate_for_def Let_def split: sum.splits)

lemma rank_candidates_allowedD:
  assumes "rank_candidates production engine request nodes = Inr cs" and "c \<in> set cs"
    and "evaluate engine request None = Inr base" and "pd_allowed base"
  obtains node cid connector where "node \<in> set nodes" and "(cid, connector) \<in> set (sn_connectors node)"
    and "candidate_for production engine request (pd_granted_capabilities base) node cid connector = Inr c"
  using assms that
  by (fastforce simp: rank_candidates_def split: sum.splits dest!: collect_nodes_set)

lemma rank_candidates_sorted:
  "rank_candidates production engine request nodes = Inr cs \<Longrightarrow> sorted (map rank_key cs)"
  by (auto simp: rank_candidates_def split: sum.splits if_splits)

section \<open>Properties\<close>

text \<open>C23: Every eligible candidate of \<open>rank_candidates\<close> is a node/connector pair of the snapshot
  that meets the whole contract: required node and connector respected, node online, not revoked
  and with an authenticated session, connector installed, READY, authenticated and routable, all
  granted capabilities certified, node-attested remote evidence in production, and a placement of
  the workspace that is writable when the grant needs writing.\<close>

theorem rank_candidates_eligible_sound:
  assumes "rank_candidates production engine request nodes = Inr cs" and "c \<in> set cs" and "rc_eligible c"
  shows "\<exists>base node connector. evaluate engine request None = Inr base \<and> pd_allowed base
     \<and> node \<in> set nodes \<and> (rc_connector_id c, connector) \<in> set (sn_connectors node)
     \<and> rc_node_id c = sn_node_id node
     \<and> eligible_pair production request (pd_granted_capabilities base) node (rc_connector_id c) connector"
proof -
  obtain base where base: "evaluate engine request None = Inr base" and al: "pd_allowed base"
    using assms by (auto simp: rank_candidates_def split: sum.splits if_splits)
  show ?thesis
  proof (rule rank_candidates_allowedD[OF assms(1,2) base al])
    fix node cid connector
    assume "node \<in> set nodes" and "(cid, connector) \<in> set (sn_connectors node)"
      and cf: "candidate_for production engine request (pd_granted_capabilities base) node cid connector = Inr c"
    with candidate_for_base[OF base al cf] assms(3) base al show ?thesis by blast
  qed
qed

definition example_connector :: SchedulerConnectorSnapshot where
  "example_connector =
     \<lparr>sc_connector_id = ''codex'', sc_installed = True, sc_readiness = NC_READY,
      sc_authenticated = True, sc_routing_enabled = True,
      sc_certified_capabilities = [''repository.read'', ''filesystem.read'', ''workspace.contained''],
      sc_trust_level = Some NODE_ATTESTED, sc_execution_origin = Some REMOTE_NODE\<rparr>"

definition example_node :: "string \<Rightarrow> int \<Rightarrow> SchedulerNodeSnapshot" where
  "example_node nid load =
     \<lparr>sn_node_id = nid, sn_online = True, sn_revoked = False, sn_session_authenticated = True,
      sn_connectors = [(''codex'', example_connector)],
      sn_placements = [\<lparr>wp_workspace_id = ''ws'', wp_node_id = nid, wp_local_path = ''/w'',
                        wp_fingerprint = ''f'', wp_writable = False, wp_last_verified_at = 0,
                        wp_expose_path = False\<rparr>],
      sn_concurrency = load, sn_queue_depth = 0, sn_recent_failures = 0\<rparr>"

definition example_ranking :: "RouteCandidate list result" where
  "example_ranking =
     rank_candidates True (builtin_engine (Some False) None)
       (example_request [''repository.read''] ''read_only'')
       [example_node ''n2'' 1, example_node ''n1'' 0]"

lemma example_ranking_run:
  "map (\<lambda>c. (rc_node_id c, rc_eligible c, rc_score c)) (projr example_ranking)
     = [(''n1'', True, 115), (''n2'', True, 113)]"
  "isl example_ranking = False"
  by code_simp+

lemma example_ranking_Inr: "example_ranking = Inr (projr example_ranking)"
  using example_ranking_run(2) by simp

lemma example_ranking_second:
  "\<exists>c \<in> set (projr example_ranking). rc_node_id c = ''n2'' \<and> rc_eligible c \<and> rc_score c = 113"
proof -
  have "(''n2'', True, 113) \<in> set (map (\<lambda>c. (rc_node_id c, rc_eligible c, rc_score c)) (projr example_ranking))"
    by (simp add: example_ranking_run(1))
  then show ?thesis by auto
qed

theorem rank_candidates_eligible_sound_witness:
  "\<exists>c \<in> set (projr example_ranking). \<exists>(base :: PolicyDecision) (connector :: SchedulerConnectorSnapshot).
     eligible_pair True (example_request [''repository.read''] ''read_only'')
       (pd_granted_capabilities base) (example_node ''n2'' 1) (rc_connector_id c) connector"
proof -
  obtain c where c: "c \<in> set (projr example_ranking)" "rc_node_id c = ''n2''" "rc_eligible c"
    using example_ranking_second by blast
  obtain base :: PolicyDecision and node and connector :: SchedulerConnectorSnapshot where
    n: "node \<in> set [example_node ''n2'' 1, example_node ''n1'' 0]" "rc_node_id c = sn_node_id node"
    and el: "eligible_pair True (example_request [''repository.read''] ''read_only'')
       (pd_granted_capabilities base) node (rc_connector_id c) connector"
    using rank_candidates_eligible_sound[OF example_ranking_Inr[unfolded example_ranking_def]
        c(1)[unfolded example_ranking_def] c(3)] by blast
  have "sn_node_id (example_node x y) = x" for x y by (simp add: example_node_def)
  with n c(2) have "node = example_node ''n2'' 1" by auto
  with el c(1) show ?thesis by blast
qed

text \<open>The ranking puts eligible candidates first and orders them by score: if any candidate is
  eligible then the first one is, and no eligible candidate has a higher score.\<close>

theorem rank_candidates_best_first:
  assumes "rank_candidates production engine request nodes = Inr cs" and "c \<in> set cs" and "rc_eligible c"
  shows "cs \<noteq> [] \<and> rc_eligible (hd cs) \<and> rc_score c \<le> rc_score (hd cs)"
proof -
  have "cs \<noteq> []" using assms(2) by auto
  moreover have "rank_key (hd cs) \<le> rank_key c"
    using rank_candidates_sorted[OF assms(1)] assms(2) \<open>cs \<noteq> []\<close>
    by (cases cs) auto
  ultimately show ?thesis using assms(3) by (auto simp: rank_key_def less_eq_prod_def split: if_splits)
qed

theorem rank_candidates_best_first_witness:
  "rc_eligible (hd (projr example_ranking)) \<and> 113 \<le> rc_score (hd (projr example_ranking))"
proof -
  obtain c where c: "c \<in> set (projr example_ranking)" "rc_eligible c" "rc_score c = 113"
    using example_ranking_second by blast
  from rank_candidates_best_first[OF example_ranking_Inr[unfolded example_ranking_def]
      c(1)[unfolded example_ranking_def] c(2)] c(3)
  show ?thesis unfolding example_ranking_def by simp
qed

text \<open>The ranking does not depend on the order in which the node snapshots arrive: for
  distinct node ids, any permutation of the nodes gives the same result.\<close>

theorem rank_candidates_order_independent:
  assumes "mset nodes = mset nodes'" and "distinct (map sn_node_id nodes)"
  shows "rank_candidates production engine request nodes = rank_candidates production engine request nodes'"
proof -
  have "inj_on sn_node_id (set nodes)" using assms(2) by (simp add: distinct_map)
  then have "sort_key sn_node_id nodes = sort_key sn_node_id nodes'"
    using assms(1) by (intro sort_key_inj_key_eq) auto
  then show ?thesis unfolding rank_candidates_def by presburger
qed

theorem rank_candidates_order_independent_witness:
  "rank_candidates True (builtin_engine (Some False) None) (example_request [''repository.read''] ''read_only'')
     [example_node ''n2'' 1, example_node ''n1'' 0]
   = rank_candidates True (builtin_engine (Some False) None) (example_request [''repository.read''] ''read_only'')
     [example_node ''n1'' 0, example_node ''n2'' 1]"
  by (rule rank_candidates_order_independent) (simp_all add: example_node_def)

end
