(* ===== verification/Leases.thy ===== *)
theory Leases
  imports Runtime_Models
begin

text \<open>
  Task leases with fencing tokens (\<^verbatim>\<open>src/src/joymesh/runtime_v1/leases.py\<close>). The service keeps a
  table of the latest lease and a token counter per task. Every operation is a state transformer
  that returns the new state together with the lease or the \<^verbatim>\<open>PermissionError\<close>: reading a lease
  through \<open>active_lease\<close> already writes the expired status back, also when the operation then
  raises. Each reading of the clock is an argument of its own.

  The locale \<open>fencing\<close> states what fencing promises over any step relation: a token that has been
  superseded never becomes current again. It is interpreted on the steps of the service.
\<close>

section \<open>Definitions\<close>

record LeaseService =
  ls_ttl_seconds :: int
  ls_active :: "string \<rightharpoonup> TaskLease"
  ls_tokens :: "string \<rightharpoonup> int"

definition init_LeaseService :: "int \<Rightarrow> LeaseService" where
  "init_LeaseService ttl = \<lparr>ls_ttl_seconds = ttl, ls_active = Map.empty, ls_tokens = Map.empty\<rparr>"

definition active_lease :: "LeaseService \<Rightarrow> string \<Rightarrow> time \<Rightarrow> LeaseService \<times> TaskLease option" where
  "active_lease s task_id now =
     (case ls_active s task_id of
        None \<Rightarrow> (s, None)
      | Some lease \<Rightarrow>
          if tl_expires_at lease \<le> now then
            (let expired = lease\<lparr>tl_status := LEASE_EXPIRED\<rparr>
             in (s\<lparr>ls_active := (ls_active s)(task_id \<mapsto> expired)\<rparr>, Some expired))
          else (s, Some lease))"

text \<open>\<open>now_arg\<close> is the optional argument \<^verbatim>\<open>now\<close>; \<open>lease_id\<close> the fresh identifier.\<close>

definition acquire ::
  "LeaseService \<Rightarrow> string \<Rightarrow> string \<Rightarrow> string \<Rightarrow> string \<Rightarrow> time option \<Rightarrow> string \<Rightarrow> time \<Rightarrow> time
   \<Rightarrow> LeaseService \<times> TaskLease result" where
  "acquire s task_id node_id connector_id attempt_id now_arg lease_id clock1 clock2 =
     (case active_lease s task_id clock1 of (s1, current) \<Rightarrow>
        if (case current of None \<Rightarrow> False | Some l \<Rightarrow> tl_status l = LEASE_ACTIVE) then
          (s1, Inl (PermissionError ''task already has an active lease''))
        else
          (let now = (case now_arg of None \<Rightarrow> clock2 | Some t \<Rightarrow> t);
               token = (case ls_tokens s1 task_id of None \<Rightarrow> 0 | Some n \<Rightarrow> n) + 1;
               lease = \<lparr>tl_lease_id = lease_id, tl_task_id = task_id, tl_node_id = node_id,
                        tl_connector_id = connector_id, tl_attempt_id = attempt_id,
                        tl_fencing_token = token, tl_acquired_at = now,
                        tl_expires_at = now + ls_ttl_seconds s1, tl_heartbeat_at = now,
                        tl_status = LEASE_ACTIVE\<rparr>
           in (s1\<lparr>ls_tokens := (ls_tokens s1)(task_id \<mapsto> token),
                  ls_active := (ls_active s1)(task_id \<mapsto> lease)\<rparr>, Inr lease)))"

definition heartbeat ::
  "LeaseService \<Rightarrow> string \<Rightarrow> int \<Rightarrow> time \<Rightarrow> time \<Rightarrow> LeaseService \<times> TaskLease result" where
  "heartbeat s task_id fencing_token clock1 clock2 =
     (case active_lease s task_id clock1 of
        (s1, None) \<Rightarrow> (s1, Inl (PermissionError ''no active lease''))
      | (s1, Some lease) \<Rightarrow>
          if tl_status lease \<noteq> LEASE_ACTIVE then (s1, Inl (PermissionError ''no active lease''))
          else if fencing_token \<noteq> tl_fencing_token lease then
            (s1, Inl (PermissionError ''stale fencing token''))
          else
            (let renewed = lease\<lparr>tl_expires_at := clock2 + ls_ttl_seconds s1,
                                 tl_heartbeat_at := clock2, tl_status := LEASE_ACTIVE\<rparr>
             in (s1\<lparr>ls_active := (ls_active s1)(task_id \<mapsto> renewed)\<rparr>, Inr renewed)))"

definition release ::
  "LeaseService \<Rightarrow> string \<Rightarrow> int \<Rightarrow> time \<Rightarrow> LeaseService \<times> TaskLease result" where
  "release s task_id fencing_token clock1 =
     (case active_lease s task_id clock1 of
        (s1, None) \<Rightarrow> (s1, Inl (PermissionError ''no lease to release''))
      | (s1, Some lease) \<Rightarrow>
          if fencing_token \<noteq> tl_fencing_token lease then
            (s1, Inl (PermissionError ''stale fencing token''))
          else
            (let released = lease\<lparr>tl_status := LEASE_RELEASED\<rparr>
             in (s1\<lparr>ls_active := (ls_active s1)(task_id \<mapsto> released)\<rparr>, Inr released)))"

definition validate_event ::
  "LeaseService \<Rightarrow> string \<Rightarrow> string \<Rightarrow> int \<Rightarrow> string \<Rightarrow> time \<Rightarrow> LeaseService \<times> TaskLease result" where
  "validate_event s task_id lease_id fencing_token attempt_id clock1 =
     (case active_lease s task_id clock1 of
        (s1, None) \<Rightarrow> (s1, Inl (PermissionError ''no lease for task''))
      | (s1, Some lease) \<Rightarrow>
          if tl_lease_id lease \<noteq> lease_id then (s1, Inl (PermissionError ''lease_id mismatch''))
          else if tl_attempt_id lease \<noteq> attempt_id then
            (s1, Inl (PermissionError ''attempt_id mismatch''))
          else if fencing_token \<noteq> tl_fencing_token lease then
            (s1, Inl (PermissionError ''stale fencing token''))
          else if tl_status lease \<noteq> LEASE_ACTIVE then
            (s1, Inl (PermissionError (''lease is '' @ lease_status_value (tl_status lease))))
          else (s1, Inr lease))"

text \<open>The steps of the service: any operation with any arguments and any clock readings.\<close>

inductive lease_step :: "LeaseService \<Rightarrow> LeaseService \<Rightarrow> bool" where
  step_read: "lease_step s (fst (active_lease s t c1))"
| step_acquire: "lease_step s (fst (acquire s t n co a na i c1 c2))"
| step_heartbeat: "lease_step s (fst (heartbeat s t f c1 c2))"
| step_release: "lease_step s (fst (release s t f c1))"
| step_validate: "lease_step s (fst (validate_event s t i f a c1))"

section \<open>The fencing interface\<close>

text \<open>
  A client of fenced leases relies on three laws: the counter of a key never decreases, the token
  of the current holder is the value of the counter, and both hold along every step.
\<close>

locale fencing =
  fixes step :: "'s \<Rightarrow> 's \<Rightarrow> bool"
    and counter :: "'s \<Rightarrow> 'k \<Rightarrow> int"
    and holder :: "'s \<Rightarrow> 'k \<Rightarrow> int option"
    and inv :: "'s \<Rightarrow> bool"
  assumes counter_mono: "inv s \<Longrightarrow> step s s' \<Longrightarrow> counter s k \<le> counter s' k"
    and holder_counter: "inv s \<Longrightarrow> holder s k = Some n \<Longrightarrow> counter s k = n"
    and inv_step: "inv s \<Longrightarrow> step s s' \<Longrightarrow> inv s'"
begin

lemma run_inv: "step\<^sup>*\<^sup>* s s' \<Longrightarrow> inv s \<Longrightarrow> inv s'"
  by (induction rule: rtranclp_induct) (auto intro: inv_step)

lemma run_counter_mono: "step\<^sup>*\<^sup>* s s' \<Longrightarrow> inv s \<Longrightarrow> counter s k \<le> counter s' k"
proof (induction rule: rtranclp_induct)
  case (step y z)
  then have "counter y k \<le> counter z k" by (intro counter_mono) (auto intro: run_inv)
  with step show ?case by simp
qed simp

lemma superseded_token_never_returns:
  assumes "inv s" and "step\<^sup>*\<^sup>* s s'" and "n < counter s k"
  shows "holder s' k \<noteq> Some n"
proof
  assume "holder s' k = Some n"
  then have "counter s' k = n" using run_inv[OF assms(2,1)] by (rule holder_counter[rotated])
  with run_counter_mono[OF assms(2,1), of k] assms(3) show False by simp
qed

end

section \<open>The lease service implements fencing\<close>

definition lease_counter :: "LeaseService \<Rightarrow> string \<Rightarrow> int" where
  "lease_counter s t = (case ls_tokens s t of None \<Rightarrow> 0 | Some n \<Rightarrow> n)"

definition lease_holder :: "LeaseService \<Rightarrow> string \<Rightarrow> int option" where
  "lease_holder s t = map_option tl_fencing_token (ls_active s t)"

text \<open>The table invariant: the stored lease of a task belongs to that task and carries the latest
  token.\<close>

definition lease_inv :: "LeaseService \<Rightarrow> bool" where
  "lease_inv s \<longleftrightarrow> (\<forall>t l. ls_active s t = Some l \<longrightarrow>
     tl_task_id l = t \<and> ls_tokens s t = Some (tl_fencing_token l))"

lemma active_lease_frame [lease_simps]:
  "ls_tokens (fst (active_lease s t c)) = ls_tokens s"
  "ls_ttl_seconds (fst (active_lease s t c)) = ls_ttl_seconds s"
  by (simp_all add: active_lease_def Let_def split: option.split)

lemma active_lease_SomeD:
  assumes "active_lease s t c = (s1, Some l)"
  shows "\<exists>l0. ls_active s t = Some l0 \<and> tl_fencing_token l = tl_fencing_token l0
          \<and> tl_task_id l = tl_task_id l0 \<and> tl_lease_id l = tl_lease_id l0
          \<and> tl_attempt_id l = tl_attempt_id l0
          \<and> (tl_status l = LEASE_ACTIVE \<longleftrightarrow> tl_status l0 = LEASE_ACTIVE \<and> c < tl_expires_at l0)"
  using assms by (auto simp: active_lease_def Let_def split: option.splits if_splits)

lemma active_lease_inv:
  assumes "lease_inv s" and "active_lease s t c = (s1, r)"
  shows "lease_inv s1 \<and> ls_tokens s1 = ls_tokens s
    \<and> (\<forall>l. r = Some l \<longrightarrow> tl_task_id l = t \<and> ls_tokens s t = Some (tl_fencing_token l))"
  using assms by (auto simp: lease_inv_def active_lease_def Let_def split: option.splits if_splits)

lemmas lease_op_defs = acquire_def heartbeat_def release_def validate_event_def

lemma lease_step_cases:
  assumes "lease_inv s" and "lease_step s s'"
  shows "lease_inv s' \<and> (\<forall>k. lease_counter s k \<le> lease_counter s' k)"
  using assms(2)
proof cases
  case (step_read t c1)
  with active_lease_inv[OF assms(1), of t c1] show ?thesis
    by (cases "active_lease s t c1") (auto simp: lease_counter_def)
next
  case (step_acquire t n co a na i c1 c2)
  obtain s1 r where r: "active_lease s t c1 = (s1, r)" by (cases "active_lease s t c1")
  with active_lease_inv[OF assms(1) r] step_acquire show ?thesis
    by (auto simp: acquire_def Let_def lease_inv_def lease_counter_def split: option.splits if_splits)
next
  case (step_heartbeat t f c1 c2)
  obtain s1 r where r: "active_lease s t c1 = (s1, r)" by (cases "active_lease s t c1")
  with active_lease_inv[OF assms(1) r] step_heartbeat show ?thesis
    by (auto simp: heartbeat_def Let_def lease_inv_def lease_counter_def split: option.splits if_splits)
next
  case (step_release t f c1)
  obtain s1 r where r: "active_lease s t c1 = (s1, r)" by (cases "active_lease s t c1")
  with active_lease_inv[OF assms(1) r] step_release show ?thesis
    by (auto simp: release_def Let_def lease_inv_def lease_counter_def split: option.splits if_splits)
next
  case (step_validate t i f a c1)
  obtain s1 r where r: "active_lease s t c1 = (s1, r)" by (cases "active_lease s t c1")
  with active_lease_inv[OF assms(1) r] step_validate show ?thesis
    by (auto simp: validate_event_def lease_counter_def split: option.splits if_splits)
qed

interpretation task_leases: fencing lease_step lease_counter lease_holder lease_inv
proof unfold_locales
  fix s s' k
  assume "lease_inv s" and "lease_step s s'"
  then show "lease_counter s k \<le> lease_counter s' k" and "lease_inv s'"
    using lease_step_cases by blast+
next
  fix s k n
  assume "lease_inv s" and "lease_holder s k = Some n"
  then show "lease_counter s k = n" by (auto simp: lease_inv_def lease_holder_def lease_counter_def)
qed

lemma lease_inv_init: "lease_inv (init_LeaseService ttl)"
  by (simp add: lease_inv_def init_LeaseService_def)

lemma reachable_lease_inv: "lease_step\<^sup>*\<^sup>* (init_LeaseService ttl) s \<Longrightarrow> lease_inv s"
  using task_leases.run_inv lease_inv_init by blast

text \<open>An operation that presents a token succeeds only for the current holder's token.\<close>

lemma token_op_accepts:
  "snd (heartbeat s t f c1 c2) = Inr l \<Longrightarrow> lease_holder s t = Some f"
  "snd (release s t f c1) = Inr l \<Longrightarrow> lease_holder s t = Some f"
  "snd (validate_event s t i f a c1) = Inr l \<Longrightarrow> lease_holder s t = Some f"
  by (auto simp: lease_op_defs lease_holder_def Let_def split: prod.splits option.splits if_splits
      dest!: active_lease_SomeD)

lemma acquire_Inr:
  assumes "acquire s t n co a na i c1 c2 = (s', Inr l)"
  shows "ls_active s' t = Some l" and "tl_fencing_token l = lease_counter s t + 1"
    and "lease_counter s' t = tl_fencing_token l" and "tl_status l = LEASE_ACTIVE"
    and "tl_expires_at l = (case na of None \<Rightarrow> c2 | Some x \<Rightarrow> x) + ls_ttl_seconds s"
    and "tl_lease_id l = i" and "tl_attempt_id l = a"
  using assms
  by (auto simp: acquire_def Let_def lease_counter_def active_lease_def split: prod.splits option.splits if_splits)

lemma validate_event_holder:
  assumes "ls_active s t = Some l" and "tl_status l = LEASE_ACTIVE"
  shows "isl (snd (validate_event s t (tl_lease_id l) (tl_fencing_token l) (tl_attempt_id l) c))
     \<longleftrightarrow> tl_expires_at l \<le> c"
  using assms by (auto simp: validate_event_def active_lease_def Let_def)

section \<open>Properties\<close>

text \<open>C14: Fencing. Once a lease with token \<open>n\<close> has been granted for a task, a smaller token is
  useless forever: after any further sequence of operations on the service, in any order and at any
  clock readings, a heartbeat, a release and an event validation that present a token below \<open>n\<close>
  are all refused.\<close>

theorem superseded_tokens_rejected:
  assumes "lease_step\<^sup>*\<^sup>* (init_LeaseService ttl) s"
    and "acquire s t n co a na i c1 c2 = (s1, Inr l)"
    and "lease_step\<^sup>*\<^sup>* s1 s2" and "f < tl_fencing_token l"
  shows "isl (snd (heartbeat s2 t f d1 d2)) \<and> isl (snd (release s2 t f d1))
         \<and> isl (snd (validate_event s2 t i' f a' d1))"
proof -
  have "lease_step s s1" using step_acquire[of s t n co a na i c1 c2] assms(2) by simp
  then have "lease_inv s1" using reachable_lease_inv[OF assms(1)] by (rule task_leases.inv_step[rotated])
  moreover have "f < lease_counter s1 t" using acquire_Inr(3)[OF assms(2)] assms(4) by simp
  ultimately have "lease_holder s2 t \<noteq> Some f"
    using assms(3) by (intro task_leases.superseded_token_never_returns)
  then show ?thesis using token_op_accepts by (metis sum.collapse(2))
qed

definition example_lease_run :: "LeaseService \<times> TaskLease result" where
  "example_lease_run =
     (let s1 = fst (acquire (init_LeaseService 60) ''t'' ''n1'' ''c'' ''a1'' None ''l1'' 0 0)
      in acquire s1 ''t'' ''n2'' ''c'' ''a2'' None ''l2'' 100 100)"

theorem superseded_tokens_rejected_witness:
  "\<exists>s l. example_lease_run = (s, Inr l) \<and> tl_fencing_token l = 2
     \<and> isl (snd (heartbeat s ''t'' 1 110 110)) \<and> isl (snd (validate_event s ''t'' ''l1'' 1 ''a1'' 110))"
proof -
  let ?s0 = "fst (acquire (init_LeaseService 60) ''t'' ''n1'' ''c'' ''a1'' None ''l1'' 0 0)"
  have 0: "lease_step\<^sup>*\<^sup>* (init_LeaseService 60) ?s0" by (rule r_into_rtranclp) (rule step_acquire)
  obtain s l where run: "acquire ?s0 ''t'' ''n2'' ''c'' ''a2'' None ''l2'' 100 100 = (s, Inr l)"
    and tok: "tl_fencing_token l = 2"
    by (simp add: acquire_def active_lease_def init_LeaseService_def Let_def)
  have "1 < tl_fencing_token l" using tok by simp
  from superseded_tokens_rejected[OF 0 run rtranclp.rtrancl_refl this] run tok
  show ?thesis unfolding example_lease_run_def Let_def by blast
qed

text \<open>Mutual exclusion. \<open>acquire\<close> grants a lease exactly when the task has no lease that is
  active and unexpired at the moment of the check, and the granted lease carries the next token.\<close>

theorem acquire_exclusive:
  "(case snd (acquire s t n co a na i c1 c2) of
      Inl e \<Rightarrow> e = PermissionError ''task already has an active lease''
               \<and> (\<exists>l. ls_active s t = Some l \<and> tl_status l = LEASE_ACTIVE \<and> c1 < tl_expires_at l)
    | Inr l' \<Rightarrow> (\<nexists>l. ls_active s t = Some l \<and> tl_status l = LEASE_ACTIVE \<and> c1 < tl_expires_at l)
               \<and> tl_fencing_token l' = lease_counter s t + 1 \<and> tl_status l' = LEASE_ACTIVE)"
  by (auto simp: acquire_def active_lease_def Let_def lease_counter_def split: option.splits if_splits)

text \<open>Validity window. Right after a lease is granted at time \<open>c2\<close>, the events of its holder
  validate exactly until \<open>c2\<close> plus the lifetime; after a heartbeat at \<open>h2\<close> the window extends to
  \<open>h2\<close> plus the lifetime.\<close>

theorem lease_validity_window:
  assumes "acquire s t n co a None i c1 c2 = (s1, Inr l)"
    and "heartbeat s1 t (tl_fencing_token l) h1 h2 = (s2, Inr l2)"
  shows "(isl (snd (validate_event s1 t i (tl_fencing_token l) a c)) \<longleftrightarrow> c2 + ls_ttl_seconds s \<le> c)
    \<and> (isl (snd (validate_event s2 t i (tl_fencing_token l) a c)) \<longleftrightarrow> h2 + ls_ttl_seconds s \<le> c)"
proof -
  note acq = acquire_Inr[OF assms(1)]
  have ttl: "ls_ttl_seconds s1 = ls_ttl_seconds s"
    using assms(1) by (auto simp: acquire_def active_lease_def Let_def split: option.splits if_splits)
  have hb: "ls_active s2 t = Some l2" "tl_status l2 = LEASE_ACTIVE" "tl_lease_id l2 = i"
      "tl_attempt_id l2 = a" "tl_fencing_token l2 = tl_fencing_token l"
      "tl_expires_at l2 = h2 + ls_ttl_seconds s"
    using assms(2) acq ttl
    by (auto simp: heartbeat_def active_lease_def Let_def split: option.splits if_splits)
  from validate_event_holder[OF acq(1,4), of c] validate_event_holder[OF hb(1,2), of c] acq hb
  show ?thesis by simp
qed

theorem lease_validity_window_witness:
  "\<exists>s1 l s2 l2. acquire (init_LeaseService 60) ''t'' ''n1'' ''c'' ''a1'' None ''l1'' 0 0 = (s1, Inr l)
     \<and> heartbeat s1 ''t'' 1 30 30 = (s2, Inr l2)
     \<and> \<not> isl (snd (validate_event s1 ''t'' ''l1'' 1 ''a1'' 59))
     \<and> isl (snd (validate_event s1 ''t'' ''l1'' 1 ''a1'' 60))
     \<and> \<not> isl (snd (validate_event s2 ''t'' ''l1'' 1 ''a1'' 89))"
proof -
  obtain s1 l where a: "acquire (init_LeaseService 60) ''t'' ''n1'' ''c'' ''a1'' None ''l1'' 0 0 = (s1, Inr l)"
    and tok: "tl_fencing_token l = 1"
    by (simp add: acquire_def active_lease_def init_LeaseService_def Let_def)
  then obtain s2 l2 where h: "heartbeat s1 ''t'' (tl_fencing_token l) 30 30 = (s2, Inr l2)"
    by (auto simp: acquire_def active_lease_def init_LeaseService_def heartbeat_def Let_def)
  from lease_validity_window[OF a h, of 59] lease_validity_window[OF a h, of 60]
    lease_validity_window[OF a h, of 89] tok a h
  show ?thesis by (auto simp: init_LeaseService_def)
qed

end
