(* ===== verification/Retry.thy ===== *)
theory Retry
  imports Capabilities Runtime_Models
begin

text \<open>
  The retry and failover policy for execution attempts (\<^verbatim>\<open>src/src/joymesh/runtime_v1/retry.py\<close>),
  with the exact condition under which an attempt is repeated.
\<close>

section \<open>Definitions\<close>

record RetryDecision =
  rd_retry :: bool
  rd_reason :: string
  rd_failure_class :: FailureClass

definition retry_decision :: "bool \<Rightarrow> string \<Rightarrow> FailureClass \<Rightarrow> RetryDecision" where
  "retry_decision b reason fc = \<lparr>rd_retry = b, rd_reason = reason, rd_failure_class = fc\<rparr>"

definition SAFE_BEFORE_START :: "FailureClass list" where
  "SAFE_BEFORE_START =
     [NODE_UNAVAILABLE, OFFER_TIMEOUT, CONNECTOR_UNAVAILABLE, RATE_LIMITED, WORKSPACE_UNAVAILABLE]"

definition task_mutating :: "RuntimeTaskRecord \<Rightarrow> bool" where
  "task_mutating task \<longleftrightarrow> list_ex (\<lambda>c. c \<in> set MUTATING_CAPABILITIES) (rt_expanded_capabilities task)"

definition decide_retry ::
  "RuntimeTaskRecord \<Rightarrow> FailureClass \<Rightarrow> int \<Rightarrow> bool \<Rightarrow> bool \<Rightarrow> RetryDecision" where
  "decide_retry task failure_class attempt_number execution_started uncertain =
     (if attempt_number \<ge> rt_max_attempts task then
        retry_decision False ''max attempts reached'' failure_class
      else if failure_class = USER_CANCELLED then
        retry_decision False ''user cancellation is not retried'' failure_class
      else if failure_class = POLICY_REJECTED then
        retry_decision False ''policy rejection is not retried'' failure_class
      else if failure_class = AUTHENTICATION_INVALID then
        retry_decision False ''authentication failure is not automatically retried'' failure_class
      else if uncertain \<or> failure_class = UNCERTAIN_EXECUTION then
        retry_decision False ''uncertain execution requires reconciliation first'' failure_class
      else
        (let mutating = task_mutating task
         in if mutating \<and> execution_started then
              retry_decision False ''side-effecting attempt already started; not retry-safe'' failure_class
            else if failure_class \<in> set SAFE_BEFORE_START \<and> \<not> execution_started then
              retry_decision True ''pre-start failure is retry-safe'' failure_class
            else if \<not> mutating \<and> \<not> execution_started
                    \<and> failure_class \<in> {NODE_DISCONNECTED, PROCESS_FAILURE, CONNECTOR_UNAVAILABLE} then
              retry_decision True ''read-only pre-start failure may fail over'' failure_class
            else retry_decision False ''failure class is not automatically retryable'' failure_class))"

section \<open>Properties\<close>

text \<open>The exact retry condition. An attempt is retried if and only if attempts are left, its
  outcome is certain, execution had not started, and the failure is one of the pre-start classes or,
  for a task without mutating capabilities, a node disconnect or a process failure. In particular
  an attempt that has started is never retried, mutating or not.\<close>

theorem decide_retry_iff:
  "rd_retry (decide_retry task fc n started uncertain) \<longleftrightarrow>
     (n < rt_max_attempts task \<and> \<not> uncertain \<and> \<not> started
      \<and> (fc \<in> {NODE_UNAVAILABLE, OFFER_TIMEOUT, CONNECTOR_UNAVAILABLE, RATE_LIMITED, WORKSPACE_UNAVAILABLE}
         \<or> (fc \<in> {NODE_DISCONNECTED, PROCESS_FAILURE}
            \<and> set (rt_expanded_capabilities task) \<inter> set MUTATING_CAPABILITIES = {})))"
proof -
  have "task_mutating task \<longleftrightarrow> set (rt_expanded_capabilities task) \<inter> set MUTATING_CAPABILITIES \<noteq> {}"
    by (auto simp: task_mutating_def list_ex_iff)
  then show ?thesis
    by (cases fc) (auto simp: decide_retry_def retry_decision_def SAFE_BEFORE_START_def Let_def)
qed

end
