(* ===== verification/Route_Leases.thy ===== *)
theory Route_Leases
  imports JM_Prelude
begin

text \<open>
  Provider-route mutation leases (\<^verbatim>\<open>src/src/joymesh/runtime_v1/provider_routes/lease_store.py\<close>).
  The class has two back ends behind one interface: an in-memory table with a marker per
  manager/connector key, and a SQL table whose unique constraint over
  (manager, connector, active marker) admits one active row per key. Both are modelled operation
  by operation. The JSON text columns of the SQL table hold the dictionaries they encode.
  A database transaction is one step, except \<open>db_acquire\<close>, whose initial query may see an older
  table than its commit: the two tables are separate arguments.

  The locale \<open>exclusive_store\<close> is the contract both back ends offer; its laws are discharged for
  both.
\<close>

section \<open>Leases and errors\<close>

record ProviderRouteLease =
  pl_lease_id :: string
  pl_manager_id :: string
  pl_connector_id :: string
  pl_owner_execution_id :: string
  pl_lease_token :: string
  pl_status :: string
  pl_original_state :: pydict
  pl_target_provider_id :: "string option"
  pl_target_model_id :: "string option"
  pl_acquired_at :: time
  pl_expires_at :: time
  pl_heartbeat_at :: time
  pl_recovery_status :: "string option"
  pl_details :: pydict

type_synonym lease_key = "string \<times> string"

definition lease_key :: "ProviderRouteLease \<Rightarrow> lease_key" where
  "lease_key l = (pl_manager_id l, pl_connector_id l)"

datatype lease_error = ProviderRouteLeaseError (reason_code: string) string | MultipleResultsFound

type_synonym 'a lease_result = "lease_error + 'a"

definition live_status :: "string \<Rightarrow> bool" where
  "live_status st \<longleftrightarrow> st = ''active'' \<or> st = ''recovering''"

text \<open>\<^verbatim>\<open>recovery_status.startswith("restored") or recovery_status in {...}\<close>: the recovery outcomes
  that take the lease out of service.\<close>

definition clears_active :: "string \<Rightarrow> bool" where
  "clears_active rs \<longleftrightarrow>
     take 8 rs = ''restored'' \<or> rs = ''recovery_failed'' \<or> rs = ''expired_no_restore''"

text \<open>The lease that \<open>try_acquire\<close> builds before it asks the back end.\<close>

definition new_lease ::
  "string \<Rightarrow> string \<Rightarrow> string \<Rightarrow> int \<Rightarrow> pydict \<Rightarrow> string option \<Rightarrow> string option \<Rightarrow> pydict
   \<Rightarrow> string \<Rightarrow> string \<Rightarrow> time \<Rightarrow> ProviderRouteLease" where
  "new_lease manager_id connector_id owner ttl original target_provider target_model details
     lease_id token now =
     \<lparr>pl_lease_id = lease_id, pl_manager_id = manager_id, pl_connector_id = connector_id,
      pl_owner_execution_id = owner, pl_lease_token = token, pl_status = ''active'',
      pl_original_state = original, pl_target_provider_id = target_provider,
      pl_target_model_id = target_model, pl_acquired_at = now, pl_expires_at = now + ttl,
      pl_heartbeat_at = now, pl_recovery_status = None, pl_details = details\<rparr>"

definition sanitise_route_state :: "pydict \<Rightarrow> pydict" where
  "sanitise_route_state snapshot =
     map (\<lambda>k. (k, dget snapshot k))
       (filter (has_key snapshot)
          [''connector_id'', ''provider_id'', ''enabled'', ''model_id'', ''configuration_status'',
           ''available'', ''authenticated''])"

section \<open>The in-memory back end\<close>

record MemoryLeaseStore =
  ms_memory :: "(string \<times> ProviderRouteLease) list"
  ms_by_key :: "lease_key \<rightharpoonup> string"

definition init_MemoryLeaseStore :: MemoryLeaseStore where
  "init_MemoryLeaseStore = \<lparr>ms_memory = [], ms_by_key = Map.empty\<rparr>"

definition memory_acquire ::
  "MemoryLeaseStore \<Rightarrow> ProviderRouteLease \<Rightarrow> MemoryLeaseStore \<times> ProviderRouteLease option" where
  "memory_acquire s lease =
     (let key = lease_key lease;
          busy = (case ms_by_key s key of
                    None \<Rightarrow> False
                  | Some existing_id \<Rightarrow> existing_id \<noteq> [] \<and>
                      (case map_of (ms_memory s) existing_id of
                         None \<Rightarrow> False
                       | Some existing \<Rightarrow> live_status (pl_status existing)))
      in if busy then (s, None)
         else (s\<lparr>ms_memory := AList.update (pl_lease_id lease) lease (ms_memory s),
                 ms_by_key := (ms_by_key s)(key \<mapsto> pl_lease_id lease)\<rparr>, Some lease))"

definition memory_put :: "MemoryLeaseStore \<Rightarrow> string \<Rightarrow> ProviderRouteLease \<Rightarrow> MemoryLeaseStore" where
  "memory_put s lease_id lease = s\<lparr>ms_memory := AList.update lease_id lease (ms_memory s)\<rparr>"

definition memory_pop_key :: "MemoryLeaseStore \<Rightarrow> lease_key \<Rightarrow> MemoryLeaseStore" where
  "memory_pop_key s key = s\<lparr>ms_by_key := (ms_by_key s)(key := None)\<rparr>"

definition memory_renew ::
  "MemoryLeaseStore \<Rightarrow> string \<Rightarrow> string \<Rightarrow> string \<Rightarrow> int \<Rightarrow> time
   \<Rightarrow> MemoryLeaseStore \<times> ProviderRouteLease lease_result" where
  "memory_renew s lease_id lease_token owner ttl now =
     (case map_of (ms_memory s) lease_id of
        None \<Rightarrow> (s, Inl (ProviderRouteLeaseError ''lease_not_found'' ''lease not found''))
      | Some lease \<Rightarrow>
          if pl_lease_token lease \<noteq> lease_token \<or> pl_owner_execution_id lease \<noteq> owner then
            (s, Inl (ProviderRouteLeaseError ''stale_lease_token'' ''lease token or owner mismatch''))
          else if pl_status lease \<noteq> ''active'' then
            (s, Inl (ProviderRouteLeaseError ''lease_not_active''
                       (''lease status is '' @ pl_status lease)))
          else if pl_expires_at lease \<le> now then
            (s, Inl (ProviderRouteLeaseError ''lease_expired'' ''lease expired''))
          else
            (let updated = lease\<lparr>pl_expires_at := now + ttl, pl_heartbeat_at := now\<rparr>
             in (memory_put s lease_id updated, Inr updated)))"

definition memory_release ::
  "MemoryLeaseStore \<Rightarrow> string \<Rightarrow> string \<Rightarrow> string \<Rightarrow> time
   \<Rightarrow> MemoryLeaseStore \<times> ProviderRouteLease lease_result" where
  "memory_release s lease_id lease_token owner now =
     (case map_of (ms_memory s) lease_id of
        None \<Rightarrow> (s, Inl (ProviderRouteLeaseError ''lease_not_found'' ''lease not found''))
      | Some lease \<Rightarrow>
          if pl_lease_token lease \<noteq> lease_token \<or> pl_owner_execution_id lease \<noteq> owner then
            (s, Inl (ProviderRouteLeaseError ''stale_lease_token'' ''lease token or owner mismatch''))
          else if pl_status lease \<noteq> ''active'' then
            (s, Inl (ProviderRouteLeaseError ''duplicate_release'' ''lease already released''))
          else
            (let updated = lease\<lparr>pl_status := ''released'', pl_heartbeat_at := now\<rparr>
             in (memory_pop_key (memory_put s lease_id updated) (lease_key lease), Inr updated)))"

definition memory_get_active ::
  "MemoryLeaseStore \<Rightarrow> string \<Rightarrow> string \<Rightarrow> time \<Rightarrow> ProviderRouteLease option" where
  "memory_get_active s manager_id connector_id now =
     (case ms_by_key s (manager_id, connector_id) of
        None \<Rightarrow> None
      | Some lease_id \<Rightarrow>
          if lease_id = [] then None
          else (case map_of (ms_memory s) lease_id of
                  None \<Rightarrow> None
                | Some lease \<Rightarrow>
                    if pl_status lease \<noteq> ''active'' \<or> pl_expires_at lease \<le> now then None
                    else Some lease))"

definition memory_list_expired_active :: "MemoryLeaseStore \<Rightarrow> time \<Rightarrow> ProviderRouteLease list" where
  "memory_list_expired_active s moment =
     filter (\<lambda>lease. live_status (pl_status lease) \<and> pl_expires_at lease \<le> moment
                     \<and> ms_by_key s (lease_key lease) = Some (pl_lease_id lease))
       (map snd (ms_memory s))"

text \<open>\<^verbatim>\<open>existing_owner not in {None, recovery_owner_id}\<close>.\<close>

definition claimed_by_other :: "pydict \<Rightarrow> string \<Rightarrow> bool" where
  "claimed_by_other details owner =
     (dget details ''recovery_owner_id'' \<notin> {PyNone, PyStr owner})"

definition memory_claim_recovery ::
  "MemoryLeaseStore \<Rightarrow> string \<Rightarrow> string \<Rightarrow> string \<Rightarrow> time \<Rightarrow> time
   \<Rightarrow> MemoryLeaseStore \<times> ProviderRouteLease lease_result" where
  "memory_claim_recovery s lease_id lease_token recovery_owner now1 now2 =
     (case map_of (ms_memory s) lease_id of
        None \<Rightarrow> (s, Inl (ProviderRouteLeaseError ''stale_lease_token'' ''invalid lease token''))
      | Some lease \<Rightarrow>
          if pl_lease_token lease \<noteq> lease_token then
            (s, Inl (ProviderRouteLeaseError ''stale_lease_token'' ''invalid lease token''))
          else if ms_by_key s (lease_key lease) \<noteq> Some lease_id then
            (s, Inl (ProviderRouteLeaseError ''lease_not_active'' ''lease is not the active marker''))
          else if pl_expires_at lease > now1 \<and> pl_status lease = ''active'' then
            (s, Inl (ProviderRouteLeaseError ''lease_not_expired'' ''lease has not expired''))
          else if pl_status lease = ''recovering'' \<and> claimed_by_other (pl_details lease) recovery_owner then
            (s, Inl (ProviderRouteLeaseError ''recovery_claimed''
                       ''recovery already claimed by another owner''))
          else
            (let updated = lease\<lparr>pl_status := ''recovering'', pl_heartbeat_at := now2,
                   pl_details := AList.update ''recovery_owner_id'' (PyStr recovery_owner) (pl_details lease)\<rparr>
             in (memory_put s lease_id updated, Inr updated)))"

definition memory_mark_recovery ::
  "MemoryLeaseStore \<Rightarrow> string \<Rightarrow> string \<Rightarrow> string \<Rightarrow> pydict
   \<Rightarrow> MemoryLeaseStore \<times> ProviderRouteLease lease_result" where
  "memory_mark_recovery s lease_id lease_token recovery_status details =
     (case map_of (ms_memory s) lease_id of
        None \<Rightarrow> (s, Inl (ProviderRouteLeaseError ''stale_lease_token'' ''invalid lease token''))
      | Some lease \<Rightarrow>
          if pl_lease_token lease \<noteq> lease_token then
            (s, Inl (ProviderRouteLeaseError ''stale_lease_token'' ''invalid lease token''))
          else
            (let clear_active = clears_active recovery_status;
                 updated = lease\<lparr>pl_status := (if clear_active then ''expired'' else pl_status lease),
                                 pl_recovery_status := Some recovery_status,
                                 pl_details := dmerge (pl_details lease) details\<rparr>;
                 s1 = memory_put s lease_id updated
             in (if clear_active then memory_pop_key s1 (lease_key lease) else s1, Inr updated)))"

definition block_id :: "string \<Rightarrow> string \<Rightarrow> string" where
  "block_id manager_id connector_id = ''block:'' @ manager_id @ '':'' @ connector_id"

text \<open>\<open>at\<close> is the ISO text of the clock that goes into the details; the consecutive readings of the
  clock while the sentinel is built are one argument \<open>now\<close>.\<close>

definition block_details :: "string \<Rightarrow> string \<Rightarrow> pydict" where
  "block_details reason at =
     [(''blocked'', PyBool True), (''reason'', PyStr reason), (''at'', PyStr at)]"

definition memory_block_connector ::
  "MemoryLeaseStore \<Rightarrow> string \<Rightarrow> string \<Rightarrow> string \<Rightarrow> string \<Rightarrow> time \<Rightarrow> MemoryLeaseStore" where
  "memory_block_connector s manager_id connector_id reason at now =
     memory_put s (block_id manager_id connector_id)
       \<lparr>pl_lease_id = block_id manager_id connector_id, pl_manager_id = manager_id,
        pl_connector_id = connector_id, pl_owner_execution_id = ''recovery'',
        pl_lease_token = ''block'', pl_status = ''blocked'', pl_original_state = [],
        pl_target_provider_id = None, pl_target_model_id = None, pl_acquired_at = now,
        pl_expires_at = now, pl_heartbeat_at = now, pl_recovery_status = Some ''recovery_failed'',
        pl_details = block_details reason at\<rparr>"

definition block_reason :: "pydict \<Rightarrow> string" where
  "block_reason details = py_str (py_or (dget details ''reason'') (PyStr ''recovery_failed''))"

definition memory_is_blocked :: "MemoryLeaseStore \<Rightarrow> string \<Rightarrow> string \<Rightarrow> string option" where
  "memory_is_blocked s manager_id connector_id =
     (case map_of (ms_memory s) (block_id manager_id connector_id) of
        None \<Rightarrow> None
      | Some lease \<Rightarrow>
          if pl_status lease = ''blocked'' then Some (block_reason (pl_details lease)) else None)"

definition memory_clear_block :: "MemoryLeaseStore \<Rightarrow> string \<Rightarrow> string \<Rightarrow> MemoryLeaseStore" where
  "memory_clear_block s manager_id connector_id =
     s\<lparr>ms_memory := AList.delete (block_id manager_id connector_id) (ms_memory s)\<rparr>"

section \<open>The SQL back end\<close>

record ProviderRouteLeaseRow =
  pr_lease :: ProviderRouteLease
  pr_active_marker :: "string option"
  pr_released_at :: "time option"

type_synonym lease_table = "ProviderRouteLeaseRow list"

abbreviation row_id :: "ProviderRouteLeaseRow \<Rightarrow> string" where
  "row_id r \<equiv> pl_lease_id (pr_lease r)"

abbreviation row_key :: "ProviderRouteLeaseRow \<Rightarrow> lease_key" where
  "row_key r \<equiv> lease_key (pr_lease r)"

text \<open>\<^verbatim>\<open>session.get(ProviderRouteLeaseRow, lease_id)\<close> and the update of the row with that key.\<close>

definition row_get :: "lease_table \<Rightarrow> string \<Rightarrow> ProviderRouteLeaseRow option" where
  "row_get t lease_id = find (\<lambda>r. row_id r = lease_id) t"

definition row_set :: "lease_table \<Rightarrow> string \<Rightarrow> ProviderRouteLeaseRow \<Rightarrow> lease_table" where
  "row_set t lease_id row = map (\<lambda>r. if row_id r = lease_id then row else r) t"

definition row_to_lease :: "ProviderRouteLeaseRow \<Rightarrow> ProviderRouteLease" where
  "row_to_lease row = pr_lease row"

text \<open>The constraints of the table: primary key, unique lease token, and the unique constraint
  over (manager, connector, active marker), in which a NULL marker equals nothing.\<close>

definition row_conflicts :: "ProviderRouteLeaseRow \<Rightarrow> ProviderRouteLeaseRow \<Rightarrow> bool" where
  "row_conflicts new r \<longleftrightarrow>
     row_id r = row_id new \<or> pl_lease_token (pr_lease r) = pl_lease_token (pr_lease new)
     \<or> (row_key r = row_key new \<and> pr_active_marker r \<noteq> None
        \<and> pr_active_marker r = pr_active_marker new)"

definition db_insert :: "lease_table \<Rightarrow> ProviderRouteLeaseRow \<Rightarrow> lease_table option" where
  "db_insert t row = (if list_ex (row_conflicts row) t then None else Some (t @ [row]))"

definition marked_rows :: "lease_table \<Rightarrow> lease_key \<Rightarrow> ProviderRouteLeaseRow list" where
  "marked_rows t key = filter (\<lambda>r. row_key r = key \<and> pr_active_marker r = Some ''active'') t"

text \<open>\<^verbatim>\<open>result.scalar_one_or_none()\<close> raises when several rows match.\<close>

definition scalar_one_or_none :: "'a list \<Rightarrow> 'a option lease_result" where
  "scalar_one_or_none rows =
     (case rows of [] \<Rightarrow> Inr None | [r] \<Rightarrow> Inr (Some r) | _ \<Rightarrow> Inl MultipleResultsFound)"

text \<open>\<open>seen\<close> is the table the query reads, \<open>t\<close> the table at commit time; a failing commit is rolled
  back and reported as \<open>None\<close>.\<close>

definition db_acquire ::
  "lease_table \<Rightarrow> lease_table \<Rightarrow> ProviderRouteLease \<Rightarrow> lease_table \<times> ProviderRouteLease option lease_result"
  where
  "db_acquire seen t lease =
     (case scalar_one_or_none (marked_rows seen (lease_key lease)) of
        Inl e \<Rightarrow> (t, Inl e)
      | Inr (Some _) \<Rightarrow> (t, Inr None)
      | Inr None \<Rightarrow>
          (case db_insert t \<lparr>pr_lease = lease\<lparr>pl_status := ''active'', pl_recovery_status := None\<rparr>,
                             pr_active_marker = Some ''active'', pr_released_at = None\<rparr> of
             None \<Rightarrow> (t, Inr None)
           | Some t' \<Rightarrow> (t', Inr (Some lease))))"

definition db_renew ::
  "lease_table \<Rightarrow> string \<Rightarrow> string \<Rightarrow> string \<Rightarrow> int \<Rightarrow> time
   \<Rightarrow> lease_table \<times> ProviderRouteLease lease_result" where
  "db_renew t lease_id lease_token owner ttl now =
     (case row_get t lease_id of
        None \<Rightarrow> (t, Inl (ProviderRouteLeaseError ''lease_not_found'' ''lease not found''))
      | Some row \<Rightarrow>
          (let lease = pr_lease row
           in if pl_lease_token lease \<noteq> lease_token \<or> pl_owner_execution_id lease \<noteq> owner then
                (t, Inl (ProviderRouteLeaseError ''stale_lease_token'' ''lease token or owner mismatch''))
              else if pl_status lease \<noteq> ''active'' \<or> pr_active_marker row \<noteq> Some ''active'' then
                (t, Inl (ProviderRouteLeaseError ''lease_not_active''
                           (''lease status is '' @ pl_status lease)))
              else if pl_expires_at lease \<le> now then
                (row_set t lease_id (row\<lparr>pr_lease := lease\<lparr>pl_status := ''expired''\<rparr>,
                                         pr_active_marker := None\<rparr>),
                 Inl (ProviderRouteLeaseError ''lease_expired'' ''lease expired''))
              else
                (let row' = row\<lparr>pr_lease := lease\<lparr>pl_expires_at := now + ttl, pl_heartbeat_at := now\<rparr>\<rparr>
                 in (row_set t lease_id row', Inr (row_to_lease row')))))"

definition db_release ::
  "lease_table \<Rightarrow> string \<Rightarrow> string \<Rightarrow> string \<Rightarrow> time \<Rightarrow> time
   \<Rightarrow> lease_table \<times> ProviderRouteLease lease_result" where
  "db_release t lease_id lease_token owner now1 now2 =
     (case row_get t lease_id of
        None \<Rightarrow> (t, Inl (ProviderRouteLeaseError ''lease_not_found'' ''lease not found''))
      | Some row \<Rightarrow>
          (let lease = pr_lease row
           in if pl_lease_token lease \<noteq> lease_token \<or> pl_owner_execution_id lease \<noteq> owner then
                (t, Inl (ProviderRouteLeaseError ''stale_lease_token'' ''lease token or owner mismatch''))
              else if pl_status lease \<noteq> ''active'' \<or> pr_active_marker row = None then
                (t, Inl (ProviderRouteLeaseError ''duplicate_release'' ''lease already released''))
              else
                (let row' = row\<lparr>pr_lease := lease\<lparr>pl_status := ''released'', pl_heartbeat_at := now2\<rparr>,
                                pr_active_marker := None, pr_released_at := Some now1\<rparr>
                 in (row_set t lease_id row', Inr (row_to_lease row')))))"

definition db_get_active ::
  "lease_table \<Rightarrow> string \<Rightarrow> string \<Rightarrow> ProviderRouteLease option lease_result" where
  "db_get_active t manager_id connector_id =
     (case scalar_one_or_none (marked_rows t (manager_id, connector_id)) of
        Inl e \<Rightarrow> Inl e
      | Inr r \<Rightarrow> Inr (map_option row_to_lease r))"

definition db_list_expired_active :: "lease_table \<Rightarrow> time \<Rightarrow> ProviderRouteLease list" where
  "db_list_expired_active t moment =
     map row_to_lease (filter (\<lambda>r. pr_active_marker r = Some ''active''
        \<and> live_status (pl_status (pr_lease r)) \<and> pl_expires_at (pr_lease r) \<le> moment) t)"

definition db_claim_recovery ::
  "lease_table \<Rightarrow> string \<Rightarrow> string \<Rightarrow> string \<Rightarrow> time \<Rightarrow> lease_table \<times> ProviderRouteLease lease_result" where
  "db_claim_recovery t lease_id lease_token recovery_owner now =
     (case row_get t lease_id of
        None \<Rightarrow> (t, Inl (ProviderRouteLeaseError ''stale_lease_token'' ''invalid lease token''))
      | Some row \<Rightarrow>
          (let lease = pr_lease row
           in if pl_lease_token lease \<noteq> lease_token then
                (t, Inl (ProviderRouteLeaseError ''stale_lease_token'' ''invalid lease token''))
              else if pr_active_marker row \<noteq> Some ''active'' then
                (t, Inl (ProviderRouteLeaseError ''lease_not_active'' ''lease is not active''))
              else if pl_expires_at lease > now \<and> pl_status lease = ''active'' then
                (t, Inl (ProviderRouteLeaseError ''lease_not_expired'' ''lease has not expired''))
              else if pl_status lease = ''recovering'' \<and> claimed_by_other (pl_details lease) recovery_owner then
                (t, Inl (ProviderRouteLeaseError ''recovery_claimed''
                           ''recovery already claimed by another owner''))
              else
                (let row' = row\<lparr>pr_lease := lease\<lparr>pl_status := ''recovering'', pl_heartbeat_at := now,
                       pl_details := AList.update ''recovery_owner_id'' (PyStr recovery_owner)
                                       (pl_details lease)\<rparr>\<rparr>
                 in (row_set t lease_id row', Inr (row_to_lease row')))))"

definition db_mark_recovery ::
  "lease_table \<Rightarrow> string \<Rightarrow> string \<Rightarrow> string \<Rightarrow> pydict \<Rightarrow> time
   \<Rightarrow> lease_table \<times> ProviderRouteLease lease_result" where
  "db_mark_recovery t lease_id lease_token recovery_status details now =
     (case row_get t lease_id of
        None \<Rightarrow> (t, Inl (ProviderRouteLeaseError ''stale_lease_token'' ''invalid lease token''))
      | Some row \<Rightarrow>
          (let lease = pr_lease row
           in if pl_lease_token lease \<noteq> lease_token then
                (t, Inl (ProviderRouteLeaseError ''stale_lease_token'' ''invalid lease token''))
              else
                (let lease1 = lease\<lparr>pl_recovery_status := Some recovery_status,
                                    pl_details := dmerge (pl_details lease) details\<rparr>;
                     row' = (if clears_active recovery_status
                             then row\<lparr>pr_lease := lease1\<lparr>pl_status := ''expired''\<rparr>,
                                      pr_active_marker := None, pr_released_at := Some now\<rparr>
                             else row\<lparr>pr_lease := lease1\<rparr>)
                 in (row_set t lease_id row', Inr (row_to_lease row')))))"

text \<open>\<open>block_connector\<close> inserts an inactive audit row under fresh identifiers; a failing commit
  raises, which is \<open>None\<close> here.\<close>

definition db_block_connector ::
  "lease_table \<Rightarrow> string \<Rightarrow> string \<Rightarrow> string \<Rightarrow> string \<Rightarrow> time \<Rightarrow> string \<Rightarrow> string \<Rightarrow> lease_table option" where
  "db_block_connector t manager_id connector_id reason at now fresh_id fresh_token =
     db_insert t
       \<lparr>pr_lease =
          \<lparr>pl_lease_id = fresh_id, pl_manager_id = manager_id, pl_connector_id = connector_id,
           pl_owner_execution_id = ''recovery'', pl_lease_token = fresh_token,
           pl_status = ''blocked'', pl_original_state = [], pl_target_provider_id = None,
           pl_target_model_id = None, pl_acquired_at = now, pl_expires_at = now,
           pl_heartbeat_at = now, pl_recovery_status = Some ''recovery_failed'',
           pl_details = block_details reason at\<rparr>,
        pr_active_marker = None, pr_released_at = Some now\<rparr>"

text \<open>\<^verbatim>\<open>order_by(acquired_at.desc())\<close> and \<^verbatim>\<open>first()\<close>.\<close>

definition blocked_rows :: "lease_table \<Rightarrow> string \<Rightarrow> string \<Rightarrow> ProviderRouteLeaseRow list" where
  "blocked_rows t manager_id connector_id =
     filter (\<lambda>r. row_key r = (manager_id, connector_id) \<and> pl_status (pr_lease r) = ''blocked'') t"

definition db_is_blocked :: "lease_table \<Rightarrow> string \<Rightarrow> string \<Rightarrow> string option" where
  "db_is_blocked t manager_id connector_id =
     (case sort_key (\<lambda>r. - pl_acquired_at (pr_lease r)) (blocked_rows t manager_id connector_id) of
        [] \<Rightarrow> None
      | row # _ \<Rightarrow> Some (block_reason (pl_details (pr_lease row))))"

definition clear_row :: "string \<Rightarrow> string \<Rightarrow> ProviderRouteLeaseRow \<Rightarrow> ProviderRouteLeaseRow" where
  "clear_row manager_id connector_id r =
     (if row_key r = (manager_id, connector_id) \<and> pl_status (pr_lease r) = ''blocked''
      then r\<lparr>pr_lease := (pr_lease r)\<lparr>pl_status := ''block_cleared''\<rparr>\<rparr> else r)"

definition db_clear_block :: "lease_table \<Rightarrow> string \<Rightarrow> string \<Rightarrow> lease_table" where
  "db_clear_block t manager_id connector_id = map (clear_row manager_id connector_id) t"

section \<open>Steps\<close>

text \<open>
  The steps clients can make. Identifiers of new leases are fresh (\<^verbatim>\<open>uuid4\<close>). In the in-memory
  back end \<open>mark_recovery\<close> drops the marker of the key without looking at who holds it, so the step
  is restricted to the calls the coordinator makes, which hold the marker; the
  identifier of a \<open>block_connector\<close> sentinel is never the identifier of a lease that holds a marker.
\<close>

inductive memory_step :: "MemoryLeaseStore \<Rightarrow> MemoryLeaseStore \<Rightarrow> bool" where
  m_acquire: "map_of (ms_memory s) (pl_lease_id l) = None \<Longrightarrow> pl_lease_id l \<noteq> [] \<Longrightarrow>
     pl_status l = ''active'' \<Longrightarrow> memory_step s (fst (memory_acquire s l))"
| m_renew: "memory_step s (fst (memory_renew s i tok ow ttl now))"
| m_release: "memory_step s (fst (memory_release s i tok ow now))"
| m_claim: "memory_step s (fst (memory_claim_recovery s i tok ow now1 now2))"
| m_mark: "map_of (ms_memory s) i = Some l \<Longrightarrow> ms_by_key s (lease_key l) = Some i \<Longrightarrow>
     memory_step s (fst (memory_mark_recovery s i tok rs d))"
| m_block: "(\<And>k. ms_by_key s k \<noteq> Some (block_id m c)) \<Longrightarrow>
     memory_step s (memory_block_connector s m c reason at now)"
| m_clear: "(\<And>k. ms_by_key s k \<noteq> Some (block_id m c)) \<Longrightarrow>
     memory_step s (memory_clear_block s m c)"

inductive db_step :: "lease_table \<Rightarrow> lease_table \<Rightarrow> bool" where
  d_acquire: "db_step t (fst (db_acquire seen t l))"
| d_renew: "db_step t (fst (db_renew t i tok ow ttl now))"
| d_release: "db_step t (fst (db_release t i tok ow now1 now2))"
| d_claim: "db_step t (fst (db_claim_recovery t i tok ow now))"
| d_mark: "db_step t (fst (db_mark_recovery t i tok rs d now))"
| d_block: "db_block_connector t m c reason at now i tok = Some t' \<Longrightarrow> db_step t t'"
| d_clear: "db_step t (db_clear_block t m c)"

section \<open>The contract\<close>

text \<open>Two versions of a lease are the same grant when everything but the status, the clocks and the
  recovery notes agrees; in particular the saved original route state.\<close>

definition same_grant :: "ProviderRouteLease \<Rightarrow> ProviderRouteLease \<Rightarrow> bool" where
  "same_grant l l' \<longleftrightarrow>
     pl_lease_id l' = pl_lease_id l \<and> lease_key l' = lease_key l
     \<and> pl_owner_execution_id l' = pl_owner_execution_id l \<and> pl_lease_token l' = pl_lease_token l
     \<and> pl_original_state l' = pl_original_state l"

lemma same_grant_refl [simp]: "same_grant l l"
  by (simp add: same_grant_def)

lemma same_grant_trans: "same_grant a b \<Longrightarrow> same_grant b c \<Longrightarrow> same_grant a c"
  by (simp add: same_grant_def)

locale exclusive_store =
  fixes step :: "'s \<Rightarrow> 's \<Rightarrow> bool"
    and live :: "'s \<Rightarrow> lease_key \<Rightarrow> ProviderRouteLease set"
    and inv :: "'s \<Rightarrow> bool"
  assumes live_unique: "inv s \<Longrightarrow> l \<in> live s k \<Longrightarrow> l' \<in> live s k \<Longrightarrow> l = l'"
    and live_succession: "inv s \<Longrightarrow> step s s' \<Longrightarrow> l' \<in> live s' k \<Longrightarrow>
          live s k = {} \<or> (\<exists>l \<in> live s k. same_grant l l')"
    and inv_step: "inv s \<Longrightarrow> step s s' \<Longrightarrow> inv s'"
begin

lemma run_inv: "step\<^sup>*\<^sup>* s s' \<Longrightarrow> inv s \<Longrightarrow> inv s'"
  by (induction rule: rtranclp_induct) (auto intro: inv_step)

text \<open>As long as the key never becomes free, the lease that holds it is the same grant.\<close>

lemma no_takeover:
  assumes "(\<lambda>a b. step a b \<and> live b k \<noteq> {})\<^sup>*\<^sup>* s s'" and "inv s" and "l \<in> live s k"
  shows "\<exists>l' \<in> live s' k. same_grant l l'"
  using assms(1)
proof (induction rule: rtranclp_induct)
  case base
  show ?case by (rule bexI[of _ l]) (use assms(3) in simp_all)
next
  case (step a b)
  from step.hyps(1) have "step\<^sup>*\<^sup>* s a" by (rule mono_rtranclp[rule_format, rotated]) simp
  then have ia: "inv a" using assms(2) by (rule run_inv)
  from step obtain la where la: "la \<in> live a k" "same_grant l la" by blast
  from step.hyps(2) obtain lb where lb: "lb \<in> live b k" by blast
  with live_succession[OF ia _ lb] step.hyps(2) la(1) obtain l0 where "l0 \<in> live a k" "same_grant l0 lb"
    by blast
  with live_unique[OF ia la(1)] la(2) lb show ?case by (auto intro: same_grant_trans)
qed

end

section \<open>The in-memory back end keeps the contract\<close>

definition memory_live :: "MemoryLeaseStore \<Rightarrow> lease_key \<Rightarrow> ProviderRouteLease set" where
  "memory_live s k =
     {l. \<exists>i. map_of (ms_memory s) i = Some l \<and> live_status (pl_status l) \<and> lease_key l = k}"

definition memory_inv :: "MemoryLeaseStore \<Rightarrow> bool" where
  "memory_inv s \<longleftrightarrow> dict_ok (ms_memory s)
     \<and> (\<forall>i l. map_of (ms_memory s) i = Some l \<longrightarrow> pl_lease_id l = i
          \<and> (live_status (pl_status l) \<longrightarrow> ms_by_key s (lease_key l) = Some i \<and> i \<noteq> []))
     \<and> (\<forall>k i. ms_by_key s k = Some i \<longrightarrow> (\<exists>l. map_of (ms_memory s) i = Some l \<and> lease_key l = k
          \<and> live_status (pl_status l)))"

lemma live_status_simps [simp]:
  "live_status ''active''" "live_status ''recovering''" "\<not> live_status ''released''"
  "\<not> live_status ''expired''" "\<not> live_status ''blocked''" "\<not> live_status ''block_cleared''"
  by (simp_all add: live_status_def)

lemma lease_key_update [simp]:
  "lease_key (l\<lparr>pl_status := a\<rparr>) = lease_key l" "lease_key (l\<lparr>pl_heartbeat_at := b\<rparr>) = lease_key l"
  "lease_key (l\<lparr>pl_expires_at := b\<rparr>) = lease_key l" "lease_key (l\<lparr>pl_details := d\<rparr>) = lease_key l"
  "lease_key (l\<lparr>pl_recovery_status := e\<rparr>) = lease_key l"
  by (simp_all add: lease_key_def)

lemma memory_inv_lookup:
  assumes "memory_inv s" and "map_of (ms_memory s) i = Some l"
  shows "pl_lease_id l = i" and "live_status (pl_status l) \<Longrightarrow> ms_by_key s (lease_key l) = Some i \<and> i \<noteq> []"
  using assms by (auto simp: memory_inv_def)

lemma memory_inv_marker:
  "memory_inv s \<Longrightarrow> ms_by_key s k = Some i \<Longrightarrow>
   \<exists>l. map_of (ms_memory s) i = Some l \<and> lease_key l = k \<and> live_status (pl_status l)"
  unfolding memory_inv_def by blast

text \<open>Rewriting the stored version of a lease, and dropping the marker of a lease that is no longer
  live: the two moves all operations but \<open>acquire\<close> are made of.\<close>

lemma memory_put_inv:
  assumes "memory_inv s" and "pl_lease_id l' = i"
    and "live_status (pl_status l') \<Longrightarrow> ms_by_key s (lease_key l') = Some i \<and> i \<noteq> []"
    and "\<And>k. ms_by_key s k = Some i \<Longrightarrow> lease_key l' = k \<and> live_status (pl_status l')"
  shows "memory_inv (memory_put s i l')"
  using assms by (auto simp: memory_inv_def memory_put_def simp del: split_paired_All)

lemma memory_live_put:
  assumes "l' \<in> memory_live (memory_put s i x) k"
  shows "l' = x \<or> l' \<in> memory_live s k"
  using assms by (auto simp: memory_live_def memory_put_def split: if_splits)

lemma memory_live_pop [simp]: "memory_live (memory_pop_key s k') k = memory_live s k"
  by (simp add: memory_live_def memory_pop_key_def)

definition memory_succession :: "MemoryLeaseStore \<Rightarrow> MemoryLeaseStore \<Rightarrow> bool" where
  "memory_succession s s' \<longleftrightarrow> (\<forall>k l'. l' \<in> memory_live s' k \<longrightarrow>
     memory_live s k = {} \<or> (\<exists>l \<in> memory_live s k. same_grant l l'))"

lemma memory_succession_subset:
  "(\<And>k. memory_live s' k \<subseteq> memory_live s k) \<Longrightarrow> memory_succession s s'"
  unfolding memory_succession_def using same_grant_refl by blast

lemma memory_succession_put:
  assumes "map_of (ms_memory s) i = Some l" and "same_grant l x"
    and "live_status (pl_status x) \<Longrightarrow> live_status (pl_status l)"
  shows "memory_succession s (memory_put s i x)"
  unfolding memory_succession_def
proof (intro allI impI)
  fix k l'
  assume l': "l' \<in> memory_live (memory_put s i x) k"
  from memory_live_put[OF l'] show "memory_live s k = {} \<or> (\<exists>l \<in> memory_live s k. same_grant l l')"
  proof
    assume "l' = x"
    with l' assms have "l \<in> memory_live s k" by (auto simp: memory_live_def same_grant_def)
    with \<open>l' = x\<close> assms(2) show ?thesis by blast
  next
    assume "l' \<in> memory_live s k"
    then show ?thesis using same_grant_refl by blast
  qed
qed

lemma memory_rewrite:
  assumes "memory_inv s" and "map_of (ms_memory s) i = Some l" and "same_grant l x"
    and "live_status (pl_status x) \<longleftrightarrow> live_status (pl_status l)"
  shows "memory_inv (memory_put s i x)" and "memory_succession s (memory_put s i x)"
proof -
  show "memory_inv (memory_put s i x)"
    using assms memory_inv_lookup[OF assms(1,2)]
    by (intro memory_put_inv) (auto simp: same_grant_def dest: memory_inv_marker)
  show "memory_succession s (memory_put s i x)"
    using assms by (intro memory_succession_put) auto
qed

lemma memory_retire:
  assumes "memory_inv s" and "map_of (ms_memory s) i = Some l" and "same_grant l x"
    and "\<not> live_status (pl_status x)" and "ms_by_key s (lease_key l) = Some i"
  shows "memory_inv (memory_pop_key (memory_put s i x) (lease_key l))"
    and "memory_succession s (memory_pop_key (memory_put s i x) (lease_key l))"
proof -
  have only: "j = i" if "map_of (ms_memory s) j = Some m" "live_status (pl_status m)" "lease_key m = lease_key l" for j m
    using memory_inv_lookup(2)[OF assms(1) that(1,2)] that(3) assms(5) by simp
  have other: "k \<noteq> lease_key l \<Longrightarrow> ms_by_key s k \<noteq> Some i" for k
    using memory_inv_marker[OF assms(1)] assms(2) by fastforce
  show "memory_inv (memory_pop_key (memory_put s i x) (lease_key l))"
    using assms only other
    by (auto simp: memory_inv_def memory_pop_key_def memory_put_def same_grant_def simp del: split_paired_All)
  show "memory_succession s (memory_pop_key (memory_put s i x) (lease_key l))"
    using memory_succession_put[OF assms(2,3)] assms(4) by (simp add: memory_succession_def)
qed

lemma memory_busy:
  assumes "memory_inv s"
  shows "memory_live s k \<noteq> {} \<longleftrightarrow>
    (case ms_by_key s k of None \<Rightarrow> False
     | Some i \<Rightarrow> i \<noteq> [] \<and> (case map_of (ms_memory s) i of None \<Rightarrow> False | Some e \<Rightarrow> live_status (pl_status e)))"
proof (cases "ms_by_key s k")
  case None
  then show ?thesis using memory_inv_lookup(2)[OF assms] by (force simp: memory_live_def)
next
  case (Some i)
  then obtain e where "map_of (ms_memory s) i = Some e" "lease_key e = k"
    using memory_inv_marker[OF assms Some] by blast
  with Some memory_inv_lookup(2)[OF assms] show ?thesis by (force simp: memory_live_def)
qed

lemma memory_acquire_eq:
  assumes "memory_inv s"
  shows "memory_acquire s l =
    (if memory_live s (lease_key l) \<noteq> {} then (s, None)
     else (s\<lparr>ms_memory := AList.update (pl_lease_id l) l (ms_memory s),
             ms_by_key := (ms_by_key s)(lease_key l \<mapsto> pl_lease_id l)\<rparr>, Some l))"
  unfolding memory_busy[OF assms] memory_acquire_def Let_def by (rule refl)

lemma memory_acquire_step:
  assumes "memory_inv s" and "map_of (ms_memory s) (pl_lease_id l) = None" and "pl_lease_id l \<noteq> []"
    and "pl_status l = ''active''"
  shows "memory_inv (fst (memory_acquire s l))" and "memory_succession s (fst (memory_acquire s l))"
proof -
  have nomark: "ms_by_key s k \<noteq> Some (pl_lease_id l)" for k
    using memory_inv_marker[OF assms(1)] assms(2) by fastforce
  have free: "memory_live s (lease_key l) = {} \<Longrightarrow> map_of (ms_memory s) i = Some e \<Longrightarrow>
      live_status (pl_status e) \<Longrightarrow> lease_key e \<noteq> lease_key l" for i e
    by (auto simp: memory_live_def)
  show "memory_inv (fst (memory_acquire s l))"
    using assms nomark free unfolding memory_acquire_eq[OF assms(1)]
    by (auto simp: memory_inv_def simp del: split_paired_All)
  show "memory_succession s (fst (memory_acquire s l))"
  proof (cases "memory_live s (lease_key l) = {}")
    case True
    have "l' = l \<or> l' \<in> memory_live s k" if "l' \<in> memory_live (fst (memory_acquire s l)) k" for k l'
      using that True unfolding memory_acquire_eq[OF assms(1)] by (auto simp: memory_live_def split: if_splits)
    moreover have "l \<in> memory_live (fst (memory_acquire s l)) k \<Longrightarrow> k = lease_key l" for k
      by (auto simp: memory_live_def)
    ultimately show ?thesis unfolding memory_succession_def using True same_grant_refl by metis
  next
    case False
    then show ?thesis by (simp add: memory_acquire_eq[OF assms(1)] memory_succession_subset)
  qed
qed

lemma memory_claim_step:
  assumes "memory_inv s"
  shows "memory_inv (fst (memory_claim_recovery s i tok ow now1 now2))
    \<and> memory_succession s (fst (memory_claim_recovery s i tok ow now1 now2))"
proof (cases "\<exists>l. snd (memory_claim_recovery s i tok ow now1 now2) = Inr l")
  case False
  then show ?thesis using assms
    by (auto simp: memory_claim_recovery_def Let_def memory_succession_subset split: option.splits if_splits)
next
  case True
  then obtain l x where l: "map_of (ms_memory s) i = Some l" "ms_by_key s (lease_key l) = Some i"
    and x: "fst (memory_claim_recovery s i tok ow now1 now2) = memory_put s i x"
    "same_grant l x" "pl_status x = ''recovering''"
    by (auto simp: memory_claim_recovery_def same_grant_def Let_def split: option.splits if_splits)
  from memory_inv_marker[OF assms l(2)] l(1) have "live_status (pl_status l)" by auto
  with memory_rewrite[OF assms l(1) x(2)] x show ?thesis by simp
qed

lemma memory_sentinel_step:
  assumes "memory_inv s" and "\<And>k. ms_by_key s k \<noteq> Some (block_id m c)"
  shows "memory_inv (memory_block_connector s m c reason at now)
      \<and> memory_succession s (memory_block_connector s m c reason at now)"
    and "memory_inv (memory_clear_block s m c) \<and> memory_succession s (memory_clear_block s m c)"
proof -
  show "memory_inv (memory_block_connector s m c reason at now)
      \<and> memory_succession s (memory_block_connector s m c reason at now)"
    using assms
    by (auto simp: memory_block_connector_def memory_live_def memory_put_def
        intro!: memory_put_inv[unfolded memory_put_def] memory_succession_subset split: if_splits)
  show "memory_inv (memory_clear_block s m c) \<and> memory_succession s (memory_clear_block s m c)"
    using assms
    by (auto simp: memory_inv_def memory_clear_block_def memory_live_def
        intro!: memory_succession_subset split: if_splits simp del: split_paired_All)
qed

lemma memory_step_ok:
  assumes "memory_inv s" and "memory_step s s'"
  shows "memory_inv s' \<and> memory_succession s s'"
  using assms(2)
proof cases
  case (m_acquire l)
  then show ?thesis using memory_acquire_step[OF assms(1)] by simp
next
  case (m_renew i tok ow ttl now)
  then show ?thesis
    using assms(1) memory_rewrite[OF assms(1), of i] memory_succession_subset[of s s]
    by (auto simp: memory_renew_def same_grant_def Let_def split: option.splits)
next
  case (m_release i tok ow now)
  then show ?thesis
    using assms(1) memory_retire[OF assms(1), of i] memory_inv_lookup(2)[OF assms(1), of i]
      memory_succession_subset[of s s]
    by (auto simp: memory_release_def same_grant_def Let_def split: option.splits)
next
  case (m_claim i tok ow now1 now2)
  then show ?thesis using memory_claim_step[OF assms(1)] by simp
next
  case (m_mark i l tok rs d)
  then show ?thesis
    using assms(1) memory_rewrite[OF assms(1), of i l] memory_retire[OF assms(1), of i l]
      memory_succession_subset[of s s]
    by (auto simp: memory_mark_recovery_def same_grant_def Let_def split: option.splits)
next
  case (m_block m c reason at now)
  then show ?thesis using memory_sentinel_step(1)[OF assms(1)] by simp
next
  case (m_clear m c)
  then show ?thesis using memory_sentinel_step(2)[OF assms(1)] by simp
qed

lemma memory_live_unique:
  assumes "memory_inv s" and "l \<in> memory_live s k" and "l' \<in> memory_live s k"
  shows "l = l'"
proof -
  from assms(2,3) obtain i i' where m: "map_of (ms_memory s) i = Some l" "map_of (ms_memory s) i' = Some l'"
    and "live_status (pl_status l)" "live_status (pl_status l')" "lease_key l = k" "lease_key l' = k"
    by (auto simp: memory_live_def)
  then have "i = i'" using memory_inv_lookup(2)[OF assms(1)] by (metis option.inject)
  with m show ?thesis by simp
qed

interpretation memory_store: exclusive_store memory_step memory_live memory_inv
proof unfold_locales
  fix s s' l l' k
  show "memory_inv s \<Longrightarrow> l \<in> memory_live s k \<Longrightarrow> l' \<in> memory_live s k \<Longrightarrow> l = l'"
    by (rule memory_live_unique)
  show "memory_inv s \<Longrightarrow> memory_step s s' \<Longrightarrow> memory_inv s'" using memory_step_ok by blast
  show "memory_inv s \<Longrightarrow> memory_step s s' \<Longrightarrow> l' \<in> memory_live s' k \<Longrightarrow>
      memory_live s k = {} \<or> (\<exists>l \<in> memory_live s k. same_grant l l')"
    using memory_step_ok unfolding memory_succession_def by blast
qed

section \<open>The SQL back end keeps the contract\<close>

definition marked :: "ProviderRouteLeaseRow \<Rightarrow> bool" where
  "marked r \<longleftrightarrow> pr_active_marker r = Some ''active''"

definition db_live :: "lease_table \<Rightarrow> lease_key \<Rightarrow> ProviderRouteLease set" where
  "db_live t k = {pr_lease r |r. r \<in> set t \<and> marked r \<and> row_key r = k}"

definition marker_unique :: "lease_table \<Rightarrow> bool" where
  "marker_unique t \<longleftrightarrow>
     (\<forall>r \<in> set t. \<forall>r' \<in> set t. marked r \<longrightarrow> marked r' \<longrightarrow> row_key r = row_key r' \<longrightarrow> row_id r = row_id r')"

definition db_inv :: "lease_table \<Rightarrow> bool" where
  "db_inv t \<longleftrightarrow> distinct (map row_id t) \<and> marker_unique t
     \<and> (\<forall>r \<in> set t. (marked r \<or> pr_active_marker r = None)
          \<and> (live_status (pl_status (pr_lease r)) \<longleftrightarrow> marked r))"

definition db_succession :: "lease_table \<Rightarrow> lease_table \<Rightarrow> bool" where
  "db_succession t t' \<longleftrightarrow> (\<forall>k l'. l' \<in> db_live t' k \<longrightarrow>
     db_live t k = {} \<or> (\<exists>l \<in> db_live t k. same_grant l l'))"

lemma db_succession_refl [simp]: "db_succession t t"
  unfolding db_succession_def using same_grant_refl by blast

lemma row_getD: "row_get t i = Some row \<Longrightarrow> row \<in> set t \<and> row_id row = i"
  by (auto simp: row_get_def find_Some_iff)

lemma distinct_row_id: "distinct (map row_id t) \<Longrightarrow> r \<in> set t \<Longrightarrow> r' \<in> set t \<Longrightarrow> row_id r = row_id r' \<Longrightarrow> r = r'"
  by (simp add: distinct_map inj_on_def)

lemma set_row_set:
  "distinct (map row_id t) \<Longrightarrow> row \<in> set t \<Longrightarrow> row_id row = i \<Longrightarrow>
   set (row_set t i row') = insert row' (set t - {row})"
  by (auto simp: row_set_def dest: distinct_row_id)

lemma map_row_id_row_set: "row_id row' = i \<Longrightarrow> map row_id (row_set t i row') = map row_id t"
  by (auto simp: row_set_def)

lemma db_rewrite:
  assumes "db_inv t" and "row_get t i = Some row"
    and "same_grant (pr_lease row) (pr_lease row')"
    and "marked row' \<Longrightarrow> marked row" and "marked row' \<or> pr_active_marker row' = None"
    and "live_status (pl_status (pr_lease row')) \<longleftrightarrow> marked row'"
  shows "db_inv (row_set t i row') \<and> db_succession t (row_set t i row')"
proof -
  from row_getD[OF assms(2)] have row: "row \<in> set t" "row_id row = i" by auto
  have d: "distinct (map row_id t)" using assms(1) by (simp add: db_inv_def)
  have ids: "row_id row' = i" "row_key row' = row_key row"
    using assms(3) row by (auto simp: same_grant_def)
  note st = set_row_set[OF d row]
  have "marker_unique (row_set t i row')"
    using assms(1,4) ids row unfolding db_inv_def marker_unique_def st by (metis Diff_iff insert_iff)
  then have "db_inv (row_set t i row')"
    using assms ids row unfolding db_inv_def st map_row_id_row_set[OF ids(1)] by auto
  moreover have "db_succession t (row_set t i row')"
    unfolding db_succession_def
  proof (intro allI impI)
    fix k l'
    assume "l' \<in> db_live (row_set t i row') k"
    then consider "l' \<in> db_live t k" | "l' = pr_lease row'" "marked row'" "row_key row' = k"
      by (auto simp: db_live_def st)
    then show "db_live t k = {} \<or> (\<exists>l \<in> db_live t k. same_grant l l')"
    proof cases
      case 1
      then show ?thesis using same_grant_refl by blast
    next
      case 2
      then have "pr_lease row \<in> db_live t k" using assms(4) ids row by (auto simp: db_live_def)
      with 2 assms(3) show ?thesis by blast
    qed
  qed
  ultimately show ?thesis by simp
qed

lemma db_insert_ok:
  assumes "db_inv t" and "db_insert t row = Some t'"
    and "marked row \<or> pr_active_marker row = None"
    and "live_status (pl_status (pr_lease row)) \<longleftrightarrow> marked row"
  shows "db_inv t' \<and> db_succession t t' \<and> (marked row \<longrightarrow> db_live t (row_key row) = {})"
proof -
  from assms(2) have t': "t' = t @ [row]" and nc: "\<And>r. r \<in> set t \<Longrightarrow> \<not> row_conflicts row r"
    by (auto simp: db_insert_def list_ex_iff split: if_splits)
  have free: "marked row \<Longrightarrow> r \<in> set t \<Longrightarrow> marked r \<Longrightarrow> row_key r \<noteq> row_key row" for r
    using nc[of r] by (auto simp: row_conflicts_def marked_def)
  have "row_id row \<notin> row_id ` set t" using nc unfolding row_conflicts_def by (metis imageE)
  moreover have "marker_unique t'"
    using assms(1) free unfolding db_inv_def marker_unique_def t' set_append
    by (metis Un_iff empty_iff insert_iff list.set(1) list.set(2))
  ultimately have "db_inv t'" using assms unfolding db_inv_def t' by auto
  moreover have "db_succession t t'"
    unfolding db_succession_def t'
  proof (intro allI impI)
    fix k l'
    assume "l' \<in> db_live (t @ [row]) k"
    then consider "l' \<in> db_live t k" | "marked row" "row_key row = k" by (auto simp: db_live_def)
    then show "db_live t k = {} \<or> (\<exists>l \<in> db_live t k. same_grant l l')"
    proof cases
      case 1
      then show ?thesis using same_grant_refl by blast
    next
      case 2
      then show ?thesis using free by (auto simp: db_live_def)
    qed
  qed
  moreover have "marked row \<longrightarrow> db_live t (row_key row) = {}" using free by (auto simp: db_live_def)
  ultimately show ?thesis by simp
qed

lemma clear_row_simps [simp]:
  "row_id (clear_row m c r) = row_id r" "row_key (clear_row m c r) = row_key r"
  "marked (clear_row m c r) = marked r" "pr_active_marker (clear_row m c r) = pr_active_marker r"
  "live_status (pl_status (pr_lease (clear_row m c r))) = live_status (pl_status (pr_lease r))"
  by (auto simp: clear_row_def marked_def)

lemma clear_row_same_grant: "same_grant (pr_lease r) (pr_lease (clear_row m c r))"
  by (simp add: clear_row_def same_grant_def)

lemma marker_unique_clear:
  assumes "marker_unique t"
  shows "marker_unique (map (clear_row m c) t)"
  unfolding marker_unique_def set_map
proof (intro ballI impI, elim imageE)
  fix r r' a a'
  assume "r = clear_row m c a" "a \<in> set t" "r' = clear_row m c a'" "a' \<in> set t"
    and "marked r" "marked r'" "row_key r = row_key r'"
  then show "row_id r = row_id r'" using assms unfolding marker_unique_def by (metis clear_row_simps(1,2,3))
qed

lemma db_clear_ok:
  assumes "db_inv t"
  shows "db_inv (db_clear_block t m c) \<and> db_succession t (db_clear_block t m c)"
proof
  show "db_inv (db_clear_block t m c)"
    using assms marker_unique_clear[of t m c] by (simp add: db_inv_def db_clear_block_def comp_def)
  show "db_succession t (db_clear_block t m c)"
    unfolding db_succession_def
  proof (intro allI impI disjI2)
    fix k l'
    assume "l' \<in> db_live (db_clear_block t m c) k"
    then obtain r where "r \<in> set t" "l' = pr_lease (clear_row m c r)" "marked r" "row_key r = k"
      by (auto simp: db_live_def db_clear_block_def)
    then show "\<exists>l \<in> db_live t k. same_grant l l'"
      using clear_row_same_grant by (auto simp: db_live_def)
  qed
qed

lemma db_inv_row:
  assumes "db_inv t" and "row_get t i = Some row"
  shows "live_status (pl_status (pr_lease row)) \<longleftrightarrow> marked row" and "marked row \<or> pr_active_marker row = None"
  using assms row_getD[OF assms(2)] by (auto simp: db_inv_def)

lemmas db_update_defs = db_renew_def db_release_def db_claim_recovery_def db_mark_recovery_def

lemma db_update_ok:
  assumes "db_inv t"
  shows "db_inv (fst (db_renew t i tok ow ttl now)) \<and> db_succession t (fst (db_renew t i tok ow ttl now))"
    and "db_inv (fst (db_release t i tok ow now now2)) \<and> db_succession t (fst (db_release t i tok ow now now2))"
    and "db_inv (fst (db_claim_recovery t i tok ow now)) \<and> db_succession t (fst (db_claim_recovery t i tok ow now))"
    and "db_inv (fst (db_mark_recovery t i tok rs d now)) \<and> db_succession t (fst (db_mark_recovery t i tok rs d now))"
proof -
  have rw: "db_inv (row_set t i row')" "db_succession t (row_set t i row')"
    if "row_get t i = Some row" "same_grant (pr_lease row) (pr_lease row')" "marked row' \<Longrightarrow> marked row"
      "marked row' \<or> pr_active_marker row' = None" "live_status (pl_status (pr_lease row')) \<longleftrightarrow> marked row'" for row row'
    using db_rewrite[OF assms that] by auto
  note row = db_inv_row[OF assms]
  show "db_inv (fst (db_renew t i tok ow ttl now)) \<and> db_succession t (fst (db_renew t i tok ow ttl now))"
    using assms by (auto simp: db_renew_def Let_def marked_def same_grant_def split: option.split intro!: rw)
  show "db_inv (fst (db_release t i tok ow now now2)) \<and> db_succession t (fst (db_release t i tok ow now now2))"
    using assms by (auto simp: db_release_def Let_def marked_def same_grant_def split: option.split intro!: rw)
  show "db_inv (fst (db_claim_recovery t i tok ow now)) \<and> db_succession t (fst (db_claim_recovery t i tok ow now))"
    using assms by (auto simp: db_claim_recovery_def Let_def marked_def same_grant_def split: option.split intro!: rw)
  show "db_inv (fst (db_mark_recovery t i tok rs d now)) \<and> db_succession t (fst (db_mark_recovery t i tok rs d now))"
    using assms row
    by (auto simp: db_mark_recovery_def Let_def marked_def same_grant_def split: option.split intro!: rw)
      (metis option.distinct(1) option.inject)+
qed

lemma db_acquire_ok:
  assumes "db_inv t"
  shows "db_inv (fst (db_acquire seen t l)) \<and> db_succession t (fst (db_acquire seen t l))"
    and "snd (db_acquire seen t l) = Inr (Some l') \<Longrightarrow> db_live t (lease_key l) = {}"
proof -
  let ?row = "\<lparr>pr_lease = l\<lparr>pl_status := ''active'', pl_recovery_status := None\<rparr>,
               pr_active_marker = Some ''active'', pr_released_at = None\<rparr>"
  have ins: "db_inv t' \<and> db_succession t t' \<and> db_live t (lease_key l) = {}" if "db_insert t ?row = Some t'" for t'
    using db_insert_ok[OF assms that] by (simp add: marked_def)
  show "db_inv (fst (db_acquire seen t l)) \<and> db_succession t (fst (db_acquire seen t l))"
    using assms ins by (auto simp: db_acquire_def split: sum.split option.split)
  show "snd (db_acquire seen t l) = Inr (Some l') \<Longrightarrow> db_live t (lease_key l) = {}"
    using ins by (auto simp: db_acquire_def split: sum.splits option.splits)
qed

lemma db_step_ok:
  assumes "db_inv t" and "db_step t t'"
  shows "db_inv t' \<and> db_succession t t'"
  using assms(2)
proof cases
  case (d_block m c reason at now i tok)
  then have "db_insert t \<lparr>pr_lease =
          \<lparr>pl_lease_id = i, pl_manager_id = m, pl_connector_id = c, pl_owner_execution_id = ''recovery'',
           pl_lease_token = tok, pl_status = ''blocked'', pl_original_state = [],
           pl_target_provider_id = None, pl_target_model_id = None, pl_acquired_at = now,
           pl_expires_at = now, pl_heartbeat_at = now, pl_recovery_status = Some ''recovery_failed'',
           pl_details = block_details reason at\<rparr>, pr_active_marker = None, pr_released_at = Some now\<rparr> = Some t'"
    by (simp add: db_block_connector_def)
  from db_insert_ok[OF assms(1) this] show ?thesis by (simp add: marked_def)
qed (use assms(1) db_acquire_ok(1) db_update_ok db_clear_ok in simp_all)

lemma db_live_unique:
  assumes "db_inv t" and "l \<in> db_live t k" and "l' \<in> db_live t k"
  shows "l = l'"
proof -
  from assms(2,3) obtain r r' where "r \<in> set t" "r' \<in> set t" "l = pr_lease r" "l' = pr_lease r'"
    and "marked r" "marked r'" "row_key r = k" "row_key r' = k" by (auto simp: db_live_def)
  with assms(1) have "r = r'" unfolding db_inv_def marker_unique_def by (metis distinct_row_id)
  with \<open>l = pr_lease r\<close> \<open>l' = pr_lease r'\<close> show ?thesis by simp
qed

interpretation db_store: exclusive_store db_step db_live db_inv
proof unfold_locales
  fix s s' l l' k
  show "db_inv s \<Longrightarrow> l \<in> db_live s k \<Longrightarrow> l' \<in> db_live s k \<Longrightarrow> l = l'" by (rule db_live_unique)
  show "db_inv s \<Longrightarrow> db_step s s' \<Longrightarrow> db_inv s'" using db_step_ok by blast
  show "db_inv s \<Longrightarrow> db_step s s' \<Longrightarrow> l' \<in> db_live s' k \<Longrightarrow>
      db_live s k = {} \<or> (\<exists>l \<in> db_live s k. same_grant l l')"
    using db_step_ok unfolding db_succession_def by blast
qed

section \<open>Recovery\<close>

lemma db_inv_empty: "db_inv []"
  by (simp add: db_inv_def marker_unique_def)

lemma memory_inv_init: "memory_inv init_MemoryLeaseStore"
  by (simp add: memory_inv_def init_MemoryLeaseStore_def)

lemma row_get_row_set:
  "distinct (map row_id t) \<Longrightarrow> row_get t i = Some row \<Longrightarrow> row_id row' = i \<Longrightarrow>
   row_get (row_set t i row') i = Some row'"
  by (induction t) (auto simp: row_get_def row_set_def split: if_splits)

lemma db_claim_InrD:
  assumes "db_inv t" and "db_claim_recovery t i tok ow now = (t', Inr l)"
  shows "\<exists>row. row_get t' i = Some row \<and> pr_lease row = l \<and> marked row \<and> pl_status l = ''recovering''
     \<and> dget (pl_details l) ''recovery_owner_id'' = PyStr ow \<and> pl_lease_token l = tok"
proof -
  obtain row where row: "row_get t i = Some row" and tok: "pl_lease_token (pr_lease row) = tok"
    and mk: "marked row"
    and eq: "(t', Inr l) = (let row' = row\<lparr>pr_lease := (pr_lease row)\<lparr>pl_status := ''recovering'',
        pl_heartbeat_at := now, pl_details := AList.update ''recovery_owner_id'' (PyStr ow) (pl_details (pr_lease row))\<rparr>\<rparr>
      in (row_set t i row', Inr (row_to_lease row')))"
    using assms(2) unfolding db_claim_recovery_def Let_def
    by (cases "row_get t i") (simp_all add: marked_def split: if_splits)
  define row' where "row' = row\<lparr>pr_lease := (pr_lease row)\<lparr>pl_status := ''recovering'',
        pl_heartbeat_at := now, pl_details := AList.update ''recovery_owner_id'' (PyStr ow) (pl_details (pr_lease row))\<rparr>\<rparr>"
  have t': "t' = row_set t i row'" "l = pr_lease row'" using eq by (simp_all add: row'_def row_to_lease_def Let_def)
  have "row_get t' i = Some row'"
    using assms(1) row row_getD[OF row] unfolding t'
    by (intro row_get_row_set[where row = row]) (auto simp: db_inv_def row'_def)
  moreover have "marked row'" using mk by (simp add: row'_def marked_def)
  ultimately show ?thesis using t' tok by (simp add: row'_def dget_def)
qed

lemma marked_rows_live: "marked_rows t k \<noteq> [] \<longleftrightarrow> db_live t k \<noteq> {}"
  by (auto simp: marked_rows_def db_live_def marked_def filter_empty_conv)

lemma db_acquire_busy:
  "db_live t (lease_key l) \<noteq> {} \<Longrightarrow> fst (db_acquire t t l) = t \<and> snd (db_acquire t t l) \<noteq> Inr (Some l')"
  using marked_rows_live[of t "lease_key l"]
  by (auto simp: db_acquire_def scalar_one_or_none_def split: list.splits)

section \<open>Properties\<close>

text \<open>C15: Cross-process mutual exclusion of the SQL back end. After any sequence of acquisitions,
  renewals, releases, recovery claims and marks, blocks and unblocks, at most one lease per
  manager/connector is live, and an acquisition is granted only if none is live at commit time, even
  when its initial query read an older table.\<close>

theorem db_route_lease_exclusive:
  assumes "db_step\<^sup>*\<^sup>* [] t"
  shows "(l \<in> db_live t k \<and> l' \<in> db_live t k \<longrightarrow> l = l')
    \<and> (snd (db_acquire seen t x) = Inr (Some y) \<longrightarrow> db_live t (lease_key x) = {})"
proof -
  have "db_inv t" using db_store.run_inv[OF assms db_inv_empty] .
  then show ?thesis using db_store.live_unique db_acquire_ok(2) by blast
qed

definition example_route_lease :: "string \<Rightarrow> string \<Rightarrow> string \<Rightarrow> ProviderRouteLease" where
  "example_route_lease lease_id token owner =
     new_lease ''fireconnect'' ''codex'' owner 120 [(''enabled'', PyBool False)] (Some ''fireworks'') None []
       lease_id token 0"

theorem db_route_lease_exclusive_witness:
  "snd (db_acquire [] [] (example_route_lease ''i1'' ''tok1'' ''e1'')) = Inr (Some (example_route_lease ''i1'' ''tok1'' ''e1''))
   \<and> snd (db_acquire [] (fst (db_acquire [] [] (example_route_lease ''i1'' ''tok1'' ''e1'')))
            (example_route_lease ''i2'' ''tok2'' ''e2'')) \<noteq> Inr (Some (example_route_lease ''i2'' ''tok2'' ''e2''))"
proof -
  let ?a = "example_route_lease ''i1'' ''tok1'' ''e1''"
  let ?b = "example_route_lease ''i2'' ''tok2'' ''e2''"
  let ?t = "fst (db_acquire [] [] ?a)"
  have run: "db_step\<^sup>*\<^sup>* [] ?t" by (rule r_into_rtranclp) (rule d_acquire)
  have live: "db_live ?t (lease_key ?b) \<noteq> {}"
    by (simp add: db_live_def db_acquire_def marked_rows_def scalar_one_or_none_def db_insert_def
        marked_def example_route_lease_def new_lease_def lease_key_def)
  have "snd (db_acquire [] [] ?a) = Inr (Some ?a)"
    by (simp add: db_acquire_def marked_rows_def scalar_one_or_none_def db_insert_def)
  then show ?thesis using db_route_lease_exclusive[OF run, of _ _ _ "[]" ?b ?b] live by blast
qed

text \<open>Mutual exclusion of the in-memory back end. In every reachable state at most one lease per
  manager/connector is live, and an acquisition under a fresh identifier is granted if and only if
  none is.\<close>

theorem memory_route_lease_exclusive:
  assumes "memory_step\<^sup>*\<^sup>* init_MemoryLeaseStore s"
  shows "(l \<in> memory_live s k \<and> l' \<in> memory_live s k \<longrightarrow> l = l')
    \<and> (snd (memory_acquire s x) = Some x \<longleftrightarrow> memory_live s (lease_key x) = {})"
proof -
  have "memory_inv s" using memory_store.run_inv[OF assms memory_inv_init] .
  then show ?thesis using memory_store.live_unique[of s l k l'] memory_acquire_eq[of s x] by simp
qed

theorem memory_route_lease_exclusive_witness:
  "snd (memory_acquire init_MemoryLeaseStore (example_route_lease ''i1'' ''tok1'' ''e1''))
     = Some (example_route_lease ''i1'' ''tok1'' ''e1'')"
  using memory_route_lease_exclusive[OF rtranclp.rtrancl_refl, of _ _ _ "example_route_lease ''i1'' ''tok1'' ''e1''"]
  by (simp add: memory_live_def init_MemoryLeaseStore_def)

text \<open>No takeover. As long as a manager/connector key of the SQL store never becomes free, the
  lease that holds it stays the same grant, with the same owner, token and saved original route
  state, whatever other processes do in between: recovery always restores the state that was
  captured when the lease was granted.\<close>

theorem db_no_takeover:
  assumes "db_step\<^sup>*\<^sup>* [] t" and "l \<in> db_live t k"
    and "(\<lambda>a b. db_step a b \<and> db_live b k \<noteq> {})\<^sup>*\<^sup>* t t'"
  shows "\<exists>l' \<in> db_live t' k. pl_lease_id l' = pl_lease_id l \<and> pl_lease_token l' = pl_lease_token l
     \<and> pl_owner_execution_id l' = pl_owner_execution_id l \<and> pl_original_state l' = pl_original_state l"
  using db_store.no_takeover[OF assms(3) db_store.run_inv[OF assms(1) db_inv_empty] assms(2)]
  by (auto simp: same_grant_def)

theorem db_no_takeover_witness:
  "\<exists>l' \<in> db_live (fst (db_claim_recovery (fst (db_acquire [] [] (example_route_lease ''i1'' ''tok1'' ''e1'')))
        ''i1'' ''tok1'' ''r1'' 500)) (''fireconnect'', ''codex'').
     pl_original_state l' = [(''enabled'', PyBool False)]"
proof -
  let ?t = "fst (db_acquire [] [] (example_route_lease ''i1'' ''tok1'' ''e1''))"
  let ?t' = "fst (db_claim_recovery ?t ''i1'' ''tok1'' ''r1'' 500)"
  let ?k = "(''fireconnect'', ''codex'')"
  have t: "db_step\<^sup>*\<^sup>* [] ?t" by (rule r_into_rtranclp) (rule d_acquire)
  have l: "(example_route_lease ''i1'' ''tok1'' ''e1'')\<lparr>pl_recovery_status := None\<rparr> \<in> db_live ?t ?k"
    by (auto simp: db_live_def db_acquire_def marked_rows_def scalar_one_or_none_def db_insert_def
        marked_def example_route_lease_def new_lease_def lease_key_def)
  have "db_step ?t ?t'" by (rule d_claim)
  moreover have "db_live ?t' ?k \<noteq> {}"
    by (simp add: db_live_def db_acquire_def marked_rows_def scalar_one_or_none_def db_insert_def row_to_lease_def
        db_claim_recovery_def row_get_def row_set_def marked_def example_route_lease_def new_lease_def lease_key_def)
  ultimately have "(\<lambda>a b. db_step a b \<and> db_live b ?k \<noteq> {})\<^sup>*\<^sup>* ?t ?t'" by (intro r_into_rtranclp) simp
  from db_no_takeover[OF t l this] show ?thesis by (auto simp: example_route_lease_def new_lease_def)
qed

text \<open>Exclusive recovery. Once one owner has claimed the recovery of an expired lease in the SQL
  store, a claim by any other owner is refused with \<open>recovery_claimed\<close>, and no new lease can be
  acquired for the connector until the recovery is marked as finished.\<close>

theorem db_recovery_exclusive:
  assumes "db_step\<^sup>*\<^sup>* [] t" and "db_claim_recovery t i tok ow now = (t', Inr l)" and "ow' \<noteq> ow"
  shows "db_claim_recovery t' i tok ow' now' =
           (t', Inl (ProviderRouteLeaseError ''recovery_claimed'' ''recovery already claimed by another owner''))
    \<and> (lease_key x = lease_key l \<longrightarrow> snd (db_acquire t' t' x) \<noteq> Inr (Some x))"
proof -
  have inv: "db_inv t" using db_store.run_inv[OF assms(1) db_inv_empty] .
  obtain row where row: "row_get t' i = Some row" "pr_lease row = l" "marked row"
    and st: "pl_status l = ''recovering''" "dget (pl_details l) ''recovery_owner_id'' = PyStr ow" "pl_lease_token l = tok"
    using db_claim_InrD[OF inv assms(2)] by blast
  have "claimed_by_other (pl_details l) ow'" using st(2) assms(3) by (simp add: claimed_by_other_def)
  with row st have "db_claim_recovery t' i tok ow' now' =
      (t', Inl (ProviderRouteLeaseError ''recovery_claimed'' ''recovery already claimed by another owner''))"
    by (simp add: db_claim_recovery_def Let_def marked_def)
  moreover have "l \<in> db_live t' (lease_key l)" using row row_getD[OF row(1)] by (auto simp: db_live_def)
  ultimately show ?thesis using db_acquire_busy[of t' x x] by (metis empty_iff)
qed

theorem db_recovery_exclusive_witness:
  "\<exists>t l. db_claim_recovery (fst (db_acquire [] [] (example_route_lease ''i1'' ''tok1'' ''e1''))) ''i1'' ''tok1'' ''r1'' 500
       = (t, Inr l)
     \<and> isl (snd (db_claim_recovery t ''i1'' ''tok1'' ''r2'' 501))"
proof -
  let ?t = "fst (db_acquire [] [] (example_route_lease ''i1'' ''tok1'' ''e1''))"
  have t: "db_step\<^sup>*\<^sup>* [] ?t" by (rule r_into_rtranclp) (rule d_acquire)
  obtain t' l where c: "db_claim_recovery ?t ''i1'' ''tok1'' ''r1'' 500 = (t', Inr l)"
    by (simp add: db_acquire_def marked_rows_def scalar_one_or_none_def db_insert_def row_to_lease_def
        db_claim_recovery_def row_get_def row_set_def example_route_lease_def new_lease_def lease_key_def Let_def)
  from db_recovery_exclusive[OF t c, of "''r2''" 501 l] c show ?thesis by auto
qed

text \<open>The two back ends disagree about a holder that renews too late. In memory a renewal after
  expiry raises and leaves the lease in place, so that the connector stays reserved until recovery
  has restored its original route. In SQL the same call raises, too, but takes the lease out of
  service: the connector becomes free for the next acquisition although nothing has been restored,
  and the expired lease is no longer listed for recovery.\<close>

theorem late_renewal_divergence:
  assumes "pl_expires_at x \<le> now" and "pl_status x = ''active''" and "pl_lease_id x \<noteq> []"
  shows "let s = fst (memory_acquire init_MemoryLeaseStore x);
             t = fst (db_acquire [] [] x);
             s' = fst (memory_renew s (pl_lease_id x) (pl_lease_token x) (pl_owner_execution_id x) ttl now);
             t' = fst (db_renew t (pl_lease_id x) (pl_lease_token x) (pl_owner_execution_id x) ttl now)
         in memory_live s' (lease_key x) = {x} \<and> x \<in> set (memory_list_expired_active s' now)
            \<and> db_live t' (lease_key x) = {} \<and> db_list_expired_active t' now = []"
proof -
  have m: "fst (memory_acquire init_MemoryLeaseStore x)
      = \<lparr>ms_memory = [(pl_lease_id x, x)], ms_by_key = [lease_key x \<mapsto> pl_lease_id x]\<rparr>"
    by (simp add: memory_acquire_def init_MemoryLeaseStore_def Let_def)
  have d: "fst (db_acquire [] [] x) = [\<lparr>pr_lease = x\<lparr>pl_status := ''active'', pl_recovery_status := None\<rparr>,
      pr_active_marker = Some ''active'', pr_released_at = None\<rparr>]"
    by (simp add: db_acquire_def marked_rows_def scalar_one_or_none_def db_insert_def)
  show ?thesis
    using assms unfolding Let_def m d
    by (auto simp: memory_renew_def memory_live_def memory_list_expired_active_def db_renew_def row_get_def
        row_set_def db_live_def marked_def db_list_expired_active_def Let_def split: if_splits)
qed

theorem late_renewal_divergence_witness:
  "db_live (fst (db_renew (fst (db_acquire [] [] (example_route_lease ''i1'' ''tok1'' ''e1''))) ''i1'' ''tok1'' ''e1'' 120 121))
     (''fireconnect'', ''codex'') = {}"
  using late_renewal_divergence[of "example_route_lease ''i1'' ''tok1'' ''e1''" 121 120]
  by (simp add: Let_def example_route_lease_def new_lease_def lease_key_def)

end
