(* ===== verification/Privacy.thy ===== *)
theory Privacy
  imports JM_Prelude
begin

text \<open>
  The privacy guard on published payloads (\<^verbatim>\<open>src/src/joymesh/runtime_snapshot/validators.py\<close>):
  \<open>sanitize_provider_metadata\<close> drops secret and identity keys from provider metadata, and
  \<open>assert_privacy\<close> walks a payload with an explicit stack and raises on the first forbidden key.
  The walk is shown equivalent to the recursive specification over \<open>all_keys\<close>.
\<close>

section \<open>Definitions\<close>

text \<open>\<^verbatim>\<open>str(key).lower().replace("-", "_")\<close>.\<close>

definition normal_key :: "string \<Rightarrow> string" where
  "normal_key k = map (\<lambda>c. if c = CHR ''-'' then CHR ''_'' else c) (py_lower k)"

definition FORBIDDEN_METADATA_KEYS :: "string list" where
  "FORBIDDEN_METADATA_KEYS =
     [''api_key'', ''apikey'', ''token'', ''access_token'', ''refresh_token'', ''cookie'', ''cookies'',
      ''session'', ''session_secret'', ''password'', ''secret'', ''credential'', ''credentials'',
      ''authorization'', ''user_id'', ''userid'', ''user'', ''email'', ''subscription'',
      ''subscription_id'', ''subscription_name'', ''billing'', ''prompt'', ''conversation'',
      ''repository'', ''workspace'', ''terminal_output'', ''source_code'', ''checkpoint'']"

definition forbidden_key :: "string \<Rightarrow> bool" where
  "forbidden_key k \<longleftrightarrow> normal_key k \<in> set FORBIDDEN_METADATA_KEYS"

definition secret_part :: "string \<Rightarrow> bool" where
  "secret_part k \<longleftrightarrow>
     list_ex (\<lambda>part. substring part (normal_key k)) [''token'', ''secret'', ''password'', ''cookie'', ''api_key'']"

text \<open>\<^verbatim>\<open>sanitize_provider_metadata\<close>: the loop over the items, recursing into mappings only. The
  keys of a Python mapping are distinct, so that the writes \<^verbatim>\<open>cleaned[key] = ...\<close> append.\<close>

fun sanitize_value :: "pyval \<Rightarrow> pyval" where
  "sanitize_value (PyDict metadata) =
     PyDict (map (\<lambda>kv. (fst kv, sanitize_value (snd kv)))
                 (filter (\<lambda>kv. \<not> forbidden_key (fst kv) \<and> \<not> secret_part (fst kv)) metadata))"
| "sanitize_value v = v"

definition sanitize_provider_metadata :: "pydict \<Rightarrow> pydict" where
  "sanitize_provider_metadata metadata = as_dict (sanitize_value (PyDict metadata))"

text \<open>The stack of \<^verbatim>\<open>assert_privacy\<close> has its top at the head of the list: values pushed in the
  order of the items come off in reverse order.\<close>

fun first_forbidden :: "pydict \<Rightarrow> string option" where
  "first_forbidden [] = None"
| "first_forbidden ((k, v) # items) = (if forbidden_key k then Some k else first_forbidden items)"

lemma sum_sizes_dict:
  "sum_list (map (Suc \<circ> size) (map snd d)) \<le> size_list (size_prod (\<lambda>_. 0) size) d"
  by (induction d) auto

lemma sum_sizes_list: "sum_list (map (Suc \<circ> size) (xs :: pyval list)) = size_list size xs"
  by (induction xs) auto

lemma sum_list_rev_map: "sum_list (map f (rev xs)) = (sum_list (map f xs) :: nat)"
  by (induction xs) auto

lemma privacy_measure_dict:
  "sum_list (map (Suc \<circ> size) (rev (map snd d) @ stack))
     < Suc (size (PyDict d)) + sum_list (map (Suc \<circ> size) stack)"
  using sum_sizes_dict [of d] by (simp add: sum_list_rev_map)

lemma privacy_measure_list:
  "sum_list (map (Suc \<circ> size) (rev xs @ stack))
     < Suc (size (PyList xs)) + sum_list (map (Suc \<circ> size) stack)"
  using sum_sizes_list [of xs] by (simp add: sum_list_rev_map)

function privacy_loop :: "pyval list \<Rightarrow> unit result" where
  "privacy_loop [] = Inr ()"
| "privacy_loop (PyDict items # stack) =
     (case first_forbidden items of
        Some key \<Rightarrow> Inl (ValueError (''privacy violation: forbidden key '' @ str_repr key))
      | None \<Rightarrow> privacy_loop (rev (map snd items) @ stack))"
| "privacy_loop (PyList xs # stack) = privacy_loop (rev xs @ stack)"
| "privacy_loop (PyNone # stack) = privacy_loop stack"
| "privacy_loop (PyBool b # stack) = privacy_loop stack"
| "privacy_loop (PyInt i # stack) = privacy_loop stack"
| "privacy_loop (PyStr s # stack) = privacy_loop stack"
  by pat_completeness auto

termination
  using privacy_measure_dict privacy_measure_list
  by (relation "measure (\<lambda>stack. sum_list (map (Suc \<circ> size) stack))") (auto simp: comp_def)

definition assert_privacy :: "pydict \<Rightarrow> unit result" where
  "assert_privacy payload = privacy_loop [PyDict payload]"

section \<open>Specification\<close>

text \<open>The keys at any depth of a value, through mappings and sequences.\<close>

fun all_keys :: "pyval \<Rightarrow> string list" where
  "all_keys (PyDict d) = map fst d @ concat (map (\<lambda>kv. all_keys (snd kv)) d)"
| "all_keys (PyList xs) = concat (map all_keys xs)"
| "all_keys _ = []"

text \<open>The keys reached through mappings only: the part of a value that the sanitiser visits.\<close>

fun mapping_keys :: "pyval \<Rightarrow> string list" where
  "mapping_keys (PyDict d) = map fst d @ concat (map (\<lambda>kv. mapping_keys (snd kv)) d)"
| "mapping_keys _ = []"

fun has_list :: "pyval \<Rightarrow> bool" where
  "has_list (PyDict d) = list_ex (\<lambda>kv. has_list (snd kv)) d"
| "has_list (PyList xs) = True"
| "has_list _ = False"

section \<open>Lemmas\<close>

lemma first_forbidden_None: "first_forbidden d = None \<longleftrightarrow> (\<forall>k \<in> fst ` set d. \<not> forbidden_key k)"
  by (induction d rule: first_forbidden.induct) auto

lemma first_forbidden_Some:
  "first_forbidden d = Some k \<Longrightarrow> k \<in> fst ` set d \<and> forbidden_key k"
  by (induction d rule: first_forbidden.induct) (auto split: if_splits)

lemma all_keys_dict: "set (all_keys (PyDict d)) = fst ` set d \<union> (\<Union>v \<in> snd ` set d. set (all_keys v))"
  by auto

lemma privacy_loop_ok_iff:
  "privacy_loop stack = Inr () \<longleftrightarrow> (\<forall>v \<in> set stack. \<forall>k \<in> set (all_keys v). \<not> forbidden_key k)"
proof (induction stack rule: privacy_loop.induct)
  case (2 items stack)
  show ?case
  proof (cases "first_forbidden items")
    case None
    moreover have "\<forall>k \<in> fst ` set items. \<not> forbidden_key k"
      using None first_forbidden_None by blast
    ultimately show ?thesis
      using 2 by (simp add: Un_iff ball_Un)
  next
    case (Some k)
    then show ?thesis
      using first_forbidden_Some [OF Some] by auto
  qed
qed auto

lemma privacy_loop_error:
  "privacy_loop stack = Inl e \<Longrightarrow>
     \<exists>v \<in> set stack. \<exists>k \<in> set (all_keys v). forbidden_key k
       \<and> e = ValueError (''privacy violation: forbidden key '' @ str_repr k)"
proof (induction stack rule: privacy_loop.induct)
  case (2 items stack)
  show ?case
  proof (cases "first_forbidden items")
    case None
    then have "\<exists>v \<in> set (rev (map snd items) @ stack). \<exists>k \<in> set (all_keys v). forbidden_key k
       \<and> e = ValueError (''privacy violation: forbidden key '' @ str_repr k)"
      using 2 by simp
    then show ?thesis
      by (fastforce simp: all_keys_dict simp del: all_keys.simps)
  next
    case (Some k)
    then show ?thesis
      using first_forbidden_Some [OF Some] 2(2) by auto
  qed
qed fastforce+

lemma sanitize_mapping_keys:
  "k \<in> set (mapping_keys (sanitize_value v)) \<Longrightarrow> \<not> forbidden_key k \<and> \<not> secret_part k"
  by (induction v rule: sanitize_value.induct) (auto, blast+)

lemma all_keys_no_list: "\<not> has_list v \<Longrightarrow> all_keys v = mapping_keys v"
  by (induction v) (auto simp: list_ex_iff intro!: arg_cong [where f = concat], metis snd_conv)

lemma has_list_sanitize: "has_list (sanitize_value v) \<Longrightarrow> has_list v"
  by (induction v rule: sanitize_value.induct) (auto simp: list_ex_iff, metis snd_conv)

lemma as_dict_sanitize: "PyDict (sanitize_provider_metadata m) = sanitize_value (PyDict m)"
  by (simp add: sanitize_provider_metadata_def)

lemma assert_privacy_ok_iff:
  "assert_privacy payload = Inr () \<longleftrightarrow> (\<forall>k \<in> set (all_keys (PyDict payload)). \<not> forbidden_key k)"
  unfolding assert_privacy_def privacy_loop_ok_iff by simp

section \<open>Properties\<close>

text \<open>C25: The stack walk of \<open>assert_privacy\<close> is complete and exact. It always ends; it returns
  normally exactly when no key at any depth of the payload, through mappings and sequences, is
  forbidden after lower-casing and replacing dashes, and otherwise it raises naming such a key.\<close>

theorem assert_privacy_exact:
  "case assert_privacy payload of
     Inr _ \<Rightarrow> (\<forall>k \<in> set (all_keys (PyDict payload)). normal_key k \<notin> set FORBIDDEN_METADATA_KEYS)
   | Inl e \<Rightarrow> (\<exists>k \<in> set (all_keys (PyDict payload)). normal_key k \<in> set FORBIDDEN_METADATA_KEYS
        \<and> e = ValueError (''privacy violation: forbidden key '' @ str_repr k))"
proof (cases "assert_privacy payload")
  case (Inl e)
  then show ?thesis
    using privacy_loop_error [of "[PyDict payload]" e]
    by (auto simp: assert_privacy_def forbidden_key_def)
next
  case (Inr u)
  then show ?thesis
    using assert_privacy_ok_iff [of payload] by (simp add: forbidden_key_def)
qed

theorem assert_privacy_exact_witness:
  "\<exists>k \<in> set (all_keys (PyDict [(''items'', PyList [PyDict [(''Api-Key'', PyNone)]])])).
     normal_key k \<in> set FORBIDDEN_METADATA_KEYS"
proof -
  let ?d = "[(''items'', PyList [PyDict [(''Api-Key'', PyNone)]])]"
  have "\<not> isl (assert_privacy [])" "isl (assert_privacy ?d)"
    by code_simp+
  then show ?thesis
    using assert_privacy_exact [of ?d] by (cases "assert_privacy ?d") auto
qed

text \<open>Sanitised metadata that contains no sequence passes the privacy guard, whatever keys the
  provider reported. (The sanitiser does not look into sequences: mappings inside a list keep their
  forbidden keys, and the guard then rejects the whole payload.)\<close>

theorem sanitized_metadata_passes:
  assumes "\<not> has_list (PyDict metadata)"
  shows "assert_privacy (sanitize_provider_metadata metadata) = Inr ()"
proof -
  have "\<not> has_list (sanitize_value (PyDict metadata))"
    using has_list_sanitize assms by blast
  then show ?thesis
    unfolding assert_privacy_ok_iff as_dict_sanitize
    by (metis all_keys_no_list sanitize_mapping_keys)
qed

theorem sanitized_metadata_passes_witness:
  "assert_privacy (sanitize_provider_metadata
     [(''plan'', PyDict [(''API-Key'', PyStr ''k''), (''tier'', PyStr ''pro'')]), (''Session'', PyNone)]) = Inr ()"
  by (rule sanitized_metadata_passes) code_simp

end
