(* ===== verification/Canonical_JSON.thy ===== *)
theory Canonical_JSON
  imports JM_Prelude "HOL-Library.Multiset"
begin

text \<open>
  The canonical JSON text that every hash and signature of the program is computed over:
  \<^verbatim>\<open>json.dumps(value, sort_keys=True, separators=(",", ":"))\<close>, as called by
  \<^verbatim>\<open>DeliveryEnvelope.hash_payload\<close> and \<^verbatim>\<open>canonical_signed_bytes\<close> in
  \<^verbatim>\<open>src/src/joymesh/delivery/contracts.py\<close> and by the evidence intake of
  \<^verbatim>\<open>src/src/joymesh/runtime_v1/completion/evidence.py\<close>. The text is a faithful print: two values
  with the same text are equal up to the order of dictionary entries.
\<close>

section \<open>Printing\<close>

definition hex_digit :: "nat \<Rightarrow> char" where
  "hex_digit n = char_of (if n < 10 then 48 + n else 87 + n)"

text \<open>The escapes of the standard encoder with \<^verbatim>\<open>ensure_ascii\<close>, as code points: quote, backslash,
  newline, carriage return, tab, form feed and backspace have a letter of their own, the other
  code points outside 32 to 126 print as four hexadecimal digits.\<close>

definition json_escapes :: "(nat \<times> nat) list" where
  "json_escapes = [(34, 34), (92, 92), (10, 110), (13, 114), (9, 116), (12, 102), (8, 98)]"

definition json_char :: "char \<Rightarrow> string" where
  "json_char c =
     (case map_of json_escapes (of_char c) of
        Some m \<Rightarrow> [char_of (92::nat), char_of m]
      | None \<Rightarrow>
          if 32 \<le> (of_char c :: nat) \<and> (of_char c :: nat) \<le> 126 then [c]
          else [char_of (92::nat), char_of (117::nat), CHR ''0'', CHR ''0'',
                hex_digit (of_char c div 16), hex_digit (of_char c mod 16)])"

definition json_quote :: char where
  "json_quote = CHR 0x22"

definition json_string :: "string \<Rightarrow> string" where
  "json_string s = [json_quote] @ concat (map json_char s) @ [json_quote]"

fun json_text :: "pyval \<Rightarrow> string" where
  "json_text PyNone = ''null''"
| "json_text (PyBool b) = (if b then ''true'' else ''false'')"
| "json_text (PyInt i) = int_str i"
| "json_text (PyStr s) = json_string s"
| "json_text (PyList xs) = ''['' @ join '','' (map json_text xs) @ '']''"
| "json_text (PyDict d) =
     ''{'' @ join '','' (map (\<lambda>kv. json_string (fst kv) @ '':'' @ json_text (snd kv)) d) @ ''}''"

text \<open>\<^verbatim>\<open>sort_keys=True\<close>: the entries of every dictionary in key order.\<close>

fun json_sort :: "pyval \<Rightarrow> pyval" where
  "json_sort (PyList xs) = PyList (map json_sort xs)"
| "json_sort (PyDict d) = PyDict (sort_key fst (map (\<lambda>kv. (fst kv, json_sort (snd kv))) d))"
| "json_sort v = v"

definition json_dumps :: "pyval \<Rightarrow> string" where
  "json_dumps v = json_text (json_sort v)"

section \<open>The text determines the value\<close>

text \<open>Strings. No escape starts with the quote, and escapes are prefix free.\<close>

lemma of_char_less [simp]: "(of_char c :: nat) < 256"
  by (metis of_char_mod_256 mod_less_divisor zero_less_numeral)

lemma char_of_inj_less: "n < 256 \<Longrightarrow> m < 256 \<Longrightarrow> (char_of n :: char) = char_of m \<longleftrightarrow> n = (m :: nat)"
  by (metis mod_less of_char_of)

lemma hex_digit_inj: "n < 16 \<Longrightarrow> m < 16 \<Longrightarrow> hex_digit n = hex_digit m \<longleftrightarrow> n = m"
  by (auto simp: hex_digit_def char_of_inj_less split: if_splits)

lemma json_quote_code: "json_quote = char_of (34::nat)"
  by code_simp

lemma json_escapes_range: "map_of json_escapes n = Some m \<Longrightarrow> m < 256 \<and> m \<noteq> 117"
  by (auto simp: json_escapes_def split: if_splits)

lemma json_escapes_inj:
  assumes "map_of json_escapes n = Some m" "map_of json_escapes n' = Some m"
  shows "n = n'"
proof -
  have "distinct (map snd json_escapes)"
    by (simp add: json_escapes_def)
  then show ?thesis
    using assms by (metis eq_key_imp_eq_value map_of_SomeD distinct_map inj_onD prod.inject snd_conv)
qed

lemma json_char_cases:
  obtains (short) m where "map_of json_escapes (of_char c) = Some m" "json_char c = [char_of (92::nat), char_of m]"
  | (plain) "of_char c \<noteq> (92::nat)" "of_char c \<noteq> (34::nat)" "json_char c = [c]"
  | (hex) "json_char c = [char_of (92::nat), char_of (117::nat), CHR ''0'', CHR ''0'',
                hex_digit (of_char c div 16), hex_digit (of_char c mod 16)]"
proof (cases "map_of json_escapes (of_char c :: nat)")
  case None
  then have "(of_char c :: nat) \<noteq> 92" "(of_char c :: nat) \<noteq> 34"
    by (auto simp: json_escapes_def)
  with None show ?thesis
    using plain hex by (cases "32 \<le> (of_char c :: nat) \<and> (of_char c :: nat) \<le> 126") (auto simp: json_char_def)
next
  case (Some m)
  then show ?thesis
    using short by (simp add: json_char_def)
qed

lemma char_eq_by_digits:
  assumes "of_char c div 16 = (of_char d div 16 :: nat)" "of_char c mod 16 = (of_char d mod 16 :: nat)"
  shows "c = d"
proof -
  have "(of_char c :: nat) = of_char d"
    using assms by (metis div_mult_mod_eq)
  then show ?thesis
    by simp
qed

lemma char_neq_backslash: "(of_char c :: nat) \<noteq> 92 \<Longrightarrow> c \<noteq> char_of (92::nat)"
  by auto

lemma json_char_inj:
  assumes eq: "json_char c @ x = json_char d @ y"
  shows "c = d \<and> x = y"
proof (cases c rule: json_char_cases)
  case (short m)
  note c = this
  show ?thesis
  proof (cases d rule: json_char_cases)
    case (short m')
    then have "m = m'" "x = y"
      using eq c json_escapes_range by (auto simp: char_of_inj_less)
    then show ?thesis
      using c short json_escapes_inj [of "of_char c" m "of_char d"] by simp
  next
    case plain
    then show ?thesis
      using eq c by auto
  next
    case hex
    then show ?thesis
      using eq c json_escapes_range [of "of_char c" m] by (simp add: char_of_inj_less)
  qed
next
  case plain
  note c = this
  show ?thesis
    using eq c by (cases d rule: json_char_cases) auto
next
  case hex
  note c = this
  show ?thesis
  proof (cases d rule: json_char_cases)
    case (short m)
    then show ?thesis
      using eq c json_escapes_range [of "of_char d" m] by (simp add: char_of_inj_less)
  next
    case plain
    then show ?thesis
      using eq c by auto
  next
    case hex
    then show ?thesis
      using eq c char_eq_by_digits [of c d] by (simp add: hex_digit_inj less_mult_imp_div_less)
  qed
qed

lemma json_char_not_quote: "json_char c \<noteq> json_quote # xs \<and> json_char c \<noteq> []"
  by (cases c rule: json_char_cases) (auto simp: json_quote_code char_of_inj_less)

lemma json_char_no_quote_start: "json_char c @ x \<noteq> json_quote # y"
  using json_char_not_quote [of c] by (cases "json_char c") auto

lemma json_chars_inj:
  "concat (map json_char s) @ json_quote # x = concat (map json_char t) @ json_quote # y \<Longrightarrow> s = t \<and> x = y"
proof (induction s arbitrary: t)
  case Nil
  then show ?case
    using json_char_no_quote_start by (cases t) (auto simp: eq_commute [of "json_quote # x"])
next
  case (Cons c s)
  show ?case
  proof (cases t)
    case Nil
    then show ?thesis
      using Cons.prems json_char_no_quote_start by auto
  next
    case (Cons d t')
    then have "json_char c @ concat (map json_char s) @ json_quote # x
      = json_char d @ concat (map json_char t') @ json_quote # y"
      using Cons.prems by simp
    then show ?thesis
      using json_char_inj Cons.IH Cons by blast
  qed
qed

lemma json_string_inj: "json_string s @ x = json_string t @ y \<Longrightarrow> s = t \<and> x = y"
  using json_chars_inj [of s x t y] by (simp add: json_string_def)

text \<open>Integers, delimited by the next character.\<close>

definition delimited :: "string \<Rightarrow> bool" where
  "delimited x \<longleftrightarrow> (case x of [] \<Rightarrow> True | c # _ \<Rightarrow> \<not> digit c)"

definition digits_value :: "string \<Rightarrow> nat" where
  "digits_value s = foldl (\<lambda>a c. a * 10 + (of_char c - 48)) 0 s"

lemma digit_char [simp]: "(n :: nat) < 10 \<Longrightarrow> digit (char_of (48 + n))"
  by (simp add: digit_def)

lemma digits_of_ok: "digits_value (digits_of n) = n \<and> digits_of n \<noteq> [] \<and> (\<forall>c \<in> set (digits_of n). digit c)"
proof (induction n rule: digits_of.induct)
  case (1 n)
  show ?case
  proof (cases "n < 10")
    case True
    then show ?thesis
      by (simp add: digits_of.simps [of n] digits_value_def)
  next
    case False
    have "(of_char (char_of (48 + n mod 10) :: char) :: nat) = 48 + n mod 10"
      by simp
    then show ?thesis
      using False 1 by (simp add: digits_of.simps [of n] digits_value_def)
  qed
qed

lemma takeWhile_digits: "delimited x \<Longrightarrow> takeWhile digit (digits_of n @ x) = digits_of n"
  using digits_of_ok [of n] by (cases x) (auto simp: delimited_def takeWhile_append)

lemma digits_of_delimited_inj:
  assumes "digits_of n @ x = digits_of m @ y" "delimited x" "delimited y"
  shows "n = m \<and> x = y"
proof -
  have "digits_of n = digits_of m"
    using assms takeWhile_digits by metis
  then show ?thesis
    using assms digits_of_ok by (metis same_append_eq)
qed

lemma digits_of_no_minus: "digits_of n @ x \<noteq> CHR ''-'' # y"
proof -
  obtain c s where "digits_of n = c # s" "digit c"
    using digits_of_ok [of n] by (cases "digits_of n") auto
  then show ?thesis
    by (auto simp: digit_def)
qed

lemma int_str_inj:
  assumes "int_str i @ x = int_str j @ y" "delimited x" "delimited y"
  shows "i = j \<and> x = y"
proof (cases "i < 0"; cases "j < 0")
  assume "i < 0" "j < 0"
  then show ?thesis
    using assms digits_of_delimited_inj [of "nat (- i)" x "nat (- j)" y] by (simp add: int_str_def nat_eq_iff)
next
  assume "\<not> i < 0" "\<not> j < 0"
  then show ?thesis
    using assms digits_of_delimited_inj [of "nat i" x "nat j" y] by (simp add: int_str_def nat_eq_iff)
qed (use assms digits_of_no_minus digits_of_no_minus [symmetric] in \<open>auto simp: int_str_def\<close>)

lemma int_str_start:
  obtains c s where "int_str i = c # s" "c = CHR ''-'' \<or> digit c"
proof -
  obtain c s where "digits_of (nat i) = c # s" "digit c"
    using digits_of_ok [of "nat i"] by (cases "digits_of (nat i)") auto
  then show ?thesis
    using that by (cases "i < 0") (auto simp: int_str_def)
qed

text \<open>Joined sequences between brackets.\<close>

definition text_inj :: "('a \<Rightarrow> string) \<Rightarrow> 'a \<Rightarrow> bool" where
  "text_inj f a \<longleftrightarrow>
     (\<forall>b x y. delimited x \<longrightarrow> delimited y \<longrightarrow> f a @ x = f b @ y \<longrightarrow> a = b \<and> x = y)"

lemma text_injD:
  "text_inj f a \<Longrightarrow> f a @ x = f b @ y \<Longrightarrow> delimited x \<Longrightarrow> delimited y \<Longrightarrow> a = b \<and> x = y"
  by (auto simp: text_inj_def)

lemma join_Nil [simp]: "join sep [] = []"
  by (simp add: join_def)

lemma join_single [simp]: "join sep [a] = a"
  by (simp add: join_def)

lemma join_Cons [simp]: "join sep (a # b # l) = a @ sep @ join sep (b # l)"
  by (simp add: join_def)

definition join_rest :: "('a \<Rightarrow> string) \<Rightarrow> char \<Rightarrow> 'a list \<Rightarrow> string \<Rightarrow> string" where
  "join_rest f z xs x = (if xs = [] then z # x else CHR '','' # join '','' (map f xs) @ z # x)"

lemma join_rest: "join '','' (map f (a # xs)) @ z # x = f a @ join_rest f z xs x"
  by (cases xs) (simp_all add: join_rest_def)

lemma delimited_rest: "\<not> digit z \<Longrightarrow> delimited (join_rest f z xs x)"
  by (simp add: join_rest_def delimited_def digit_def)

lemma join_inj:
  assumes inj: "\<And>a. a \<in> set xs \<Longrightarrow> text_inj f a"
    and start: "\<And>a. f a \<noteq> [] \<and> hd (f a) \<noteq> z"
    and z: "\<not> digit z" "z \<noteq> CHR '',''"
    and eq: "join '','' (map f xs) @ z # x = join '','' (map f ys) @ z # y"
  shows "xs = ys \<and> x = y"
  using inj eq
proof (induction xs arbitrary: ys)
  case Nil
  have "f a @ u \<noteq> z # v" for a u v
    using start [of a] by (cases "f a") auto
  with Nil show ?case
    by (cases ys) (auto simp: join_rest [unfolded list.map] eq_commute [of "z # x"])
next
  case (Cons a xs)
  have nostart: "f a @ u \<noteq> z # v" for a u v
    using start [of a] by (cases "f a") auto
  obtain b ys' where ys: "ys = b # ys'"
    using Cons.prems(2) nostart by (cases ys) (auto simp: join_rest [unfolded list.map])
  have "f a @ join_rest f z xs x = f b @ join_rest f z ys' y"
    using Cons.prems(2) ys by (simp only: join_rest)
  from text_injD [OF Cons.prems(1) this delimited_rest delimited_rest]
  have "a = b" and "join_rest f z xs x = join_rest f z ys' y"
    using z by auto
  then show ?case
    using Cons.IH [of ys'] Cons.prems(1) ys z by (auto simp: join_rest_def split: if_splits)
qed

text \<open>Values.\<close>

lemma json_string_start: "json_string s = json_quote # concat (map json_char s) @ [json_quote]"
  by (simp add: json_string_def)

lemma json_text_start: "json_text v \<noteq> [] \<and> hd (json_text v) \<notin> {CHR '']'', CHR ''}''}"
proof (cases v)
  case (PyInt i)
  then show ?thesis
    by (rule_tac i = i in int_str_start) (auto simp: digit_def)
qed (auto simp: json_string_start json_quote_def)

lemma delimited_tail [simp]:
  "delimited (CHR '':'' # x)" "delimited (CHR '','' # x)" "delimited (CHR '']'' # x)" "delimited (CHR ''}'' # x)"
  by (auto simp: delimited_def digit_def)

lemma entry_text_inj:
  "text_inj json_text v \<Longrightarrow> text_inj (\<lambda>kv. json_string (fst kv) @ '':'' @ json_text (snd kv)) (k, v)"
  by (auto simp: text_inj_def dest!: json_string_inj)

text \<open>The kind of a value is visible in the first character of its text.\<close>

definition text_kind :: "string \<Rightarrow> nat" where
  "text_kind s = (let c = hd s in
     if c = CHR ''n'' then 0 else if c = CHR ''t'' then 1 else if c = CHR ''f'' then 2
     else if c = json_quote then 3 else if c = CHR ''['' then 4 else if c = CHR ''{'' then 5 else 6)"

fun value_kind :: "pyval \<Rightarrow> nat" where
  "value_kind PyNone = 0"
| "value_kind (PyBool b) = (if b then 1 else 2)"
| "value_kind (PyStr s) = 3"
| "value_kind (PyList xs) = 4"
| "value_kind (PyDict d) = 5"
| "value_kind (PyInt i) = 6"

lemma text_kind_json: "text_kind (json_text v @ x) = value_kind v"
proof (cases v)
  case (PyInt i)
  then show ?thesis
    by (rule_tac i = i in int_str_start) (auto simp: text_kind_def json_quote_def digit_def)
qed (auto simp: text_kind_def json_string_start json_quote_def)

lemma json_text_same_kind: "json_text v @ x = json_text w @ y \<Longrightarrow> value_kind v = value_kind w"
  by (metis text_kind_json)

lemma json_text_inj_atom:
  assumes "value_kind v \<notin> {4, 5}"
  shows "text_inj json_text v"
  unfolding text_inj_def
proof (intro allI impI)
  fix w x y
  assume eq: "json_text v @ x = json_text w @ y" and "delimited x" "delimited y"
  then have kind: "value_kind w = value_kind v"
    using json_text_same_kind by metis
  show "v = w \<and> x = y"
  proof (cases v)
    case (PyInt i)
    then obtain j where "w = PyInt j"
      using kind by (cases w) (auto split: if_splits)
    then show ?thesis
      using eq PyInt int_str_inj [of i x j y] \<open>delimited x\<close> \<open>delimited y\<close> by simp
  next
    case (PyStr s)
    then obtain t where "w = PyStr t"
      using kind by (cases w) (auto split: if_splits)
    then show ?thesis
      using eq PyStr json_string_inj [of s x t y] by simp
  next
    case PyNone
    then have "w = PyNone"
      using kind by (cases w) (auto split: if_splits)
    then show ?thesis
      using eq PyNone by simp
  next
    case (PyBool b)
    then have "w = PyBool b"
      using kind by (cases w) (auto split: if_splits)
    then show ?thesis
      using eq PyBool by simp
  qed (use assms in auto)
qed

lemma json_text_inj: "text_inj json_text v"
proof (induction v)
  case (PyList xs)
  show ?case
    unfolding text_inj_def
  proof (intro allI impI)
    fix b x y
    assume eq: "json_text (PyList xs) @ x = json_text b @ y"
    then have "value_kind b = 4"
      by (metis text_kind_json value_kind.simps(4))
    then obtain ys where b: "b = PyList ys"
      by (cases b) (auto split: if_splits)
    have "xs = ys \<and> x = y"
      by (rule join_inj [where f = json_text and z = "CHR '']''"])
         (use eq b PyList json_text_start in \<open>auto simp: digit_def\<close>)
    then show "PyList xs = b \<and> x = y"
      using b by simp
  qed
next
  case (PyDict d)
  show ?case
    unfolding text_inj_def
  proof (intro allI impI)
    fix b x y
    assume eq: "json_text (PyDict d) @ x = json_text b @ y"
    then have "value_kind b = 5"
      by (metis text_kind_json value_kind.simps(5))
    then obtain e where b: "b = PyDict e"
      by (cases b) (auto split: if_splits)
    have inj: "text_inj (\<lambda>kv. json_string (fst kv) @ '':'' @ json_text (snd kv)) kv" if "kv \<in> set d" for kv
      using PyDict [of kv "snd kv"] that entry_text_inj [of "snd kv" "fst kv"] by (cases kv) auto
    have "d = e \<and> x = y"
      by (rule join_inj [where f = "\<lambda>kv. json_string (fst kv) @ '':'' @ json_text (snd kv)" and z = "CHR ''}''"])
         (use eq b inj in \<open>auto simp: digit_def json_string_start json_quote_def\<close>)
    then show "PyDict d = b \<and> x = y"
      using b by simp
  qed
qed (simp_all add: json_text_inj_atom)

section \<open>Canonical text\<close>

lemma json_dumps_inj: "json_dumps v = json_dumps w \<longleftrightarrow> json_sort v = json_sort w"
  using text_injD [OF json_text_inj, of "json_sort v" "[]" "json_sort w" "[]"]
  by (auto simp: json_dumps_def delimited_def)

text \<open>Two dictionaries with distinct keys have the same sorted entries exactly when they map every
  key to the same (sorted) value: the order of the entries is all that the text forgets.\<close>

lemma sort_key_dict_eq_iff:
  assumes "dict_ok d" "dict_ok e"
  shows "sort_key fst d = sort_key fst e \<longleftrightarrow> map_of d = map_of e"
proof
  assume "sort_key fst d = sort_key fst e"
  then have "set d = set e"
    by (metis set_sort)
  then show "map_of d = map_of e"
    using assms by (metis dict_ok_def map_of_inject_set)
next
  assume "map_of d = map_of e"
  then have "set d = set e"
    using assms by (metis dict_ok_def map_of_inject_set)
  then have "mset d = mset e"
    using assms by (metis dict_ok_def distinct_map set_eq_iff_mset_eq_distinct)
  moreover have "inj_on fst (set d)"
    using assms(1) by (simp add: dict_ok_def distinct_map)
  ultimately show "sort_key fst d = sort_key fst e"
    by (intro sort_key_inj_key_eq) simp_all
qed

end
