(* ===== verification/Outbox.thy ===== *)
theory Outbox
  imports Privacy Canonical_JSON
begin

text \<open>
  The durable delivery outbox and its publisher
  (\<^verbatim>\<open>contracts.py\<close>, \<^verbatim>\<open>outbox.py\<close> and \<^verbatim>\<open>publisher.py\<close> under \<^verbatim>\<open>src/src/joymesh/delivery/\<close>).

  The SQLite table is a list of rows in insertion order, the \<^verbatim>\<open>delivery_meta\<close> table the optional
  sequence counter; each method holds the lock and is one step. \<^verbatim>\<open>ORDER BY sequence\<close> is a stable sort.
  The text columns with JSON hold the dictionary they encode, and a \<^verbatim>\<open>datetime\<close> written as ISO text
  stays the integer it denotes. SHA-256 and the Ed25519 functions are parameters.
\<close>

section \<open>Contracts\<close>

definition SCHEMA_VERSION :: int where
  "SCHEMA_VERSION = 1"

definition TRANSPORT_VERSION :: int where
  "TRANSPORT_VERSION = 1"

datatype DeliveryKind = RUNTIME_SNAPSHOT | RUNTIME_EVENT | APPROVAL_REQUEST | HEARTBEAT

fun delivery_kind_value :: "DeliveryKind \<Rightarrow> string" where
  "delivery_kind_value RUNTIME_SNAPSHOT = ''runtime_snapshot''"
| "delivery_kind_value RUNTIME_EVENT = ''runtime_event''"
| "delivery_kind_value APPROVAL_REQUEST = ''approval_request''"
| "delivery_kind_value HEARTBEAT = ''heartbeat''"

datatype DeliveryAckStatus = PENDING | SENT | ACKED | FAILED | DROPPED

record PublisherIdentity =
  pub_publisher_id :: string
  pub_public_key :: "string option"
  pub_instance_id :: string
  pub_organisation_id :: string

record DeliveryEnvelope =
  env_envelope_id :: string
  env_kind :: DeliveryKind
  env_sequence :: int
  env_observed_at :: time
  env_publisher :: PublisherIdentity
  env_payload :: pydict
  env_payload_hash :: string
  env_schema_version :: int
  env_transport_version :: int
  env_signature :: "string option"
  env_key_id :: "string option"
  env_signature_algorithm :: "string option"
  env_idempotency_key :: string

record DeliveryAck =
  ack_envelope_id :: string
  ack_status :: DeliveryAckStatus
  ack_received_at :: time
  ack_detail :: "string option"

definition publisher_as_dict :: "PublisherIdentity \<Rightarrow> pydict" where
  "publisher_as_dict p =
     [(''publisher_id'', PyStr (pub_publisher_id p)),
      (''public_key'', opt_str (pub_public_key p)),
      (''instance_id'', PyStr (pub_instance_id p)),
      (''organisation_id'', PyStr (pub_organisation_id p))]"

text \<open>\<^verbatim>\<open>envelope.idempotency_key or envelope.envelope_id\<close>.\<close>

definition envelope_key :: "DeliveryEnvelope \<Rightarrow> string" where
  "envelope_key e = (if env_idempotency_key e \<noteq> [] then env_idempotency_key e else env_envelope_id e)"

definition envelope_as_dict :: "DeliveryEnvelope \<Rightarrow> pydict" where
  "envelope_as_dict e =
     [(''envelope_id'', PyStr (env_envelope_id e)),
      (''kind'', PyStr (delivery_kind_value (env_kind e))),
      (''sequence'', PyInt (env_sequence e)),
      (''observed_at'', PyInt (env_observed_at e)),
      (''publisher'', PyDict (publisher_as_dict (env_publisher e))),
      (''payload'', PyDict (env_payload e)),
      (''payload_hash'', PyStr (env_payload_hash e)),
      (''schema_version'', PyInt (env_schema_version e)),
      (''transport_version'', PyInt (env_transport_version e)),
      (''signature'', opt_str (env_signature e)),
      (''key_id'', opt_str (env_key_id e)),
      (''signature_algorithm'', opt_str (env_signature_algorithm e)),
      (''idempotency_key'', PyStr (envelope_key e))]"

definition canonical_signed_bytes :: "DeliveryEnvelope \<Rightarrow> string" where
  "canonical_signed_bytes e =
     json_dumps (PyDict
       [(''protocol_version'', PyInt (env_transport_version e)),
        (''publisher_id'', PyStr (pub_publisher_id (env_publisher e))),
        (''organisation_id'', PyStr (pub_organisation_id (env_publisher e))),
        (''sequence'', PyInt (env_sequence e)),
        (''message_type'', PyStr (delivery_kind_value (env_kind e))),
        (''content_hash'', PyStr (env_payload_hash e)),
        (''observed_at'', PyInt (env_observed_at e)),
        (''payload_hash'', PyStr (env_payload_hash e))])"

definition hash_payload :: "(string \<Rightarrow> string) \<Rightarrow> pydict \<Rightarrow> string" where
  "hash_payload sha256 payload = sha256 (json_dumps (PyDict payload))"

definition build_envelope ::
  "(string \<Rightarrow> string) \<Rightarrow> string \<Rightarrow> time \<Rightarrow> DeliveryKind \<Rightarrow> int \<Rightarrow> PublisherIdentity \<Rightarrow> pydict
   \<Rightarrow> string option \<Rightarrow> string option \<Rightarrow> string option \<Rightarrow> DeliveryEnvelope" where
  "build_envelope sha256 uuid now kind sequence publisher payload key_id algorithm idempotency_key =
     \<lparr>env_envelope_id = uuid, env_kind = kind, env_sequence = sequence, env_observed_at = now,
      env_publisher = publisher, env_payload = payload, env_payload_hash = hash_payload sha256 payload,
      env_schema_version = SCHEMA_VERSION, env_transport_version = TRANSPORT_VERSION,
      env_signature = None, env_key_id = key_id, env_signature_algorithm = algorithm,
      env_idempotency_key = (case idempotency_key of None \<Rightarrow> [] | Some k \<Rightarrow> k)\<rparr>"

section \<open>The outbox table\<close>

record outbox_row =
  row_envelope_id :: string
  row_kind :: string
  row_sequence :: int
  row_status :: DeliveryAckStatus
  row_attempts :: int
  row_idempotency_key :: string
  row_payload_hash :: string
  row_envelope_json :: pydict
  row_created_at :: time
  row_updated_at :: time

record OutboxRecord =
  or_envelope :: DeliveryEnvelope
  or_status :: DeliveryAckStatus
  or_attempts :: int
  or_created_at :: time
  or_updated_at :: time

record DeliveryOutbox =
  ob_max_entries :: int
  ob_rows :: "outbox_row list"
  ob_sequence :: "int option"

definition DEFAULT_MAX_ENTRIES :: int where
  "DEFAULT_MAX_ENTRIES = 2000"

definition init_DeliveryOutbox :: "int \<Rightarrow> DeliveryOutbox" where
  "init_DeliveryOutbox max_entries =
     \<lparr>ob_max_entries = max 1 max_entries, ob_rows = [], ob_sequence = None\<rparr>"

definition next_sequence :: "DeliveryOutbox \<Rightarrow> int \<times> DeliveryOutbox" where
  "next_sequence ob =
     (let current = (case ob_sequence ob of None \<Rightarrow> 0 | Some n \<Rightarrow> n); nxt = current + 1
      in (nxt, ob\<lparr>ob_sequence := Some nxt\<rparr>))"

subsection \<open>Reading rows back\<close>

text \<open>A field of a dataclass that holds text, or text or None. A value of another type cannot come
  from \<^verbatim>\<open>as_dict\<close>; it is reported as a type error.\<close>

fun str_field :: "pyval \<Rightarrow> string result" where
  "str_field (PyStr s) = Inr s"
| "str_field _ = Inl (TypeError ''str expected'')"

fun opt_str_field :: "pyval \<Rightarrow> string option result" where
  "opt_str_field PyNone = Inr None"
| "opt_str_field (PyStr s) = Inr (Some s)"
| "opt_str_field _ = Inl (TypeError ''str expected'')"

text \<open>\<^verbatim>\<open>x or {}\<close>, used as a mapping.\<close>

fun mapping_field :: "pyval \<Rightarrow> pydict result" where
  "mapping_field (PyDict d) = Inr d"
| "mapping_field v = (if truthy v then Inl (AttributeError ''get'') else Inr [])"

fun datetime_field :: "pyval \<Rightarrow> time result" where
  "datetime_field (PyInt t) = Inr t"
| "datetime_field (PyStr s) = Inl (ValueError (''Invalid isoformat string: '' @ str_repr s))"
| "datetime_field _ = Inl (TypeError ''fromisoformat: argument must be str'')"

definition subscript :: "pydict \<Rightarrow> string \<Rightarrow> pyval result" where
  "subscript d k = (case map_of d k of None \<Rightarrow> Inl (KeyError k) | Some v \<Rightarrow> Inr v)"

definition parse_kind :: "pyval \<Rightarrow> DeliveryKind result" where
  "parse_kind v =
     (case find (\<lambda>k. v = PyStr (delivery_kind_value k))
             [RUNTIME_SNAPSHOT, RUNTIME_EVENT, APPROVAL_REQUEST, HEARTBEAT] of
        Some k \<Rightarrow> Inr k
      | None \<Rightarrow> Inl (ValueError (py_repr v @ '' is not a valid DeliveryKind'')))"

definition publisher_of_json :: "pydict \<Rightarrow> PublisherIdentity result" where
  "publisher_of_json publisher =
     bind_result (str_field (dget_default publisher ''publisher_id'' (PyStr ''joymesh''))) (\<lambda>pid.
     bind_result (opt_str_field (dget publisher ''public_key'')) (\<lambda>key.
     bind_result (str_field (dget_default publisher ''instance_id'' (PyStr ''unknown''))) (\<lambda>inst.
     bind_result (str_field (dget_default publisher ''organisation_id'' (PyStr ''local''))) (\<lambda>org.
     Inr \<lparr>pub_publisher_id = pid, pub_public_key = key, pub_instance_id = inst, pub_organisation_id = org\<rparr>))))"

definition envelope_of_json :: "pydict \<Rightarrow> DeliveryEnvelope result" where
  "envelope_of_json payload =
     bind_result (mapping_field (dget payload ''publisher'')) (\<lambda>publisher.
     bind_result (bind_result (subscript payload ''envelope_id'') str_field) (\<lambda>envelope_id.
     bind_result (bind_result (subscript payload ''kind'') parse_kind) (\<lambda>kind.
     bind_result (bind_result (subscript payload ''sequence'') py_int) (\<lambda>sequence.
     bind_result (bind_result (subscript payload ''observed_at'') datetime_field) (\<lambda>observed_at.
     bind_result (publisher_of_json publisher) (\<lambda>pub.
     bind_result (mapping_field (dget payload ''payload'')) (\<lambda>body.
     bind_result (bind_result (subscript payload ''payload_hash'') str_field) (\<lambda>payload_hash.
     bind_result (py_int (dget_default payload ''schema_version'' (PyInt 1))) (\<lambda>schema_version.
     bind_result (py_int (dget_default payload ''transport_version'' (PyInt 1))) (\<lambda>transport_version.
     bind_result (opt_str_field (dget payload ''signature'')) (\<lambda>signature.
     bind_result (opt_str_field (dget payload ''key_id'')) (\<lambda>key_id.
     bind_result (opt_str_field (dget payload ''signature_algorithm'')) (\<lambda>algorithm.
     bind_result (if truthy (dget payload ''idempotency_key'') then str_field (dget payload ''idempotency_key'')
                  else Inr envelope_id) (\<lambda>idempotency_key.
     Inr \<lparr>env_envelope_id = envelope_id, env_kind = kind, env_sequence = sequence,
          env_observed_at = observed_at, env_publisher = pub, env_payload = body,
          env_payload_hash = payload_hash, env_schema_version = schema_version,
          env_transport_version = transport_version, env_signature = signature, env_key_id = key_id,
          env_signature_algorithm = algorithm, env_idempotency_key = idempotency_key\<rparr>))))))))))))))"

definition row_to_record :: "outbox_row \<Rightarrow> OutboxRecord result" where
  "row_to_record row =
     bind_result (envelope_of_json (row_envelope_json row)) (\<lambda>envelope.
     Inr \<lparr>or_envelope = envelope, or_status = row_status row, or_attempts = row_attempts row,
          or_created_at = row_created_at row, or_updated_at = row_updated_at row\<rparr>)"

subsection \<open>Writing\<close>

text \<open>\<^verbatim>\<open>ORDER BY sequence ASC LIMIT 1\<close> and \<^verbatim>\<open>DELETE ... WHERE envelope_id=?\<close>.\<close>

definition oldest_row :: "outbox_row list \<Rightarrow> outbox_row option" where
  "oldest_row rows = (case sort_key row_sequence rows of [] \<Rightarrow> None | r # _ \<Rightarrow> Some r)"

definition delete_row :: "string \<Rightarrow> outbox_row list \<Rightarrow> outbox_row list" where
  "delete_row envelope_id rows = filter (\<lambda>r. row_envelope_id r \<noteq> envelope_id) rows"

lemma oldest_row_in: "oldest_row rows = Some r \<Longrightarrow> r \<in> set rows"
  unfolding oldest_row_def by (metis list.case_eq_if list.set_sel(1) option.distinct(1) option.inject set_sort)

lemma delete_row_shorter: "r \<in> set rows \<Longrightarrow> length (delete_row (row_envelope_id r) rows) < length rows"
  unfolding delete_row_def by (rule length_filter_less) auto

function compact_loop :: "int \<Rightarrow> outbox_row list \<Rightarrow> int \<Rightarrow> outbox_row list \<times> int" where
  "compact_loop max_entries rows deleted =
     (if int (length rows) \<le> max_entries then (rows, deleted)
      else case oldest_row rows of
             None \<Rightarrow> (rows, deleted)
           | Some row \<Rightarrow> compact_loop max_entries (delete_row (row_envelope_id row) rows) (deleted + 1))"
  by pat_completeness auto

termination
  by (relation "measure (\<lambda>(_, rows, _). length rows)") (auto simp: delete_row_shorter oldest_row_in)

declare compact_loop.simps [simp del]

definition compact :: "DeliveryOutbox \<Rightarrow> int \<times> DeliveryOutbox" where
  "compact ob =
     (let (rows, deleted) = compact_loop (ob_max_entries ob) (ob_rows ob) 0
      in (deleted, ob\<lparr>ob_rows := rows\<rparr>))"

text \<open>\<open>append\<close>: a known idempotency key returns the stored record; a repeated primary key raises in
  the INSERT; otherwise the row is committed, the table compacted and the row read back.\<close>

definition new_row :: "time \<Rightarrow> DeliveryEnvelope \<Rightarrow> outbox_row" where
  "new_row now envelope =
     \<lparr>row_envelope_id = env_envelope_id envelope, row_kind = delivery_kind_value (env_kind envelope),
      row_sequence = env_sequence envelope, row_status = PENDING, row_attempts = 0,
      row_idempotency_key = envelope_key envelope, row_payload_hash = env_payload_hash envelope,
      row_envelope_json = envelope_as_dict envelope, row_created_at = now, row_updated_at = now\<rparr>"

definition append :: "DeliveryOutbox \<Rightarrow> time \<Rightarrow> DeliveryEnvelope \<Rightarrow> OutboxRecord result \<times> DeliveryOutbox" where
  "append ob now envelope =
     (case find (\<lambda>r. row_idempotency_key r = envelope_key envelope) (ob_rows ob) of
        Some existing \<Rightarrow> (row_to_record existing, ob)
      | None \<Rightarrow>
          if env_envelope_id envelope \<in> row_envelope_id ` set (ob_rows ob) then
            (Inl (IntegrityError ''UNIQUE constraint failed: delivery_outbox.envelope_id''), ob)
          else
            let ob1 = snd (compact (ob\<lparr>ob_rows := ob_rows ob @ [new_row now envelope]\<rparr>))
            in (case find (\<lambda>r. row_envelope_id r = env_envelope_id envelope) (ob_rows ob1) of
                  None \<Rightarrow> (Inl (AssertionError []), ob1)
                | Some row \<Rightarrow> (row_to_record row, ob1)))"

definition set_status :: "string \<Rightarrow> DeliveryAckStatus \<Rightarrow> bool \<Rightarrow> time \<Rightarrow> DeliveryOutbox \<Rightarrow> DeliveryOutbox" where
  "set_status envelope_id status bump_attempts now ob =
     ob\<lparr>ob_rows := map (\<lambda>r.
        if row_envelope_id r = envelope_id then
          (if bump_attempts then r\<lparr>row_status := status, row_attempts := row_attempts r + 1, row_updated_at := now\<rparr>
           else r\<lparr>row_status := status, row_updated_at := now\<rparr>)
        else r) (ob_rows ob)\<rparr>"

definition mark_sent :: "string \<Rightarrow> time \<Rightarrow> DeliveryOutbox \<Rightarrow> DeliveryOutbox" where
  "mark_sent envelope_id now ob = set_status envelope_id SENT True now ob"

definition mark_acked :: "string \<Rightarrow> DeliveryOutbox \<Rightarrow> DeliveryOutbox" where
  "mark_acked envelope_id ob = ob\<lparr>ob_rows := delete_row envelope_id (ob_rows ob)\<rparr>"

definition mark_failed :: "string \<Rightarrow> time \<Rightarrow> DeliveryOutbox \<Rightarrow> DeliveryOutbox" where
  "mark_failed envelope_id now ob = set_status envelope_id FAILED True now ob"

definition pending_rows :: "int \<Rightarrow> DeliveryOutbox \<Rightarrow> outbox_row list" where
  "pending_rows limit ob =
     take (nat (max 1 limit)) (sort_key row_sequence (filter (\<lambda>r. row_status r \<in> {PENDING, FAILED}) (ob_rows ob)))"

definition pending :: "int \<Rightarrow> DeliveryOutbox \<Rightarrow> OutboxRecord list result" where
  "pending limit ob = map_result row_to_record (pending_rows limit ob)"

definition outbox_size :: "DeliveryOutbox \<Rightarrow> int" where
  "outbox_size ob = int (length (ob_rows ob))"

section \<open>The publisher\<close>

record RuntimeDeliveryPublisher =
  rp_private_key :: "string option"
  rp_key_id :: "string option"
  rp_identity :: PublisherIdentity

text \<open>The constructor. \<open>env\<close> is the process environment, \<open>read_text\<close> the contents of the key file,
  \<open>public_key_from_private\<close> and \<open>keypair\<close> the Ed25519 functions, \<open>sha256\<close> the hexadecimal digest and
  \<open>instance_id\<close> the generated identifier. \<open>configured_key\<close> is the key that \<^verbatim>\<open>__init__\<close> finds.\<close>

definition str_or :: "string option \<Rightarrow> string option \<Rightarrow> string option" where
  "str_or a b = (if opt_truthy a then a else b)"

definition configured_key :: "(string \<Rightarrow> string option) \<Rightarrow> (string \<Rightarrow> string result) \<Rightarrow> string option \<Rightarrow> string option result" where
  "configured_key env read_text private_key =
     (let configured = str_or private_key (env ''JOYMESH_RUNTIME_SIGNING_KEY'');
          key_path = env ''JOYMESH_RUNTIME_SIGNING_KEY_PATH''
      in if configured = None \<and> opt_truthy key_path then
           bind_result (read_text (the key_path)) (\<lambda>text. Inr (Some (py_strip text)))
         else Inr configured)"

definition publisher_keys ::
  "(string \<Rightarrow> string option) \<Rightarrow> (string \<Rightarrow> string result) \<Rightarrow> (string \<Rightarrow> string result) \<Rightarrow> string \<times> string
   \<Rightarrow> bool \<Rightarrow> string option \<Rightarrow> (string option \<times> string option) result" where
  "publisher_keys env read_text public_key_from_private keypair sign private_key =
     (if \<not> sign then Inr (None, None)
      else bind_result (configured_key env read_text private_key) (\<lambda>configured.
        if opt_truthy configured then
          (let key = py_strip (the configured)
           in bind_result (public_key_from_private key) (\<lambda>public_key. Inr (Some key, Some public_key)))
        else if production_mode (env ''JOYMESH_ENV'') then
          Inl (RuntimeError (''production signing key required: set JOYMESH_RUNTIME_SIGNING_KEY '' @
                             ''or JOYMESH_RUNTIME_SIGNING_KEY_PATH''))
        else Inr (Some (fst keypair), Some (snd keypair))))"

definition init_RuntimeDeliveryPublisher ::
  "(string \<Rightarrow> string option) \<Rightarrow> (string \<Rightarrow> string result) \<Rightarrow> (string \<Rightarrow> string result) \<Rightarrow> string \<times> string
   \<Rightarrow> (string \<Rightarrow> string) \<Rightarrow> string \<Rightarrow> string \<Rightarrow> string \<Rightarrow> bool \<Rightarrow> string option \<Rightarrow> string option
   \<Rightarrow> RuntimeDeliveryPublisher result" where
  "init_RuntimeDeliveryPublisher env read_text public_key_from_private keypair sha256 instance_id
       publisher_id organisation_id sign private_key key_id =
     bind_result (publisher_keys env read_text public_key_from_private keypair sign private_key)
       (\<lambda>(private, public_key).
        Inr \<lparr>rp_private_key = private,
             rp_key_id = str_or key_id (str_or (env ''JOYMESH_RUNTIME_SIGNING_KEY_ID'')
               (if opt_truthy public_key then Some (''ed25519:'' @ take 16 (sha256 (the public_key))) else None)),
             rp_identity = \<lparr>pub_publisher_id = publisher_id, pub_public_key = public_key,
                            pub_instance_id = instance_id, pub_organisation_id = organisation_id\<rparr>\<rparr>)"

text \<open>\<open>publisher_append\<close> takes the next sequence number, builds and signs the envelope and appends
  it; the envelope is returned whether or not it was stored. \<open>uuid\<close> is the generated envelope id,
  \<open>now\<close> and \<open>now'\<close> the times read when the envelope is built and when it is stored.\<close>

definition sign_envelope :: "(string \<Rightarrow> string \<Rightarrow> string result) \<Rightarrow> string option \<Rightarrow> DeliveryEnvelope \<Rightarrow> DeliveryEnvelope result" where
  "sign_envelope sign_bytes private_key envelope =
     (case private_key of
        None \<Rightarrow> Inr envelope
      | Some key \<Rightarrow> bind_result (sign_bytes (canonical_signed_bytes envelope) key)
                      (\<lambda>sig. Inr (envelope\<lparr>env_signature := Some sig\<rparr>)))"

definition publisher_append ::
  "(string \<Rightarrow> string) \<Rightarrow> (string \<Rightarrow> string \<Rightarrow> string result) \<Rightarrow> RuntimeDeliveryPublisher
   \<Rightarrow> string \<Rightarrow> time \<Rightarrow> time \<Rightarrow> DeliveryKind \<Rightarrow> pydict \<Rightarrow> string option
   \<Rightarrow> DeliveryOutbox \<Rightarrow> DeliveryEnvelope result \<times> DeliveryOutbox" where
  "publisher_append sha256 sign_bytes pub uuid now now' kind payload idempotency_key ob =
     (let (sequence, ob1) = next_sequence ob;
          envelope0 = build_envelope sha256 uuid now kind sequence (rp_identity pub) payload (rp_key_id pub)
                        (if opt_truthy (rp_private_key pub) then Some ''ed25519'' else None) idempotency_key
      in case sign_envelope sign_bytes (rp_private_key pub) envelope0 of
           Inl e \<Rightarrow> (Inl e, ob1)
         | Inr envelope \<Rightarrow>
             (case append ob1 now' envelope of
                (Inl e, ob2) \<Rightarrow> (Inl e, ob2)
              | (Inr _, ob2) \<Rightarrow> (Inr envelope, ob2)))"

text \<open>The three publishing methods: each checks the privacy guard before anything is stored. A
  snapshot enters as its id and its \<^verbatim>\<open>as_dict()\<close>.\<close>

definition guarded_append ::
  "(string \<Rightarrow> string) \<Rightarrow> (string \<Rightarrow> string \<Rightarrow> string result) \<Rightarrow> RuntimeDeliveryPublisher
   \<Rightarrow> string \<Rightarrow> time \<Rightarrow> time \<Rightarrow> DeliveryKind \<Rightarrow> pydict \<Rightarrow> string option
   \<Rightarrow> DeliveryOutbox \<Rightarrow> DeliveryEnvelope result \<times> DeliveryOutbox" where
  "guarded_append sha256 sign_bytes pub uuid now now' kind payload idempotency_key ob =
     (case assert_privacy payload of
        Inl e \<Rightarrow> (Inl e, ob)
      | Inr _ \<Rightarrow> publisher_append sha256 sign_bytes pub uuid now now' kind payload idempotency_key ob)"

definition publish_snapshot where
  "publish_snapshot sha256 sign_bytes pub uuid now now' snapshot_id snapshot_dict ob =
     guarded_append sha256 sign_bytes pub uuid now now' RUNTIME_SNAPSHOT snapshot_dict
       (Some (''snapshot:'' @ snapshot_id)) ob"

definition publish_event where
  "publish_event sha256 sign_bytes pub uuid now now' event_type payload idempotency_key ob =
     guarded_append sha256 sign_bytes pub uuid now now' RUNTIME_EVENT
       [(''event_type'', PyStr event_type), (''payload'', PyDict payload)] idempotency_key ob"

definition publish_approval_request where
  "publish_approval_request sha256 sign_bytes pub uuid now now' payload idempotency_key ob =
     guarded_append sha256 sign_bytes pub uuid now now' APPROVAL_REQUEST payload (Some idempotency_key) ob"

section \<open>Invariant of the table\<close>

text \<open>What SQLite enforces (unique envelope ids and idempotency keys), what compaction enforces (the
  bound), and what the publisher relies on (no stored sequence number exceeds the counter).\<close>

definition sequence_counter :: "DeliveryOutbox \<Rightarrow> int" where
  "sequence_counter ob = (case ob_sequence ob of None \<Rightarrow> 0 | Some n \<Rightarrow> n)"

text \<open>Rows as \<open>append\<close> writes them: the columns agree with the stored JSON.\<close>

definition row_ok :: "outbox_row \<Rightarrow> bool" where
  "row_ok r \<longleftrightarrow>
     (\<exists>e. row_envelope_json r = envelope_as_dict e \<and> row_envelope_id r = env_envelope_id e
        \<and> row_sequence r = env_sequence e \<and> row_idempotency_key r = envelope_key e
        \<and> row_payload_hash r = env_payload_hash e)"

definition outbox_ok :: "DeliveryOutbox \<Rightarrow> bool" where
  "outbox_ok ob \<longleftrightarrow>
     1 \<le> ob_max_entries ob
     \<and> outbox_size ob \<le> ob_max_entries ob
     \<and> distinct (map row_envelope_id (ob_rows ob))
     \<and> distinct (map row_idempotency_key (ob_rows ob))
     \<and> (\<forall>r \<in> set (ob_rows ob). row_sequence r \<le> sequence_counter ob \<and> row_ok r)"

inductive outbox_step :: "DeliveryOutbox \<Rightarrow> DeliveryOutbox \<Rightarrow> bool" where
  publish: "outbox_step ob (snd (guarded_append sha256 sign_bytes pub uuid now now' kind payload ikey ob))"
| sent: "outbox_step ob (mark_sent eid now ob)"
| acked: "outbox_step ob (mark_acked eid ob)"
| failed: "outbox_step ob (mark_failed eid now ob)"
| compacted: "outbox_step ob (snd (compact ob))"

section \<open>Lemmas\<close>

text \<open>Reading back what was written.\<close>

lemma str_field_opt [simp]: "opt_str_field (opt_str x) = Inr x"
  by (cases x) (auto simp: opt_str_def)

lemma parse_kind_value [simp]: "parse_kind (PyStr (delivery_kind_value k)) = Inr k"
  by (cases k) (auto simp: parse_kind_def)

lemma publisher_roundtrip: "publisher_of_json (publisher_as_dict p) = Inr p"
  by (simp add: publisher_of_json_def publisher_as_dict_def dget_def dget_default_def)

lemma envelope_roundtrip:
  "envelope_of_json (envelope_as_dict e) = Inr (e\<lparr>env_idempotency_key := envelope_key e\<rparr>)"
  unfolding envelope_of_json_def
  by (simp add: envelope_as_dict_def dget_def dget_default_def subscript_def publisher_roundtrip)
     (simp add: envelope_key_def)

text \<open>Compaction.\<close>

lemma oldest_row_least:
  assumes "oldest_row rows = Some r" "r' \<in> set rows"
  shows "row_sequence r \<le> row_sequence r'"
proof -
  obtain rs where sort: "sort_key row_sequence rows = r # rs"
    using assms(1) by (auto simp: oldest_row_def split: list.splits)
  have "sorted (map row_sequence (r # rs))"
    by (metis sort sorted_sort_key)
  moreover have "r' \<in> set (r # rs)"
    using assms(2) by (metis sort set_sort)
  ultimately show ?thesis
    by auto
qed

lemma oldest_row_exists: "rows \<noteq> [] \<Longrightarrow> \<exists>r. oldest_row rows = Some r"
  by (cases "sort_key row_sequence rows") (auto simp: oldest_row_def)

lemma compact_loop_bound:
  "0 \<le> m \<Longrightarrow> int (length (fst (compact_loop m rows n))) \<le> m"
proof (induction m rows n rule: compact_loop.induct)
  case (1 m rows n)
  show ?case
  proof (cases "int (length rows) \<le> m")
    case False
    then obtain r where "oldest_row rows = Some r"
      using 1(2) oldest_row_exists [of rows] by force
    then show ?thesis
      using 1 False by (subst compact_loop.simps) simp
  qed (simp add: compact_loop.simps [of m rows n])
qed

lemma delete_one:
  assumes "distinct (map row_envelope_id rows)" "r \<in> set rows"
  shows "length rows = Suc (length (delete_row (row_envelope_id r) rows))"
proof -
  obtain xs ys where rows: "rows = xs @ r # ys"
    using assms(2) by (meson split_list)
  then have "filter (\<lambda>x. row_envelope_id x \<noteq> row_envelope_id r) xs = xs"
    "filter (\<lambda>x. row_envelope_id x \<noteq> row_envelope_id r) ys = ys"
    using assms(1) by (auto intro!: filter_True) (metis imageI)+
  then show ?thesis
    using rows by (simp add: delete_row_def)
qed

lemma compact_loop_count:
  "distinct (map row_envelope_id rows) \<Longrightarrow>
     snd (compact_loop m rows n) = n + int (length rows) - int (length (fst (compact_loop m rows n)))"
proof (induction m rows n rule: compact_loop.induct)
  case (1 m rows n)
  have len: "length rows = Suc (length (delete_row (row_envelope_id r) rows))"
    if "oldest_row rows = Some r" for r
    using delete_one [OF 1(2) oldest_row_in [OF that]] .
  have "distinct (map row_envelope_id (delete_row i rows))" for i
    using 1(2) by (simp add: delete_row_def distinct_map_filter)
  then show ?case
    using 1(1) len
    by (subst (1 2) compact_loop.simps) (auto split: option.splits)
qed

lemma compact_loop_nonempty:
  assumes "1 \<le> m" "rows \<noteq> []" "distinct (map row_envelope_id rows)"
  shows "fst (compact_loop m rows n) \<noteq> []"
  using assms
proof (induction m rows n rule: compact_loop.induct)
  case (1 m rows n)
  show ?case
  proof (cases "int (length rows) \<le> m \<or> oldest_row rows = None")
    case True
    then show ?thesis
      using 1(3) by (auto simp: compact_loop.simps [of m rows n])
  next
    case False
    then obtain r where old: "oldest_row rows = Some r" and big: "\<not> int (length rows) \<le> m"
      by auto
    have "0 < length (delete_row (row_envelope_id r) rows)"
      using delete_one [OF 1(4) oldest_row_in [OF old]] big 1(2) by linarith
    then have "delete_row (row_envelope_id r) rows \<noteq> []"
      by simp
    moreover have "distinct (map row_envelope_id (delete_row (row_envelope_id r) rows))"
      using 1(4) by (simp add: delete_row_def distinct_map_filter)
    ultimately show ?thesis
      using 1(1) [OF big old 1(2)] old big by (simp add: compact_loop.simps [of m rows n])
  qed
qed

definition keeps_newest :: "outbox_row list \<Rightarrow> (outbox_row \<Rightarrow> bool) \<Rightarrow> bool" where
  "keeps_newest rows P \<longleftrightarrow>
     (\<forall>d \<in> set rows. \<forall>k \<in> set rows. \<not> P d \<longrightarrow> P k \<longrightarrow> row_sequence d \<le> row_sequence k)"

lemma compact_loop_newest:
  "distinct (map row_envelope_id rows) \<Longrightarrow>
     \<exists>P. fst (compact_loop m rows n) = filter P rows \<and> keeps_newest rows P"
proof (induction m rows n rule: compact_loop.induct)
  case (1 m rows n)
  show ?case
  proof (cases "int (length rows) \<le> m \<or> oldest_row rows = None")
    case True
    then have "fst (compact_loop m rows n) = filter (\<lambda>_. True) rows"
      by (auto simp: compact_loop.simps [of m rows n])
    then show ?thesis
      unfolding keeps_newest_def by blast
  next
    case False
    then obtain r where old: "oldest_row rows = Some r" and big: "\<not> int (length rows) \<le> m"
      by auto
    let ?rest = "delete_row (row_envelope_id r) rows"
    have "distinct (map row_envelope_id ?rest)"
      using 1(2) by (simp add: delete_row_def distinct_map_filter)
    then obtain P where P: "fst (compact_loop m ?rest (n + 1)) = filter P ?rest" and newest: "keeps_newest ?rest P"
      using 1(1) [OF big old] by blast
    let ?Q = "\<lambda>x. row_envelope_id x \<noteq> row_envelope_id r \<and> P x"
    have "fst (compact_loop m rows n) = filter ?Q rows"
      using P old big by (simp add: compact_loop.simps [of m rows n] delete_row_def conj_commute)
    moreover have "keeps_newest rows ?Q"
      unfolding keeps_newest_def
    proof (intro ballI impI)
      fix d k
      assume d: "d \<in> set rows" "\<not> ?Q d" and k: "k \<in> set rows" "?Q k"
      show "row_sequence d \<le> row_sequence k"
      proof (cases "row_envelope_id d = row_envelope_id r")
        case True
        then have "d = r"
          using d(1) oldest_row_in [OF old] 1(2) by (metis distinct_map inj_onD)
        then show ?thesis
          using oldest_row_least [OF old] k by simp
      next
        case False
        then show ?thesis
          using newest d k by (auto simp: keeps_newest_def delete_row_def)
      qed
    qed
    ultimately show ?thesis
      by blast
  qed
qed

text \<open>The operations on the table.\<close>

lemma compact_rows:
  assumes "distinct (map row_envelope_id (ob_rows ob))"
  obtains P where "ob_rows (snd (compact ob)) = filter P (ob_rows ob)" "keeps_newest (ob_rows ob) P"
  using compact_loop_newest [OF assms, of "ob_max_entries ob" 0]
  by (auto simp: compact_def case_prod_beta Let_def)

lemma compact_fields [simp]:
  "ob_max_entries (snd (compact ob)) = ob_max_entries ob"
  "ob_sequence (snd (compact ob)) = ob_sequence ob"
  "sequence_counter (snd (compact ob)) = sequence_counter ob"
  by (simp_all add: compact_def sequence_counter_def case_prod_beta Let_def)

lemma compact_size: "0 \<le> ob_max_entries ob \<Longrightarrow> outbox_size (snd (compact ob)) \<le> ob_max_entries ob"
  using compact_loop_bound [of "ob_max_entries ob" "ob_rows ob" 0]
  by (simp add: compact_def outbox_size_def case_prod_beta Let_def)

lemma compact_ok:
  assumes "1 \<le> ob_max_entries ob" "distinct (map row_envelope_id (ob_rows ob))"
    "distinct (map row_idempotency_key (ob_rows ob))" "\<forall>r \<in> set (ob_rows ob). row_sequence r \<le> sequence_counter ob \<and> row_ok r"
  shows "outbox_ok (snd (compact ob))"
proof -
  obtain P where "ob_rows (snd (compact ob)) = filter P (ob_rows ob)"
    using compact_rows [OF assms(2)] by blast
  then show ?thesis
    using assms compact_size [of ob] by (simp add: outbox_ok_def distinct_map_filter)
qed

lemma set_status_fields [simp]:
  "map row_envelope_id (ob_rows (set_status i st b now ob)) = map row_envelope_id (ob_rows ob)"
  "map row_idempotency_key (ob_rows (set_status i st b now ob)) = map row_idempotency_key (ob_rows ob)"
  "map row_sequence (ob_rows (set_status i st b now ob)) = map row_sequence (ob_rows ob)"
  "map row_envelope_json (ob_rows (set_status i st b now ob)) = map row_envelope_json (ob_rows ob)"
  "ob_max_entries (set_status i st b now ob) = ob_max_entries ob"
  "ob_sequence (set_status i st b now ob) = ob_sequence ob"
  "length (ob_rows (set_status i st b now ob)) = length (ob_rows ob)"
  by (simp_all add: set_status_def comp_def if_distrib cong: if_cong)

lemma set_status_ok:
  assumes "outbox_ok ob"
  shows "outbox_ok (set_status i st b now ob)"
proof -
  have "\<forall>r \<in> set (ob_rows ob). row_sequence r \<le> sequence_counter ob \<and> row_ok r"
    using assms by (simp add: outbox_ok_def)
  then have "\<forall>r \<in> set (ob_rows (set_status i st b now ob)). row_sequence r \<le> sequence_counter ob \<and> row_ok r"
    by (auto simp: set_status_def row_ok_def)
  then show ?thesis
    using assms unfolding outbox_ok_def outbox_size_def sequence_counter_def by (simp only: set_status_fields)
qed

lemma next_sequence_ok:
  assumes "outbox_ok ob"
  shows "fst (next_sequence ob) = sequence_counter ob + 1" "outbox_ok (snd (next_sequence ob))"
    "ob_rows (snd (next_sequence ob)) = ob_rows ob"
    "sequence_counter (snd (next_sequence ob)) = sequence_counter ob + 1"
    "ob_max_entries (snd (next_sequence ob)) = ob_max_entries ob"
  using assms by (auto simp: next_sequence_def outbox_ok_def outbox_size_def sequence_counter_def Let_def)

text \<open>\<open>append\<close> with a sequence number above every stored one keeps the invariant, and reads its own row
  back: compaction never drops the newest entry.\<close>

lemma append_duplicate:
  assumes "r \<in> set (ob_rows ob)" "row_idempotency_key r = envelope_key e"
  shows "snd (append ob now e) = ob"
proof -
  have "find (\<lambda>r. row_idempotency_key r = envelope_key e) (ob_rows ob) \<noteq> None"
    using assms by (auto simp: find_None_iff)
  then show ?thesis
    by (auto simp: append_def)
qed

lemma row_ok_new: "row_ok (new_row now e)"
  by (auto simp: row_ok_def new_row_def)

lemma find_append_fresh:
  "\<forall>x \<in> set xs. \<not> Q x \<Longrightarrow> Q y \<Longrightarrow> find Q (xs @ [y]) = Some y"
  by (induction xs) auto

lemma append_fresh:
  assumes ok: "outbox_ok ob"
    and fresh: "env_envelope_id e \<notin> row_envelope_id ` set (ob_rows ob)"
      "envelope_key e \<notin> row_idempotency_key ` set (ob_rows ob)"
    and newest: "\<forall>r \<in> set (ob_rows ob). row_sequence r < env_sequence e"
    and counter: "env_sequence e \<le> sequence_counter ob"
  shows "outbox_ok (snd (append ob now e))"
    and "new_row now e \<in> set (ob_rows (snd (append ob now e)))"
    and "fst (append ob now e) = row_to_record (new_row now e)"
    and "set (ob_rows (snd (append ob now e))) \<subseteq> insert (new_row now e) (set (ob_rows ob))"
proof -
  let ?ob = "ob\<lparr>ob_rows := ob_rows ob @ [new_row now e]\<rparr>"
  have ids: "distinct (map row_envelope_id (ob_rows ?ob))"
    using ok fresh by (simp add: outbox_ok_def new_row_def)
  obtain P where P: "ob_rows (snd (compact ?ob)) = filter P (ob_rows ?ob)" and new: "keeps_newest (ob_rows ?ob) P"
    using compact_rows [OF ids] by blast
  have compacted: "outbox_ok (snd (compact ?ob))"
    by (rule compact_ok)
       (use ok ids fresh counter row_ok_new [of now e] in
        \<open>auto simp: outbox_ok_def new_row_def sequence_counter_def\<close>)
  have max: "1 \<le> ob_max_entries ob"
    using ok by (simp add: outbox_ok_def)
  have kept: "P (new_row now e)"
  proof (rule ccontr)
    assume drop: "\<not> P (new_row now e)"
    have "\<not> P k" if "k \<in> set (ob_rows ob)" for k
      using new drop newest that by (force simp: keeps_newest_def new_row_def)
    then have none: "ob_rows (snd (compact ?ob)) = []"
      using P drop by (auto simp: filter_empty_conv)
    show False
      using compact_loop_nonempty [of "ob_max_entries ob" "ob_rows ?ob" 0] max ids none
      by (simp add: compact_def case_prod_beta Let_def)
  qed
  have key: "find (\<lambda>r. row_idempotency_key r = envelope_key e) (ob_rows ob) = None"
    using fresh(2) by (auto simp: find_None_iff image_iff)
  have self: "find (\<lambda>r. row_envelope_id r = env_envelope_id e) (ob_rows (snd (compact ?ob))) = Some (new_row now e)"
  proof -
    have "row_envelope_id (new_row now e) = env_envelope_id e"
      by (simp add: new_row_def)
    moreover have "ob_rows (snd (compact ?ob)) = filter P (ob_rows ob) @ [new_row now e]"
      using P kept by simp
    moreover have "\<forall>x \<in> set (filter P (ob_rows ob)). row_envelope_id x \<noteq> env_envelope_id e"
      using fresh(1) by (auto simp: image_iff)
    ultimately show ?thesis
      by (simp add: find_append_fresh)
  qed
  have app: "append ob now e = (row_to_record (new_row now e), snd (compact ?ob))"
    using key self fresh(1) by (simp add: append_def Let_def)
  show "outbox_ok (snd (append ob now e))"
    using app compacted by simp
  show "new_row now e \<in> set (ob_rows (snd (append ob now e)))"
    using app P kept by simp
  show "fst (append ob now e) = row_to_record (new_row now e)"
    using app by simp
  show "set (ob_rows (snd (append ob now e))) \<subseteq> insert (new_row now e) (set (ob_rows ob))"
    using app P by auto
qed

lemma row_ok_readable: "row_ok r \<Longrightarrow> \<exists>rec. row_to_record r = Inr rec \<and> env_envelope_id (or_envelope rec) = row_envelope_id r"
  by (auto simp: row_ok_def row_to_record_def envelope_roundtrip)

lemma append_ok:
  assumes ok: "outbox_ok ob" and newest: "\<forall>r \<in> set (ob_rows ob). row_sequence r < env_sequence e"
    and counter: "env_sequence e \<le> sequence_counter ob"
  shows "outbox_ok (snd (append ob now e))"
proof (cases "envelope_key e \<in> row_idempotency_key ` set (ob_rows ob)")
  case True
  then obtain r where "r \<in> set (ob_rows ob)" "row_idempotency_key r = envelope_key e"
    by auto
  then show ?thesis
    using append_duplicate ok by simp
next
  case False
  then have "find (\<lambda>r. row_idempotency_key r = envelope_key e) (ob_rows ob) = None"
    by (auto simp: find_None_iff image_iff)
  then show ?thesis
    using append_fresh(1) [OF ok _ False newest counter] ok
    by (cases "env_envelope_id e \<in> row_envelope_id ` set (ob_rows ob)") (auto simp: append_def)
qed

lemma sign_envelope_fields:
  "sign_envelope sb pk e0 = Inr e \<Longrightarrow>
     env_sequence e = env_sequence e0 \<and> env_envelope_id e = env_envelope_id e0
     \<and> envelope_key e = envelope_key e0 \<and> env_payload e = env_payload e0 \<and> env_payload_hash e = env_payload_hash e0"
  by (auto simp: sign_envelope_def envelope_key_def bind_result_Inr_iff split: option.splits)

lemma publisher_append_ok:
  assumes "outbox_ok ob"
  shows "outbox_ok (snd (publisher_append sha256 sign_bytes pub uuid now now' kind payload ikey ob))"
proof -
  note seq = next_sequence_ok [OF assms]
  let ?e0 = "build_envelope sha256 uuid now kind (fst (next_sequence ob)) (rp_identity pub) payload (rp_key_id pub)
    (if opt_truthy (rp_private_key pub) then Some ''ed25519'' else None) ikey"
  have "outbox_ok (snd (append (snd (next_sequence ob)) now' e))" if "env_sequence e = sequence_counter ob + 1" for e
    by (rule append_ok) (use seq assms that in \<open>auto simp: outbox_ok_def intro: order.strict_trans1\<close>)
  moreover have "env_sequence e = sequence_counter ob + 1"
    if "sign_envelope sign_bytes (rp_private_key pub) ?e0 = Inr e" for e
    using sign_envelope_fields [OF that] seq(1) by (simp add: build_envelope_def)
  ultimately show ?thesis
    using seq(2) by (auto simp: publisher_append_def case_prod_beta Let_def split: sum.splits)
qed

lemma guarded_append_ok:
  "outbox_ok ob \<Longrightarrow> outbox_ok (snd (guarded_append sha256 sign_bytes pub uuid now now' kind payload ikey ob))"
  by (auto simp: guarded_append_def publisher_append_ok split: sum.splits)

lemma outbox_step_ok: "outbox_step ob ob' \<Longrightarrow> outbox_ok ob \<Longrightarrow> outbox_ok ob'"
proof (induction rule: outbox_step.induct)
  case (acked ob eid)
  then show ?case
    by (auto simp: mark_acked_def delete_row_def outbox_ok_def outbox_size_def sequence_counter_def distinct_map_filter
        intro: order_trans [OF _ length_filter_le, THEN order_trans])
       (meson length_filter_le of_nat_le_iff order_trans)
next
  case (compacted ob)
  then show ?case
    by (intro compact_ok) (auto simp: outbox_ok_def)
qed (auto simp: guarded_append_ok mark_sent_def mark_failed_def set_status_ok)

lemma outbox_reachable_ok: "outbox_step\<^sup>*\<^sup>* (init_DeliveryOutbox n) ob \<Longrightarrow> outbox_ok ob"
proof (induction rule: rtranclp_induct)
  case base
  show ?case
    by (simp add: outbox_ok_def init_DeliveryOutbox_def outbox_size_def)
next
  case (step y z)
  then show ?case
    using outbox_step_ok by blast
qed

text \<open>The configured bound never changes.\<close>

lemma append_max [simp]: "ob_max_entries (snd (append ob now e)) = ob_max_entries ob"
  by (auto simp: append_def Let_def split: option.splits)

lemma publisher_append_max [simp]:
  "ob_max_entries (snd (publisher_append sha256 sign_bytes pub uuid now now' kind payload ikey ob)) = ob_max_entries ob"
proof -
  have "ob_max_entries (snd (next_sequence ob)) = ob_max_entries ob"
    by (simp add: next_sequence_def Let_def)
  then show ?thesis
    by (auto simp: publisher_append_def case_prod_beta Let_def split: sum.splits)
qed

lemma outbox_step_max: "outbox_step ob ob' \<Longrightarrow> ob_max_entries ob' = ob_max_entries ob"
  by (induction rule: outbox_step.induct)
     (auto simp: guarded_append_def mark_sent_def mark_acked_def mark_failed_def split: sum.splits)

lemma outbox_reachable_max: "outbox_step\<^sup>*\<^sup>* (init_DeliveryOutbox n) ob \<Longrightarrow> ob_max_entries ob = max 1 n"
  by (induction rule: rtranclp_induct) (auto simp: init_DeliveryOutbox_def dest: outbox_step_max)

text \<open>The rows after a publication are old rows and the row of the new envelope.\<close>

lemma append_rows:
  assumes "outbox_ok ob"
  shows "set (ob_rows (snd (append ob now e))) \<subseteq> insert (new_row now e) (set (ob_rows ob))"
proof -
  have "set (ob_rows (snd (compact (ob\<lparr>ob_rows := ob_rows ob @ [new_row now e]\<rparr>))))
      \<subseteq> insert (new_row now e) (set (ob_rows ob))"
    if "env_envelope_id e \<notin> row_envelope_id ` set (ob_rows ob)"
  proof -
    have "distinct (map row_envelope_id (ob_rows (ob\<lparr>ob_rows := ob_rows ob @ [new_row now e]\<rparr>)))"
      using assms that by (simp add: outbox_ok_def new_row_def)
    then obtain P where "ob_rows (snd (compact (ob\<lparr>ob_rows := ob_rows ob @ [new_row now e]\<rparr>)))
        = filter P (ob_rows ob @ [new_row now e])"
      by (rule compact_rows) simp
    then show ?thesis
      by auto
  qed
  then show ?thesis
    by (auto simp: append_def Let_def split: option.splits)
qed

definition payload_of_row :: "outbox_row \<Rightarrow> pydict" where
  "payload_of_row r = as_dict (dget (row_envelope_json r) ''payload'')"

definition rows_private :: "DeliveryOutbox \<Rightarrow> bool" where
  "rows_private ob \<longleftrightarrow> (\<forall>r \<in> set (ob_rows ob). assert_privacy (payload_of_row r) = Inr ())"

lemma payload_of_new_row [simp]: "payload_of_row (new_row now e) = env_payload e"
  by (simp add: payload_of_row_def new_row_def envelope_as_dict_def dget_def)

lemma publisher_append_private:
  assumes "outbox_ok ob" "rows_private ob" "assert_privacy payload = Inr ()"
  shows "rows_private (snd (publisher_append sha256 sign_bytes pub uuid now now' kind payload ikey ob))"
proof -
  note seq = next_sequence_ok [OF assms(1)]
  have "rows_private (snd (append (snd (next_sequence ob)) now' e))" if "env_payload e = payload" for e
    using append_rows [OF seq(2), of now' e] assms(2,3) that unfolding rows_private_def seq(3)
    by (metis insert_iff payload_of_new_row subsetD)
  moreover have "env_payload e = payload" if "sign_envelope sign_bytes pk
      (build_envelope sha256 uuid now kind n ident payload kid alg ikey) = Inr e" for e pk n ident kid alg
    using sign_envelope_fields [OF that] by (simp add: build_envelope_def)
  moreover have "rows_private (snd (next_sequence ob))"
    using assms(2) seq(3) by (simp add: rows_private_def)
  ultimately show ?thesis
    by (auto simp: publisher_append_def case_prod_beta Let_def split: sum.splits)
qed

lemma outbox_step_private: "outbox_step ob ob' \<Longrightarrow> outbox_ok ob \<Longrightarrow> rows_private ob \<Longrightarrow> rows_private ob'"
proof (induction rule: outbox_step.induct)
  case (publish ob sha256 sign_bytes pub uuid now now' kind payload ikey)
  then show ?case
    by (auto simp: guarded_append_def publisher_append_private split: sum.splits)
next
  case (compacted ob)
  then have "distinct (map row_envelope_id (ob_rows ob))"
    by (simp add: outbox_ok_def)
  from compact_rows [OF this] show ?case
    using compacted by (metis filter_is_subset rows_private_def subsetD)
qed (auto simp: rows_private_def mark_sent_def mark_failed_def mark_acked_def set_status_def delete_row_def payload_of_row_def)

lemma outbox_reachable_private: "outbox_step\<^sup>*\<^sup>* (init_DeliveryOutbox n) ob \<Longrightarrow> rows_private ob"
proof (induction rule: rtranclp_induct)
  case base
  show ?case
    by (simp add: rows_private_def init_DeliveryOutbox_def)
next
  case (step y z)
  then show ?case
    using outbox_step_private outbox_reachable_ok by blast
qed

text \<open>Publishing a clean payload.\<close>

lemma append_stores:
  assumes ok: "outbox_ok ob" and newest: "\<forall>r \<in> set (ob_rows ob). row_sequence r < env_sequence e"
    and counter: "env_sequence e \<le> sequence_counter ob"
    and fresh: "env_envelope_id e \<notin> row_envelope_id ` set (ob_rows ob)"
  shows "\<exists>rec ob'. append ob now e = (Inr rec, ob')
     \<and> (if envelope_key e \<in> row_idempotency_key ` set (ob_rows ob) then ob' = ob
        else new_row now e \<in> set (ob_rows ob'))"
proof (cases "envelope_key e \<in> row_idempotency_key ` set (ob_rows ob)")
  case True
  then obtain r where r: "find (\<lambda>r. row_idempotency_key r = envelope_key e) (ob_rows ob) = Some r"
    by (metis (mono_tags, lifting) find_None_iff imageE option.exhaust)
  then have "r \<in> set (ob_rows ob)"
    by (metis find_Some_iff nth_mem)
  then have "row_ok r"
    using ok by (simp add: outbox_ok_def)
  from row_ok_readable [OF this] show ?thesis
    using True r by (auto simp: append_def)
next
  case False
  note app = append_fresh [OF ok fresh False newest counter, of now]
  obtain rec where "row_to_record (new_row now e) = Inr rec"
    using row_ok_readable [OF row_ok_new] by blast
  then show ?thesis
    using app(2,3) False by (metis prod.collapse)
qed

lemma sign_envelope_total:
  assumes "\<forall>m k. \<exists>sig. sign_bytes m k = Inr sig"
  shows "\<exists>e. sign_envelope sign_bytes pk e0 = Inr e"
proof (cases pk)
  case (Some key)
  obtain sig where "sign_bytes (canonical_signed_bytes e0) key = Inr sig"
    using assms by blast
  then show ?thesis
    using Some by (simp add: sign_envelope_def)
qed (simp add: sign_envelope_def)

lemma publisher_append_stores:
  assumes ok: "outbox_ok ob" and fresh: "uuid \<notin> row_envelope_id ` set (ob_rows ob)"
    and signer: "\<forall>m k. \<exists>sig. sign_bytes m k = Inr sig"
  shows "\<exists>e ob'. publisher_append sha256 sign_bytes pub uuid now now' kind payload ikey ob = (Inr e, ob')
     \<and> env_payload e = payload
     \<and> env_sequence e = sequence_counter ob + 1
     \<and> (if envelope_key e \<in> row_idempotency_key ` set (ob_rows ob) then ob_rows ob' = ob_rows ob
        else new_row now' e \<in> set (ob_rows ob'))"
proof -
  note seq = next_sequence_ok [OF ok]
  let ?e0 = "build_envelope sha256 uuid now kind (fst (next_sequence ob)) (rp_identity pub) payload (rp_key_id pub)
    (if opt_truthy (rp_private_key pub) then Some ''ed25519'' else None) ikey"
  obtain e where e: "sign_envelope sign_bytes (rp_private_key pub) ?e0 = Inr e"
    using sign_envelope_total [OF signer] by blast
  have fields: "env_sequence e = sequence_counter ob + 1" "env_envelope_id e = uuid" "env_payload e = payload"
    using sign_envelope_fields [OF e] seq(1) by (simp_all add: build_envelope_def)
  have "\<forall>r \<in> set (ob_rows (snd (next_sequence ob))). row_sequence r < env_sequence e"
    using ok fields(1) unfolding seq(3) by (auto simp: outbox_ok_def)
  from append_stores [OF seq(2) this] fields fresh
  obtain rec ob' where "append (snd (next_sequence ob)) now' e = (Inr rec, ob')"
    "if envelope_key e \<in> row_idempotency_key ` set (ob_rows ob) then ob' = snd (next_sequence ob)
        else new_row now' e \<in> set (ob_rows ob')"
    unfolding seq(3,4) by force
  then show ?thesis
    using e fields seq(3) by (auto simp: publisher_append_def case_prod_beta Let_def split: if_splits)
qed

lemma row_key_new_row [simp]: "row_idempotency_key (new_row now e) = envelope_key e"
  by (simp add: new_row_def)

section \<open>Properties\<close>

text \<open>C13: Bounded growth and uniqueness. Whatever interleaving of publications, sends,
  acknowledgements, failures and compactions has run on an outbox created with limit \<open>n\<close>, it never
  holds more than \<open>max 1 n\<close> entries, every envelope id and every idempotency key occurs once, and no
  stored sequence number exceeds the counter.\<close>

theorem outbox_bounded_unique:
  assumes "outbox_step\<^sup>*\<^sup>* (init_DeliveryOutbox n) ob"
  shows "outbox_size ob \<le> max 1 n
    \<and> distinct (map row_envelope_id (ob_rows ob))
    \<and> distinct (map row_idempotency_key (ob_rows ob))
    \<and> (\<forall>r \<in> set (ob_rows ob). row_sequence r \<le> sequence_counter ob)"
  using outbox_reachable_ok [OF assms] outbox_reachable_max [OF assms] by (auto simp: outbox_ok_def)

text \<open>A publication is stored and is the newest entry. On every reachable outbox, publishing a
  payload that passes the privacy guard under a fresh envelope id succeeds: the envelope gets a
  sequence number above all stored ones; if its idempotency key is already stored the table is left
  as it is (a resend is suppressed), and otherwise the new pending row is in the table afterwards, so
  that the compaction that follows the insert never drops it.\<close>

theorem publish_stores_newest:
  assumes "outbox_step\<^sup>*\<^sup>* (init_DeliveryOutbox n) ob"
    and "uuid \<notin> row_envelope_id ` set (ob_rows ob)"
    and "assert_privacy payload = Inr ()"
    and "\<forall>m k. \<exists>sig. sign_bytes m k = Inr sig"
  shows "\<exists>e ob'. guarded_append sha256 sign_bytes pub uuid now now' kind payload ikey ob = (Inr e, ob')
     \<and> (\<forall>r \<in> set (ob_rows ob). row_sequence r < env_sequence e)
     \<and> (if envelope_key e \<in> row_idempotency_key ` set (ob_rows ob) then ob_rows ob' = ob_rows ob
        else new_row now' e \<in> set (ob_rows ob'))"
proof -
  have ok: "outbox_ok ob"
    using outbox_reachable_ok assms(1) by blast
  have "guarded_append sha256 sign_bytes pub uuid now now' kind payload ikey ob
      = publisher_append sha256 sign_bytes pub uuid now now' kind payload ikey ob"
    using assms(3) by (simp add: guarded_append_def)
  moreover have "\<forall>r \<in> set (ob_rows ob). row_sequence r < sequence_counter ob + 1"
    using ok by (auto simp: outbox_ok_def)
  ultimately show ?thesis
    using publisher_append_stores [OF ok assms(2,4), of sha256 pub now now' kind payload ikey] by metis
qed

definition example_publisher :: RuntimeDeliveryPublisher where
  "example_publisher =
     \<lparr>rp_private_key = Some ''k'', rp_key_id = Some ''ed25519:1'',
      rp_identity = \<lparr>pub_publisher_id = ''joymesh'', pub_public_key = None, pub_instance_id = ''i'',
                     pub_organisation_id = ''local''\<rparr>\<rparr>"

theorem publish_stores_newest_witness:
  "\<exists>e ob'. guarded_append (\<lambda>s. s) (\<lambda>m k. Inr k) example_publisher ''u1'' 5 6 RUNTIME_EVENT
       [(''event_type'', PyStr ''done'')] None (init_DeliveryOutbox 2) = (Inr e, ob')
     \<and> (\<forall>r \<in> set (ob_rows (init_DeliveryOutbox 2)). row_sequence r < env_sequence e)
     \<and> (if envelope_key e \<in> row_idempotency_key ` set (ob_rows (init_DeliveryOutbox 2))
        then ob_rows ob' = ob_rows (init_DeliveryOutbox 2) else new_row 6 e \<in> set (ob_rows ob'))"
proof (rule publish_stores_newest [where n = 2])
  show "''u1'' \<notin> row_envelope_id ` set (ob_rows (init_DeliveryOutbox 2))"
    by (simp add: init_DeliveryOutbox_def)
  show "assert_privacy [(''event_type'', PyStr ''done'')] = Inr ()"
    by code_simp
qed auto

theorem outbox_bounded_unique_witness:
  "outbox_size (snd (guarded_append (\<lambda>s. s) (\<lambda>m k. Inr k) example_publisher ''u1'' 5 6 RUNTIME_EVENT
       [(''event_type'', PyStr ''done'')] None (init_DeliveryOutbox 0))) \<le> 1"
  using outbox_bounded_unique [of 0, OF r_into_rtranclp [where r = outbox_step, OF outbox_step.publish]] by simp

text \<open>Nothing private is stored. In every reachable outbox no entry has a payload with a
  forbidden key at any depth: the three publishing methods run the privacy guard before they touch
  the table.\<close>

theorem outbox_private:
  assumes "outbox_step\<^sup>*\<^sup>* (init_DeliveryOutbox n) ob" and "r \<in> set (ob_rows ob)"
    and "k \<in> set (all_keys (PyDict (payload_of_row r)))"
  shows "\<not> forbidden_key k"
  using outbox_reachable_private [OF assms(1)] assms(2,3) by (auto simp: rows_private_def assert_privacy_ok_iff)

theorem outbox_private_witness:
  "\<not> forbidden_key ''event_type''"
proof -
  let ?ob = "snd (guarded_append (\<lambda>s. s) (\<lambda>m k. Inr k) example_publisher ''u1'' 5 6 RUNTIME_EVENT
       [(''event_type'', PyStr ''done'')] None (init_DeliveryOutbox 2))"
  have "ob_rows ?ob \<noteq> []" and "payload_of_row (hd (ob_rows ?ob)) = [(''event_type'', PyStr ''done'')]"
    by code_simp+
  then show ?thesis
    using outbox_private [where n = 2 and ob = ?ob and r = "hd (ob_rows ?ob)" and k = "''event_type''"]
    by (simp add: r_into_rtranclp [where r = outbox_step, OF outbox_step.publish])
qed

text \<open>The payload hash binds the payload. If SHA-256 does not map the canonical texts of two
  payloads to one digest, then equal payload hashes mean that the payloads are equal up to the order
  of dictionary entries: the canonical text loses nothing else.\<close>

theorem payload_hash_binds:
  assumes "sha256 (json_dumps (PyDict p)) = sha256 (json_dumps (PyDict q)) \<Longrightarrow>
      json_dumps (PyDict p) = json_dumps (PyDict q)"
    and "hash_payload sha256 p = hash_payload sha256 q"
  shows "json_sort (PyDict p) = json_sort (PyDict q)"
  using assms unfolding hash_payload_def json_dumps_inj [symmetric] by blast

theorem payload_hash_binds_witness:
  "json_sort (PyDict [(''a'', PyInt 1), (''b'', PyNone)]) = json_sort (PyDict [(''b'', PyNone), (''a'', PyInt 1)])"
proof (rule payload_hash_binds [of "\<lambda>s. s"])
  show "hash_payload (\<lambda>s. s) [(''a'', PyInt 1), (''b'', PyNone)] = hash_payload (\<lambda>s. s) [(''b'', PyNone), (''a'', PyInt 1)]"
    by code_simp
qed auto

end
