(* ===== verification/Delivery_Worker.thy ===== *)
theory Delivery_Worker
  imports Outbox
begin

text \<open>
  The delivery worker that drains the outbox over a transport, two of the transports, and the reference
  intake at the receiving end (\<^verbatim>\<open>worker.py\<close>, \<^verbatim>\<open>factory.py\<close>, \<^verbatim>\<open>transports/memory.py\<close> and
  \<^verbatim>\<open>intake.py\<close> under \<^verbatim>\<open>src/src/joymesh/delivery/\<close>).

  A transport is a record of functions on a state of its own, as the \<^verbatim>\<open>DeliveryTransport\<close> protocol has
  them. An awaited call returns, raises, or is cancelled: \<^verbatim>\<open>CancelledError\<close> is not an \<^verbatim>\<open>Exception\<close> and
  passes every handler of the worker. The times that the outbox methods read are \<open>clock 0\<close>, \<open>clock 1\<close>
  and so on. Other tasks do not touch the outbox while a flush awaits the transport; interleavings are
  the subject of \<open>outbox_step\<close>.
\<close>

section \<open>Transports\<close>

record 't DeliveryTransport =
  tr_connect :: "'t \<Rightarrow> unit outcome \<times> 't"
  tr_close :: "'t \<Rightarrow> unit outcome \<times> 't"
  tr_publish :: "DeliveryEnvelope \<Rightarrow> 't \<Rightarrow> DeliveryAck outcome \<times> 't"
  tr_heartbeat :: "'t \<Rightarrow> unit outcome \<times> 't"

record MemoryDeliveryTransport =
  mt_published :: "DeliveryEnvelope list"
  mt_connected :: bool

definition memory_connect :: "MemoryDeliveryTransport \<Rightarrow> unit outcome \<times> MemoryDeliveryTransport" where
  "memory_connect t = (Returned (), t\<lparr>mt_connected := True\<rparr>)"

definition memory_close :: "MemoryDeliveryTransport \<Rightarrow> unit outcome \<times> MemoryDeliveryTransport" where
  "memory_close t = (Returned (), t\<lparr>mt_connected := False\<rparr>)"

definition memory_publish ::
  "time \<Rightarrow> DeliveryEnvelope \<Rightarrow> MemoryDeliveryTransport \<Rightarrow> DeliveryAck outcome \<times> MemoryDeliveryTransport" where
  "memory_publish now envelope t =
     (let t1 = (if \<not> mt_connected t then snd (memory_connect t) else t)
      in (Returned \<lparr>ack_envelope_id = env_envelope_id envelope, ack_status = ACKED,
                    ack_received_at = now, ack_detail = None\<rparr>,
          t1\<lparr>mt_published := mt_published t1 @ [envelope]\<rparr>))"

definition memory_heartbeat :: "MemoryDeliveryTransport \<Rightarrow> unit outcome \<times> MemoryDeliveryTransport" where
  "memory_heartbeat t = (if \<not> mt_connected t then memory_connect t else (Returned (), t))"

definition memory_transport :: "time \<Rightarrow> MemoryDeliveryTransport DeliveryTransport" where
  "memory_transport now =
     \<lparr>tr_connect = memory_connect, tr_close = memory_close, tr_publish = memory_publish now,
      tr_heartbeat = memory_heartbeat\<rparr>"

definition disabled_transport :: "unit DeliveryTransport" where
  "disabled_transport =
     \<lparr>tr_connect = (\<lambda>t. (Raised (ConnectionError ''delivery transport disabled''), t)),
      tr_close = (\<lambda>t. (Returned (), t)),
      tr_publish = (\<lambda>_ t. (Raised (ConnectionError ''delivery transport disabled''), t)),
      tr_heartbeat = (\<lambda>t. (Raised (ConnectionError ''delivery transport disabled''), t))\<rparr>"

section \<open>The worker\<close>

record worker_stats =
  st_published :: int
  st_acked :: int
  st_failed :: int
  st_replays :: int
  st_unavailable :: int

record 't DeliveryWorker =
  dw_outbox :: DeliveryOutbox
  dw_transport :: 't
  dw_batch_size :: int
  dw_max_attempts :: int
  dw_stats :: worker_stats
  dw_ticks :: nat

definition init_DeliveryWorker :: "DeliveryOutbox \<Rightarrow> 't \<Rightarrow> int \<Rightarrow> int \<Rightarrow> 't DeliveryWorker" where
  "init_DeliveryWorker outbox transport batch_size max_attempts =
     \<lparr>dw_outbox = outbox, dw_transport = transport, dw_batch_size = max 1 batch_size,
      dw_max_attempts = max 1 max_attempts,
      dw_stats = \<lparr>st_published = 0, st_acked = 0, st_failed = 0, st_replays = 0, st_unavailable = 0\<rparr>,
      dw_ticks = 0\<rparr>"

text \<open>The worker's calls of the outbox methods, each reading the clock once, and its counters.\<close>

definition w_mark_sent :: "(nat \<Rightarrow> time) \<Rightarrow> string \<Rightarrow> 't DeliveryWorker \<Rightarrow> 't DeliveryWorker" where
  "w_mark_sent clock i w =
     w\<lparr>dw_outbox := mark_sent i (clock (dw_ticks w)) (dw_outbox w), dw_ticks := Suc (dw_ticks w),
       dw_stats := (dw_stats w)\<lparr>st_published := st_published (dw_stats w) + 1\<rparr>\<rparr>"

definition w_mark_failed :: "(nat \<Rightarrow> time) \<Rightarrow> string \<Rightarrow> 't DeliveryWorker \<Rightarrow> 't DeliveryWorker" where
  "w_mark_failed clock i w =
     w\<lparr>dw_outbox := mark_failed i (clock (dw_ticks w)) (dw_outbox w), dw_ticks := Suc (dw_ticks w),
       dw_stats := (dw_stats w)\<lparr>st_failed := st_failed (dw_stats w) + 1\<rparr>\<rparr>"

definition w_mark_acked :: "string \<Rightarrow> 't DeliveryWorker \<Rightarrow> 't DeliveryWorker" where
  "w_mark_acked i w =
     w\<lparr>dw_outbox := mark_acked i (dw_outbox w),
       dw_stats := (dw_stats w)\<lparr>st_acked := st_acked (dw_stats w) + 1\<rparr>\<rparr>"

definition w_replay :: "'t DeliveryWorker \<Rightarrow> 't DeliveryWorker" where
  "w_replay w = w\<lparr>dw_stats := (dw_stats w)\<lparr>st_replays := st_replays (dw_stats w) + 1\<rparr>\<rparr>"

definition w_unavailable :: "'t DeliveryWorker \<Rightarrow> 't DeliveryWorker" where
  "w_unavailable w = w\<lparr>dw_stats := (dw_stats w)\<lparr>st_unavailable := st_unavailable (dw_stats w) + 1\<rparr>\<rparr>"

text \<open>One iteration of the loop of \<open>flush_once\<close>. The result is the increment of \<^verbatim>\<open>drained\<close>.\<close>

definition flush_record ::
  "'t DeliveryTransport \<Rightarrow> (nat \<Rightarrow> time) \<Rightarrow> OutboxRecord \<Rightarrow> 't DeliveryWorker \<Rightarrow> int outcome \<times> 't DeliveryWorker" where
  "flush_record T clock record w =
     (let i = env_envelope_id (or_envelope record)
      in if or_attempts record \<ge> dw_max_attempts w then (Returned 0, w_mark_failed clock i w)
         else
           let w1 = (if or_attempts record > 0 then w_replay w else w);
               w2 = w_mark_sent clock i w1
           in case tr_publish T (or_envelope record) (dw_transport w2) of
                (Returned ack, t) \<Rightarrow>
                  (let w3 = w2\<lparr>dw_transport := t\<rparr>
                   in if ack_status ack = ACKED then (Returned 1, w_mark_acked i w3)
                      else (Returned 0, w_mark_failed clock i w3))
              | (Raised e, t) \<Rightarrow>
                  (case tr_close T t of
                     (Cancelled, t') \<Rightarrow> (Cancelled, w2\<lparr>dw_transport := t'\<rparr>)
                   | (_, t') \<Rightarrow> (Returned 0, w_mark_failed clock i (w2\<lparr>dw_transport := t'\<rparr>)))
              | (Cancelled, t) \<Rightarrow> (Cancelled, w2\<lparr>dw_transport := t\<rparr>))"

fun flush_loop ::
  "'t DeliveryTransport \<Rightarrow> (nat \<Rightarrow> time) \<Rightarrow> OutboxRecord list \<Rightarrow> int \<Rightarrow> 't DeliveryWorker \<Rightarrow> int outcome \<times> 't DeliveryWorker" where
  "flush_loop T clock [] drained w = (Returned drained, w)"
| "flush_loop T clock (record # records) drained w =
     (case flush_record T clock record w of
        (Returned n, w') \<Rightarrow> flush_loop T clock records (drained + n) w'
      | (Raised e, w') \<Rightarrow> (Raised e, w')
      | (Cancelled, w') \<Rightarrow> (Cancelled, w'))"

definition flush_once :: "'t DeliveryTransport \<Rightarrow> (nat \<Rightarrow> time) \<Rightarrow> 't DeliveryWorker \<Rightarrow> int outcome \<times> 't DeliveryWorker" where
  "flush_once T clock w =
     (case tr_connect T (dw_transport w) of
        (Raised e, t) \<Rightarrow> (Returned 0, w_unavailable (w\<lparr>dw_transport := t\<rparr>))
      | (Cancelled, t) \<Rightarrow> (Cancelled, w\<lparr>dw_transport := t\<rparr>)
      | (Returned _, t) \<Rightarrow>
          (let w1 = w\<lparr>dw_transport := t\<rparr>
           in case pending (dw_batch_size w1) (dw_outbox w1) of
                Inl e \<Rightarrow> (Raised e, w1)
              | Inr records \<Rightarrow> flush_loop T clock records 0 w1))"

definition worker_heartbeat :: "'t DeliveryTransport \<Rightarrow> 't DeliveryWorker \<Rightarrow> unit outcome \<times> 't DeliveryWorker" where
  "worker_heartbeat T w =
     (case tr_heartbeat T (dw_transport w) of
        (Returned _, t) \<Rightarrow> (Returned (), w\<lparr>dw_transport := t\<rparr>)
      | (Cancelled, t) \<Rightarrow> (Cancelled, w\<lparr>dw_transport := t\<rparr>)
      | (Raised e, t) \<Rightarrow>
          (let w1 = w_unavailable (w\<lparr>dw_transport := t\<rparr>)
           in case tr_close T (dw_transport w1) of
                (Cancelled, t') \<Rightarrow> (Cancelled, w1\<lparr>dw_transport := t'\<rparr>)
              | (_, t') \<Rightarrow> (Returned (), w1\<lparr>dw_transport := t'\<rparr>)))"

text \<open>One round of \<^verbatim>\<open>_run\<close>: every exception of the flush is swallowed (and skips the heartbeat),
  cancellation ends the loop.\<close>

definition run_round :: "'t DeliveryTransport \<Rightarrow> (nat \<Rightarrow> time) \<Rightarrow> 't DeliveryWorker \<Rightarrow> unit outcome \<times> 't DeliveryWorker" where
  "run_round T clock w =
     (case flush_once T clock w of
        (Cancelled, w1) \<Rightarrow> (Cancelled, w1)
      | (Raised e, w1) \<Rightarrow> (Returned (), w1)
      | (Returned _, w1) \<Rightarrow>
          (case worker_heartbeat T w1 of
             (Cancelled, w2) \<Rightarrow> (Cancelled, w2)
           | (_, w2) \<Rightarrow> (Returned (), w2)))"

section \<open>Intake\<close>

record intake_row =
  in_envelope_id :: string
  in_kind :: string
  in_sequence :: int
  in_idempotency_key :: string
  in_payload_hash :: string
  in_publisher_id :: string
  in_envelope_json :: pydict
  in_accepted_at :: time

record RuntimeStateIntakeService =
  is_allowed_publisher_ids :: "string list"
  is_require_publisher_id :: "string option"
  is_rows :: "intake_row list"
  is_received :: "DeliveryEnvelope list"

definition init_RuntimeStateIntakeService ::
  "string list option \<Rightarrow> string option \<Rightarrow> RuntimeStateIntakeService" where
  "init_RuntimeStateIntakeService allowed require_publisher_id =
     \<lparr>is_allowed_publisher_ids = (case allowed of None \<Rightarrow> [''joymesh''] | Some [] \<Rightarrow> [''joymesh''] | Some ids \<Rightarrow> ids),
      is_require_publisher_id = require_publisher_id, is_rows = [], is_received = []\<rparr>"

text \<open>\<^verbatim>\<open>_validate\<close>. The kind of an envelope is an enumeration member, so the last check cannot fail.\<close>

definition intake_validate :: "(string \<Rightarrow> string) \<Rightarrow> RuntimeStateIntakeService \<Rightarrow> DeliveryEnvelope \<Rightarrow> unit result" where
  "intake_validate sha256 svc envelope =
     (let publisher_id = pub_publisher_id (env_publisher envelope)
      in if env_transport_version envelope \<noteq> TRANSPORT_VERSION then
           Inl (IntakeRejected ''transport_version_mismatch''
             (''expected '' @ int_str TRANSPORT_VERSION @ '' got '' @ int_str (env_transport_version envelope)))
         else if opt_truthy (is_require_publisher_id svc) \<and> Some publisher_id \<noteq> is_require_publisher_id svc then
           Inl (IntakeRejected ''invalid_publisher_identity'' (''publisher_id '' @ str_repr publisher_id @ '' not accepted''))
         else if publisher_id \<notin> set (is_allowed_publisher_ids svc) then
           Inl (IntakeRejected ''invalid_publisher_identity'' (''publisher_id '' @ str_repr publisher_id @ '' not allowed''))
         else if env_payload_hash envelope \<noteq> hash_payload sha256 (env_payload envelope) then
           Inl (IntakeRejected ''payload_hash_mismatch'' ''payload hash does not match payload body'')
         else case assert_privacy (env_payload envelope) of
                Inl (ValueError msg) \<Rightarrow> Inl (IntakeRejected ''privacy_violation'' msg)
              | Inl e \<Rightarrow> Inl (IntakeRejected ''privacy_violation'' [])
              | Inr _ \<Rightarrow> Inr ())"

definition accept ::
  "(string \<Rightarrow> string) \<Rightarrow> time \<Rightarrow> DeliveryEnvelope \<Rightarrow> RuntimeStateIntakeService
   \<Rightarrow> DeliveryAckStatus result \<times> RuntimeStateIntakeService" where
  "accept sha256 now envelope svc =
     (case intake_validate sha256 svc envelope of
        Inl e \<Rightarrow> (Inl e, svc)
      | Inr _ \<Rightarrow>
          (case find (\<lambda>r. in_idempotency_key r = envelope_key envelope) (is_rows svc) of
             Some existing \<Rightarrow>
               if in_payload_hash existing = env_payload_hash envelope then
                 (Inr ACKED, svc\<lparr>is_received := is_received svc @ [envelope]\<rparr>)
               else (Inl (IntakeRejected ''duplicate_conflict'' ''idempotency key reused with conflicting payload''), svc)
           | None \<Rightarrow>
               if env_envelope_id envelope \<in> in_envelope_id ` set (is_rows svc) then
                 (Inl (IntegrityError ''UNIQUE constraint failed: runtime_intake.envelope_id''), svc)
               else
                 (Inr ACKED,
                  svc\<lparr>is_rows := is_rows svc @ [\<lparr>in_envelope_id = env_envelope_id envelope,
                        in_kind = delivery_kind_value (env_kind envelope), in_sequence = env_sequence envelope,
                        in_idempotency_key = envelope_key envelope, in_payload_hash = env_payload_hash envelope,
                        in_publisher_id = pub_publisher_id (env_publisher envelope),
                        in_envelope_json = envelope_as_dict envelope, in_accepted_at = now\<rparr>],
                      is_received := is_received svc @ [envelope]\<rparr>)))"

record IntakeRecord =
  ir_envelope_id :: string
  ir_kind :: string
  ir_sequence :: int
  ir_idempotency_key :: string
  ir_payload_hash :: string
  ir_accepted_at :: time
  ir_payload :: pydict

definition intake_record :: "intake_row \<Rightarrow> IntakeRecord result" where
  "intake_record row =
     bind_result (mapping_field (dget (in_envelope_json row) ''payload'')) (\<lambda>payload.
     Inr \<lparr>ir_envelope_id = in_envelope_id row, ir_kind = in_kind row, ir_sequence = in_sequence row,
          ir_idempotency_key = in_idempotency_key row, ir_payload_hash = in_payload_hash row,
          ir_accepted_at = in_accepted_at row, ir_payload = payload\<rparr>)"

definition list_records :: "int \<Rightarrow> RuntimeStateIntakeService \<Rightarrow> IntakeRecord list result" where
  "list_records limit svc = map_result intake_record (take (nat (max 1 limit)) (sort_key in_sequence (is_rows svc)))"

definition intake_size :: "RuntimeStateIntakeService \<Rightarrow> int" where
  "intake_size svc = int (length (is_rows svc))"

section \<open>Lemmas: what a flush does to the table\<close>

text \<open>The worker touches the outbox through the three marking operations only, and only the row of the
  record at hand.\<close>

lemma worker_updates [simp]:
  "dw_outbox (w_mark_sent clock i w) = mark_sent i (clock (dw_ticks w)) (dw_outbox w)"
  "dw_outbox (w_mark_failed clock i w) = mark_failed i (clock (dw_ticks w)) (dw_outbox w)"
  "dw_outbox (w_mark_acked i w) = mark_acked i (dw_outbox w)"
  "dw_outbox (w_replay w) = dw_outbox w"
  "dw_outbox (w_unavailable w) = dw_outbox w"
  "dw_transport (w_mark_sent clock i w) = dw_transport w"
  "dw_transport (w_mark_failed clock i w) = dw_transport w"
  "dw_transport (w_mark_acked i w) = dw_transport w"
  "dw_transport (w_replay w) = dw_transport w"
  "dw_transport (w_unavailable w) = dw_transport w"
  "dw_max_attempts (w_mark_sent clock i w) = dw_max_attempts w"
  "dw_max_attempts (w_mark_failed clock i w) = dw_max_attempts w"
  "dw_max_attempts (w_mark_acked i w) = dw_max_attempts w"
  "dw_max_attempts (w_replay w) = dw_max_attempts w"
  "dw_max_attempts (w_unavailable w) = dw_max_attempts w"
  "dw_batch_size (w_mark_sent clock i w) = dw_batch_size w"
  "dw_batch_size (w_mark_failed clock i w) = dw_batch_size w"
  "dw_batch_size (w_mark_acked i w) = dw_batch_size w"
  "dw_batch_size (w_replay w) = dw_batch_size w"
  "dw_batch_size (w_unavailable w) = dw_batch_size w"
  by (simp_all add: w_mark_sent_def w_mark_failed_def w_mark_acked_def w_replay_def w_unavailable_def)

text \<open>The outbox after one record, with the evidence for a deletion.\<close>

definition acked_by :: "'t DeliveryTransport \<Rightarrow> DeliveryEnvelope \<Rightarrow> bool" where
  "acked_by T e \<longleftrightarrow> (\<exists>t ack t'. tr_publish T e t = (Returned ack, t') \<and> ack_status ack = ACKED)"

inductive record_effect :: "string \<Rightarrow> bool \<Rightarrow> DeliveryOutbox \<Rightarrow> int outcome \<Rightarrow> DeliveryOutbox \<Rightarrow> bool" where
  exhausted: "record_effect i acked ob (Returned 0) (mark_failed i now ob)"
| refused: "record_effect i acked ob (Returned 0) (mark_failed i now' (mark_sent i now ob))"
| delivered: "record_effect i True ob (Returned 1) (mark_acked i (mark_sent i now ob))"
| interrupted: "record_effect i acked ob Cancelled (mark_sent i now ob)"

inductive_cases record_effectE: "record_effect i acked ob out ob'"

lemma flush_record_effect:
  assumes "flush_record T clock rec w = (out, w')"
  shows "record_effect (env_envelope_id (or_envelope rec)) (acked_by T (or_envelope rec)) (dw_outbox w) out (dw_outbox w')"
proof (cases "or_attempts rec \<ge> dw_max_attempts w")
  case True
  then show ?thesis
    using assms by (auto simp: flush_record_def intro: record_effect.intros)
next
  case False
  let ?w = "w_mark_sent clock (env_envelope_id (or_envelope rec)) (if or_attempts rec > 0 then w_replay w else w)"
  obtain res t where pub: "tr_publish T (or_envelope rec) (dw_transport ?w) = (res, t)"
    by fastforce
  have outbox: "\<exists>now. dw_outbox ?w = mark_sent (env_envelope_id (or_envelope rec)) now (dw_outbox w)"
    by auto
  show ?thesis
  proof (cases res)
    case (Returned ack)
    then have "acked_by T (or_envelope rec)" if "ack_status ack = ACKED"
      using pub that by (auto simp: acked_by_def)
    then show ?thesis
      using assms False pub Returned outbox
      by (auto simp: flush_record_def Let_def intro: record_effect.intros split: if_splits)
  next
    case (Raised e)
    then show ?thesis
      using assms False pub outbox
      by (auto simp: flush_record_def Let_def intro: record_effect.intros split: if_splits outcome.splits prod.splits)
  next
    case Cancelled
    then show ?thesis
      using assms False pub outbox
      by (auto simp: flush_record_def Let_def intro: record_effect.intros split: if_splits)
  qed
qed

text \<open>Consequences of the effect of one record.\<close>

lemma effect_other_rows:
  assumes "record_effect i acked ob out ob'" "row_envelope_id r \<noteq> i"
  shows "r \<in> set (ob_rows ob') \<longleftrightarrow> r \<in> set (ob_rows ob)"
proof -
  have set_status: "r \<in> set (ob_rows (set_status i st b now x)) \<longleftrightarrow> r \<in> set (ob_rows x)" for st b now x
    using assms(2) by (auto simp: set_status_def image_iff)
  show ?thesis
    using assms by (auto elim!: record_effectE simp: mark_sent_def mark_failed_def mark_acked_def delete_row_def set_status)
qed

lemma effect_steps: "record_effect i acked ob out ob' \<Longrightarrow> outbox_step\<^sup>*\<^sup>* ob ob'"
  by (auto elim!: record_effectE intro: outbox_step.intros rtranclp.rtrancl_into_rtrancl)

lemma set_status_ids [simp]: "row_envelope_id ` set (ob_rows (set_status i st b now ob)) = row_envelope_id ` set (ob_rows ob)"
  by (metis set_map set_status_fields(1))

lemma delete_row_ids [simp]:
  "row_envelope_id ` set (delete_row i rows) = row_envelope_id ` set rows - {i}"
  by (auto simp: delete_row_def)

lemma effect_ids:
  "record_effect i acked ob out ob' \<Longrightarrow>
     row_envelope_id ` set (ob_rows ob') =
       row_envelope_id ` set (ob_rows ob) - (if out = Returned 1 then {i} else {})
     \<and> (out = Returned 1 \<longrightarrow> acked) \<and> out \<in> {Returned 0, Returned 1, Cancelled}"
  by (erule record_effectE) (simp_all add: mark_sent_def mark_failed_def mark_acked_def)

lemma effect_size:
  assumes "record_effect i acked ob (Returned n) ob'" "distinct (map row_envelope_id (ob_rows ob))"
    "i \<in> row_envelope_id ` set (ob_rows ob)"
  shows "outbox_size ob' + n = outbox_size ob"
proof -
  have "length (ob_rows ob) = Suc (length (delete_row i (ob_rows (set_status i SENT True now ob))))" for now
  proof -
    obtain r where "r \<in> set (ob_rows (set_status i SENT True now ob))" "row_envelope_id r = i"
      using assms(3) unfolding set_status_ids [of i SENT True now ob, symmetric] by blast
    then show ?thesis
      using delete_one [of "ob_rows (set_status i SENT True now ob)" r] assms(2) by simp
  qed
  then have "int (length (delete_row i (ob_rows (set_status i SENT True now ob)))) + 1 = int (length (ob_rows ob))" for now
    by (metis of_nat_Suc add.commute)
  then show ?thesis
    using assms(1) by (auto elim!: record_effectE simp: outbox_size_def mark_sent_def mark_failed_def mark_acked_def)
qed

text \<open>The loop over a batch.\<close>

lemma flush_loop_steps: "flush_loop T clock recs d w = (out, w') \<Longrightarrow> outbox_step\<^sup>*\<^sup>* (dw_outbox w) (dw_outbox w')"
proof (induction recs arbitrary: d w)
  case (Cons rec recs)
  obtain res w1 where fr: "flush_record T clock rec w = (res, w1)"
    by fastforce
  have "outbox_step\<^sup>*\<^sup>* (dw_outbox w) (dw_outbox w1)"
    using flush_record_effect [OF fr] effect_steps by blast
  then show ?case
    using Cons fr by (cases res) (auto dest: rtranclp_trans)
qed simp

lemma flush_loop_other_rows:
  assumes "flush_loop T clock recs d w = (out, w')"
    and "row_envelope_id r \<notin> (\<lambda>rec. env_envelope_id (or_envelope rec)) ` set recs"
  shows "r \<in> set (ob_rows (dw_outbox w')) \<longleftrightarrow> r \<in> set (ob_rows (dw_outbox w))"
  using assms
proof (induction recs arbitrary: d w)
  case (Cons rec recs)
  obtain res w1 where fr: "flush_record T clock rec w = (res, w1)"
    by fastforce
  have "r \<in> set (ob_rows (dw_outbox w1)) \<longleftrightarrow> r \<in> set (ob_rows (dw_outbox w))"
    using effect_other_rows [OF flush_record_effect [OF fr], of r] Cons.prems(2) by auto
  then show ?case
    using Cons fr by (cases res) auto
qed simp

lemma flush_loop_removed:
  assumes "flush_loop T clock recs d w = (out, w')"
    and "i \<in> row_envelope_id ` set (ob_rows (dw_outbox w))" "i \<notin> row_envelope_id ` set (ob_rows (dw_outbox w'))"
  shows "\<exists>rec \<in> set recs. env_envelope_id (or_envelope rec) = i \<and> acked_by T (or_envelope rec)"
  using assms
proof (induction recs arbitrary: d w)
  case (Cons rec recs)
  obtain res w1 where fr: "flush_record T clock rec w = (res, w1)"
    by fastforce
  note effect = effect_ids [OF flush_record_effect [OF fr]]
  show ?case
  proof (cases "i \<in> row_envelope_id ` set (ob_rows (dw_outbox w1))")
    case True
    then show ?thesis
      using Cons fr by (cases res) auto
  next
    case False
    then show ?thesis
      using effect Cons.prems(2) by (auto split: if_splits)
  qed
qed simp

text \<open>The records of a batch are the stored pending rows.\<close>

lemma map_result_mem: "map_result f xs = Inr ys \<Longrightarrow> y \<in> set ys \<Longrightarrow> \<exists>x \<in> set xs. f x = Inr y"
  by (induction xs arbitrary: ys) (auto simp: bind_result_Inr_iff)

lemma map_result_total: "\<forall>x \<in> set xs. \<exists>y. f x = Inr y \<Longrightarrow> \<exists>ys. map_result f xs = Inr ys"
  by (induction xs) (auto simp: bind_result_Inr_iff)

lemma pending_rows_subset: "r \<in> set (pending_rows k ob) \<Longrightarrow> r \<in> set (ob_rows ob) \<and> row_status r \<in> {PENDING, FAILED}"
  unfolding pending_rows_def by (auto dest!: in_set_takeD)

lemma pending_total: "outbox_ok ob \<Longrightarrow> \<exists>recs. pending k ob = Inr recs"
  unfolding pending_def
  by (rule map_result_total) (use row_ok_readable pending_rows_subset in \<open>fastforce simp: outbox_ok_def\<close>)

lemma pending_record_row:
  assumes "outbox_ok ob" "pending k ob = Inr recs" "rec \<in> set recs"
  obtains r where "r \<in> set (pending_rows k ob)" "row_to_record r = Inr rec"
    "env_envelope_id (or_envelope rec) = row_envelope_id r"
proof -
  obtain r where r: "r \<in> set (pending_rows k ob)" "row_to_record r = Inr rec"
    using map_result_mem [OF assms(2) [unfolded pending_def] assms(3)] by blast
  then have "row_ok r"
    using assms(1) pending_rows_subset [OF r(1)] by (simp add: outbox_ok_def)
  then obtain rec' where "row_to_record r = Inr rec'" "env_envelope_id (or_envelope rec') = row_envelope_id r"
    using row_ok_readable by blast
  then show thesis
    using that r by simp
qed

lemma flush_once_cases:
  assumes "flush_once T clock w = (out, w')" "outbox_ok (dw_outbox w)"
  obtains "dw_outbox w' = dw_outbox w" "out \<in> {Returned 0, Cancelled}"
  | t recs where "pending (dw_batch_size w) (dw_outbox w) = Inr recs"
      "flush_loop T clock recs 0 (w\<lparr>dw_transport := t\<rparr>) = (out, w')" "tr_connect T (dw_transport w) = (Returned (), t)"
proof -
  obtain res t where con: "tr_connect T (dw_transport w) = (res, t)"
    by fastforce
  obtain recs where "pending (dw_batch_size w) (dw_outbox w) = Inr recs"
    using pending_total assms(2) by blast
  then show thesis
    using that assms(1) con by (cases res) (auto simp: flush_once_def Let_def)
qed

lemma flush_once_steps:
  assumes "flush_once T clock w = (out, w')" "outbox_ok (dw_outbox w)"
  shows "outbox_step\<^sup>*\<^sup>* (dw_outbox w) (dw_outbox w')"
  using assms
proof (cases rule: flush_once_cases)
  case (2 t recs)
  then show ?thesis
    using flush_loop_steps by fastforce
qed simp

lemma steps_ok: "outbox_step\<^sup>*\<^sup>* ob ob' \<Longrightarrow> outbox_ok ob \<Longrightarrow> outbox_ok ob'"
  by (induction rule: rtranclp_induct) (auto dest: outbox_step_ok)

lemma run_round_outbox: "dw_outbox (snd (run_round T clock w)) = dw_outbox (snd (flush_once T clock w))"
  by (auto simp: run_round_def worker_heartbeat_def Let_def split: prod.splits outcome.splits)

lemma flush_once_keeps_sent:
  assumes "flush_once T clock w = (out, w')" "outbox_ok (dw_outbox w)"
    and "r \<in> set (ob_rows (dw_outbox w))" "row_status r = SENT"
  shows "r \<in> set (ob_rows (dw_outbox w'))"
  using assms(1,2)
proof (cases rule: flush_once_cases)
  case (2 t recs)
  have "row_envelope_id r \<notin> (\<lambda>rec. env_envelope_id (or_envelope rec)) ` set recs"
  proof
    assume "row_envelope_id r \<in> (\<lambda>rec. env_envelope_id (or_envelope rec)) ` set recs"
    then obtain rec where "rec \<in> set recs" "env_envelope_id (or_envelope rec) = row_envelope_id r"
      by auto
    then obtain q where q: "q \<in> set (pending_rows (dw_batch_size w) (dw_outbox w))" "row_envelope_id q = row_envelope_id r"
      using pending_record_row [OF assms(2) 2(1)] by metis
    then have "q = r"
      using pending_rows_subset [OF q(1)] assms(2,3) by (auto simp: outbox_ok_def distinct_map dest: inj_onD)
    then show False
      using pending_rows_subset [OF q(1)] assms(4) by simp
  qed
  then show ?thesis
    using flush_loop_other_rows [OF 2(2)] assms(3) by simp
qed (use assms in simp)

lemma pending_ids:
  assumes "outbox_ok ob" "pending k ob = Inr recs"
  shows "map (\<lambda>rec. env_envelope_id (or_envelope rec)) recs = map row_envelope_id (pending_rows k ob)"
proof -
  have "map (\<lambda>rec. env_envelope_id (or_envelope rec)) ys = map row_envelope_id rows"
    if "map_result row_to_record rows = Inr ys" "\<forall>r \<in> set rows. row_ok r" for rows ys
    using that
  proof (induction rows arbitrary: ys)
    case (Cons r rows)
    then show ?case
      using row_ok_readable [of r] by (auto simp: bind_result_Inr_iff)
  qed simp
  moreover have "\<forall>r \<in> set (pending_rows k ob). row_ok r"
    using assms(1) pending_rows_subset by (auto simp: outbox_ok_def)
  ultimately show ?thesis
    using assms(2) unfolding pending_def by blast
qed

lemma pending_rows_distinct:
  assumes "outbox_ok ob"
  shows "distinct (map row_envelope_id (pending_rows k ob))"
proof -
  have "distinct (map row_envelope_id (filter P (ob_rows ob)))" for P
    using assms by (simp add: outbox_ok_def distinct_map_filter)
  then have "distinct (map row_envelope_id (sort_key row_sequence (filter P (ob_rows ob))))" for P
    by (simp add: distinct_map)
  then show ?thesis
    by (simp add: pending_rows_def take_map [symmetric] distinct_take)
qed

lemma flush_loop_count:
  assumes "flush_loop T clock recs d w = (Returned n, w')" "outbox_ok (dw_outbox w)"
    and "distinct (map (\<lambda>rec. env_envelope_id (or_envelope rec)) recs)"
    and "(\<lambda>rec. env_envelope_id (or_envelope rec)) ` set recs \<subseteq> row_envelope_id ` set (ob_rows (dw_outbox w))"
  shows "outbox_size (dw_outbox w') + n = outbox_size (dw_outbox w) + d"
  using assms
proof (induction recs arbitrary: d w)
  case (Cons rec recs)
  obtain res w1 where fr: "flush_record T clock rec w = (res, w1)"
    by fastforce
  note effect = flush_record_effect [OF fr]
  obtain k where k: "res = Returned k"
    using effect_ids [OF effect] Cons.prems(1) fr by auto
  have ok: "outbox_ok (dw_outbox w1)"
    using steps_ok effect_steps [OF effect] Cons.prems(2) by blast
  have size: "outbox_size (dw_outbox w1) + k = outbox_size (dw_outbox w)"
    using effect_size [OF effect [unfolded k]] Cons.prems by (auto simp: outbox_ok_def)
  have ids: "(\<lambda>rec. env_envelope_id (or_envelope rec)) ` set recs \<subseteq> row_envelope_id ` set (ob_rows (dw_outbox w1))"
    using effect_ids [OF effect] Cons.prems(3,4) by (simp add: subset_Diff_insert)
  have "flush_loop T clock recs (d + k) w1 = (Returned n, w')"
    using Cons.prems(1) fr k by simp
  from Cons.IH [OF this ok _ ids] show ?case
    using size Cons.prems(3) by simp
qed simp

lemma flush_once_count:
  assumes "flush_once T clock w = (Returned n, w')" "outbox_ok (dw_outbox w)"
  shows "outbox_size (dw_outbox w') + n = outbox_size (dw_outbox w)"
  using assms
proof (cases rule: flush_once_cases)
  case (2 t recs)
  have ids: "(\<lambda>rec. env_envelope_id (or_envelope rec)) ` set recs \<subseteq> row_envelope_id ` set (ob_rows (dw_outbox w))"
    using pending_record_row [OF assms(2) 2(1)] pending_rows_subset by (metis (no_types, lifting) image_iff image_subsetI)
  have "distinct (map (\<lambda>rec. env_envelope_id (or_envelope rec)) recs)"
    unfolding pending_ids [OF assms(2) 2(1)] by (rule pending_rows_distinct [OF assms(2)])
  from flush_loop_count [OF 2(2) _ this] ids show ?thesis
    using assms(2) by simp
qed simp

lemma flush_once_removed:
  assumes "flush_once T clock w = (out, w')" "outbox_ok (dw_outbox w)"
    and "r \<in> set (ob_rows (dw_outbox w))" "row_envelope_id r \<notin> row_envelope_id ` set (ob_rows (dw_outbox w'))"
  shows "\<exists>rec. row_to_record r = Inr rec \<and> acked_by T (or_envelope rec)"
  using assms(1,2)
proof (cases rule: flush_once_cases)
  case (2 t recs)
  obtain rec where rec: "rec \<in> set recs" "env_envelope_id (or_envelope rec) = row_envelope_id r"
      "acked_by T (or_envelope rec)"
    using flush_loop_removed [OF 2(2)] assms(3,4) by auto
  obtain q where q: "q \<in> set (pending_rows (dw_batch_size w) (dw_outbox w))" "row_to_record q = Inr rec"
      "env_envelope_id (or_envelope rec) = row_envelope_id q"
    using pending_record_row [OF assms(2) 2(1) rec(1)] .
  then have "q = r"
    using pending_rows_subset [OF q(1)] assms(2,3) rec(2) by (auto simp: outbox_ok_def distinct_map dest: inj_onD)
  then show ?thesis
    using q rec by blast
qed (use assms in auto)

section \<open>Transport contracts\<close>

text \<open>A transport that is not there: every flush leaves the outbox as it is.\<close>

locale unavailable_transport =
  fixes T :: "'t DeliveryTransport"
  assumes no_connection: "\<exists>e t'. tr_connect T t = (Raised e, t')"
begin

lemma flush_leaves_outbox:
  "dw_outbox (snd (flush_once T clock w)) = dw_outbox w \<and> fst (flush_once T clock w) = Returned 0"
  using no_connection [of "dw_transport w"] by (auto simp: flush_once_def)

lemma rounds_leave_outbox: "dw_outbox (((\<lambda>w. snd (run_round T clock w)) ^^ n) w) = dw_outbox w"
  by (induction n) (auto simp: run_round_outbox flush_leaves_outbox)

end

interpretation disabled: unavailable_transport disabled_transport
  by unfold_locales (simp add: disabled_transport_def)

text \<open>A transport that connects and acknowledges everything: a flush drains its batch.\<close>

locale acknowledging_transport =
  fixes T :: "'t DeliveryTransport"
  assumes connects: "\<exists>t'. tr_connect T t = (Returned (), t')"
    and acknowledges: "\<exists>ack t'. tr_publish T e t = (Returned ack, t') \<and> ack_status ack = ACKED"
begin

lemma flush_record_drains:
  assumes "or_attempts rec < dw_max_attempts w"
  shows "\<exists>w'. flush_record T clock rec w = (Returned 1, w')
     \<and> ob_rows (dw_outbox w') = delete_row (env_envelope_id (or_envelope rec)) (ob_rows (dw_outbox w))
     \<and> dw_max_attempts w' = dw_max_attempts w"
proof -
  let ?i = "env_envelope_id (or_envelope rec)"
  have "delete_row ?i (ob_rows (set_status ?i SENT True now ob)) = delete_row ?i (ob_rows ob)" for now ob
    by (simp add: delete_row_def set_status_def filter_map comp_def) (auto intro!: map_idI)
  then show ?thesis
    using assms acknowledges [of "or_envelope rec"
        "dw_transport (w_mark_sent clock ?i (if or_attempts rec > 0 then w_replay w else w))"]
    by (auto simp: flush_record_def Let_def mark_sent_def mark_acked_def)
qed

lemma flush_loop_drains:
  assumes "\<forall>rec \<in> set recs. or_attempts rec < dw_max_attempts w"
  shows "\<exists>w'. flush_loop T clock recs d w = (Returned (d + int (length recs)), w')
     \<and> ob_rows (dw_outbox w') =
        filter (\<lambda>r. row_envelope_id r \<notin> (\<lambda>rec. env_envelope_id (or_envelope rec)) ` set recs) (ob_rows (dw_outbox w))"
  using assms
proof (induction recs arbitrary: d w)
  case (Cons rec recs)
  obtain w1 where w1: "flush_record T clock rec w = (Returned 1, w1)"
    "ob_rows (dw_outbox w1) = delete_row (env_envelope_id (or_envelope rec)) (ob_rows (dw_outbox w))"
    "dw_max_attempts w1 = dw_max_attempts w"
    using flush_record_drains [of rec w clock] Cons.prems by auto
  from Cons.IH [of w1 "d + 1"] Cons.prems w1(3)
  obtain w' where "flush_loop T clock recs (d + 1) w1 = (Returned (d + 1 + int (length recs)), w')"
    "ob_rows (dw_outbox w') =
       filter (\<lambda>r. row_envelope_id r \<notin> (\<lambda>rec. env_envelope_id (or_envelope rec)) ` set recs) (ob_rows (dw_outbox w1))"
    by auto
  then show ?case
    using w1 by (auto simp: delete_row_def intro!: filter_cong)
qed simp

lemma flush_once_drains:
  assumes "outbox_ok (dw_outbox w)"
    and "\<forall>r \<in> set (pending_rows (dw_batch_size w) (dw_outbox w)). row_attempts r < dw_max_attempts w"
  shows "\<exists>w'. flush_once T clock w = (Returned (int (length (pending_rows (dw_batch_size w) (dw_outbox w)))), w')
     \<and> set (ob_rows (dw_outbox w')) = set (ob_rows (dw_outbox w)) - set (pending_rows (dw_batch_size w) (dw_outbox w))"
proof -
  let ?batch = "pending_rows (dw_batch_size w) (dw_outbox w)"
  obtain recs where recs: "pending (dw_batch_size w) (dw_outbox w) = Inr recs"
    using pending_total assms(1) by blast
  note ids = pending_ids [OF assms(1) recs]
  have len: "length recs = length ?batch"
    using ids by (metis length_map)
  obtain t' where con: "tr_connect T (dw_transport w) = (Returned (), t')"
    using connects by blast
  have "\<forall>rec \<in> set recs. or_attempts rec < dw_max_attempts (w\<lparr>dw_transport := t'\<rparr>)"
  proof
    fix rec
    assume "rec \<in> set recs"
    then obtain r where "r \<in> set ?batch" "row_to_record r = Inr rec"
      using pending_record_row [OF assms(1) recs] by metis
    then show "or_attempts rec < dw_max_attempts (w\<lparr>dw_transport := t'\<rparr>)"
      using assms(2) by (auto simp: row_to_record_def bind_result_Inr_iff)
  qed
  moreover have "(\<lambda>rec. env_envelope_id (or_envelope rec)) ` set recs = row_envelope_id ` set ?batch"
    using ids by (metis list.set_map)
  ultimately obtain w' where w': "flush_loop T clock recs 0 (w\<lparr>dw_transport := t'\<rparr>) = (Returned (int (length recs)), w')"
    "ob_rows (dw_outbox w') =
       filter (\<lambda>r. row_envelope_id r \<notin> row_envelope_id ` set ?batch) (ob_rows (dw_outbox w))"
    using flush_loop_drains [of recs "w\<lparr>dw_transport := t'\<rparr>" clock 0] by auto
  have "row_envelope_id r \<in> row_envelope_id ` set ?batch \<longleftrightarrow> r \<in> set ?batch" if "r \<in> set (ob_rows (dw_outbox w))" for r
    using that assms(1) pending_rows_subset by (auto simp: outbox_ok_def distinct_map dest!: inj_onD)
  then show ?thesis
    using w' con recs len by (auto simp: flush_once_def Let_def)
qed

end

interpretation memory: acknowledging_transport "memory_transport now"
  by unfold_locales (simp_all add: memory_transport_def memory_connect_def memory_publish_def Let_def)

section \<open>Exhausted entries\<close>

text \<open>An entry that has used up its attempts stays in the table as failed, is selected again by every
  flush, and is marked failed again.\<close>

definition bump :: "string set \<Rightarrow> (string \<Rightarrow> time) \<Rightarrow> outbox_row \<Rightarrow> outbox_row" where
  "bump ids at r = (if row_envelope_id r \<in> ids
     then r\<lparr>row_status := FAILED, row_attempts := row_attempts r + 1, row_updated_at := at (row_envelope_id r)\<rparr>
     else r)"

lemma bump_fields [simp]:
  "row_sequence (bump ids at r) = row_sequence r" "row_envelope_id (bump ids at r) = row_envelope_id r"
  by (simp_all add: bump_def)

lemma bump_compose:
  "i \<notin> ids \<Longrightarrow> bump ids at (bump {i} (\<lambda>_. now) r) = bump (insert i ids) (at(i := now)) r"
  by (auto simp: bump_def)

lemma flush_loop_exhausted:
  assumes "\<forall>rec \<in> set recs. dw_max_attempts w \<le> or_attempts rec"
    and "distinct (map (\<lambda>rec. env_envelope_id (or_envelope rec)) recs)"
  shows "\<exists>w' at. flush_loop T clock recs d w = (Returned d, w')
     \<and> dw_transport w' = dw_transport w \<and> dw_max_attempts w' = dw_max_attempts w
     \<and> dw_batch_size w' = dw_batch_size w \<and> st_published (dw_stats w') = st_published (dw_stats w)
     \<and> ob_rows (dw_outbox w') =
         map (bump ((\<lambda>rec. env_envelope_id (or_envelope rec)) ` set recs) at) (ob_rows (dw_outbox w))"
  using assms
proof (induction recs arbitrary: w)
  case Nil
  then show ?case
    by (auto simp: bump_def)
next
  case (Cons rec recs)
  let ?i = "env_envelope_id (or_envelope rec)" and ?ids = "(\<lambda>rec. env_envelope_id (or_envelope rec)) ` set recs"
  let ?w1 = "w_mark_failed clock ?i w"
  have fr: "flush_record T clock rec w = (Returned 0, ?w1)"
    using Cons.prems by (simp add: flush_record_def)
  have first: "ob_rows (dw_outbox ?w1) = map (bump {?i} (\<lambda>_. clock (dw_ticks w))) (ob_rows (dw_outbox w))"
    by (simp add: mark_failed_def set_status_def bump_def)
  obtain w' at where w': "flush_loop T clock recs d ?w1 = (Returned d, w')"
     "dw_transport w' = dw_transport ?w1 \<and> dw_max_attempts w' = dw_max_attempts ?w1
      \<and> dw_batch_size w' = dw_batch_size ?w1 \<and> st_published (dw_stats w') = st_published (dw_stats ?w1)"
     "ob_rows (dw_outbox w') = map (bump ?ids at) (ob_rows (dw_outbox ?w1))"
    using Cons.IH [of ?w1] Cons.prems by auto
  have "?i \<notin> ?ids"
    using Cons.prems(2) by simp
  then have "ob_rows (dw_outbox w') = map (bump (insert ?i ?ids) (at(?i := clock (dw_ticks w)))) (ob_rows (dw_outbox w))"
    unfolding w'(3) first by (simp add: bump_compose)
  moreover have "st_published (dw_stats ?w1) = st_published (dw_stats w)"
    by (simp add: w_mark_failed_def)
  ultimately show ?case
    using fr w' by auto
qed

lemma sort_key_map_invariant:
  assumes "\<And>x. f (g x) = f x"
  shows "sort_key f (map g xs) = map g (sort_key f xs)"
proof -
  have "insort_key f (g x) (map g ys) = map g (insort_key f x ys)" for x ys
    by (induction ys) (auto simp: assms)
  then show ?thesis
    by (induction xs) auto
qed

lemma pending_rows_bumped:
  assumes "outbox_ok ob" "ob_rows ob' = map (bump (row_envelope_id ` set (pending_rows k ob)) at) (ob_rows ob)"
  shows "pending_rows k ob' = map (bump (row_envelope_id ` set (pending_rows k ob)) at) (pending_rows k ob)"
proof -
  let ?g = "bump (row_envelope_id ` set (pending_rows k ob)) at"
  have "row_status (?g r) \<in> {PENDING, FAILED} \<longleftrightarrow> row_status r \<in> {PENDING, FAILED}" if "r \<in> set (ob_rows ob)" for r
  proof (cases "row_envelope_id r \<in> row_envelope_id ` set (pending_rows k ob)")
    case True
    then have "r \<in> set (pending_rows k ob)"
      using that assms(1) pending_rows_subset by (auto simp: outbox_ok_def distinct_map dest!: inj_onD)
    then show ?thesis
      using pending_rows_subset by (auto simp: bump_def)
  qed (simp add: bump_def)
  then have "filter (\<lambda>r. row_status r \<in> {PENDING, FAILED}) (ob_rows ob')
      = map ?g (filter (\<lambda>r. row_status r \<in> {PENDING, FAILED}) (ob_rows ob))"
    unfolding assms(2) filter_map comp_def by (metis (mono_tags, lifting) filter_cong)
  then show ?thesis
    by (simp add: pending_rows_def sort_key_map_invariant take_map)
qed

definition batch_exhausted :: "'t DeliveryWorker \<Rightarrow> bool" where
  "batch_exhausted w \<longleftrightarrow>
     (\<forall>r \<in> set (pending_rows (dw_batch_size w) (dw_outbox w)). dw_max_attempts w \<le> row_attempts r)"

lemma flush_once_exhausted:
  assumes "outbox_ok (dw_outbox w)" "batch_exhausted w"
  shows "batch_exhausted (snd (flush_once T clock w))"
    and "st_published (dw_stats (snd (flush_once T clock w))) = st_published (dw_stats w)"
    and "map row_envelope_id (pending_rows (dw_batch_size (snd (flush_once T clock w))) (dw_outbox (snd (flush_once T clock w))))
       = map row_envelope_id (pending_rows (dw_batch_size w) (dw_outbox w))"
proof -
  let ?batch = "pending_rows (dw_batch_size w) (dw_outbox w)"
  obtain recs where recs: "pending (dw_batch_size w) (dw_outbox w) = Inr recs"
    using pending_total assms(1) by blast
  note ids = pending_ids [OF assms(1) recs]
  obtain res t where con: "tr_connect T (dw_transport w) = (res, t)"
    by fastforce
  have "\<forall>rec \<in> set recs. dw_max_attempts (w\<lparr>dw_transport := t\<rparr>) \<le> or_attempts rec"
  proof
    fix rec
    assume "rec \<in> set recs"
    then obtain r where "r \<in> set ?batch" "row_to_record r = Inr rec"
      using pending_record_row [OF assms(1) recs] by metis
    then show "dw_max_attempts (w\<lparr>dw_transport := t\<rparr>) \<le> or_attempts rec"
      using assms(2) by (auto simp: batch_exhausted_def row_to_record_def bind_result_Inr_iff)
  qed
  moreover have "distinct (map (\<lambda>rec. env_envelope_id (or_envelope rec)) recs)"
    unfolding ids by (rule pending_rows_distinct [OF assms(1)])
  moreover have "(\<lambda>rec. env_envelope_id (or_envelope rec)) ` set recs = row_envelope_id ` set ?batch"
    using ids by (metis list.set_map)
  ultimately obtain w' at where w': "flush_loop T clock recs 0 (w\<lparr>dw_transport := t\<rparr>) = (Returned 0, w')"
      "dw_max_attempts w' = dw_max_attempts w" "dw_batch_size w' = dw_batch_size w"
      "st_published (dw_stats w') = st_published (dw_stats w)"
      "ob_rows (dw_outbox w') = map (bump (row_envelope_id ` set ?batch) at) (ob_rows (dw_outbox w))"
    using flush_loop_exhausted [of recs "w\<lparr>dw_transport := t\<rparr>" T clock 0] by auto
  have bumped: "pending_rows (dw_batch_size w') (dw_outbox w') = map (bump (row_envelope_id ` set ?batch) at) ?batch"
    unfolding w'(3) by (rule pending_rows_bumped [OF assms(1) w'(5)])
  have ex': "batch_exhausted w'"
    using assms(2) unfolding batch_exhausted_def bumped w'(2) by (auto simp: bump_def)
  have same: "batch_exhausted (w_unavailable (w\<lparr>dw_transport := t\<rparr>))" "batch_exhausted (w\<lparr>dw_transport := t\<rparr>)"
    using assms(2) by (simp_all add: batch_exhausted_def)
  show "batch_exhausted (snd (flush_once T clock w))"
    using con recs w'(1) ex' same by (cases res) (simp_all add: flush_once_def Let_def)
  show "st_published (dw_stats (snd (flush_once T clock w))) = st_published (dw_stats w)"
    using con recs w'(1,4) by (cases res) (simp_all add: flush_once_def Let_def w_unavailable_def)
  show "map row_envelope_id (pending_rows (dw_batch_size (snd (flush_once T clock w))) (dw_outbox (snd (flush_once T clock w))))
       = map row_envelope_id ?batch"
    using con recs w'(1) bumped by (cases res) (simp_all add: flush_once_def Let_def)
qed

lemma flush_once_ok: "outbox_ok (dw_outbox w) \<Longrightarrow> outbox_ok (dw_outbox (snd (flush_once T clock w)))"
  using flush_once_steps [of T clock w "fst (flush_once T clock w)" "snd (flush_once T clock w)"] steps_ok by simp

lemma flushes_exhausted:
  assumes "outbox_ok (dw_outbox w)" "batch_exhausted w"
  shows "outbox_ok (dw_outbox (((\<lambda>w. snd (flush_once T clock w)) ^^ n) w))
    \<and> batch_exhausted (((\<lambda>w. snd (flush_once T clock w)) ^^ n) w)
    \<and> st_published (dw_stats (((\<lambda>w. snd (flush_once T clock w)) ^^ n) w)) = st_published (dw_stats w)"
  using assms by (induction n) (auto simp: flush_once_ok flush_once_exhausted)

lemma rounds_keep_sent:
  assumes "outbox_ok (dw_outbox w)" "r \<in> set (ob_rows (dw_outbox w))" "row_status r = SENT"
  shows "outbox_ok (dw_outbox (((\<lambda>w. snd (run_round T clock w)) ^^ n) w))
    \<and> r \<in> set (ob_rows (dw_outbox (((\<lambda>w. snd (run_round T clock w)) ^^ n) w)))"
proof (induction n)
  case (Suc n)
  let ?w = "((\<lambda>w. snd (run_round T clock w)) ^^ n) w"
  have "r \<in> set (ob_rows (dw_outbox (snd (flush_once T clock ?w))))"
    by (rule flush_once_keeps_sent [of T clock ?w "fst (flush_once T clock ?w)"]) (use Suc assms in auto)
  then show ?case
    using Suc flush_once_ok [of ?w T clock] by (simp add: run_round_outbox)
qed (use assms in simp)

lemma first_publish_cancelled:
  assumes "outbox_ok (dw_outbox w)" "tr_connect T (dw_transport w) = (Returned (), t)"
    and "pending_rows (dw_batch_size w) (dw_outbox w) = r # rs" "row_attempts r < dw_max_attempts w"
    and "\<And>e t. env_envelope_id e = row_envelope_id r \<Longrightarrow> \<exists>t'. tr_publish T e t = (Cancelled, t')"
  shows "fst (flush_once T clock w) = Cancelled"
    and "\<exists>now. dw_outbox (snd (flush_once T clock w)) = mark_sent (row_envelope_id r) now (dw_outbox w)"
proof -
  obtain recs where recs: "pending (dw_batch_size w) (dw_outbox w) = Inr recs"
    using pending_total assms(1) by blast
  then obtain rec recs' where r: "recs = rec # recs'" "row_to_record r = Inr rec"
    unfolding pending_def assms(3) by (auto simp: bind_result_Inr_iff)
  then have rec: "env_envelope_id (or_envelope rec) = row_envelope_id r" "or_attempts rec < dw_max_attempts w"
    using pending_ids [OF assms(1) recs] assms(3,4) by (auto simp: row_to_record_def bind_result_Inr_iff)
  obtain t' where "tr_publish T (or_envelope rec)
      (dw_transport (w_mark_sent clock (row_envelope_id r) (if or_attempts rec > 0 then w_replay (w\<lparr>dw_transport := t\<rparr>) else w\<lparr>dw_transport := t\<rparr>))) = (Cancelled, t')"
    using assms(5) rec(1) by blast
  then show "fst (flush_once T clock w) = Cancelled"
    and "\<exists>now. dw_outbox (snd (flush_once T clock w)) = mark_sent (row_envelope_id r) now (dw_outbox w)"
    using assms(2) recs r(1) rec by (auto simp: flush_once_def flush_record_def Let_def)
qed

section \<open>Intake: lemmas\<close>

definition intake_ok :: "RuntimeStateIntakeService \<Rightarrow> bool" where
  "intake_ok svc \<longleftrightarrow> distinct (map in_envelope_id (is_rows svc)) \<and> distinct (map in_idempotency_key (is_rows svc))"

definition stored_as :: "DeliveryEnvelope \<Rightarrow> intake_row \<Rightarrow> bool" where
  "stored_as e r \<longleftrightarrow> in_idempotency_key r = envelope_key e \<and> in_payload_hash r = env_payload_hash e"

lemma accept_acked_iff_stored:
  assumes "accept sha256 now e svc = (res, svc')"
  shows "\<exists>news. is_rows svc' = is_rows svc @ news"
    and "res = Inr st \<Longrightarrow> st = ACKED \<and> (\<exists>r \<in> set (is_rows svc'). stored_as e r)"
    and "res = Inl x \<Longrightarrow> svc' = svc"
    and "intake_ok svc \<Longrightarrow> intake_ok svc'"
  using assms
  by (auto simp: accept_def stored_as_def intake_ok_def find_Some_iff find_None_iff
      split: sum.splits option.splits if_splits) blast

text \<open>A history of accepted envelopes, with the answers.\<close>

inductive intake_run :: "(string \<Rightarrow> string) \<Rightarrow> RuntimeStateIntakeService \<Rightarrow> (DeliveryEnvelope \<times> DeliveryAckStatus result) list
    \<Rightarrow> RuntimeStateIntakeService \<Rightarrow> bool" for sha256 where
  start: "intake_run sha256 svc [] svc"
| step: "intake_run sha256 svc h svc1 \<Longrightarrow> accept sha256 now e svc1 = (res, svc2) \<Longrightarrow>
     intake_run sha256 svc (h @ [(e, res)]) svc2"

lemma intake_run_stored:
  "intake_run sha256 svc h svc' \<Longrightarrow> intake_ok svc \<Longrightarrow>
     intake_ok svc' \<and> (\<forall>(e, res) \<in> set h. \<forall>st. res = Inr st \<longrightarrow> (\<exists>r \<in> set (is_rows svc'). stored_as e r))"
proof (induction rule: intake_run.induct)
  case (step svc h svc1 now e res svc2)
  then show ?case
    using accept_acked_iff_stored [OF step.hyps(2)] by fastforce
qed simp

section \<open>Properties\<close>

text \<open>C12: Acknowledgement before deletion. Whatever the transport does, a flush on a reachable outbox
  removes an entry only if the transport answered the publication of exactly the stored envelope with
  \<open>ACKED\<close>, and a flush that returns counts the entries it removed.\<close>

theorem flush_deletes_only_acked:
  assumes "outbox_step\<^sup>*\<^sup>* (init_DeliveryOutbox k) (dw_outbox w)" and "flush_once T clock w = (out, w')"
  shows "(\<forall>r \<in> set (ob_rows (dw_outbox w)).
       row_envelope_id r \<in> row_envelope_id ` set (ob_rows (dw_outbox w'))
       \<or> (\<exists>rec t ack t'. row_to_record r = Inr rec
            \<and> tr_publish T (or_envelope rec) t = (Returned ack, t') \<and> ack_status ack = ACKED))
     \<and> (\<forall>n. out = Returned n \<longrightarrow> outbox_size (dw_outbox w') + n = outbox_size (dw_outbox w))"
  using flush_once_removed [OF assms(2) outbox_reachable_ok [OF assms(1)]]
    flush_once_count [of T clock w _ w'] outbox_reachable_ok [OF assms(1)] assms(2)
  by (auto simp: acked_by_def)

definition example_outbox :: DeliveryOutbox where
  "example_outbox = snd (publish_event (\<lambda>s. s) (\<lambda>m k. Inr k) example_publisher ''u1'' 5 6 ''done'' []
     (Some ''k1'') (init_DeliveryOutbox 4))"

lemma example_outbox_reachable: "outbox_step\<^sup>*\<^sup>* (init_DeliveryOutbox 4) example_outbox"
  unfolding example_outbox_def publish_event_def by (rule r_into_rtranclp [where r = outbox_step, OF outbox_step.publish])

definition example_worker :: "MemoryDeliveryTransport DeliveryWorker" where
  "example_worker = init_DeliveryWorker example_outbox \<lparr>mt_published = [], mt_connected = False\<rparr> 32 8"

lemma example_worker_outbox: "dw_outbox example_worker = example_outbox"
  by (simp add: example_worker_def init_DeliveryWorker_def)

theorem flush_deletes_only_acked_witness:
  "outbox_size (dw_outbox (snd (flush_once (memory_transport 9) (\<lambda>n. int n) example_worker))) + 1 = outbox_size example_outbox"
proof -
  have "fst (flush_once (memory_transport 9) (\<lambda>n. int n) example_worker) = Returned 1"
    by code_simp
  then have "flush_once (memory_transport 9) (\<lambda>n. int n) example_worker
      = (Returned 1, snd (flush_once (memory_transport 9) (\<lambda>n. int n) example_worker))"
    by (metis prod.collapse)
  from flush_deletes_only_acked [OF _ this, of 4] show ?thesis
    by (simp add: example_worker_outbox example_outbox_reachable)
qed

text \<open>A reachable receiver is served. With the in-memory transport a flush returns normally,
  reports the length of its batch, and removes exactly the batch: the pending and failed entries of
  lowest sequence number, up to the batch size, provided none of them has used up its attempts.\<close>

theorem memory_flush_drains_batch:
  assumes "outbox_step\<^sup>*\<^sup>* (init_DeliveryOutbox k) (dw_outbox w)"
    and "\<forall>r \<in> set (pending_rows (dw_batch_size w) (dw_outbox w)). row_attempts r < dw_max_attempts w"
  shows "\<exists>w'. flush_once (memory_transport now) clock w
       = (Returned (int (length (pending_rows (dw_batch_size w) (dw_outbox w)))), w')
     \<and> set (ob_rows (dw_outbox w')) = set (ob_rows (dw_outbox w)) - set (pending_rows (dw_batch_size w) (dw_outbox w))"
  by (rule memory.flush_once_drains [OF outbox_reachable_ok [OF assms(1)] assms(2)])

theorem memory_flush_drains_batch_witness:
  "\<exists>w'. flush_once (memory_transport 9) (\<lambda>n. int n) example_worker
       = (Returned (int (length (pending_rows (dw_batch_size example_worker) (dw_outbox example_worker)))), w')
     \<and> set (ob_rows (dw_outbox w')) = set (ob_rows (dw_outbox example_worker))
          - set (pending_rows (dw_batch_size example_worker) (dw_outbox example_worker))"
proof (rule memory_flush_drains_batch [of 4])
  show "outbox_step\<^sup>*\<^sup>* (init_DeliveryOutbox 4) (dw_outbox example_worker)"
    by (simp add: example_worker_outbox example_outbox_reachable)
  show "\<forall>r \<in> set (pending_rows (dw_batch_size example_worker) (dw_outbox example_worker)).
      row_attempts r < dw_max_attempts example_worker"
    by code_simp
qed

text \<open>C24: An interrupted publication is never resent. If the worker is cancelled while the transport
  publishes the first entry of a batch, the entry is left with status \<open>SENT\<close>, and then it stays in the
  table unchanged through any number of later rounds of the worker with any transport: \<open>pending\<close>
  selects only \<open>PENDING\<close> and \<open>FAILED\<close> entries.\<close>

theorem interrupted_publish_stranded:
  fixes T T' :: "'t DeliveryTransport"
  assumes "outbox_step\<^sup>*\<^sup>* (init_DeliveryOutbox k) (dw_outbox w)"
    and "tr_connect T (dw_transport w) = (Returned (), t)"
    and "pending_rows (dw_batch_size w) (dw_outbox w) = r # rs" and "row_attempts r < dw_max_attempts w"
    and "\<And>e t. env_envelope_id e = row_envelope_id r \<Longrightarrow> \<exists>t'. tr_publish T e t = (Cancelled, t')"
  shows "\<exists>r'. row_envelope_id r' = row_envelope_id r \<and> row_status r' = SENT
     \<and> (\<forall>n. r' \<in> set (ob_rows (dw_outbox
           (((\<lambda>w. snd (run_round T' clock' w)) ^^ n) (snd (flush_once T clock w))))))"
proof -
  have ok: "outbox_ok (dw_outbox w)"
    by (rule outbox_reachable_ok [OF assms(1)])
  obtain now where sent: "dw_outbox (snd (flush_once T clock w)) = mark_sent (row_envelope_id r) now (dw_outbox w)"
    using first_publish_cancelled(2) [OF ok assms(2-5)] by blast
  have "r \<in> set (ob_rows (dw_outbox w))"
    using pending_rows_subset [of r "dw_batch_size w" "dw_outbox w"] assms(3) by simp
  then have "r\<lparr>row_status := SENT, row_attempts := row_attempts r + 1, row_updated_at := now\<rparr>
      \<in> set (ob_rows (dw_outbox (snd (flush_once T clock w))))" (is "?r \<in> _")
    unfolding sent mark_sent_def set_status_def by force
  then have "\<forall>n. ?r \<in> set (ob_rows (dw_outbox
      (((\<lambda>w. snd (run_round T' clock' w)) ^^ n) (snd (flush_once T clock w)))))"
    using rounds_keep_sent [OF flush_once_ok [OF ok], of ?r] by simp
  then show ?thesis
    by (intro exI [of _ ?r]) simp
qed

theorem interrupted_publish_stranded_witness:
  "\<exists>r'. row_envelope_id r' = ''u1'' \<and> row_status r' = SENT
     \<and> (\<forall>n. r' \<in> set (ob_rows (dw_outbox (((\<lambda>w. snd (run_round (memory_transport 9) (\<lambda>n. int n) w)) ^^ n)
         (snd (flush_once ((memory_transport 9)\<lparr>tr_publish := (\<lambda>e t. (Cancelled, t))\<rparr>) (\<lambda>n. int n) example_worker))))))"
proof -
  let ?T = "(memory_transport 9)\<lparr>tr_publish := (\<lambda>e t. (Cancelled, t))\<rparr>"
  obtain r where r: "pending_rows (dw_batch_size example_worker) (dw_outbox example_worker) = [r]"
      "row_envelope_id r = ''u1''" "row_attempts r < dw_max_attempts example_worker"
  proof -
    have "length (pending_rows (dw_batch_size example_worker) (dw_outbox example_worker)) = 1"
        "row_envelope_id (hd (pending_rows (dw_batch_size example_worker) (dw_outbox example_worker))) = ''u1''"
        "row_attempts (hd (pending_rows (dw_batch_size example_worker) (dw_outbox example_worker))) < dw_max_attempts example_worker"
      by code_simp+
    then show thesis
      using that by (auto simp: length_Suc_conv)
  qed
  have "tr_connect ?T (dw_transport example_worker) = (Returned (), \<lparr>mt_published = [], mt_connected = True\<rparr>)"
    by code_simp
  from interrupted_publish_stranded [OF _ this r(1) r(3), of 4] show ?thesis
    using r(2) by (simp add: example_worker_outbox example_outbox_reachable)
qed

text \<open>Exhausted entries block the queue. If every entry of the batch has used up its attempts, then
  no number of further flushes over any transport publishes anything: the entries stay failed, keep
  their sequence numbers, and are selected again ahead of every later entry.\<close>

theorem exhausted_batch_blocks:
  assumes "outbox_step\<^sup>*\<^sup>* (init_DeliveryOutbox k) (dw_outbox w)"
    and "\<forall>r \<in> set (pending_rows (dw_batch_size w) (dw_outbox w)). dw_max_attempts w \<le> row_attempts r"
  shows "st_published (dw_stats (((\<lambda>w. snd (flush_once T clock w)) ^^ n) w)) = st_published (dw_stats w)"
  using flushes_exhausted [where w = w and T = T and clock = clock and n = n] outbox_reachable_ok [OF assms(1)] assms(2) by (simp add: batch_exhausted_def)

theorem exhausted_batch_blocks_witness:
  "\<forall>n. st_published (dw_stats (((\<lambda>w. snd (flush_once (memory_transport 9) (\<lambda>n. int n) w)) ^^ n)
      (init_DeliveryWorker (mark_failed ''u1'' 7 example_outbox) \<lparr>mt_published = [], mt_connected = False\<rparr> 1 1))) = 0"
proof -
  let ?w = "init_DeliveryWorker (mark_failed ''u1'' 7 example_outbox) \<lparr>mt_published = [], mt_connected = False\<rparr> 1 1"
  have "outbox_step\<^sup>*\<^sup>* (init_DeliveryOutbox 4) (mark_failed ''u1'' 7 example_outbox)"
    using example_outbox_reachable outbox_step.failed by (rule rtranclp.rtrancl_into_rtrancl)
  moreover have "\<forall>r \<in> set (pending_rows (dw_batch_size ?w) (dw_outbox ?w)). dw_max_attempts ?w \<le> row_attempts r"
    by code_simp
  ultimately show ?thesis
    using exhausted_batch_blocks [of 4 ?w] by (simp add: init_DeliveryWorker_def)
qed

text \<open>The intake stores each fact once. Over any history of deliveries, resends included, the table
  holds at most one row per idempotency key and per envelope id; every envelope that was acknowledged
  has its row, with its key and payload hash; and a delivery that was refused changed nothing.\<close>

theorem intake_exactly_once:
  assumes "intake_run sha256 (init_RuntimeStateIntakeService allowed required) h svc"
  shows "distinct (map in_idempotency_key (is_rows svc)) \<and> distinct (map in_envelope_id (is_rows svc))
     \<and> (\<forall>(e, res) \<in> set h. res = Inr ACKED \<longrightarrow>
          (\<exists>r \<in> set (is_rows svc). in_idempotency_key r = envelope_key e \<and> in_payload_hash r = env_payload_hash e))
     \<and> (\<forall>now e err svc'. accept sha256 now e svc = (Inl err, svc') \<longrightarrow> svc' = svc)"
proof -
  have "intake_ok (init_RuntimeStateIntakeService allowed required)"
    by (simp add: intake_ok_def init_RuntimeStateIntakeService_def)
  from intake_run_stored [OF assms this] show ?thesis
    using accept_acked_iff_stored(3) by (fastforce simp: intake_ok_def stored_as_def)
qed

definition example_delivery :: DeliveryEnvelope where
  "example_delivery = build_envelope (\<lambda>s. s) ''u1'' 5 RUNTIME_EVENT 1 (rp_identity example_publisher)
     [(''event_type'', PyStr ''done'')] None None (Some ''k1'')"

theorem intake_exactly_once_witness:
  "\<exists>svc. intake_run (\<lambda>s. s) (init_RuntimeStateIntakeService None (Some ''joymesh''))
       [(example_delivery, Inr ACKED), (example_delivery, Inr ACKED)] svc
     \<and> distinct (map in_idempotency_key (is_rows svc))"
proof -
  let ?svc0 = "init_RuntimeStateIntakeService None (Some ''joymesh'')"
  let ?svc1 = "snd (accept (\<lambda>s. s) 7 example_delivery ?svc0)"
  let ?svc2 = "snd (accept (\<lambda>s. s) 8 example_delivery ?svc1)"
  have "fst (accept (\<lambda>s. s) 7 example_delivery ?svc0) = Inr ACKED"
    by code_simp
  then have "intake_run (\<lambda>s. s) ?svc0 ([] @ [(example_delivery, Inr ACKED)]) ?svc1"
    by (intro intake_run.intros(2) [OF intake_run.start]) (rule prod_eqI, simp_all)
  moreover have "fst (accept (\<lambda>s. s) 8 example_delivery ?svc1) = Inr ACKED"
    by code_simp
  ultimately have "intake_run (\<lambda>s. s) ?svc0 (([] @ [(example_delivery, Inr ACKED)]) @ [(example_delivery, Inr ACKED)]) ?svc2"
    by (elim intake_run.intros(2)) (rule prod_eqI, simp_all)
  then show ?thesis
    using intake_exactly_once [of "\<lambda>s. s" None "Some ''joymesh''" _ ?svc2] by auto
qed

end
