(* ===== verification/Route_Selection.thy ===== *)
theory Route_Selection
  imports JM_Prelude "HOL-Library.Product_Lexorder"
begin

text \<open>
  Provider-route types and the choice of a provider route for a connector
  (\<^verbatim>\<open>protocol.py\<close> and \<^verbatim>\<open>selection.py\<close> under
  \<^verbatim>\<open>src/src/joymesh/runtime_v1/provider_routes/\<close>). The preference, a float in the source, takes integer
  values only.
\<close>

section \<open>Types\<close>

record ProviderRoute =
  ro_route_id :: string
  ro_display_name :: string
  ro_manager_id :: "string option"
  ro_connector_id :: string
  ro_provider_id :: string
  ro_model_id :: "string option"
  ro_enabled :: bool
  ro_available :: bool
  ro_authenticated :: bool
  ro_configuration_status :: string
  ro_credential_source :: "string option"
  ro_supports_enable :: bool
  ro_supports_disable :: bool
  ro_supports_status :: bool
  ro_supports_model_selection :: bool
  ro_supports_usage_status :: bool
  ro_last_checked_at :: time
  ro_reason_code :: "string option"
  ro_details :: pydict

record ProviderRouteSelectionResult =
  rs_connector_id :: string
  rs_connector_candidates :: "string list"
  rs_selected_connector :: "string option"
  rs_connector_selection_reason :: string
  rs_provider_route_candidates :: "ProviderRoute list"
  rs_selected_provider_route :: "ProviderRoute option"
  rs_provider_selection_reason :: string
  rs_selected_model :: "string option"
  rs_rejected_candidates :: "(string \<times> string) list"

section \<open>Selection\<close>

text \<open>The guards of the loop, in their order: the reason to reject a route, or None for an eligible
  one. A rejected candidate is the pair of its route id and the reason code.\<close>

definition route_rejection ::
  "string \<Rightarrow> string option \<Rightarrow> string list option \<Rightarrow> bool \<Rightarrow> ProviderRoute \<Rightarrow> string option" where
  "route_rejection connector_id required_provider allowed_providers allow_disabled route =
     (if ro_connector_id route \<noteq> connector_id then Some ''connector_mismatch''
      else if (case allowed_providers of None \<Rightarrow> False | Some ps \<Rightarrow> ro_provider_id route \<notin> set ps) then
        Some ''provider_not_allowed''
      else if opt_truthy required_provider \<and> Some (ro_provider_id route) \<noteq> required_provider then
        Some ''required_provider_mismatch''
      else if \<not> ro_available route then
        Some (if opt_truthy (ro_reason_code route) then the (ro_reason_code route) else ''provider_unavailable'')
      else if \<not> allow_disabled \<and> ro_provider_id route \<noteq> ''native'' \<and> \<not> ro_enabled route then
        Some ''route_not_enabled''
      else if ro_provider_id route \<noteq> ''native'' \<and> \<not> ro_authenticated route \<and> ro_enabled route then
        Some ''authentication_required''
      else None)"

fun partition_routes ::
  "string \<Rightarrow> string option \<Rightarrow> string list option \<Rightarrow> bool \<Rightarrow> ProviderRoute list
   \<Rightarrow> ProviderRoute list \<times> (string \<times> string) list" where
  "partition_routes cid req allowed dis [] = ([], [])"
| "partition_routes cid req allowed dis (route # routes) =
     (let (eligible, rejected) = partition_routes cid req allowed dis routes
      in case route_rejection cid req allowed dis route of
           Some reason \<Rightarrow> (eligible, (ro_route_id route, reason) # rejected)
         | None \<Rightarrow> (route # eligible, rejected))"

definition route_key :: "string list \<Rightarrow> ProviderRoute \<Rightarrow> int \<times> string \<times> string" where
  "route_key preferred route =
     ((if ro_provider_id route \<in> set preferred then int (index_of (ro_provider_id route) preferred)
       else if preferred \<noteq> [] then 100
       else if ro_provider_id route = ''native'' then 0 else 10),
      ro_provider_id route, ro_route_id route)"

definition select_provider_route ::
  "string \<Rightarrow> ProviderRoute list \<Rightarrow> string list \<Rightarrow> string option \<Rightarrow> string list option \<Rightarrow> bool
   \<Rightarrow> ProviderRouteSelectionResult" where
  "select_provider_route connector_id routes preferred required_provider allowed_providers allow_disabled =
     (let (eligible, rejected) = partition_routes connector_id required_provider allowed_providers allow_disabled routes;
          result = (\<lambda>selected reason model.
            \<lparr>rs_connector_id = connector_id, rs_connector_candidates = [connector_id],
             rs_selected_connector = Some connector_id, rs_connector_selection_reason = ''provided'',
             rs_provider_route_candidates = routes, rs_selected_provider_route = selected,
             rs_provider_selection_reason = reason, rs_selected_model = model,
             rs_rejected_candidates = rejected\<rparr>)
      in case sort_key (route_key preferred) eligible of
           [] \<Rightarrow> result None ''no_eligible_provider_route'' None
         | selected # _ \<Rightarrow>
             result (Some selected)
               (if preferred \<noteq> [] \<and> ro_provider_id selected \<in> set preferred then ''preferred_provider''
                else if opt_truthy required_provider then ''required_provider'' else ''deterministic_default'')
               (ro_model_id selected))"

definition native_route_for :: "string \<Rightarrow> bool \<Rightarrow> time \<Rightarrow> ProviderRoute" where
  "native_route_for connector_id authenticated now =
     \<lparr>ro_route_id = connector_id @ '':native'', ro_display_name = connector_id @ '' native provider'',
      ro_manager_id = None, ro_connector_id = connector_id, ro_provider_id = ''native'', ro_model_id = None,
      ro_enabled = True, ro_available = True, ro_authenticated = authenticated,
      ro_configuration_status = ''valid'', ro_credential_source = Some ''harness_native'',
      ro_supports_enable = False, ro_supports_disable = False, ro_supports_status = True,
      ro_supports_model_selection = False, ro_supports_usage_status = False, ro_last_checked_at = now,
      ro_reason_code = None, ro_details = [(''synthetic'', PyBool True)]\<rparr>"

section \<open>Lemmas\<close>

lemma partition_routes_filter:
  "fst (partition_routes cid req allowed dis routes)
     = filter (\<lambda>r. route_rejection cid req allowed dis r = None) routes"
  "set (snd (partition_routes cid req allowed dis routes))
     = {(ro_route_id r, reason) | r reason. r \<in> set routes \<and> route_rejection cid req allowed dis r = Some reason}"
  by (induction routes) (auto simp: case_prod_beta Let_def split: option.splits)

lemma sort_key_head_least:
  assumes "sort_key f xs = y # ys" "x \<in> set xs"
  shows "f y \<le> (f x :: 'a :: linorder)"
proof -
  have "sorted (map f (y # ys))"
    by (metis assms(1) sorted_sort_key)
  moreover have "x \<in> set (y # ys)"
    using assms by (metis set_sort)
  ultimately show ?thesis
    by auto
qed

lemma select_result_cases:
  obtains (none) "filter (\<lambda>r. route_rejection cid req allowed dis r = None) routes = []"
      "rs_selected_provider_route (select_provider_route cid routes pref req allowed dis) = None"
  | (some) r where
      "rs_selected_provider_route (select_provider_route cid routes pref req allowed dis) = Some r"
      "rs_selected_model (select_provider_route cid routes pref req allowed dis) = ro_model_id r"
      "r \<in> set routes" "route_rejection cid req allowed dis r = None"
      "\<forall>q \<in> set routes. route_rejection cid req allowed dis q = None \<longrightarrow> route_key pref r \<le> route_key pref q"
proof (cases "sort_key (route_key pref) (filter (\<lambda>r. route_rejection cid req allowed dis r = None) routes)")
  case Nil
  then show ?thesis
    using none by (simp add: select_provider_route_def case_prod_beta Let_def partition_routes_filter)
next
  case (Cons r rs)
  have "r \<in> set (filter (\<lambda>r. route_rejection cid req allowed dis r = None) routes)"
    by (metis Cons list.set_intros(1) set_sort)
  then show ?thesis
    using some Cons sort_key_head_least [OF Cons]
    by (simp add: select_provider_route_def case_prod_beta Let_def partition_routes_filter)
qed

lemma native_eligible:
  assumes "allowed = None" "\<not> opt_truthy req"
  shows "route_rejection cid req allowed dis (native_route_for cid auth now) = None"
  using assms by (simp add: route_rejection_def native_route_for_def)

section \<open>Properties\<close>

text \<open>Selection is sound, complete and best. A selected route is one of the given snapshots of this
  connector, its provider is allowed and is the required one if there is one, it is available, and
  unless it is native it is enabled (or disabled routes were allowed) and, when enabled, authenticated;
  no other such route has a smaller key (preference, provider, route id). Nothing is selected exactly
  when no route meets the conditions, and the rejected candidates are exactly the remaining routes,
  each with its reason.\<close>

theorem select_provider_route_exact:
  "(let res = select_provider_route cid routes pref req allowed dis;
        ok = (\<lambda>r. ro_connector_id r = cid \<and> (\<forall>ps. allowed = Some ps \<longrightarrow> ro_provider_id r \<in> set ps)
                 \<and> (opt_truthy req \<longrightarrow> req = Some (ro_provider_id r)) \<and> ro_available r
                 \<and> (ro_provider_id r = ''native'' \<or> (if ro_enabled r then ro_authenticated r else dis)))
    in (case rs_selected_provider_route res of
          None \<Rightarrow> (\<forall>r \<in> set routes. \<not> ok r)
        | Some r \<Rightarrow> r \<in> set routes \<and> ok r \<and> rs_selected_model res = ro_model_id r
            \<and> (\<forall>q \<in> set routes. ok q \<longrightarrow> route_key pref r \<le> route_key pref q))
       \<and> fst ` set (rs_rejected_candidates res) = ro_route_id ` {r \<in> set routes. \<not> ok r})"
proof -
  let ?ok = "\<lambda>r. ro_connector_id r = cid \<and> (\<forall>ps. allowed = Some ps \<longrightarrow> ro_provider_id r \<in> set ps)
      \<and> (opt_truthy req \<longrightarrow> req = Some (ro_provider_id r)) \<and> ro_available r
      \<and> (ro_provider_id r = ''native'' \<or> (if ro_enabled r then ro_authenticated r else dis))"
  let ?res = "select_provider_route cid routes pref req allowed dis"
  have ok: "route_rejection cid req allowed dis r = None \<longleftrightarrow> ?ok r" for r
    by (auto simp: route_rejection_def split: option.splits)
  have "rs_rejected_candidates ?res = snd (partition_routes cid req allowed dis routes)"
    by (simp add: select_provider_route_def case_prod_beta Let_def split: list.splits)
  then have "fst ` set (rs_rejected_candidates ?res)
      = ro_route_id ` {r \<in> set routes. route_rejection cid req allowed dis r \<noteq> None}"
    by (force simp: partition_routes_filter image_iff)
  then have rej: "fst ` set (rs_rejected_candidates ?res) = ro_route_id ` {r \<in> set routes. \<not> ?ok r}"
    unfolding ok .
  show ?thesis
  proof (rule select_result_cases [of cid req allowed dis routes pref])
    assume none: "filter (\<lambda>r. route_rejection cid req allowed dis r = None) routes = []"
      "rs_selected_provider_route ?res = None"
    then show ?thesis
      using rej unfolding filter_empty_conv ok by (simp add: Let_def)
  next
    fix r
    assume some: "rs_selected_provider_route ?res = Some r" "rs_selected_model ?res = ro_model_id r"
      "r \<in> set routes" "route_rejection cid req allowed dis r = None"
      "\<forall>q \<in> set routes. route_rejection cid req allowed dis q = None \<longrightarrow> route_key pref r \<le> route_key pref q"
    then show ?thesis
      using rej unfolding ok by (simp add: Let_def)
  qed
qed

definition example_route :: "string \<Rightarrow> bool \<Rightarrow> bool \<Rightarrow> ProviderRoute" where
  "example_route provider enabled authenticated =
     (native_route_for ''codex'' authenticated 0)\<lparr>ro_route_id := ''codex:'' @ provider, ro_provider_id := provider,
        ro_enabled := enabled\<rparr>"

theorem select_provider_route_exact_witness:
  "ro_available (native_route_for ''codex'' True 0) \<and>
     route_key [''fireworks''] (example_route ''fireworks'' True True) \<le> route_key [''fireworks''] (native_route_for ''codex'' True 0)"
proof -
  let ?routes = "[native_route_for ''codex'' True 0, example_route ''fireworks'' True True]"
  have "rs_selected_provider_route (select_provider_route ''codex'' ?routes [''fireworks''] None None False)
      = Some (example_route ''fireworks'' True True)"
    by code_simp
  then show ?thesis
    using select_provider_route_exact [of "''codex''" ?routes "[''fireworks'']" None None False]
    by (simp add: Let_def example_route_def native_route_for_def opt_truthy_def)
qed

end
