(* ===== verification/Security.thy ===== *)
theory Security
  imports JM_Prelude
begin

text \<open>
  Environment filtering and secret redaction (\<^verbatim>\<open>src/src/joymesh/security.py\<close>), shared by the adapters,
  the provider-route coordinator and the evidence intake. Every regular expression of the module is a
  function on the text at a position: the three redaction patterns return the length of the match, if
  any, with the choices the backtracking matcher of the standard library makes; the two environment
  patterns are tests.
\<close>

section \<open>Character classes\<close>

definition word_char :: "char \<Rightarrow> bool" where
  "word_char c \<longleftrightarrow>
     (let n = (of_char c :: nat)
      in digit c \<or> (65 \<le> n \<and> n \<le> 90) \<or> (97 \<le> n \<and> n \<le> 122) \<or> n = 95
         \<or> n \<in> {170, 178, 179, 181, 185, 186, 188, 189, 190} \<or> (192 \<le> n \<and> n \<noteq> 215 \<and> n \<noteq> 247))"

definition ascii_alnum :: "char \<Rightarrow> bool" where
  "ascii_alnum c \<longleftrightarrow>
     (let n = (of_char c :: nat) in digit c \<or> (65 \<le> n \<and> n \<le> 90) \<or> (97 \<le> n \<and> n \<le> 122))"

text \<open>\<^verbatim>\<open>[A-Za-z0-9_-]\<close> and \<^verbatim>\<open>[A-Za-z0-9._~+/=-]\<close>.\<close>

definition key_char :: "char \<Rightarrow> bool" where
  "key_char c \<longleftrightarrow> ascii_alnum c \<or> c \<in> set ''_-''"

definition bearer_char :: "char \<Rightarrow> bool" where
  "bearer_char c \<longleftrightarrow> ascii_alnum c \<or> c \<in> set ''._~+/=-''"

text \<open>\<^verbatim>\<open>\b\<close> between an optional previous character and the text that follows.\<close>

definition boundary :: "char option \<Rightarrow> string \<Rightarrow> bool" where
  "boundary prev after \<longleftrightarrow>
     (case prev of None \<Rightarrow> False | Some c \<Rightarrow> word_char c)
       \<noteq> (case after of [] \<Rightarrow> False | c # _ \<Rightarrow> word_char c)"

section \<open>The redaction patterns\<close>

text \<open>The first of the given literals that starts the text.\<close>

definition literal_prefix :: "string list \<Rightarrow> string \<Rightarrow> string option" where
  "literal_prefix ps s = find (\<lambda>p. starts_with p s) ps"

text \<open>\<^verbatim>\<open>{8,}\b\<close>: the longest run of at least eight characters that ends at a word boundary; \<open>n\<close> counts
  down from the whole run.\<close>

fun run_to_boundary :: "string \<Rightarrow> nat \<Rightarrow> nat option" where
  "run_to_boundary s 0 = None"
| "run_to_boundary s (Suc n) =
     (if Suc n < 8 then None
      else if boundary (Some (s ! n)) (drop (Suc n) s) then Some (Suc n)
      else run_to_boundary s n)"

definition match_key :: "char option \<Rightarrow> string \<Rightarrow> nat option" where
  "match_key prev s =
     (if \<not> boundary prev s then None
      else case literal_prefix [''sk-'', ''ghp-'', ''github_pat-'', ''xoxb-'', ''xoxa-'', ''xoxp-'', ''xoxr-'', ''xoxs-''] s of
             None \<Rightarrow> None
           | Some p \<Rightarrow>
               map_option ((+) (length p))
                 (run_to_boundary (drop (length p) s) (length (takeWhile key_char (drop (length p) s)))))"

definition match_bearer :: "char option \<Rightarrow> string \<Rightarrow> nat option" where
  "match_bearer prev s =
     (if boundary prev s \<and> starts_with ''bearer'' (py_lower s) then
        (let rest = drop 6 s; gap = takeWhile space rest;
             token = takeWhile bearer_char (drop (length gap) rest)
         in if gap \<noteq> [] \<and> 8 \<le> length token then Some (6 + length gap + length token) else None)
      else None)"

definition secret_words :: "string list" where
  "secret_words = [''api_key'', ''api-key'', ''apikey'', ''token'', ''password'', ''secret'']"

definition match_assignment :: "char option \<Rightarrow> string \<Rightarrow> nat option" where
  "match_assignment prev s =
     (case literal_prefix secret_words (py_lower s) of
        None \<Rightarrow> None
      | Some p \<Rightarrow>
          (let rest = drop (length p) s; gap = takeWhile space rest; rest1 = drop (length gap) rest
           in case rest1 of
                [] \<Rightarrow> None
              | c # rest2 \<Rightarrow>
                  if c \<in> set ''=:'' then
                    (let gap2 = takeWhile space rest2;
                         secret = takeWhile (\<lambda>c. \<not> space c) (drop (length gap2) rest2)
                     in if secret = [] then None
                        else Some (length p + length gap + 1 + length gap2 + length secret))
                  else None))"

text \<open>\<^verbatim>\<open>pattern.sub("[REDACTED]", s)\<close>: left to right; \<open>skip\<close> counts the characters of a match that are
  still to be passed over.\<close>

definition REDACTED :: string where
  "REDACTED = ''[REDACTED]''"

fun sub_pattern :: "(char option \<Rightarrow> string \<Rightarrow> nat option) \<Rightarrow> nat \<Rightarrow> char option \<Rightarrow> string \<Rightarrow> string" where
  "sub_pattern m skip prev [] = []"
| "sub_pattern m (Suc skip) prev (c # s) = sub_pattern m skip (Some c) s"
| "sub_pattern m 0 prev (c # s) =
     (case m prev (c # s) of
        Some (Suc n) \<Rightarrow> REDACTED @ sub_pattern m n (Some c) s
      | _ \<Rightarrow> c # sub_pattern m 0 (Some c) s)"

definition redact_secrets :: "string \<Rightarrow> string" where
  "redact_secrets value =
     sub_pattern match_assignment 0 None
       (sub_pattern match_bearer 0 None (sub_pattern match_key 0 None value))"

section \<open>The environment filter\<close>

definition SAFE_ENVIRONMENT_KEYS :: "string list" where
  "SAFE_ENVIRONMENT_KEYS =
     [''HOME'', ''LANG'', ''LC_ALL'', ''NO_COLOR'', ''PATH'', ''SYSTEMROOT'', ''TEMP'', ''TERM'', ''TMP'',
      ''TMPDIR'', ''USERPROFILE'']"

text \<open>\<^verbatim>\<open>(^|_)(...)(_|$)\<close>, searched at every position, without case. \<^verbatim>\<open>$\<close> also matches before a final
  newline.\<close>

definition denied_words :: "string list" where
  "denied_words =
     [''apikey'', ''api_key'', ''api-key'', ''token'', ''secret'', ''password'', ''credential'', ''privatekey'',
      ''private_key'', ''private-key'']"

definition word_then_end :: "string \<Rightarrow> bool" where
  "word_then_end s \<longleftrightarrow>
     list_ex (\<lambda>w. starts_with w s \<and>
       (drop (length w) s = [] \<or> drop (length w) s = [char_of (10 :: nat)] \<or> starts_with ''_'' (drop (length w) s)))
       denied_words"

fun underscore_word :: "string \<Rightarrow> bool" where
  "underscore_word [] = False"
| "underscore_word (c # s) = ((c = CHR ''_'' \<and> word_then_end s) \<or> underscore_word s)"

definition denied_prefixes :: "string list" where
  "denied_prefixes =
     [''aws_'', ''azure_'', ''google_'', ''openai_'', ''anthropic_'', ''xai_'', ''fireworks_'', ''github_'']"

definition is_denied_secret_key :: "string \<Rightarrow> bool" where
  "is_denied_secret_key key =
     (let k = py_lower key
      in word_then_end k \<or> underscore_word k \<or> list_ex (\<lambda>p. starts_with p k) denied_prefixes)"

text \<open>\<^verbatim>\<open>source or os.environ\<close>: an empty mapping counts as missing.\<close>

definition filter_environment ::
  "(string \<times> string) list \<Rightarrow> (string \<times> string) list option \<Rightarrow> string list \<Rightarrow> (string \<times> string) list" where
  "filter_environment os_environ source extra_keys =
     (let environment = (case source of None \<Rightarrow> os_environ | Some [] \<Rightarrow> os_environ | Some e \<Rightarrow> e)
      in filter (\<lambda>kv. (fst kv \<in> set SAFE_ENVIRONMENT_KEYS \<or> fst kv \<in> set extra_keys \<or> starts_with ''JOYMESH_'' (fst kv))
                      \<and> \<not> is_denied_secret_key (fst kv)) environment)"

section \<open>Lemmas\<close>

lemma sub_pattern_chars: "set (sub_pattern m k p s) \<subseteq> set s \<union> set REDACTED"
  by (induction m k p s rule: sub_pattern.induct) (auto split: option.splits nat.splits)

lemma sub_pattern_nonempty: "s \<noteq> [] \<Longrightarrow> sub_pattern m 0 p s \<noteq> []"
  by (cases s) (auto simp: REDACTED_def split: option.splits nat.splits)

lemma sub_pattern_skip_all: "length s \<le> n \<Longrightarrow> sub_pattern m n p s = []"
proof (induction s arbitrary: n p)
  case (Cons c s)
  then show ?case
    by (cases n) auto
qed simp

lemma sub_pattern_no_match:
  assumes "\<And>p n. n < length s \<Longrightarrow> m p (drop n s) = None"
  shows "sub_pattern m 0 p s = s"
  using assms
proof (induction s arbitrary: p)
  case (Cons c s)
  have "m p (c # s) = None"
    using Cons.prems [of 0] by simp
  moreover have "sub_pattern m 0 (Some c) s = s"
    using Cons.prems [of "Suc _"] by (intro Cons.IH) simp
  ultimately show ?case
    by simp
qed simp

lemma sub_pattern_whole:
  "m p s = Some (length s) \<Longrightarrow> s \<noteq> [] \<Longrightarrow> sub_pattern m 0 p s = REDACTED"
  by (cases s) (auto simp: sub_pattern_skip_all)

lemma match_bearer_needs_space: "\<not> list_ex space s \<Longrightarrow> match_bearer p s = None"
proof -
  assume "\<not> list_ex space s"
  then have "takeWhile space (drop 6 s) = []"
    by (cases "drop 6 s") (auto simp: list_ex_iff, metis in_set_dropD list.set_intros(1))
  then show ?thesis
    by (simp add: match_bearer_def Let_def)
qed

lemma redacted_no_space: "\<not> list_ex space REDACTED"
  by code_simp

lemma no_key_in_word:
  assumes "w \<in> set secret_words"
  shows "sub_pattern match_key 0 None (w @ ''='' @ s) = w @ ''='' @ sub_pattern match_key 0 (Some CHR ''='') s"
  using assms by (auto simp: secret_words_def match_key_def literal_prefix_def)

lemma secret_words_lower: "\<forall>w \<in> set secret_words. py_lower w = w"
  by code_simp

lemma secret_words_apart:
  "\<forall>w \<in> set secret_words. \<forall>p \<in> set secret_words. starts_with p w \<or> starts_with w p \<longrightarrow> p = w"
  by code_simp

lemma starts_with_append: "starts_with p (w @ s) \<Longrightarrow> starts_with p w \<or> starts_with w p"
  by (induction p w rule: starts_with.induct) auto

lemma starts_with_self: "starts_with w (w @ s)"
  by (induction w) auto

lemma literal_prefix_word:
  assumes "w \<in> set secret_words"
  shows "literal_prefix secret_words (w @ s) = Some w"
proof (cases "literal_prefix secret_words (w @ s)")
  case None
  then show ?thesis
    using assms starts_with_self [of w s] unfolding literal_prefix_def find_None_iff by blast
next
  case (Some p)
  then have "p \<in> set secret_words" "starts_with p (w @ s)"
    by (auto simp: literal_prefix_def find_Some_iff)
  then show ?thesis
    using Some assms secret_words_apart starts_with_append by blast
qed

lemma match_assignment_word:
  assumes "w \<in> set secret_words" "s \<noteq> []" "\<not> list_ex space s"
  shows "match_assignment p (w @ ''='' @ s) = Some (length (w @ ''='' @ s))"
proof -
  have "literal_prefix secret_words (py_lower (w @ ''='' @ s)) = Some w"
    using assms(1) secret_words_lower literal_prefix_word by (simp add: py_lower_def)
  moreover have "takeWhile (\<lambda>c. \<not> space c) s = s"
    using assms(3) by (simp add: list_ex_iff)
  moreover have "takeWhile space s = []"
    using assms(3) by (cases s) auto
  moreover have "\<not> space CHR ''=''"
    by code_simp
  ultimately show ?thesis
    using assms(2) by (simp add: match_assignment_def Let_def del: takeWhile_eq_all_conv)
qed

section \<open>Properties\<close>

text \<open>The value of a secret assignment never survives redaction. For every name the redactor
  knows and every non-empty value without white space, whatever it contains, the redacted text of the
  assignment is the marker alone.\<close>

theorem redact_hides_assignment:
  assumes "w \<in> set secret_words" "secret \<noteq> []" "\<not> list_ex space secret"
  shows "redact_secrets (w @ ''='' @ secret) = REDACTED"
proof -
  let ?s = "sub_pattern match_key 0 (Some CHR ''='') secret"
  have free: "\<not> list_ex space ?s"
    using sub_pattern_chars [of match_key 0 "Some CHR ''=''" secret] assms(3) redacted_no_space
    by (auto simp: list_ex_iff)
  have "\<not> list_ex space w"
    using assms(1) by (auto simp: secret_words_def space_def)
  then have "\<not> list_ex space (w @ ''='' @ ?s)"
    using free by (simp add: space_def)
  then have "\<not> list_ex space (drop n (w @ ''='' @ ?s))" for n
    by (metis in_set_dropD list_ex_iff)
  then have "sub_pattern match_bearer 0 None (w @ ''='' @ ?s) = w @ ''='' @ ?s"
    by (intro sub_pattern_no_match match_bearer_needs_space)
  moreover have "sub_pattern match_assignment 0 None (w @ ''='' @ ?s) = REDACTED"
    by (rule sub_pattern_whole [where m = match_assignment, OF match_assignment_word])
       (use assms sub_pattern_nonempty free in auto)
  ultimately show ?thesis
    unfolding redact_secrets_def no_key_in_word [OF assms(1)] by (simp only:)
qed

theorem redact_hides_assignment_witness: "redact_secrets ''password=sk-0123456789'' = REDACTED"
  using redact_hides_assignment [of "''password''" "''sk-0123456789''"] by (simp add: secret_words_def space_def)

end
