(* ===== verification/Route_Coordinator.thy ===== *)
theory Route_Coordinator
  imports Route_Leases Route_Selection Security
begin

text \<open>
  The provider-route mutation coordinator: lease, enable, execute, restore, release
  (\<^verbatim>\<open>coordinator.py\<close> and \<^verbatim>\<open>authority.py\<close> under
  \<^verbatim>\<open>src/src/joymesh/runtime_v1/provider_routes/\<close>).

  The lease store enters as a record of its operations, instantiated with both back ends of
  \<open>Route_Leases\<close>. The route manager (the \<^verbatim>\<open>ProviderRouteManager\<close> protocol) and the work to execute are
  functions on a state of their own; each call returns, raises or is cancelled. Clock readings and
  generated identifiers are \<open>clock n\<close> and \<open>fresh n\<close> for a running counter. What other tasks do while
  this one waits is an argument: \<open>wait\<close> for the process-local lock, \<open>nap\<close> for the polling sleep.
\<close>

section \<open>Authority\<close>

record MutationAuthority =
  au_token :: string
  au_manager_id :: string
  au_connector_id :: string
  au_purpose :: string
  au_lease_id :: "string option"

text \<open>\<open>require_mutation_authority\<close> on the value of the context variable.\<close>

definition require_mutation_authority ::
  "MutationAuthority option \<Rightarrow> string \<Rightarrow> string \<Rightarrow> MutationAuthority result" where
  "require_mutation_authority current manager_id connector_id =
     (case current of
        None \<Rightarrow> Inl (PermissionError ''provider-route mutation requires an active coordinator lease context'')
      | Some authority \<Rightarrow>
          if au_manager_id authority \<noteq> manager_id \<or> au_connector_id authority \<noteq> connector_id then
            Inl (PermissionError ''provider-route mutation authority does not match manager/connector'')
          else Inr authority)"

definition mutation_authority :: "string \<Rightarrow> string \<Rightarrow> string \<Rightarrow> string \<Rightarrow> string \<Rightarrow> MutationAuthority" where
  "mutation_authority token manager_id connector_id purpose lease_id =
     \<lparr>au_token = token, au_manager_id = manager_id, au_connector_id = connector_id, au_purpose = purpose,
      au_lease_id = Some lease_id\<rparr>"

section \<open>Interfaces\<close>

record ProviderRouteMutationApproval =
  ap_approved :: bool
  ap_action :: string
  ap_manager_id :: string
  ap_connector_id :: string
  ap_nonce :: string
  ap_model_id :: "string option"

record ProviderRouteMutationResult =
  mr_ok :: bool
  mr_action :: string
  mr_route :: "ProviderRoute option"
  mr_previous_snapshot :: pydict
  mr_restored :: bool
  mr_reason_code :: "string option"
  mr_message :: string
  mr_details :: pydict

text \<open>The manager. The mutating primitives see the authority of the calling task.\<close>

record 'm ProviderRouteManager =
  mg_manager_id :: string
  mg_inspect_route :: "string \<Rightarrow> 'm \<Rightarrow> ProviderRoute outcome \<times> 'm"
  mg_enable_route :: "MutationAuthority option \<Rightarrow> string \<Rightarrow> ProviderRouteMutationApproval \<Rightarrow> string option
      \<Rightarrow> 'm \<Rightarrow> ProviderRouteMutationResult outcome \<times> 'm"
  mg_disable_route :: "MutationAuthority option \<Rightarrow> string \<Rightarrow> ProviderRouteMutationApproval
      \<Rightarrow> 'm \<Rightarrow> ProviderRouteMutationResult outcome \<times> 'm"
  mg_verify_route :: "string \<Rightarrow> 'm \<Rightarrow> ProviderRoute outcome \<times> 'm"

text \<open>The lease store. The two identifiers of \<open>so_block_connector\<close> are generated ones.\<close>

record 's lease_backend =
  so_is_blocked :: "'s \<Rightarrow> string \<Rightarrow> string \<Rightarrow> string option"
  so_try_acquire :: "'s \<Rightarrow> ProviderRouteLease \<Rightarrow> 's \<times> ProviderRouteLease option result"
  so_renew :: "'s \<Rightarrow> string \<Rightarrow> string \<Rightarrow> string \<Rightarrow> int \<Rightarrow> time \<Rightarrow> 's \<times> ProviderRouteLease result"
  so_release :: "'s \<Rightarrow> string \<Rightarrow> string \<Rightarrow> string \<Rightarrow> time \<Rightarrow> 's \<times> ProviderRouteLease result"
  so_list_expired :: "'s \<Rightarrow> time \<Rightarrow> ProviderRouteLease list"
  so_claim_recovery :: "'s \<Rightarrow> string \<Rightarrow> string \<Rightarrow> string \<Rightarrow> time \<Rightarrow> 's \<times> ProviderRouteLease result"
  so_mark_recovery :: "'s \<Rightarrow> string \<Rightarrow> string \<Rightarrow> string \<Rightarrow> pydict \<Rightarrow> time \<Rightarrow> 's \<times> ProviderRouteLease result"
  so_block_connector :: "'s \<Rightarrow> string \<Rightarrow> string \<Rightarrow> string \<Rightarrow> time \<Rightarrow> string \<Rightarrow> string \<Rightarrow> 's \<times> unit result"

fun lease_exc :: "lease_error \<Rightarrow> py_error" where
  "lease_exc (ProviderRouteLeaseError code m) = LeaseError code m"
| "lease_exc MultipleResultsFound = RuntimeError ''Multiple rows were found when one or none was required''"

definition raise_lease :: "'s \<times> 'a lease_result \<Rightarrow> 's \<times> 'a result" where
  "raise_lease p = (fst p, case snd p of Inl e \<Rightarrow> Inl (lease_exc e) | Inr x \<Rightarrow> Inr x)"

definition memory_backend :: "MemoryLeaseStore lease_backend" where
  "memory_backend =
     \<lparr>so_is_blocked = memory_is_blocked,
      so_try_acquire = (\<lambda>s l. (fst (memory_acquire s l), Inr (snd (memory_acquire s l)))),
      so_renew = (\<lambda>s i tok ow ttl now. raise_lease (memory_renew s i tok ow ttl now)),
      so_release = (\<lambda>s i tok ow now. raise_lease (memory_release s i tok ow now)),
      so_list_expired = memory_list_expired_active,
      so_claim_recovery = (\<lambda>s i tok ow now. raise_lease (memory_claim_recovery s i tok ow now now)),
      so_mark_recovery = (\<lambda>s i tok rs d now. raise_lease (memory_mark_recovery s i tok rs d)),
      so_block_connector = (\<lambda>s m c reason now i tok.
        (memory_block_connector s m c reason (int_str now) now, Inr ()))\<rparr>"

definition db_backend :: "lease_table lease_backend" where
  "db_backend =
     \<lparr>so_is_blocked = db_is_blocked,
      so_try_acquire = (\<lambda>t l. raise_lease (db_acquire t t l)),
      so_renew = (\<lambda>t i tok ow ttl now. raise_lease (db_renew t i tok ow ttl now)),
      so_release = (\<lambda>t i tok ow now. raise_lease (db_release t i tok ow now now)),
      so_list_expired = db_list_expired_active,
      so_claim_recovery = (\<lambda>t i tok ow now. raise_lease (db_claim_recovery t i tok ow now)),
      so_mark_recovery = (\<lambda>t i tok rs d now. raise_lease (db_mark_recovery t i tok rs d now)),
      so_block_connector = (\<lambda>t m c reason now i tok.
        case db_block_connector t m c reason (int_str now) now i tok of
          None \<Rightarrow> (t, Inl (IntegrityError ''UNIQUE constraint failed''))
        | Some t' \<Rightarrow> (t', Inr ()))\<rparr>"

section \<open>The coordinator\<close>

record ProviderRouteAuditEvent =
  ae_event_type :: string
  ae_manager_id :: string
  ae_connector_id :: string
  ae_owner_execution_id :: string
  ae_reason_code :: "string option"
  ae_payload :: pydict
  ae_created_at :: time

text \<open>The whole state: store, audit trail, the process-local locks (\<^verbatim>\<open>locked()\<close> per key), the state of the
  manager and the surroundings, and the counter of clock readings and identifiers.\<close>

record ('s, 'm) coordinator =
  cd_store :: 's
  cd_audits :: "ProviderRouteAuditEvent list"
  cd_locked :: "lease_key \<Rightarrow> bool"
  cd_manager :: 'm
  cd_ticks :: nat

record world =
  clock :: "nat \<Rightarrow> time"
  fresh :: "nat \<Rightarrow> string"

definition tick :: "('s, 'm) coordinator \<Rightarrow> ('s, 'm) coordinator" where
  "tick cd = cd\<lparr>cd_ticks := Suc (cd_ticks cd)\<rparr>"

definition audit_event ::
  "world \<Rightarrow> string \<Rightarrow> string \<Rightarrow> string \<Rightarrow> string \<Rightarrow> string option \<Rightarrow> pydict
   \<Rightarrow> ('s, 'm) coordinator \<Rightarrow> ProviderRouteAuditEvent \<times> ('s, 'm) coordinator" where
  "audit_event W event_type manager_id connector_id owner code payload cd =
     (let event = \<lparr>ae_event_type = event_type, ae_manager_id = manager_id, ae_connector_id = connector_id,
                   ae_owner_execution_id = owner, ae_reason_code = code, ae_payload = payload,
                   ae_created_at = clock W (cd_ticks cd)\<rparr>
      in (event, tick (cd\<lparr>cd_audits := cd_audits cd @ [event]\<rparr>)))"

text \<open>\<^verbatim>\<open>lock.locked()\<close> and \<^verbatim>\<open>lock.release()\<close>: releasing does not ask who acquired it.\<close>

definition release_local :: "lease_key \<Rightarrow> ('s, 'm) coordinator \<Rightarrow> ('s, 'm) coordinator" where
  "release_local key cd = (if cd_locked cd key then cd\<lparr>cd_locked := (cd_locked cd)(key := False)\<rparr> else cd)"

definition hold_local :: "lease_key \<Rightarrow> ('s, 'm) coordinator \<Rightarrow> ('s, 'm) coordinator" where
  "hold_local key cd = cd\<lparr>cd_locked := (cd_locked cd)(key := True)\<rparr>"

text \<open>Calls of the store and of the manager, threading the state. Identifiers for the call are the
  next generated ones; the counter moves on by three.\<close>

definition store_call ::
  "world \<Rightarrow> (time \<Rightarrow> string \<Rightarrow> string \<Rightarrow> 's \<Rightarrow> 's \<times> 'a result) \<Rightarrow> ('s, 'm) coordinator \<Rightarrow> 'a result \<times> ('s, 'm) coordinator"
  where
  "store_call W f cd =
     (let n = cd_ticks cd; (s, r) = f (clock W n) (fresh W (n + 1)) (fresh W (n + 2)) (cd_store cd)
      in (r, cd\<lparr>cd_store := s, cd_ticks := n + 3\<rparr>))"

definition manager_call ::
  "('m \<Rightarrow> 'a outcome \<times> 'm) \<Rightarrow> ('s, 'm) coordinator \<Rightarrow> 'a outcome \<times> ('s, 'm) coordinator" where
  "manager_call f cd = (let (r, m) = f (cd_manager cd) in (r, cd\<lparr>cd_manager := m\<rparr>))"

section \<open>Restoring a route\<close>

definition ends_with :: "string \<Rightarrow> string \<Rightarrow> bool" where
  "ends_with suffix s \<longleftrightarrow> starts_with (rev suffix) (rev s)"

definition model_matches :: "string option \<Rightarrow> string option \<Rightarrow> bool" where
  "model_matches observed requested =
     (case requested of
        None \<Rightarrow> True
      | Some r \<Rightarrow> (case observed of
            None \<Rightarrow> False
          | Some ob \<Rightarrow> ob = r \<or> ends_with r ob \<or> ends_with ob r))"

definition state_matches :: "ProviderRoute \<Rightarrow> pydict \<Rightarrow> bool" where
  "state_matches route original =
     (if ro_enabled route \<noteq> truthy (dget original ''enabled'') then False
      else if truthy (dget original ''enabled'') then
        (let desired_model = dget original ''model_id''; desired_provider = dget original ''provider_id''
         in if truthy desired_model \<and> \<not> model_matches (ro_model_id route) (Some (py_str desired_model)) then False
            else \<not> (truthy desired_provider \<and> PyStr (ro_provider_id route) \<noteq> desired_provider))
      else True)"

definition route_state :: "string \<Rightarrow> ProviderRoute \<Rightarrow> pydict" where
  "route_state connector_id current =
     sanitise_route_state
       [(''connector_id'', PyStr connector_id), (''provider_id'', PyStr (ro_provider_id current)),
        (''enabled'', PyBool (ro_enabled current)), (''model_id'', opt_str (ro_model_id current)),
        (''configuration_status'', PyStr (ro_configuration_status current)),
        (''available'', PyBool (ro_available current)), (''authenticated'', PyBool (ro_authenticated current))]"

text \<open>The mutation that \<^verbatim>\<open>_restore\<close> asks for, and \<^verbatim>\<open>_restore\<close>. The result is (restored, verified, code,
  message); the handler catches every \<^verbatim>\<open>Exception\<close>, not a cancellation.\<close>

definition restore_mutation ::
  "'m ProviderRouteManager \<Rightarrow> MutationAuthority option \<Rightarrow> string \<Rightarrow> pydict \<Rightarrow> string
   \<Rightarrow> 'm \<Rightarrow> ProviderRouteMutationResult outcome \<times> 'm" where
  "restore_mutation M auth connector_id original nonce =
     (let desired_model = dget original ''model_id'';
          model = (if truthy desired_model then Some (py_str desired_model) else None)
      in if truthy (dget original ''enabled'') then
           mg_enable_route M auth connector_id
             \<lparr>ap_approved = True, ap_action = ''enable'', ap_manager_id = mg_manager_id M,
              ap_connector_id = connector_id, ap_nonce = nonce, ap_model_id = model\<rparr> model
         else
           mg_disable_route M auth connector_id
             \<lparr>ap_approved = True, ap_action = ''disable'', ap_manager_id = mg_manager_id M,
              ap_connector_id = connector_id, ap_nonce = nonce, ap_model_id = None\<rparr>)"

definition restore_failure :: "py_error \<Rightarrow> bool \<times> bool \<times> string option \<times> string" where
  "restore_failure e = (False, False, Some ''restoration_failed'', take 300 (redact_secrets (error_text e)))"

definition restore ::
  "world \<Rightarrow> 'm ProviderRouteManager \<Rightarrow> MutationAuthority option \<Rightarrow> string \<Rightarrow> pydict
   \<Rightarrow> ('s, 'm) coordinator \<Rightarrow> (bool \<times> bool \<times> string option \<times> string) outcome \<times> ('s, 'm) coordinator" where
  "restore W M auth connector_id original cd =
     (case manager_call (restore_mutation M auth connector_id original (fresh W (cd_ticks cd))) (tick cd) of
        (Cancelled, cd1) \<Rightarrow> (Cancelled, cd1)
      | (Raised e, cd1) \<Rightarrow> (Returned (restore_failure e), cd1)
      | (Returned result, cd1) \<Rightarrow>
          if \<not> mr_ok result then
            (Returned (False, False, Some ''restoration_failed'', mr_message result), cd1)
          else
            (case manager_call (mg_verify_route M connector_id) cd1 of
               (Cancelled, cd2) \<Rightarrow> (Cancelled, cd2)
             | (Raised e, cd2) \<Rightarrow> (Returned (restore_failure e), cd2)
             | (Returned route, cd2) \<Rightarrow>
                 (Returned
                    (if state_matches route original then (True, True, None, ''exact original state restored'')
                     else (True, False, Some ''restoration_failed'',
                           ''restored route does not match original sanitised state'')), cd2)))"

section \<open>Recovery of expired leases\<close>

text \<open>Waiting for the process-local lock without a time limit: a free lock is taken at once, otherwise
  \<open>wait\<close> tells what the other tasks do and how the wait ends.\<close>

datatype lock_wait = Acquired | LockTimeout | LockCancelled

definition acquire_local ::
  "(('s, 'm) coordinator \<Rightarrow> lock_wait \<times> ('s, 'm) coordinator) \<Rightarrow> lease_key
   \<Rightarrow> ('s, 'm) coordinator \<Rightarrow> lock_wait \<times> ('s, 'm) coordinator" where
  "acquire_local wait key cd =
     (if \<not> cd_locked cd key then (Acquired, hold_local key cd)
      else case wait cd of
             (Acquired, cd') \<Rightarrow> (Acquired, hold_local key cd')
           | (r, cd') \<Rightarrow> (r, cd'))"

definition recovery_report :: "ProviderRouteLease \<Rightarrow> string \<Rightarrow> bool \<Rightarrow> pydict" where
  "recovery_report lease status verified =
     [(''lease_id'', PyStr (pl_lease_id lease)), (''connector_id'', PyStr (pl_connector_id lease)),
      (''status'', PyStr status), (''verified'', PyBool verified)]"

text \<open>The handler of \<^verbatim>\<open>except Exception\<close> in \<^verbatim>\<open>_recover_one\<close>; a store error of \<open>block_connector\<close> itself
  leaves the handler.\<close>

definition recovery_crashed ::
  "world \<Rightarrow> 's lease_backend \<Rightarrow> ProviderRouteLease \<Rightarrow> py_error \<Rightarrow> ('s, 'm) coordinator
   \<Rightarrow> pydict outcome \<times> ('s, 'm) coordinator" where
  "recovery_crashed W S lease e cd =
     (case store_call W (\<lambda>now i tok s. so_block_connector S s (pl_manager_id lease) (pl_connector_id lease)
                          (take 200 (redact_secrets (error_text e))) now i tok) cd of
        (Inl e', cd1) \<Rightarrow> (Raised e', cd1)
      | (Inr _, cd1) \<Rightarrow>
          (case store_call W (\<lambda>now i tok s. so_mark_recovery S s (pl_lease_id lease) (pl_lease_token lease)
                               ''recovery_failed'' [(''error_type'', PyStr (error_name e))] now) cd1 of
             (Inl (LeaseError code m), cd2) \<Rightarrow> (Returned (recovery_report lease ''recovery_failed'' False), cd2)
           | (Inl e', cd2) \<Rightarrow> (Raised e', cd2)
           | (Inr _, cd2) \<Rightarrow> (Returned (recovery_report lease ''recovery_failed'' False), cd2)))"

text \<open>The body of the \<^verbatim>\<open>try\<close> after the claim.\<close>

definition recover_claimed ::
  "world \<Rightarrow> 's lease_backend \<Rightarrow> 'm ProviderRouteManager \<Rightarrow> ProviderRouteLease \<Rightarrow> string \<Rightarrow> pydict
   \<Rightarrow> ('s, 'm) coordinator \<Rightarrow> pydict outcome \<times> ('s, 'm) coordinator" where
  "recover_claimed W S M claimed recovery_owner original cd =
     (let auth = mutation_authority (fresh W (cd_ticks cd)) (pl_manager_id claimed) (pl_connector_id claimed)
                   ''recovery'' (pl_lease_id claimed)
      in case restore W M (Some auth) (pl_connector_id claimed) original (tick cd) of
           (Cancelled, cd1) \<Rightarrow> (Cancelled, cd1)
         | (Raised e, cd1) \<Rightarrow> (Raised e, cd1)
         | (Returned (restored, verified, code, msg), cd1) \<Rightarrow>
             (let status = (if restored \<and> verified then ''restored_verified'' else ''recovery_failed'')
              in case store_call W (\<lambda>now i tok s. so_mark_recovery S s (pl_lease_id claimed) (pl_lease_token claimed)
                        status [(''message'', PyStr msg), (''code'', opt_str code),
                                (''recovery_owner_id'', PyStr recovery_owner)] now) cd1 of
                   (Inl e, cd2) \<Rightarrow> (Raised e, cd2)
                 | (Inr _, cd2) \<Rightarrow>
                     (case (if status = ''recovery_failed'' then
                              store_call W (\<lambda>now i tok s. so_block_connector S s (pl_manager_id claimed)
                                (pl_connector_id claimed)
                                (if msg \<noteq> [] then msg else if opt_truthy code then the code else ''recovery_failed'')
                                now i tok) cd2
                            else (Inr (), cd2)) of
                        (Inl e, cd3) \<Rightarrow> (Raised e, cd3)
                      | (Inr _, cd3) \<Rightarrow>
                          (let (_, cd4) = audit_event W ''provider_route.crash_recovery'' (pl_manager_id claimed)
                                 (pl_connector_id claimed) (pl_owner_execution_id claimed) (Some status)
                                 [(''verified'', PyBool verified)] cd3
                           in (Returned (recovery_report claimed status verified), cd4)))))"

definition recover_one ::
  "world \<Rightarrow> (('s, 'm) coordinator \<Rightarrow> lock_wait \<times> ('s, 'm) coordinator) \<Rightarrow> 's lease_backend \<Rightarrow> 'm ProviderRouteManager
   \<Rightarrow> ProviderRouteLease \<Rightarrow> ('s, 'm) coordinator \<Rightarrow> pydict outcome \<times> ('s, 'm) coordinator" where
  "recover_one W wait S M lease cd =
     (let recovery_owner = ''recovery:'' @ fresh W (cd_ticks cd); key = lease_key lease
      in case store_call W (\<lambda>now i tok s. so_claim_recovery S s (pl_lease_id lease) (pl_lease_token lease)
                              recovery_owner now) (tick cd) of
           (Inl (LeaseError code m), cd1) \<Rightarrow>
             if code = ''recovery_claimed'' then (Returned (recovery_report lease ''recovery_in_progress'' False), cd1)
             else (Raised (LeaseError code m), cd1)
         | (Inl e, cd1) \<Rightarrow> (Raised e, cd1)
         | (Inr claimed, cd1) \<Rightarrow>
             (case acquire_local wait key cd1 of
                (Acquired, cd2) \<Rightarrow>
                  (case recover_claimed W S M claimed recovery_owner (pl_original_state lease) cd2 of
                     (Raised e, cd3) \<Rightarrow>
                       (let (r, cd4) = recovery_crashed W S lease e cd3 in (r, release_local key cd4))
                   | (r, cd3) \<Rightarrow> (r, release_local key cd3))
              | (_, cd2) \<Rightarrow> (Cancelled, cd2)))"

fun recover_loop ::
  "world \<Rightarrow> (('s, 'm) coordinator \<Rightarrow> lock_wait \<times> ('s, 'm) coordinator) \<Rightarrow> 's lease_backend \<Rightarrow> 'm ProviderRouteManager
   \<Rightarrow> string list option \<Rightarrow> ProviderRouteLease list \<Rightarrow> pydict list \<Rightarrow> ('s, 'm) coordinator
   \<Rightarrow> pydict list outcome \<times> ('s, 'm) coordinator" where
  "recover_loop W wait S M connector_ids [] reports cd = (Returned reports, cd)"
| "recover_loop W wait S M connector_ids (lease # leases) reports cd =
     (if (case connector_ids of None \<Rightarrow> False | Some ids \<Rightarrow> pl_connector_id lease \<notin> set ids) then
        recover_loop W wait S M connector_ids leases reports cd
      else if pl_manager_id lease \<noteq> mg_manager_id M then
        recover_loop W wait S M connector_ids leases reports cd
      else if dget (pl_details lease) ''restore_on_expiry'' = PyBool False then
        (case store_call W (\<lambda>now i tok s. so_mark_recovery S s (pl_lease_id lease) (pl_lease_token lease)
                ''expired_no_restore'' [(''reason'', PyStr ''cli_mutation'')] now) cd of
           (Inl e, cd1) \<Rightarrow> (Raised e, cd1)
         | (Inr _, cd1) \<Rightarrow>
             recover_loop W wait S M connector_ids leases
               (reports @ [recovery_report lease ''expired_no_restore'' True]) cd1)
      else
        (case recover_one W wait S M lease cd of
           (Returned report, cd1) \<Rightarrow> recover_loop W wait S M connector_ids leases (reports @ [report]) cd1
         | (Raised e, cd1) \<Rightarrow> (Raised e, cd1)
         | (Cancelled, cd1) \<Rightarrow> (Cancelled, cd1)))"

definition recover_expired_leases ::
  "world \<Rightarrow> (('s, 'm) coordinator \<Rightarrow> lock_wait \<times> ('s, 'm) coordinator) \<Rightarrow> 's lease_backend \<Rightarrow> 'm ProviderRouteManager
   \<Rightarrow> string list option \<Rightarrow> ('s, 'm) coordinator \<Rightarrow> pydict list outcome \<times> ('s, 'm) coordinator" where
  "recover_expired_leases W wait S M connector_ids cd =
     recover_loop W wait S M connector_ids (so_list_expired S (cd_store cd) (clock W (cd_ticks cd))) [] (tick cd)"

section \<open>Acquiring the lease\<close>

text \<open>The polling loop. \<open>loop_time\<close> and \<open>nap\<close> are the readings of the event loop's clock and the effect
  and end of the sleeps, by round; \<open>fuel\<close> bounds the rounds, and \<open>Polling\<close> means that it is used up.\<close>

datatype lease_wait = Got ProviderRouteLease | Expired | Interrupted | Failed py_error | Polling

fun poll_lease ::
  "nat \<Rightarrow> nat \<Rightarrow> (nat \<Rightarrow> time) \<Rightarrow> (nat \<Rightarrow> ('s, 'm) coordinator \<Rightarrow> bool \<times> ('s, 'm) coordinator) \<Rightarrow> time
   \<Rightarrow> (('s, 'm) coordinator \<Rightarrow> ProviderRouteLease option result \<times> ('s, 'm) coordinator) \<Rightarrow> bool
   \<Rightarrow> ('s, 'm) coordinator \<Rightarrow> lease_wait \<times> bool \<times> ('s, 'm) coordinator" where
  "poll_lease 0 k loop_time nap deadline try waited cd = (Polling, waited, cd)"
| "poll_lease (Suc fuel) k loop_time nap deadline try waited cd =
     (case try cd of
        (Inl e, cd1) \<Rightarrow> (Failed e, waited, cd1)
      | (Inr (Some lease), cd1) \<Rightarrow> (Got lease, waited, cd1)
      | (Inr None, cd1) \<Rightarrow>
          if loop_time k \<ge> deadline then (Expired, True, cd1)
          else case nap k cd1 of
                 (True, cd2) \<Rightarrow> (Interrupted, True, cd2)
               | (False, cd2) \<Rightarrow> poll_lease fuel (Suc k) loop_time nap deadline try True cd2)"

definition try_acquire ::
  "world \<Rightarrow> 's lease_backend \<Rightarrow> string \<Rightarrow> string \<Rightarrow> string \<Rightarrow> int \<Rightarrow> pydict \<Rightarrow> string option \<Rightarrow> string option \<Rightarrow> pydict
   \<Rightarrow> ('s, 'm) coordinator \<Rightarrow> ProviderRouteLease option result \<times> ('s, 'm) coordinator" where
  "try_acquire W S manager_id connector_id owner ttl original target_provider target_model details cd =
     store_call W (\<lambda>now i tok s. so_try_acquire S s
       (new_lease manager_id connector_id owner ttl original target_provider target_model details i tok now)) cd"

section \<open>The lifecycle\<close>

record 'r ProviderRouteLifecycleResult =
  lr_ok :: bool
  lr_lease :: "ProviderRouteLease option"
  lr_original_state :: pydict
  lr_restored :: bool
  lr_restoration_verified :: bool
  lr_execution_result :: "'r option"
  lr_reason_code :: "string option"
  lr_message :: string
  lr_audits :: "ProviderRouteAuditEvent list"

text \<open>The local variables of \<^verbatim>\<open>run_lifecycle\<close> that its stages write.\<close>

record 'r lifecycle =
  lf_audits :: "ProviderRouteAuditEvent list"
  lf_ok :: bool
  lf_restored :: bool
  lf_verified :: bool
  lf_reason :: "string option"
  lf_message :: string
  lf_result :: "'r option"

definition init_lifecycle :: "'r lifecycle" where
  "init_lifecycle =
     \<lparr>lf_audits = [], lf_ok = False, lf_restored = False, lf_verified = False, lf_reason = None,
      lf_message = [], lf_result = None\<rparr>"

definition log_event ::
  "world \<Rightarrow> string \<Rightarrow> lease_key \<Rightarrow> string \<Rightarrow> string option \<Rightarrow> pydict
   \<Rightarrow> 'r lifecycle \<times> ('s, 'm) coordinator \<Rightarrow> 'r lifecycle \<times> ('s, 'm) coordinator" where
  "log_event W event_type key owner code payload st =
     (let (event, cd) = audit_event W event_type (fst key) (snd key) owner code payload (snd st)
      in ((fst st)\<lparr>lf_audits := lf_audits (fst st) @ [event]\<rparr>, cd))"

definition need_enable :: "ProviderRoute \<Rightarrow> string \<Rightarrow> string option \<Rightarrow> bool" where
  "need_enable current target_provider_id model_id =
     (\<not> (ro_enabled current \<and> ro_provider_id current = target_provider_id
         \<and> (model_id = None \<or> ro_model_id current = model_id \<or> model_matches (ro_model_id current) model_id)))"

definition enable_failure_code :: "ProviderRouteMutationResult \<Rightarrow> string" where
  "enable_failure_code result =
     (if mr_reason_code result = Some ''configuration_invalid'' then ''provider_status_verification_failed''
      else if opt_truthy (mr_reason_code result) then the (mr_reason_code result)
      else ''provider_enable_failed'')"

definition enable_stage ::
  "world \<Rightarrow> 'm ProviderRouteManager \<Rightarrow> MutationAuthority option \<Rightarrow> lease_key \<Rightarrow> string
   \<Rightarrow> ProviderRouteMutationApproval \<Rightarrow> string option \<Rightarrow> string \<Rightarrow> ProviderRoute
   \<Rightarrow> 'r lifecycle \<times> ('s, 'm) coordinator \<Rightarrow> unit outcome \<times> 'r lifecycle \<times> ('s, 'm) coordinator" where
  "enable_stage W M auth key owner approval model_id target_provider_id current st =
     (if \<not> need_enable current target_provider_id model_id then
        (Returned (), log_event W ''provider_route.already_enabled'' key owner None
           [(''model_id'', opt_str (ro_model_id current))] st)
      else case manager_call (mg_enable_route M auth (snd key) approval model_id) (snd st) of
        (Raised e, cd1) \<Rightarrow> (Raised e, fst st, cd1)
      | (Cancelled, cd1) \<Rightarrow> (Cancelled, fst st, cd1)
      | (Returned result, cd1) \<Rightarrow>
          if \<not> mr_ok result then
            (let code = enable_failure_code result
             in (Returned (), log_event W
                   (if code \<noteq> ''provider_status_verification_failed'' then ''provider_route.enable_failed''
                    else ''provider_route.verify_failed'') key owner (Some code)
                   [(''message'', PyStr (take 300 (redact_secrets (mr_message result))))]
                   ((fst st)\<lparr>lf_reason := Some code, lf_message := mr_message result\<rparr>, cd1)))
          else
            (case manager_call (mg_verify_route M (snd key)) cd1 of
               (Raised e, cd2) \<Rightarrow> (Raised e, fst st, cd2)
             | (Cancelled, cd2) \<Rightarrow> (Cancelled, fst st, cd2)
             | (Returned verified, cd2) \<Rightarrow>
                 if \<not> ro_enabled verified then
                   (Returned (), log_event W ''provider_route.verify_failed'' key owner
                      (Some ''provider_status_verification_failed'') []
                      ((fst st)\<lparr>lf_reason := Some ''provider_status_verification_failed'',
                                lf_message := ''route enable did not verify as enabled''\<rparr>, cd2))
                 else
                   (Returned (), log_event W ''provider_route.enabled'' key owner None
                      [(''model_id'', opt_str (ro_model_id verified))] (fst st, cd2))))"

text \<open>The inner \<^verbatim>\<open>try\<close>: renewal and execution, with its three handlers.\<close>

definition execution_failed ::
  "world \<Rightarrow> lease_key \<Rightarrow> string \<Rightarrow> py_error \<Rightarrow> 'r lifecycle \<times> ('s, 'm) coordinator
   \<Rightarrow> unit outcome \<times> 'r lifecycle \<times> ('s, 'm) coordinator" where
  "execution_failed W key owner e st =
     (Returned (),
      case e of
        TimeoutError m \<Rightarrow>
          log_event W ''provider_route.execution_timeout'' key owner (Some ''holder_timeout'') []
            ((fst st)\<lparr>lf_reason := Some ''holder_timeout'',
                      lf_message := ''execution timed out while holding provider-route lease''\<rparr>, snd st)
      | _ \<Rightarrow>
          log_event W ''provider_route.execution_failed'' key owner (Some ''holder_execution_failed'')
            [(''error_type'', PyStr (error_name e))]
            ((fst st)\<lparr>lf_reason := Some ''holder_execution_failed'',
                      lf_message := take 300 (redact_secrets (error_text e))\<rparr>, snd st))"

definition execute_stage ::
  "world \<Rightarrow> 's lease_backend \<Rightarrow> ('m \<Rightarrow> 'r outcome \<times> 'm) \<Rightarrow> ProviderRouteLease \<Rightarrow> lease_key \<Rightarrow> string \<Rightarrow> int
   \<Rightarrow> 'r lifecycle \<times> ('s, 'm) coordinator \<Rightarrow> unit outcome \<times> 'r lifecycle \<times> ('s, 'm) coordinator" where
  "execute_stage W S execute lease key owner ttl st =
     (if lf_reason (fst st) \<noteq> None then (Returned (), st)
      else case store_call W (\<lambda>now i tok s. so_renew S s (pl_lease_id lease) (pl_lease_token lease) owner ttl now) (snd st) of
        (Inl e, cd1) \<Rightarrow> execution_failed W key owner e (fst st, cd1)
      | (Inr _, cd1) \<Rightarrow>
          (case manager_call execute cd1 of
             (Returned r, cd2) \<Rightarrow>
               (Returned (), log_event W ''provider_route.execution_completed'' key owner None []
                  ((fst st)\<lparr>lf_result := Some r, lf_ok := True, lf_message := ''lifecycle completed''\<rparr>, cd2))
           | (Cancelled, cd2) \<Rightarrow>
               (Cancelled, log_event W ''provider_route.execution_cancelled'' key owner (Some ''holder_cancelled'') []
                  ((fst st)\<lparr>lf_reason := Some ''holder_cancelled'',
                            lf_message := ''execution cancelled while holding provider-route lease''\<rparr>, cd2))
           | (Raised e, cd2) \<Rightarrow> execution_failed W key owner e (fst st, cd2)))"

text \<open>\<^verbatim>\<open>_cleanup\<close>: restore the original state, then, in its \<^verbatim>\<open>finally\<close>, release the lease.\<close>

definition note_restored ::
  "world \<Rightarrow> lease_key \<Rightarrow> string \<Rightarrow> bool \<times> bool \<times> string option \<times> string
   \<Rightarrow> 'r lifecycle \<times> ('s, 'm) coordinator \<Rightarrow> 'r lifecycle \<times> ('s, 'm) coordinator" where
  "note_restored W key owner res st =
     (let (restored, verified, code, msg) = res;
          lf = fst st;
          lf1 = lf\<lparr>lf_restored := restored, lf_verified := verified,
                   lf_reason := (if opt_truthy code \<and> lf_reason lf = None \<and> \<not> lf_ok lf then code else lf_reason lf),
                   lf_message := (if msg \<noteq> [] \<and> lf_message lf = [] then msg else lf_message lf)\<rparr>
      in log_event W (if restored \<and> verified then ''provider_route.restored'' else ''provider_route.restore_failed'')
           key owner
           (if restored \<and> verified then None else if opt_truthy code then code else Some ''restoration_failed'')
           [(''restored'', PyBool restored), (''verified'', PyBool verified)] (lf1, snd st))"

definition release_stage ::
  "world \<Rightarrow> 's lease_backend \<Rightarrow> ProviderRouteLease \<Rightarrow> lease_key \<Rightarrow> string
   \<Rightarrow> 'r lifecycle \<times> ('s, 'm) coordinator \<Rightarrow> unit outcome \<times> 'r lifecycle \<times> ('s, 'm) coordinator" where
  "release_stage W S lease key owner st =
     (case store_call W (\<lambda>now i tok s. so_release S s (pl_lease_id lease) (pl_lease_token lease) owner now) (snd st) of
        (Inr _, cd1) \<Rightarrow>
          (Returned (), log_event W ''provider_route.lease_released'' key owner None
             [(''lease_id'', PyStr (pl_lease_id lease))] (fst st, cd1))
      | (Inl (LeaseError code m), cd1) \<Rightarrow>
          (Returned (), log_event W ''provider_route.lease_release_failed'' key owner (Some code)
             [(''message'', PyStr m)] (fst st, cd1))
      | (Inl e, cd1) \<Rightarrow> (Raised e, fst st, cd1))"

definition cleanup_stage ::
  "world \<Rightarrow> 's lease_backend \<Rightarrow> 'm ProviderRouteManager \<Rightarrow> MutationAuthority option \<Rightarrow> ProviderRouteLease
   \<Rightarrow> lease_key \<Rightarrow> string \<Rightarrow> pydict
   \<Rightarrow> 'r lifecycle \<times> ('s, 'm) coordinator \<Rightarrow> unit outcome \<times> 'r lifecycle \<times> ('s, 'm) coordinator" where
  "cleanup_stage W S M auth lease key owner original st =
     (case restore W M auth (snd key) original (snd st) of
        (Returned res, cd1) \<Rightarrow> release_stage W S lease key owner (note_restored W key owner res (fst st, cd1))
      | (Raised e, cd1) \<Rightarrow>
          (case release_stage W S lease key owner (fst st, cd1) of
             (Returned _, st2) \<Rightarrow> (Raised e, st2) | (r, st2) \<Rightarrow> (r, st2))
      | (Cancelled, cd1) \<Rightarrow>
          (case release_stage W S lease key owner (fst st, cd1) of
             (Returned _, st2) \<Rightarrow> (Cancelled, st2) | (r, st2) \<Rightarrow> (r, st2)))"

text \<open>The block under \<^verbatim>\<open>with mutation_authority(...)\<close>: the cleanup runs however the body ended, and an
  exception of the cleanup replaces that of the body.\<close>

definition authorised_block ::
  "world \<Rightarrow> 's lease_backend \<Rightarrow> 'm ProviderRouteManager \<Rightarrow> ('m \<Rightarrow> 'r outcome \<times> 'm) \<Rightarrow> ProviderRouteLease \<Rightarrow> lease_key
   \<Rightarrow> string \<Rightarrow> ProviderRouteMutationApproval \<Rightarrow> string option \<Rightarrow> string \<Rightarrow> int \<Rightarrow> ProviderRoute \<Rightarrow> pydict
   \<Rightarrow> 'r lifecycle \<times> ('s, 'm) coordinator \<Rightarrow> unit outcome \<times> 'r lifecycle \<times> ('s, 'm) coordinator" where
  "authorised_block W S M execute lease key owner approval model_id target ttl current original st =
     (let auth = Some (mutation_authority (fresh W (cd_ticks (snd st))) (fst key) (snd key) ''lifecycle'' (pl_lease_id lease));
          (r1, st1) = enable_stage W M auth key owner approval model_id target current (fst st, tick (snd st));
          (r2, st2) = (case r1 of
                         Returned _ \<Rightarrow> execute_stage W S execute lease key owner ttl st1
                       | _ \<Rightarrow> (r1, st1));
          (r3, st3) = cleanup_stage W S M auth lease key owner original st2
      in (case r3 of Returned _ \<Rightarrow> r2 | _ \<Rightarrow> r3, st3))"

text \<open>Results that end a lifecycle early, and the final result.\<close>

definition early_result ::
  "pydict \<Rightarrow> string \<Rightarrow> string \<Rightarrow> ProviderRouteAuditEvent list \<Rightarrow> 'r ProviderRouteLifecycleResult" where
  "early_result original code msg audits =
     \<lparr>lr_ok = False, lr_lease = None, lr_original_state = original, lr_restored = False,
      lr_restoration_verified = False, lr_execution_result = None, lr_reason_code = Some code,
      lr_message = msg, lr_audits = audits\<rparr>"

definition final_result :: "ProviderRouteLease \<Rightarrow> pydict \<Rightarrow> 'r lifecycle \<Rightarrow> 'r ProviderRouteLifecycleResult" where
  "final_result lease original lf =
     (let unrestored = lf_ok lf \<and> \<not> lf_verified lf
      in \<lparr>lr_ok = (\<not> unrestored \<and> lf_ok lf \<and> lf_verified lf), lr_lease = Some lease, lr_original_state = original,
          lr_restored = lf_restored lf, lr_restoration_verified = lf_verified lf, lr_execution_result = lf_result lf,
          lr_reason_code = (if unrestored \<and> \<not> opt_truthy (lf_reason lf) then Some ''restoration_failed'' else lf_reason lf),
          lr_message = (if unrestored \<and> lf_message lf = [] then ''execution succeeded but restoration failed''
                        else lf_message lf),
          lr_audits = lf_audits lf\<rparr>)"

text \<open>What the tasks around a run do, and the arguments of a run.\<close>

record ('s, 'm) surroundings =
  su_world :: world
  su_wait :: "('s, 'm) coordinator \<Rightarrow> lock_wait \<times> ('s, 'm) coordinator"
  su_nap :: "nat \<Rightarrow> ('s, 'm) coordinator \<Rightarrow> bool \<times> ('s, 'm) coordinator"
  su_loop_time :: "nat \<Rightarrow> time"

record lifecycle_request =
  lq_connector_id :: string
  lq_approval :: ProviderRouteMutationApproval
  lq_owner_execution_id :: "string option"
  lq_model_id :: "string option"
  lq_target_provider_id :: string
  lq_acquire_timeout :: int
  lq_lease_ttl :: int

definition owner_of :: "world \<Rightarrow> string option \<Rightarrow> ('s, 'm) coordinator \<Rightarrow> string" where
  "owner_of W owner cd = (if opt_truthy owner then the owner else fresh W (cd_ticks cd))"

text \<open>From the acquired lease to the result.\<close>

definition leased_run ::
  "world \<Rightarrow> 's lease_backend \<Rightarrow> 'm ProviderRouteManager \<Rightarrow> ('m \<Rightarrow> 'r outcome \<times> 'm) \<Rightarrow> lifecycle_request \<Rightarrow> string
   \<Rightarrow> ProviderRoute \<Rightarrow> pydict \<Rightarrow> ProviderRouteLease \<Rightarrow> bool \<Rightarrow> ('s, 'm) coordinator
   \<Rightarrow> 'r ProviderRouteLifecycleResult outcome \<times> ('s, 'm) coordinator" where
  "leased_run W S M execute rq owner current original lease waited cd =
     (let key = (mg_manager_id M, lq_connector_id rq);
          st1 = log_event W ''provider_route.lease_acquired'' key owner None
                  [(''lease_id'', PyStr (pl_lease_id lease)), (''waited'', PyBool waited),
                   (''original_enabled'', dget original ''enabled'')] (init_lifecycle, cd);
          (r, st2) = authorised_block W S M execute lease key owner (lq_approval rq) (lq_model_id rq)
                       (lq_target_provider_id rq) (lq_lease_ttl rq) current original st1;
          cd3 = release_local key (snd st2)
      in case r of
           Raised e \<Rightarrow> (Raised e, cd3)
         | Cancelled \<Rightarrow> (Cancelled, cd3)
         | Returned _ \<Rightarrow>
             (Returned (final_result lease original (fst st2)),
              cd3\<lparr>cd_audits := cd_audits cd3 @ lf_audits (fst st2)\<rparr>))"

text \<open>With the process-local lock held. Every way out passes the outer \<^verbatim>\<open>finally\<close>.\<close>

definition locked_run ::
  "nat \<Rightarrow> ('s, 'm) surroundings \<Rightarrow> 's lease_backend \<Rightarrow> 'm ProviderRouteManager \<Rightarrow> ('m \<Rightarrow> 'r outcome \<times> 'm) \<Rightarrow> lifecycle_request
   \<Rightarrow> string \<Rightarrow> ('s, 'm) coordinator \<Rightarrow> 'r ProviderRouteLifecycleResult outcome option \<times> ('s, 'm) coordinator" where
  "locked_run fuel U S M execute rq owner cd =
     (let W = su_world U; key = (mg_manager_id M, lq_connector_id rq);
          deadline = su_loop_time U 0 + lq_acquire_timeout rq
      in case manager_call (mg_inspect_route M (lq_connector_id rq)) cd of
           (Raised e, cd1) \<Rightarrow> (Some (Raised e), release_local key cd1)
         | (Cancelled, cd1) \<Rightarrow> (Some Cancelled, release_local key cd1)
         | (Returned current, cd1) \<Rightarrow>
             (let original = route_state (lq_connector_id rq) current
              in case poll_lease fuel 1 (su_loop_time U) (su_nap U) deadline
                        (try_acquire W S (mg_manager_id M) (lq_connector_id rq) owner (lq_lease_ttl rq) original
                           (Some (lq_target_provider_id rq)) (lq_model_id rq) [(''phase'', PyStr ''acquired'')])
                        False cd1 of
                   (Got lease, waited, cd2) \<Rightarrow>
                     map_prod Some id (leased_run W S M execute rq owner current original lease waited cd2)
                 | (Expired, _, cd2) \<Rightarrow>
                     (let (event, cd3) = audit_event W ''provider_route.lease_timeout'' (fst key) (snd key) owner
                                           (Some ''lock_acquisition_timeout'') [] cd2
                      in (Some (Returned (early_result original ''lock_acquisition_timeout''
                                 ''timed out waiting for provider-route lease'' [event])), release_local key cd3))
                 | (Interrupted, _, cd2) \<Rightarrow> (Some Cancelled, release_local key cd2)
                 | (Failed e, _, cd2) \<Rightarrow> (Some (Raised e), release_local key cd2)
                 | (Polling, _, cd2) \<Rightarrow> (None, cd2)))"

definition run_lifecycle ::
  "nat \<Rightarrow> ('s, 'm) surroundings \<Rightarrow> 's lease_backend \<Rightarrow> 'm ProviderRouteManager \<Rightarrow> ('m \<Rightarrow> 'r outcome \<times> 'm) \<Rightarrow> lifecycle_request
   \<Rightarrow> ('s, 'm) coordinator \<Rightarrow> 'r ProviderRouteLifecycleResult outcome option \<times> ('s, 'm) coordinator" where
  "run_lifecycle fuel U S M execute rq cd =
     (let W = su_world U; manager_id = mg_manager_id M; connector_id = lq_connector_id rq;
          key = (manager_id, connector_id); owner = owner_of W (lq_owner_execution_id rq) cd; cd0 = tick cd;
          blocked = so_is_blocked S (cd_store cd0) manager_id connector_id
      in if opt_truthy blocked then
           (let (event, cd1) = audit_event W ''provider_route.mutation_blocked'' manager_id connector_id owner
                                 (Some ''recovery_failed'') [(''detail'', PyStr (the blocked))] cd0
            in (Some (Returned (early_result [] ''recovery_failed''
                       (''provider-route mutations blocked: '' @ the blocked) [event])), cd1))
         else case recover_expired_leases W (su_wait U) S M (Some [connector_id]) cd0 of
           (Raised e, cd1) \<Rightarrow> (Some (Raised e), cd1)
         | (Cancelled, cd1) \<Rightarrow> (Some Cancelled, cd1)
         | (Returned _, cd1) \<Rightarrow>
             (case acquire_local (su_wait U) key cd1 of
                (Acquired, cd2) \<Rightarrow> locked_run fuel U S M execute rq owner cd2
              | (LockTimeout, cd2) \<Rightarrow>
                  (let (event, cd3) = audit_event W ''provider_route.lock_timeout'' manager_id connector_id owner
                                        (Some ''lock_acquisition_timeout'') [] cd2
                   in (Some (Returned (early_result [] ''lock_acquisition_timeout''
                              ''timed out waiting for process-local provider-route lock'' [event])),
                       release_local key cd3))
              | (LockCancelled, cd2) \<Rightarrow>
                  (let (event, cd3) = audit_event W ''provider_route.lock_wait_cancelled'' manager_id connector_id owner
                                        (Some ''lock_wait_cancelled'') [] cd2
                   in (Some Cancelled, release_local key cd3))))"

section \<open>One-shot mutations\<close>

definition release_quietly ::
  "world \<Rightarrow> 's lease_backend \<Rightarrow> ProviderRouteLease \<Rightarrow> string \<Rightarrow> 'a outcome \<Rightarrow> ('s, 'm) coordinator
   \<Rightarrow> 'a outcome \<times> ('s, 'm) coordinator" where
  "release_quietly W S lease owner r cd =
     (case store_call W (\<lambda>now i tok s. so_release S s (pl_lease_id lease) (pl_lease_token lease) owner now) cd of
        (Inr _, cd1) \<Rightarrow> (r, cd1)
      | (Inl (LeaseError code m), cd1) \<Rightarrow> (r, cd1)
      | (Inl e, cd1) \<Rightarrow> (Raised e, cd1))"

definition run_serialised_mutation ::
  "nat \<Rightarrow> ('s, 'm) surroundings \<Rightarrow> 's lease_backend \<Rightarrow> 'm ProviderRouteManager
   \<Rightarrow> (MutationAuthority option \<Rightarrow> 'm \<Rightarrow> 'r outcome \<times> 'm) \<Rightarrow> string \<Rightarrow> string option \<Rightarrow> int \<Rightarrow> int
   \<Rightarrow> ('s, 'm) coordinator \<Rightarrow> 'r outcome option \<times> ('s, 'm) coordinator" where
  "run_serialised_mutation fuel U S M mutate connector_id owner_id timeout ttl cd =
     (let W = su_world U; manager_id = mg_manager_id M; key = (manager_id, connector_id);
          owner = owner_of W owner_id cd; cd0 = tick cd;
          blocked = so_is_blocked S (cd_store cd0) manager_id connector_id
      in if opt_truthy blocked then
           (Some (Raised (LeaseError ''recovery_failed'' (''mutations blocked: '' @ the blocked))), cd0)
         else case recover_expired_leases W (su_wait U) S M (Some [connector_id]) cd0 of
           (Raised e, cd1) \<Rightarrow> (Some (Raised e), cd1)
         | (Cancelled, cd1) \<Rightarrow> (Some Cancelled, cd1)
         | (Returned _, cd1) \<Rightarrow>
             (case acquire_local (su_wait U) key cd1 of
                (LockTimeout, cd2) \<Rightarrow> (Some (Raised (TimeoutError [])), cd2)
              | (LockCancelled, cd2) \<Rightarrow> (Some Cancelled, cd2)
              | (Acquired, cd2) \<Rightarrow>
                  (case manager_call (mg_inspect_route M connector_id) cd2 of
                     (Raised e, cd3) \<Rightarrow> (Some (Raised e), release_local key cd3)
                   | (Cancelled, cd3) \<Rightarrow> (Some Cancelled, release_local key cd3)
                   | (Returned current, cd3) \<Rightarrow>
                       (case poll_lease fuel 1 (su_loop_time U) (su_nap U) (su_loop_time U 0 + timeout)
                               (try_acquire W S manager_id connector_id owner ttl (route_state connector_id current) None None
                                  [(''restore_on_expiry'', PyBool False), (''phase'', PyStr ''cli_mutation'')])
                               False cd3 of
                          (Got lease, _, cd4) \<Rightarrow>
                            (let (_, cd5) = audit_event W ''provider_route.cli_mutation_acquired'' manager_id connector_id
                                   owner None [(''lease_id'', PyStr (pl_lease_id lease))] cd4;
                                 auth = Some (mutation_authority (fresh W (cd_ticks cd5)) manager_id connector_id
                                                ''serialised'' (pl_lease_id lease));
                                 (r, cd6) = manager_call (mutate auth) (tick cd5);
                                 (r', cd7) = release_quietly W S lease owner r cd6
                             in (Some r', release_local key cd7))
                        | (Expired, _, cd4) \<Rightarrow>
                            (Some (Raised (LeaseError ''lock_acquisition_timeout''
                                             ''timed out waiting for provider-route lease'')), release_local key cd4)
                        | (Interrupted, _, cd4) \<Rightarrow> (Some Cancelled, release_local key cd4)
                        | (Failed e, _, cd4) \<Rightarrow> (Some (Raised e), release_local key cd4)
                        | (Polling, _, cd4) \<Rightarrow> (None, cd4)))))"

section \<open>Lemmas: what the stages leave alone\<close>

named_theorems stage_simps \<open>components that a stage does not write\<close>

lemma tick_fields [stage_simps]:
  "cd_store (tick cd) = cd_store cd" "cd_manager (tick cd) = cd_manager cd" "cd_locked (tick cd) = cd_locked cd"
  "cd_audits (tick cd) = cd_audits cd"
  by (simp_all add: tick_def)

lemma log_event_fields [stage_simps]:
  "cd_store (snd (log_event W ty key owner c pl st)) = cd_store (snd st)"
  "cd_manager (snd (log_event W ty key owner c pl st)) = cd_manager (snd st)"
  "cd_locked (snd (log_event W ty key owner c pl st)) = cd_locked (snd st)"
  "lf_ok (fst (log_event W ty key owner c pl st)) = lf_ok (fst st)"
  "lf_reason (fst (log_event W ty key owner c pl st)) = lf_reason (fst st)"
  "lf_result (fst (log_event W ty key owner c pl st)) = lf_result (fst st)"
  "lf_restored (fst (log_event W ty key owner c pl st)) = lf_restored (fst st)"
  "lf_verified (fst (log_event W ty key owner c pl st)) = lf_verified (fst st)"
  by (simp_all add: log_event_def audit_event_def tick_def Let_def case_prod_beta)

lemma manager_call_store [stage_simps]:
  "cd_store (snd (manager_call f cd)) = cd_store cd" "cd_locked (snd (manager_call f cd)) = cd_locked cd"
  by (simp_all add: manager_call_def case_prod_beta Let_def)

lemma manager_call_eq:
  "manager_call f cd = (r, cd') \<Longrightarrow> cd_store cd' = cd_store cd \<and> cd_locked cd' = cd_locked cd"
  by (metis manager_call_store snd_conv)

lemma release_local_fields [stage_simps]:
  "cd_store (release_local key cd) = cd_store cd" "cd_manager (release_local key cd) = cd_manager cd"
  "\<not> cd_locked (release_local key cd) key"
  by (simp_all add: release_local_def)

lemma restore_store:
  "restore W M auth c original cd = (r, cd') \<Longrightarrow> cd_store cd' = cd_store cd \<and> cd_locked cd' = cd_locked cd"
  unfolding restore_def
  by (auto simp: stage_simps dest!: manager_call_eq split: prod.splits outcome.splits if_splits)

lemma enable_stage_store:
  "enable_stage W M auth key owner ap mid target cur st = (r, st') \<Longrightarrow> cd_store (snd st') = cd_store (snd st)"
  unfolding enable_stage_def
  by (auto simp: stage_simps Let_def dest!: manager_call_eq split: prod.splits outcome.splits if_splits)

lemma execution_failed_store [stage_simps]:
  "cd_store (snd (snd (execution_failed W key owner e st))) = cd_store (snd st)"
  by (cases e) (simp_all add: execution_failed_def stage_simps)

lemma store_call_store:
  "store_call W f cd = (r, cd') \<Longrightarrow> \<exists>now i tok. (cd_store cd', r) = f now i tok (cd_store cd) \<and> cd_manager cd' = cd_manager cd
     \<and> cd_locked cd' = cd_locked cd \<and> cd_audits cd' = cd_audits cd"
  by (auto simp: store_call_def Let_def case_prod_beta) blast

lemma execute_stage_store:
  assumes "execute_stage W S execute lease key owner ttl st = (r, st')"
  shows "\<exists>now. cd_store (snd st') = (if lf_reason (fst st) \<noteq> None then cd_store (snd st)
     else fst (so_renew S (cd_store (snd st)) (pl_lease_id lease) (pl_lease_token lease) owner ttl now))"
proof (cases "lf_reason (fst st) \<noteq> None")
  case True
  then show ?thesis
    using assms by (auto simp: execute_stage_def)
next
  case False
  let ?f = "\<lambda>now i tok s. so_renew S s (pl_lease_id lease) (pl_lease_token lease) owner ttl now"
  obtain res cd1 where call: "store_call W ?f (snd st) = (res, cd1)"
    by fastforce
  obtain now where "(cd_store cd1, res) =
      so_renew S (cd_store (snd st)) (pl_lease_id lease) (pl_lease_token lease) owner ttl now"
    using store_call_store [OF call] by blast
  then have now: "cd_store cd1 =
      fst (so_renew S (cd_store (snd st)) (pl_lease_id lease) (pl_lease_token lease) owner ttl now)"
    by (metis fst_conv)
  have "cd_store (snd st') = cd_store cd1"
  proof (cases res)
    case (Inl e)
    then show ?thesis
      using assms False call by (auto simp: execute_stage_def stage_simps dest!: arg_cong [where f = "\<lambda>p. cd_store (snd (snd p))"])
  next
    case (Inr l')
    obtain out cd2 where "manager_call execute cd1 = (out, cd2)"
      by fastforce
    moreover from this have "cd_store cd2 = cd_store cd1"
      using manager_call_eq by blast
    ultimately show ?thesis
      using assms False call Inr
      by (cases out) (auto simp: execute_stage_def stage_simps dest!: arg_cong [where f = "\<lambda>p. cd_store (snd (snd p))"])
  qed
  then show ?thesis
    using False now by auto
qed

section \<open>The contract of the lease store\<close>

text \<open>What the coordinator relies on. \<open>owned\<close>: the store knows the lease under its token and owner in a
  state from which it can be given back; \<open>reserved\<close>: the lease keeps its connector from others.\<close>

locale lease_contract =
  fixes S :: "'s lease_backend"
    and owned :: "'s \<Rightarrow> ProviderRouteLease \<Rightarrow> bool"
    and reserved :: "'s \<Rightarrow> ProviderRouteLease \<Rightarrow> bool"
  assumes acquire_owned: "so_try_acquire S s l = (s', Inr (Some l')) \<Longrightarrow> pl_status l = ''active'' \<Longrightarrow> l' = l \<and> owned s' l"
    and renew_owned: "owned s l \<Longrightarrow>
      owned (fst (so_renew S s (pl_lease_id l) (pl_lease_token l) (pl_owner_execution_id l) ttl now)) l"
    and release_frees: "owned s l \<Longrightarrow>
      \<not> reserved (fst (so_release S s (pl_lease_id l) (pl_lease_token l) (pl_owner_execution_id l) now)) l"
begin

lemma execute_stage_owned:
  assumes "execute_stage W S execute l key (pl_owner_execution_id l) ttl st = (r, st')" "owned (cd_store (snd st)) l"
  shows "owned (cd_store (snd st')) l"
proof -
  obtain now where store: "cd_store (snd st') = (if lf_reason (fst st) \<noteq> None then cd_store (snd st)
      else fst (so_renew S (cd_store (snd st)) (pl_lease_id l) (pl_lease_token l) (pl_owner_execution_id l) ttl now))"
    using execute_stage_store [OF assms(1)] by blast
  show ?thesis
    unfolding store using assms(2) renew_owned by simp
qed

lemma release_stage_frees:
  assumes "release_stage W S l key (pl_owner_execution_id l) st = (r, st')" "owned (cd_store (snd st)) l"
  shows "\<not> reserved (cd_store (snd st')) l"
proof -
  have "\<exists>now. cd_store (snd st') = fst (so_release S (cd_store (snd st)) (pl_lease_id l) (pl_lease_token l) (pl_owner_execution_id l) now)"
    using assms(1) unfolding release_stage_def store_call_def
    by (auto simp: stage_simps Let_def case_prod_beta split: sum.splits py_error.splits)
  then show ?thesis
    using release_frees [OF assms(2)] by auto
qed

lemma cleanup_frees:
  assumes "cleanup_stage W S M auth l key (pl_owner_execution_id l) original st = (r, st')"
    and "owned (cd_store (snd st)) l"
  shows "\<not> reserved (cd_store (snd st')) l"
proof -
  obtain res cd1 where rest: "restore W M auth (snd key) original (snd st) = (res, cd1)"
    by fastforce
  then have "owned (cd_store cd1) l"
    using restore_store assms(2) by metis
  moreover have "\<exists>st0 r0. cd_store (snd st0) = cd_store cd1
      \<and> release_stage W S l key (pl_owner_execution_id l) st0 = (r0, st')"
  proof (cases res)
    case (Returned x)
    then show ?thesis
      using assms(1) rest
      by (intro exI [of _ "note_restored W key (pl_owner_execution_id l) x (fst st, cd1)"])
         (simp add: cleanup_stage_def note_restored_def case_prod_beta Let_def stage_simps)
  next
    case (Raised e)
    then show ?thesis
      using assms(1) rest by (intro exI [of _ "(fst st, cd1)"]) (auto simp: cleanup_stage_def split: prod.splits outcome.splits)
  next
    case Cancelled
    then show ?thesis
      using assms(1) rest by (intro exI [of _ "(fst st, cd1)"]) (auto simp: cleanup_stage_def split: prod.splits outcome.splits)
  qed
  ultimately show ?thesis
    using release_stage_frees by metis
qed

lemma authorised_block_frees:
  assumes "authorised_block W S M execute l key (pl_owner_execution_id l) ap mid target ttl cur original st = (r, st')"
    and "owned (cd_store (snd st)) l"
  shows "\<not> reserved (cd_store (snd st')) l"
proof -
  let ?auth = "Some (mutation_authority (fresh W (cd_ticks (snd st))) (fst key) (snd key) ''lifecycle'' (pl_lease_id l))"
  obtain r1 st1 where en: "enable_stage W M ?auth key (pl_owner_execution_id l) ap mid target cur (fst st, tick (snd st)) = (r1, st1)"
    by (metis surj_pair)
  have own1: "owned (cd_store (snd st1)) l"
    using enable_stage_store [OF en] assms(2) by (simp add: stage_simps)
  obtain r2 st2 where ex: "(case r1 of Returned _ \<Rightarrow> execute_stage W S execute l key (pl_owner_execution_id l) ttl st1
      | _ \<Rightarrow> (r1, st1)) = (r2, st2)"
    by (metis surj_pair)
  have own2: "owned (cd_store (snd st2)) l"
    using ex own1 execute_stage_owned [of W execute l key ttl st1 r2 st2] by (cases r1) auto
  obtain r3 st3 where cl: "cleanup_stage W S M ?auth l key (pl_owner_execution_id l) original st2 = (r3, st3)"
    by (metis surj_pair)
  have "st' = st3"
    using assms(1) en ex cl by (simp add: authorised_block_def)
  then show ?thesis
    using cleanup_frees [OF cl own2] by simp
qed

lemma leased_run_frees:
  assumes "leased_run W S M execute rq (pl_owner_execution_id l) cur original l waited cd = (r, cd')"
    and "owned (cd_store cd) l"
  shows "\<not> reserved (cd_store cd') l \<and> \<not> cd_locked cd' (mg_manager_id M, lq_connector_id rq)"
proof -
  let ?key = "(mg_manager_id M, lq_connector_id rq)"
  let ?st1 = "log_event W ''provider_route.lease_acquired'' ?key (pl_owner_execution_id l) None
      [(''lease_id'', PyStr (pl_lease_id l)), (''waited'', PyBool waited), (''original_enabled'', dget original ''enabled'')]
      (init_lifecycle, cd)"
  obtain r2 st2 where bl: "authorised_block W S M execute l ?key (pl_owner_execution_id l) (lq_approval rq) (lq_model_id rq)
      (lq_target_provider_id rq) (lq_lease_ttl rq) cur original ?st1 = (r2, st2)"
    by (metis surj_pair)
  have "\<not> reserved (cd_store (snd st2)) l"
    by (rule authorised_block_frees [OF bl]) (use assms(2) in \<open>simp add: stage_simps\<close>)
  moreover have "cd_store cd' = cd_store (snd st2)" "cd_locked cd' = cd_locked (release_local ?key (snd st2))"
    using assms(1) bl by (cases r2; simp add: leased_run_def Let_def stage_simps; auto simp: stage_simps)+
  ultimately show ?thesis
    by (simp add: stage_simps)
qed

lemma acquired_run_frees:
  assumes "try_acquire W S m c owner ttl original tp tm det cd = (Inr (Some lease), cd1)"
    and "leased_run W S M execute rq owner cur original lease waited cd1 = (r, cd2)"
  shows "\<not> reserved (cd_store cd2) lease \<and> \<not> cd_locked cd2 (mg_manager_id M, lq_connector_id rq)"
proof -
  obtain now i tok where "so_try_acquire S (cd_store cd) (new_lease m c owner ttl original tp tm det i tok now)
      = (cd_store cd1, Inr (Some lease))"
    using store_call_store [OF assms(1) [unfolded try_acquire_def]] by metis
  from acquire_owned [OF this] have "owned (cd_store cd1) lease" "pl_owner_execution_id lease = owner"
    by (auto simp: new_lease_def)
  then show ?thesis
    using leased_run_frees assms(2) by metis
qed

end

text \<open>Both back ends keep the contract.\<close>

definition memory_owned :: "MemoryLeaseStore \<Rightarrow> ProviderRouteLease \<Rightarrow> bool" where
  "memory_owned s l \<longleftrightarrow>
     (\<exists>x. map_of (ms_memory s) (pl_lease_id l) = Some x \<and> pl_lease_token x = pl_lease_token l
        \<and> pl_owner_execution_id x = pl_owner_execution_id l \<and> lease_key x = lease_key l \<and> pl_status x = ''active'')"

definition memory_reserved :: "MemoryLeaseStore \<Rightarrow> ProviderRouteLease \<Rightarrow> bool" where
  "memory_reserved s l \<longleftrightarrow> ms_by_key s (lease_key l) = Some (pl_lease_id l)"

interpretation memory_contract: lease_contract memory_backend memory_owned memory_reserved
proof (unfold_locales, goal_cases)
  case (1 s l s' l')
  then show ?case
    by (auto simp: memory_backend_def memory_acquire_def memory_owned_def Let_def split: if_splits)
next
  case (2 s l ttl now)
  then show ?case
    by (auto simp: memory_backend_def raise_lease_def memory_renew_def memory_put_def memory_owned_def lease_key_def Let_def)
next
  case (3 s l now)
  then show ?case
    by (auto simp: memory_backend_def raise_lease_def memory_release_def memory_put_def memory_pop_key_def
        memory_owned_def memory_reserved_def Let_def)
qed

definition db_owned :: "lease_table \<Rightarrow> ProviderRouteLease \<Rightarrow> bool" where
  "db_owned t l \<longleftrightarrow>
     (\<exists>r. row_get t (pl_lease_id l) = Some r \<and> pl_lease_token (pr_lease r) = pl_lease_token l
        \<and> pl_owner_execution_id (pr_lease r) = pl_owner_execution_id l
        \<and> (pr_active_marker r \<noteq> None \<longrightarrow> pl_status (pr_lease r) = ''active''))"

definition db_reserved :: "lease_table \<Rightarrow> ProviderRouteLease \<Rightarrow> bool" where
  "db_reserved t l \<longleftrightarrow> (\<exists>r. row_get t (pl_lease_id l) = Some r \<and> pr_active_marker r \<noteq> None)"

lemma row_get_set:
  "row_get t i = Some r \<Longrightarrow> row_id r' = i \<Longrightarrow> row_get (row_set t i r') i = Some r'"
  by (induction t) (auto simp: row_get_def row_set_def split: if_splits)

lemma row_get_append_new:
  "\<forall>r \<in> set t. row_id r \<noteq> i \<Longrightarrow> row_id r' = i \<Longrightarrow> row_get (t @ [r']) i = Some r'"
  by (induction t) (auto simp: row_get_def)

lemma row_get_id: "row_get t i = Some r \<Longrightarrow> row_id r = i"
  by (auto simp: row_get_def find_Some_iff)

interpretation db_contract: lease_contract db_backend db_owned db_reserved
proof (unfold_locales, goal_cases)
  case (1 t l t' l')
  then show ?case
    by (auto simp: db_backend_def raise_lease_def db_acquire_def db_insert_def db_owned_def row_conflicts_def list_ex_iff
        row_get_append_new split: if_splits option.splits sum.splits)
next
  case (2 t l ttl now)
  then obtain r where r: "row_get t (pl_lease_id l) = Some r" "pl_lease_token (pr_lease r) = pl_lease_token l"
      "pl_owner_execution_id (pr_lease r) = pl_owner_execution_id l"
      "pr_active_marker r \<noteq> None \<longrightarrow> pl_status (pr_lease r) = ''active''"
    by (auto simp: db_owned_def)
  then show ?case
    using row_get_id [OF r(1)]
    by (auto simp: db_backend_def raise_lease_def db_renew_def db_owned_def row_get_set Let_def)
next
  case (3 t l now)
  then obtain r where r: "row_get t (pl_lease_id l) = Some r" "pl_lease_token (pr_lease r) = pl_lease_token l"
      "pl_owner_execution_id (pr_lease r) = pl_owner_execution_id l"
      "pr_active_marker r \<noteq> None \<longrightarrow> pl_status (pr_lease r) = ''active''"
    by (auto simp: db_owned_def)
  then show ?case
    using row_get_id [OF r(1)]
    by (auto simp: db_backend_def raise_lease_def db_release_def db_reserved_def row_get_set Let_def)
qed

section \<open>Lemmas: the outcome of a run\<close>

text \<open>After the body: either the work has produced a result, or a reason is recorded.\<close>

definition body_done :: "'r lifecycle \<Rightarrow> bool" where
  "body_done lf \<longleftrightarrow> (lf_ok lf \<longleftrightarrow> lf_result lf \<noteq> None) \<and> (\<not> lf_ok lf \<longrightarrow> lf_reason lf \<noteq> None)"

lemma enable_stage_local:
  "enable_stage W M auth key owner ap mid target cur st = (r, st') \<Longrightarrow>
     lf_ok (fst st') = lf_ok (fst st) \<and> lf_result (fst st') = lf_result (fst st)"
  unfolding enable_stage_def
  by (auto simp: stage_simps Let_def split: prod.splits outcome.splits if_splits)

lemma execution_failed_done:
  "\<not> lf_ok (fst st) \<Longrightarrow> lf_result (fst st) = None \<Longrightarrow> body_done (fst (snd (execution_failed W key owner e st)))"
  by (cases e) (simp_all add: execution_failed_def body_done_def stage_simps)

lemma execute_stage_done:
  assumes "execute_stage W S execute lease key owner ttl st = (Returned u, st')"
    and "\<not> lf_ok (fst st)" "lf_result (fst st) = None"
  shows "body_done (fst st')"
proof -
  have failed: "body_done (fst st'')" if "execution_failed W key owner e (fst st, cd) = (Returned u, st'')" for e cd st''
    using execution_failed_done [of "(fst st, cd)" W key owner e] assms(2,3) that by simp
  show ?thesis
  proof (cases "lf_reason (fst st) \<noteq> None")
    case True
    then show ?thesis
      using assms by (simp add: execute_stage_def body_done_def)
  next
    case False
    obtain res cd1 where "store_call W (\<lambda>now i tok s. so_renew S s (pl_lease_id lease) (pl_lease_token lease) owner ttl now) (snd st) = (res, cd1)"
      by fastforce
    moreover obtain out cd2 where "manager_call execute cd1 = (out, cd2)"
      by fastforce
    ultimately consider e cd where "execution_failed W key owner e (fst st, cd) = (Returned u, st')"
      | "lf_ok (fst st')" "lf_result (fst st') \<noteq> None"
      using assms(1) False by (cases res; cases out) (auto simp: execute_stage_def stage_simps)
    then show ?thesis
    proof cases
      case (1 e cd)
      then show ?thesis
        by (rule failed)
    qed (simp add: body_done_def)
  qed
qed

lemma restore_verified:
  "restore W M auth c original cd = (Returned (restored, verified, code, msg), cd') \<Longrightarrow> verified \<longrightarrow> restored"
  unfolding restore_def restore_failure_def
  by (auto split: prod.splits outcome.splits if_splits)

lemma release_stage_local:
  "release_stage W S lease key owner st = (r, st') \<Longrightarrow>
     lf_ok (fst st') = lf_ok (fst st) \<and> lf_result (fst st') = lf_result (fst st) \<and> lf_reason (fst st') = lf_reason (fst st)
     \<and> lf_restored (fst st') = lf_restored (fst st) \<and> lf_verified (fst st') = lf_verified (fst st)"
  unfolding release_stage_def
  by (auto simp: stage_simps split: prod.splits sum.splits py_error.splits)

lemma note_restored_local:
  "lf_ok (fst (note_restored W key owner (a, b, c, d) st)) = lf_ok (fst st)"
  "lf_result (fst (note_restored W key owner (a, b, c, d) st)) = lf_result (fst st)"
  "lf_reason (fst st) \<noteq> None \<Longrightarrow> lf_reason (fst (note_restored W key owner (a, b, c, d) st)) \<noteq> None"
  "lf_restored (fst (note_restored W key owner (a, b, c, d) st)) = a"
  "lf_verified (fst (note_restored W key owner (a, b, c, d) st)) = b"
  by (auto simp: note_restored_def Let_def stage_simps)

lemma cleanup_stage_done:
  assumes "cleanup_stage W S M auth lease key owner original st = (Returned u, st')" "body_done (fst st)"
  shows "body_done (fst st') \<and> (lf_verified (fst st') \<longrightarrow> lf_restored (fst st'))"
proof -
  obtain out cd1 where rest: "restore W M auth (snd key) original (snd st) = (out, cd1)"
    by fastforce
  obtain a b c d where out: "out = Returned (a, b, c, d)"
    using assms(1) rest by (cases out) (auto simp: cleanup_stage_def split: prod.splits outcome.splits)
  have rel: "release_stage W S lease key owner (note_restored W key owner (a, b, c, d) (fst st, cd1)) = (Returned u, st')"
    using assms(1) rest out by (simp add: cleanup_stage_def)
  show ?thesis
    using release_stage_local [OF rel] restore_verified [OF rest [unfolded out]] assms(2)
      note_restored_local [where W = W and key = key and owner = owner and a = a and b = b and c = c and d = d
        and st = "(fst st, cd1)"]
    by (auto simp: body_done_def)
qed

lemma authorised_block_done:
  assumes "authorised_block W S M execute l key owner ap mid target ttl cur original st = (Returned u, st')"
    and "\<not> lf_ok (fst st)" "lf_result (fst st) = None"
  shows "body_done (fst st') \<and> (lf_verified (fst st') \<longrightarrow> lf_restored (fst st'))"
proof -
  let ?auth = "Some (mutation_authority (fresh W (cd_ticks (snd st))) (fst key) (snd key) ''lifecycle'' (pl_lease_id l))"
  obtain r1 st1 where en: "enable_stage W M ?auth key owner ap mid target cur (fst st, tick (snd st)) = (r1, st1)"
    by (metis surj_pair)
  obtain r2 st2 where ex: "(case r1 of Returned _ \<Rightarrow> execute_stage W S execute l key owner ttl st1 | _ \<Rightarrow> (r1, st1)) = (r2, st2)"
    by (metis surj_pair)
  obtain r3 st3 where cl: "cleanup_stage W S M ?auth l key owner original st2 = (r3, st3)"
    by (metis surj_pair)
  have res: "st' = st3" "r3 = Returned ()" "r2 = Returned ()"
    using assms(1) en ex cl by (auto simp: authorised_block_def split: outcome.splits)
  have "body_done (fst st2)"
    using ex enable_stage_local [OF en] assms(2,3) execute_stage_done [of W S execute l key owner ttl st1 "()" st2] res(3)
    by (cases r1) auto
  then show ?thesis
    using cleanup_stage_done cl res by blast
qed

lemma leased_run_result:
  assumes "leased_run W S M execute rq owner cur original l waited cd = (Returned res, cd')"
  shows "(lr_ok res \<longleftrightarrow> lr_execution_result res \<noteq> None \<and> lr_restored res \<and> lr_restoration_verified res)
     \<and> (\<not> lr_ok res \<longrightarrow> lr_reason_code res \<noteq> None) \<and> lr_lease res = Some l \<and> lr_original_state res = original"
proof -
  let ?key = "(mg_manager_id M, lq_connector_id rq)"
  let ?st1 = "log_event W ''provider_route.lease_acquired'' ?key owner None
      [(''lease_id'', PyStr (pl_lease_id l)), (''waited'', PyBool waited), (''original_enabled'', dget original ''enabled'')]
      (init_lifecycle, cd)"
  obtain r2 st2 where bl: "authorised_block W S M execute l ?key owner (lq_approval rq) (lq_model_id rq)
      (lq_target_provider_id rq) (lq_lease_ttl rq) cur original ?st1 = (r2, st2)"
    by (metis surj_pair)
  have res: "r2 = Returned ()" "res = final_result l original (fst st2)"
    using assms bl by (cases r2; simp add: leased_run_def Let_def)+
  have "body_done (fst st2) \<and> (lf_verified (fst st2) \<longrightarrow> lf_restored (fst st2))"
    by (rule authorised_block_done [OF bl [unfolded res(1)]]) (simp_all add: stage_simps init_lifecycle_def)
  then show ?thesis
    unfolding res(2) by (auto simp: final_result_def body_done_def Let_def opt_truthy_def split: option.splits)
qed

section \<open>Lemmas: authority and blocking\<close>

text \<open>A manager whose mutating primitives first ask for the authority, as the primitives of the
  FireConnect manager do.\<close>

definition guarded :: "'m ProviderRouteManager \<Rightarrow> 'm ProviderRouteManager" where
  "guarded M = M\<lparr>
     mg_enable_route := (\<lambda>auth c ap mid m.
       case require_mutation_authority auth (mg_manager_id M) c of
         Inl e \<Rightarrow> (Raised e, m) | Inr _ \<Rightarrow> mg_enable_route M auth c ap mid m),
     mg_disable_route := (\<lambda>auth c ap m.
       case require_mutation_authority auth (mg_manager_id M) c of
         Inl e \<Rightarrow> (Raised e, m) | Inr _ \<Rightarrow> mg_disable_route M auth c ap m)\<rparr>"

lemma guarded_fields [simp]:
  "mg_manager_id (guarded M) = mg_manager_id M" "mg_inspect_route (guarded M) = mg_inspect_route M"
  "mg_verify_route (guarded M) = mg_verify_route M"
  by (simp_all add: guarded_def)

lemma guarded_authorised:
  "au_manager_id a = mg_manager_id M \<Longrightarrow> au_connector_id a = c \<Longrightarrow>
     mg_enable_route (guarded M) (Some a) c = mg_enable_route M (Some a) c
     \<and> mg_disable_route (guarded M) (Some a) c = mg_disable_route M (Some a) c"
  by (auto simp: guarded_def require_mutation_authority_def fun_eq_iff)

lemma restore_mutation_guarded:
  "au_manager_id a = mg_manager_id M \<Longrightarrow> au_connector_id a = c \<Longrightarrow>
     restore_mutation (guarded M) (Some a) c original nonce = restore_mutation M (Some a) c original nonce"
  by (simp add: restore_mutation_def guarded_authorised Let_def)

lemma restore_guarded:
  assumes "au_manager_id a = mg_manager_id M" "au_connector_id a = c"
  shows "restore W (guarded M) (Some a) c original cd = restore W M (Some a) c original cd"
  unfolding restore_def restore_mutation_guarded [OF assms] guarded_fields ..

lemma enable_stage_guarded:
  assumes "au_manager_id a = mg_manager_id M" "au_connector_id a = snd key"
  shows "enable_stage W (guarded M) (Some a) key owner ap mid target cur st
    = enable_stage W M (Some a) key owner ap mid target cur st"
  unfolding enable_stage_def guarded_authorised [OF assms, THEN conjunct1] guarded_fields ..

lemma cleanup_stage_guarded:
  assumes "au_manager_id a = mg_manager_id M" "au_connector_id a = snd key"
  shows "cleanup_stage W S (guarded M) (Some a) l key owner original st = cleanup_stage W S M (Some a) l key owner original st"
  unfolding cleanup_stage_def restore_guarded [OF assms] ..

lemma authorised_block_guarded:
  assumes "fst key = mg_manager_id M"
  shows "authorised_block W S (guarded M) execute l key owner ap mid target ttl cur original st
     = authorised_block W S M execute l key owner ap mid target ttl cur original st"
proof -
  have auth: "au_manager_id (mutation_authority tok (fst key) (snd key) p i) = mg_manager_id M"
    "au_connector_id (mutation_authority tok (fst key) (snd key) p i) = snd key" for tok p i
    using assms by (simp_all add: mutation_authority_def)
  show ?thesis
    unfolding authorised_block_def Let_def enable_stage_guarded [OF auth] cleanup_stage_guarded [OF auth] ..
qed

lemma leased_run_guarded:
  "leased_run W S (guarded M) execute rq owner cur original l waited cd
     = leased_run W S M execute rq owner cur original l waited cd"
  unfolding leased_run_def Let_def guarded_fields
  by (subst authorised_block_guarded) simp_all

lemma recover_claimed_guarded:
  assumes "pl_manager_id l = mg_manager_id M"
  shows "recover_claimed W S (guarded M) l ro original cd = recover_claimed W S M l ro original cd"
proof -
  have auth: "au_manager_id (mutation_authority tok (pl_manager_id l) (pl_connector_id l) p i) = mg_manager_id M"
    "au_connector_id (mutation_authority tok (pl_manager_id l) (pl_connector_id l) p i) = pl_connector_id l" for tok p i
    using assms by (simp_all add: mutation_authority_def)
  show ?thesis
    unfolding recover_claimed_def Let_def restore_guarded [OF auth] ..
qed

text \<open>A blocked connector is refused before anything else happens.\<close>

lemma memory_blocked_run:
  assumes "opt_truthy (memory_is_blocked (cd_store cd) (mg_manager_id M) (lq_connector_id rq))"
  shows "cd_manager (snd (run_lifecycle fuel U memory_backend M execute rq cd)) = cd_manager cd
     \<and> (\<exists>res. fst (run_lifecycle fuel U memory_backend M execute rq cd) = Some (Returned res)
          \<and> \<not> lr_ok res \<and> lr_reason_code res = Some ''recovery_failed'')"
  using assms
  by (simp add: run_lifecycle_def memory_backend_def Let_def stage_simps case_prod_beta audit_event_def early_result_def)

lemma block_reason_truthy: "block_reason (block_details reason at) \<noteq> []"
  by (simp add: block_reason_def block_details_def dget_def py_or_def)

lemma memory_block_blocks:
  "opt_truthy (memory_is_blocked (memory_block_connector s m c reason at now) m c)"
  by (simp add: memory_is_blocked_def memory_block_connector_def memory_put_def opt_truthy_def block_reason_truthy)

lemma memory_mark_keeps_block:
  assumes "i \<noteq> block_id m c"
  shows "memory_is_blocked (fst (memory_mark_recovery s i tok rs d)) m c = memory_is_blocked s m c"
  using assms
  by (auto simp: memory_mark_recovery_def memory_is_blocked_def memory_put_def memory_pop_key_def Let_def
      split: option.splits)

lemma memory_block_call:
  assumes "store_call W (\<lambda>now i tok s. so_block_connector memory_backend s m c (f now) now i tok) cd = (r, cd')"
  shows "r = Inr () \<and> opt_truthy (memory_is_blocked (cd_store cd') m c)"
  using assms by (auto simp: store_call_def memory_backend_def Let_def memory_block_blocks)

lemma recovery_crashed_blocks:
  assumes "recovery_crashed W memory_backend lease e cd = (Returned rep, cd')"
    and "pl_lease_id lease \<noteq> block_id (pl_manager_id lease) (pl_connector_id lease)"
  shows "opt_truthy (memory_is_blocked (cd_store cd') (pl_manager_id lease) (pl_connector_id lease))"
proof -
  obtain r1 cd1 where call1: "store_call W (\<lambda>now i tok s. so_block_connector memory_backend s (pl_manager_id lease)
      (pl_connector_id lease) (take 200 (redact_secrets (error_text e))) now i tok) cd = (r1, cd1)"
    by fastforce
  note block = memory_block_call [OF call1]
  obtain r2 cd2 where call2: "store_call W (\<lambda>now i tok s. so_mark_recovery memory_backend s (pl_lease_id lease)
      (pl_lease_token lease) ''recovery_failed'' [(''error_type'', PyStr (error_name e))] now) cd1 = (r2, cd2)"
    by fastforce
  have "cd' = cd2"
    using assms(1) call1 call2 block by (auto simp: recovery_crashed_def split: sum.splits py_error.splits)
  moreover have "memory_is_blocked (cd_store cd2) (pl_manager_id lease) (pl_connector_id lease)
      = memory_is_blocked (cd_store cd1) (pl_manager_id lease) (pl_connector_id lease)"
    using call2 memory_mark_keeps_block [OF assms(2)]
    by (auto simp: store_call_def memory_backend_def raise_lease_def Let_def)
  ultimately show ?thesis
    using block by simp
qed

lemma audit_event_store [stage_simps]:
  "cd_store (snd (audit_event W ty m c ow code pl cd)) = cd_store cd"
  by (simp add: audit_event_def Let_def stage_simps)

lemma audit_event_eq: "audit_event W ty m c ow code pl cd = (ev, cd') \<Longrightarrow> cd_store cd' = cd_store cd"
  by (metis audit_event_store snd_conv)

lemma report_status [simp]: "dget (recovery_report l st v) ''status'' = PyStr st"
  by (simp add: recovery_report_def dget_def)

lemma recover_claimed_blocks:
  assumes "recover_claimed W memory_backend M l ro original cd = (Returned rep, cd')"
    and "dget rep ''status'' = PyStr ''recovery_failed''"
  shows "opt_truthy (memory_is_blocked (cd_store cd') (pl_manager_id l) (pl_connector_id l))"
proof -
  let ?auth = "mutation_authority (fresh W (cd_ticks cd)) (pl_manager_id l) (pl_connector_id l) ''recovery'' (pl_lease_id l)"
  obtain r1 cd1 where rest: "restore W M (Some ?auth) (pl_connector_id l) original (tick cd) = (r1, cd1)"
    by fastforce
  then obtain restored verified code msg where r1: "r1 = Returned (restored, verified, code, msg)"
    using assms(1) by (cases r1) (auto simp: recover_claimed_def)
  let ?status = "if restored \<and> verified then ''restored_verified'' else ''recovery_failed''"
  obtain r2 cd2 where mark: "store_call W (\<lambda>now i tok s. so_mark_recovery memory_backend s (pl_lease_id l) (pl_lease_token l)
      ?status [(''message'', PyStr msg), (''code'', opt_str code), (''recovery_owner_id'', PyStr ro)] now) cd1 = (r2, cd2)"
    by fastforce
  then obtain x where r2: "r2 = Inr x"
    using assms(1) rest r1 by (cases r2) (auto simp: recover_claimed_def Let_def)
  let ?reason = "if msg \<noteq> [] then msg else if opt_truthy code then the code else ''recovery_failed''"
  obtain r3 cd3 where block: "store_call W (\<lambda>now i tok s. so_block_connector memory_backend s (pl_manager_id l)
      (pl_connector_id l) ?reason now i tok) cd2 = (r3, cd3)"
    by fastforce
  note blocked = memory_block_call [OF block]
  have "?status = ''recovery_failed''"
    using assms rest r1 mark r2 block blocked
    by (auto simp: recover_claimed_def Let_def case_prod_beta split: if_splits)
  then have "cd_store cd' = cd_store cd3"
    using assms(1) rest r1 mark r2 block blocked
    by (auto simp: recover_claimed_def Let_def dest!: audit_event_eq split: prod.splits)
  then show ?thesis
    using blocked by simp
qed

lemma memory_claim_key:
  assumes "store_call W (\<lambda>now i tok s. so_claim_recovery memory_backend s lid ltok ro now) cd = (Inr claimed, cd')"
    and "map_of (ms_memory (cd_store cd)) lid = Some l"
  shows "lease_key claimed = lease_key l"
  using assms
  by (auto simp: store_call_def memory_backend_def raise_lease_def memory_claim_recovery_def lease_key_def Let_def
      split: if_splits)

lemma recover_one_blocks:
  assumes run: "recover_one W wait memory_backend M lease cd = (Returned rep, cd')"
    and failed: "dget rep ''status'' = PyStr ''recovery_failed''"
    and stored: "map_of (ms_memory (cd_store cd)) (pl_lease_id lease) = Some lease"
    and no_block: "pl_lease_id lease \<noteq> block_id (pl_manager_id lease) (pl_connector_id lease)"
  shows "opt_truthy (memory_is_blocked (cd_store cd') (pl_manager_id lease) (pl_connector_id lease))"
proof -
  let ?ro = "''recovery:'' @ fresh W (cd_ticks cd)"
  obtain r1 cd1 where claim: "store_call W (\<lambda>now i tok s. so_claim_recovery memory_backend s (pl_lease_id lease)
      (pl_lease_token lease) ?ro now) (tick cd) = (r1, cd1)"
    by fastforce
  obtain claimed where r1: "r1 = Inr claimed"
    using run failed claim by (cases r1) (auto simp: recover_one_def Let_def split: py_error.splits if_splits)
  have key: "lease_key claimed = lease_key lease"
    using memory_claim_key [OF claim [unfolded r1]] stored by (simp add: stage_simps)
  obtain w cd2 where lock: "acquire_local wait (lease_key lease) cd1 = (w, cd2)"
    by fastforce
  then have "w = Acquired"
    using run claim r1 by (cases w) (auto simp: recover_one_def Let_def)
  obtain r3 cd3 where body: "recover_claimed W memory_backend M claimed ?ro (pl_original_state lease) cd2 = (r3, cd3)"
    by fastforce
  show ?thesis
  proof (cases r3)
    case (Returned rep')
    then have "rep' = rep" "cd_store cd' = cd_store cd3"
      using run claim r1 lock \<open>w = Acquired\<close> body by (auto simp: recover_one_def Let_def stage_simps)
    then show ?thesis
      using recover_claimed_blocks [OF body [unfolded Returned]] failed key by (simp add: lease_key_def)
  next
    case (Raised e)
    obtain r4 cd4 where crash: "recovery_crashed W memory_backend lease e cd3 = (r4, cd4)"
      by fastforce
    then have "r4 = Returned rep" "cd_store cd' = cd_store cd4"
      using run claim r1 lock \<open>w = Acquired\<close> body Raised by (auto simp: recover_one_def Let_def stage_simps)
    then show ?thesis
      using recovery_crashed_blocks crash no_block by simp
  next
    case Cancelled
    then show ?thesis
      using run claim r1 lock \<open>w = Acquired\<close> body by (simp add: recover_one_def Let_def)
  qed
qed

section \<open>Properties\<close>

text \<open>C8: The lease is given back on every path. Once \<open>try_acquire\<close> has granted the lease, the run ends
  with the lease no longer reserving the connector and the process-local lock free, for both back ends,
  any manager and any work: whether enabling, verifying, renewing, executing or restoring returns,
  raises or is cancelled.\<close>

theorem lease_released_on_every_path:
  "(\<forall>cd lease cd1 r cd2.
      try_acquire W memory_backend m c owner ttl original tp tm det cd = (Inr (Some lease), cd1) \<longrightarrow>
      leased_run W memory_backend M execute rq owner cur original lease waited cd1 = (r, cd2) \<longrightarrow>
      ms_by_key (cd_store cd2) (lease_key lease) \<noteq> Some (pl_lease_id lease)
      \<and> \<not> cd_locked cd2 (mg_manager_id M, lq_connector_id rq))
   \<and> (\<forall>cd lease cd1 r cd2.
      try_acquire W db_backend m c owner ttl original tp tm det cd = (Inr (Some lease), cd1) \<longrightarrow>
      leased_run W db_backend M execute rq owner cur original lease waited cd1 = (r, cd2) \<longrightarrow>
      (\<forall>row. row_get (cd_store cd2) (pl_lease_id lease) = Some row \<longrightarrow> pr_active_marker row = None)
      \<and> \<not> cd_locked cd2 (mg_manager_id M, lq_connector_id rq))"
proof (intro conjI allI impI)
  fix cd lease cd1 r cd2
  assume "try_acquire W memory_backend m c owner ttl original tp tm det cd = (Inr (Some lease), cd1)"
    "leased_run W memory_backend M execute rq owner cur original lease waited cd1 = (r, cd2)"
  from memory_contract.acquired_run_frees [OF this]
  show "ms_by_key (cd_store cd2) (lease_key lease) \<noteq> Some (pl_lease_id lease)"
    "\<not> cd_locked cd2 (mg_manager_id M, lq_connector_id rq)"
    by (simp_all add: memory_reserved_def)
next
  fix cd lease cd1 r cd2
  assume "try_acquire W db_backend m c owner ttl original tp tm det cd = (Inr (Some lease), cd1)"
    "leased_run W db_backend M execute rq owner cur original lease waited cd1 = (r, cd2)"
  note free = db_contract.acquired_run_frees [OF this]
  show "\<not> cd_locked cd2 (mg_manager_id M, lq_connector_id rq)"
    using free by simp
  fix row
  assume "row_get (cd_store cd2) (pl_lease_id lease) = Some row"
  then show "pr_active_marker row = None"
    using free by (auto simp: db_reserved_def)
qed

text \<open>A small manager for the examples: the state is whether the route is enabled.\<close>

definition example_route_manager :: "bool ProviderRouteManager" where
  "example_route_manager =
     (let route = (\<lambda>b. (native_route_for ''codex'' True 0)\<lparr>ro_provider_id := ''fireworks'', ro_enabled := b\<rparr>);
          done = (\<lambda>action b. \<lparr>mr_ok = True, mr_action = action, mr_route = Some (route b), mr_previous_snapshot = [],
                    mr_restored = False, mr_reason_code = None, mr_message = [], mr_details = []\<rparr>)
      in \<lparr>mg_manager_id = ''fireconnect'',
          mg_inspect_route = (\<lambda>c b. (Returned (route b), b)),
          mg_enable_route = (\<lambda>auth c ap mid b. (Returned (done ''enable'' True), True)),
          mg_disable_route = (\<lambda>auth c ap b. (Returned (done ''disable'' False), False)),
          mg_verify_route = (\<lambda>c b. (Returned (route b), b))\<rparr>)"

definition example_world :: world where
  "example_world = \<lparr>clock = int, fresh = (\<lambda>n. ''id'' @ digits_of n)\<rparr>"

definition example_request_route :: lifecycle_request where
  "example_request_route =
     \<lparr>lq_connector_id = ''codex'',
      lq_approval = \<lparr>ap_approved = True, ap_action = ''enable'', ap_manager_id = ''fireconnect'',
        ap_connector_id = ''codex'', ap_nonce = ''n'', ap_model_id = None\<rparr>,
      lq_owner_execution_id = Some ''e1'', lq_model_id = None, lq_target_provider_id = ''fireworks'',
      lq_acquire_timeout = 30, lq_lease_ttl = 120\<rparr>"

definition example_start :: "(lease_table, bool) coordinator" where
  "example_start = \<lparr>cd_store = [], cd_audits = [], cd_locked = (\<lambda>k. False), cd_manager = False, cd_ticks = 0\<rparr>"

theorem lease_released_on_every_path_witness:
  "let route = (native_route_for ''codex'' True 0)\<lparr>ro_provider_id := ''fireworks'', ro_enabled := False\<rparr>;
       acquired = try_acquire example_world db_backend ''fireconnect'' ''codex'' ''e1'' 120 (route_state ''codex'' route)
                    (Some ''fireworks'') None [] example_start;
       lease = the (projr (fst acquired))
   in \<not> cd_locked (snd (leased_run example_world db_backend example_route_manager (\<lambda>m. (Cancelled :: nat outcome, m))
        example_request_route ''e1'' route (route_state ''codex'' route) lease False (snd acquired))) (''fireconnect'', ''codex'')"
proof -
  let ?route = "(native_route_for ''codex'' True 0)\<lparr>ro_provider_id := ''fireworks'', ro_enabled := False\<rparr>"
  let ?acq = "try_acquire example_world db_backend ''fireconnect'' ''codex'' ''e1'' 120 (route_state ''codex'' ?route)
      (Some ''fireworks'') None [] example_start"
  have "\<not> isl (fst ?acq)" "projr (fst ?acq) \<noteq> None"
    by code_simp+
  then have "?acq = (Inr (Some (the (projr (fst ?acq)))), snd ?acq)"
    by (metis option.collapse prod.collapse sum.collapse(2))
  moreover have "mg_manager_id example_route_manager = ''fireconnect''" "lq_connector_id example_request_route = ''codex''"
    by (simp_all add: example_route_manager_def example_request_route_def Let_def)
  ultimately show ?thesis
    using lease_released_on_every_path [of example_world "''fireconnect''" "''codex''" "''e1''" 120
        "route_state ''codex'' ?route" "Some ''fireworks''" None "[]" example_route_manager
        "\<lambda>m. (Cancelled :: nat outcome, m)" example_request_route ?route False]
    unfolding Let_def by (metis surj_pair snd_conv)
qed

text \<open>C26: What the result says. A lifecycle that returns reports success exactly when the work ran and
  returned and the original route state was restored and verified; otherwise it reports a reason. The
  lease and the original state it reports are those of the run.\<close>

theorem lifecycle_ok_iff:
  assumes "leased_run W S M execute rq owner cur original lease waited cd = (Returned res, cd')"
  shows "(lr_ok res \<longleftrightarrow> lr_execution_result res \<noteq> None \<and> lr_restored res \<and> lr_restoration_verified res)
     \<and> (\<not> lr_ok res \<longrightarrow> lr_reason_code res \<noteq> None)
     \<and> lr_lease res = Some lease \<and> lr_original_state res = original"
  by (rule leased_run_result [OF assms])

definition example_lease :: ProviderRouteLease where
  "example_lease = new_lease ''fireconnect'' ''codex'' ''e1'' 120
     [(''enabled'', PyBool False), (''provider_id'', PyStr ''fireworks'')] (Some ''fireworks'') None [] ''l1'' ''t1'' 0"

definition example_leased_run :: "nat ProviderRouteLifecycleResult outcome \<times> (lease_table, bool) coordinator" where
  "example_leased_run =
     leased_run example_world db_backend example_route_manager (\<lambda>m. (Returned (7 :: nat), m)) example_request_route ''e1''
       ((native_route_for ''codex'' True 0)\<lparr>ro_provider_id := ''fireworks'', ro_enabled := False\<rparr>)
       (pl_original_state example_lease) example_lease False
       (example_start\<lparr>cd_store := fst (db_acquire [] [] example_lease)\<rparr>)"

theorem lifecycle_ok_iff_witness:
  "\<exists>res. fst example_leased_run = Returned res \<and> lr_ok res \<and> lr_restored res"
proof -
  have ok: "(case fst example_leased_run of Returned res \<Rightarrow> lr_ok res | _ \<Rightarrow> False)"
    by code_simp
  then obtain res where res: "fst example_leased_run = Returned res" "lr_ok res"
    by (cases "fst example_leased_run") auto
  then have "example_leased_run = (Returned res, snd example_leased_run)"
    by (metis prod.collapse)
  from lifecycle_ok_iff [OF this [unfolded example_leased_run_def]] show ?thesis
    using res by blast
qed

text \<open>Authority is always there and always needed. A manager whose primitives check the mutation
  authority behaves in a lifecycle, and in the recovery of one of its own leases, exactly as if it did
  not check; without the authority of the coordinator the same primitives refuse.\<close>

theorem mutations_are_authorised:
  "leased_run W S (guarded M) execute rq owner cur original lease waited cd
       = leased_run W S M execute rq owner cur original lease waited cd
   \<and> (pl_manager_id claimed = mg_manager_id M \<longrightarrow>
        recover_claimed W S (guarded M) claimed recovery_owner original cd
        = recover_claimed W S M claimed recovery_owner original cd)
   \<and> (\<exists>e. mg_enable_route (guarded M) None c ap mid m = (Raised e, m) \<and> mg_disable_route (guarded M) None c ap m = (Raised e, m))"
  by (simp add: leased_run_guarded recover_claimed_guarded) (simp add: guarded_def require_mutation_authority_def)

theorem mutations_are_authorised_witness:
  "recover_claimed example_world db_backend (guarded example_route_manager) example_lease ''r'' [] example_start
     = recover_claimed example_world db_backend example_route_manager example_lease ''r'' [] example_start"
proof -
  have "pl_manager_id example_lease = mg_manager_id example_route_manager"
    by code_simp
  then show ?thesis
    using mutations_are_authorised [where claimed = example_lease and M = example_route_manager] by blast
qed

text \<open>A run that times out releases a lock it never had. If the process-local lock is held by
  another run, the wait for it times out, and the other run still holds it, then this run returns
  \<open>lock_acquisition_timeout\<close> and leaves the lock free: the outer \<^verbatim>\<open>finally\<close> releases whatever is locked.\<close>

theorem lock_timeout_releases_foreign_lock:
  assumes "\<not> opt_truthy (so_is_blocked S (cd_store cd) (mg_manager_id M) (lq_connector_id rq))"
    and "recover_expired_leases (su_world U) (su_wait U) S M (Some [lq_connector_id rq]) (tick cd) = (Returned reports, cd1)"
    and "cd_locked cd1 (mg_manager_id M, lq_connector_id rq)"
    and "su_wait U cd1 = (LockTimeout, cd2)" and "cd_locked cd2 (mg_manager_id M, lq_connector_id rq)"
  shows "\<exists>res cd'. run_lifecycle fuel U S M execute rq cd = (Some (Returned res), cd')
     \<and> lr_reason_code res = Some ''lock_acquisition_timeout''
     \<and> \<not> cd_locked cd' (mg_manager_id M, lq_connector_id rq)"
  using assms
  by (simp add: run_lifecycle_def acquire_local_def Let_def case_prod_beta early_result_def stage_simps)

definition example_surroundings :: "(lease_table, bool) surroundings" where
  "example_surroundings =
     \<lparr>su_world = example_world, su_wait = (\<lambda>cd. (LockTimeout, cd)), su_nap = (\<lambda>k cd. (False, cd)), su_loop_time = int\<rparr>"

theorem lock_timeout_releases_foreign_lock_witness:
  "\<not> cd_locked (snd (run_lifecycle 3 example_surroundings db_backend example_route_manager (\<lambda>m. (Returned (7 :: nat), m))
       example_request_route (hold_local (''fireconnect'', ''codex'') example_start))) (''fireconnect'', ''codex'')"
proof -
  let ?cd = "hold_local (''fireconnect'', ''codex'') example_start"
  have ids: "mg_manager_id example_route_manager = ''fireconnect''" "lq_connector_id example_request_route = ''codex''"
    by (simp_all add: example_route_manager_def example_request_route_def Let_def)
  have "so_is_blocked db_backend (cd_store ?cd) ''fireconnect'' ''codex'' = None"
    by code_simp
  moreover have "recover_expired_leases (su_world example_surroundings) (su_wait example_surroundings) db_backend
      example_route_manager (Some [''codex'']) (tick ?cd) = (Returned [], tick (tick ?cd))"
    by (simp add: recover_expired_leases_def db_backend_def db_list_expired_active_def hold_local_def example_start_def tick_def)
  moreover have "su_wait example_surroundings (tick (tick ?cd)) = (LockTimeout, tick (tick ?cd))"
    by (simp add: example_surroundings_def)
  ultimately show ?thesis
    using lock_timeout_releases_foreign_lock [of db_backend ?cd example_route_manager example_request_route
        example_surroundings "[]" "tick (tick ?cd)" "tick (tick ?cd)" 3 "\<lambda>m. (Returned (7 :: nat), m)"]
    by (auto simp: ids opt_truthy_def stage_simps hold_local_def)
qed

text \<open>A failed recovery blocks the connector. When the recovery of a stored expired lease ends in
  \<open>recovery_failed\<close>, with the in-memory store, every later lifecycle on that connector is refused with
  the same reason and never calls the manager.\<close>

theorem failed_recovery_blocks:
  assumes "recover_one W wait memory_backend M lease cd = (Returned rep, cd1)"
    and "dget rep ''status'' = PyStr ''recovery_failed''"
    and "map_of (ms_memory (cd_store cd)) (pl_lease_id lease) = Some lease"
    and "pl_lease_id lease \<noteq> block_id (pl_manager_id lease) (pl_connector_id lease)"
    and "mg_manager_id M = pl_manager_id lease" and "lq_connector_id rq = pl_connector_id lease"
  shows "cd_manager (snd (run_lifecycle fuel U memory_backend M execute rq cd1)) = cd_manager cd1
     \<and> (\<exists>res. fst (run_lifecycle fuel U memory_backend M execute rq cd1) = Some (Returned res)
          \<and> \<not> lr_ok res \<and> lr_reason_code res = Some ''recovery_failed'')"
  by (rule memory_blocked_run) (use recover_one_blocks [OF assms(1-4)] assms(5,6) in simp)

definition example_memory :: "(MemoryLeaseStore, bool) coordinator" where
  "example_memory = \<lparr>cd_store = fst (memory_acquire init_MemoryLeaseStore example_lease), cd_audits = [],
     cd_locked = (\<lambda>k. False), cd_manager = True, cd_ticks = 500\<rparr>"

definition broken_manager :: "bool ProviderRouteManager" where
  "broken_manager = example_route_manager\<lparr>mg_disable_route := (\<lambda>auth c ap b. (Raised (RuntimeError ''down''), b))\<rparr>"

theorem failed_recovery_blocks_witness:
  "let rec = recover_one example_world (\<lambda>cd. (LockTimeout, cd)) memory_backend broken_manager example_lease example_memory
   in (\<exists>res. fst (run_lifecycle 3 \<lparr>su_world = example_world, su_wait = (\<lambda>cd. (LockTimeout, cd)),
          su_nap = (\<lambda>k cd. (False, cd)), su_loop_time = int\<rparr> memory_backend broken_manager
          (\<lambda>m. (Returned (7 :: nat), m)) example_request_route (snd rec)) = Some (Returned res)
        \<and> lr_reason_code res = Some ''recovery_failed'')"
proof -
  let ?rec = "recover_one example_world (\<lambda>cd. (LockTimeout, cd)) memory_backend broken_manager example_lease example_memory"
  have st: "(case fst ?rec of Returned rep \<Rightarrow> dget rep ''status'' = PyStr ''recovery_failed'' | _ \<Rightarrow> False)"
    by code_simp
  then obtain rep where rep: "?rec = (Returned rep, snd ?rec)" "dget rep ''status'' = PyStr ''recovery_failed''"
    by (cases ?rec; cases "fst ?rec") auto
  have "map_of (ms_memory (cd_store example_memory)) (pl_lease_id example_lease) = Some example_lease"
    "pl_lease_id example_lease \<noteq> block_id (pl_manager_id example_lease) (pl_connector_id example_lease)"
    "mg_manager_id broken_manager = pl_manager_id example_lease"
    "lq_connector_id example_request_route = pl_connector_id example_lease"
    by code_simp+
  from failed_recovery_blocks [OF rep this] show ?thesis
    unfolding Let_def by blast
qed

section \<open>The wait for the lease ends\<close>

text \<open>Once the clock of the event loop has passed the deadline, further fuel changes nothing.\<close>

lemma poll_lease_ends:
  assumes "deadline \<le> loop_time (k + n)" and "n < fuel"
  shows "poll_lease fuel k loop_time nap deadline try waited cd = poll_lease (Suc n) k loop_time nap deadline try waited cd
    \<and> fst (poll_lease (Suc n) k loop_time nap deadline try waited cd) \<noteq> Polling"
  using assms
proof (induction n arbitrary: k fuel waited cd)
  case 0
  then obtain f where "fuel = Suc f" by (cases fuel) auto
  with 0 show ?case by (auto split: prod.splits sum.splits option.splits)
next
  case (Suc n)
  then obtain f where f: "fuel = Suc f" "n < f" by (cases fuel) auto
  have "poll_lease f (Suc k) loop_time nap deadline try True c = poll_lease (Suc n) (Suc k) loop_time nap deadline try True c
      \<and> fst (poll_lease (Suc n) (Suc k) loop_time nap deadline try True c) \<noteq> Polling" for c
    using Suc.prems(1) f(2) by (intro Suc.IH) simp_all
  then show ?case
    unfolding f(1) poll_lease.simps(2) [of f] poll_lease.simps(2) [of "Suc n"]
    by (auto simp del: poll_lease.simps split: prod.split sum.split option.split bool.split)
qed

lemma steady_clock: "(\<And>k. t k + (1 :: int) \<le> t (Suc k)) \<Longrightarrow> t 0 + int n \<le> t n"
proof (induction n)
  case (Suc n)
  from Suc.prems [of n] Suc.IH [OF Suc.prems] show ?case by simp
qed simp

lemma deadline_reached:
  assumes "\<And>k. t k + (1 :: int) \<le> t (Suc k)"
  shows "t 0 + timeout \<le> t (1 + nat timeout)"
proof -
  have "t 0 + int (1 + nat timeout) \<le> t (1 + nat timeout)" using assms by (rule steady_clock)
  moreover have "timeout \<le> int (nat timeout)" by simp
  ultimately show ?thesis by linarith
qed

text \<open>C19: A lifecycle and a one-shot mutation always end. When the clock of the event loop advances by at least one
  unit with every sleep, both return, raise or are cancelled, whatever the lease table, the manager and
  the other runs do: one round more than the acquisition timeout has units is enough, and more rounds
  make no difference.\<close>

theorem lifecycle_terminates:
  assumes "\<And>k. su_loop_time U k + 1 \<le> su_loop_time U (Suc k)"
    and "nat (lq_acquire_timeout rq) < fuel" and "nat timeout < fuel'"
  shows "fst (run_lifecycle fuel U S M execute rq cd) \<noteq> None
    \<and> run_lifecycle fuel U S M execute rq cd = run_lifecycle (Suc (nat (lq_acquire_timeout rq))) U S M execute rq cd
    \<and> fst (run_serialised_mutation fuel' U S M mutate connector_id owner_id timeout ttl cd) \<noteq> None"
proof -
  have reached: "su_loop_time U 0 + x \<le> su_loop_time U (1 + nat x)" for x
    using assms(1) by (rule deadline_reached [where t = "su_loop_time U"])
  let ?n = "Suc (nat (lq_acquire_timeout rq))" and ?end_at = "su_loop_time U 0 + lq_acquire_timeout rq"
  have a: "poll_lease fuel 1 (su_loop_time U) (su_nap U) ?end_at f w c = poll_lease ?n 1 (su_loop_time U) (su_nap U) ?end_at f w c"
      "poll_lease ?n 1 (su_loop_time U) (su_nap U) ?end_at f w c \<noteq> (Polling, y)" for f w c y
    using poll_lease_ends [where loop_time = "su_loop_time U" and k = 1, OF reached assms(2), of "su_nap U" f w c] by auto
  have b: "poll_lease fuel' 1 (su_loop_time U) (su_nap U) (su_loop_time U 0 + timeout) f w c \<noteq> (Polling, y)" for f w c y
    using poll_lease_ends [where loop_time = "su_loop_time U" and k = 1, OF reached assms(3), of "su_nap U" f w c] by auto
  have same: "locked_run fuel U S M execute rq owner c = locked_run ?n U S M execute rq owner c" for owner c
    unfolding locked_run_def Let_def a(1) ..
  have locked: "fst (locked_run ?n U S M execute rq owner c) \<noteq> None" for owner c
    unfolding locked_run_def Let_def
    by (simp add: a(2) del: poll_lease.simps One_nat_def split: prod.split outcome.split lease_wait.split)
  have "fst (run_lifecycle ?n U S M execute rq cd) \<noteq> None"
    unfolding run_lifecycle_def Let_def by (simp add: locked [simplified] split: prod.split outcome.split lock_wait.split)
  moreover have "run_lifecycle fuel U S M execute rq cd = run_lifecycle ?n U S M execute rq cd"
    unfolding run_lifecycle_def Let_def same ..
  moreover have "fst (run_serialised_mutation fuel' U S M mutate connector_id owner_id timeout ttl cd) \<noteq> None"
    unfolding run_serialised_mutation_def Let_def
    by (simp add: b del: poll_lease.simps One_nat_def split: prod.split outcome.split lock_wait.split lease_wait.split)
  ultimately show ?thesis by simp
qed

theorem lifecycle_terminates_witness:
  "fst (run_lifecycle 31 example_surroundings db_backend example_route_manager (\<lambda>m. (Returned (7 :: nat), m)) example_request_route example_start) \<noteq> None"
proof -
  have "lq_acquire_timeout example_request_route = 30" by (simp add: example_request_route_def)
  then show ?thesis
    by (intro lifecycle_terminates [where timeout = 0 and fuel' = 1, THEN conjunct1]) (simp_all add: example_surroundings_def)
qed

end
