(* ===== verification/Runtime_Store.thy ===== *)
theory Runtime_Store
  imports Runtime_Models
begin

text \<open>
  The store of the runtime service (\<^verbatim>\<open>src/src/joymesh/runtime_v1/store.py\<close>): dictionaries in memory
  and, when a database is given, one table per kind of row that is only ever written.

  A column that holds JSON text holds the encoded value here. A commit that violates a primary key
  or a unique constraint raises and rolls its session back; the memory has been updated before. The
  other failures of a database are outside the model. \<open>defaultdict\<close>s are total functions.
\<close>

section \<open>Rows\<close>

text \<open>A row of \<^verbatim>\<open>runtime_tasks\<close> has no column for the correlation, mission, trace and metadata of a
  task.\<close>

record RuntimeTaskRow =
  tw_id :: string
  tw_workspace_id :: string
  tw_user_id :: string
  tw_prompt_digest :: string
  tw_prompt_size :: int
  tw_requested_capabilities :: "string list"
  tw_prohibited_capabilities :: "string list"
  tw_expanded_capabilities :: "string list"
  tw_policy_profile :: string
  tw_preferred_connectors :: "string list"
  tw_required_connector :: "string option"
  tw_preferred_providers :: "string list"
  tw_required_provider :: "string option"
  tw_preferred_nodes :: "string list"
  tw_required_node :: "string option"
  tw_timeout_seconds :: int
  tw_max_attempts :: int
  tw_status :: RuntimeTaskStatus
  tw_selected_node_id :: "string option"
  tw_selected_connector_id :: "string option"
  tw_selected_backend_id :: "string option"
  tw_selected_harness_id :: "string option"
  tw_execution_id :: "string option"
  tw_execution_decision_reason :: "string option"
  tw_execution_fallback_order :: "string list"
  tw_provider_routing_required :: bool
  tw_selected_provider_id :: "string option"
  tw_selected_provider_route_id :: "string option"
  tw_selected_provider_route_manager_id :: "string option"
  tw_selected_model_id :: "string option"
  tw_provider_selection_reason :: "string option"
  tw_approval_required :: bool
  tw_detail :: "string option"
  tw_created_at :: time
  tw_updated_at :: time

definition task_row :: "RuntimeTaskRecord \<Rightarrow> RuntimeTaskRow" where
  "task_row t =
     \<lparr>tw_id = rt_task_id t, tw_workspace_id = rt_workspace_id t, tw_user_id = rt_user_id t,
      tw_prompt_digest = rt_prompt_digest t, tw_prompt_size = rt_prompt_size t,
      tw_requested_capabilities = rt_requested_capabilities t,
      tw_prohibited_capabilities = rt_prohibited_capabilities t,
      tw_expanded_capabilities = rt_expanded_capabilities t, tw_policy_profile = rt_policy_profile t,
      tw_preferred_connectors = rt_preferred_connectors t, tw_required_connector = rt_required_connector t,
      tw_preferred_providers = rt_preferred_providers t, tw_required_provider = rt_required_provider t,
      tw_preferred_nodes = rt_preferred_nodes t, tw_required_node = rt_required_node t,
      tw_timeout_seconds = rt_timeout_seconds t, tw_max_attempts = rt_max_attempts t,
      tw_status = rt_status t, tw_selected_node_id = rt_selected_node_id t,
      tw_selected_connector_id = rt_selected_connector_id t,
      tw_selected_backend_id = rt_selected_backend_id t, tw_selected_harness_id = rt_selected_harness_id t,
      tw_execution_id = rt_execution_id t, tw_execution_decision_reason = rt_execution_decision_reason t,
      tw_execution_fallback_order = rt_execution_fallback_order t,
      tw_provider_routing_required = rt_provider_routing_required t,
      tw_selected_provider_id = rt_selected_provider_id t,
      tw_selected_provider_route_id = rt_selected_provider_route_id t,
      tw_selected_provider_route_manager_id = rt_selected_provider_route_manager_id t,
      tw_selected_model_id = rt_selected_model_id t,
      tw_provider_selection_reason = rt_provider_selection_reason t,
      tw_approval_required = rt_approval_required t, tw_detail = rt_detail t,
      tw_created_at = rt_created_at t, tw_updated_at = rt_updated_at t\<rparr>"

record RouteCandidateRow =
  cw_id :: string
  cw_task_id :: string
  cw_scheduling_round :: int
  cw_candidate :: RouteCandidate
  cw_created_at :: time

record TaskLeaseRow =
  lw_lease :: TaskLease
  lw_active_marker :: "string option"

record WorkspacePlacementRow =
  pw_id :: string
  pw_placement :: WorkspacePlacement

record RuntimeAuditEvent =
  av_event_id :: string
  av_task_id :: "string option"
  av_event_type :: string
  av_payload :: pydict
  av_created_at :: time

record RuntimeDatabase =
  db_tasks :: "string \<rightharpoonup> RuntimeTaskRow"
  db_candidates :: "RouteCandidateRow list"
  db_leases :: "TaskLeaseRow list"
  db_attempts :: "ExecutionAttempt list"
  db_placements :: "WorkspacePlacementRow list"
  db_audits :: "RuntimeAuditEvent list"

definition empty_database :: RuntimeDatabase where
  "empty_database = \<lparr>db_tasks = Map.empty, db_candidates = [], db_leases = [], db_attempts = [],
                     db_placements = [], db_audits = []\<rparr>"

record RuntimeStore =
  st_database :: "RuntimeDatabase option"
  st_tasks :: "string \<rightharpoonup> RuntimeTaskRecord"
  st_candidates :: "string \<Rightarrow> RouteCandidate list"
  st_scheduling_rounds :: "string \<Rightarrow> int"
  st_leases :: "string \<rightharpoonup> TaskLease"
  st_attempts :: "string \<Rightarrow> ExecutionAttempt list"
  st_placements :: "(string \<times> WorkspacePlacement list) list"
  st_audits :: "RuntimeAuditEvent list"
  st_events :: "string \<Rightarrow> pydict list"

definition init_RuntimeStore :: "RuntimeDatabase option \<Rightarrow> RuntimeStore" where
  "init_RuntimeStore database =
     \<lparr>st_database = database, st_tasks = Map.empty, st_candidates = (\<lambda>_. []),
      st_scheduling_rounds = (\<lambda>_. 0), st_leases = Map.empty, st_attempts = (\<lambda>_. []),
      st_placements = [], st_audits = [], st_events = (\<lambda>_. [])\<rparr>"

section \<open>Sessions\<close>

definition integrity_error :: py_error where
  "integrity_error = IntegrityError ''UNIQUE constraint failed''"

text \<open>A session whose statements are \<open>f\<close>; None is a violated constraint.\<close>

definition in_session ::
  "(RuntimeDatabase \<Rightarrow> RuntimeDatabase option) \<Rightarrow> 'a \<Rightarrow> RuntimeStore \<Rightarrow> 'a result \<times> RuntimeStore" where
  "in_session f x s =
     (case st_database s of
        None \<Rightarrow> (Inr x, s)
      | Some d \<Rightarrow>
          (case f d of
             None \<Rightarrow> (Inl integrity_error, s)
           | Some d1 \<Rightarrow> (Inr x, s\<lparr>st_database := Some d1\<rparr>)))"

definition insert_row :: "('r \<Rightarrow> 'r \<Rightarrow> bool) \<Rightarrow> 'r \<Rightarrow> 'r list \<Rightarrow> 'r list option" where
  "insert_row clash row rows = (if list_ex (clash row) rows then None else Some (rows @ [row]))"

fun insert_rows :: "('r \<Rightarrow> 'r \<Rightarrow> bool) \<Rightarrow> 'r list \<Rightarrow> 'r list \<Rightarrow> 'r list option" where
  "insert_rows clash [] rows = Some rows"
| "insert_rows clash (r # rs) rows =
     (case insert_row clash r rows of None \<Rightarrow> None | Some rows1 \<Rightarrow> insert_rows clash rs rows1)"

section \<open>Tasks\<close>

text \<open>The row is read by its key: it is added, or all its columns are assigned.\<close>

definition save_task :: "RuntimeTaskRecord \<Rightarrow> RuntimeStore \<Rightarrow> RuntimeTaskRecord result \<times> RuntimeStore" where
  "save_task task s =
     in_session (\<lambda>d. Some (d\<lparr>db_tasks := (db_tasks d)(rt_task_id task \<mapsto> task_row task)\<rparr>)) task
       (s\<lparr>st_tasks := (st_tasks s)(rt_task_id task \<mapsto> task)\<rparr>)"

definition get_task :: "RuntimeStore \<Rightarrow> string \<Rightarrow> RuntimeTaskRecord result" where
  "get_task s task_id =
     (case st_tasks s task_id of
        Some t \<Rightarrow> Inr t
      | None \<Rightarrow> Inl (KeyError (''unknown runtime task: '' @ task_id)))"

section \<open>Candidates, leases and attempts\<close>

definition candidate_clash :: "RouteCandidateRow \<Rightarrow> RouteCandidateRow \<Rightarrow> bool" where
  "candidate_clash a b \<longleftrightarrow> cw_id a = cw_id b \<or>
     (cw_task_id a = cw_task_id b \<and> cw_scheduling_round a = cw_scheduling_round b
      \<and> rc_node_id (cw_candidate a) = rc_node_id (cw_candidate b)
      \<and> rc_connector_id (cw_candidate a) = rc_connector_id (cw_candidate b))"

text \<open>\<open>ids\<close> and \<open>clocks\<close> give the identifier and the time of the i-th row.\<close>

definition save_candidates ::
  "(nat \<Rightarrow> string) \<Rightarrow> (nat \<Rightarrow> time) \<Rightarrow> string \<Rightarrow> RouteCandidate list \<Rightarrow> RuntimeStore
   \<Rightarrow> RouteCandidate list result \<times> RuntimeStore" where
  "save_candidates ids clocks task_id candidates s =
     (let round_id = st_scheduling_rounds s task_id + 1;
          rows = map (\<lambda>(i, c). \<lparr>cw_id = ids i, cw_task_id = task_id, cw_scheduling_round = round_id,
                     cw_candidate = c\<lparr>rc_certified_capabilities := sort (rc_certified_capabilities c)\<rparr>,
                     cw_created_at = clocks i\<rparr>) (List.enumerate 0 candidates)
      in in_session (\<lambda>d. map_option (\<lambda>rows. d\<lparr>db_candidates := rows\<rparr>)
                           (insert_rows candidate_clash rows (db_candidates d))) candidates
           (s\<lparr>st_scheduling_rounds := (st_scheduling_rounds s)(task_id := round_id),
              st_candidates := (st_candidates s)(task_id := candidates)\<rparr>))"

text \<open>A null marker clashes with nothing.\<close>

definition lease_clash :: "TaskLeaseRow \<Rightarrow> TaskLeaseRow \<Rightarrow> bool" where
  "lease_clash a b \<longleftrightarrow> tl_lease_id (lw_lease a) = tl_lease_id (lw_lease b) \<or>
     (tl_task_id (lw_lease a) = tl_task_id (lw_lease b) \<and> lw_active_marker a \<noteq> None
      \<and> lw_active_marker a = lw_active_marker b)"

definition clear_marker :: "string \<Rightarrow> TaskLeaseRow \<Rightarrow> TaskLeaseRow" where
  "clear_marker task_id row =
     (if tl_task_id (lw_lease row) = task_id \<and> lw_active_marker row \<noteq> None
      then row\<lparr>lw_active_marker := None, lw_lease := (lw_lease row)\<lparr>tl_status := LEASE_RELEASED\<rparr>\<rparr>
      else row)"

definition lease_row :: "TaskLease \<Rightarrow> TaskLeaseRow" where
  "lease_row lease =
     \<lparr>lw_lease = lease,
      lw_active_marker = (if tl_status lease = LEASE_ACTIVE then Some (tl_task_id lease) else None)\<rparr>"

definition save_lease :: "TaskLease \<Rightarrow> RuntimeStore \<Rightarrow> TaskLease result \<times> RuntimeStore" where
  "save_lease lease s =
     in_session (\<lambda>d. map_option (\<lambda>rows. d\<lparr>db_leases := rows\<rparr>)
                       (insert_row lease_clash (lease_row lease)
                          (map (clear_marker (tl_task_id lease)) (db_leases d)))) lease
       (s\<lparr>st_leases := (st_leases s)(tl_task_id lease \<mapsto> lease)\<rparr>)"

definition attempt_clash :: "ExecutionAttempt \<Rightarrow> ExecutionAttempt \<Rightarrow> bool" where
  "attempt_clash a b \<longleftrightarrow> ea_attempt_id a = ea_attempt_id b \<or>
     (ea_task_id a = ea_task_id b \<and> ea_attempt_number a = ea_attempt_number b)"

definition save_attempt :: "ExecutionAttempt \<Rightarrow> RuntimeStore \<Rightarrow> ExecutionAttempt result \<times> RuntimeStore" where
  "save_attempt attempt s =
     (let updated = filter (\<lambda>a. ea_attempt_id a \<noteq> ea_attempt_id attempt)
                      (st_attempts s (ea_task_id attempt)) @ [attempt]
      in in_session (\<lambda>d. map_option (\<lambda>rows. d\<lparr>db_attempts := rows\<rparr>)
                           (insert_row attempt_clash attempt (db_attempts d))) attempt
           (s\<lparr>st_attempts := (st_attempts s)(ea_task_id attempt := sort_key ea_attempt_number updated)\<rparr>))"

section \<open>Placements, audits and events\<close>

definition placements_of :: "RuntimeStore \<Rightarrow> string \<Rightarrow> WorkspacePlacement list" where
  "placements_of s workspace_id = (case map_of (st_placements s) workspace_id of None \<Rightarrow> [] | Some ps \<Rightarrow> ps)"

definition save_placement ::
  "string \<Rightarrow> WorkspacePlacement \<Rightarrow> RuntimeStore \<Rightarrow> WorkspacePlacement result \<times> RuntimeStore" where
  "save_placement uid placement s =
     (let items = filter (\<lambda>p. wp_node_id p \<noteq> wp_node_id placement)
                    (placements_of s (wp_workspace_id placement)) @ [placement]
      in in_session (\<lambda>d. map_option (\<lambda>rows. d\<lparr>db_placements := rows\<rparr>)
                           (insert_row (\<lambda>a b. pw_id a = pw_id b)
                              \<lparr>pw_id = uid, pw_placement = placement\<rparr> (db_placements d))) placement
           (s\<lparr>st_placements := AList.update (wp_workspace_id placement) items (st_placements s)\<rparr>))"

definition store_audit ::
  "string \<Rightarrow> time \<Rightarrow> string \<Rightarrow> string option \<Rightarrow> pydict \<Rightarrow> RuntimeStore \<Rightarrow> unit result \<times> RuntimeStore" where
  "store_audit uid now event_type task_id payload s =
     (let event = \<lparr>av_event_id = uid, av_task_id = task_id, av_event_type = event_type,
                   av_payload = payload, av_created_at = now\<rparr>
      in in_session (\<lambda>d. map_option (\<lambda>rows. d\<lparr>db_audits := rows\<rparr>)
                           (insert_row (\<lambda>a b. av_event_id a = av_event_id b) event (db_audits d))) ()
           (s\<lparr>st_audits := st_audits s @ [event]\<rparr>))"

text \<open>\<open>{"sequence": n, **event}\<close>: a sequence in the event replaces the number of the store.\<close>

definition store_event :: "string \<Rightarrow> pydict \<Rightarrow> RuntimeStore \<Rightarrow> RuntimeStore" where
  "store_event task_id event s =
     (let payload = dmerge [(''sequence'', PyInt (int (length (st_events s task_id)) + 1))] event
      in s\<lparr>st_events := (st_events s)(task_id := st_events s task_id @ [payload])\<rparr>)"

inductive store_step :: "RuntimeStore \<Rightarrow> RuntimeStore \<Rightarrow> bool" where
  "store_step s (snd (save_task t s))"
| "store_step s (snd (save_candidates ids clocks task_id cs s))"
| "store_step s (snd (save_lease l s))"
| "store_step s (snd (save_attempt a s))"
| "store_step s (snd (save_placement u p s))"
| "store_step s (snd (store_audit u now ty task_id payload s))"
| "store_step s (store_event task_id event s)"

section \<open>Lemmas\<close>

named_theorems store_simps \<open>effect of the store operations\<close>

lemma in_session_snd:
  "snd (in_session f x s) = (case st_database s of None \<Rightarrow> s | Some d \<Rightarrow>
     (case f d of None \<Rightarrow> s | Some d1 \<Rightarrow> s\<lparr>st_database := Some d1\<rparr>))"
  by (simp add: in_session_def split: option.splits)

lemma in_session_memory [store_simps]:
  "st_tasks (snd (in_session f x s)) = st_tasks s"
  "st_candidates (snd (in_session f x s)) = st_candidates s"
  "st_scheduling_rounds (snd (in_session f x s)) = st_scheduling_rounds s"
  "st_leases (snd (in_session f x s)) = st_leases s"
  "st_attempts (snd (in_session f x s)) = st_attempts s"
  "st_placements (snd (in_session f x s)) = st_placements s"
  "st_audits (snd (in_session f x s)) = st_audits s"
  "st_events (snd (in_session f x s)) = st_events s"
  by (simp_all add: in_session_snd split: option.splits)

lemma store_tasks [store_simps]:
  "st_tasks (snd (save_task t s)) = (st_tasks s)(rt_task_id t \<mapsto> t)"
  "st_tasks (snd (save_candidates ids clocks k cs s)) = st_tasks s"
  "st_tasks (snd (save_lease l s)) = st_tasks s"
  "st_tasks (snd (save_attempt a s)) = st_tasks s"
  "st_tasks (snd (save_placement u p s)) = st_tasks s"
  "st_tasks (snd (store_audit u now ty i payload s)) = st_tasks s"
  "st_tasks (store_event k event s) = st_tasks s"
  by (simp_all add: save_task_def save_candidates_def save_lease_def save_attempt_def save_placement_def
      store_audit_def store_event_def Let_def store_simps)

lemma store_attempts [store_simps]:
  "st_attempts (snd (save_task t s)) = st_attempts s"
  "st_attempts (snd (save_candidates ids clocks k cs s)) = st_attempts s"
  "st_attempts (snd (save_lease l s)) = st_attempts s"
  "st_attempts (snd (save_placement u p s)) = st_attempts s"
  "st_attempts (snd (store_audit u now ty i payload s)) = st_attempts s"
  "st_attempts (store_event k event s) = st_attempts s"
  by (simp_all add: save_task_def save_candidates_def save_lease_def save_placement_def
      store_audit_def store_event_def Let_def store_simps)

text \<open>The rows of the tasks are the rows of the records in memory; the leases of a task have at most
  one marker, set on an active row and equal to the task.\<close>

definition marked :: "TaskLeaseRow \<Rightarrow> bool" where
  "marked r \<longleftrightarrow> lw_active_marker r \<noteq> None"

definition marker_ok :: "TaskLeaseRow \<Rightarrow> bool" where
  "marker_ok r \<longleftrightarrow> (marked r \<longrightarrow> lw_active_marker r = Some (tl_task_id (lw_lease r)) \<and> tl_status (lw_lease r) = LEASE_ACTIVE)"

definition database_inv :: "RuntimeStore \<Rightarrow> bool" where
  "database_inv s \<longleftrightarrow> (case st_database s of None \<Rightarrow> True | Some d \<Rightarrow>
     db_tasks d = (\<lambda>k. map_option task_row (st_tasks s k))
     \<and> list_all marker_ok (db_leases d)
     \<and> distinct (map (tl_task_id \<circ> lw_lease) (filter marked (db_leases d))))"

lemma database_inv_memory:
  assumes "database_inv s" and "st_database s' = st_database s" and "st_tasks s' = st_tasks s"
  shows "database_inv s'"
  using assms by (auto simp: database_inv_def split: option.splits)

lemma database_inv_session:
  assumes "database_inv s"
    and "\<And>d d1. f d = Some d1 \<Longrightarrow> db_tasks d1 = db_tasks d \<and> db_leases d1 = db_leases d"
  shows "database_inv (snd (in_session f x s))"
  using assms by (auto simp: in_session_snd database_inv_def split: option.splits)

lemma filter_marked_clear:
  "filter marked (map (clear_marker k) rows) = filter (\<lambda>r. tl_task_id (lw_lease r) \<noteq> k) (filter marked rows)"
  by (induction rows) (auto simp: clear_marker_def marked_def)

lemma database_inv_save_lease:
  assumes "database_inv s"
  shows "database_inv (snd (save_lease l s))"
proof (cases "st_database s")
  case None
  then show ?thesis by (simp add: save_lease_def in_session_snd database_inv_def)
next
  case (Some d)
  let ?k = "tl_task_id l" and ?rows = "map (clear_marker (tl_task_id l)) (db_leases d)"
  have d: "db_tasks d = (\<lambda>k. map_option task_row (st_tasks s k))" "list_all marker_ok (db_leases d)"
    "distinct (map (tl_task_id \<circ> lw_lease) (filter marked (db_leases d)))"
    using assms Some by (simp_all add: database_inv_def)
  have ok: "list_all marker_ok ?rows"
    using d(2) by (auto simp: list_all_iff clear_marker_def marker_ok_def marked_def)
  have new: "marker_ok (lease_row l)"
    by (simp add: marker_ok_def lease_row_def marked_def)
  have dist: "distinct (map (tl_task_id \<circ> lw_lease) (filter marked ?rows))"
    and fresh: "?k \<notin> set (map (tl_task_id \<circ> lw_lease) (filter marked ?rows))"
    using distinct_map_filter [OF d(3)] unfolding filter_marked_clear by auto
  have "distinct (map (tl_task_id \<circ> lw_lease) (filter marked (?rows @ [lease_row l])))"
    using dist fresh by (simp add: lease_row_def marked_def) 
  then show ?thesis
    using d ok new Some
    by (auto simp: save_lease_def in_session_snd database_inv_def insert_row_def split: option.splits)
qed

lemma database_inv_step:
  assumes "store_step s s'" and "database_inv s"
  shows "database_inv s'"
  using assms
proof cases
  case (1 t)
  then show ?thesis
    using assms(2) by (auto simp: save_task_def in_session_snd database_inv_def split: option.splits)
next
  case (3 l)
  then show ?thesis using database_inv_save_lease [OF assms(2)] by simp
next
  case (7 k e)
  then show ?thesis
    using database_inv_memory [OF assms(2), of s'] by (simp add: store_event_def Let_def)
qed (auto simp: save_candidates_def save_attempt_def save_placement_def store_audit_def Let_def
      intro!: database_inv_session elim: database_inv_memory)

lemma database_inv_steps: "store_step\<^sup>*\<^sup>* s s' \<Longrightarrow> database_inv s \<Longrightarrow> database_inv s'"
  by (induction rule: rtranclp_induct) (auto intro: database_inv_step)

lemma database_kept: "store_step s s' \<Longrightarrow> st_database s \<noteq> None \<Longrightarrow> st_database s' \<noteq> None"
  by (induction rule: store_step.induct)
     (auto simp: save_task_def save_candidates_def save_lease_def save_attempt_def save_placement_def
        store_audit_def store_event_def Let_def in_session_snd split: option.splits)

lemma database_kept_steps: "store_step\<^sup>*\<^sup>* s s' \<Longrightarrow> st_database s \<noteq> None \<Longrightarrow> st_database s' \<noteq> None"
  by (induction rule: rtranclp_induct) (auto dest: database_kept)

lemma init_database_inv: "database_inv (init_RuntimeStore (Some empty_database))"
  by (simp add: database_inv_def init_RuntimeStore_def empty_database_def)

lemma distinct_filter_once:
  "distinct (map f (filter P xs)) \<Longrightarrow> length (filter (\<lambda>x. f x = k \<and> P x) xs) \<le> 1"
proof (induction xs)
  case (Cons x xs)
  have "filter (\<lambda>x. f x = k \<and> P x) xs = []" if "P x" "f x = k"
    using Cons.prems that by (auto simp: filter_empty_conv image_iff)
  with Cons show ?case by (cases "P x \<and> f x = k") (auto split: if_splits)
qed simp

section \<open>The interface of the tasks\<close>

text \<open>What the service relies on: a saved task is the one that is read until the next save under its
  key, whatever happened to the rows.\<close>

locale task_store =
  fixes key :: "'t \<Rightarrow> 'k" and save :: "'t \<Rightarrow> 's \<Rightarrow> 's" and fetch :: "'s \<Rightarrow> 'k \<Rightarrow> 't option"
  assumes fetch_save: "fetch (save t s) k = (if k = key t then Some t else fetch s k)"
begin

lemma fetch_saves:
  "fetch (fold save ts s) k = (case filter (\<lambda>t. key t = k) (rev ts) of [] \<Rightarrow> fetch s k | t # _ \<Rightarrow> Some t)"
  by (induction ts rule: rev_induct) (auto simp: fetch_save)

lemma last_save_wins: "fetch (fold save (ts @ [t]) s) (key t) = Some t"
  by (simp add: fetch_save)

end

interpretation runtime_tasks: task_store rt_task_id "\<lambda>t s. snd (save_task t s)" st_tasks
  by unfold_locales (simp add: store_simps)

section \<open>Properties\<close>

text \<open>C18: The database refines the memory of the tasks. Whatever operations ran, and whatever
  constraint a session violated on the way, the row of every task is the row of the record in memory
  and no other rows exist; and of the lease rows of a task at most one is marked active, on a row
  whose status is active.\<close>

theorem database_refines_memory:
  assumes "store_step\<^sup>*\<^sup>* (init_RuntimeStore (Some empty_database)) s"
  shows "\<exists>d. st_database s = Some d
    \<and> (\<forall>k. db_tasks d k = map_option task_row (st_tasks s k))
    \<and> (\<forall>k. length (filter (\<lambda>r. tl_task_id (lw_lease r) = k \<and> lw_active_marker r \<noteq> None) (db_leases d)) \<le> 1)
    \<and> (\<forall>r \<in> set (db_leases d). lw_active_marker r \<noteq> None \<longrightarrow> tl_status (lw_lease r) = LEASE_ACTIVE)"
proof -
  obtain d where d: "st_database s = Some d"
    using database_kept_steps [OF assms] by (auto simp: init_RuntimeStore_def)
  have i: "database_inv s" by (rule database_inv_steps [OF assms init_database_inv])
  have "length (filter (\<lambda>r. (tl_task_id \<circ> lw_lease) r = k \<and> marked r) (db_leases d)) \<le> 1" for k
    using i d by (intro distinct_filter_once) (simp add: database_inv_def comp_def)
  then show ?thesis
    using i d by (auto simp: database_inv_def list_all_iff marker_ok_def marked_def)
qed

definition example_lease :: TaskLease where
  "example_lease = \<lparr>tl_lease_id = ''l1'', tl_task_id = ''t1'', tl_node_id = ''n1'', tl_connector_id = ''codex'',
     tl_attempt_id = ''a1'', tl_fencing_token = 1, tl_acquired_at = 0, tl_expires_at = 60, tl_heartbeat_at = 0,
     tl_status = LEASE_ACTIVE\<rparr>"

definition example_store :: RuntimeStore where
  "example_store = snd (save_lease example_lease (snd (save_lease (example_lease\<lparr>tl_lease_id := ''l0''\<rparr>)
     (init_RuntimeStore (Some empty_database)))))"

theorem database_refines_memory_witness:
  "\<exists>d. st_database example_store = Some d
    \<and> (\<forall>k. db_tasks d k = map_option task_row (st_tasks example_store k))
    \<and> (\<forall>k. length (filter (\<lambda>r. tl_task_id (lw_lease r) = k \<and> lw_active_marker r \<noteq> None) (db_leases d)) \<le> 1)
    \<and> length (db_leases d) = 2"
proof -
  let ?s = "init_RuntimeStore (Some empty_database)"
  let ?s1 = "snd (save_lease (example_lease\<lparr>tl_lease_id := ''l0''\<rparr>) ?s)"
  have "store_step ?s ?s1" by (rule store_step.intros(3))
  moreover have "store_step ?s1 example_store"
    unfolding example_store_def by (rule store_step.intros(3))
  ultimately have "store_step\<^sup>*\<^sup>* ?s example_store"
    by (rule converse_rtranclp_into_rtranclp [OF _ r_into_rtranclp])
  from database_refines_memory [OF this] obtain d where
    d: "st_database example_store = Some d" "\<forall>k. db_tasks d k = map_option task_row (st_tasks example_store k)"
    "\<forall>k. length (filter (\<lambda>r. tl_task_id (lw_lease r) = k \<and> lw_active_marker r \<noteq> None) (db_leases d)) \<le> 1"
    by blast
  have "map_option (length \<circ> db_leases) (st_database example_store) = Some 2"
    by code_simp
  with d show ?thesis by auto
qed

end
