(* ===== verification/Execution_Models.thy ===== *)
theory Execution_Models
  imports JM_Prelude
begin

text \<open>
  The provider-neutral data of execution routing:
  \<^verbatim>\<open>src/src/joymesh/runtime_v1/execution_routing/models.py\<close>, \<^verbatim>\<open>capabilities.py\<close> and \<^verbatim>\<open>failures.py\<close>.
  Optional mappings default to the empty dictionary. The floating-point scores and the candidate list
  of a decision, which no modelled code reads, are left out of \<open>ExecutionDecision\<close>.
\<close>

section \<open>Enumerations\<close>

datatype ExecutionStatus =
    ES_PENDING | ES_PLANNED | ES_ROUTED | ES_PREPARING | ES_RUNNING | ES_SUCCEEDED | ES_FAILED
  | ES_CANCELLED | ES_BLOCKED | ES_FALLBACK

fun execution_status_value :: "ExecutionStatus \<Rightarrow> string" where
  "execution_status_value ES_PENDING = ''pending''"
| "execution_status_value ES_PLANNED = ''planned''"
| "execution_status_value ES_ROUTED = ''routed''"
| "execution_status_value ES_PREPARING = ''preparing''"
| "execution_status_value ES_RUNNING = ''running''"
| "execution_status_value ES_SUCCEEDED = ''succeeded''"
| "execution_status_value ES_FAILED = ''failed''"
| "execution_status_value ES_CANCELLED = ''cancelled''"
| "execution_status_value ES_BLOCKED = ''blocked''"
| "execution_status_value ES_FALLBACK = ''fallback''"

datatype ExecutionCapability =
    INTERNET | GPU | FILESYSTEM | PROVIDER_ROUTING | SANDBOX | STREAMING | PERSISTENT_WORKSPACE
  | EPHEMERAL_WORKSPACE | VISION | VOICE | BROWSER | MULTI_AGENT | LONG_RUNNING | REMOTE_WORKER
  | LOCAL_PROCESS

datatype ExecutionFailureClass =
    BACKEND_UNAVAILABLE | BACKEND_UNHEALTHY | CAPABILITY_CHANGED | PREPARATION_FAILURE
  | RETRYABLE_LAUNCH_FAILURE | RATE_LIMITED | QUOTA_EXHAUSTED | ENTITLEMENT_REQUIRED
  | BACKEND_NOT_ENTITLED | HARNESS_NOT_ENTITLED | INVALID_AUTHORISATION | POLICY_DENIED
  | TENANT_VIOLATION | WORKSPACE_VIOLATION | CREDENTIAL_VALIDATION_FAILURE
  | NON_RETRYABLE_USER_CODE_FAILURE | EVIDENCE_INTEGRITY_FAILURE | VERIFICATION_FAILURE
  | PROVIDER_RESTORE_FAILURE | CONNECTOR_BLOCKED | EXECUTION_CANCELLED | EXECUTION_TIMEOUT
  | PROCESS_FAILURE | UNKNOWN_FAILURE

fun failure_value :: "ExecutionFailureClass \<Rightarrow> string" where
  "failure_value BACKEND_UNAVAILABLE = ''backend_unavailable''"
| "failure_value BACKEND_UNHEALTHY = ''backend_unhealthy''"
| "failure_value CAPABILITY_CHANGED = ''capability_changed''"
| "failure_value PREPARATION_FAILURE = ''preparation_failure''"
| "failure_value RETRYABLE_LAUNCH_FAILURE = ''retryable_launch_failure''"
| "failure_value RATE_LIMITED = ''rate_limited''"
| "failure_value QUOTA_EXHAUSTED = ''quota_exhausted''"
| "failure_value ENTITLEMENT_REQUIRED = ''entitlement_required''"
| "failure_value BACKEND_NOT_ENTITLED = ''backend_not_entitled''"
| "failure_value HARNESS_NOT_ENTITLED = ''harness_not_entitled''"
| "failure_value INVALID_AUTHORISATION = ''invalid_authorisation''"
| "failure_value POLICY_DENIED = ''policy_denied''"
| "failure_value TENANT_VIOLATION = ''tenant_violation''"
| "failure_value WORKSPACE_VIOLATION = ''workspace_violation''"
| "failure_value CREDENTIAL_VALIDATION_FAILURE = ''credential_validation_failure''"
| "failure_value NON_RETRYABLE_USER_CODE_FAILURE = ''non_retryable_user_code_failure''"
| "failure_value EVIDENCE_INTEGRITY_FAILURE = ''evidence_integrity_failure''"
| "failure_value VERIFICATION_FAILURE = ''verification_failure''"
| "failure_value PROVIDER_RESTORE_FAILURE = ''provider_restore_failure''"
| "failure_value CONNECTOR_BLOCKED = ''connector_blocked''"
| "failure_value EXECUTION_CANCELLED = ''cancelled''"
| "failure_value EXECUTION_TIMEOUT = ''timeout''"
| "failure_value PROCESS_FAILURE = ''process_failure''"
| "failure_value UNKNOWN_FAILURE = ''unknown''"

definition all_failures :: "ExecutionFailureClass list" where
  "all_failures =
     [BACKEND_UNAVAILABLE, BACKEND_UNHEALTHY, CAPABILITY_CHANGED, PREPARATION_FAILURE,
      RETRYABLE_LAUNCH_FAILURE, RATE_LIMITED, QUOTA_EXHAUSTED, ENTITLEMENT_REQUIRED,
      BACKEND_NOT_ENTITLED, HARNESS_NOT_ENTITLED, INVALID_AUTHORISATION, POLICY_DENIED,
      TENANT_VIOLATION, WORKSPACE_VIOLATION, CREDENTIAL_VALIDATION_FAILURE,
      NON_RETRYABLE_USER_CODE_FAILURE, EVIDENCE_INTEGRITY_FAILURE, VERIFICATION_FAILURE,
      PROVIDER_RESTORE_FAILURE, CONNECTOR_BLOCKED, EXECUTION_CANCELLED, EXECUTION_TIMEOUT,
      PROCESS_FAILURE, UNKNOWN_FAILURE]"

definition FALLBACK_ELIGIBLE :: "ExecutionFailureClass list" where
  "FALLBACK_ELIGIBLE =
     [BACKEND_UNAVAILABLE, BACKEND_UNHEALTHY, CAPABILITY_CHANGED, PREPARATION_FAILURE,
      RETRYABLE_LAUNCH_FAILURE, RATE_LIMITED, QUOTA_EXHAUSTED]"

definition FALLBACK_FORBIDDEN :: "ExecutionFailureClass list" where
  "FALLBACK_FORBIDDEN =
     [INVALID_AUTHORISATION, POLICY_DENIED, TENANT_VIOLATION, WORKSPACE_VIOLATION,
      CREDENTIAL_VALIDATION_FAILURE, NON_RETRYABLE_USER_CODE_FAILURE, EVIDENCE_INTEGRITY_FAILURE,
      VERIFICATION_FAILURE, PROVIDER_RESTORE_FAILURE, CONNECTOR_BLOCKED, EXECUTION_CANCELLED,
      ENTITLEMENT_REQUIRED, BACKEND_NOT_ENTITLED, HARNESS_NOT_ENTITLED]"

definition may_fallback :: "ExecutionFailureClass \<Rightarrow> bool" where
  "may_fallback f = (if f \<in> set FALLBACK_FORBIDDEN then False else f \<in> set FALLBACK_ELIGIBLE)"

section \<open>Records\<close>

record ExecutionIntent =
  ei_mission_id :: string
  ei_execution_id :: string
  ei_prompt :: string
  ei_workspace_path :: string
  ei_required_capabilities :: "ExecutionCapability list"
  ei_preferred_model :: "string option"
  ei_preferred_harness :: "string option"
  ei_requires_provider_route :: bool
  ei_requires_ephemeral_workspace :: bool
  ei_estimated_runtime_seconds :: "int option"
  ei_estimated_token_usage :: "int option"
  ei_cost_preference :: string
  ei_project_id :: "string option"
  ei_organisation_id :: "string option"
  ei_workspace_ref :: "string option"
  ei_execution_authorisation_id :: "string option"
  ei_timeout_seconds :: int
  ei_locality_preference :: string
  ei_organisation_policy :: pydict
  ei_subscription_constraints :: pydict
  ei_routing_preferences :: pydict
  ei_metadata :: pydict
  ei_correlation_id :: "string option"
  ei_task_class :: "string option"
  ei_required_semantic_capabilities :: "string list"
  ei_task_analysis :: pydict

record ExecutionDecision =
  ed_execution_id :: string
  ed_selected_backend_id :: string
  ed_selected_harness_id :: string
  ed_reason :: string
  ed_fallback_order :: "string list"
  ed_provider_routing_required :: bool
  ed_retry_policy :: pydict
  ed_registry_revision :: string
  ed_decided_at :: time
  ed_selected_connector_id :: "string option"
  ed_selected_model_id :: "string option"

record ExecutionAttemptRecord =
  ar_attempt_id :: string
  ar_execution_id :: string
  ar_attempt_number :: int
  ar_backend_id :: string
  ar_harness_id :: string
  ar_started_at :: time
  ar_completed_at :: "time option"
  ar_failure_class :: "string option"
  ar_fallback_reason :: "string option"
  ar_backend_execution_ref :: "string option"
  ar_usage :: pydict
  ar_evidence_refs :: "string list"
  ar_audit_correlation_id :: "string option"
  ar_status :: string

definition attempt_as_dict :: "ExecutionAttemptRecord \<Rightarrow> pydict" where
  "attempt_as_dict r =
     [(''attempt_id'', PyStr (ar_attempt_id r)), (''execution_id'', PyStr (ar_execution_id r)),
      (''attempt_number'', PyInt (ar_attempt_number r)), (''backend_id'', PyStr (ar_backend_id r)),
      (''harness_id'', PyStr (ar_harness_id r)), (''started_at'', PyInt (ar_started_at r)),
      (''completed_at'', (case ar_completed_at r of None \<Rightarrow> PyNone | Some t \<Rightarrow> PyInt t)),
      (''failure_class'', opt_str (ar_failure_class r)),
      (''fallback_reason'', opt_str (ar_fallback_reason r)),
      (''backend_execution_ref'', opt_str (ar_backend_execution_ref r)),
      (''usage'', PyDict (ar_usage r)), (''evidence_refs'', PyList (map PyStr (ar_evidence_refs r))),
      (''audit_correlation_id'', opt_str (ar_audit_correlation_id r)), (''status'', PyStr (ar_status r))]"

record ExecutionResult =
  xr_ok :: bool
  xr_execution_id :: string
  xr_backend_id :: string
  xr_harness_id :: string
  xr_status :: ExecutionStatus
  xr_message :: string
  xr_attempted_backends :: "string list"
  xr_decision :: "ExecutionDecision option"
  xr_output :: pydict
  xr_audits :: "pydict list"
  xr_attempts :: "pydict list"
  xr_failure_class :: "string option"
  xr_usage :: pydict
  xr_evidence_refs :: "string list"
  xr_candidate_verification :: pydict
  xr_attempt_id :: "string option"
  xr_started_at :: "time option"
  xr_finished_at :: "time option"
  xr_cleanup_status :: "string option"
  xr_restore_status :: "string option"
  xr_remote_execution_ref :: "string option"
  xr_verification :: pydict

text \<open>The constructor with its six mandatory arguments; the other fields have their defaults.\<close>

definition execution_result ::
  "bool \<Rightarrow> string \<Rightarrow> string \<Rightarrow> string \<Rightarrow> ExecutionStatus \<Rightarrow> string \<Rightarrow> ExecutionResult" where
  "execution_result good eid backend harness status message =
     \<lparr>xr_ok = good, xr_execution_id = eid, xr_backend_id = backend, xr_harness_id = harness,
      xr_status = status, xr_message = message, xr_attempted_backends = [], xr_decision = None,
      xr_output = [], xr_audits = [], xr_attempts = [], xr_failure_class = None, xr_usage = [],
      xr_evidence_refs = [], xr_candidate_verification = [], xr_attempt_id = None,
      xr_started_at = None, xr_finished_at = None, xr_cleanup_status = None,
      xr_restore_status = None, xr_remote_execution_ref = None, xr_verification = []\<rparr>"

record BackendHealth =
  bh_healthy :: bool
  bh_backend_id :: string
  bh_detail :: string
  bh_capabilities :: "ExecutionCapability list"
  bh_state :: string

record BackendAuditEvent =
  ba_event_type :: string
  ba_execution_id :: string
  ba_backend_id :: "string option"
  ba_harness_id :: "string option"
  ba_reason :: "string option"
  ba_payload :: pydict
  ba_created_at :: time

definition audit_as_dict :: "BackendAuditEvent \<Rightarrow> pydict" where
  "audit_as_dict a =
     [(''event_type'', PyStr (ba_event_type a)), (''execution_id'', PyStr (ba_execution_id a)),
      (''backend_id'', opt_str (ba_backend_id a)), (''harness_id'', opt_str (ba_harness_id a)),
      (''reason'', opt_str (ba_reason a)), (''payload'', PyDict (ba_payload a)),
      (''created_at'', PyInt (ba_created_at a))]"

record BackendRegistryConfig =
  bc_enabled_backends :: "string list"
  bc_priority :: "string list"
  bc_default_backend :: "string option"
  bc_fallback_order :: "string list"
  bc_capability_overrides :: "(string \<times> ExecutionCapability list) list"
  bc_registry_revision :: string
  bc_allow_stub_backends :: bool

section \<open>Lemmas\<close>

lemma all_failures_complete: "f \<in> set all_failures"
  by (cases f) (simp_all add: all_failures_def)

lemma failure_value_inj: "failure_value f = failure_value g \<Longrightarrow> f = g"
  by (cases f; cases g) simp_all

lemma failure_lists_apart: "set FALLBACK_ELIGIBLE \<inter> set FALLBACK_FORBIDDEN = {}"
  by (simp add: FALLBACK_ELIGIBLE_def FALLBACK_FORBIDDEN_def)

lemma may_fallback_iff: "may_fallback f \<longleftrightarrow> f \<in> set FALLBACK_ELIGIBLE"
  using failure_lists_apart by (auto simp: may_fallback_def)

end
