(* ===== verification/Planning.thy ===== *)
theory Planning
  imports Capabilities Runtime_Models Execution_Models
begin

text \<open>
  From a runtime task to an execution intent:
  \<^verbatim>\<open>src/src/joymesh/runtime_v1/execution_routing/bridge.py\<close>, \<^verbatim>\<open>planner.py\<close> and the \<^verbatim>\<open>MissionSpec\<close> of
  \<^verbatim>\<open>models.py\<close>. Two functions are arguments of \<open>plan\<close>: the analysis of the prompt by regular
  expressions (\<open>analyse\<close>) and the normalisation of the routing preferences (\<open>normalise\<close>, which may
  raise); the theorems hold for all of them. A set of capabilities is a list without order.
\<close>

section \<open>Missions\<close>

record MissionSpec =
  ms_prompt :: string
  ms_workspace_path :: string
  ms_mission_id :: string
  ms_project_id :: "string option"
  ms_organisation_id :: "string option"
  ms_workspace_ref :: "string option"
  ms_execution_authorisation_id :: "string option"
  ms_preferred_model :: "string option"
  ms_preferred_harness :: "string option"
  ms_required_capabilities :: "ExecutionCapability list"
  ms_optional_capabilities :: "ExecutionCapability list"
  ms_requires_provider_route :: bool
  ms_requires_internet :: bool
  ms_requires_gpu :: bool
  ms_requires_local_filesystem :: bool
  ms_requires_ephemeral_workspace :: bool
  ms_requires_remote_worker :: bool
  ms_estimated_runtime_seconds :: "int option"
  ms_estimated_token_usage :: "int option"
  ms_cost_preference :: string
  ms_locality_preference :: string
  ms_timeout_seconds :: int
  ms_organisation_policy :: pydict
  ms_subscription_constraints :: pydict
  ms_routing_preferences :: pydict
  ms_metadata :: pydict
  ms_correlation_id :: "string option"

definition mission_spec :: "string \<Rightarrow> string \<Rightarrow> string \<Rightarrow> MissionSpec" where
  "mission_spec prompt workspace_path mission_id =
     \<lparr>ms_prompt = prompt, ms_workspace_path = workspace_path, ms_mission_id = mission_id, ms_project_id = None,
      ms_organisation_id = None, ms_workspace_ref = None, ms_execution_authorisation_id = None,
      ms_preferred_model = None, ms_preferred_harness = None, ms_required_capabilities = [],
      ms_optional_capabilities = [], ms_requires_provider_route = False, ms_requires_internet = False,
      ms_requires_gpu = False, ms_requires_local_filesystem = True, ms_requires_ephemeral_workspace = False,
      ms_requires_remote_worker = False, ms_estimated_runtime_seconds = None, ms_estimated_token_usage = None,
      ms_cost_preference = ''balanced'', ms_locality_preference = ''any'', ms_timeout_seconds = 300,
      ms_organisation_policy = [], ms_subscription_constraints = [], ms_routing_preferences = [],
      ms_metadata = [], ms_correlation_id = None\<rparr>"

section \<open>The bridge\<close>

definition map_runtime_capability :: "string \<Rightarrow> ExecutionCapability option" where
  "map_runtime_capability value =
     map_of [(''internet'', INTERNET), (''gpu'', GPU), (''filesystem'', FILESYSTEM), (''browser'', BROWSER),
             (''vision'', VISION), (''voice'', VOICE), (''multi_agent'', MULTI_AGENT)] value"

text \<open>\<^verbatim>\<open>required or first preferred\<close>; an empty required connector is not None.\<close>

definition preferred_harness_of :: "string option \<Rightarrow> string list \<Rightarrow> string option" where
  "preferred_harness_of required preferred =
     (case required of Some c \<Rightarrow> Some c | None \<Rightarrow> (case preferred of [] \<Rightarrow> None | c # _ \<Rightarrow> Some c))"

definition foreign_provider :: "string option \<Rightarrow> bool" where
  "foreign_provider p \<longleftrightarrow> (case p of None \<Rightarrow> False | Some s \<Rightarrow> s \<noteq> [] \<and> s \<notin> {''native'', ''local''})"

definition preference_dict ::
  "string list \<Rightarrow> string list \<Rightarrow> string option \<Rightarrow> string list \<Rightarrow> string option \<Rightarrow> pydict" where
  "preference_dict connectors nodes node providers provider =
     [(''preferred_connectors'', PyList (map PyStr connectors)), (''preferred_nodes'', PyList (map PyStr nodes)),
      (''required_node'', opt_str node), (''preferred_providers'', PyList (map PyStr providers)),
      (''required_provider'', opt_str provider)]"

definition or_str :: "string option \<Rightarrow> string \<Rightarrow> string" where
  "or_str x d = (case x of None \<Rightarrow> d | Some s \<Rightarrow> if s = [] then d else s)"

definition mission_spec_from_task ::
  "RuntimeTaskRecord \<Rightarrow> string \<Rightarrow> string \<Rightarrow> string option \<Rightarrow> string \<Rightarrow> bool \<Rightarrow> MissionSpec" where
  "mission_spec_from_task task prompt workspace_path workspace_ref locality remote =
     (let caps = (if rt_expanded_capabilities task \<noteq> [] then rt_expanded_capabilities task
                  else rt_requested_capabilities task)
      in (mission_spec prompt workspace_path (or_str (rt_mission_id task) (rt_task_id task)))
       \<lparr>ms_project_id := Some (rt_workspace_id task),
        ms_workspace_ref := Some (or_str workspace_ref (rt_workspace_id task)),
        ms_preferred_harness := preferred_harness_of (rt_required_connector task) (rt_preferred_connectors task),
        ms_preferred_model := rt_selected_model_id task,
        ms_required_capabilities := remdups (List.map_filter map_runtime_capability caps),
        ms_requires_provider_route := foreign_provider (rt_required_provider task),
        ms_requires_remote_worker := remote, ms_requires_local_filesystem := \<not> remote,
        ms_locality_preference := locality, ms_timeout_seconds := rt_timeout_seconds task,
        ms_routing_preferences := preference_dict (rt_preferred_connectors task) (rt_preferred_nodes task)
          (rt_required_node task) (rt_preferred_providers task) (rt_required_provider task),
        ms_organisation_policy := [(''policy_profile'', PyStr (rt_policy_profile task))],
        ms_correlation_id := Some (or_str (rt_correlation_id task) (rt_task_id task)),
        ms_metadata := dmerge (rt_metadata task)
          [(''runtime_task_id'', PyStr (rt_task_id task)), (''user_id'', PyStr (rt_user_id task)),
           (''max_attempts'', PyInt (rt_max_attempts task))]\<rparr>)"

definition mission_spec_from_request :: "RuntimeTaskRequest \<Rightarrow> string \<Rightarrow> string \<Rightarrow> bool \<Rightarrow> MissionSpec" where
  "mission_spec_from_request request workspace_path locality remote =
     (mission_spec (rq_prompt request) workspace_path (rq_task_id request))
       \<lparr>ms_project_id := Some (rq_workspace_id request), ms_workspace_ref := Some (rq_workspace_id request),
        ms_preferred_harness := preferred_harness_of (rq_required_connector request) (rq_preferred_connectors request),
        ms_requires_provider_route := foreign_provider (rq_required_provider request),
        ms_requires_remote_worker := remote, ms_requires_local_filesystem := \<not> remote,
        ms_locality_preference := locality, ms_timeout_seconds := rq_timeout_seconds request,
        ms_routing_preferences := preference_dict (rq_preferred_connectors request) (rq_preferred_nodes request)
          (rq_required_node request) (rq_preferred_providers request) (rq_required_provider request),
        ms_organisation_policy := [(''policy_profile'', PyStr (rq_policy_profile request))],
        ms_correlation_id := Some (rq_task_id request),
        ms_metadata := [(''user_id'', PyStr (rq_user_id request)), (''max_attempts'', PyInt (rq_max_attempts request))]\<rparr>"

section \<open>The planner\<close>

fun capability_value :: "ExecutionCapability \<Rightarrow> string" where
  "capability_value INTERNET = ''internet''"
| "capability_value GPU = ''gpu''"
| "capability_value FILESYSTEM = ''filesystem''"
| "capability_value PROVIDER_ROUTING = ''provider_routing''"
| "capability_value SANDBOX = ''sandbox''"
| "capability_value STREAMING = ''streaming''"
| "capability_value PERSISTENT_WORKSPACE = ''persistent_workspace''"
| "capability_value EPHEMERAL_WORKSPACE = ''ephemeral_workspace''"
| "capability_value VISION = ''vision''"
| "capability_value VOICE = ''voice''"
| "capability_value BROWSER = ''browser''"
| "capability_value MULTI_AGENT = ''multi_agent''"
| "capability_value LONG_RUNNING = ''long_running''"
| "capability_value REMOTE_WORKER = ''remote_worker''"
| "capability_value LOCAL_PROCESS = ''local_process''"

record TaskAnalysis =
  ta_task_class :: string
  ta_required_semantic :: "string list"
  ta_derived_execution_capabilities :: "ExecutionCapability list"
  ta_privacy_required :: bool
  ta_prefers_local :: bool
  ta_as_dict :: pydict

definition set_default :: "string \<Rightarrow> pyval \<Rightarrow> pydict \<Rightarrow> pydict" where
  "set_default k v d = (if has_key d k then d else d @ [(k, v)])"

definition plan_preferences :: "MissionSpec \<Rightarrow> TaskAnalysis \<Rightarrow> pydict" where
  "plan_preferences mission an =
     (let d0 = ms_routing_preferences mission;
          d1 = (if ms_cost_preference mission \<noteq> [] \<and> \<not> has_key d0 ''preset'' \<and> \<not> has_key d0 ''policy''
                then set_default ''preset'' (PyStr (ms_cost_preference mission)) d0 else d0);
          d2 = (if ms_locality_preference mission = ''local''
                then set_default ''prefer_local'' (PyBool True) d1 else d1)
      in if ta_prefers_local an \<or> ta_privacy_required an then set_default ''prefer_local'' (PyBool True) d2 else d2)"

definition plan_capabilities :: "MissionSpec \<Rightarrow> TaskAnalysis \<Rightarrow> ExecutionCapability list" where
  "plan_capabilities mission an =
     remdups (ms_required_capabilities mission @ ta_derived_execution_capabilities an
       @ (if ms_requires_internet mission then [INTERNET] else [])
       @ (if ms_requires_gpu mission then [GPU] else [])
       @ (if ms_requires_local_filesystem mission then [FILESYSTEM] else [])
       @ [if ms_requires_ephemeral_workspace mission then EPHEMERAL_WORKSPACE else PERSISTENT_WORKSPACE]
       @ (if ms_requires_provider_route mission then [PROVIDER_ROUTING] else [])
       @ (if ms_requires_remote_worker mission then [REMOTE_WORKER] else []))"

definition plan ::
  "(string \<Rightarrow> pydict \<Rightarrow> TaskAnalysis) \<Rightarrow> (pydict \<Rightarrow> pydict result) \<Rightarrow> string \<Rightarrow> MissionSpec \<Rightarrow> ExecutionIntent result" where
  "plan analyse normalise uid mission =
     (let an = analyse (ms_prompt mission) (ms_metadata mission)
      in bind_result (normalise (plan_preferences mission an)) (\<lambda>policy.
         Inr \<lparr>ei_mission_id = ms_mission_id mission, ei_execution_id = ''execution_'' @ uid,
              ei_prompt = ms_prompt mission, ei_workspace_path = ms_workspace_path mission,
              ei_required_capabilities = plan_capabilities mission an,
              ei_preferred_model = ms_preferred_model mission, ei_preferred_harness = ms_preferred_harness mission,
              ei_requires_provider_route = ms_requires_provider_route mission,
              ei_requires_ephemeral_workspace = ms_requires_ephemeral_workspace mission,
              ei_estimated_runtime_seconds = ms_estimated_runtime_seconds mission,
              ei_estimated_token_usage = ms_estimated_token_usage mission,
              ei_cost_preference = ms_cost_preference mission, ei_project_id = ms_project_id mission,
              ei_organisation_id = ms_organisation_id mission,
              ei_workspace_ref = Some (or_str (ms_workspace_ref mission) (ms_workspace_path mission)),
              ei_execution_authorisation_id = ms_execution_authorisation_id mission,
              ei_timeout_seconds = ms_timeout_seconds mission,
              ei_locality_preference = ms_locality_preference mission,
              ei_organisation_policy = ms_organisation_policy mission,
              ei_subscription_constraints = ms_subscription_constraints mission,
              ei_routing_preferences = policy, ei_metadata = ms_metadata mission,
              ei_correlation_id = ms_correlation_id mission, ei_task_class = Some (ta_task_class an),
              ei_required_semantic_capabilities = ta_required_semantic an,
              ei_task_analysis = ta_as_dict an\<rparr>))"

record ExecutionRequest =
  xq_execution_id :: string
  xq_mission_id :: string
  xq_intent :: ExecutionIntent
  xq_created_at :: time

definition request_for :: "time \<Rightarrow> ExecutionIntent \<Rightarrow> ExecutionRequest" where
  "request_for now intent =
     \<lparr>xq_execution_id = ei_execution_id intent, xq_mission_id = ei_mission_id intent, xq_intent = intent,
      xq_created_at = now\<rparr>"

section \<open>Properties\<close>

lemma set_plan_capabilities:
  "set (plan_capabilities mission an) =
     set (ms_required_capabilities mission) \<union> set (ta_derived_execution_capabilities an)
     \<union> (if ms_requires_internet mission then {INTERNET} else {}) \<union> (if ms_requires_gpu mission then {GPU} else {})
     \<union> (if ms_requires_local_filesystem mission then {FILESYSTEM} else {})
     \<union> {if ms_requires_ephemeral_workspace mission then EPHEMERAL_WORKSPACE else PERSISTENT_WORKSPACE}
     \<union> (if ms_requires_provider_route mission then {PROVIDER_ROUTING} else {})
     \<union> (if ms_requires_remote_worker mission then {REMOTE_WORKER} else {})"
  by (auto simp: plan_capabilities_def)

lemma mission_task_fields:
  "ms_requires_internet (mission_spec_from_task t p w r l remote) = False"
  "ms_requires_gpu (mission_spec_from_task t p w r l remote) = False"
  "ms_requires_ephemeral_workspace (mission_spec_from_task t p w r l remote) = False"
  "ms_requires_local_filesystem (mission_spec_from_task t p w r l remote) = (\<not> remote)"
  "ms_requires_remote_worker (mission_spec_from_task t p w r l remote) = remote"
  "ms_requires_provider_route (mission_spec_from_task t p w r l remote) = foreign_provider (rt_required_provider t)"
  "ms_mission_id (mission_spec_from_task t p w r l remote) = or_str (rt_mission_id t) (rt_task_id t)"
  "ms_metadata (mission_spec_from_task t p w r l remote) = dmerge (rt_metadata t)
     [(''runtime_task_id'', PyStr (rt_task_id t)), (''user_id'', PyStr (rt_user_id t)),
      (''max_attempts'', PyInt (rt_max_attempts t))]"
  by (simp_all add: mission_spec_from_task_def mission_spec_def)

lemma plan_fields:
  assumes "plan analyse normalise uid mission = Inr intent"
  shows "ei_execution_id intent = ''execution_'' @ uid" and "ei_mission_id intent = ms_mission_id mission"
    and "ei_metadata intent = ms_metadata mission"
    and "ei_required_capabilities intent = plan_capabilities mission (analyse (ms_prompt mission) (ms_metadata mission))"
  using assms by (auto simp: plan_def Let_def bind_result_Inr_iff)

text \<open>No identifier of the capability table is one that the bridge maps.\<close>

lemma registry_names_unmapped:
  "list_all (\<lambda>c. map_runtime_capability (fst c) = None) (CapabilityRegistry None)"
  by code_simp

lemma known_unmapped: "known (CapabilityRegistry None) c \<Longrightarrow> map_runtime_capability c = None"
  using registry_names_unmapped by (auto simp: known_def has_key_def list_all_iff)

lemma known_list_unmapped:
  "\<forall>c \<in> set cs. known (CapabilityRegistry None) c \<Longrightarrow> List.map_filter map_runtime_capability cs = []"
  by (induction cs) (auto simp: List.map_filter_simps known_unmapped)

text \<open>The capabilities of a task never reach the backends. For a task whose capabilities are all in
  the built-in table - the only ones a task may have - the planned requirements are those of the
  prompt analysis and of the placement alone: a task that uses the browser, the network or images
  requires none of them of its backend, because the bridge translates other identifiers.\<close>

theorem task_capabilities_never_required:
  assumes "\<forall>c \<in> set (rt_requested_capabilities task @ rt_expanded_capabilities task).
             known (CapabilityRegistry None) c"
    and "plan analyse normalise uid (mission_spec_from_task task prompt path ref locality remote) = Inr intent"
  shows "set (ei_required_capabilities intent) =
    set (ta_derived_execution_capabilities
          (analyse prompt (ms_metadata (mission_spec_from_task task prompt path ref locality remote))))
    \<union> {if remote then REMOTE_WORKER else FILESYSTEM, PERSISTENT_WORKSPACE}
    \<union> (if foreign_provider (rt_required_provider task) then {PROVIDER_ROUTING} else {})"
proof -
  let ?m = "mission_spec_from_task task prompt path ref locality remote"
  have "ms_required_capabilities ?m = []"
    using assms(1) by (simp add: mission_spec_from_task_def mission_spec_def known_list_unmapped)
  moreover have "ms_prompt ?m = prompt"
    by (simp add: mission_spec_from_task_def mission_spec_def)
  ultimately show ?thesis
    using plan_fields(4) [OF assms(2)] by (auto simp: set_plan_capabilities mission_task_fields)
qed

definition example_task :: RuntimeTaskRecord where
  "example_task =
     \<lparr>rt_task_id = ''t1'', rt_correlation_id = None, rt_mission_id = None, rt_trace_id = None, rt_metadata = [],
      rt_workspace_id = ''w1'', rt_user_id = ''u'', rt_prompt_digest = ''d'', rt_prompt_size = 2,
      rt_requested_capabilities = [''browser.use''], rt_prohibited_capabilities = [],
      rt_expanded_capabilities = [''browser.use'', ''network.read'', ''network.write''], rt_policy_profile = ''autonomous'',
      rt_preferred_connectors = [], rt_required_connector = None, rt_preferred_providers = [],
      rt_required_provider = None, rt_preferred_nodes = [], rt_required_node = None, rt_timeout_seconds = 300,
      rt_max_attempts = 2, rt_status = ROUTING, rt_selected_node_id = None, rt_selected_connector_id = None,
      rt_selected_backend_id = None, rt_selected_harness_id = None, rt_execution_id = None,
      rt_execution_decision_reason = None, rt_execution_fallback_order = [], rt_provider_routing_required = False,
      rt_selected_provider_id = None, rt_selected_provider_route_id = None,
      rt_selected_provider_route_manager_id = None, rt_selected_model_id = None, rt_provider_selection_reason = None,
      rt_approval_required = False, rt_created_at = 0, rt_updated_at = 0, rt_detail = None\<rparr>"

definition example_analysis :: TaskAnalysis where
  "example_analysis = \<lparr>ta_task_class = ''general'', ta_required_semantic = [],
     ta_derived_execution_capabilities = [], ta_privacy_required = False, ta_prefers_local = False, ta_as_dict = []\<rparr>"

theorem task_capabilities_never_required_witness:
  "\<exists>intent. plan (\<lambda>_ _. example_analysis) Inr ''x'' (mission_spec_from_task example_task ''go'' ''/w'' None ''local'' False)
     = Inr intent \<and> set (ei_required_capabilities intent) = {FILESYSTEM, PERSISTENT_WORKSPACE}"
proof -
  obtain intent where i: "plan (\<lambda>_ _. example_analysis) Inr ''x''
      (mission_spec_from_task example_task ''go'' ''/w'' None ''local'' False) = Inr intent"
    by (simp add: plan_def Let_def)
  have "list_all (known (CapabilityRegistry None)) (rt_requested_capabilities example_task @ rt_expanded_capabilities example_task)"
    by code_simp
  then have k: "\<forall>c \<in> set (rt_requested_capabilities example_task @ rt_expanded_capabilities example_task).
      known (CapabilityRegistry None) c" by (simp add: list_all_iff)
  show ?thesis
    using i task_capabilities_never_required [OF k i] by (simp add: example_analysis_def example_task_def foreign_provider_def)
qed

end
