(* ===== verification/Workers.thy ===== *)
theory Workers
  imports Scheduler Canonical_JSON
begin

text \<open>
  What a worker reports and how it validates a lease that was issued elsewhere
  (\<^verbatim>\<open>src/src/joymesh/runtime_v1/workers/reporting.py\<close>, \<^verbatim>\<open>contracts/workers.py\<close>). The capacity figures are
  integer-valued. A refusal is the pair of its reason code and its message
  (\<^verbatim>\<open>LeaseValidationError\<close>); a lease is given as a token, not as a mapping to be parsed.
\<close>

section \<open>Reports\<close>

record WorkerCapacityReport =
  wc_cpu :: int
  wc_ram_mb :: int
  wc_gpu :: int
  wc_disk_mb :: int
  wc_network_mbps :: int
  wc_parallel_execution_limit :: int
  wc_active_execution_count :: int

record HarnessCapabilityReport =
  hr_harness_id :: string
  hr_installed :: bool
  hr_version :: "string option"
  hr_capabilities :: "string list"
  hr_providers :: "string list"
  hr_details :: pydict

record WorkerReport =
  wr_worker_id :: string
  wr_node_id :: "string option"
  wr_platform :: "string option"
  wr_runtime_version :: "string option"
  wr_region :: "string option"
  wr_labels :: "(string \<times> string) list"
  wr_capacity :: WorkerCapacityReport
  wr_harnesses :: "HarnessCapabilityReport list"
  wr_online :: bool
  wr_session_authenticated :: bool
  wr_revoked :: bool
  wr_generation :: int
  wr_observed_at :: time
  wr_metadata :: pydict

definition harness_report :: "string \<times> SchedulerConnectorSnapshot \<Rightarrow> HarnessCapabilityReport" where
  "harness_report cc =
     \<lparr>hr_harness_id = fst cc, hr_installed = sc_installed (snd cc), hr_version = None,
      hr_capabilities = sc_certified_capabilities (snd cc), hr_providers = [],
      hr_details = [(''readiness'', PyStr (connector_state_value (sc_readiness (snd cc)))),
                    (''authenticated'', PyBool (sc_authenticated (snd cc))),
                    (''routing_enabled'', PyBool (sc_routing_enabled (snd cc)))]\<rparr>"

definition build_worker_report ::
  "SchedulerNodeSnapshot \<Rightarrow> string option \<Rightarrow> string option \<Rightarrow> string option \<Rightarrow> int \<Rightarrow> time \<Rightarrow> WorkerReport" where
  "build_worker_report snapshot region runtime_version platform generation now =
     \<lparr>wr_worker_id = sn_node_id snapshot, wr_node_id = Some (sn_node_id snapshot), wr_platform = platform,
      wr_runtime_version = runtime_version, wr_region = region, wr_labels = [(''filesystem'', ''true'')],
      wr_capacity = \<lparr>wc_cpu = 4, wc_ram_mb = 8192, wc_gpu = 0, wc_disk_mb = 102400, wc_network_mbps = 0,
                     wc_parallel_execution_limit = max 1 4, wc_active_execution_count = sn_concurrency snapshot\<rparr>,
      wr_harnesses = map harness_report (sort_key fst (sn_connectors snapshot)),
      wr_online = sn_online snapshot, wr_session_authenticated = sn_session_authenticated snapshot,
      wr_revoked = sn_revoked snapshot, wr_generation = generation, wr_observed_at = now,
      wr_metadata = [(''queue_depth'', PyInt (sn_queue_depth snapshot)),
                     (''recent_failures'', PyInt (sn_recent_failures snapshot))]\<rparr>"

record ActiveExecutionReport =
  xe_execution_id :: string
  xe_attempt_id :: "string option"
  xe_harness_id :: "string option"
  xe_started_at :: "time option"

record WorkerHeartbeat =
  wb_worker_id :: string
  wb_generation :: int
  wb_sequence :: int
  wb_observed_at :: time
  wb_capacity :: WorkerCapacityReport
  wb_active_executions :: "ActiveExecutionReport list"
  wb_harnesses :: "HarnessCapabilityReport list"
  wb_fencing_token :: "int option"
  wb_runtime_faults :: "string list"
  wb_metadata :: pydict

definition build_worker_heartbeat ::
  "WorkerReport \<Rightarrow> int \<Rightarrow> ActiveExecutionReport list \<Rightarrow> int option \<Rightarrow> string list \<Rightarrow> time option \<Rightarrow> time \<Rightarrow> WorkerHeartbeat" where
  "build_worker_heartbeat report sequence active token faults observed_at now =
     \<lparr>wb_worker_id = wr_worker_id report, wb_generation = wr_generation report, wb_sequence = sequence,
      wb_observed_at = (case observed_at of None \<Rightarrow> now | Some t \<Rightarrow> t), wb_capacity = wr_capacity report,
      wb_active_executions = active, wb_harnesses = wr_harnesses report, wb_fencing_token = token,
      wb_runtime_faults = faults, wb_metadata = wr_metadata report\<rparr>"

section \<open>Validating leases\<close>

record ExecutionLeaseToken =
  lt_lease_id :: string
  lt_worker_id :: string
  lt_execution_id :: string
  lt_attempt_id :: string
  lt_generation :: int
  lt_fencing_token :: int
  lt_expires_at :: time
  lt_issued_at :: "time option"
  lt_signature :: "string option"
  lt_metadata :: pydict

record WorkerLeaseValidator =
  lv_seen :: "string list"
  lv_last_sequence :: "string \<rightharpoonup> int"

definition init_WorkerLeaseValidator :: WorkerLeaseValidator where
  "init_WorkerLeaseValidator = \<lparr>lv_seen = [], lv_last_sequence = Map.empty\<rparr>"

type_synonym refusal = "string \<times> string"

definition replay_key :: "ExecutionLeaseToken \<Rightarrow> string" where
  "replay_key t = lt_lease_id t @ '':'' @ int_str (lt_fencing_token t) @ '':'' @ int_str (lt_generation t)"

definition validate_token ::
  "ExecutionLeaseToken \<Rightarrow> string \<Rightarrow> string option \<Rightarrow> time \<Rightarrow> string option \<Rightarrow> WorkerLeaseValidator
   \<Rightarrow> (refusal + ExecutionLeaseToken) \<times> WorkerLeaseValidator" where
  "validate_token token worker_id execution_id now expected_signature v =
     (if lt_worker_id token \<noteq> worker_id then (Inl (''wrong_worker'', ''lease worker mismatch''), v)
      else if execution_id \<noteq> None \<and> Some (lt_execution_id token) \<noteq> execution_id then
        (Inl (''wrong_execution'', ''lease execution mismatch''), v)
      else if lt_expires_at token \<le> now then (Inl (''expired'', ''lease expired''), v)
      else if expected_signature \<noteq> None \<and> lt_signature token \<noteq> expected_signature then
        (Inl (''invalid_signature'', ''lease signature mismatch''), v)
      else if replay_key token \<in> set (lv_seen v) then (Inl (''replay'', ''duplicate lease presentation''), v)
      else (Inr token, v\<lparr>lv_seen := lv_seen v @ [replay_key token]\<rparr>))"

definition accept_heartbeat_sequence ::
  "string \<Rightarrow> int \<Rightarrow> WorkerLeaseValidator \<Rightarrow> (refusal + unit) \<times> WorkerLeaseValidator" where
  "accept_heartbeat_sequence worker_id sequence v =
     (let latest = (case lv_last_sequence v worker_id of None \<Rightarrow> 0 | Some n \<Rightarrow> n)
      in if sequence \<le> latest then (Inl (''stale_sequence'', ''heartbeat sequence not monotonic''), v)
         else (Inr (), v\<lparr>lv_last_sequence := (lv_last_sequence v)(worker_id \<mapsto> sequence)\<rparr>))"

section \<open>Presenting leases one after the other\<close>

record presentation =
  pn_token :: ExecutionLeaseToken
  pn_worker_id :: string
  pn_execution_id :: "string option"
  pn_now :: time
  pn_signature :: "string option"

fun present :: "presentation list \<Rightarrow> WorkerLeaseValidator \<Rightarrow> ExecutionLeaseToken list" where
  "present [] v = []"
| "present (p # ps) v =
     (case validate_token (pn_token p) (pn_worker_id p) (pn_execution_id p) (pn_now p) (pn_signature p) v of
        (Inl _, v1) \<Rightarrow> present ps v1
      | (Inr t, v1) \<Rightarrow> t # present ps v1)"

definition lease_identity :: "ExecutionLeaseToken \<Rightarrow> string \<times> int \<times> int" where
  "lease_identity t = (lt_lease_id t, lt_fencing_token t, lt_generation t)"

section \<open>Lemmas\<close>

lemma split_last_eq:
  assumes "xs @ c # ys = xs' @ c # ys'" and "c \<notin> set ys" and "c \<notin> set ys'"
  shows "xs = xs' \<and> ys = ys'"
proof -
  have "rev ys @ c # rev xs = rev ys' @ c # rev xs'"
    using arg_cong [OF assms(1), of rev] by simp
  moreover have "takeWhile (\<lambda>x. x \<noteq> c) (rev zs @ c # w) = rev zs" if "c \<notin> set zs" for zs w
    using that by (subst takeWhile_append2) auto
  ultimately have "rev ys = rev ys'" using assms(2,3) by metis
  with assms(1) show ?thesis by simp
qed

lemma int_str_no_colon: "CHR '':'' \<notin> set (int_str i)"
proof -
  have "\<not> digit (CHR '':'')" by code_simp
  then show ?thesis
    using digits_of_ok [of "nat i"] digits_of_ok [of "nat (- i)"] by (auto simp: int_str_def)
qed

lemma replay_key_inj: "replay_key t = replay_key u \<longleftrightarrow> lease_identity t = lease_identity u"
proof
  assume "replay_key t = replay_key u"
  then have "(lt_lease_id t @ CHR '':'' # int_str (lt_fencing_token t)) @ CHR '':'' # int_str (lt_generation t)
      = (lt_lease_id u @ CHR '':'' # int_str (lt_fencing_token u)) @ CHR '':'' # int_str (lt_generation u)"
    by (simp add: replay_key_def)
  note outer = split_last_eq [OF this int_str_no_colon int_str_no_colon]
  note inner = split_last_eq [OF conjunct1 [OF outer] int_str_no_colon int_str_no_colon]
  have "i = j" if "int_str i = int_str j" for i j
    using int_str_inj [of i "[]" j "[]"] that by (simp add: delimited_def)
  then show "lease_identity t = lease_identity u"
    using outer inner by (simp add: lease_identity_def)
qed (simp add: replay_key_def lease_identity_def)

definition acceptable :: "presentation \<Rightarrow> bool" where
  "acceptable p \<longleftrightarrow> lt_worker_id (pn_token p) = pn_worker_id p \<and> pn_now p < lt_expires_at (pn_token p)
     \<and> (pn_signature p = None \<or> lt_signature (pn_token p) = pn_signature p)"

lemma present_Cons:
  "present (p # ps) v = present ps v \<or>
   acceptable p \<and> replay_key (pn_token p) \<notin> set (lv_seen v)
   \<and> present (p # ps) v = pn_token p # present ps (v\<lparr>lv_seen := lv_seen v @ [replay_key (pn_token p)]\<rparr>)"
  by (simp add: validate_token_def acceptable_def)

declare present.simps(2) [simp del]

lemma present_fresh: "t \<in> set (present ps v) \<Longrightarrow> replay_key t \<notin> set (lv_seen v)"
proof (induction ps arbitrary: v)
  case (Cons p ps)
  from present_Cons [of p ps v] show ?case
  proof
    assume "present (p # ps) v = present ps v"
    then show ?thesis using Cons by simp
  next
    let ?v = "v\<lparr>lv_seen := lv_seen v @ [replay_key (pn_token p)]\<rparr>"
    assume c: "acceptable p \<and> replay_key (pn_token p) \<notin> set (lv_seen v) \<and> present (p # ps) v = pn_token p # present ps ?v"
    then show ?thesis using Cons.IH [of ?v] Cons.prems by auto
  qed
qed simp

lemma present_distinct: "distinct (map replay_key (present ps v))"
proof (induction ps arbitrary: v)
  case (Cons p ps)
  from present_Cons [of p ps v] show ?case
  proof
    assume "present (p # ps) v = present ps v"
    then show ?thesis using Cons by simp
  next
    let ?v = "v\<lparr>lv_seen := lv_seen v @ [replay_key (pn_token p)]\<rparr>"
    assume c: "acceptable p \<and> replay_key (pn_token p) \<notin> set (lv_seen v) \<and> present (p # ps) v = pn_token p # present ps ?v"
    then have "replay_key (pn_token p) \<notin> replay_key ` set (present ps ?v)"
      using present_fresh [of _ ps ?v] by fastforce
    then show ?thesis using Cons.IH [of ?v] c by simp
  qed
qed simp

lemma present_sound: "t \<in> set (present ps v) \<Longrightarrow> \<exists>p \<in> set ps. t = pn_token p \<and> acceptable p"
proof (induction ps arbitrary: v)
  case (Cons p ps)
  have "t = pn_token p \<and> acceptable p \<or> (\<exists>v'. t \<in> set (present ps v'))"
    using present_Cons [of p ps v] Cons.prems by auto
  then show ?case using Cons.IH by auto
qed simp

section \<open>Properties\<close>

text \<open>C20: A lease is accepted at most once. However leases are presented to a worker, in any order and
  any number of times, no two accepted presentations have the same lease, fencing token and
  generation - the textual key under which presentations are remembered confuses no two of them,
  whatever the lease identifier contains - and every accepted one names this worker, has not expired
  and carries the expected signature.\<close>

theorem lease_accepted_once:
  "distinct (map lease_identity (present ps init_WorkerLeaseValidator))
   \<and> (\<forall>t \<in> set (present ps init_WorkerLeaseValidator). \<exists>p \<in> set ps. t = pn_token p \<and> lt_worker_id t = pn_worker_id p
        \<and> pn_now p < lt_expires_at t \<and> (pn_signature p = None \<or> lt_signature t = pn_signature p))"
proof -
  have "distinct (map lease_identity ts)" if "distinct (map replay_key ts)" for ts
    using that by (auto simp: distinct_map inj_on_def replay_key_inj)
  then show ?thesis
    using present_distinct present_sound [of _ ps init_WorkerLeaseValidator] by (fastforce simp: acceptable_def)
qed

definition example_token :: ExecutionLeaseToken where
  "example_token = \<lparr>lt_lease_id = ''l:1'', lt_worker_id = ''w'', lt_execution_id = ''e'', lt_attempt_id = ''a'',
     lt_generation = 1, lt_fencing_token = 7, lt_expires_at = 60, lt_issued_at = None, lt_signature = None, lt_metadata = []\<rparr>"

definition example_presentation :: "time \<Rightarrow> presentation" where
  "example_presentation now = \<lparr>pn_token = example_token, pn_worker_id = ''w'', pn_execution_id = None, pn_now = now,
     pn_signature = None\<rparr>"

theorem lease_accepted_once_witness:
  "present [example_presentation 0, example_presentation 1, example_presentation 60] init_WorkerLeaseValidator = [example_token]
   \<and> distinct (map lease_identity
       (present [example_presentation 0, example_presentation 1, example_presentation 60] init_WorkerLeaseValidator))"
proof -
  have "present [example_presentation 0, example_presentation 1, example_presentation 60] init_WorkerLeaseValidator = [example_token]"
    by (simp add: present.simps validate_token_def example_presentation_def example_token_def init_WorkerLeaseValidator_def)
  then show ?thesis
    using lease_accepted_once [of "[example_presentation 0, example_presentation 1, example_presentation 60]"] by simp
qed

end
