(* ===== verification/Coding_Worker.thy ===== *)
theory Coding_Worker
  imports Leases
begin

text \<open>
  The coding worker (\<^verbatim>\<open>src/src/joymesh/runtime_v1/coding_worker/\<close>: \<^verbatim>\<open>contracts.py\<close>, \<^verbatim>\<open>lifecycle.py\<close>,
  \<^verbatim>\<open>safety.py\<close>, \<^verbatim>\<open>executor.py\<close>): it leases a task, inspects the repository, runs the harness under
  heartbeats and reports what changed.

  A \<open>worker_host\<close> reaches what the worker shares with its surroundings in a state \<open>'s\<close>: the lease
  service, the clock, the progress callback, the file system with git, the harness adapter and the
  recognition of test commands in its output by regular expressions. A clock reading returns the
  state after it. The locale \<open>worker_laws\<close> states that readings and progress leave the leases alone.
\<close>

section \<open>Contracts\<close>

record CodingWorkerTask =
  ck_task_id :: string
  ck_mission_id :: string
  ck_execution_id :: string
  ck_correlation_id :: string
  ck_path :: string
  ck_branch :: "string option"
  ck_worktree :: "string option"
  ck_objective :: string
  ck_constraints :: "string list"
  ck_edit_files :: bool
  ck_run_tests :: bool
  ck_commit :: bool
  ck_push :: bool
  ck_worker_id :: string
  ck_lease_ttl_seconds :: int
  ck_timeout_seconds :: int

record CodingWorkerTestResult =
  kt_command :: string
  kt_status :: string
  kt_output_summary :: string

record ArtifactReference =
  kf_kind :: string
  kf_uri :: string
  kf_digest :: "string option"

record EvidenceReference =
  ke_kind :: string
  ke_uri :: string
  ke_summary :: string

record CodingWorkerResult =
  kr_task_id :: string
  kr_status :: string
  kr_summary :: string
  kr_changed_files :: "string list"
  kr_tests_run :: "CodingWorkerTestResult list"
  kr_artifacts :: "ArtifactReference list"
  kr_evidence :: "EvidenceReference list"
  kr_error :: "string option"
  kr_worker_id :: "string option"
  kr_lease_id :: "string option"
  kr_fencing_token :: "int option"
  kr_progress_events :: "string list"

definition tests_value :: "CodingWorkerTestResult list \<Rightarrow> pyval" where
  "tests_value ts =
     PyList (map (\<lambda>t. PyDict [(''command'', PyStr (kt_command t)), (''status'', PyStr (kt_status t)),
                               (''output_summary'', PyStr (kt_output_summary t))]) ts)"

definition opt_int :: "int option \<Rightarrow> pyval" where
  "opt_int x = (case x of None \<Rightarrow> PyNone | Some i \<Rightarrow> PyInt i)"

definition coding_result_as_dict :: "CodingWorkerResult \<Rightarrow> pydict" where
  "coding_result_as_dict r =
     [(''task_id'', PyStr (kr_task_id r)), (''status'', PyStr (kr_status r)), (''summary'', PyStr (kr_summary r)),
      (''changed_files'', PyList (map PyStr (kr_changed_files r))), (''tests_run'', tests_value (kr_tests_run r)),
      (''artifacts'', PyList (map (\<lambda>a. PyDict [(''kind'', PyStr (kf_kind a)), (''uri'', PyStr (kf_uri a)),
                                                 (''digest'', opt_str (kf_digest a))]) (kr_artifacts r))),
      (''evidence'', PyList (map (\<lambda>e. PyDict [(''kind'', PyStr (ke_kind e)), (''uri'', PyStr (ke_uri e)),
                                                (''summary'', PyStr (ke_summary e))]) (kr_evidence r))),
      (''error'', opt_str (kr_error r)), (''worker_id'', opt_str (kr_worker_id r)),
      (''lease_id'', opt_str (kr_lease_id r)), (''fencing_token'', opt_int (kr_fencing_token r)),
      (''progress_events'', PyList (map PyStr (kr_progress_events r)))]"

definition PUBLIC_PROGRESS_EVENTS :: "string list" where
  "PUBLIC_PROGRESS_EVENTS =
     [''Worker acquired task'', ''Repository opened'', ''Implementation started'', ''Tests running'',
      ''Verification evidence prepared'', ''Task completed'']"

section \<open>Repository safety\<close>

record RepositorySafetyReport =
  sr_path :: string
  sr_exists :: bool
  sr_is_git :: bool
  sr_branch :: "string option"
  sr_dirty :: bool
  sr_dirty_files :: "string list"
  sr_expected_branch :: "string option"
  sr_branch_ok :: bool

record filesystem =
  fs_expanduser :: "string \<Rightarrow> string"
  fs_resolve :: "string \<Rightarrow> string"
  fs_exists :: "string \<Rightarrow> bool"
  fs_is_dir :: "string \<Rightarrow> bool"
  fs_has_git :: "string \<Rightarrow> bool"
  fs_git :: "string \<Rightarrow> string list \<Rightarrow> int \<times> string"

definition git_stdout :: "filesystem \<Rightarrow> string \<Rightarrow> string list \<Rightarrow> string" where
  "git_stdout F cwd args = (case fs_git F cwd args of (rc, out) \<Rightarrow> if rc \<noteq> 0 then [] else py_strip out)"

text \<open>\<^verbatim>\<open>str.splitlines\<close>. A carriage return before a newline gives one more empty line here; the callers
  drop blank lines.\<close>

definition line_break :: "char \<Rightarrow> bool" where
  "line_break c \<longleftrightarrow> (of_char c :: nat) \<in> {10, 11, 12, 13, 28, 29, 30, 133}"

fun lines_from :: "string \<Rightarrow> string \<Rightarrow> string list" where
  "lines_from cur [] = (if cur = [] then [] else [rev cur])"
| "lines_from cur (c # s) = (if line_break c then rev cur # lines_from [] s else lines_from (c # cur) s)"

definition split_lines :: "string \<Rightarrow> string list" where
  "split_lines s = lines_from [] s"

definition status_files :: "string \<Rightarrow> string list" where
  "status_files status = map (drop 3) (filter (\<lambda>line. py_strip line \<noteq> []) (split_lines status))"

definition inspect_repository ::
  "filesystem \<Rightarrow> string \<Rightarrow> string option \<Rightarrow> string option \<Rightarrow> RepositorySafetyReport result" where
  "inspect_repository F path expected_branch expected_worktree =
     (let root = fs_expanduser F path
      in if opt_truthy expected_worktree
            \<and> fs_resolve F root \<noteq> fs_resolve F (fs_expanduser F (the expected_worktree)) then
           Inl (RepositorySafetyError ''worktree_mismatch'' ''repository path does not match expected worktree'')
         else if \<not> fs_exists F root then
           Inl (RepositorySafetyError ''repository_missing'' (''repository missing: '' @ path))
         else if \<not> fs_is_dir F root then
           Inl (RepositorySafetyError ''repository_not_dir'' (''not a directory: '' @ path))
         else
           (let resolved = fs_resolve F root; is_git = fs_has_git F resolved;
                branch = (if is_git then Some (git_stdout F resolved [''rev-parse'', ''--abbrev-ref'', ''HEAD'']) else None);
                files = (if is_git then status_files (git_stdout F resolved [''status'', ''--porcelain'']) else []);
                branch_ok = (expected_branch = None \<or> branch = expected_branch)
            in if expected_branch \<noteq> None \<and> \<not> branch_ok then
                 Inl (RepositorySafetyError ''branch_mismatch''
                   (''expected branch '' @ the expected_branch @ '', found ''
                      @ (case branch of None \<Rightarrow> ''None'' | Some b \<Rightarrow> b)))
               else Inr \<lparr>sr_path = resolved, sr_exists = True, sr_is_git = is_git, sr_branch = branch,
                         sr_dirty = (files \<noteq> []), sr_dirty_files = files,
                         sr_expected_branch = expected_branch, sr_branch_ok = branch_ok\<rparr>))"

definition list_changed_files :: "filesystem \<Rightarrow> string \<Rightarrow> string list \<Rightarrow> string list result" where
  "list_changed_files F path earlier =
     (if \<not> fs_exists F path then Inl (FileNotFoundError path)
      else let root = fs_resolve F path
           in if \<not> fs_has_git F root then Inr []
              else Inr (filter (\<lambda>f. f \<notin> set earlier)
                     (status_files (git_stdout F root [''status'', ''--porcelain'']))))"

section \<open>Lease lifecycle\<close>

record 's worker_host =
  wh_leases :: "'s \<Rightarrow> LeaseService"
  wh_set_leases :: "LeaseService \<Rightarrow> 's \<Rightarrow> 's"
  wh_now :: "'s \<Rightarrow> time \<times> 's"
  wh_fresh :: "'s \<Rightarrow> string \<times> 's"
  wh_progress :: "string \<Rightarrow> ('s, unit) action"
  wh_cancelled :: "'s \<Rightarrow> string \<Rightarrow> bool"
  wh_discard :: "string \<Rightarrow> 's \<Rightarrow> 's"
  wh_filesystem :: "'s \<Rightarrow> filesystem"
  wh_adapter :: "string \<Rightarrow> pydict \<Rightarrow> ('s, pydict) action"
  wh_tests :: "string \<Rightarrow> CodingWorkerTestResult list"

definition clock_read :: "'s worker_host \<Rightarrow> ('s, time) action" where
  "clock_read H s = (let (t, s1) = wh_now H s in (Returned t, s1))"

definition fresh_read :: "'s worker_host \<Rightarrow> ('s, string) action" where
  "fresh_read H s = (let (u, s1) = wh_fresh H s in (Returned u, s1))"

text \<open>An operation of the lease service; the service returns the new tables first.\<close>

definition lease_call ::
  "'s worker_host \<Rightarrow> (LeaseService \<Rightarrow> LeaseService \<times> 'a result) \<Rightarrow> ('s, 'a) action" where
  "lease_call H f = on_part (wh_leases H) (wh_set_leases H) (\<lambda>ls. prod.swap (f ls))"

definition handle_heartbeat :: "'s worker_host \<Rightarrow> TaskLease \<Rightarrow> ('s, TaskLease) action" where
  "handle_heartbeat H lease =
     bind_action (clock_read H) (\<lambda>c1. bind_action (clock_read H) (\<lambda>c2.
       lease_call H (\<lambda>ls. heartbeat ls (tl_task_id lease) (tl_fencing_token lease) c1 c2)))"

definition handle_release :: "'s worker_host \<Rightarrow> TaskLease \<Rightarrow> ('s, TaskLease) action" where
  "handle_release H lease =
     bind_action (clock_read H) (\<lambda>c1.
       lease_call H (\<lambda>ls. release ls (tl_task_id lease) (tl_fencing_token lease) c1))"

text \<open>None stands for \<^verbatim>\<open>CodingWorkerLeaseError\<close>.\<close>

definition acquire_exclusive_lease ::
  "'s worker_host \<Rightarrow> string \<Rightarrow> string \<Rightarrow> string \<Rightarrow> ('s, TaskLease option) action" where
  "acquire_exclusive_lease H task_id worker_id connector_id =
     bind_action (clock_read H) (\<lambda>c0.
     bind_action (lease_call H (\<lambda>ls. let (ls1, l) = active_lease ls task_id c0 in (ls1, Inr l))) (\<lambda>current.
       if (case current of None \<Rightarrow> False | Some l \<Rightarrow> tl_status l = LEASE_ACTIVE) then act None
       else
         bind_action (fresh_read H) (\<lambda>a. bind_action (clock_read H) (\<lambda>c1.
         bind_action (fresh_read H) (\<lambda>i. bind_action (clock_read H) (\<lambda>c2.
         bind_action (lease_call H (\<lambda>ls. acquire ls task_id worker_id connector_id (''coding_attempt_'' @ a) None i c1 c2))
           (\<lambda>l. act (Some l))))))))"

definition recover_stale_lease :: "LeaseService \<Rightarrow> string \<Rightarrow> time \<Rightarrow> bool \<times> LeaseService" where
  "recover_stale_lease ls task_id now =
     (let (ls1, current) = active_lease ls task_id now
      in (case current of None \<Rightarrow> True | Some l \<Rightarrow> tl_status l \<in> {LEASE_EXPIRED, LEASE_RELEASED}, ls1))"

section \<open>The executor\<close>

definition nl :: string where
  "nl = [char_of (10 :: nat)]"

definition bool_str :: "bool \<Rightarrow> string" where
  "bool_str b = (if b then ''True'' else ''False'')"

definition build_codex_prompt :: "CodingWorkerTask \<Rightarrow> string" where
  "build_codex_prompt task =
     (let items = join nl (map (\<lambda>c. ''- '' @ c) (ck_constraints task));
          constraints = (if items = [] then ''- none'' else items)
      in ''Mission ID: '' @ ck_mission_id task @ nl @ ''Correlation ID: '' @ ck_correlation_id task @ nl
         @ ''Execution ID: '' @ ck_execution_id task @ nl @ ''Task ID: '' @ ck_task_id task @ nl @ nl
         @ ''Objective:'' @ nl @ ck_objective task @ nl @ nl @ ''Constraints:'' @ nl @ constraints @ nl @ nl
         @ ''Allowed actions: ''
         @ join '', '' [''edit_files='' @ bool_str (ck_edit_files task), ''run_tests='' @ bool_str (ck_run_tests task),
                        ''commit='' @ bool_str (ck_commit task), ''push='' @ bool_str (ck_push task)] @ nl
         @ ''Do not commit or push unless commit/push are explicitly allowed.'' @ nl
         @ ''Stay inside this repository. Prefer minimal file edits and real verification.'' @ nl)"

definition worker_result ::
  "CodingWorkerTask \<Rightarrow> string \<Rightarrow> string \<Rightarrow> string option \<Rightarrow> TaskLease option \<Rightarrow> string list \<Rightarrow> CodingWorkerResult" where
  "worker_result task status summary error lease progress =
     \<lparr>kr_task_id = ck_task_id task, kr_status = status, kr_summary = summary, kr_changed_files = [],
      kr_tests_run = [], kr_artifacts = [], kr_evidence = [], kr_error = error,
      kr_worker_id = Some (if ck_worker_id task = [] then ''local-codex-worker'' else ck_worker_id task),
      kr_lease_id = map_option tl_lease_id lease, kr_fencing_token = map_option tl_fencing_token lease,
      kr_progress_events = progress\<rparr>"

text \<open>The state of a run: the surroundings and the progress so far.\<close>

type_synonym 's working = "'s \<times> string list"

definition outside :: "('s, 'a) action \<Rightarrow> ('s working, 'a) action" where
  "outside m st = (let (r, s1) = m (fst st) in (r, (s1, snd st)))"

text \<open>The label is noted before the callback is awaited, which may raise or be cancelled.\<close>

definition emit_progress :: "'s worker_host \<Rightarrow> string \<Rightarrow> ('s working, unit) action" where
  "emit_progress H label st = (let (r, s1) = wh_progress H label (fst st) in (r, (s1, snd st @ [label])))"

definition beat :: "'s worker_host \<Rightarrow> TaskLease \<Rightarrow> ('s working, TaskLease) action" where
  "beat H lease = outside (handle_heartbeat H lease)"

definition finished :: "CodingWorkerTask \<Rightarrow> string \<Rightarrow> string \<Rightarrow> string option \<Rightarrow> TaskLease \<Rightarrow> ('s working, CodingWorkerResult) action" where
  "finished task status summary error lease = read_state (\<lambda>(s, p). worker_result task status summary error (Some lease) p)"

definition unless_cancelled ::
  "'s worker_host \<Rightarrow> CodingWorkerTask \<Rightarrow> TaskLease \<Rightarrow> ('s working, CodingWorkerResult) action
   \<Rightarrow> ('s working, CodingWorkerResult) action" where
  "unless_cancelled H task lease m =
     bind_action (read_state (\<lambda>(s, p). wh_cancelled H s (ck_task_id task))) (\<lambda>c.
       if c then finished task ''cancelled'' ''task cancelled'' (Some ''cancelled'') lease else m)"

definition completed_result ::
  "CodingWorkerTask \<Rightarrow> TaskLease \<Rightarrow> RepositorySafetyReport \<Rightarrow> pydict \<Rightarrow> CodingWorkerTestResult list \<Rightarrow> string list
   \<Rightarrow> string list \<Rightarrow> CodingWorkerResult" where
  "completed_result task lease safety answer tests changed progress =
     (let good = truthy (dget_default answer ''ok'' (PyBool False));
          status = (if good then ''completed'' else ''failed'');
          summary = py_str (py_or (dget answer ''message'') (PyStr status))
      in (worker_result task status summary
            (if good then None else Some (py_str (py_or (dget answer ''failure_class'') (PyStr ''process_failure''))))
            (Some lease) progress)
         \<lparr>kr_changed_files := changed, kr_tests_run := tests,
          kr_artifacts := map (\<lambda>f. \<lparr>kf_kind = ''changed_file'', kf_uri = ''file://'' @ sr_path safety @ ''/'' @ f,
                                   kf_digest = None\<rparr>) changed,
          kr_evidence :=
            [\<lparr>ke_kind = ''coding_worker_result'', ke_uri = ''ref://joymesh/coding-worker/'' @ ck_task_id task,
              ke_summary = summary\<rparr>,
             \<lparr>ke_kind = ''changed_files'', ke_uri = ''ref://joymesh/coding-worker/'' @ ck_task_id task @ ''/files'',
              ke_summary = (if changed \<noteq> [] then join '', '' changed else ''no new changes'')\<rparr>]\<rparr>)"

definition worker_finish ::
  "'s worker_host \<Rightarrow> CodingWorkerTask \<Rightarrow> TaskLease \<Rightarrow> RepositorySafetyReport \<Rightarrow> pydict
   \<Rightarrow> ('s working, CodingWorkerResult) action" where
  "worker_finish H task lease safety answer =
     bind_action (if ck_run_tests task then emit_progress H (PUBLIC_PROGRESS_EVENTS ! 3) else act ()) (\<lambda>_.
     bind_action (beat H lease) (\<lambda>_.
     bind_action (attempt_of (to_dict (py_or (dget answer ''process'') (PyDict [])))) (\<lambda>process.
       let stdout = py_str (py_or (py_or (dget process ''stdout'') (dget process ''stdout_preview'')) (PyStr []));
           found = wh_tests H stdout;
           tests = (if found = [] \<and> ck_run_tests task then
                      [\<lparr>kt_command = ''git status --short'',
                        kt_status = (if truthy (dget answer ''ok'') then ''passed'' else ''failed''),
                        kt_output_summary = ''verification captured from worker evidence''\<rparr>] else found)
       in bind_action (\<lambda>st. attempt_of (list_changed_files (wh_filesystem H (fst st)) (sr_path safety)
                                         (sr_dirty_files safety)) st) (\<lambda>changed.
          bind_action (emit_progress H (PUBLIC_PROGRESS_EVENTS ! 4)) (\<lambda>_.
          unless_cancelled H task lease
            (bind_action (emit_progress H (if truthy (dget_default answer ''ok'' (PyBool False))
                                           then PUBLIC_PROGRESS_EVENTS ! 5 else ''Task failed'')) (\<lambda>_.
             read_state (\<lambda>(s, p). completed_result task lease safety answer tests changed p))))))))"

definition adapter_context :: "CodingWorkerTask \<Rightarrow> RepositorySafetyReport \<Rightarrow> pydict" where
  "adapter_context task safety =
     [(''execution_id'', PyStr (ck_execution_id task)), (''workspace_path'', PyStr (sr_path safety)),
      (''timeout_seconds'', PyInt (ck_timeout_seconds task)), (''read_only'', PyBool (\<not> ck_edit_files task))]"

definition worker_run ::
  "'s worker_host \<Rightarrow> CodingWorkerTask \<Rightarrow> TaskLease \<Rightarrow> RepositorySafetyReport \<Rightarrow> ('s working, CodingWorkerResult) action" where
  "worker_run H task lease safety st =
     (case outside (wh_adapter H (build_codex_prompt task) (adapter_context task safety)) st of
        (Raised (ProcessRunnerError code message), st1) \<Rightarrow>
          bind_action (beat H lease) (\<lambda>_. finished task ''failed'' message (Some code) lease) st1
      | (Raised e, st1) \<Rightarrow> (Raised e, st1)
      | (Cancelled, st1) \<Rightarrow> (Cancelled, st1)
      | (Returned answer, st1) \<Rightarrow> worker_finish H task lease safety answer st1)"

definition worker_body :: "'s worker_host \<Rightarrow> CodingWorkerTask \<Rightarrow> TaskLease \<Rightarrow> ('s working, CodingWorkerResult) action" where
  "worker_body H task lease =
     unless_cancelled H task lease
       (bind_action (\<lambda>st. attempt_of (inspect_repository (wh_filesystem H (fst st)) (ck_path task)
                                        (ck_branch task) (ck_worktree task)) st) (\<lambda>safety.
        bind_action (emit_progress H (PUBLIC_PROGRESS_EVENTS ! 1)) (\<lambda>_.
        bind_action (beat H lease) (\<lambda>_.
        if \<not> ck_edit_files task \<and> \<not> ck_run_tests task then
          fail (RepositorySafetyError ''no_actions'' ''coding worker has no allowed actions'')
        else
          bind_action (emit_progress H (PUBLIC_PROGRESS_EVENTS ! 2)) (\<lambda>_.
          bind_action (beat H lease) (\<lambda>_.
          unless_cancelled H task lease (worker_run H task lease safety)))))))"

text \<open>The \<^verbatim>\<open>except\<close> clauses, and the \<^verbatim>\<open>finally\<close> clause, which swallows the failure of the release.\<close>

definition worker_guarded :: "'s worker_host \<Rightarrow> CodingWorkerTask \<Rightarrow> TaskLease \<Rightarrow> ('s working, CodingWorkerResult) action" where
  "worker_guarded H task lease st =
     (case worker_body H task lease st of
        (Raised (RepositorySafetyError code message), st1) \<Rightarrow>
          finished task ''failed'' message (Some code) lease st1
      | (Raised e, st1) \<Rightarrow> finished task ''failed'' ''coding worker failed'' (Some (error_name e)) lease st1
      | (r, st1) \<Rightarrow> (r, st1))"

definition worker_cleanup :: "'s worker_host \<Rightarrow> CodingWorkerTask \<Rightarrow> TaskLease \<Rightarrow> 's \<Rightarrow> 's" where
  "worker_cleanup H task lease s = wh_discard H (ck_task_id task) (snd (handle_release H lease s))"

text \<open>The first report is awaited before the \<^verbatim>\<open>try\<close>: what it raises passes by the \<^verbatim>\<open>finally\<close> clause.\<close>

definition worker_execute :: "'s worker_host \<Rightarrow> CodingWorkerTask \<Rightarrow> ('s, CodingWorkerResult) action" where
  "worker_execute H task =
     bind_action (acquire_exclusive_lease H (ck_task_id task)
                    (if ck_worker_id task = [] then ''local-codex-worker'' else ck_worker_id task) ''codex'') (\<lambda>handle.
       case handle of
         None \<Rightarrow> act (worker_result task ''failed'' ''duplicate task lease prevented''
                       (Some ''duplicate task lease prevented'') None [])
       | Some lease \<Rightarrow>
           (\<lambda>s. case emit_progress H (PUBLIC_PROGRESS_EVENTS ! 0) (s, []) of
                  (Returned _, st) \<Rightarrow>
                    (let (r, st1) = worker_guarded H task lease st in (r, worker_cleanup H task lease (fst st1)))
                | (Raised e, st) \<Rightarrow> (Raised e, fst st)
                | (Cancelled, st) \<Rightarrow> (Cancelled, fst st)))"

definition task_from_runtime ::
  "string \<Rightarrow> string \<Rightarrow> string \<Rightarrow> string option \<Rightarrow> string \<Rightarrow> string option \<Rightarrow> bool \<Rightarrow> bool \<Rightarrow> int \<Rightarrow> string list
   \<Rightarrow> CodingWorkerTask" where
  "task_from_runtime task_id prompt workspace_path mission_id execution_id correlation_id allow_commit allow_push
     timeout_seconds constraints =
     \<lparr>ck_task_id = task_id, ck_mission_id = (if opt_truthy mission_id then the mission_id else task_id),
      ck_execution_id = execution_id,
      ck_correlation_id = (if opt_truthy correlation_id then the correlation_id else task_id),
      ck_path = workspace_path, ck_branch = None, ck_worktree = None, ck_objective = prompt,
      ck_constraints = (if constraints \<noteq> [] then constraints
                        else [''Do not commit'', ''Do not push'', ''Stay inside the repository'']),
      ck_edit_files = True, ck_run_tests = True, ck_commit = allow_commit, ck_push = allow_push,
      ck_worker_id = ''local-codex-worker'', ck_lease_ttl_seconds = 60, ck_timeout_seconds = timeout_seconds\<rparr>"

section \<open>Lemmas\<close>

lemma bind_returned:
  "bind_action m f s = (Returned y, s2) \<longleftrightarrow> (\<exists>x s1. m s = (Returned x, s1) \<and> f x s1 = (Returned y, s2))"
  by (auto simp: bind_action_def split: prod.splits outcome.splits)

lemma bind_raised: "fst (m s) = Raised e \<Longrightarrow> fst (bind_action m f s) = Raised e"
  by (auto simp: bind_action_def split: prod.splits)

lemma outside_returned: "outside m st = (Returned x, st1) \<longleftrightarrow> m (fst st) = (Returned x, fst st1) \<and> snd st1 = snd st"
  by (cases st1) (auto simp: outside_def split: prod.splits)

lemma finished_status:
  "finished task status summary error lease st = (r, st1) \<longleftrightarrow>
     r = Returned (worker_result task status summary error (Some lease) (snd st)) \<and> st1 = st"
  by (cases st) (auto simp: finished_def)

lemma worker_result_simps [simp]:
  "kr_status (worker_result task status summary error lease p) = status"
  "kr_changed_files (worker_result task status summary error lease p) = []"
  "kr_error (worker_result task status summary error lease p) = error"
  by (simp_all add: worker_result_def)

definition lapsed :: "'s worker_host \<Rightarrow> string \<Rightarrow> 's \<Rightarrow> bool" where
  "lapsed H task_id s \<longleftrightarrow>
     (case ls_active (wh_leases H (snd (wh_now H s))) task_id of None \<Rightarrow> True | Some l \<Rightarrow> tl_expires_at l \<le> fst (wh_now H s))"

text \<open>When the harness has returned, the lease of the task is gone or has expired by the next reading of
  the clock.\<close>

definition slow_adapter :: "'s worker_host \<Rightarrow> string \<Rightarrow> bool" where
  "slow_adapter H task_id \<longleftrightarrow> (\<forall>prompt context s answer s1 label. wh_adapter H prompt context s = (Returned answer, s1)
      \<longrightarrow> lapsed H task_id s1 \<and> lapsed H task_id (snd (wh_progress H label s1)))"

text \<open>The laws of the surroundings.\<close>

locale worker_laws =
  fixes H :: "'s worker_host"
  assumes get_set: "wh_leases H (wh_set_leases H ls s) = ls"
    and now_leases: "wh_leases H (snd (wh_now H s)) = wh_leases H s"
    and fresh_leases: "wh_leases H (snd (wh_fresh H s)) = wh_leases H s"
    and progress_leases: "wh_leases H (snd (wh_progress H label s)) = wh_leases H s"
    and discard_leases: "wh_leases H (wh_discard H k s) = wh_leases H s"
begin

lemma clock_read_leases: "clock_read H s = (r, s1) \<Longrightarrow> wh_leases H s1 = wh_leases H s"
  using now_leases [of s] by (auto simp: clock_read_def split: prod.splits)

lemma lapsed_heartbeat:
  assumes "lapsed H (tl_task_id lease) s"
  shows "fst (handle_heartbeat H lease s) = Raised (PermissionError ''no active lease'')"
proof -
  obtain c1 s1 where n1: "wh_now H s = (c1, s1)" by fastforce
  obtain c2 s2 where n2: "wh_now H s1 = (c2, s2)" by fastforce
  have "wh_leases H s2 = wh_leases H s1" using now_leases [of s1] n2 by simp
  then show ?thesis
    using assms n1 n2
    by (auto simp: handle_heartbeat_def clock_read_def lapsed_def lease_call_def on_part_def heartbeat_def active_lease_def Let_def
        split: option.splits)
qed

lemma cleanup_releases:
  assumes "ls_active (wh_leases H (worker_cleanup H task lease s)) (tl_task_id lease) = Some l"
    and "tl_fencing_token l = tl_fencing_token lease"
  shows "tl_status l = LEASE_RELEASED"
proof -
  obtain c s1 where n: "wh_now H s = (c, s1)" by fastforce
  show ?thesis
    using assms n
    by (auto simp: worker_cleanup_def discard_leases handle_release_def clock_read_def lease_call_def on_part_def get_set
        release_def active_lease_def Let_def split: option.splits if_splits prod.splits)
qed

lemma acquired_task:
  assumes "acquire_exclusive_lease H task_id w c s = (Returned (Some lease), s1)"
  shows "tl_task_id lease = task_id"
  using assms
  by (auto simp: acquire_exclusive_lease_def bind_returned lease_call_def on_part_def acquire_def Let_def
      split: if_splits prod.splits option.splits sum.splits)

lemma acquired_active:
  assumes "acquire_exclusive_lease H task_id w c s = (Returned (Some lease), s1)"
  shows "ls_active (wh_leases H s1) task_id = Some lease"
  using assms
  by (auto simp: acquire_exclusive_lease_def bind_returned lease_call_def on_part_def acquire_def get_set Let_def
      split: if_splits prod.splits option.splits sum.splits)

lemma execute_after_acquire:
  assumes "acquire_exclusive_lease H (ck_task_id task)
      (if ck_worker_id task = [] then ''local-codex-worker'' else ck_worker_id task) ''codex'' s = (Returned (Some lease), s1)"
  shows "wh_progress H (PUBLIC_PROGRESS_EVENTS ! 0) s1 = (Returned (), s2) \<Longrightarrow> worker_execute H task s =
      (let (r, st) = worker_guarded H task lease (s2, [PUBLIC_PROGRESS_EVENTS ! 0])
       in (r, worker_cleanup H task lease (fst st)))"
    and "wh_progress H (PUBLIC_PROGRESS_EVENTS ! 0) s1 = (Raised e, s2) \<Longrightarrow> worker_execute H task s = (Raised e, s2)"
    and "wh_progress H (PUBLIC_PROGRESS_EVENTS ! 0) s1 = (Cancelled, s2) \<Longrightarrow> worker_execute H task s = (Cancelled, s2)"
  using assms by (simp_all add: worker_execute_def emit_progress_def)

lemma execute_releases:
  assumes "acquire_exclusive_lease H (ck_task_id task)
      (if ck_worker_id task = [] then ''local-codex-worker'' else ck_worker_id task) ''codex'' s = (Returned (Some lease), s1)"
    and "fst (wh_progress H (PUBLIC_PROGRESS_EVENTS ! 0) s1) = Returned ()"
    and "worker_execute H task s = (r, s2)"
    and "ls_active (wh_leases H s2) (ck_task_id task) = Some l" and "tl_fencing_token l = tl_fencing_token lease"
  shows "tl_status l = LEASE_RELEASED"
proof -
  obtain s3 where "wh_progress H (PUBLIC_PROGRESS_EVENTS ! 0) s1 = (Returned (), s3)"
    using assms(2) by (metis prod.collapse)
  then obtain st where "s2 = worker_cleanup H task lease st"
    using assms(3) execute_after_acquire(1) [OF assms(1)] by (auto split: prod.splits)
  then show ?thesis
    using cleanup_releases [of task lease st l] acquired_task [OF assms(1)] assms(4,5) by simp
qed

lemma execute_leaks:
  assumes "acquire_exclusive_lease H (ck_task_id task)
      (if ck_worker_id task = [] then ''local-codex-worker'' else ck_worker_id task) ''codex'' s = (Returned (Some lease), s1)"
    and "fst (wh_progress H (PUBLIC_PROGRESS_EVENTS ! 0) s1) \<noteq> Returned ()"
    and "worker_execute H task s = (r, s2)"
  shows "(\<forall>k. r \<noteq> Returned k) \<and> ls_active (wh_leases H s2) (ck_task_id task) = Some lease"
proof -
  obtain x s3 where x: "wh_progress H (PUBLIC_PROGRESS_EVENTS ! 0) s1 = (x, s3)" by fastforce
  then have "s2 = s3" "\<forall>k. r \<noteq> Returned k"
    using assms(2,3) execute_after_acquire(2,3) [OF assms(1)] by (cases x; simp)+
  moreover have "wh_leases H s3 = wh_leases H s1" using progress_leases [of "PUBLIC_PROGRESS_EVENTS ! 0" s1] x by simp
  ultimately show ?thesis using acquired_active [OF assms(1)] by simp
qed

lemma finish_lapsed:
  assumes "lapsed H (tl_task_id lease) s" and "lapsed H (tl_task_id lease) (snd (wh_progress H (PUBLIC_PROGRESS_EVENTS ! 3) s))"
  shows "worker_finish H task lease safety answer (s, p) \<noteq> (Returned k, st1)"
proof
  assume "worker_finish H task lease safety answer (s, p) = (Returned k, st1)"
  then obtain u st2 l st3 where
      e: "(if ck_run_tests task then emit_progress H (PUBLIC_PROGRESS_EVENTS ! 3) else act ()) (s, p) = (Returned u, st2)"
    and b: "beat H lease st2 = (Returned l, st3)"
    unfolding worker_finish_def bind_returned by blast
  have "fst st2 \<in> {s, snd (wh_progress H (PUBLIC_PROGRESS_EVENTS ! 3) s)}"
    using e by (auto simp: emit_progress_def act_def split: if_splits prod.splits)
  then have "lapsed H (tl_task_id lease) (fst st2)" using assms by (elim insertE emptyE) simp_all
  with b show False
    using lapsed_heartbeat [of lease "fst st2"] by (auto simp: beat_def outside_returned)
qed

lemma run_lapsed:
  assumes slow: "slow_adapter H (tl_task_id lease)"
    and "worker_run H task lease safety st = (Returned r, st1)"
  shows "kr_status r = ''failed'' \<and> kr_changed_files r = []"
proof -
  obtain res s1 where a: "wh_adapter H (build_codex_prompt task) (adapter_context task safety) (fst st) = (res, s1)"
    by fastforce
  show ?thesis
  proof (cases res)
    case (Returned answer)
    then show ?thesis
      using finish_lapsed [of lease s1 task safety answer "snd st" r st1] slow a assms(2)
      by (simp add: worker_run_def outside_def slow_adapter_def)
  next
    case (Raised e)
    with assms(2) a show ?thesis
      by (cases e) (auto simp: worker_run_def outside_def bind_returned finished_status)
  next
    case Cancelled
    with assms(2) a show ?thesis by (simp add: worker_run_def outside_def)
  qed
qed

lemma guarded_lapsed:
  assumes slow: "slow_adapter H (tl_task_id lease)"
    and "worker_guarded H task lease st = (Returned r, st1)"
  shows "kr_status r \<noteq> ''completed'' \<and> kr_changed_files r = []"
proof -
  obtain b st2 where b: "worker_body H task lease st = (b, st2)" by (cases "worker_body H task lease st")
  show ?thesis
  proof (cases b)
    case (Returned r')
    then show ?thesis
      using b assms(2) run_lapsed [OF slow]
      by (auto simp: worker_guarded_def worker_body_def unless_cancelled_def bind_returned finished_status
          split: if_splits dest!: run_lapsed [OF slow])
  next
    case (Raised e)
    with assms(2) b show ?thesis by (cases e) (auto simp: worker_guarded_def finished_status)
  next
    case Cancelled
    with assms(2) b show ?thesis by (simp add: worker_guarded_def)
  qed
qed

lemma execute_lapsed:
  assumes slow: "slow_adapter H (ck_task_id task)"
    and run: "worker_execute H task s = (Returned r, s2)"
  shows "kr_status r \<noteq> ''completed'' \<and> kr_changed_files r = []"
proof -
  obtain h s1 where h: "acquire_exclusive_lease H (ck_task_id task)
      (if ck_worker_id task = [] then ''local-codex-worker'' else ck_worker_id task) ''codex'' s = (Returned h, s1)"
    using run by (auto simp: worker_execute_def bind_returned)
  show ?thesis
  proof (cases h)
    case None
    then show ?thesis using run h by (auto simp: worker_execute_def)
  next
    case (Some lease)
    note x = execute_after_acquire [OF h [unfolded Some]]
    obtain y s3 where y: "wh_progress H (PUBLIC_PROGRESS_EVENTS ! 0) s1 = (y, s3)" by fastforce
    have "\<exists>st. worker_guarded H task lease (s3, [PUBLIC_PROGRESS_EVENTS ! 0]) = (Returned r, st)"
      using run y x by (cases y) (auto split: prod.splits)
    then show ?thesis
      using guarded_lapsed [of lease task] slow acquired_task h Some by metis
  qed
qed

end

section \<open>Properties\<close>

text \<open>A run that outlives its lease is reported as failed, whatever it did. The worker renews the lease
  before the harness starts and after it ended, not while it runs: when the lease has expired by then -
  it lives 60 seconds by default, a run may take 300 - the renewal raises, and the run is reported as
  failed without its changed files even when the harness succeeded.\<close>

theorem slow_run_reported_failed:
  assumes "worker_laws H" and "slow_adapter H (ck_task_id task)" and "worker_execute H task s = (Returned r, s2)"
  shows "kr_status r \<noteq> ''completed'' \<and> kr_changed_files r = []"
  using worker_laws.execute_lapsed [OF assms] .

text \<open>An execution of one minute: the lease table, the clock, a repository without git and a harness that
  succeeds at the moment at which the lease expires.\<close>

definition example_files :: filesystem where
  "example_files = \<lparr>fs_expanduser = id, fs_resolve = id, fs_exists = (\<lambda>_. True), fs_is_dir = (\<lambda>_. True),
     fs_has_git = (\<lambda>_. False), fs_git = (\<lambda>_ _. (0, []))\<rparr>"

definition example_host :: "(LeaseService \<times> time) worker_host" where
  "example_host = \<lparr>wh_leases = fst, wh_set_leases = (\<lambda>ls s. (ls, snd s)), wh_now = (\<lambda>s. (snd s, s)),
     wh_fresh = (\<lambda>s. (''u'', s)), wh_progress = (\<lambda>_ s. (Returned (), s)), wh_cancelled = (\<lambda>_ _. False), wh_discard = (\<lambda>_ s. s),
     wh_filesystem = (\<lambda>_. example_files),
     wh_adapter = (\<lambda>_ _ s. (Returned [(''ok'', PyBool True)],
        (fst s, case ls_active (fst s) ''t1'' of None \<Rightarrow> snd s | Some l \<Rightarrow> tl_expires_at l))),
     wh_tests = (\<lambda>_. [])\<rparr>"

definition example_coding_task :: CodingWorkerTask where
  "example_coding_task = task_from_runtime ''t1'' ''go'' ''/w'' None ''e1'' None False False 300 []"

lemma example_laws: "worker_laws example_host"
  by unfold_locales (simp_all add: example_host_def)

lemma example_run:
  "fst (worker_execute example_host example_coding_task (init_LeaseService 60, 0)) =
     Returned (worker_result example_coding_task ''failed'' ''coding worker failed'' (Some ''PermissionError'')
       (Some \<lparr>tl_lease_id = ''u'', tl_task_id = ''t1'', tl_node_id = ''local-codex-worker'', tl_connector_id = ''codex'',
              tl_attempt_id = ''coding_attempt_u'', tl_fencing_token = 1, tl_acquired_at = 0, tl_expires_at = 60,
              tl_heartbeat_at = 0, tl_status = LEASE_ACTIVE\<rparr>)
       [''Worker acquired task'', ''Repository opened'', ''Implementation started'', ''Tests running''])"
  by code_simp

theorem slow_run_reported_failed_witness:
  "\<exists>r s2. worker_execute example_host example_coding_task (init_LeaseService 60, 0) = (Returned r, s2)
     \<and> kr_status r \<noteq> ''completed'' \<and> kr_error r = Some ''PermissionError''"
proof -
  obtain r s2 where r: "worker_execute example_host example_coding_task (init_LeaseService 60, 0) = (Returned r, s2)"
    and e: "kr_error r = Some ''PermissionError''"
    using example_run by (cases "worker_execute example_host example_coding_task (init_LeaseService 60, 0)") auto
  have "slow_adapter example_host (ck_task_id example_coding_task)"
    by (simp add: slow_adapter_def lapsed_def example_host_def example_coding_task_def task_from_runtime_def split: option.splits)
  from slow_run_reported_failed [OF example_laws this r] r e show ?thesis by blast
qed

text \<open>C21: The worker gives its lease back on every path after its first report. Once a task has been
  leased and the first progress callback has returned, whatever the execution does - it returns, it
  raises or it is cancelled, in a later callback too - the lease with the token of this execution is
  released afterwards, unless another holder has superseded it. When the first callback raises or is
  cancelled, the execution ends without a result and its lease stays in the table as it was acquired.\<close>

theorem worker_releases_lease:
  assumes "worker_laws H"
    and "acquire_exclusive_lease H (ck_task_id task)
           (if ck_worker_id task = [] then ''local-codex-worker'' else ck_worker_id task) ''codex'' s
         = (Returned (Some lease), s1)"
    and "worker_execute H task s = (r, s2)"
  shows "if fst (wh_progress H (PUBLIC_PROGRESS_EVENTS ! 0) s1) = Returned ()
    then \<forall>l. ls_active (wh_leases H s2) (ck_task_id task) = Some l \<and> tl_fencing_token l = tl_fencing_token lease
           \<longrightarrow> tl_status l = LEASE_RELEASED
    else (\<forall>k. r \<noteq> Returned k) \<and> ls_active (wh_leases H s2) (ck_task_id task) = Some lease"
  using worker_laws.execute_releases [OF assms(1,2) _ assms(3)] worker_laws.execute_leaks [OF assms(1,2) _ assms(3)]
  by simp

lemma example_released:
  "map_option (\<lambda>l. (tl_fencing_token l, tl_status l))
     (ls_active (fst (snd (worker_execute example_host example_coding_task (init_LeaseService 60, 0)))) ''t1'')
   = Some (1, LEASE_RELEASED)"
  by code_simp

lemma example_acquired:
  "fst (acquire_exclusive_lease example_host ''t1'' ''local-codex-worker'' ''codex'' (init_LeaseService 60, 0)) =
     Returned (Some \<lparr>tl_lease_id = ''u'', tl_task_id = ''t1'', tl_node_id = ''local-codex-worker'', tl_connector_id = ''codex'',
              tl_attempt_id = ''coding_attempt_u'', tl_fencing_token = 1, tl_acquired_at = 0, tl_expires_at = 60,
              tl_heartbeat_at = 0, tl_status = LEASE_ACTIVE\<rparr>)"
  by code_simp

lemma example_progress: "wh_progress example_host label s = (Returned (), s)"
  by (simp add: example_host_def)

text \<open>A host whose progress callback raises.\<close>

definition failing_host :: "(LeaseService \<times> time) worker_host" where
  "failing_host = example_host\<lparr>wh_progress := (\<lambda>_ s. (Raised (RuntimeError ''report''), s))\<rparr>"

lemma failing_laws: "worker_laws failing_host"
  by unfold_locales (simp_all add: failing_host_def example_host_def)

lemma failing_acquired:
  "fst (acquire_exclusive_lease failing_host ''t1'' ''local-codex-worker'' ''codex'' (init_LeaseService 60, 0)) =
     Returned (Some \<lparr>tl_lease_id = ''u'', tl_task_id = ''t1'', tl_node_id = ''local-codex-worker'', tl_connector_id = ''codex'',
              tl_attempt_id = ''coding_attempt_u'', tl_fencing_token = 1, tl_acquired_at = 0, tl_expires_at = 60,
              tl_heartbeat_at = 0, tl_status = LEASE_ACTIVE\<rparr>)"
  by code_simp

theorem worker_releases_lease_witness:
  "(\<exists>l. ls_active (fst (snd (worker_execute example_host example_coding_task (init_LeaseService 60, 0)))) ''t1'' = Some l
     \<and> tl_status l = LEASE_RELEASED)
   \<and> (\<exists>l. ls_active (fst (snd (worker_execute failing_host example_coding_task (init_LeaseService 60, 0)))) ''t1'' = Some l
     \<and> tl_status l = LEASE_ACTIVE)" (is "?released \<and> ?leaked")
proof
  have k: "ck_task_id example_coding_task = ''t1''" "ck_worker_id example_coding_task = ''local-codex-worker''"
    by (simp_all add: example_coding_task_def task_from_runtime_def)
  obtain lease s1 where a: "acquire_exclusive_lease failing_host ''t1'' ''local-codex-worker'' ''codex'' (init_LeaseService 60, 0)
      = (Returned (Some lease), s1)" and t: "tl_status lease = LEASE_ACTIVE"
    using failing_acquired
    by (cases "acquire_exclusive_lease failing_host ''t1'' ''local-codex-worker'' ''codex'' (init_LeaseService 60, 0)") auto
  obtain r s2 where r: "worker_execute failing_host example_coding_task (init_LeaseService 60, 0) = (r, s2)"
    by (cases "worker_execute failing_host example_coding_task (init_LeaseService 60, 0)")
  have "ls_active (wh_leases failing_host s2) ''t1'' = Some lease"
    using worker_releases_lease [OF failing_laws, of example_coding_task "(init_LeaseService 60, 0)" lease s1 r s2]
      a r k by (simp add: failing_host_def)
  then show ?leaked using r t by (simp add: failing_host_def example_host_def)
  obtain lease s1 where a: "acquire_exclusive_lease example_host ''t1'' ''local-codex-worker'' ''codex'' (init_LeaseService 60, 0)
      = (Returned (Some lease), s1)" and t: "tl_fencing_token lease = 1"
    using example_acquired
    by (cases "acquire_exclusive_lease example_host ''t1'' ''local-codex-worker'' ''codex'' (init_LeaseService 60, 0)") auto
  obtain r s2 where r: "worker_execute example_host example_coding_task (init_LeaseService 60, 0) = (r, s2)"
    by (cases "worker_execute example_host example_coding_task (init_LeaseService 60, 0)")
  obtain l where l: "ls_active (wh_leases example_host s2) ''t1'' = Some l" "tl_fencing_token l = 1"
    using example_released r by (auto simp: example_host_def)
  have k: "ck_task_id example_coding_task = ''t1''" "ck_worker_id example_coding_task = ''local-codex-worker''"
    by (simp_all add: example_coding_task_def task_from_runtime_def)
  have "tl_status l = LEASE_RELEASED"
    using worker_releases_lease [OF example_laws, of example_coding_task "(init_LeaseService 60, 0)" lease s1 r s2]
      a r l t k by (simp add: example_progress)
  then show ?released using l r by (simp add: example_host_def)
qed

lemma lines_from_plain:
  "\<forall>c \<in> set w. \<not> line_break c \<Longrightarrow> lines_from cur (w @ s) = lines_from (rev w @ cur) s"
  by (induction w arbitrary: cur) auto

lemma space_line_break: "line_break c \<Longrightarrow> space c"
  by (auto simp: line_break_def space_def)

lemma strip_end:
  assumes "w \<noteq> []" and "\<not> P (last w)"
  shows "rev (dropWhile P (rev (w @ x))) = w @ rev (dropWhile P (rev x))"
proof -
  have "dropWhile P (rev w) = rev w" using assms by (cases w rule: rev_cases) auto
  then show ?thesis by (auto simp: dropWhile_append)
qed

lemma strip_end_head: "rev (dropWhile P (rev (c # x))) = [] \<or> hd (rev (dropWhile P (rev (c # x)))) = c"
  by (auto simp: dropWhile_append hd_rev last_rev split: if_splits)

lemma status_first_file:
  assumes "name \<noteq> []" and "\<forall>c \<in> set name. \<not> space c"
  shows "\<exists>fs. status_files (py_strip ('' M '' @ name @ nl @ rest)) = tl name # fs"
proof -
  let ?w = "''M '' @ name"
  define v where "v = rev (dropWhile space (rev (nl @ rest)))"
  have sp: "space (CHR '' '')" "\<not> space (CHR ''M'')" by code_simp+
  have "\<not> space (last ?w)" using assms by (simp add: last_append)
  then have "rev (dropWhile space (rev (?w @ nl @ rest))) = ?w @ v" unfolding v_def by (intro strip_end) simp_all
  then have strip: "py_strip ('' M '' @ name @ nl @ rest) = ?w @ v"
    using sp by (simp add: py_strip_def)
  have "\<not> line_break (CHR ''M'')" "\<not> line_break (CHR '' '')" by code_simp+
  then have lb: "line_break (char_of (10 :: nat))" "\<forall>c \<in> set ?w. \<not> line_break c"
    using assms(2) space_line_break by (auto simp: line_break_def [of "char_of 10"])
  have "v = [] \<or> hd v = char_of (10 :: nat)"
    using strip_end_head [of space "char_of (10 :: nat)" rest] unfolding v_def nl_def by simp
  then have "\<exists>ls. split_lines (?w @ v) = ?w # ls"
    using lb(1) unfolding split_lines_def lines_from_plain [OF lb(2)] by (cases v) auto
  then obtain ls where "split_lines (?w @ v) = ?w # ls" by blast
  moreover have "py_strip ?w \<noteq> []"
    using sp strip_end [of ?w space "[]"] \<open>\<not> space (last ?w)\<close> by (simp add: py_strip_def)
  ultimately show ?thesis
    using assms(1) unfolding strip status_files_def by (cases name) auto
qed

text \<open>The first changed file is reported under a wrong name. The output of git is stripped before its
  lines are read: for a modified, unstaged file on the first line the leading blank of the status
  column is lost with it, and the name that is cut out misses its first character.\<close>

theorem first_changed_file_misnamed:
  assumes "fs_git F (fs_resolve F path) [''status'', ''--porcelain''] = (0, '' M '' @ name @ nl @ rest)"
    and "name \<noteq> []" and "\<forall>c \<in> set name. \<not> space c"
    and "fs_exists F path" and "fs_has_git F (fs_resolve F path)"
  shows "\<exists>files. list_changed_files F path [] = Inr (tl name # files)"
  using status_first_file [OF assms(2,3), of rest] assms(1,4,5)
  by (simp add: list_changed_files_def git_stdout_def)

theorem first_changed_file_misnamed_witness:
  "\<exists>files. list_changed_files (example_files\<lparr>fs_has_git := \<lambda>_. True, fs_git := \<lambda>_ _. (0, '' M src/a.py'' @ nl @ ''?? b'')\<rparr>)
     ''/w'' [] = Inr (''rc/a.py'' # files)"
proof -
  have n: "\<forall>c \<in> set ''src/a.py''. \<not> space c" by code_simp
  show ?thesis
    using first_changed_file_misnamed [of "example_files\<lparr>fs_has_git := \<lambda>_. True, fs_git := \<lambda>_ _. (0, '' M src/a.py'' @ nl @ ''?? b'')\<rparr>"
      "''/w''" "''src/a.py''" "''?? b''", OF _ _ n]
    by (simp add: example_files_def)
qed

end
