(* ===== verification/Completion_Models.thy ===== *)
theory Completion_Models
  imports Execution_Models
begin

text \<open>
  States, records and the record store of the execution-completion subsystem
  (\<^verbatim>\<open>src/src/joymesh/runtime_v1/completion/states.py\<close>, \<^verbatim>\<open>models.py\<close>, \<^verbatim>\<open>store.py\<close>).
  Events and graph nodes are the dictionaries the code builds. Identifier defaults and clock
  defaults of the constructors are supplied by the code that builds a value.
\<close>

section \<open>Enumerations\<close>

datatype CompletionLifecycleState =
    CS_QUEUED | CS_ROUTING | CS_PREPARING | CS_RUNNING | CS_BACKEND_COMPLETED | CS_EVIDENCE_PENDING
  | CS_EVIDENCE_ACCEPTED | CS_VERIFICATION_PENDING | CS_VERIFYING | CS_VERIFIED | CS_FINALISING
  | CS_COMPLETED | CS_FAILED | CS_BLOCKED | CS_CANCELLED | CS_TIMED_OUT

fun completion_state_value :: "CompletionLifecycleState \<Rightarrow> string" where
  "completion_state_value CS_QUEUED = ''queued''"
| "completion_state_value CS_ROUTING = ''routing''"
| "completion_state_value CS_PREPARING = ''preparing''"
| "completion_state_value CS_RUNNING = ''running''"
| "completion_state_value CS_BACKEND_COMPLETED = ''backend_completed''"
| "completion_state_value CS_EVIDENCE_PENDING = ''evidence_pending''"
| "completion_state_value CS_EVIDENCE_ACCEPTED = ''evidence_accepted''"
| "completion_state_value CS_VERIFICATION_PENDING = ''verification_pending''"
| "completion_state_value CS_VERIFYING = ''verifying''"
| "completion_state_value CS_VERIFIED = ''verified''"
| "completion_state_value CS_FINALISING = ''finalising''"
| "completion_state_value CS_COMPLETED = ''completed''"
| "completion_state_value CS_FAILED = ''failed''"
| "completion_state_value CS_BLOCKED = ''blocked''"
| "completion_state_value CS_CANCELLED = ''cancelled''"
| "completion_state_value CS_TIMED_OUT = ''timed_out''"

definition TERMINAL_COMPLETION_STATES :: "CompletionLifecycleState list" where
  "TERMINAL_COMPLETION_STATES = [CS_COMPLETED, CS_FAILED, CS_BLOCKED, CS_CANCELLED, CS_TIMED_OUT]"

definition RESUMABLE_COMPLETION_STATES :: "CompletionLifecycleState list" where
  "RESUMABLE_COMPLETION_STATES =
     [CS_BACKEND_COMPLETED, CS_EVIDENCE_PENDING, CS_EVIDENCE_ACCEPTED, CS_VERIFICATION_PENDING,
      CS_VERIFYING, CS_FINALISING]"

datatype EvidenceTrustClassification =
    UNTRUSTED_BACKEND_OUTPUT | TRUST_DECLARED | TRUST_ACCEPTED | TRUST_VERIFIED | TRUST_REJECTED

fun trust_value :: "EvidenceTrustClassification \<Rightarrow> string" where
  "trust_value UNTRUSTED_BACKEND_OUTPUT = ''untrusted_backend_output''"
| "trust_value TRUST_DECLARED = ''declared''"
| "trust_value TRUST_ACCEPTED = ''accepted''"
| "trust_value TRUST_VERIFIED = ''verified''"
| "trust_value TRUST_REJECTED = ''rejected''"

datatype VerificationOutcome =
    VO_VERIFIED | VO_FAILED | VO_INCONCLUSIVE | VO_BLOCKED | VO_CANCELLED | VO_VERIFICATION_ERROR
  | VO_PENDING_HUMAN_APPROVAL

fun verification_outcome_value :: "VerificationOutcome \<Rightarrow> string" where
  "verification_outcome_value VO_VERIFIED = ''verified''"
| "verification_outcome_value VO_FAILED = ''failed''"
| "verification_outcome_value VO_INCONCLUSIVE = ''inconclusive''"
| "verification_outcome_value VO_BLOCKED = ''blocked''"
| "verification_outcome_value VO_CANCELLED = ''cancelled''"
| "verification_outcome_value VO_VERIFICATION_ERROR = ''verification_error''"
| "verification_outcome_value VO_PENDING_HUMAN_APPROVAL = ''pending_human_approval''"

datatype EvidenceRejectionReason =
    IDENTITY_MISMATCH | WRONG_TENANT | WRONG_PROJECT | WRONG_MISSION | WRONG_EXECUTION | WRONG_ATTEMPT
  | INVALID_SEQUENCE | DUPLICATE_CONFLICTING | UNSUPPORTED_TYPE | OVERSIZED | INVALID_CONTENT_HASH
  | MISSING_PROVENANCE | ER_STALE_ATTEMPT | LATE_AFTER_TERMINAL | CANCELLED_EXECUTION

fun rejection_value :: "EvidenceRejectionReason \<Rightarrow> string" where
  "rejection_value IDENTITY_MISMATCH = ''identity_mismatch''"
| "rejection_value WRONG_TENANT = ''wrong_tenant''"
| "rejection_value WRONG_PROJECT = ''wrong_project''"
| "rejection_value WRONG_MISSION = ''wrong_mission''"
| "rejection_value WRONG_EXECUTION = ''wrong_execution''"
| "rejection_value WRONG_ATTEMPT = ''wrong_attempt''"
| "rejection_value INVALID_SEQUENCE = ''invalid_sequence''"
| "rejection_value DUPLICATE_CONFLICTING = ''duplicate_conflicting''"
| "rejection_value UNSUPPORTED_TYPE = ''unsupported_evidence_type''"
| "rejection_value OVERSIZED = ''oversized_evidence''"
| "rejection_value INVALID_CONTENT_HASH = ''invalid_content_hash''"
| "rejection_value MISSING_PROVENANCE = ''missing_provenance''"
| "rejection_value ER_STALE_ATTEMPT = ''stale_attempt''"
| "rejection_value LATE_AFTER_TERMINAL = ''late_evidence_after_terminal_state''"
| "rejection_value CANCELLED_EXECUTION = ''cancelled_execution''"

datatype CompletionFailureClass =
    CF_EVIDENCE_REJECTED | CF_EVIDENCE_MISSING | CF_VERIFICATION_FAILED
  | CF_VERIFICATION_INCONCLUSIVE | CF_VERIFICATION_TIMEOUT | CF_VERIFICATION_ERROR
  | CF_STALE_ATTEMPT | CF_SUPERSEDED_ATTEMPT | CF_LATE_EVENT | CF_USAGE_FINALISATION_FAILED
  | CF_MISSION_PROJECTION_FAILED | CF_RESTORE_FAILED | CF_CLEANUP_FAILED | CF_LEASE_LOST

fun completion_failure_value :: "CompletionFailureClass \<Rightarrow> string" where
  "completion_failure_value CF_EVIDENCE_REJECTED = ''evidence_rejected''"
| "completion_failure_value CF_EVIDENCE_MISSING = ''evidence_missing''"
| "completion_failure_value CF_VERIFICATION_FAILED = ''verification_failed''"
| "completion_failure_value CF_VERIFICATION_INCONCLUSIVE = ''verification_inconclusive''"
| "completion_failure_value CF_VERIFICATION_TIMEOUT = ''verification_timeout''"
| "completion_failure_value CF_VERIFICATION_ERROR = ''verification_error''"
| "completion_failure_value CF_STALE_ATTEMPT = ''stale_attempt''"
| "completion_failure_value CF_SUPERSEDED_ATTEMPT = ''superseded_attempt''"
| "completion_failure_value CF_LATE_EVENT = ''late_event''"
| "completion_failure_value CF_USAGE_FINALISATION_FAILED = ''usage_finalisation_failed''"
| "completion_failure_value CF_MISSION_PROJECTION_FAILED = ''mission_projection_failed''"
| "completion_failure_value CF_RESTORE_FAILED = ''restore_failed''"
| "completion_failure_value CF_CLEANUP_FAILED = ''cleanup_failed''"
| "completion_failure_value CF_LEASE_LOST = ''lease_lost''"

section \<open>Records\<close>

record CandidateEvidence =
  ce_evidence_type :: string
  ce_content_ref :: "string option"
  ce_content_hash :: "string option"
  ce_size_bytes :: int
  ce_sequence :: int
  ce_provenance :: pydict
  ce_payload :: pydict
  ce_evidence_id :: string

record EvidenceEnvelope =
  ee_evidence_id :: string
  ee_execution_id :: string
  ee_attempt_id :: string
  ee_mission_id :: string
  ee_project_id :: "string option"
  ee_organisation_id :: "string option"
  ee_evidence_type :: string
  ee_source_backend :: string
  ee_source_harness :: "string option"
  ee_content_ref :: "string option"
  ee_content_hash :: "string option"
  ee_size_bytes :: int
  ee_sequence :: int
  ee_trust :: EvidenceTrustClassification
  ee_producer_identity :: string
  ee_provenance :: pydict
  ee_payload :: pydict
  ee_created_at :: time
  ee_rejection_reason :: "EvidenceRejectionReason option"

definition evidence_as_dict :: "EvidenceEnvelope \<Rightarrow> pydict" where
  "evidence_as_dict e =
     [(''evidence_id'', PyStr (ee_evidence_id e)), (''execution_id'', PyStr (ee_execution_id e)),
      (''attempt_id'', PyStr (ee_attempt_id e)), (''mission_id'', PyStr (ee_mission_id e)),
      (''project_id'', opt_str (ee_project_id e)), (''organisation_id'', opt_str (ee_organisation_id e)),
      (''evidence_type'', PyStr (ee_evidence_type e)), (''source_backend'', PyStr (ee_source_backend e)),
      (''source_harness'', opt_str (ee_source_harness e)), (''content_ref'', opt_str (ee_content_ref e)),
      (''content_hash'', opt_str (ee_content_hash e)), (''size_bytes'', PyInt (ee_size_bytes e)),
      (''sequence'', PyInt (ee_sequence e)), (''trust'', PyStr (trust_value (ee_trust e))),
      (''producer_identity'', PyStr (ee_producer_identity e)), (''provenance'', PyDict (ee_provenance e)),
      (''payload'', PyDict (ee_payload e)), (''created_at'', PyInt (ee_created_at e)),
      (''rejection_reason'', opt_str (map_option rejection_value (ee_rejection_reason e)))]"

record VerificationRequest =
  vq_mission_id :: string
  vq_execution_id :: string
  vq_attempt_id :: string
  vq_strategy :: string
  vq_required_evidence_types :: "string list"
  vq_policy :: pydict
  vq_accepted_evidence :: "EvidenceEnvelope list"
  vq_backend_ok :: bool
  vq_restore_ok :: bool

record VerificationResult =
  vr_outcome :: VerificationOutcome
  vr_strategy :: string
  vr_detail :: string
  vr_failure_class :: "CompletionFailureClass option"
  vr_checks :: pydict

definition verification_as_dict :: "VerificationResult \<Rightarrow> pydict" where
  "verification_as_dict v =
     [(''outcome'', PyStr (verification_outcome_value (vr_outcome v))),
      (''strategy'', PyStr (vr_strategy v)), (''detail'', PyStr (vr_detail v)),
      (''failure_class'', opt_str (map_option completion_failure_value (vr_failure_class v))),
      (''checks'', PyDict (vr_checks v))]"

text \<open>The three optional fields of a usage fact are stored as they come; no code validates them.\<close>

record UsageFact =
  uf_organisation_id :: pyval
  uf_project_id :: pyval
  uf_mission_id :: string
  uf_execution_id :: string
  uf_attempt_id :: string
  uf_backend_id :: string
  uf_harness_id :: pyval
  uf_facts :: pydict

definition usage_as_dict :: "UsageFact \<Rightarrow> pydict" where
  "usage_as_dict u =
     [(''organisation_id'', uf_organisation_id u), (''project_id'', uf_project_id u),
      (''mission_id'', PyStr (uf_mission_id u)), (''execution_id'', PyStr (uf_execution_id u)),
      (''attempt_id'', PyStr (uf_attempt_id u)), (''backend_id'', PyStr (uf_backend_id u)),
      (''harness_id'', uf_harness_id u), (''facts'', PyDict (uf_facts u))]"

record CompletionContext =
  cc_organisation_id :: "string option"
  cc_project_id :: "string option"
  cc_mission_id :: string
  cc_execution_id :: string
  cc_attempt_id :: string
  cc_authoritative_attempt_id :: string
  cc_backend_id :: string
  cc_harness_id :: "string option"
  cc_correlation_id :: "string option"
  cc_user_id :: "string option"
  cc_cancelled :: bool
  cc_require_evidence :: bool
  cc_verification_strategy :: string
  cc_required_evidence_types :: "string list"
  cc_max_evidence_bytes :: int
  cc_metadata :: pydict

record CompletionRecord =
  cr_execution_id :: string
  cr_mission_id :: string
  cr_state :: CompletionLifecycleState
  cr_attempt_id :: string
  cr_authoritative_attempt_id :: string
  cr_backend_id :: string
  cr_harness_id :: "string option"
  cr_organisation_id :: "string option"
  cr_project_id :: "string option"
  cr_backend_ok :: bool
  cr_restore_ok :: bool
  cr_evidence_ids :: "string list"
  cr_verification :: pydict
  cr_usage_finalised :: bool
  cr_usage_aggregate :: pydict
  cr_graph_nodes :: "pydict list"
  cr_events :: "pydict list"
  cr_failure_class :: "string option"
  cr_detail :: "string option"
  cr_sequence :: int
  cr_created_at :: time
  cr_updated_at :: time
  cr_terminal_emitted :: bool

definition record_as_dict :: "CompletionRecord \<Rightarrow> pydict" where
  "record_as_dict r =
     [(''execution_id'', PyStr (cr_execution_id r)), (''mission_id'', PyStr (cr_mission_id r)),
      (''state'', PyStr (completion_state_value (cr_state r))), (''attempt_id'', PyStr (cr_attempt_id r)),
      (''authoritative_attempt_id'', PyStr (cr_authoritative_attempt_id r)),
      (''backend_id'', PyStr (cr_backend_id r)), (''harness_id'', opt_str (cr_harness_id r)),
      (''organisation_id'', opt_str (cr_organisation_id r)), (''project_id'', opt_str (cr_project_id r)),
      (''backend_ok'', PyBool (cr_backend_ok r)), (''restore_ok'', PyBool (cr_restore_ok r)),
      (''evidence_ids'', PyList (map PyStr (cr_evidence_ids r))),
      (''verification'', PyDict (cr_verification r)), (''usage_finalised'', PyBool (cr_usage_finalised r)),
      (''usage_aggregate'', PyDict (cr_usage_aggregate r)),
      (''graph_nodes'', PyList (map PyDict (cr_graph_nodes r))),
      (''events'', PyList (map PyDict (cr_events r))), (''failure_class'', opt_str (cr_failure_class r)),
      (''detail'', opt_str (cr_detail r)), (''sequence'', PyInt (cr_sequence r)),
      (''created_at'', PyInt (cr_created_at r)), (''updated_at'', PyInt (cr_updated_at r)),
      (''terminal_emitted'', PyBool (cr_terminal_emitted r))]"

record CompletionOutcome =
  co_ok :: bool
  co_state :: CompletionLifecycleState
  co_execution_id :: string
  co_mission_id :: string
  co_attempt_id :: string
  co_detail :: string
  co_failure_class :: "string option"
  co_verification :: pydict
  co_evidence_ids :: "string list"
  co_usage :: pydict
  co_events :: "pydict list"
  co_graph_nodes :: "pydict list"
  co_record :: pydict

section \<open>The record store\<close>

text \<open>\<open>CompletionStore._records\<close> in insertion order. The store holds the record objects themselves,
  so every assignment to an attribute of a stored record is a \<open>store_save\<close> of the new value.\<close>

type_synonym CompletionStore = "(string \<times> CompletionRecord) list"

definition store_get :: "CompletionStore \<Rightarrow> string \<Rightarrow> CompletionRecord option" where
  "store_get s eid = map_of s eid"

definition store_save :: "CompletionStore \<Rightarrow> CompletionRecord \<Rightarrow> CompletionStore" where
  "store_save s r = AList.update (cr_execution_id r) r s"

definition store_list_resumable :: "CompletionStore \<Rightarrow> CompletionRecord list" where
  "store_list_resumable s = filter (\<lambda>r. cr_state r \<in> set RESUMABLE_COMPLETION_STATES) (map snd s)"

definition store_is_terminal :: "CompletionStore \<Rightarrow> string \<Rightarrow> bool" where
  "store_is_terminal s eid =
     (case map_of s eid of
        None \<Rightarrow> False
      | Some r \<Rightarrow> cr_state r \<in> {CS_COMPLETED, CS_FAILED, CS_BLOCKED, CS_CANCELLED, CS_TIMED_OUT})"

section \<open>Lemmas\<close>

abbreviation terminal_state :: "CompletionLifecycleState \<Rightarrow> bool" where
  "terminal_state s \<equiv> s \<in> set TERMINAL_COMPLETION_STATES"

lemma terminal_simps [simp]:
  "terminal_state CS_COMPLETED" "terminal_state CS_FAILED" "terminal_state CS_BLOCKED"
  "terminal_state CS_CANCELLED" "terminal_state CS_TIMED_OUT"
  "\<not> terminal_state CS_RUNNING" "\<not> terminal_state CS_BACKEND_COMPLETED"
  "\<not> terminal_state CS_EVIDENCE_PENDING" "\<not> terminal_state CS_EVIDENCE_ACCEPTED"
  "\<not> terminal_state CS_VERIFICATION_PENDING" "\<not> terminal_state CS_VERIFYING"
  "\<not> terminal_state CS_VERIFIED" "\<not> terminal_state CS_FINALISING"
  by (simp_all add: TERMINAL_COMPLETION_STATES_def)

lemma store_get_save [simp]:
  "store_get (store_save s r) k = (if k = cr_execution_id r then Some r else store_get s k)"
  by (simp add: store_get_def store_save_def)

lemma resumable_not_terminal: "set RESUMABLE_COMPLETION_STATES \<inter> set TERMINAL_COMPLETION_STATES = {}"
  by (simp add: RESUMABLE_COMPLETION_STATES_def TERMINAL_COMPLETION_STATES_def)

lemma verified_value_iff: "verification_outcome_value v = ''verified'' \<longleftrightarrow> v = VO_VERIFIED"
  by (cases v) simp_all

end
