(* ===== verification/Evidence.thy ===== *)
theory Evidence
  imports Completion_Models Security
begin

text \<open>
  The evidence intake boundary (\<^verbatim>\<open>src/src/joymesh/runtime_v1/completion/evidence.py\<close>): candidates of
  a backend are accepted or rejected against the context of their execution. \<open>sha256\<close> is the hash of
  a text; \<open>now\<close> gives the clock read of each envelope that is built. The attribute \<open>max_bytes\<close> of
  the class is read by no method.
\<close>

section \<open>The boundary\<close>

record EvidenceBoundary =
  eb_max_bytes :: int
  eb_by_execution :: "string \<Rightarrow> EvidenceEnvelope list"
  eb_fingerprints :: "string \<Rightarrow> string list"

definition init_EvidenceBoundary :: "int \<Rightarrow> EvidenceBoundary" where
  "init_EvidenceBoundary max_bytes =
     \<lparr>eb_max_bytes = max_bytes, eb_by_execution = (\<lambda>_. []), eb_fingerprints = (\<lambda>_. [])\<rparr>"

definition list_accepted :: "EvidenceBoundary \<Rightarrow> string \<Rightarrow> EvidenceEnvelope list" where
  "list_accepted b eid = filter (\<lambda>e. ee_trust e = TRUST_ACCEPTED) (eb_by_execution b eid)"

definition list_all_evidence :: "EvidenceBoundary \<Rightarrow> string \<Rightarrow> EvidenceEnvelope list" where
  "list_all_evidence b eid = eb_by_execution b eid"

text \<open>\<^verbatim>\<open>repr(sorted(payload.items()))\<close>: keys are distinct, so the order of the pairs is that of the keys.\<close>

definition items_repr :: "pydict \<Rightarrow> string" where
  "items_repr d =
     ''['' @ join '', '' (map (\<lambda>p. ''('' @ str_repr (fst p) @ '', '' @ py_repr (snd p) @ '')'')
                         (sort_key fst d)) @ '']''"

definition hash_items :: "(string \<Rightarrow> string) \<Rightarrow> pydict \<Rightarrow> string" where
  "hash_items sha256 payload = sha256 (items_repr payload)"

fun redact_value :: "pyval \<Rightarrow> pyval" where
  "redact_value (PyStr s) = PyStr (redact_secrets s)"
| "redact_value (PyDict d) = PyDict (map (\<lambda>p. (fst p, redact_value (snd p))) d)"
| "redact_value v = v"

definition redact_payload :: "pydict \<Rightarrow> pydict" where
  "redact_payload d = map (\<lambda>p. (fst p, redact_value (snd p))) d"

section \<open>Reading a candidate\<close>

datatype candidate_input = Candidate CandidateEvidence | RawCandidate pydict

fun only_str :: "pyval \<Rightarrow> string option" where
  "only_str (PyStr s) = Some s"
| "only_str _ = None"

definition read_candidate :: "candidate_input \<Rightarrow> CandidateEvidence result" where
  "read_candidate raw =
     (case raw of
        Candidate c \<Rightarrow> Inr c
      | RawCandidate d \<Rightarrow>
          bind_result (py_int (py_or (dget d ''size_bytes'') (PyInt 0))) (\<lambda>size.
          bind_result (py_int (py_or (dget d ''sequence'') (PyInt 0))) (\<lambda>seq.
          bind_result (to_dict (py_or (dget d ''provenance'') (PyDict []))) (\<lambda>provenance.
          bind_result (to_dict (py_or (dget d ''payload'') (PyDict []))) (\<lambda>payload.
          Inr \<lparr>ce_evidence_type = py_str (py_or (dget d ''evidence_type'') (PyStr ''unknown'')),
               ce_content_ref = only_str (dget d ''content_ref''),
               ce_content_hash = only_str (dget d ''content_hash''),
               ce_size_bytes = size, ce_sequence = seq, ce_provenance = provenance,
               ce_payload = redact_payload payload,
               ce_evidence_id = py_str (py_or (dget d ''evidence_id'')
                 (PyStr (''evidence_'' @ py_str (py_or (dget d ''sequence'') (PyInt 0)))))\<rparr>)))))"

section \<open>Accepting one candidate\<close>

definition first_reason ::
  "CompletionContext \<Rightarrow> CompletionLifecycleState \<Rightarrow> CandidateEvidence \<Rightarrow> EvidenceRejectionReason option" where
  "first_reason cx st c =
     (if cc_cancelled cx \<or> st = CS_CANCELLED then Some CANCELLED_EXECUTION
      else if st \<in> set TERMINAL_COMPLETION_STATES then Some LATE_AFTER_TERMINAL
      else if cc_attempt_id cx \<noteq> cc_authoritative_attempt_id cx then Some ER_STALE_ATTEMPT
      else if ce_size_bytes c > cc_max_evidence_bytes cx then Some OVERSIZED
      else if ce_evidence_type c = [] \<or> ce_evidence_type c = ''unknown'' then Some UNSUPPORTED_TYPE
      else if ce_provenance c = [] \<and> \<not> opt_truthy (ce_content_hash c) \<and> ce_payload c = []
        then Some MISSING_PROVENANCE
      else None)"

text \<open>A claim of the provenance contradicts the context when it is present and different; the tenant
  and project claims count only when the context has a value.\<close>

definition claim_differs :: "CandidateEvidence \<Rightarrow> string \<Rightarrow> string \<Rightarrow> bool" where
  "claim_differs c key expected \<longleftrightarrow>
     truthy (dget (ce_provenance c) key) \<and> dget (ce_provenance c) key \<noteq> PyStr expected"

definition opt_claim_differs :: "CandidateEvidence \<Rightarrow> string \<Rightarrow> string option \<Rightarrow> bool" where
  "opt_claim_differs c key expected \<longleftrightarrow>
     (case expected of None \<Rightarrow> False | Some e \<Rightarrow> e \<noteq> [] \<and> claim_differs c key e)"

definition ownership_reason ::
  "CompletionContext \<Rightarrow> CandidateEvidence \<Rightarrow> EvidenceRejectionReason option \<Rightarrow> EvidenceRejectionReason option" where
  "ownership_reason cx c r0 =
     (let r1 = (if opt_claim_differs c ''organisation_id'' (cc_organisation_id cx) then Some WRONG_TENANT else r0);
          r2 = (if opt_claim_differs c ''project_id'' (cc_project_id cx) then Some WRONG_PROJECT else r1);
          r3 = (if claim_differs c ''mission_id'' (cc_mission_id cx) then Some WRONG_MISSION else r2);
          r4 = (if claim_differs c ''execution_id'' (cc_execution_id cx) then Some WRONG_EXECUTION else r3)
      in if claim_differs c ''attempt_id'' (cc_attempt_id cx) then Some WRONG_ATTEMPT else r4)"

definition candidate_hash :: "(string \<Rightarrow> string) \<Rightarrow> CandidateEvidence \<Rightarrow> string" where
  "candidate_hash sha256 c =
     (case ce_content_hash c of
        Some h \<Rightarrow> if h \<noteq> [] then h else hash_items sha256 (ce_payload c)
      | None \<Rightarrow> hash_items sha256 (ce_payload c))"

definition fingerprint :: "string \<Rightarrow> string \<Rightarrow> int \<Rightarrow> string" where
  "fingerprint ty h seq = ty @ '':'' @ h @ '':'' @ int_str seq"

definition same_evidence :: "CandidateEvidence \<Rightarrow> string \<Rightarrow> EvidenceEnvelope \<Rightarrow> bool" where
  "same_evidence c h e \<longleftrightarrow> ee_content_hash e = Some h \<and> ee_evidence_type e = ce_evidence_type c
     \<and> ee_sequence e = ce_sequence c \<and> ee_trust e = TRUST_ACCEPTED"

definition conflicting :: "CandidateEvidence \<Rightarrow> string \<Rightarrow> EvidenceEnvelope \<Rightarrow> bool" where
  "conflicting c h e \<longleftrightarrow> ee_sequence e = ce_sequence c \<and> ee_evidence_type e = ce_evidence_type c
     \<and> opt_truthy (ee_content_hash e) \<and> h \<noteq> [] \<and> ee_content_hash e \<noteq> Some h"

definition behind :: "CandidateEvidence \<Rightarrow> EvidenceEnvelope list \<Rightarrow> bool" where
  "behind c rows \<longleftrightarrow>
     (let seqs = map ee_sequence (filter (\<lambda>e. ee_trust e = TRUST_ACCEPTED) rows)
      in seqs \<noteq> [] \<and> ce_sequence c < Max (set seqs))"

definition build_evidence ::
  "(string \<Rightarrow> string) \<Rightarrow> time \<Rightarrow> CompletionContext \<Rightarrow> string \<Rightarrow> string option \<Rightarrow> CandidateEvidence
   \<Rightarrow> EvidenceRejectionReason option \<Rightarrow> EvidenceEnvelope" where
  "build_evidence sha256 now cx backend harness c reason =
     \<lparr>ee_evidence_id = ce_evidence_id c, ee_execution_id = cc_execution_id cx,
      ee_attempt_id = cc_attempt_id cx, ee_mission_id = cc_mission_id cx,
      ee_project_id = cc_project_id cx, ee_organisation_id = cc_organisation_id cx,
      ee_evidence_type = ce_evidence_type c, ee_source_backend = backend, ee_source_harness = harness,
      ee_content_ref = ce_content_ref c, ee_content_hash = Some (candidate_hash sha256 c),
      ee_size_bytes = ce_size_bytes c, ee_sequence = ce_sequence c,
      ee_trust = (if reason \<noteq> None then TRUST_REJECTED else TRUST_ACCEPTED),
      ee_producer_identity = backend, ee_provenance = ce_provenance c,
      ee_payload = redact_payload (ce_payload c), ee_created_at = now, ee_rejection_reason = reason\<rparr>"

text \<open>\<open>_accept_one\<close>: the envelope, whether it is accepted and whether it is newly stored.\<close>

definition accept_one ::
  "(string \<Rightarrow> string) \<Rightarrow> time \<Rightarrow> CompletionContext \<Rightarrow> CompletionLifecycleState \<Rightarrow> string \<Rightarrow> string option
   \<Rightarrow> CandidateEvidence \<Rightarrow> EvidenceBoundary \<Rightarrow> (EvidenceEnvelope \<times> bool \<times> bool) \<times> EvidenceBoundary" where
  "accept_one sha256 now cx st backend harness c b =
     (let eid = cc_execution_id cx; rows = eb_by_execution b eid;
          reason1 = ownership_reason cx c (first_reason cx st c);
          h = candidate_hash sha256 c;
          fp = fingerprint (ce_evidence_type c) h (ce_sequence c);
          known = (if fp \<in> set (eb_fingerprints b eid) \<and> reason1 = None then find (same_evidence c h) rows else None)
      in case known of
           Some item \<Rightarrow> ((item, True, False), b)
         | None \<Rightarrow>
             (let reason2 = (if reason1 = None \<and> list_ex (conflicting c h) rows
                             then Some DUPLICATE_CONFLICTING else reason1);
                  reason = (if reason2 = None \<and> behind c rows then Some INVALID_SEQUENCE else reason2);
                  e = build_evidence sha256 now cx backend harness c reason
              in if reason = None
                 then ((e, True, True), b\<lparr>eb_fingerprints := (eb_fingerprints b)(eid := List.insert fp (eb_fingerprints b eid))\<rparr>)
                 else ((e, False, True), b)))"

definition store_evidence :: "string \<Rightarrow> EvidenceEnvelope \<Rightarrow> EvidenceBoundary \<Rightarrow> EvidenceBoundary" where
  "store_evidence eid e b = b\<lparr>eb_by_execution := (eb_by_execution b)(eid := eb_by_execution b eid @ [e])\<rparr>"

text \<open>\<open>intake\<close>: the accepted and the rejected envelopes, in order. An exception in reading a raw
  candidate leaves what the earlier candidates stored.\<close>

fun intake_loop ::
  "(string \<Rightarrow> string) \<Rightarrow> (nat \<Rightarrow> time) \<Rightarrow> nat \<Rightarrow> CompletionContext \<Rightarrow> CompletionLifecycleState \<Rightarrow> string \<Rightarrow> string option
   \<Rightarrow> candidate_input list \<Rightarrow> EvidenceEnvelope list \<Rightarrow> EvidenceEnvelope list \<Rightarrow> EvidenceBoundary
   \<Rightarrow> (EvidenceEnvelope list \<times> EvidenceEnvelope list) result \<times> EvidenceBoundary" where
  "intake_loop sha256 now n cx st backend harness [] accepted rejected b = (Inr (accepted, rejected), b)"
| "intake_loop sha256 now n cx st backend harness (raw # raws) accepted rejected b =
     (case read_candidate raw of
        Inl e \<Rightarrow> (Inl e, b)
      | Inr c \<Rightarrow>
          (case accept_one sha256 (now n) cx st backend harness c b of
             ((e, good, stored), b1) \<Rightarrow>
               (let b2 = (if stored then store_evidence (cc_execution_id cx) e b1 else b1)
                in if good then intake_loop sha256 now (Suc n) cx st backend harness raws (accepted @ [e]) rejected b2
                   else intake_loop sha256 now (Suc n) cx st backend harness raws accepted (rejected @ [e]) b2)))"

definition intake ::
  "(string \<Rightarrow> string) \<Rightarrow> (nat \<Rightarrow> time) \<Rightarrow> CompletionContext \<Rightarrow> CompletionLifecycleState \<Rightarrow> string \<Rightarrow> string option
   \<Rightarrow> candidate_input list \<Rightarrow> EvidenceBoundary
   \<Rightarrow> (EvidenceEnvelope list \<times> EvidenceEnvelope list) result \<times> EvidenceBoundary" where
  "intake sha256 now cx st backend harness raws b =
     intake_loop sha256 now 0 cx st backend harness raws [] [] b"

section \<open>What one decision does\<close>

abbreviation decision_reason ::
  "CompletionContext \<Rightarrow> CompletionLifecycleState \<Rightarrow> CandidateEvidence \<Rightarrow> EvidenceRejectionReason option" where
  "decision_reason cx st c \<equiv> ownership_reason cx c (first_reason cx st c)"

lemma decision_reason_None:
  assumes "decision_reason cx st c = None"
  shows "first_reason cx st c = None"
    and "\<not> opt_claim_differs c ''organisation_id'' (cc_organisation_id cx)"
    and "\<not> opt_claim_differs c ''project_id'' (cc_project_id cx)"
    and "\<not> claim_differs c ''mission_id'' (cc_mission_id cx)"
    and "\<not> claim_differs c ''execution_id'' (cc_execution_id cx)"
    and "\<not> claim_differs c ''attempt_id'' (cc_attempt_id cx)"
  using assms by (simp_all add: ownership_reason_def Let_def split: if_splits)

lemma accept_one_cases:
  assumes "accept_one sha256 now cx st backend harness c b = ((e, good, stored), b')"
  obtains (duplicate) "good" "\<not> stored" "b' = b" "e \<in> set (list_accepted b (cc_execution_id cx))"
      "same_evidence c (candidate_hash sha256 c) e" "decision_reason cx st c = None"
  | (accepted) "good" "stored" "decision_reason cx st c = None"
      "\<not> list_ex (conflicting c (candidate_hash sha256 c)) (eb_by_execution b (cc_execution_id cx))"
      "\<not> behind c (eb_by_execution b (cc_execution_id cx))"
      "fingerprint (ce_evidence_type c) (candidate_hash sha256 c) (ce_sequence c) \<in> set (eb_fingerprints b (cc_execution_id cx))
         \<Longrightarrow> find (same_evidence c (candidate_hash sha256 c)) (eb_by_execution b (cc_execution_id cx)) = None"
      "e = build_evidence sha256 now cx backend harness c None"
      "b' = b\<lparr>eb_fingerprints := (eb_fingerprints b)(cc_execution_id cx := List.insert
          (fingerprint (ce_evidence_type c) (candidate_hash sha256 c) (ce_sequence c)) (eb_fingerprints b (cc_execution_id cx)))\<rparr>"
  | (rejected) r where "\<not> good" "stored" "b' = b" "e = build_evidence sha256 now cx backend harness c (Some r)"
proof -
  let ?eid = "cc_execution_id cx" and ?h = "candidate_hash sha256 c"
  let ?rows = "eb_by_execution b ?eid" and ?r1 = "decision_reason cx st c"
  let ?fp = "fingerprint (ce_evidence_type c) ?h (ce_sequence c)"
  let ?known = "if ?fp \<in> set (eb_fingerprints b ?eid) \<and> ?r1 = None then find (same_evidence c ?h) ?rows else None"
  let ?r2 = "if ?r1 = None \<and> list_ex (conflicting c ?h) ?rows then Some DUPLICATE_CONFLICTING else ?r1"
  let ?r = "if ?r2 = None \<and> behind c ?rows then Some INVALID_SEQUENCE else ?r2"
  show thesis
  proof (cases ?known)
    case (Some item)
    then have f: "find (same_evidence c ?h) ?rows = Some item" and r1: "?r1 = None"
      by (simp_all split: if_splits)
    from f have "item \<in> set ?rows" "same_evidence c ?h item"
      by (auto simp: find_Some_iff)
    then have "item \<in> set (list_accepted b ?eid)"
      by (simp add: list_accepted_def same_evidence_def)
    moreover have "((e, good, stored), b') = ((item, True, False), b)"
      using assms Some unfolding accept_one_def Let_def by simp
    ultimately show thesis
      using duplicate r1 \<open>same_evidence c ?h item\<close> by simp
  next
    case None
    note res = assms [unfolded accept_one_def Let_def None option.case]
    show thesis
    proof (cases ?r)
      case None
      then have r: "?r2 = None" "\<not> behind c ?rows" and "?r1 = None" "\<not> list_ex (conflicting c ?h) ?rows"
        by (simp_all split: if_splits)
      then show thesis
        using \<open>?known = None\<close> res by (intro accepted) (simp_all split: if_splits)
    next
      case (Some r)
      then show thesis
        using rejected [of r] res by simp
    qed
  qed
qed

section \<open>The accepted evidence of an execution\<close>

text \<open>The provenance of an envelope contradicts none of the identities the envelope carries.\<close>

definition owned :: "EvidenceEnvelope \<Rightarrow> bool" where
  "owned e \<longleftrightarrow>
     (let agrees = (\<lambda>key v. \<not> truthy (dget (ee_provenance e) key) \<or> dget (ee_provenance e) key = PyStr v)
      in agrees ''execution_id'' (ee_execution_id e) \<and> agrees ''attempt_id'' (ee_attempt_id e)
       \<and> agrees ''mission_id'' (ee_mission_id e)
       \<and> (case ee_organisation_id e of None \<Rightarrow> True | Some v \<Rightarrow> v = [] \<or> agrees ''organisation_id'' v)
       \<and> (case ee_project_id e of None \<Rightarrow> True | Some v \<Rightarrow> v = [] \<or> agrees ''project_id'' v))"

definition evidence_slot :: "EvidenceEnvelope \<Rightarrow> string \<times> int" where
  "evidence_slot e = (ee_evidence_type e, ee_sequence e)"

definition evidence_inv :: "EvidenceBoundary \<Rightarrow> bool" where
  "evidence_inv b \<longleftrightarrow> (\<forall>eid. let acc = list_accepted b eid in
     sorted (map ee_sequence acc) \<and> distinct (map evidence_slot acc)
     \<and> (\<forall>e \<in> set acc. owned e \<and> ee_execution_id e = eid \<and> ee_rejection_reason e = None
          \<and> opt_truthy (ee_content_hash e)
          \<and> fingerprint (ee_evidence_type e) (the (ee_content_hash e)) (ee_sequence e) \<in> set (eb_fingerprints b eid)))"

inductive evidence_step :: "(string \<Rightarrow> string) \<Rightarrow> EvidenceBoundary \<Rightarrow> EvidenceBoundary \<Rightarrow> bool"
  for sha256 where
  "evidence_step sha256 b (snd (intake sha256 now cx st backend harness raws b))"

lemma list_accepted_store [simp]:
  "list_accepted (store_evidence eid e b) k =
     (if k = eid \<and> ee_trust e = TRUST_ACCEPTED then list_accepted b k @ [e] else list_accepted b k)"
  by (auto simp: list_accepted_def store_evidence_def)

lemma evidence_frame [simp]:
  "eb_fingerprints (store_evidence eid e b) = eb_fingerprints b"
  "list_accepted (b\<lparr>eb_fingerprints := f\<rparr>) k = list_accepted b k"
  by (simp_all add: store_evidence_def list_accepted_def)

lemma build_evidence_owned:
  assumes "decision_reason cx st c = None"
  shows "owned (build_evidence sha256 now cx backend harness c None)"
  using decision_reason_None [OF assms]
  by (auto simp: owned_def build_evidence_def claim_differs_def opt_claim_differs_def Let_def split: option.splits)

lemma candidate_hash_nonempty: "(\<And>x. sha256 x \<noteq> []) \<Longrightarrow> candidate_hash sha256 c \<noteq> []"
  by (simp add: candidate_hash_def hash_items_def split: option.split)

text \<open>An accepted candidate takes a fresh slot at or after the last one.\<close>

lemma accepted_slot_fresh:
  assumes inv: "evidence_inv b" and h: "candidate_hash sha256 c \<noteq> []"
    and ok: "\<not> list_ex (conflicting c (candidate_hash sha256 c)) (eb_by_execution b eid)"
    and dup: "fingerprint (ce_evidence_type c) (candidate_hash sha256 c) (ce_sequence c) \<in> set (eb_fingerprints b eid)
         \<Longrightarrow> find (same_evidence c (candidate_hash sha256 c)) (eb_by_execution b eid) = None"
    and e: "e \<in> set (list_accepted b eid)"
  shows "evidence_slot e \<noteq> (ce_evidence_type c, ce_sequence c)"
proof
  let ?h = "candidate_hash sha256 c"
  assume slot: "evidence_slot e = (ce_evidence_type c, ce_sequence c)"
  have row: "e \<in> set (eb_by_execution b eid)" "ee_trust e = TRUST_ACCEPTED"
    using e by (simp_all add: list_accepted_def)
  have t: "opt_truthy (ee_content_hash e)"
    and fp: "fingerprint (ee_evidence_type e) (the (ee_content_hash e)) (ee_sequence e) \<in> set (eb_fingerprints b eid)"
    using inv e by (auto simp: evidence_inv_def Let_def)
  have "ee_content_hash e = Some ?h"
    using ok row slot t h by (auto simp: list_ex_iff conflicting_def evidence_slot_def)
  moreover from this have "find (same_evidence c ?h) (eb_by_execution b eid) = None"
    using dup fp slot by (simp add: evidence_slot_def)
  ultimately show False
    using row slot by (auto simp: find_None_iff same_evidence_def evidence_slot_def)
qed

lemma not_behind_sorted:
  assumes "\<not> behind c (eb_by_execution b eid)" and "e \<in> set (list_accepted b eid)"
  shows "ee_sequence e \<le> ce_sequence c"
proof -
  have "ee_sequence e \<in> set (map ee_sequence (list_accepted b eid))"
    using assms(2) by simp
  moreover from this have "\<not> ce_sequence c < Max (set (map ee_sequence (list_accepted b eid)))"
    using assms(1) unfolding behind_def Let_def list_accepted_def by (metis empty_iff empty_set)
  ultimately show ?thesis
    by (meson List.finite_set Max_ge not_less order_trans)
qed

lemma accept_one_inv:
  assumes inv: "evidence_inv b" and sha: "\<And>x. sha256 x \<noteq> []"
    and run: "accept_one sha256 now cx st backend harness c b = ((e, good, stored), b1)"
  shows "evidence_inv (if stored then store_evidence (cc_execution_id cx) e b1 else b1)"
  using run
proof (cases rule: accept_one_cases)
  case duplicate
  then show ?thesis using inv by simp
next
  case (rejected r)
  then show ?thesis
    using inv by (simp add: evidence_inv_def build_evidence_def)
next
  case accepted
  let ?eid = "cc_execution_id cx" and ?h = "candidate_hash sha256 c"
  have e: "ee_trust e = TRUST_ACCEPTED" "evidence_slot e = (ce_evidence_type c, ce_sequence c)"
    "ee_execution_id e = ?eid" "ee_rejection_reason e = None" "ee_content_hash e = Some ?h"
    "ee_evidence_type e = ce_evidence_type c" "ee_sequence e = ce_sequence c"
    using accepted by (simp_all add: build_evidence_def evidence_slot_def)
  have "owned e"
    using build_evidence_owned accepted by simp
  have fresh: "(ce_evidence_type c, ce_sequence c) \<notin> evidence_slot ` set (list_accepted b ?eid)"
    using accepted_slot_fresh [OF inv candidate_hash_nonempty [OF sha] accepted(4) accepted(6)] by (metis imageE)
  have le: "\<forall>x \<in> set (list_accepted b ?eid). ee_sequence x \<le> ce_sequence c"
    using not_behind_sorted [OF accepted(5)] by blast
  show ?thesis
    unfolding evidence_inv_def Let_def
  proof
    fix eid
    show "sorted (map ee_sequence (list_accepted (if stored then store_evidence ?eid e b1 else b1) eid)) \<and>
      distinct (map evidence_slot (list_accepted (if stored then store_evidence ?eid e b1 else b1) eid)) \<and>
      (\<forall>x \<in> set (list_accepted (if stored then store_evidence ?eid e b1 else b1) eid). owned x \<and> ee_execution_id x = eid
         \<and> ee_rejection_reason x = None \<and> opt_truthy (ee_content_hash x)
         \<and> fingerprint (ee_evidence_type x) (the (ee_content_hash x)) (ee_sequence x)
             \<in> set (eb_fingerprints (if stored then store_evidence ?eid e b1 else b1) eid))"
      using inv [unfolded evidence_inv_def Let_def, rule_format, of eid] accepted(2,8) e \<open>owned e\<close> fresh le
        candidate_hash_nonempty [of sha256 c, OF sha]
      by (cases "eid = ?eid") (auto simp: sorted_append opt_truthy_def)
  qed
qed

lemma intake_loop_inv:
  assumes "\<And>x. sha256 x \<noteq> []" and "evidence_inv b"
  shows "evidence_inv (snd (intake_loop sha256 now n cx st backend harness raws acc rej b))"
  using assms(2)
proof (induction raws arbitrary: n acc rej b)
  case Nil
  then show ?case by simp
next
  case (Cons raw raws)
  show ?case
  proof (cases "read_candidate raw")
    case (Inl e)
    then show ?thesis using Cons.prems by simp
  next
    case (Inr c)
    obtain e good stored b1 where r: "accept_one sha256 (now n) cx st backend harness c b = ((e, good, stored), b1)"
      by (metis surj_pair)
    show ?thesis
      using Cons.IH [OF accept_one_inv [OF Cons.prems assms(1) r]] by (simp add: Inr r Let_def)
  qed
qed

text \<open>What was accepted stays accepted: the list of an execution is only ever extended.\<close>

definition evidence_grows :: "EvidenceBoundary \<Rightarrow> EvidenceBoundary \<Rightarrow> bool" where
  "evidence_grows b b' \<longleftrightarrow> (\<forall>k. \<exists>more. list_accepted b' k = list_accepted b k @ more)"

lemma evidence_grows_refl [simp]: "evidence_grows b b"
  by (simp add: evidence_grows_def)

lemma evidence_grows_trans: "evidence_grows a b \<Longrightarrow> evidence_grows b c \<Longrightarrow> evidence_grows a c"
  unfolding evidence_grows_def by (metis append.assoc)

lemma accept_one_grows:
  assumes "accept_one sha256 t cx st backend harness c b = ((e, good, stored), b1)"
  shows "evidence_grows b (if stored then store_evidence (cc_execution_id cx) e b1 else b1)"
  using assms by (cases rule: accept_one_cases) (simp_all add: evidence_grows_def)

lemma intake_loop_grows:
  "evidence_grows b (snd (intake_loop sha256 now n cx st backend harness raws acc rej b))"
proof (induction raws arbitrary: n acc rej b)
  case (Cons raw raws)
  show ?case
  proof (cases "read_candidate raw")
    case (Inr c)
    obtain e good stored b1 where r: "accept_one sha256 (now n) cx st backend harness c b = ((e, good, stored), b1)"
      by (metis surj_pair)
    show ?thesis
      using evidence_grows_trans [OF accept_one_grows [OF r] Cons.IH] by (simp add: Inr r Let_def)
  qed simp
qed simp

lemma evidence_reachable_inv:
  assumes "\<And>x. sha256 x \<noteq> []" and "(evidence_step sha256)\<^sup>*\<^sup>* (init_EvidenceBoundary m) b"
  shows "evidence_inv b"
  using assms(2)
proof (induction rule: rtranclp_induct)
  case base
  then show ?case by (simp add: evidence_inv_def list_accepted_def init_EvidenceBoundary_def)
next
  case (step b b')
  from step.hyps(2) show ?case
    by (cases rule: evidence_step.cases) (use intake_loop_inv [OF assms(1) step.IH] in \<open>simp add: intake_def\<close>)
qed

lemma intake_one:
  assumes "accept_one sha256 (now 0) cx st backend harness c b = ((e, good, stored), b1)"
  shows "intake sha256 now cx st backend harness [Candidate c] b
       = (Inr (if good then [e] else [], if good then [] else [e]),
          if stored then store_evidence (cc_execution_id cx) e b1 else b1)"
  using assms by (simp add: intake_def read_candidate_def Let_def)

lemma decision_reason_rejects:
  assumes "accept_one sha256 now cx st backend harness c b = ((e, good, stored), b1)"
    and "decision_reason cx st c \<noteq> None"
  shows "\<not> good" and "stored" and "b1 = b" and "\<exists>r. e = build_evidence sha256 now cx backend harness c (Some r)"
  using assms(1) by (cases rule: accept_one_cases; use assms(2) in auto)+

text \<open>A row of the same slot with another hash keeps a candidate out, whatever its own status, unless
  the candidate repeats accepted evidence.\<close>

lemma conflicting_row_rejects:
  assumes run: "accept_one sha256 now cx st backend harness c b = ((e, good, stored), b1)"
    and row: "x \<in> set (eb_by_execution b (cc_execution_id cx))" "conflicting c (candidate_hash sha256 c) x"
    and fresh: "\<forall>y \<in> set (list_accepted b (cc_execution_id cx)). evidence_slot y \<noteq> (ce_evidence_type c, ce_sequence c)"
  shows "\<not> good \<and> (decision_reason cx st c = None \<longrightarrow> ee_rejection_reason e = Some DUPLICATE_CONFLICTING)"
proof -
  have "find (same_evidence c (candidate_hash sha256 c)) (eb_by_execution b (cc_execution_id cx)) = None"
    using fresh by (auto simp: find_None_iff same_evidence_def list_accepted_def evidence_slot_def)
  moreover have "list_ex (conflicting c (candidate_hash sha256 c)) (eb_by_execution b (cc_execution_id cx))"
    using row by (auto simp: list_ex_iff)
  ultimately show ?thesis
    using run by (auto simp: accept_one_def Let_def build_evidence_def split: if_splits)
qed

section \<open>Properties\<close>

definition example_context :: "string \<Rightarrow> CompletionContext" where
  "example_context eid =
     \<lparr>cc_organisation_id = Some ''org'', cc_project_id = None, cc_mission_id = ''m1'',
      cc_execution_id = eid, cc_attempt_id = ''a1'', cc_authoritative_attempt_id = ''a1'',
      cc_backend_id = ''local'', cc_harness_id = Some ''codex'', cc_correlation_id = None,
      cc_user_id = None, cc_cancelled = False, cc_require_evidence = False,
      cc_verification_strategy = ''backend_success_with_evidence'', cc_required_evidence_types = [],
      cc_max_evidence_bytes = 100, cc_metadata = []\<rparr>"

definition example_candidate :: "int \<Rightarrow> int \<Rightarrow> string \<Rightarrow> CandidateEvidence" where
  "example_candidate seq bytes digest =
     \<lparr>ce_evidence_type = ''test_summary'', ce_content_ref = None, ce_content_hash = Some digest,
      ce_size_bytes = bytes, ce_sequence = seq, ce_provenance = [(''execution_id'', PyStr ''e1'')],
      ce_payload = [], ce_evidence_id = ''ev''\<rparr>"

definition example_evidence_run :: EvidenceBoundary where
  "example_evidence_run =
     snd (intake (\<lambda>s. ''h'' @ s) int (example_context ''e1'') CS_EVIDENCE_PENDING ''local'' None
       [Candidate (example_candidate 1 10 ''aa''), Candidate (example_candidate 2 10 ''bb''),
        Candidate (example_candidate 2 10 ''cc''), Candidate (example_candidate 1 10 ''aa'')]
       (init_EvidenceBoundary 1000))"

text \<open>C27: In every state that a sequence of intakes can reach, the accepted evidence of an execution
  is ordered by sequence number, holds at most one item per evidence type and sequence number, and
  every item belongs to that execution, with no claim of its provenance against the tenant, project,
  mission, execution or attempt it was accepted for.\<close>

theorem accepted_evidence_sound:
  assumes "\<And>x. sha256 x \<noteq> []" and "(evidence_step sha256)\<^sup>*\<^sup>* (init_EvidenceBoundary m) b"
  shows "sorted (map ee_sequence (list_accepted b eid)) \<and> distinct (map evidence_slot (list_accepted b eid))
    \<and> (\<forall>e \<in> set (list_accepted b eid). owned e \<and> ee_execution_id e = eid \<and> ee_rejection_reason e = None)"
  using evidence_reachable_inv [OF assms] by (simp add: evidence_inv_def Let_def)

theorem accepted_evidence_sound_witness:
  "map ee_sequence (list_accepted example_evidence_run ''e1'') = [1, 2]
   \<and> distinct (map evidence_slot (list_accepted example_evidence_run ''e1''))"
proof -
  have "(evidence_step (\<lambda>s. ''h'' @ s))\<^sup>*\<^sup>* (init_EvidenceBoundary 1000) example_evidence_run"
    unfolding example_evidence_run_def by (rule r_into_rtranclp) (rule evidence_step.intros)
  then have "distinct (map evidence_slot (list_accepted example_evidence_run ''e1''))"
    using accepted_evidence_sound [of "\<lambda>s. ''h'' @ s" 1000 example_evidence_run "''e1''"] by simp
  moreover have "map ee_sequence (list_accepted example_evidence_run ''e1'') = [1, 2]"
    by code_simp
  ultimately show ?thesis by simp
qed

text \<open>A rejected submission occupies its slot. After a candidate was rejected for its context
  (oversized, stale, of another tenant, ...), a correct candidate of the same type and sequence number
  with another content hash is rejected as a conflicting duplicate in every later intake for that
  execution, although nothing was accepted in that slot.\<close>

theorem rejected_evidence_blocks_correction:
  assumes "\<And>x. sha256 x \<noteq> []"
    and "decision_reason cx st bad \<noteq> None" and "decision_reason cx' st' good = None"
    and "cc_execution_id cx' = cc_execution_id cx"
    and "ce_evidence_type good = ce_evidence_type bad" and "ce_sequence good = ce_sequence bad"
    and "candidate_hash sha256 good \<noteq> candidate_hash sha256 bad"
    and "\<forall>y \<in> set (list_accepted b (cc_execution_id cx)). evidence_slot y \<noteq> (ce_evidence_type bad, ce_sequence bad)"
  shows "\<exists>e. fst (intake sha256 now' cx' st' backend' harness' [Candidate good]
                 (snd (intake sha256 now cx st backend harness [Candidate bad] b))) = Inr ([], [e])
             \<and> ee_rejection_reason e = Some DUPLICATE_CONFLICTING"
proof -
  obtain e0 g0 s0 b0 where r0: "accept_one sha256 (now 0) cx st backend harness bad b = ((e0, g0, s0), b0)"
    by (metis surj_pair)
  note d = decision_reason_rejects [OF r0 assms(2)]
  let ?b1 = "store_evidence (cc_execution_id cx) e0 b"
  have b1: "snd (intake sha256 now cx st backend harness [Candidate bad] b) = ?b1"
    using intake_one [of sha256 now, OF r0] d by simp
  obtain e g s b2 where r: "accept_one sha256 (now' 0) cx' st' backend' harness' good ?b1 = ((e, g, s), b2)"
    by (metis surj_pair)
  have row: "e0 \<in> set (eb_by_execution ?b1 (cc_execution_id cx'))"
    "conflicting good (candidate_hash sha256 good) e0" "ee_trust e0 = TRUST_REJECTED"
    using d(4) assms candidate_hash_nonempty [OF assms(1)]
    by (auto simp: store_evidence_def build_evidence_def conflicting_def opt_truthy_def)
  have "\<not> g \<and> ee_rejection_reason e = Some DUPLICATE_CONFLICTING"
    using conflicting_row_rejects [OF r row(1,2)] assms(3-6,8) row(3) by simp
  then show ?thesis
    using intake_one [of sha256 now', OF r] unfolding b1 by simp
qed

theorem rejected_evidence_blocks_correction_witness:
  "\<exists>e. fst (intake (\<lambda>s. ''h'' @ s) int (example_context ''e1'') CS_EVIDENCE_PENDING ''local'' None
            [Candidate (example_candidate 1 10 ''small'')]
            (snd (intake (\<lambda>s. ''h'' @ s) int (example_context ''e1'') CS_EVIDENCE_PENDING ''local'' None
              [Candidate (example_candidate 1 5000 ''large'')] (init_EvidenceBoundary 1000)))) = Inr ([], [e])
       \<and> ee_rejection_reason e = Some DUPLICATE_CONFLICTING"
  by (rule rejected_evidence_blocks_correction) code_simp+

end
