(* ===== verification/Verification.thy ===== *)
theory Verification
  imports Completion_Models
begin

text \<open>
  The verification strategies (\<^verbatim>\<open>src/src/joymesh/runtime_v1/completion/verification.py\<close>). A policy is
  an arbitrary dictionary, so its entries are converted with \<open>to_seq\<close>, \<open>to_dict\<close> and \<open>join_values\<close>,
  which raise as \<^verbatim>\<open>tuple\<close>, \<^verbatim>\<open>dict\<close> and \<^verbatim>\<open>str.join\<close> do. The composite strategy verifies again with a
  nested policy; the recursion ends because that policy is nested less deeply.
\<close>

section \<open>The strategies\<close>

definition verification_result ::
  "VerificationOutcome \<Rightarrow> string \<Rightarrow> string \<Rightarrow> CompletionFailureClass option \<Rightarrow> pydict \<Rightarrow> VerificationResult" where
  "verification_result outcome strategy detail failure checks =
     \<lparr>vr_outcome = outcome, vr_strategy = strategy, vr_detail = detail, vr_failure_class = failure,
      vr_checks = checks\<rparr>"

definition missing_types :: "VerificationRequest \<Rightarrow> string list" where
  "missing_types q =
     filter (\<lambda>t. \<not> list_ex (\<lambda>e. ee_evidence_type e = t) (vq_accepted_evidence q)) (vq_required_evidence_types q)"

definition backend_success_with_evidence :: "VerificationRequest \<Rightarrow> VerificationResult" where
  "backend_success_with_evidence q =
     (if \<not> vq_backend_ok q then
        verification_result VO_FAILED (vq_strategy q) ''backend did not succeed''
          (Some CF_VERIFICATION_FAILED) [(''backend_ok'', PyBool False)]
      else let missing = missing_types q in
        if missing \<noteq> [] then
          verification_result VO_FAILED (vq_strategy q)
            (''missing required evidence: '' @ join '', '' missing) (Some CF_EVIDENCE_MISSING)
            [(''missing'', PyList (map PyStr missing))]
        else verification_result VO_VERIFIED (vq_strategy q) ''backend success with required evidence''
               None [(''backend_ok'', PyBool True),
                     (''evidence_count'', PyInt (int (length (vq_accepted_evidence q))))])"

definition artifact_name :: "EvidenceEnvelope \<Rightarrow> string" where
  "artifact_name e =
     py_str (py_or (py_or (dget (ee_payload e) ''artifact'') (opt_str (ee_content_ref e)))
              (PyStr (ee_evidence_type e)))"

definition artifact_existence :: "VerificationRequest \<Rightarrow> VerificationResult result" where
  "artifact_existence q =
     bind_result (to_seq (py_or (dget (vq_policy q) ''required_artifacts'')
                            (PyList (map PyStr (vq_required_evidence_types q))))) (\<lambda>required.
     let present = map artifact_name (vq_accepted_evidence q);
         missing = filter (\<lambda>item. item \<notin> PyStr ` set present) required
     in if missing \<noteq> [] then
          bind_result (join_values '', '' missing) (\<lambda>names.
          Inr (verification_result VO_FAILED ''artifact_existence'' (''missing artifacts: '' @ names)
                 (Some CF_EVIDENCE_MISSING) [(''missing'', PyList missing)]))
        else Inr (verification_result VO_VERIFIED ''artifact_existence'' ''required artifacts present''
                    None [(''artifacts'', PyList (map PyStr (sort (remdups present))))]))"

definition test_passed :: "EvidenceEnvelope \<Rightarrow> bool" where
  "test_passed e = truthy (dget_default (ee_payload e) ''passed'' (dget (ee_payload e) ''ok''))"

definition test_command :: "VerificationRequest \<Rightarrow> VerificationResult" where
  "test_command q =
     (case find (\<lambda>e. ee_evidence_type e \<in> {''test_summary'', ''test_command''}) (vq_accepted_evidence q) of
        None \<Rightarrow> verification_result VO_FAILED ''test_command'' ''no test evidence'' (Some CF_EVIDENCE_MISSING) []
      | Some e \<Rightarrow>
          if test_passed e then
            verification_result VO_VERIFIED ''test_command'' ''tests passed'' None (ee_payload e)
          else verification_result VO_FAILED ''test_command'' ''tests failed''
                 (Some CF_VERIFICATION_FAILED) (ee_payload e))"

definition content_hash_match :: "VerificationRequest \<Rightarrow> VerificationResult" where
  "content_hash_match q =
     (let expected = py_str (py_or (dget (vq_policy q) ''expected_hash'') (PyStr []))
      in if expected = [] then
           verification_result VO_INCONCLUSIVE ''content_hash_match'' ''expected_hash not configured''
             (Some CF_VERIFICATION_INCONCLUSIVE) []
         else if list_ex (\<lambda>e. ee_content_hash e = Some expected) (vq_accepted_evidence q) then
           verification_result VO_VERIFIED ''content_hash_match'' ''content hash matched'' None
             [(''hash'', PyStr expected)]
         else verification_result VO_FAILED ''content_hash_match'' ''content hash mismatch''
                (Some CF_VERIFICATION_FAILED) [])"

text \<open>\<^verbatim>\<open>key in payload\<close> for a key of any value: an unhashable one raises.\<close>

definition key_missing :: "pydict \<Rightarrow> pyval \<Rightarrow> bool result" where
  "key_missing d v =
     (case v of
        PyStr k \<Rightarrow> Inr (\<not> has_key d k)
      | PyList _ \<Rightarrow> Inl (TypeError ''unhashable type'')
      | PyDict _ \<Rightarrow> Inl (TypeError ''unhashable type'')
      | _ \<Rightarrow> Inr True)"

definition schema_validation :: "VerificationRequest \<Rightarrow> VerificationResult result" where
  "schema_validation q =
     bind_result (to_seq (py_or (dget (vq_policy q) ''required_keys'') (PyList []))) (\<lambda>required.
     case find (\<lambda>e. ee_evidence_type e = ''structured_result'') (vq_accepted_evidence q) of
       None \<Rightarrow> Inr (verification_result VO_FAILED ''schema_validation'' ''no structured_result evidence''
                 (Some CF_EVIDENCE_MISSING) [])
     | Some e \<Rightarrow>
         bind_result (map_result (key_missing (ee_payload e)) required) (\<lambda>flags.
         let missing = map snd (filter fst (zip flags required)) in
         if missing \<noteq> [] then
           bind_result (join_values '', '' missing) (\<lambda>names.
           Inr (verification_result VO_FAILED ''schema_validation'' (''schema missing keys: '' @ names)
                  (Some CF_VERIFICATION_FAILED) []))
         else Inr (verification_result VO_VERIFIED ''schema_validation'' ''schema valid'' None [])))"

text \<open>Evidence whose payload decides neither way is skipped.\<close>

fun remote_verdict :: "EvidenceEnvelope list \<Rightarrow> VerificationResult option" where
  "remote_verdict [] = None"
| "remote_verdict (e # es) =
     (if ee_evidence_type e \<in> {''remote_verification'', ''verification''} then
        (let outcome = py_str (py_or (dget (ee_payload e) ''outcome'') (PyStr []))
         in if outcome = ''verified'' \<or> dget (ee_payload e) ''passed'' = PyBool True then
              Some (verification_result VO_VERIFIED ''remote_verifier_event'' ''remote verifier accepted''
                      None (ee_payload e))
            else if outcome = ''failed'' \<or> dget (ee_payload e) ''passed'' = PyBool False then
              Some (verification_result VO_FAILED ''remote_verifier_event'' ''remote verifier rejected''
                      (Some CF_VERIFICATION_FAILED) (ee_payload e))
            else remote_verdict es)
      else remote_verdict es)"

definition remote_verifier :: "VerificationRequest \<Rightarrow> VerificationResult" where
  "remote_verifier q =
     (case remote_verdict (vq_accepted_evidence q) of
        Some r \<Rightarrow> r
      | None \<Rightarrow>
          if vq_backend_ok q \<and> vq_required_evidence_types q = [] then
            verification_result VO_FAILED ''remote_verifier_event''
              ''remote completion without verification evidence'' (Some CF_EVIDENCE_MISSING) []
          else backend_success_with_evidence q)"

section \<open>The composite strategy\<close>

definition child_request :: "VerificationRequest \<Rightarrow> string \<Rightarrow> pydict \<Rightarrow> VerificationRequest" where
  "child_request q strategy policy = q\<lparr>vq_strategy := strategy, vq_policy := policy\<rparr>"

text \<open>The loop over the strategies; \<open>f\<close> is the verification with one of them.\<close>

fun composite_loop ::
  "(pyval \<Rightarrow> VerificationResult result) \<Rightarrow> pyval list \<Rightarrow> pydict \<Rightarrow> VerificationResult result" where
  "composite_loop f [] checks =
     Inr (verification_result VO_VERIFIED ''composite'' ''all composite strategies verified'' None checks)"
| "composite_loop f (s # ss) checks =
     bind_result (f s) (\<lambda>r.
     let checks1 = AList.update (py_str s) (PyDict (verification_as_dict r)) checks
     in if vr_outcome r \<noteq> VO_VERIFIED then
          Inr (verification_result (vr_outcome r) ''composite''
                 (''composite failed at '' @ py_str s @ '': '' @ vr_detail r) (vr_failure_class r) checks1)
        else composite_loop f ss checks1)"

definition composite_strategies :: "pydict \<Rightarrow> pyval list result" where
  "composite_strategies policy =
     to_seq (py_or (dget policy ''strategies'') (PyList [PyStr ''backend_success_with_evidence'']))"

definition child_policy :: "pydict \<Rightarrow> pydict result" where
  "child_policy policy = to_dict (py_or (dget policy ''child_policy'') (PyDict []))"

text \<open>The checks made before the strategy is looked at.\<close>

definition precheck :: "VerificationRequest \<Rightarrow> VerificationResult option" where
  "precheck q =
     (let flag = (\<lambda>k. truthy (dget (vq_policy q) k)) in
      if flag ''cancelled'' then
        Some (verification_result VO_CANCELLED (vq_strategy q) ''verification cancelled'' None [])
      else if \<not> vq_restore_ok q then
        Some (verification_result VO_BLOCKED (vq_strategy q) ''provider route restoration unresolved''
                (Some CF_RESTORE_FAILED) [(''restore_ok'', PyBool False)])
      else if flag ''require_human_approval'' then
        Some (verification_result VO_PENDING_HUMAN_APPROVAL (vq_strategy q) ''human approval required''
                (Some CF_VERIFICATION_INCONCLUSIVE) [])
      else if flag ''force_timeout'' then
        Some (verification_result VO_VERIFICATION_ERROR (vq_strategy q) ''verification timed out''
                (Some CF_VERIFICATION_TIMEOUT) [])
      else if flag ''force_error'' then
        Some (verification_result VO_VERIFICATION_ERROR (vq_strategy q) ''verification infrastructure error''
                (Some CF_VERIFICATION_ERROR) [])
      else None)"

section \<open>Nesting of values\<close>

fun nesting :: "pyval \<Rightarrow> nat" where
  "nesting (PyList xs) = Suc (fold max (map nesting xs) 0)"
| "nesting (PyDict d) = Suc (fold max (map (\<lambda>p. nesting (snd p)) d) 0)"
| "nesting _ = 0"

lemma fold_max_ge: "(n :: nat) \<le> fold max ns n \<and> (\<forall>m \<in> set ns. m \<le> fold max ns n)"
proof (induction ns arbitrary: n)
  case Nil
  then show ?case by simp
next
  case (Cons m ns)
  then show ?case
    using Cons.IH [of "max m n"] by (metis fold_simps(2) max.bounded_iff set_ConsD)
qed

lemma fold_max_le: "(n :: nat) \<le> k \<Longrightarrow> (\<forall>m \<in> set ns. m \<le> k) \<Longrightarrow> fold max ns n \<le> k"
  by (induction ns arbitrary: n) auto

lemma nesting_item: "x \<in> set xs \<Longrightarrow> nesting x < nesting (PyList xs)"
  using fold_max_ge [of 0 "map nesting xs"] by (auto simp: less_Suc_eq_le)

lemma nesting_entry: "(k, v) \<in> set d \<Longrightarrow> nesting v < nesting (PyDict d)"
  using fold_max_ge [of 0 "map (\<lambda>p. nesting (snd p)) d"] by (force simp: less_Suc_eq_le)

lemma nesting_dict_le:
  "(\<And>k v. (k, v) \<in> set d \<Longrightarrow> nesting v \<le> n) \<Longrightarrow> nesting (PyDict d) \<le> Suc n"
  by (auto intro!: fold_max_le)

lemma nesting_dget: "nesting (dget d k) < nesting (PyDict d)"
proof (cases "map_of d k")
  case None
  then show ?thesis by (simp add: dget_def)
next
  case (Some v)
  then show ?thesis
    using nesting_entry [OF map_of_SomeD] by (simp add: dget_def)
qed

lemma nesting_to_seq: "to_seq v = Inr xs \<Longrightarrow> x \<in> set xs \<Longrightarrow> nesting x \<le> nesting v - 1"
  by (cases v) (auto dest: nesting_item)

lemma to_pair_Inr: "to_pair v = Inr (k, w) \<Longrightarrow> to_seq v = Inr [PyStr k, w]"
proof -
  assume a: "to_pair v = Inr (k, w)"
  then obtain xs where xs: "to_seq v = Inr xs"
    by (auto simp: to_pair_def bind_result_Inr_iff)
  then have "xs = [PyStr k, w]"
    using a by (cases xs rule: remdups_adj.cases; simp add: to_pair_def split: list.splits pyval.splits)
  then show ?thesis using xs by simp
qed

lemma nesting_to_pair: "to_pair v = Inr (k, w) \<Longrightarrow> nesting w \<le> nesting v - 1"
  using nesting_to_seq [OF to_pair_Inr, of v k w w] by simp

lemma map_result_member: "map_result f xs = Inr ys \<Longrightarrow> y \<in> set ys \<Longrightarrow> \<exists>x \<in> set xs. f x = Inr y"
  by (induction xs arbitrary: ys) (auto simp: bind_result_Inr_iff)

lemma dmerge_values:
  "(k, v) \<in> set (dmerge a b) \<Longrightarrow> v \<in> snd ` set a \<union> snd ` set b"
proof (induction b arbitrary: a)
  case Nil
  then show ?case by (force simp: dmerge_def)
next
  case (Cons p b)
  have "v \<in> snd ` set (AList.update (fst p) (snd p) a) \<union> snd ` set b"
    using Cons.IH [of "AList.update (fst p) (snd p) a"] Cons.prems
    by (simp add: dmerge_def case_prod_beta)
  moreover have "snd ` set (AList.update k' v' a) \<subseteq> insert v' (snd ` set a)" for k' v'
    by (induction a) auto
  ultimately show ?case by force
qed

lemma nesting_to_dict:
  assumes "to_dict v = Inr d"
  shows "nesting (PyDict d) \<le> max 1 (nesting v)"
proof (cases "\<exists>e. v = PyDict e")
  case True
  then show ?thesis using assms by (auto simp: to_dict_def)
next
  case False
  then obtain items pairs where s: "to_seq v = Inr items" "map_result to_pair items = Inr pairs"
    and d: "d = dmerge [] pairs"
    using assms by (cases v) (auto simp: to_dict_def bind_result_Inr_iff)
  have "nesting w \<le> nesting v - 2" if "(k, w) \<in> set d" for k w
  proof -
    have "w \<in> snd ` set pairs"
      using dmerge_values that d by fastforce
    then obtain k' where "(k', w) \<in> set pairs" by force
    then obtain x where "x \<in> set items" "to_pair x = Inr (k', w)"
      using map_result_member [OF s(2)] by blast
    then show ?thesis
      using nesting_to_seq [OF s(1)] nesting_to_pair by fastforce
  qed
  then have "nesting (PyDict d) \<le> Suc (nesting v - 2)"
    by (rule nesting_dict_le)
  then show ?thesis by simp
qed

text \<open>The nested policy is never nested more deeply, and strictly less when a child is composite.\<close>

lemma child_policy_nesting:
  assumes "child_policy p = Inr cp"
  shows "nesting (PyDict cp) \<le> nesting (PyDict p)"
    and "1 < nesting (PyDict p) \<Longrightarrow> nesting (PyDict cp) < nesting (PyDict p)"
proof -
  have "nesting (py_or (dget p ''child_policy'') (PyDict [])) \<le> max 1 (nesting (dget p ''child_policy''))"
    by (simp add: py_or_def)
  then have "nesting (PyDict cp) \<le> max 1 (nesting (dget p ''child_policy''))"
    using nesting_to_dict [OF assms [unfolded child_policy_def]] by linarith
  then show "nesting (PyDict cp) \<le> nesting (PyDict p)"
    and "1 < nesting (PyDict p) \<Longrightarrow> nesting (PyDict cp) < nesting (PyDict p)"
    using nesting_dget [of p "''child_policy''"] by linarith+
qed

lemma composite_child_nesting:
  assumes "composite_strategies p = Inr ss" and "s \<in> set ss" and "py_str s = ''composite''"
  shows "1 < nesting (PyDict p)"
proof -
  let ?v = "dget p ''strategies''"
  have "truthy ?v"
    using assms by (auto simp: composite_strategies_def py_or_def split: if_splits)
  then have "to_seq ?v = Inr ss"
    using assms(1) by (simp add: composite_strategies_def py_or_def)
  then have "0 < nesting ?v"
    using assms(2,3) by (cases ?v) auto
  then show ?thesis
    using nesting_dget [of p "''strategies''"] by linarith
qed

section \<open>verify\<close>

lemma bind_result_cong [fundef_cong]:
  "r = r' \<Longrightarrow> (\<And>x. r' = Inr x \<Longrightarrow> f x = g x) \<Longrightarrow> bind_result r f = bind_result r' g"
  by (cases r) auto

lemma composite_loop_cong [fundef_cong]:
  "ss = ss' \<Longrightarrow> c = c' \<Longrightarrow> (\<And>s. s \<in> set ss' \<Longrightarrow> f s = g s) \<Longrightarrow> composite_loop f ss c = composite_loop g ss' c'"
proof (induction ss arbitrary: ss' c c')
  case Nil
  then show ?case by simp
next
  case (Cons s ss)
  then show ?case
    by (cases ss'; cases "g s") (auto simp: Let_def)
qed

function verify :: "VerificationRequest \<Rightarrow> VerificationResult result" where
  "verify q =
     (case precheck q of
        Some r \<Rightarrow> Inr r
      | None \<Rightarrow>
          if vq_strategy q = ''always_pass'' then
            Inr (verification_result VO_VERIFIED (vq_strategy q) ''strategy always_pass'' None
                   [(''backend_ok'', PyBool (vq_backend_ok q))])
          else if vq_strategy q = ''artifact_existence'' then artifact_existence q
          else if vq_strategy q = ''test_command'' then Inr (test_command q)
          else if vq_strategy q = ''content_hash_match'' then Inr (content_hash_match q)
          else if vq_strategy q = ''schema_validation'' then schema_validation q
          else if vq_strategy q = ''composite'' then
            bind_result (composite_strategies (vq_policy q)) (\<lambda>strategies.
            composite_loop
              (\<lambda>s. bind_result (child_policy (vq_policy q)) (\<lambda>cp. verify (child_request q (py_str s) cp)))
              strategies [])
          else if vq_strategy q = ''remote_verifier_event'' then Inr (remote_verifier q)
          else Inr (backend_success_with_evidence q))"
  by pat_completeness auto

termination
proof (relation "measures [\<lambda>q. nesting (PyDict (vq_policy q)), \<lambda>q. if vq_strategy q = ''composite'' then 1 else 0]",
    goal_cases)
  case 1
  then show ?case by simp
next
  case (2 q ss s cp)
  note n = child_policy_nesting [OF 2(10)]
  show ?case
  proof (cases "py_str s = ''composite''")
    case True
    then show ?thesis
      using n(2) composite_child_nesting [OF 2(8,9)] by (simp add: child_request_def)
  next
    case False
    then show ?thesis
      using n(1) 2(7) by (auto simp: child_request_def le_less)
  qed
qed

declare verify.simps [simp del]

section \<open>What a verdict means\<close>

text \<open>The specification: which requests are attested. No run of the service is mentioned.\<close>

definition unobstructed :: "VerificationRequest \<Rightarrow> bool" where
  "unobstructed q \<longleftrightarrow> vq_restore_ok q \<and>
     (\<forall>k \<in> {''cancelled'', ''require_human_approval'', ''force_timeout'', ''force_error''}. \<not> truthy (dget (vq_policy q) k))"

definition named_strategies :: "string list" where
  "named_strategies = [''always_pass'', ''artifact_existence'', ''test_command'', ''content_hash_match'',
     ''schema_validation'', ''composite'', ''remote_verifier_event'']"

definition supported_success :: "VerificationRequest \<Rightarrow> bool" where
  "supported_success q \<longleftrightarrow> vq_backend_ok q
     \<and> set (vq_required_evidence_types q) \<subseteq> ee_evidence_type ` set (vq_accepted_evidence q)"

text \<open>What the strategies that look at one piece of evidence ask of it.\<close>

definition tests_attest :: "VerificationRequest \<Rightarrow> bool" where
  "tests_attest q \<longleftrightarrow>
     (case filter (\<lambda>e. ee_evidence_type e \<in> {''test_summary'', ''test_command''}) (vq_accepted_evidence q) of
        [] \<Rightarrow> False
      | e # _ \<Rightarrow> test_passed e)"

definition hash_attests :: "VerificationRequest \<Rightarrow> bool" where
  "hash_attests q \<longleftrightarrow> truthy (dget (vq_policy q) ''expected_hash'')
     \<and> Some (py_str (dget (vq_policy q) ''expected_hash'')) \<in> ee_content_hash ` set (vq_accepted_evidence q)"

definition artifacts_attest :: "VerificationRequest \<Rightarrow> bool" where
  "artifacts_attest q \<longleftrightarrow>
     (\<exists>required. to_seq (py_or (dget (vq_policy q) ''required_artifacts'')
                            (PyList (map PyStr (vq_required_evidence_types q)))) = Inr required
        \<and> set required \<subseteq> PyStr ` artifact_name ` set (vq_accepted_evidence q))"

definition schema_attests :: "VerificationRequest \<Rightarrow> bool" where
  "schema_attests q \<longleftrightarrow>
     (\<exists>required e. to_seq (py_or (dget (vq_policy q) ''required_keys'') (PyList [])) = Inr required
        \<and> find (\<lambda>e. ee_evidence_type e = ''structured_result'') (vq_accepted_evidence q) = Some e
        \<and> set required \<subseteq> PyStr ` fst ` set (ee_payload e))"

definition remote_attests :: "VerificationRequest \<Rightarrow> bool" where
  "remote_attests q \<longleftrightarrow>
     (case remote_verdict (vq_accepted_evidence q) of
        Some r \<Rightarrow> vr_outcome r = VO_VERIFIED
      | None \<Rightarrow> vq_required_evidence_types q \<noteq> [] \<and> supported_success q)"

inductive attested :: "VerificationRequest \<Rightarrow> bool" where
  by_fiat: "unobstructed q \<Longrightarrow> vq_strategy q = ''always_pass'' \<Longrightarrow> attested q"
| by_artifacts: "unobstructed q \<Longrightarrow> vq_strategy q = ''artifact_existence'' \<Longrightarrow> artifacts_attest q \<Longrightarrow> attested q"
| by_tests: "unobstructed q \<Longrightarrow> vq_strategy q = ''test_command'' \<Longrightarrow> tests_attest q \<Longrightarrow> attested q"
| by_hash: "unobstructed q \<Longrightarrow> vq_strategy q = ''content_hash_match'' \<Longrightarrow> hash_attests q \<Longrightarrow> attested q"
| by_schema: "unobstructed q \<Longrightarrow> vq_strategy q = ''schema_validation'' \<Longrightarrow> schema_attests q \<Longrightarrow> attested q"
| by_remote: "unobstructed q \<Longrightarrow> vq_strategy q = ''remote_verifier_event'' \<Longrightarrow> remote_attests q \<Longrightarrow> attested q"
| by_composite: "unobstructed q \<Longrightarrow> vq_strategy q = ''composite'' \<Longrightarrow>
     composite_strategies (vq_policy q) = Inr ss \<Longrightarrow> child_policy (vq_policy q) = Inr cp \<Longrightarrow>
     (\<And>s. s \<in> set ss \<Longrightarrow> attested (child_request q (py_str s) cp)) \<Longrightarrow> attested q"
| by_success: "unobstructed q \<Longrightarrow> vq_strategy q \<notin> set named_strategies \<Longrightarrow> supported_success q \<Longrightarrow> attested q"

inductive_cases attested_elim: "attested q"

definition verified :: "VerificationResult result \<Rightarrow> bool" where
  "verified r \<longleftrightarrow> (case r of Inl _ \<Rightarrow> False | Inr v \<Rightarrow> vr_outcome v = VO_VERIFIED)"

lemma verified_simps [simp]:
  "verified (Inl e) = False"
  "verified (Inr (verification_result oc st d f ck)) \<longleftrightarrow> oc = VO_VERIFIED"
  by (simp_all add: verified_def verification_result_def)

lemma verified_bind: "verified (bind_result r f) \<longleftrightarrow> (\<exists>x. r = Inr x \<and> verified (f x))"
  by (cases r) auto

lemma precheck_None: "precheck q = None \<longleftrightarrow> unobstructed q"
  by (simp add: precheck_def unobstructed_def Let_def)

lemma precheck_Some: "precheck q = Some r \<Longrightarrow> vr_outcome r \<noteq> VO_VERIFIED"
  by (auto simp: precheck_def Let_def verification_result_def split: if_splits)

lemma verified_success: "verified (Inr (backend_success_with_evidence q)) \<longleftrightarrow> supported_success q"
  by (auto simp: backend_success_with_evidence_def supported_success_def missing_types_def Let_def
      filter_empty_conv list_ex_iff image_iff subset_iff)

lemma verified_artifacts: "verified (artifact_existence q) \<longleftrightarrow> artifacts_attest q"
proof -
  have "verified (artifact_existence q) \<longleftrightarrow>
    (\<exists>required. to_seq (py_or (dget (vq_policy q) ''required_artifacts'')
                            (PyList (map PyStr (vq_required_evidence_types q)))) = Inr required
      \<and> filter (\<lambda>item. item \<notin> PyStr ` artifact_name ` set (vq_accepted_evidence q)) required = [])"
    by (auto simp: artifact_existence_def verified_bind Let_def split: if_splits)
  then show ?thesis
    by (simp add: artifacts_attest_def filter_empty_conv subset_eq)
qed

lemma find_filter: "find P xs = (case filter P xs of [] \<Rightarrow> None | x # _ \<Rightarrow> Some x)"
  by (induction xs) simp_all

lemma verified_tests: "verified (Inr (test_command q)) \<longleftrightarrow> tests_attest q"
  by (simp add: test_command_def tests_attest_def find_filter split: list.split)

lemma verified_hash: "verified (Inr (content_hash_match q)) \<longleftrightarrow> hash_attests q"
proof (cases "truthy (dget (vq_policy q) ''expected_hash'')")
  case True
  then have "py_str (dget (vq_policy q) ''expected_hash'') \<noteq> []"
    by (cases "dget (vq_policy q) ''expected_hash''") (auto simp: int_str_def digits_of.simps)
  with True show ?thesis
    by (auto simp: content_hash_match_def hash_attests_def py_or_def list_ex_iff image_iff Let_def intro: sym)
next
  case False
  then show ?thesis
    by (simp add: content_hash_match_def hash_attests_def py_or_def)
qed

lemma key_missing_False: "key_missing d v = Inr False \<longleftrightarrow> v \<in> PyStr ` fst ` set d"
  by (cases v) (auto simp: key_missing_def has_key_def)

lemma map_result_length: "map_result f xs = Inr ys \<Longrightarrow> length ys = length xs"
  by (induction xs arbitrary: ys) (auto simp: bind_result_Inr_iff)

lemma no_missing_iff:
  "(\<exists>flags. map_result (key_missing d) ks = Inr flags \<and> filter fst (zip flags ks) = [])
     \<longleftrightarrow> set ks \<subseteq> PyStr ` fst ` set d"
proof (induction ks)
  case Nil
  then show ?case by simp
next
  case (Cons k ks)
  have "(\<exists>flags. map_result (key_missing d) (k # ks) = Inr flags \<and> filter fst (zip flags (k # ks)) = [])
      \<longleftrightarrow> key_missing d k = Inr False \<and> (\<exists>flags. map_result (key_missing d) ks = Inr flags \<and> filter fst (zip flags ks) = [])"
    (is "?L \<longleftrightarrow> ?R")
  proof
    show "?L \<Longrightarrow> ?R"
      by (auto simp: bind_result_Inr_iff split: if_splits)
    show "?R \<Longrightarrow> ?L"
      by (elim conjE exE, rule_tac x = "False # flags" in exI) simp
  qed
  then show ?case
    using Cons by (simp add: key_missing_False)
qed

lemma verified_schema: "verified (schema_validation q) \<longleftrightarrow> schema_attests q"
proof -
  have "verified (bind_result (map_result (key_missing d) ks) (\<lambda>flags.
          let missing = map snd (filter fst (zip flags ks)) in
          if missing \<noteq> [] then
            bind_result (join_values '', '' missing) (\<lambda>names.
            Inr (verification_result VO_FAILED ''schema_validation'' (''schema missing keys: '' @ names)
                   (Some CF_VERIFICATION_FAILED) []))
          else Inr (verification_result VO_VERIFIED ''schema_validation'' ''schema valid'' None [])))
      \<longleftrightarrow> set ks \<subseteq> PyStr ` fst ` set d" for d ks
    unfolding no_missing_iff [symmetric] by (auto simp: verified_bind Let_def split: if_splits)
  then show ?thesis
    by (auto simp: schema_validation_def schema_attests_def verified_bind split: option.splits)
qed

lemma verified_remote: "verified (Inr (remote_verifier q)) \<longleftrightarrow> remote_attests q"
proof (cases "remote_verdict (vq_accepted_evidence q)")
  case None
  then show ?thesis
    using verified_success [of q]
    by (auto simp: remote_verifier_def remote_attests_def supported_success_def)
next
  case (Some r)
  then show ?thesis
    by (simp add: remote_verifier_def remote_attests_def verified_def)
qed

lemma verified_composite_loop:
  "verified (composite_loop f ss c) \<longleftrightarrow> (\<forall>s \<in> set ss. verified (f s))"
proof (induction ss arbitrary: c)
  case Nil
  then show ?case by simp
next
  case (Cons s ss)
  then show ?case
    by (cases "f s") (auto simp: Let_def verified_def verification_result_def)
qed

lemma verified_clear:
  "unobstructed q \<Longrightarrow> verified (verify q) \<longleftrightarrow>
     (if vq_strategy q = ''always_pass'' then True
      else if vq_strategy q = ''artifact_existence'' then artifacts_attest q
      else if vq_strategy q = ''test_command'' then tests_attest q
      else if vq_strategy q = ''content_hash_match'' then hash_attests q
      else if vq_strategy q = ''schema_validation'' then schema_attests q
      else if vq_strategy q = ''composite'' then
        (\<exists>ss. composite_strategies (vq_policy q) = Inr ss \<and> (\<forall>s \<in> set ss. \<exists>cp.
            child_policy (vq_policy q) = Inr cp \<and> verified (verify (child_request q (py_str s) cp))))
      else if vq_strategy q = ''remote_verifier_event'' then remote_attests q
      else supported_success q)"
  by (subst verify.simps)
    (simp add: precheck_None [symmetric] verified_bind verified_composite_loop verified_artifacts
      verified_tests verified_hash verified_schema verified_remote verified_success)

lemma verified_unobstructed: "verified (verify q) \<Longrightarrow> unobstructed q"
  using precheck_Some [of q] precheck_None [of q]
  by (cases "precheck q") (auto simp: verify.simps [of q] verified_def)

lemma composite_strategies_nonempty: "composite_strategies p = Inr ss \<Longrightarrow> ss \<noteq> []"
  by (cases "dget p ''strategies''") (auto simp: composite_strategies_def py_or_def split: if_splits)

lemma attested_verified: "attested q \<Longrightarrow> verified (verify q)"
proof (induction rule: attested.induct)
  case (by_composite q ss cp)
  then show ?case
    using verified_clear [OF by_composite.hyps(1)] by auto
qed (use verified_clear in \<open>auto simp: named_strategies_def\<close>)

lemma verified_attested: "verified (verify q) \<Longrightarrow> attested q"
proof (induction q rule: verify.induct)
  case (1 q)
  note u = verified_unobstructed [OF 1(2)]
  note v = 1(2) [unfolded verified_clear [OF u]]
  show ?case
  proof (cases "vq_strategy q \<in> set named_strategies - {''composite''}")
    case True
    then show ?thesis
      using v attested.intros(1-6) [OF u] by (auto simp: named_strategies_def split: if_splits)
  next
    case False
    show ?thesis
    proof (cases "vq_strategy q = ''composite''")
      case True
      then obtain ss where ss: "composite_strategies (vq_policy q) = Inr ss"
        and all: "\<forall>s \<in> set ss. \<exists>cp. child_policy (vq_policy q) = Inr cp \<and> verified (verify (child_request q (py_str s) cp))"
        using v by auto
      then obtain cp where cp: "child_policy (vq_policy q) = Inr cp"
        using composite_strategies_nonempty [OF ss] by (cases ss) auto
      have "attested (child_request q (py_str s) cp)" if "s \<in> set ss" for s
        using 1(1) [OF u [folded precheck_None], of ss s cp] that all ss cp True by auto
      then show ?thesis
        using by_composite [OF u True ss cp] by blast
    next
      case False
      then show ?thesis
        using by_success [OF u] v \<open>vq_strategy q \<notin> _\<close> by (auto simp: named_strategies_def split: if_splits)
    qed
  qed
qed

text \<open>C28: The verification service returns a verified result exactly for the attested requests: nothing
  obstructs the request (restoration done, not cancelled, no pending approval, no forced failure) and
  the evidence supports its strategy, where a composite strategy needs every one of its strategies
  attested under the nested policy, at any depth.\<close>

theorem verify_iff_attested:
  "(\<exists>r. verify q = Inr r \<and> vr_outcome r = VO_VERIFIED) \<longleftrightarrow> attested q"
proof -
  have "(\<exists>r. verify q = Inr r \<and> vr_outcome r = VO_VERIFIED) \<longleftrightarrow> verified (verify q)"
    by (auto simp: verified_def split: sum.split)
  then show ?thesis
    using attested_verified verified_attested by blast
qed

end
