(* ===== verification/Usage.thy ===== *)
theory Usage
  imports Completion_Models
begin

text \<open>
  Usage finalisation and the mission graph of an execution
  (\<^verbatim>\<open>src/src/joymesh/runtime_v1/completion/usage.py\<close> and \<^verbatim>\<open>graph.py\<close>). Wall-clock seconds are
  integers, as all payload numbers of the development: the text of a fraction counts as malformed.
\<close>

section \<open>Usage\<close>

record UsageFinaliser =
  us_attempt_usage :: "(string \<times> pydict) list"
  us_finalised :: "string list"
  us_aggregate :: "(string \<times> pydict) list"

definition init_UsageFinaliser :: UsageFinaliser where
  "init_UsageFinaliser = \<lparr>us_attempt_usage = [], us_finalised = [], us_aggregate = []\<rparr>"

definition attempt_key :: "string \<Rightarrow> string \<Rightarrow> string" where
  "attempt_key execution_id attempt_id = execution_id @ '':'' @ attempt_id"

text \<open>The tenant recorded for a finalised execution excludes facts of another tenant.\<close>

definition foreign_tenant :: "UsageFinaliser \<Rightarrow> UsageFact \<Rightarrow> bool" where
  "foreign_tenant u uf \<longleftrightarrow>
     (case map_of (us_aggregate u) (uf_execution_id uf) of
        None \<Rightarrow> False
      | Some ag \<Rightarrow> ag \<noteq> [] \<and> truthy (dget ag ''organisation_id'') \<and> truthy (uf_organisation_id uf)
          \<and> \<not> py_eq (dget ag ''organisation_id'') (uf_organisation_id uf))"

definition record_attempt :: "UsageFact \<Rightarrow> UsageFinaliser \<Rightarrow> pydict result \<times> UsageFinaliser" where
  "record_attempt uf u =
     (let key = attempt_key (uf_execution_id uf) (uf_attempt_id uf)
      in case map_of (us_attempt_usage u) key of
           Some row \<Rightarrow> (Inr row, u)
         | None \<Rightarrow>
             if foreign_tenant u uf then (Inl (PermissionError ''wrong-tenant usage cannot be attached''), u)
             else (Inr (usage_as_dict uf),
                   u\<lparr>us_attempt_usage := AList.update key (usage_as_dict uf) (us_attempt_usage u)\<rparr>))"

datatype usage_input = Fact UsageFact | RawFact pydict

definition read_fact :: "string \<Rightarrow> string \<Rightarrow> usage_input \<Rightarrow> UsageFact result" where
  "read_fact execution_id mission_id item =
     (case item of
        Fact f \<Rightarrow> Inr f
      | RawFact d \<Rightarrow>
          bind_result (to_dict (py_or (dget d ''facts'') (PyDict []))) (\<lambda>facts.
          Inr \<lparr>uf_organisation_id = dget d ''organisation_id'', uf_project_id = dget d ''project_id'',
               uf_mission_id = py_str (py_or (dget d ''mission_id'') (PyStr mission_id)),
               uf_execution_id = execution_id,
               uf_attempt_id = py_str (py_or (dget d ''attempt_id'') (PyStr ''unknown'')),
               uf_backend_id = py_str (py_or (dget d ''backend_id'') (PyStr ''unknown'')),
               uf_harness_id = dget d ''harness_id'', uf_facts = facts\<rparr>))"

fun record_attempts ::
  "string \<Rightarrow> string \<Rightarrow> usage_input list \<Rightarrow> UsageFinaliser \<Rightarrow> unit result \<times> UsageFinaliser" where
  "record_attempts eid mid [] u = (Inr (), u)"
| "record_attempts eid mid (i # is) u =
     (case read_fact eid mid i of
        Inl e \<Rightarrow> (Inl e, u)
      | Inr f \<Rightarrow>
          (case record_attempt f u of
             (Inl e, u1) \<Rightarrow> (Inl e, u1)
           | (Inr _, u1) \<Rightarrow> record_attempts eid mid is u1))"

text \<open>\<^verbatim>\<open>sum(int(item.get("facts", {}).get(key) or 0) for item in attempts)\<close>.\<close>

definition fact_value :: "string \<Rightarrow> pydict \<Rightarrow> int result" where
  "fact_value key row = py_int (py_or (dget (as_dict (dget_default row ''facts'' (PyDict []))) key) (PyInt 0))"

definition fact_sum :: "string \<Rightarrow> pydict list \<Rightarrow> int result" where
  "fact_sum key rows = bind_result (map_result (fact_value key) rows) (\<lambda>ns. Inr (sum_list ns))"

definition attempts_of :: "string \<Rightarrow> UsageFinaliser \<Rightarrow> pydict list" where
  "attempts_of execution_id u =
     map snd (filter (\<lambda>p. starts_with (execution_id @ '':'') (fst p)) (us_attempt_usage u))"

definition finalise_usage ::
  "string \<Rightarrow> string option \<Rightarrow> string option \<Rightarrow> string \<Rightarrow> usage_input list \<Rightarrow> UsageFinaliser
   \<Rightarrow> pydict result \<times> UsageFinaliser" where
  "finalise_usage eid org proj mid facts u =
     (if eid \<in> set (us_finalised u) then
        (case map_of (us_aggregate u) eid of Some ag \<Rightarrow> (Inr ag, u) | None \<Rightarrow> (Inl (KeyError eid), u))
      else
        (case record_attempts eid mid facts u of
           (Inl e, u1) \<Rightarrow> (Inl e, u1)
         | (Inr _, u1) \<Rightarrow>
             (let attempts = attempts_of eid u1;
                  res = bind_result (fact_sum ''wall_clock_seconds'' attempts) (\<lambda>wall.
                        bind_result (fact_sum ''input_tokens'' attempts) (\<lambda>tin.
                        bind_result (fact_sum ''output_tokens'' attempts) (\<lambda>tout.
                        Inr [(''execution_id'', PyStr eid), (''organisation_id'', opt_str org),
                             (''project_id'', opt_str proj), (''mission_id'', PyStr mid),
                             (''attempt_count'', PyInt (int (length attempts))),
                             (''wall_clock_seconds'', PyInt wall), (''input_tokens'', PyInt tin),
                             (''output_tokens'', PyInt tout), (''attempts'', PyList (map PyDict attempts)),
                             (''finalised'', PyBool True)])))
              in case res of
                   Inl e \<Rightarrow> (Inl e, u1)
                 | Inr ag \<Rightarrow> (Inr ag, u1\<lparr>us_aggregate := AList.update eid ag (us_aggregate u1),
                                       us_finalised := List.insert eid (us_finalised u1)\<rparr>))))"

definition is_finalised :: "UsageFinaliser \<Rightarrow> string \<Rightarrow> bool" where
  "is_finalised u eid \<longleftrightarrow> eid \<in> set (us_finalised u)"

section \<open>The mission graph\<close>

text \<open>Each execution has its nodes and the set of their keys; a known key returns the stored node.
  \<open>nid\<close> and \<open>now\<close> are the identifier and the clock read of a new node.\<close>

record MissionGraphProjector =
  mg_nodes :: "string \<Rightarrow> pydict list"
  mg_node_keys :: "string \<Rightarrow> string list"

definition init_MissionGraphProjector :: MissionGraphProjector where
  "init_MissionGraphProjector = \<lparr>mg_nodes = (\<lambda>_. []), mg_node_keys = (\<lambda>_. [])\<rparr>"

definition nodes_for :: "MissionGraphProjector \<Rightarrow> string \<Rightarrow> pydict list" where
  "nodes_for g eid = mg_nodes g eid"

definition graph_add ::
  "string \<Rightarrow> time \<Rightarrow> string \<Rightarrow> string \<Rightarrow> string \<Rightarrow> pydict \<Rightarrow> MissionGraphProjector \<Rightarrow> pydict \<times> MissionGraphProjector" where
  "graph_add nid now eid kind key payload g =
     (case (if key \<in> set (mg_node_keys g eid)
            then find (\<lambda>n. dget n ''dedupe_key'' = PyStr key) (mg_nodes g eid) else None) of
        Some n \<Rightarrow> (n, g)
      | None \<Rightarrow>
          (let node = [(''node_id'', PyStr (''graph_'' @ nid)), (''kind'', PyStr kind),
                       (''dedupe_key'', PyStr key), (''execution_id'', PyStr eid),
                       (''payload'', PyDict payload), (''created_at'', PyInt now)]
           in (node, g\<lparr>mg_node_keys := (mg_node_keys g)(eid := List.insert key (mg_node_keys g eid)),
                       mg_nodes := (mg_nodes g)(eid := mg_nodes g eid @ [node])\<rparr>)))"

definition project_request where
  "project_request nid now eid mid payload g =
     graph_add nid now eid ''ExecutionRequest'' (''request:'' @ eid)
       (dmerge [(''mission_id'', PyStr mid)] payload) g"

definition project_decision where
  "project_decision nid now eid payload g =
     graph_add nid now eid ''ExecutionDecision''
       (''decision:'' @ eid @ '':'' @ py_str (dget payload ''selected_backend_id'')) payload g"

definition project_attempt where
  "project_attempt nid now eid aid payload g =
     graph_add nid now eid ''ExecutionAttempt'' (''attempt:'' @ aid)
       (dmerge [(''attempt_id'', PyStr aid)] payload) g"

definition project_evidence where
  "project_evidence nid now eid e accepted g =
     (let kind = (if accepted then ''AcceptedEvidence'' else ''CandidateEvidence'')
      in graph_add nid now eid kind (''evidence:'' @ ee_evidence_id e @ '':'' @ kind) (evidence_as_dict e) g)"

definition project_verification where
  "project_verification nid now eid payload g =
     graph_add nid now eid ''Verification'' (''verification:'' @ eid @ '':'' @ py_str (dget payload ''outcome''))
       payload g"

definition project_result where
  "project_result nid now r g =
     graph_add nid now (cr_execution_id r) ''ExecutionResult''
       (''result:'' @ cr_execution_id r @ '':'' @ completion_state_value (cr_state r))
       [(''state'', PyStr (completion_state_value (cr_state r))), (''ok'', PyBool (cr_state r = CS_COMPLETED)),
        (''failure_class'', opt_str (cr_failure_class r)), (''detail'', opt_str (cr_detail r)),
        (''verification'', PyDict (cr_verification r)),
        (''evidence_ids'', PyList (map PyStr (cr_evidence_ids r)))] g"

section \<open>Properties\<close>

inductive usage_step :: "UsageFinaliser \<Rightarrow> UsageFinaliser \<Rightarrow> bool" where
  u_record: "usage_step u (snd (record_attempt uf u))"
| u_finalise: "usage_step u (snd (finalise_usage eid org proj mid facts u))"

text \<open>A finalised execution has its aggregate, and attempt rows are kept under their own key.\<close>

definition usage_inv :: "UsageFinaliser \<Rightarrow> bool" where
  "usage_inv u \<longleftrightarrow> dict_ok (us_attempt_usage u)
     \<and> (\<forall>eid \<in> set (us_finalised u). map_of (us_aggregate u) eid \<noteq> None)
     \<and> (\<forall>(k, row) \<in> set (us_attempt_usage u). \<exists>uf. row = usage_as_dict uf
          \<and> k = attempt_key (uf_execution_id uf) (uf_attempt_id uf))"

lemma usage_row:
  assumes "usage_inv u" and "(k, row) \<in> set (us_attempt_usage u)"
  obtains uf where "row = usage_as_dict uf" "k = attempt_key (uf_execution_id uf) (uf_attempt_id uf)"
  using assms unfolding usage_inv_def by fast

lemma update_absent: "map_of m k = None \<Longrightarrow> AList.update k v m = m @ [(k, v)]"
  by (simp add: update_new_key map_of_eq_None_iff)

lemma record_attempt_frame:
  assumes "record_attempt uf u = (r, u')"
  shows "us_finalised u' = us_finalised u" and "us_aggregate u' = us_aggregate u"
    and "usage_inv u \<Longrightarrow> usage_inv u'"
proof -
  show "us_finalised u' = us_finalised u" "us_aggregate u' = us_aggregate u"
    using assms by (auto simp: record_attempt_def Let_def split: option.splits if_splits)
  assume inv: "usage_inv u"
  show "usage_inv u'"
  proof (cases "map_of (us_attempt_usage u) (attempt_key (uf_execution_id uf) (uf_attempt_id uf)) = None \<and> \<not> foreign_tenant u uf")
    case True
    then have "us_attempt_usage u' = us_attempt_usage u @ [(attempt_key (uf_execution_id uf) (uf_attempt_id uf), usage_as_dict uf)]"
      and "dict_ok (us_attempt_usage u')"
      using assms inv by (auto simp: record_attempt_def Let_def usage_inv_def update_absent [symmetric])
    then show ?thesis
      using inv \<open>us_finalised u' = _\<close> \<open>us_aggregate u' = _\<close> by (auto simp: usage_inv_def)
  next
    case False
    then have "u' = u"
      using assms by (auto simp: record_attempt_def Let_def split: option.splits if_splits)
    with inv show ?thesis by simp
  qed
qed

lemma record_attempts_frame:
  assumes "record_attempts eid mid items u = (r, u')"
  shows "us_finalised u' = us_finalised u \<and> us_aggregate u' = us_aggregate u \<and> (usage_inv u \<longrightarrow> usage_inv u')"
  using assms
proof (induction items arbitrary: u)
  case Nil
  then show ?case by simp
next
  case (Cons i items)
  show ?case
  proof (cases "read_fact eid mid i")
    case (Inl e)
    with Cons.prems show ?thesis by simp
  next
    case (Inr uf)
    obtain x u1 where r: "record_attempt uf u = (x, u1)" by (metis surj_pair)
    show ?thesis
      using Cons.IH [of u1] Cons.prems record_attempt_frame [OF r] by (cases x) (auto simp: Inr r)
  qed
qed

text \<open>The three outcomes of a finalisation.\<close>

lemma finalise_usage_cases:
  assumes "finalise_usage eid org proj mid items u = (r, u')" and "usage_inv u"
  obtains (known) ag where "eid \<in> set (us_finalised u)" "map_of (us_aggregate u) eid = Some ag" "r = Inr ag" "u' = u"
  | (failed) e where "eid \<notin> set (us_finalised u)" "r = Inl e" "us_finalised u' = us_finalised u"
      "us_aggregate u' = us_aggregate u" "usage_inv u'"
  | (fresh) ag where "eid \<notin> set (us_finalised u)" "r = Inr ag" "us_finalised u' = List.insert eid (us_finalised u)"
      "us_aggregate u' = AList.update eid ag (us_aggregate u)" "usage_inv u'"
      "dget ag ''attempts'' = PyList (map PyDict (attempts_of eid u'))"
proof (cases "eid \<in> set (us_finalised u)")
  case True
  then obtain ag where "map_of (us_aggregate u) eid = Some ag"
    using assms(2) by (auto simp: usage_inv_def)
  with True show ?thesis
    using known assms(1) by (simp add: finalise_usage_def)
next
  case False
  obtain x u1 where r: "record_attempts eid mid items u = (x, u1)" by (metis surj_pair)
  note fr = record_attempts_frame [OF r]
  show ?thesis
  proof (cases x)
    case (Inl e)
    then show ?thesis
      using failed [of e] False r fr assms by (simp add: finalise_usage_def)
  next
    case (Inr y)
    define res where "res = bind_result (fact_sum ''wall_clock_seconds'' (attempts_of eid u1)) (\<lambda>wall.
                        bind_result (fact_sum ''input_tokens'' (attempts_of eid u1)) (\<lambda>tin.
                        bind_result (fact_sum ''output_tokens'' (attempts_of eid u1)) (\<lambda>tout.
                        Inr [(''execution_id'', PyStr eid), (''organisation_id'', opt_str org),
                             (''project_id'', opt_str proj), (''mission_id'', PyStr mid),
                             (''attempt_count'', PyInt (int (length (attempts_of eid u1)))),
                             (''wall_clock_seconds'', PyInt wall), (''input_tokens'', PyInt tin),
                             (''output_tokens'', PyInt tout), (''attempts'', PyList (map PyDict (attempts_of eid u1))),
                             (''finalised'', PyBool True)])))"
    have eq: "finalise_usage eid org proj mid items u = (case res of
                   Inl e \<Rightarrow> (Inl e, u1)
                 | Inr ag \<Rightarrow> (Inr ag, u1\<lparr>us_aggregate := AList.update eid ag (us_aggregate u1),
                                       us_finalised := List.insert eid (us_finalised u1)\<rparr>))"
      using False r Inr by (simp add: finalise_usage_def Let_def res_def)
    show ?thesis
    proof (cases res)
      case (Inl e)
      then show ?thesis
        using failed [of e] False fr assms eq by simp
    next
      case (Inr ag)
      have "usage_inv (u1\<lparr>us_aggregate := AList.update eid ag (us_aggregate u1),
                         us_finalised := List.insert eid (us_finalised u1)\<rparr>)"
        using fr assms(2) by (auto simp: usage_inv_def)
      moreover have "dget ag ''attempts'' = PyList (map PyDict (attempts_of eid u1))"
        using Inr by (auto simp: res_def bind_result_Inr_iff dget_def)
      ultimately show ?thesis
        using fresh [of ag] False fr assms(1) eq Inr by (auto simp: attempts_of_def)
    qed
  qed
qed

lemma usage_step_inv:
  assumes "usage_step u u'" and "usage_inv u"
  shows "usage_inv u' \<and> set (us_finalised u) \<subseteq> set (us_finalised u')
    \<and> (\<forall>eid \<in> set (us_finalised u). map_of (us_aggregate u') eid = map_of (us_aggregate u) eid)"
  using assms(1)
proof cases
  case (u_record uf)
  then show ?thesis
    using record_attempt_frame [of uf u] assms(2) by (cases "record_attempt uf u") auto
next
  case (u_finalise eid org proj mid items)
  obtain r where "finalise_usage eid org proj mid items u = (r, u')"
    using u_finalise by (metis surj_pair snd_conv)
  then show ?thesis
    by (cases rule: finalise_usage_cases [OF _ assms(2)]) (use assms(2) in auto)
qed

lemma usage_steps_inv:
  assumes "usage_step\<^sup>*\<^sup>* u u'" and "usage_inv u"
  shows "usage_inv u' \<and> set (us_finalised u) \<subseteq> set (us_finalised u')
    \<and> (\<forall>eid \<in> set (us_finalised u). map_of (us_aggregate u') eid = map_of (us_aggregate u) eid)"
  using assms(1)
proof (induction rule: rtranclp_induct)
  case base
  then show ?case using assms(2) by simp
next
  case (step v w)
  then show ?case using usage_step_inv [of v w] by fastforce
qed

lemma usage_init_inv: "usage_inv init_UsageFinaliser"
  by (simp add: usage_inv_def init_UsageFinaliser_def)

text \<open>Usage is finalised once: after a finalisation of an execution returned an aggregate, every
  later finalisation of it returns that very aggregate and changes nothing, whatever facts are
  recorded or finalised in between, by whom, and whatever facts it is called with.\<close>

theorem usage_finalised_once:
  assumes "usage_step\<^sup>*\<^sup>* init_UsageFinaliser u"
    and "finalise_usage eid org proj mid items u = (Inr ag, u1)"
    and "usage_step\<^sup>*\<^sup>* u1 u2"
  shows "finalise_usage eid org' proj' mid' items' u2 = (Inr ag, u2)"
proof -
  have inv: "usage_inv u"
    using usage_steps_inv [OF assms(1) usage_init_inv] by simp
  have "usage_inv u1 \<and> eid \<in> set (us_finalised u1) \<and> map_of (us_aggregate u1) eid = Some ag"
    by (cases rule: finalise_usage_cases [OF assms(2) inv]) (use inv in auto)
  then have "eid \<in> set (us_finalised u2) \<and> map_of (us_aggregate u2) eid = Some ag"
    using usage_steps_inv [OF assms(3)] by auto
  then show ?thesis
    by (simp add: finalise_usage_def)
qed

lemma starts_with_iff: "starts_with p s \<longleftrightarrow> (\<exists>t. s = p @ t)"
  by (induction p s rule: starts_with.induct) auto

lemma attempt_key_prefix:
  assumes "CHR '':'' \<notin> set eid" and "CHR '':'' \<notin> set x"
  shows "starts_with (eid @ '':'') (attempt_key x a) \<longleftrightarrow> x = eid"
proof
  assume "starts_with (eid @ '':'') (attempt_key x a)"
  then obtain t where eq: "x @ CHR '':'' # a = eid @ CHR '':'' # t"
    by (auto simp: starts_with_iff attempt_key_def)
  have front: "takeWhile (\<lambda>c. c \<noteq> CHR '':'') (s @ CHR '':'' # r) = s" if "CHR '':'' \<notin> set s" for s r
    using that by (subst takeWhile_append2) auto
  show "x = eid"
    using arg_cong [OF eq, of "takeWhile (\<lambda>c. c \<noteq> CHR '':'')"] by (simp only: front assms not_False_eq_True)
qed (simp add: starts_with_iff attempt_key_def)

lemma attempts_of_own:
  assumes "usage_inv u" and "CHR '':'' \<notin> set eid"
    and "\<forall>row \<in> snd ` set (us_attempt_usage u). CHR '':'' \<notin> set (py_str (dget row ''execution_id''))"
  shows "attempts_of eid u = filter (\<lambda>row. dget row ''execution_id'' = PyStr eid) (map snd (us_attempt_usage u))"
proof -
  have "starts_with (eid @ '':'') k \<longleftrightarrow> dget row ''execution_id'' = PyStr eid"
    if mem: "(k, row) \<in> set (us_attempt_usage u)" for k row
  proof -
    obtain uf where row: "row = usage_as_dict uf" and k: "k = attempt_key (uf_execution_id uf) (uf_attempt_id uf)"
      by (rule usage_row [OF assms(1) mem])
    have "dget row ''execution_id'' = PyStr (uf_execution_id uf)"
      by (simp add: row usage_as_dict_def dget_def)
    moreover have "CHR '':'' \<notin> set (uf_execution_id uf)"
      using bspec [OF assms(3), of row] mem calculation by force
    ultimately show ?thesis
      using attempt_key_prefix [OF assms(2)] k by simp
  qed
  then show ?thesis
    by (auto simp: attempts_of_def filter_map intro!: arg_cong [of _ _ "map snd"] filter_cong)
qed

lemma attempts_of_distinct:
  assumes "usage_inv u" and "attempts_of eid u = filter (\<lambda>row. dget row ''execution_id'' = PyStr eid) (map snd (us_attempt_usage u))"
  shows "distinct (map (\<lambda>row. dget row ''attempt_id'') (attempts_of eid u))"
proof -
  let ?ps = "filter (\<lambda>p. dget (snd p) ''execution_id'' = PyStr eid) (us_attempt_usage u)"
  have key: "fst p = eid @ '':'' @ py_str (dget (snd p) ''attempt_id'')" if mem: "p \<in> set ?ps" for p
  proof -
    obtain uf where "snd p = usage_as_dict uf" "fst p = attempt_key (uf_execution_id uf) (uf_attempt_id uf)"
      using mem by (auto intro: usage_row [OF assms(1), of "fst p" "snd p"])
    then show ?thesis
      using mem by (simp add: usage_as_dict_def dget_def attempt_key_def)
  qed
  have "distinct (map fst ?ps)"
    using assms(1) by (simp add: usage_inv_def dict_ok_def distinct_map_filter)
  then have "distinct (map (\<lambda>p. dget (snd p) ''attempt_id'') ?ps)"
    using key by (auto simp: distinct_map inj_on_def)
  then show ?thesis
    by (simp add: assms(2) filter_map comp_def)
qed

definition example_fact :: "string \<Rightarrow> string \<Rightarrow> int \<Rightarrow> UsageFact" where
  "example_fact eid aid tokens =
     \<lparr>uf_organisation_id = PyStr ''org'', uf_project_id = PyNone, uf_mission_id = ''m1'',
      uf_execution_id = eid, uf_attempt_id = aid, uf_backend_id = ''local'', uf_harness_id = PyNone,
      uf_facts = [(''input_tokens'', PyInt tokens)]\<rparr>"

theorem usage_finalised_once_witness:
  "finalise_usage ''e1'' None None ''other'' [Fact (example_fact ''e1'' ''a2'' 99)]
      (snd (record_attempt (example_fact ''e1'' ''a3'' 7)
        (snd (finalise_usage ''e1'' (Some ''org'') None ''m1'' [Fact (example_fact ''e1'' ''a1'' 5)] init_UsageFinaliser))))
   = (fst (finalise_usage ''e1'' (Some ''org'') None ''m1'' [Fact (example_fact ''e1'' ''a1'' 5)] init_UsageFinaliser),
      snd (record_attempt (example_fact ''e1'' ''a3'' 7)
        (snd (finalise_usage ''e1'' (Some ''org'') None ''m1'' [Fact (example_fact ''e1'' ''a1'' 5)] init_UsageFinaliser))))"
proof -
  let ?run = "finalise_usage ''e1'' (Some ''org'') None ''m1'' [Fact (example_fact ''e1'' ''a1'' 5)] init_UsageFinaliser"
  obtain ag where "fst ?run = Inr ag"
    by (cases "fst ?run") (simp_all, code_simp)
  then have "?run = (Inr ag, snd ?run)"
    by (metis prod.collapse)
  have step: "usage_step\<^sup>*\<^sup>* (snd ?run) (snd (record_attempt (example_fact ''e1'' ''a3'' 7) (snd ?run)))"
    by (rule r_into_rtranclp) (rule u_record)
  show ?thesis
    using usage_finalised_once [OF rtranclp.rtrancl_refl \<open>?run = _\<close> step] \<open>fst ?run = Inr ag\<close> by simp
qed

text \<open>When no execution identifier holds a colon, the attempts aggregated for an execution are
  exactly the recorded attempts of that execution, each attempt identifier once, however often its
  facts were submitted.\<close>

theorem usage_counts_own_attempts:
  assumes "usage_step\<^sup>*\<^sup>* init_UsageFinaliser u" and "CHR '':'' \<notin> set eid"
    and "\<forall>row \<in> snd ` set (us_attempt_usage u1). CHR '':'' \<notin> set (py_str (dget row ''execution_id''))"
    and "eid \<notin> set (us_finalised u)" and "finalise_usage eid org proj mid items u = (Inr ag, u1)"
  shows "(let rows = filter (\<lambda>row. dget row ''execution_id'' = PyStr eid) (map snd (us_attempt_usage u1))
          in dget ag ''attempts'' = PyList (map PyDict rows)
           \<and> distinct (map (\<lambda>row. dget row ''attempt_id'') rows))"
proof -
  have "usage_inv u"
    using usage_steps_inv [OF assms(1) usage_init_inv] by simp
  then have "dget ag ''attempts'' = PyList (map PyDict (attempts_of eid u1)) \<and> usage_inv u1"
    by (cases rule: finalise_usage_cases [OF assms(5)]) (use assms(4) in auto)
  with attempts_of_own [OF _ assms(2,3)] attempts_of_distinct show ?thesis
    by (simp add: Let_def)
qed

theorem usage_counts_own_attempts_witness:
  "distinct (map (\<lambda>row. dget row ''attempt_id'') (filter (\<lambda>row. dget row ''execution_id'' = PyStr ''e1'')
     (map snd (us_attempt_usage (snd (finalise_usage ''e1'' None None ''m1''
        [Fact (example_fact ''e1'' ''a1'' 5), Fact (example_fact ''e1'' ''a1'' 5)] init_UsageFinaliser))))))"
proof -
  let ?run = "finalise_usage ''e1'' None None ''m1''
        [Fact (example_fact ''e1'' ''a1'' 5), Fact (example_fact ''e1'' ''a1'' 5)] init_UsageFinaliser"
  obtain ag where "fst ?run = Inr ag"
    by (cases "fst ?run") (simp_all, code_simp)
  then have run: "?run = (Inr ag, snd ?run)"
    by (metis prod.collapse)
  have colon: "\<forall>row \<in> snd ` set (us_attempt_usage (snd ?run)). CHR '':'' \<notin> set (py_str (dget row ''execution_id''))"
    by code_simp
  show ?thesis
    using usage_counts_own_attempts [OF rtranclp.rtrancl_refl _ colon _ run]
    by (simp add: Let_def init_UsageFinaliser_def)
qed

text \<open>Attempts are collected by the prefix of their key, so an execution whose identifier extends
  another one by a colon is charged to that other execution too: the tokens recorded for
  \<open>eid @ '':'' @ x\<close> appear in the aggregate of \<open>eid\<close>, which made no attempt of its own.\<close>

theorem usage_prefix_overcharge:
  assumes "uf_execution_id uf = eid @ '':'' @ x" and "uf_facts uf = [(''input_tokens'', PyInt n)]"
  shows "\<exists>ag. fst (finalise_usage eid org proj mid [] (snd (record_attempt uf init_UsageFinaliser))) = Inr ag
      \<and> dget ag ''input_tokens'' = PyInt n \<and> dget ag ''attempt_count'' = PyInt 1"
proof -
  let ?u = "snd (record_attempt uf init_UsageFinaliser)"
  have u: "?u = init_UsageFinaliser\<lparr>us_attempt_usage := [(attempt_key (eid @ '':'' @ x) (uf_attempt_id uf), usage_as_dict uf)]\<rparr>"
    by (simp add: record_attempt_def init_UsageFinaliser_def foreign_tenant_def assms(1))
  then have at: "attempts_of eid ?u = [usage_as_dict uf]" and fin: "us_finalised ?u = []"
    by (simp_all add: attempts_of_def starts_with_iff attempt_key_def init_UsageFinaliser_def)
  have "fact_value k (usage_as_dict uf) = Inr (if k = ''input_tokens'' then n else 0)" for k
    by (simp add: fact_value_def usage_as_dict_def dget_default_def dget_def py_or_def assms(2))
  then have "fact_sum k [usage_as_dict uf] = Inr (if k = ''input_tokens'' then n else 0)" for k
    by (simp add: fact_sum_def)
  then show ?thesis
    by (simp add: finalise_usage_def at fin Let_def dget_def)
qed

theorem usage_prefix_overcharge_witness:
  "\<exists>ag. fst (finalise_usage ''job'' None None ''m1'' [] (snd (record_attempt (example_fact ''job:2'' ''a1'' 70) init_UsageFinaliser))) = Inr ag
      \<and> dget ag ''input_tokens'' = PyInt 70 \<and> dget ag ''attempt_count'' = PyInt 1"
  by (rule usage_prefix_overcharge [where x = "''2''"]) (simp_all add: example_fact_def)

end
