(* ===== verification/Completion.thy ===== *)
theory Completion
  imports Evidence Verification Usage
begin

text \<open>
  The completion orchestrator
  (\<^verbatim>\<open>src/src/joymesh/runtime_v1/completion/orchestrator.py\<close>): it turns the result of a backend, or
  an event of a remote node, into evidence, a verification verdict, usage and one terminal record.

  A method that holds a record object works on a pair of the record and the orchestrator. The record
  is the object in the store, so every assignment to it is saved at once (\<open>assign\<close>). \<open>env_sha256\<close>,
  \<open>env_clock\<close> and \<open>env_fresh\<close> stand for the hash and for the successive clock reads and random
  identifiers; \<open>oc_ticks\<close> counts how many were used. Every method runs without an \<^verbatim>\<open>await\<close> on
  anything but another method of the class, so a method is one step.
\<close>

section \<open>The orchestrator\<close>

record environment =
  env_sha256 :: "string \<Rightarrow> string"
  env_clock :: "nat \<Rightarrow> time"
  env_fresh :: "nat \<Rightarrow> string"

record Orchestrator =
  oc_evidence :: EvidenceBoundary
  oc_usage :: UsageFinaliser
  oc_graph :: MissionGraphProjector
  oc_store :: CompletionStore
  oc_ticks :: nat

definition init_Orchestrator :: Orchestrator where
  "init_Orchestrator =
     \<lparr>oc_evidence = init_EvidenceBoundary 2000000, oc_usage = init_UsageFinaliser,
      oc_graph = init_MissionGraphProjector, oc_store = [], oc_ticks = 0\<rparr>"

type_synonym held = "CompletionRecord \<times> Orchestrator"

definition advance :: "nat \<Rightarrow> Orchestrator \<Rightarrow> Orchestrator" where
  "advance n oc = oc\<lparr>oc_ticks := oc_ticks oc + n\<rparr>"

definition save_record :: "CompletionRecord \<Rightarrow> Orchestrator \<Rightarrow> Orchestrator" where
  "save_record r oc = oc\<lparr>oc_store := store_save (oc_store oc) r\<rparr>"

definition assign :: "(CompletionRecord \<Rightarrow> CompletionRecord) \<Rightarrow> held \<Rightarrow> held" where
  "assign f h = (f (fst h), save_record (f (fst h)) (snd h))"

definition with_graph ::
  "(string \<Rightarrow> time \<Rightarrow> MissionGraphProjector \<Rightarrow> pydict \<times> MissionGraphProjector) \<Rightarrow> environment \<Rightarrow> held \<Rightarrow> held" where
  "with_graph f W h =
     (let oc = snd h; n = oc_ticks oc
      in (fst h, advance 1 (oc\<lparr>oc_graph := snd (f (env_fresh W n) (env_clock W n) (oc_graph oc))\<rparr>)))"

section \<open>Events\<close>

definition event_dict :: "environment \<Rightarrow> nat \<Rightarrow> CompletionRecord \<Rightarrow> string \<Rightarrow> pydict \<Rightarrow> pydict" where
  "event_dict W n r event_type payload =
     [(''event_id'', PyStr (''evt_'' @ env_fresh W n)), (''event_type'', PyStr event_type),
      (''organisation_id'', opt_str (cr_organisation_id r)), (''project_id'', opt_str (cr_project_id r)),
      (''mission_id'', PyStr (cr_mission_id r)), (''execution_id'', PyStr (cr_execution_id r)),
      (''attempt_id'', PyStr (cr_attempt_id r)), (''sequence'', PyInt (cr_sequence r)),
      (''timestamp'', PyInt (env_clock W n)), (''correlation_id'', PyStr (cr_execution_id r)),
      (''producer'', PyStr ''ExecutionCompletionOrchestrator''), (''payload'', PyDict payload)]"

definition deduplicated :: "string \<Rightarrow> bool" where
  "deduplicated event_type \<longleftrightarrow> starts_with ''execution.'' event_type \<and> event_type \<in>
     {''execution.completed'', ''execution.failed'', ''execution.blocked'', ''execution.cancelled'', ''usage.finalised''}"

definition repeats :: "string \<Rightarrow> pydict \<Rightarrow> pydict \<Rightarrow> bool" where
  "repeats event_type payload prior \<longleftrightarrow>
     dget prior ''event_type'' = PyStr event_type \<and> py_eq (dget prior ''payload'') (PyDict payload)
     \<and> deduplicated event_type"

text \<open>A suppressed event has still advanced the sequence number.\<close>

definition emit :: "environment \<Rightarrow> string \<Rightarrow> pydict \<Rightarrow> bool \<Rightarrow> held \<Rightarrow> held" where
  "emit W event_type payload force h =
     (let n = oc_ticks (snd h); r1 = (fst h)\<lparr>cr_sequence := cr_sequence (fst h) + 1\<rparr>
      in if \<not> force \<and> list_ex (repeats event_type payload) (cr_events r1)
         then assign (\<lambda>_. r1) (fst h, advance 1 (snd h))
         else assign (\<lambda>_. r1\<lparr>cr_events := cr_events r1 @ [event_dict W n r1 event_type payload],
                           cr_updated_at := env_clock W (n + 1)\<rparr>) (fst h, advance 2 (snd h)))"

definition str_default :: "string option \<Rightarrow> string \<Rightarrow> string" where
  "str_default x d = (case x of None \<Rightarrow> d | Some s \<Rightarrow> if s = [] then d else s)"

definition outcome_from_record :: "CompletionRecord \<Rightarrow> CompletionOutcome" where
  "outcome_from_record r =
     \<lparr>co_ok = (cr_state r = CS_COMPLETED), co_state = cr_state r, co_execution_id = cr_execution_id r,
      co_mission_id = cr_mission_id r, co_attempt_id = cr_attempt_id r,
      co_detail = str_default (cr_detail r) (completion_state_value (cr_state r)),
      co_failure_class = cr_failure_class r, co_verification = cr_verification r,
      co_evidence_ids = cr_evidence_ids r, co_usage = cr_usage_aggregate r, co_events = cr_events r,
      co_graph_nodes = cr_graph_nodes r, co_record = record_as_dict r\<rparr>"

section \<open>Records\<close>

definition new_record :: "environment \<Rightarrow> nat \<Rightarrow> CompletionContext \<Rightarrow> bool \<Rightarrow> bool \<Rightarrow> CompletionRecord" where
  "new_record W n cx backend_ok restore_ok =
     \<lparr>cr_execution_id = cc_execution_id cx, cr_mission_id = cc_mission_id cx, cr_state = CS_RUNNING,
      cr_attempt_id = cc_attempt_id cx, cr_authoritative_attempt_id = cc_authoritative_attempt_id cx,
      cr_backend_id = cc_backend_id cx, cr_harness_id = cc_harness_id cx,
      cr_organisation_id = cc_organisation_id cx, cr_project_id = cc_project_id cx,
      cr_backend_ok = backend_ok, cr_restore_ok = restore_ok, cr_evidence_ids = [],
      cr_verification = [], cr_usage_finalised = False, cr_usage_aggregate = [], cr_graph_nodes = [],
      cr_events = [], cr_failure_class = None, cr_detail = None, cr_sequence = 0,
      cr_created_at = env_clock W n, cr_updated_at = env_clock W (n + 1), cr_terminal_emitted = False\<rparr>"

definition ensure_record :: "environment \<Rightarrow> CompletionContext \<Rightarrow> bool \<Rightarrow> bool \<Rightarrow> bool \<Rightarrow> Orchestrator \<Rightarrow> held" where
  "ensure_record W cx backend_ok restore_ok update_attempt oc =
     (let n = oc_ticks oc
      in case store_get (oc_store oc) (cc_execution_id cx) of
           Some r \<Rightarrow>
             (let r1 = (if update_attempt
                        then r\<lparr>cr_backend_ok := backend_ok, cr_restore_ok := restore_ok,
                               cr_attempt_id := cc_attempt_id cx\<rparr> else r)
              in assign (\<lambda>_. r1\<lparr>cr_updated_at := env_clock W n\<rparr>) (r, advance 1 oc))
         | None \<Rightarrow>
             (let r = new_record W n cx backend_ok restore_ok in (r, save_record r (advance 2 oc))))"

section \<open>Finalising\<close>

text \<open>The usage step: the flag tells whether the run may still succeed.\<close>

definition usage_stage :: "environment \<Rightarrow> bool \<Rightarrow> UsageFact list \<Rightarrow> held \<Rightarrow> bool \<times> held" where
  "usage_stage W success facts h =
     (let r = fst h
      in case finalise_usage (cr_execution_id r) (cr_organisation_id r) (cr_project_id r) (cr_mission_id r)
               (map Fact facts) (oc_usage (snd h)) of
           (Inr ag, us) \<Rightarrow>
             (success,
              emit W ''usage.finalised'' [(''execution_id'', PyStr (cr_execution_id r))] False
                (assign (\<lambda>r. r\<lparr>cr_usage_finalised := True, cr_usage_aggregate := ag\<rparr>)
                  (r, (snd h)\<lparr>oc_usage := us\<rparr>)))
         | (Inl e, us) \<Rightarrow>
             (False,
              emit W ''execution.blocked'' [(''reason'', PyStr ''usage_finalisation_failed'')] False
                (assign (\<lambda>r. r\<lparr>cr_state := CS_BLOCKED,
                             cr_failure_class := Some (completion_failure_value CF_USAGE_FINALISATION_FAILED),
                             cr_detail := Some (''usage finalisation failed: '' @ error_name e)\<rparr>)
                  (r, (snd h)\<lparr>oc_usage := us\<rparr>))))"

text \<open>The projection of the result cannot raise on the values of the model, so the branch for its
  failure is never taken.\<close>

definition result_stage :: "environment \<Rightarrow> held \<Rightarrow> held" where
  "result_stage W h =
     (let oc = snd h; n = oc_ticks oc;
          (node, g) = project_result (env_fresh W n) (env_clock W n) (fst h) (oc_graph oc)
      in assign (\<lambda>r. r\<lparr>cr_graph_nodes := cr_graph_nodes r @ [node]\<rparr>) (fst h, advance 1 (oc\<lparr>oc_graph := g\<rparr>)))"

definition finalise_terminal ::
  "environment \<Rightarrow> bool \<Rightarrow> UsageFact list \<Rightarrow> held \<Rightarrow> CompletionOutcome \<times> Orchestrator" where
  "finalise_terminal W success facts h =
     (if cr_terminal_emitted (fst h) \<and> cr_state (fst h) \<in> set TERMINAL_COMPLETION_STATES
      then (outcome_from_record (fst h), snd h)
      else
        let h1 = assign (\<lambda>r. r\<lparr>cr_state :=
                   (if success then CS_FINALISING
                    else if cr_state r \<in> set TERMINAL_COMPLETION_STATES then cr_state r else CS_FAILED)\<rparr>) h;
            h2 = (if success then emit W ''execution.finalising'' [] False h1 else h1);
            (success1, h3) = usage_stage W success facts h2;
            h4 = (if success1 then
                    emit W ''execution.completed'' [(''verified'', PyBool True)] False
                      (assign (\<lambda>r. r\<lparr>cr_state := CS_COMPLETED,
                                   cr_detail := Some (str_default (cr_detail r) ''verified completion'')\<rparr>) h3)
                  else if cr_state (fst h3) = CS_FINALISING then assign (\<lambda>r. r\<lparr>cr_state := CS_FAILED\<rparr>) h3
                  else h3);
            h5 = result_stage W h4;
            h6 = assign (\<lambda>r. r\<lparr>cr_terminal_emitted := True,
                             cr_updated_at := env_clock W (oc_ticks (snd h5))\<rparr>) (fst h5, advance 1 (snd h5))
        in (outcome_from_record (fst h6), snd h6))"

text \<open>\<open>_reject_stale\<close>. The record it emits on is the authoritative record itself.\<close>

definition reject_stale ::
  "environment \<Rightarrow> CompletionContext \<Rightarrow> CompletionFailureClass \<Rightarrow> string \<Rightarrow> Orchestrator
   \<Rightarrow> CompletionOutcome \<times> Orchestrator" where
  "reject_stale W cx reason detail oc =
     (let h = emit W ''execution.stale_attempt_rejected''
                [(''attempt_id'', PyStr (cc_attempt_id cx)),
                 (''reason'', PyStr (completion_failure_value reason))] True
                (ensure_record W cx False True False oc)
      in case store_get (oc_store (snd h)) (cc_execution_id cx) of
           Some a \<Rightarrow>
             if cr_state a \<in> set TERMINAL_COMPLETION_STATES then (outcome_from_record a, snd h)
             else (\<lparr>co_ok = False, co_state = cr_state a, co_execution_id = cc_execution_id cx,
                    co_mission_id = cc_mission_id cx, co_attempt_id = cc_attempt_id cx, co_detail = detail,
                    co_failure_class = Some (completion_failure_value reason), co_verification = [],
                    co_evidence_ids = [], co_usage = [], co_events = cr_events (fst h),
                    co_graph_nodes = [], co_record = record_as_dict (fst h)\<rparr>, snd h)
         | None \<Rightarrow>
             (\<lparr>co_ok = False, co_state = CS_RUNNING, co_execution_id = cc_execution_id cx,
               co_mission_id = cc_mission_id cx, co_attempt_id = cc_attempt_id cx, co_detail = detail,
               co_failure_class = Some (completion_failure_value reason), co_verification = [],
               co_evidence_ids = [], co_usage = [], co_events = cr_events (fst h),
               co_graph_nodes = [], co_record = record_as_dict (fst h)\<rparr>, snd h))"

definition finalise_cancelled ::
  "environment \<Rightarrow> CompletionContext \<Rightarrow> bool \<Rightarrow> Orchestrator \<Rightarrow> CompletionOutcome \<times> Orchestrator" where
  "finalise_cancelled W cx cleanup_completed oc =
     (let h = ensure_record W cx False True True oc
      in if cr_state (fst h) \<in> set TERMINAL_COMPLETION_STATES \<and> cr_terminal_emitted (fst h)
         then (outcome_from_record (fst h), snd h)
         else if \<not> cleanup_completed then
           finalise_terminal W False []
             (emit W ''execution.blocked'' [(''reason'', PyStr ''cleanup_timeout'')] False
               (assign (\<lambda>r. r\<lparr>cr_state := CS_BLOCKED,
                            cr_failure_class := Some (completion_failure_value CF_CLEANUP_FAILED),
                            cr_detail := Some ''cancellation cleanup incomplete''\<rparr>) h))
         else
           finalise_terminal W False []
             (emit W ''execution.cancelled'' [(''cleanup_completed'', PyBool True)] False
               (assign (\<lambda>r. r\<lparr>cr_state := CS_CANCELLED, cr_detail := Some ''execution cancelled''\<rparr>) h)))"

section \<open>Facts and candidates read from a result\<close>

definition restore_ok :: "ExecutionResult \<Rightarrow> bool" where
  "restore_ok res =
     (if xr_failure_class res = Some ''provider_restore_failure'' then False
      else if xr_restore_status res \<in> {Some ''failed'', Some ''unresolved'', Some ''blocked''} then False
      else \<not> (has_key (xr_output res) ''restored'' \<and> dget (xr_output res) ''restored'' = PyBool False))"

definition new_candidate ::
  "string \<Rightarrow> string \<Rightarrow> string option \<Rightarrow> int \<Rightarrow> int \<Rightarrow> pydict \<Rightarrow> pydict \<Rightarrow> CandidateEvidence" where
  "new_candidate uid ty ref bytes seq provenance payload =
     \<lparr>ce_evidence_type = ty, ce_content_ref = ref, ce_content_hash = None, ce_size_bytes = bytes,
      ce_sequence = seq, ce_provenance = provenance, ce_payload = payload,
      ce_evidence_id = ''evidence_'' @ uid\<rparr>"

definition candidates_from_result :: "environment \<Rightarrow> nat \<Rightarrow> ExecutionResult \<Rightarrow> CandidateEvidence list" where
  "candidates_from_result W n res =
     (let prov = [(''execution_id'', PyStr (xr_execution_id res))];
          refs = map (\<lambda>(i, ref). new_candidate (env_fresh W (n + i)) ''structured_result'' (Some ref) 0
                        (int i + 1) prov [(''ref'', PyStr ref)]) (List.enumerate 0 (xr_evidence_refs res));
          outs = refs @ (if xr_ok res then
                   [new_candidate (env_fresh W (n + length refs)) ''backend_output'' None
                      (int (length (xr_message res))) (int (length refs) + 1) prov
                      [(''message'', PyStr (xr_message res)), (''backend_id'', PyStr (xr_backend_id res)),
                       (''harness_id'', PyStr (xr_harness_id res))]] else []);
          verification = (if xr_candidate_verification res \<noteq> [] then xr_candidate_verification res
                          else xr_verification res)
      in outs @ (if verification \<noteq> [] then
                   [new_candidate (env_fresh W (n + length outs)) ''remote_verification'' None 0
                      (int (length outs) + 1) prov verification] else []))"

definition usage_fact :: "CompletionContext \<Rightarrow> pydict \<Rightarrow> UsageFact" where
  "usage_fact cx facts =
     \<lparr>uf_organisation_id = opt_str (cc_organisation_id cx), uf_project_id = opt_str (cc_project_id cx),
      uf_mission_id = cc_mission_id cx, uf_execution_id = cc_execution_id cx,
      uf_attempt_id = cc_attempt_id cx, uf_backend_id = cc_backend_id cx,
      uf_harness_id = opt_str (cc_harness_id cx), uf_facts = facts\<rparr>"

definition usage_from_result :: "ExecutionResult \<Rightarrow> CompletionContext \<Rightarrow> UsageFact list" where
  "usage_from_result res cx =
     [usage_fact cx (if xr_usage res \<noteq> [] then xr_usage res
        else [(''wall_clock_seconds'', PyInt 0), (''input_tokens'', PyInt 0), (''output_tokens'', PyInt 0)])]"

definition usage_from_payload :: "pydict \<Rightarrow> CompletionContext \<Rightarrow> UsageFact list result" where
  "usage_from_payload payload cx =
     bind_result (to_dict (py_or (dget payload ''usage'') (PyDict []))) (\<lambda>facts. Inr [usage_fact cx facts])"

section \<open>Verification\<close>

definition verification_event :: "VerificationOutcome \<Rightarrow> string" where
  "verification_event v =
     (case v of
        VO_VERIFIED \<Rightarrow> ''verification.passed''
      | VO_PENDING_HUMAN_APPROVAL \<Rightarrow> ''verification.blocked''
      | VO_BLOCKED \<Rightarrow> ''verification.blocked''
      | VO_INCONCLUSIVE \<Rightarrow> ''verification.inconclusive''
      | _ \<Rightarrow> ''verification.failed'')"

definition failure_text :: "VerificationResult \<Rightarrow> string \<Rightarrow> string" where
  "failure_text v d = (case vr_failure_class v of None \<Rightarrow> d | Some f \<Rightarrow> completion_failure_value f)"

text \<open>State and failure class of a verdict; a verified record keeps its failure class.\<close>

definition verdict_state :: "VerificationResult \<Rightarrow> CompletionLifecycleState" where
  "verdict_state v =
     (case vr_outcome v of
        VO_VERIFIED \<Rightarrow> CS_VERIFIED
      | VO_PENDING_HUMAN_APPROVAL \<Rightarrow> CS_BLOCKED
      | VO_BLOCKED \<Rightarrow> CS_BLOCKED
      | VO_INCONCLUSIVE \<Rightarrow> CS_BLOCKED
      | VO_VERIFICATION_ERROR \<Rightarrow>
          (if vr_failure_class v = Some CF_VERIFICATION_TIMEOUT then CS_TIMED_OUT else CS_FAILED)
      | _ \<Rightarrow> CS_FAILED)"

definition verdict_failure :: "VerificationResult \<Rightarrow> string" where
  "verdict_failure v =
     (case vr_outcome v of
        VO_PENDING_HUMAN_APPROVAL \<Rightarrow> failure_text v ''verification_inconclusive''
      | VO_BLOCKED \<Rightarrow> failure_text v ''restore_failed''
      | VO_INCONCLUSIVE \<Rightarrow> completion_failure_value CF_VERIFICATION_INCONCLUSIVE
      | VO_VERIFICATION_ERROR \<Rightarrow> failure_text v (completion_failure_value CF_VERIFICATION_ERROR)
      | _ \<Rightarrow> failure_text v (completion_failure_value CF_VERIFICATION_FAILED))"

definition apply_verdict :: "VerificationResult \<Rightarrow> CompletionRecord \<Rightarrow> CompletionRecord" where
  "apply_verdict v r =
     (let r1 = r\<lparr>cr_state := verdict_state v, cr_detail := Some (vr_detail v)\<rparr>
      in if vr_outcome v = VO_VERIFIED then r1 else r1\<lparr>cr_failure_class := Some (verdict_failure v)\<rparr>)"

definition verification_request ::
  "CompletionContext \<Rightarrow> ExecutionResult \<Rightarrow> pydict \<Rightarrow> held \<Rightarrow> VerificationRequest" where
  "verification_request cx res policy h =
     \<lparr>vq_mission_id = cc_mission_id cx, vq_execution_id = cc_execution_id cx,
      vq_attempt_id = cc_attempt_id cx, vq_strategy = cc_verification_strategy cx,
      vq_required_evidence_types = cc_required_evidence_types cx, vq_policy = policy,
      vq_accepted_evidence = list_accepted (oc_evidence (snd h)) (cc_execution_id cx),
      vq_backend_ok = (xr_ok res \<and> cr_backend_ok (fst h)), vq_restore_ok = cr_restore_ok (fst h)\<rparr>"

definition run_verification ::
  "environment \<Rightarrow> CompletionContext \<Rightarrow> ExecutionResult \<Rightarrow> held \<Rightarrow> CompletionOutcome result \<times> Orchestrator" where
  "run_verification W cx res h =
     (let h1 = emit W ''verification.requested'' [(''strategy'', PyStr (cc_verification_strategy cx))] False
                 (assign (\<lambda>r. r\<lparr>cr_state := CS_VERIFICATION_PENDING\<rparr>) h);
          h2 = emit W ''verification.started'' [] False (assign (\<lambda>r. r\<lparr>cr_state := CS_VERIFYING\<rparr>) h1)
      in case bind_result (to_dict (py_or (dget (cc_metadata cx) ''verification_policy'') (PyDict [])))
                (\<lambda>policy. verify (verification_request cx res policy h2)) of
           Inl e \<Rightarrow> (Inl e, snd h2)
         | Inr v \<Rightarrow>
             (let d = verification_as_dict v;
                  h3 = assign (\<lambda>r. r\<lparr>cr_verification := d\<rparr>) h2;
                  h4 = with_graph (\<lambda>i t. project_verification i t (cc_execution_id cx) d) W h3;
                  h5 = assign (apply_verdict v) (emit W (verification_event (vr_outcome v)) d False h4);
                  (out, oc) = finalise_terminal W (vr_outcome v = VO_VERIFIED) (usage_from_result res cx) h5
              in (Inr out, oc)))"

section \<open>Completion from a backend\<close>

definition note_accepted :: "environment \<Rightarrow> string \<Rightarrow> EvidenceEnvelope \<Rightarrow> held \<Rightarrow> held" where
  "note_accepted W eid e h =
     emit W ''evidence.accepted'' [(''evidence_id'', PyStr (ee_evidence_id e))] False
       (with_graph (\<lambda>i t. project_evidence i t eid e True) W
         (assign (\<lambda>r. r\<lparr>cr_evidence_ids := cr_evidence_ids r @ [ee_evidence_id e]\<rparr>) h))"

definition note_rejected :: "environment \<Rightarrow> string \<Rightarrow> EvidenceEnvelope \<Rightarrow> held \<Rightarrow> held" where
  "note_rejected W eid e h =
     emit W ''evidence.rejected''
       [(''evidence_id'', PyStr (ee_evidence_id e)),
        (''reason'', opt_str (map_option rejection_value (ee_rejection_reason e)))] False
       (with_graph (\<lambda>i t. project_evidence i t eid e False) W h)"

definition intake_stage ::
  "environment \<Rightarrow> CompletionContext \<Rightarrow> candidate_input list \<Rightarrow> held
   \<Rightarrow> (EvidenceEnvelope list \<times> EvidenceEnvelope list) result \<times> held" where
  "intake_stage W cx inputs h =
     (let oc = snd h; n = oc_ticks oc;
          (res, b) = intake (env_sha256 W) (\<lambda>i. env_clock W (n + i)) cx (cr_state (fst h))
                       (cc_backend_id cx) (cc_harness_id cx) inputs (oc_evidence oc)
      in (res, (fst h, advance (length inputs) (oc\<lparr>oc_evidence := b\<rparr>))))"

definition evidence_stage ::
  "environment \<Rightarrow> CompletionContext \<Rightarrow> ExecutionResult \<Rightarrow> candidate_input list \<Rightarrow> held
   \<Rightarrow> CompletionOutcome result \<times> Orchestrator" where
  "evidence_stage W cx res candidates h =
     (let h1 = emit W ''evidence.received'' [] False (assign (\<lambda>r. r\<lparr>cr_state := CS_EVIDENCE_PENDING\<rparr>) h);
          (inputs, h2) = (if candidates \<noteq> [] then (candidates, h1)
             else let cs = candidates_from_result W (oc_ticks (snd h1)) res
                  in (map Candidate cs, (fst h1, advance (length cs) (snd h1))))
      in case intake_stage W cx inputs h2 of
           (Inl e, h3) \<Rightarrow> (Inl e, snd h3)
         | (Inr (accepted, rejected), h3) \<Rightarrow>
             (let h4 = fold (note_rejected W (cc_execution_id cx)) rejected
                         (fold (note_accepted W (cc_execution_id cx)) accepted h3)
              in if cc_require_evidence cx \<and> accepted = [] then
                   (let (out, oc) = finalise_terminal W False (usage_from_result res cx)
                          (emit W ''execution.failed'' [(''reason'', PyStr ''evidence_missing'')] False
                            (assign (\<lambda>r. r\<lparr>cr_state := CS_FAILED,
                                         cr_failure_class := Some (completion_failure_value CF_EVIDENCE_MISSING),
                                         cr_detail := Some ''required evidence missing or rejected''\<rparr>) h4))
                    in (Inr out, oc))
                 else run_verification W cx res (assign (\<lambda>r. r\<lparr>cr_state := CS_EVIDENCE_ACCEPTED\<rparr>) h4)))"

definition already_terminal :: "Orchestrator \<Rightarrow> string \<Rightarrow> CompletionRecord option" where
  "already_terminal oc eid =
     (case store_get (oc_store oc) eid of
        None \<Rightarrow> None
      | Some r \<Rightarrow> if cr_state r \<in> set TERMINAL_COMPLETION_STATES \<and> cr_terminal_emitted r then Some r else None)"

definition complete_from_backend ::
  "environment \<Rightarrow> ExecutionResult \<Rightarrow> CompletionContext \<Rightarrow> pydict option \<Rightarrow> candidate_input list
   \<Rightarrow> Orchestrator \<Rightarrow> CompletionOutcome result \<times> Orchestrator" where
  "complete_from_backend W res cx decision candidates oc =
     (case already_terminal oc (cc_execution_id cx) of
        Some r \<Rightarrow> (Inr (outcome_from_record r), oc)
      | None \<Rightarrow>
          if cc_attempt_id cx \<noteq> cc_authoritative_attempt_id cx then
            (let (out, oc1) = reject_stale W cx CF_STALE_ATTEMPT ''stale attempt cannot finalise'' oc
             in (Inr out, oc1))
          else if \<not> restore_ok res then
            (let (out, oc1) = finalise_terminal W False (usage_from_result res cx)
                   (emit W ''execution.blocked'' [(''reason'', PyStr ''restore_failed'')] False
                     (assign (\<lambda>r. r\<lparr>cr_state := CS_BLOCKED,
                                  cr_failure_class := Some (completion_failure_value CF_RESTORE_FAILED),
                                  cr_detail := Some ''provider route restoration unresolved''\<rparr>)
                       (ensure_record W cx False False True oc)))
             in (Inr out, oc1))
          else
            let eid = cc_execution_id cx;
                h1 = emit W ''backend.completed''
                       [(''ok'', PyBool (xr_ok res)), (''message'', PyStr (xr_message res))] False
                       (assign (\<lambda>r. r\<lparr>cr_state := CS_BACKEND_COMPLETED\<rparr>)
                         (ensure_record W cx (xr_ok res) True True oc));
                h2 = with_graph (\<lambda>i t. project_attempt i t eid (cc_attempt_id cx)
                       [(''backend_id'', PyStr (cc_backend_id cx)), (''ok'', PyBool (xr_ok res))]) W h1;
                h3 = (case decision of
                        Some d \<Rightarrow> if d \<noteq> [] then with_graph (\<lambda>i t. project_decision i t eid d) W h2 else h2
                      | None \<Rightarrow> h2);
                h4 = with_graph (\<lambda>i t. project_request i t eid (cc_mission_id cx)
                       [(''execution_id'', PyStr eid)]) W h3
            in if cc_cancelled cx then
                 (let (out, oc1) = finalise_cancelled W cx True (snd h4) in (Inr out, oc1))
               else if \<not> xr_ok res then
                 (let (out, oc1) = finalise_terminal W False (usage_from_result res cx)
                        (emit W ''execution.failed'' [(''backend_ok'', PyBool False)] False
                          (assign (\<lambda>r. r\<lparr>cr_state := CS_FAILED,
                                       cr_failure_class := Some (str_default (xr_failure_class res) ''process_failure''),
                                       cr_detail := Some (xr_message res)\<rparr>) h4))
                  in (Inr out, oc1))
               else evidence_stage W cx res candidates h4)"

section \<open>Completion from a remote event\<close>

definition strict_context :: "CompletionContext \<Rightarrow> string list \<Rightarrow> CompletionContext" where
  "strict_context cx required =
     cx\<lparr>cc_require_evidence := True, cc_verification_strategy := ''remote_verifier_event'',
        cc_required_evidence_types := required\<rparr>"

definition opt_strs :: "string list \<Rightarrow> string list \<Rightarrow> string list" where
  "opt_strs xs d = (if xs \<noteq> [] then xs else d)"

text \<open>Context and candidates of a remote success; reading the verification payload may raise.\<close>

definition remote_success_inputs ::
  "environment \<Rightarrow> nat \<Rightarrow> CompletionContext \<Rightarrow> string \<Rightarrow> pydict \<Rightarrow> candidate_input list
   \<Rightarrow> (CompletionContext \<times> candidate_input list) result" where
  "remote_success_inputs W n cx event_type payload candidates =
     (if event_type = ''verification.completed'' \<or> truthy (dget payload ''verification'') then
        (let cx1 = strict_context cx (opt_strs (cc_required_evidence_types cx) [''remote_verification''])
         in if candidates = [] \<and> truthy (dget payload ''verification'') then
              bind_result (py_int (py_or (dget payload ''sequence'') (PyInt 1))) (\<lambda>seq.
              bind_result (to_dict (py_or (dget payload ''verification'') (PyDict payload))) (\<lambda>body.
              Inr (cx1, [Candidate (new_candidate (env_fresh W n) ''remote_verification'' None 0 seq
                [(''execution_id'', PyStr (cc_execution_id cx1)), (''attempt_id'', PyStr (cc_attempt_id cx1)),
                 (''mission_id'', PyStr (cc_mission_id cx1)),
                 (''organisation_id'', opt_str (cc_organisation_id cx1)),
                 (''project_id'', opt_str (cc_project_id cx1))] body)])))
            else Inr (cx1, candidates))
      else if cc_require_evidence cx \<or> cc_verification_strategy cx = ''remote_verifier_event'' then
        Inr (cx, candidates)
      else Inr (strict_context cx [''remote_verification''], candidates))"

definition complete_from_remote_event ::
  "environment \<Rightarrow> CompletionContext \<Rightarrow> string \<Rightarrow> pydict \<Rightarrow> candidate_input list \<Rightarrow> Orchestrator
   \<Rightarrow> CompletionOutcome result \<times> Orchestrator" where
  "complete_from_remote_event W cx event_type payload candidates oc =
     (case already_terminal oc (cc_execution_id cx) of
        Some r \<Rightarrow>
          if event_type \<in> {''task.succeeded'', ''task.failed'', ''execution.completed''} then
            (let h = emit W ''execution.late_event_ignored'' [(''event_type'', PyStr event_type)] True (r, oc)
             in (Inr (outcome_from_record (fst h)), snd h))
          else (Inr (outcome_from_record r), oc)
      | None \<Rightarrow>
          if cc_attempt_id cx \<noteq> cc_authoritative_attempt_id cx then
            (let (out, oc1) = reject_stale W cx CF_SUPERSEDED_ATTEMPT ''superseded remote attempt rejected'' oc
             in (Inr out, oc1))
          else if event_type \<in> {''task.cancelled'', ''execution.cancelled''} then
            (let (out, oc1) = finalise_cancelled W cx True oc in (Inr out, oc1))
          else if event_type \<in> {''task.failed'', ''execution.failed''} then
            (let h = emit W ''backend.completed'' [(''ok'', PyBool False), (''remote'', PyBool True)] False
                       (assign (\<lambda>r. r\<lparr>cr_state := CS_FAILED,
                          cr_detail := Some (py_str (py_or (dget payload ''detail'') (PyStr ''remote execution failed''))),
                          cr_failure_class := Some (py_str (py_or (dget payload ''failure_class'') (PyStr ''process_failure'')))\<rparr>)
                         (ensure_record W cx False True True oc))
             in case usage_from_payload payload cx of
                  Inl e \<Rightarrow> (Inl e, snd h)
                | Inr facts \<Rightarrow> (let (out, oc1) = finalise_terminal W False facts h in (Inr out, oc1)))
          else if event_type \<notin> {''task.succeeded'', ''execution.completed'', ''verification.completed''} then
            (let h = emit W event_type payload False
                       (assign (\<lambda>r. r\<lparr>cr_state := CS_RUNNING\<rparr>) (ensure_record W cx False True True oc))
             in (Inr \<lparr>co_ok = False, co_state = cr_state (fst h), co_execution_id = cc_execution_id cx,
                      co_mission_id = cc_mission_id cx, co_attempt_id = cc_attempt_id cx,
                      co_detail = ''progress event recorded'', co_failure_class = None,
                      co_verification = [], co_evidence_ids = [], co_usage = [],
                      co_events = cr_events (fst h), co_graph_nodes = [],
                      co_record = record_as_dict (fst h)\<rparr>,
                 save_record (fst h) (snd h)))
          else
            (let synthetic = (execution_result True (cc_execution_id cx) (cc_backend_id cx)
                    (str_default (cc_harness_id cx) ''unknown'') ES_SUCCEEDED ''remote backend reported success'')
                    \<lparr>xr_output := payload\<rparr>
             in case remote_success_inputs W (oc_ticks oc) cx event_type payload candidates of
                  Inl e \<Rightarrow> (Inl e, oc)
                | Inr (cx1, cands) \<Rightarrow> complete_from_backend W synthetic cx1 None cands (advance 1 oc)))"

section \<open>Restart recovery\<close>

definition resume_context :: "CompletionRecord \<Rightarrow> CompletionContext" where
  "resume_context r =
     \<lparr>cc_organisation_id = cr_organisation_id r, cc_project_id = cr_project_id r,
      cc_mission_id = cr_mission_id r, cc_execution_id = cr_execution_id r,
      cc_attempt_id = cr_attempt_id r, cc_authoritative_attempt_id = cr_authoritative_attempt_id r,
      cc_backend_id = cr_backend_id r, cc_harness_id = cr_harness_id r, cc_correlation_id = None,
      cc_user_id = None, cc_cancelled = False, cc_require_evidence = False,
      cc_verification_strategy = ''backend_success_with_evidence'', cc_required_evidence_types = [],
      cc_max_evidence_bytes = 2000000, cc_metadata = []\<rparr>"

definition resume ::
  "environment \<Rightarrow> string \<Rightarrow> Orchestrator \<Rightarrow> CompletionOutcome option result \<times> Orchestrator" where
  "resume W eid oc =
     (case store_get (oc_store oc) eid of
        None \<Rightarrow> (Inr None, oc)
      | Some r \<Rightarrow>
          if cr_state r \<in> set TERMINAL_COMPLETION_STATES then (Inr (Some (outcome_from_record r)), oc)
          else if cr_state r \<in> {CS_BACKEND_COMPLETED, CS_EVIDENCE_PENDING, CS_EVIDENCE_ACCEPTED,
                                CS_VERIFICATION_PENDING, CS_VERIFYING} then
            (case run_verification W (resume_context r)
                    (execution_result (cr_backend_ok r) (cr_execution_id r) (cr_backend_id r)
                       (str_default (cr_harness_id r) ''unknown'')
                       (if cr_backend_ok r then ES_SUCCEEDED else ES_FAILED) ''resumed completion'') (r, oc) of
               (Inl e, oc1) \<Rightarrow> (Inl e, oc1)
             | (Inr out, oc1) \<Rightarrow> (Inr (Some out), oc1))
          else if cr_state r = CS_FINALISING then
            (let (out, oc1) = finalise_terminal W False [] (r, oc) in (Inr (Some out), oc1))
          else (Inr (Some (outcome_from_record r)), oc))"

definition list_resumable :: "Orchestrator \<Rightarrow> CompletionRecord list" where
  "list_resumable oc = store_list_resumable (oc_store oc)"

section \<open>Effects on the held record\<close>

named_theorems held_simps \<open>effect of the record operations\<close>

lemma assign_simps [held_simps]:
  "fst (assign f h) = f (fst h)"
  "oc_evidence (snd (assign f h)) = oc_evidence (snd h)"
  "store_get (oc_store (snd (assign f h))) k =
     (if k = cr_execution_id (f (fst h)) then Some (f (fst h)) else store_get (oc_store (snd h)) k)"
  by (simp_all add: assign_def save_record_def)

lemma advance_simps [held_simps]:
  "oc_store (advance n oc) = oc_store oc" "oc_evidence (advance n oc) = oc_evidence oc"
  by (simp_all add: advance_def)

lemma with_graph_simps [held_simps]:
  "fst (with_graph f W h) = fst h" "oc_store (snd (with_graph f W h)) = oc_store (snd h)"
  "oc_evidence (snd (with_graph f W h)) = oc_evidence (snd h)"
  by (simp_all add: with_graph_def Let_def held_simps)

lemma emit_cases:
  obtains (suppressed) "emit W ty payload force h =
      assign (\<lambda>_. (fst h)\<lparr>cr_sequence := cr_sequence (fst h) + 1\<rparr>) (fst h, advance 1 (snd h))"
  | (appended) ev where "emit W ty payload force h =
      assign (\<lambda>_. (fst h)\<lparr>cr_sequence := cr_sequence (fst h) + 1, cr_events := cr_events (fst h) @ [ev],
                       cr_updated_at := env_clock W (oc_ticks (snd h) + 1)\<rparr>) (fst h, advance 2 (snd h))"
  by (cases "\<not> force \<and> list_ex (repeats ty payload) (cr_events (fst h))") (simp_all add: emit_def Let_def)

text \<open>An event changes the event list, the sequence number and the clock of the record, nothing else.\<close>

lemma emit_fields [held_simps]:
  "cr_execution_id (fst (emit W ty p force h)) = cr_execution_id (fst h)"
  "cr_state (fst (emit W ty p force h)) = cr_state (fst h)"
  "cr_terminal_emitted (fst (emit W ty p force h)) = cr_terminal_emitted (fst h)"
  "cr_verification (fst (emit W ty p force h)) = cr_verification (fst h)"
  "cr_usage_finalised (fst (emit W ty p force h)) = cr_usage_finalised (fst h)"
  "cr_usage_aggregate (fst (emit W ty p force h)) = cr_usage_aggregate (fst h)"
  "cr_detail (fst (emit W ty p force h)) = cr_detail (fst h)"
  "cr_failure_class (fst (emit W ty p force h)) = cr_failure_class (fst h)"
  "cr_evidence_ids (fst (emit W ty p force h)) = cr_evidence_ids (fst h)"
  "cr_graph_nodes (fst (emit W ty p force h)) = cr_graph_nodes (fst h)"
  "cr_backend_ok (fst (emit W ty p force h)) = cr_backend_ok (fst h)"
  "cr_restore_ok (fst (emit W ty p force h)) = cr_restore_ok (fst h)"
  "cr_attempt_id (fst (emit W ty p force h)) = cr_attempt_id (fst h)"
  "cr_organisation_id (fst (emit W ty p force h)) = cr_organisation_id (fst h)"
  "cr_project_id (fst (emit W ty p force h)) = cr_project_id (fst h)"
  "cr_mission_id (fst (emit W ty p force h)) = cr_mission_id (fst h)"
  by (cases rule: emit_cases [of W ty p force h]; simp add: held_simps)+

lemma emit_events: "\<exists>evs. cr_events (fst (emit W ty p force h)) = cr_events (fst h) @ evs"
  by (cases rule: emit_cases [of W ty p force h]; simp add: held_simps)

lemma emit_state [held_simps]:
  "oc_evidence (snd (emit W ty p force h)) = oc_evidence (snd h)"
  "store_get (oc_store (snd (emit W ty p force h))) k =
     (if k = cr_execution_id (fst h) then Some (fst (emit W ty p force h)) else store_get (oc_store (snd h)) k)"
  by (cases rule: emit_cases [of W ty p force h]; simp add: held_simps)+

section \<open>The invariant\<close>

text \<open>A record is vouched for when its verdict is that of an attested request about its execution, on
  evidence that was accepted for this execution.\<close>

definition vouched :: "CompletionRecord \<Rightarrow> bool" where
  "vouched r \<longleftrightarrow> (\<exists>q v. verify q = Inr v \<and> vr_outcome v = VO_VERIFIED \<and> cr_verification r = verification_as_dict v
     \<and> vq_execution_id q = cr_execution_id r
     \<and> (\<forall>e \<in> set (vq_accepted_evidence q). owned e \<and> ee_execution_id e = cr_execution_id r))"

definition record_inv :: "CompletionRecord \<Rightarrow> bool" where
  "record_inv r \<longleftrightarrow> (cr_state r = CS_COMPLETED \<longrightarrow> vouched r \<and> cr_usage_finalised r \<and> cr_terminal_emitted r)
     \<and> (cr_terminal_emitted r \<longrightarrow> terminal_state (cr_state r))"

text \<open>In the orchestrator more is known: the verifier was shown the evidence that the boundary had accepted
  for the execution by then, the beginning of what it holds now.\<close>

definition vouched_in :: "EvidenceBoundary \<Rightarrow> CompletionRecord \<Rightarrow> bool" where
  "vouched_in b r \<longleftrightarrow> (\<exists>q v more. verify q = Inr v \<and> vr_outcome v = VO_VERIFIED \<and> cr_verification r = verification_as_dict v
     \<and> vq_execution_id q = cr_execution_id r \<and> list_accepted b (cr_execution_id r) = vq_accepted_evidence q @ more)"

definition record_in :: "EvidenceBoundary \<Rightarrow> CompletionRecord \<Rightarrow> bool" where
  "record_in b r \<longleftrightarrow> record_inv r \<and> (cr_state r = CS_COMPLETED \<longrightarrow> vouched_in b r)"

definition orch_inv :: "Orchestrator \<Rightarrow> bool" where
  "orch_inv oc \<longleftrightarrow> evidence_inv (oc_evidence oc)
     \<and> (\<forall>k r. store_get (oc_store oc) k = Some r \<longrightarrow> cr_execution_id r = k \<and> record_in (oc_evidence oc) r)"

text \<open>In the middle of an operation on \<open>eid\<close> that began in \<open>oc\<close>, and at its end.\<close>

definition mid :: "string \<Rightarrow> Orchestrator \<Rightarrow> held \<Rightarrow> bool" where
  "mid eid oc h \<longleftrightarrow> cr_execution_id (fst h) = eid \<and> store_get (oc_store (snd h)) eid = Some (fst h)
     \<and> (\<forall>k. k \<noteq> eid \<longrightarrow> store_get (oc_store (snd h)) k = store_get (oc_store oc) k)
     \<and> evidence_inv (oc_evidence (snd h)) \<and> evidence_grows (oc_evidence oc) (oc_evidence (snd h))
     \<and> \<not> cr_terminal_emitted (fst h) \<and> cr_state (fst h) \<noteq> CS_COMPLETED"

definition done_ok :: "string \<Rightarrow> Orchestrator \<Rightarrow> Orchestrator \<Rightarrow> bool" where
  "done_ok eid oc oc' \<longleftrightarrow> evidence_inv (oc_evidence oc') \<and> evidence_grows (oc_evidence oc) (oc_evidence oc')
     \<and> (\<forall>k. k \<noteq> eid \<longrightarrow> store_get (oc_store oc') k = store_get (oc_store oc) k)
     \<and> (\<forall>r. store_get (oc_store oc') eid = Some r \<longrightarrow> cr_execution_id r = eid \<and> record_in (oc_evidence oc') r)"

lemma vouched_in_grows: "vouched_in b r \<Longrightarrow> evidence_grows b b' \<Longrightarrow> vouched_in b' r"
  unfolding vouched_in_def evidence_grows_def by (metis append.assoc)

lemma record_in_grows: "record_in b r \<Longrightarrow> evidence_grows b b' \<Longrightarrow> record_in b' r"
  by (auto simp: record_in_def intro: vouched_in_grows)

lemma done_orch_inv:
  assumes "done_ok eid oc oc'" and "orch_inv oc"
  shows "orch_inv oc'"
  unfolding orch_inv_def
proof (intro conjI allI impI)
  show "evidence_inv (oc_evidence oc')" using assms(1) by (simp add: done_ok_def)
  fix k r
  assume "store_get (oc_store oc') k = Some r"
  then show "cr_execution_id r = k" "record_in (oc_evidence oc') r"
    using assms by (cases "k = eid"; auto simp: done_ok_def orch_inv_def intro: record_in_grows)+
qed

lemma done_refl: "orch_inv oc \<Longrightarrow> done_ok eid oc oc"
  by (simp add: done_ok_def orch_inv_def)

lemma done_cong: "oc_store oc' = oc_store oc'' \<Longrightarrow> oc_evidence oc' = oc_evidence oc'' \<Longrightarrow> done_ok eid oc oc' = done_ok eid oc oc''"
  by (simp add: done_ok_def)

lemma mid_done: "mid eid oc h \<Longrightarrow> done_ok eid oc (snd h)"
  by (auto simp: mid_def done_ok_def record_in_def record_inv_def)

lemma mid_emit: "mid eid oc h \<Longrightarrow> mid eid oc (emit W ty p force h)"
  by (simp add: mid_def held_simps)

lemma mid_assign:
  assumes "mid eid oc h" and "cr_execution_id (f (fst h)) = cr_execution_id (fst h)"
    and "cr_terminal_emitted (f (fst h)) = cr_terminal_emitted (fst h)" and "cr_state (f (fst h)) \<noteq> CS_COMPLETED"
  shows "mid eid oc (assign f h)"
  using assms by (simp add: mid_def held_simps)

lemma mid_graph: "mid eid oc h \<Longrightarrow> mid eid oc (with_graph f W h)"
  by (simp add: mid_def held_simps)

lemmas mid_intros = mid_emit mid_graph mid_assign

lemma vouched_cong:
  "cr_execution_id r' = cr_execution_id r \<Longrightarrow> cr_verification r' = cr_verification r \<Longrightarrow> vouched r' = vouched r"
  by (simp add: vouched_def)

lemma vouched_in_cong:
  "cr_execution_id r' = cr_execution_id r \<Longrightarrow> cr_verification r' = cr_verification r \<Longrightarrow> vouched_in b r' = vouched_in b r"
  by (simp add: vouched_in_def)

section \<open>Every operation keeps the invariant\<close>

lemma ensure_mid:
  assumes "orch_inv oc" and "already_terminal oc (cc_execution_id cx) = None"
  shows "mid (cc_execution_id cx) oc (ensure_record W cx a b u oc)"
proof (cases "store_get (oc_store oc) (cc_execution_id cx)")
  case None
  then show ?thesis
    using assms(1) by (auto simp: ensure_record_def Let_def new_record_def mid_def orch_inv_def save_record_def held_simps)
next
  case (Some r)
  then have "\<not> cr_terminal_emitted r \<and> cr_state r \<noteq> CS_COMPLETED \<and> cr_execution_id r = cc_execution_id cx"
    using assms by (auto simp: already_terminal_def orch_inv_def record_in_def record_inv_def split: if_splits)
  then show ?thesis
    using assms(1) Some by (simp add: ensure_record_def Let_def mid_def orch_inv_def held_simps)
qed

lemma usage_stage_evidence:
  "usage_stage W success facts h = (success1, h1) \<Longrightarrow> oc_evidence (snd h1) = oc_evidence (snd h)"
  by (auto simp: usage_stage_def Let_def case_prod_beta held_simps split: sum.splits)

lemma usage_stage_mid:
  assumes "mid eid oc h" and "usage_stage W success facts h = (success1, h1)"
  shows "mid eid oc h1" and "success1 \<Longrightarrow> success \<and> cr_usage_finalised (fst h1)"
    and "cr_verification (fst h1) = cr_verification (fst h)"
    and "cr_state (fst h1) = cr_state (fst h) \<or> \<not> success1 \<and> cr_state (fst h1) = CS_BLOCKED"
proof -
  obtain res us where f: "finalise_usage (cr_execution_id (fst h)) (cr_organisation_id (fst h))
      (cr_project_id (fst h)) (cr_mission_id (fst h)) (map Fact facts) (oc_usage (snd h)) = (res, us)"
    by (metis surj_pair)
  have m: "mid eid oc (fst h, (snd h)\<lparr>oc_usage := us\<rparr>)"
    using assms(1) by (simp add: mid_def)
  have st: "cr_state (fst h) \<noteq> CS_COMPLETED"
    using assms(1) by (simp add: mid_def)
  show "mid eid oc h1"
    using assms(2) st by (cases res) (auto simp: usage_stage_def Let_def f intro!: mid_emit mid_assign [OF m])
  show "success1 \<Longrightarrow> success \<and> cr_usage_finalised (fst h1)"
    using assms(2) by (cases res) (auto simp: usage_stage_def Let_def f held_simps)
  show "cr_verification (fst h1) = cr_verification (fst h)"
    using assms(2) by (cases res) (auto simp: usage_stage_def Let_def f held_simps)
  show "cr_state (fst h1) = cr_state (fst h) \<or> \<not> success1 \<and> cr_state (fst h1) = CS_BLOCKED"
    using assms(2) by (cases res) (auto simp: usage_stage_def Let_def f held_simps)
qed

lemma result_stage_simps [held_simps]:
  "cr_execution_id (fst (result_stage W h)) = cr_execution_id (fst h)"
  "cr_state (fst (result_stage W h)) = cr_state (fst h)"
  "cr_verification (fst (result_stage W h)) = cr_verification (fst h)"
  "cr_usage_finalised (fst (result_stage W h)) = cr_usage_finalised (fst h)"
  "oc_evidence (snd (result_stage W h)) = oc_evidence (snd h)"
  "k \<noteq> cr_execution_id (fst h) \<Longrightarrow> store_get (oc_store (snd (result_stage W h))) k = store_get (oc_store (snd h)) k"
  by (simp_all add: result_stage_def Let_def case_prod_beta held_simps)

lemma finalise_terminal_done:
  assumes "mid eid oc h" and "success \<Longrightarrow> vouched (fst h) \<and> vouched_in (oc_evidence (snd h)) (fst h)"
  shows "done_ok eid oc (snd (finalise_terminal W success facts h))
    \<and> (\<exists>r. store_get (oc_store (snd (finalise_terminal W success facts h))) eid = Some r
         \<and> fst (finalise_terminal W success facts h) = outcome_from_record r \<and> cr_terminal_emitted r
         \<and> (cr_state r = CS_COMPLETED \<longrightarrow> success))"
proof -
  let ?s1 = "if success then CS_FINALISING else if terminal_state (cr_state (fst h)) then cr_state (fst h) else CS_FAILED"
  let ?h1 = "assign (\<lambda>r. r\<lparr>cr_state := if success then CS_FINALISING
                 else if terminal_state (cr_state r) then cr_state r else CS_FAILED\<rparr>) h"
  define h2 where "h2 = (if success then emit W ''execution.finalising'' [] False ?h1 else ?h1)"
  have eid: "cr_execution_id (fst h) = eid" and open_record: "\<not> cr_terminal_emitted (fst h)" "cr_state (fst h) \<noteq> CS_COMPLETED"
    using assms(1) by (simp_all add: mid_def)
  have m2: "mid eid oc h2"
    unfolding h2_def using assms(1) open_record by (auto intro!: mid_intros split: if_splits)
  have ev2: "oc_evidence (snd h2) = oc_evidence (snd h)" by (simp add: h2_def held_simps)
  have h2: "cr_verification (fst h2) = cr_verification (fst h)" "cr_execution_id (fst h2) = eid" "cr_state (fst h2) = ?s1"
    by (simp_all add: h2_def held_simps eid)
  obtain success1 h3 where u: "usage_stage W success facts h2 = (success1, h3)" by (metis surj_pair)
  note m3 = usage_stage_mid [OF m2 u]
  have ev3: "oc_evidence (snd h3) = oc_evidence (snd h)"
    using usage_stage_evidence [OF u] ev2 by simp
  have eid3: "cr_execution_id (fst h3) = eid" using m3(1) by (simp add: mid_def)
  define h4 where "h4 = (if success1 then
                    emit W ''execution.completed'' [(''verified'', PyBool True)] False
                      (assign (\<lambda>r. r\<lparr>cr_state := CS_COMPLETED,
                                   cr_detail := Some (str_default (cr_detail r) ''verified completion'')\<rparr>) h3)
                  else if cr_state (fst h3) = CS_FINALISING then assign (\<lambda>r. r\<lparr>cr_state := CS_FAILED\<rparr>) h3
                  else h3)"
  define h5 where "h5 = result_stage W h4"
  define h6 where "h6 = assign (\<lambda>r. r\<lparr>cr_terminal_emitted := True,
                             cr_updated_at := env_clock W (oc_ticks (snd h5))\<rparr>) (fst h5, advance 1 (snd h5))"
  have run: "finalise_terminal W success facts h = (outcome_from_record (fst h6), snd h6)"
    unfolding finalise_terminal_def Let_def h2_def [symmetric] u prod.case h4_def [symmetric] h5_def [symmetric] h6_def [symmetric]
    using open_record by simp
  have h4: "cr_execution_id (fst h4) = eid" "cr_verification (fst h4) = cr_verification (fst h)"
    "oc_evidence (snd h4) = oc_evidence (snd h3)" "terminal_state (cr_state (fst h4))"
    "cr_state (fst h4) = CS_COMPLETED \<Longrightarrow> success1" "success1 \<Longrightarrow> cr_usage_finalised (fst h4)"
    using m3 h2 eid3 open_record by (auto simp: h4_def held_simps split: if_splits)
  have others: "store_get (oc_store (snd h4)) k = store_get (oc_store oc) k" if "k \<noteq> eid" for k
    using m3(1) that eid3 by (simp add: h4_def held_simps mid_def)
  have ex6: "cr_execution_id (fst h6) = eid" "store_get (oc_store (snd h6)) eid = Some (fst h6)" "cr_terminal_emitted (fst h6)"
    "cr_state (fst h6) = cr_state (fst h4)" "cr_verification (fst h6) = cr_verification (fst h4)"
    "cr_usage_finalised (fst h6) = cr_usage_finalised (fst h4)"
    by (simp_all add: h6_def h5_def held_simps h4(1))
  have "store_get (oc_store (snd h6)) k = store_get (oc_store oc) k" if "k \<noteq> eid" for k
    using others [OF that] that by (simp add: h6_def h5_def held_simps h4(1))
  moreover have "oc_evidence (snd h6) = oc_evidence (snd h3)"
    by (simp add: h6_def h5_def held_simps h4)
  moreover have "record_in (oc_evidence (snd h)) (fst h6)"
    using h4 ex6 m3(2) assms(2) vouched_cong [of "fst h6" "fst h"] vouched_in_cong [of "fst h6" "fst h"] eid
    by (auto simp: record_in_def record_inv_def)
  ultimately have "done_ok eid oc (snd h6)"
    using m3(1) ex6 ev3 by (simp add: done_ok_def mid_def)
  then show ?thesis
    using run ex6 h4(5) m3(2) by auto
qed

lemmas finalise_done = conjunct1 [OF finalise_terminal_done]

lemma reject_stale_done:
  assumes "orch_inv oc" and "already_terminal oc (cc_execution_id cx) = None"
  shows "done_ok (cc_execution_id cx) oc (snd (reject_stale W cx reason detail oc))"
proof -
  let ?h = "emit W ''execution.stale_attempt_rejected''
                [(''attempt_id'', PyStr (cc_attempt_id cx)),
                 (''reason'', PyStr (completion_failure_value reason))] True (ensure_record W cx False True False oc)"
  have "snd (reject_stale W cx reason detail oc) = snd ?h"
    by (simp add: reject_stale_def Let_def split: option.split)
  then show ?thesis
    using mid_done [OF mid_emit [OF ensure_mid [OF assms]]] by simp
qed

lemma finalise_cancelled_done:
  assumes "orch_inv oc" and "already_terminal oc (cc_execution_id cx) = None"
  shows "done_ok (cc_execution_id cx) oc (snd (finalise_cancelled W cx c oc))"
proof -
  have m: "mid (cc_execution_id cx) oc (ensure_record W cx False True True oc)"
    by (rule ensure_mid [OF assms])
  then have "\<not> cr_terminal_emitted (fst (ensure_record W cx False True True oc))"
    by (simp add: mid_def)
  then show ?thesis
    unfolding finalise_cancelled_def Let_def
    by (auto intro!: finalise_done mid_intros m)
qed

lemma verify_evidence_owned:
  assumes "mid eid oc h" and "cc_execution_id cx = eid"
    and "e \<in> set (vq_accepted_evidence (verification_request cx res policy h))"
  shows "owned e \<and> ee_execution_id e = eid"
  using assms by (auto simp: mid_def evidence_inv_def verification_request_def Let_def)

lemma run_verification_done:
  assumes "mid eid oc h" and "cc_execution_id cx = eid"
  shows "done_ok eid oc (snd (run_verification W cx res h))"
proof -
  define h2 where "h2 = emit W ''verification.started'' [] False (assign (\<lambda>r. r\<lparr>cr_state := CS_VERIFYING\<rparr>)
       (emit W ''verification.requested'' [(''strategy'', PyStr (cc_verification_strategy cx))] False
         (assign (\<lambda>r. r\<lparr>cr_state := CS_VERIFICATION_PENDING\<rparr>) h)))"
  have m2: "mid eid oc h2"
    unfolding h2_def by (auto intro!: mid_intros assms)
  let ?policy = "to_dict (py_or (dget (cc_metadata cx) ''verification_policy'') (PyDict []))"
  show ?thesis
  proof (cases "bind_result ?policy (\<lambda>policy. verify (verification_request cx res policy h2))")
    case (Inl e)
    then show ?thesis
      using mid_done [OF m2] by (simp add: run_verification_def Let_def h2_def [symmetric])
  next
    case (Inr v)
    then obtain policy where v: "verify (verification_request cx res policy h2) = Inr v"
      by (auto simp: bind_result_Inr_iff)
    define h5 where "h5 = assign (apply_verdict v) (emit W (verification_event (vr_outcome v)) (verification_as_dict v) False
      (with_graph (\<lambda>i t. project_verification i t (cc_execution_id cx) (verification_as_dict v)) W
        (assign (\<lambda>r. r\<lparr>cr_verification := verification_as_dict v\<rparr>) h2)))"
    have frame: "cr_execution_id (apply_verdict v r) = cr_execution_id r"
      "cr_terminal_emitted (apply_verdict v r) = cr_terminal_emitted r" "cr_state (apply_verdict v r) \<noteq> CS_COMPLETED"
      "cr_verification (apply_verdict v r) = cr_verification r" for r
      by (auto simp: apply_verdict_def Let_def verdict_state_def split: VerificationOutcome.splits)
    have m5: "mid eid oc h5"
      unfolding h5_def using m2 by (auto intro!: mid_intros simp: frame) (simp add: mid_def)
    have "vouched (fst h5)" if "vr_outcome v = VO_VERIFIED"
      unfolding vouched_def
    proof (intro exI conjI)
      show "verify (verification_request cx res policy h2) = Inr v" "vr_outcome v = VO_VERIFIED"
        by (rule v, rule that)
      show "cr_verification (fst h5) = verification_as_dict v"
        by (simp add: h5_def held_simps frame)
      show "vq_execution_id (verification_request cx res policy h2) = cr_execution_id (fst h5)"
        using m5 assms(2) by (simp add: verification_request_def mid_def)
      show "\<forall>e \<in> set (vq_accepted_evidence (verification_request cx res policy h2)). owned e \<and> ee_execution_id e = cr_execution_id (fst h5)"
        using verify_evidence_owned [OF m2 assms(2)] m5 by (simp add: mid_def)
    qed
    moreover have "vouched_in (oc_evidence (snd h5)) (fst h5)" if "vr_outcome v = VO_VERIFIED"
      unfolding vouched_in_def
    proof (intro exI conjI)
      show "verify (verification_request cx res policy h2) = Inr v" "vr_outcome v = VO_VERIFIED"
        by (rule v, rule that)
      show "cr_verification (fst h5) = verification_as_dict v"
        by (simp add: h5_def held_simps frame)
      show "vq_execution_id (verification_request cx res policy h2) = cr_execution_id (fst h5)"
        using m5 assms(2) by (simp add: verification_request_def mid_def)
      show "list_accepted (oc_evidence (snd h5)) (cr_execution_id (fst h5)) =
          vq_accepted_evidence (verification_request cx res policy h2) @ []"
        using m5 assms(2) by (simp add: verification_request_def mid_def h5_def held_simps)
    qed
    ultimately show ?thesis
      using finalise_done [OF m5] Inr
      by (simp add: run_verification_def Let_def h2_def [symmetric] h5_def [symmetric] case_prod_beta)
  qed
qed

lemma mid_fold:
  assumes "mid eid oc h" and "\<And>x h. mid eid oc h \<Longrightarrow> mid eid oc (f x h)"
  shows "mid eid oc (fold f xs h)"
  using assms(1) by (induction xs arbitrary: h) (simp_all add: assms(2))

lemma mid_note_accepted: "mid eid oc h \<Longrightarrow> mid eid oc (note_accepted W i e h)"
  unfolding note_accepted_def by (auto intro!: mid_intros) (simp add: mid_def)

lemma mid_note_rejected: "mid eid oc h \<Longrightarrow> mid eid oc (note_rejected W i e h)"
  unfolding note_rejected_def by (auto intro!: mid_intros)

lemma mid_ticks: "mid eid oc h \<Longrightarrow> mid eid oc (fst h, advance n (snd h))"
  by (simp add: mid_def held_simps)

lemma intake_stage_mid:
  assumes "\<And>x. env_sha256 W x \<noteq> []" and "mid eid oc h"
  shows "mid eid oc (snd (intake_stage W cx inputs h))"
proof -
  have "evidence_inv (oc_evidence (snd h))"
    using assms(2) by (simp add: mid_def)
  from intake_loop_inv [OF assms(1) this] show ?thesis
    using assms(2) evidence_grows_trans [OF _ intake_loop_grows] by (simp add: intake_stage_def intake_def Let_def case_prod_beta mid_def held_simps)
qed

lemma evidence_stage_done:
  assumes "\<And>x. env_sha256 W x \<noteq> []" and "mid eid oc h" and "cc_execution_id cx = eid"
  shows "done_ok eid oc (snd (evidence_stage W cx res candidates h))"
proof -
  define h1 where "h1 = emit W ''evidence.received'' [] False (assign (\<lambda>r. r\<lparr>cr_state := CS_EVIDENCE_PENDING\<rparr>) h)"
  have m1: "mid eid oc h1"
    unfolding h1_def by (auto intro!: mid_intros assms)
  obtain inputs h2 where i: "(if candidates \<noteq> [] then (candidates, h1)
             else let cs = candidates_from_result W (oc_ticks (snd h1)) res
                  in (map Candidate cs, (fst h1, advance (length cs) (snd h1)))) = (inputs, h2)"
    by (metis surj_pair)
  have m2: "mid eid oc h2"
    using i m1 mid_ticks [OF m1] by (auto simp: Let_def split: if_splits)
  obtain r h3 where st: "intake_stage W cx inputs h2 = (r, h3)" by (metis surj_pair)
  have m3: "mid eid oc h3"
    using intake_stage_mid [OF assms(1) m2, of cx inputs] st by simp
  have run: "evidence_stage W cx res candidates h =
      (case intake_stage W cx inputs h2 of
           (Inl e, h3) \<Rightarrow> (Inl e, snd h3)
         | (Inr (accepted, rejected), h3) \<Rightarrow>
             (let h4 = fold (note_rejected W (cc_execution_id cx)) rejected
                         (fold (note_accepted W (cc_execution_id cx)) accepted h3)
              in if cc_require_evidence cx \<and> accepted = [] then
                   (let (out, oc) = finalise_terminal W False (usage_from_result res cx)
                          (emit W ''execution.failed'' [(''reason'', PyStr ''evidence_missing'')] False
                            (assign (\<lambda>r. r\<lparr>cr_state := CS_FAILED,
                                         cr_failure_class := Some (completion_failure_value CF_EVIDENCE_MISSING),
                                         cr_detail := Some ''required evidence missing or rejected''\<rparr>) h4))
                    in (Inr out, oc))
                 else run_verification W cx res (assign (\<lambda>r. r\<lparr>cr_state := CS_EVIDENCE_ACCEPTED\<rparr>) h4)))"
    unfolding evidence_stage_def h1_def [symmetric]
    by (subst Let_def, subst i) simp
  show ?thesis
  proof (cases r)
    case (Inl e)
    then show ?thesis using run st mid_done [OF m3] by simp
  next
    case (Inr ar)
    obtain accepted rejected where ar: "ar = (accepted, rejected)" by (metis surj_pair)
    have m4: "mid eid oc (fold (note_rejected W (cc_execution_id cx)) rejected (fold (note_accepted W (cc_execution_id cx)) accepted h3))"
      by (intro mid_fold mid_note_accepted mid_note_rejected m3)
    show ?thesis
      unfolding run st Inr ar Let_def
      by (auto simp: case_prod_beta intro!: run_verification_done finalise_done mid_intros m4 assms(3)
          mid_fold mid_note_rejected m3)
  qed
qed

lemma complete_from_backend_done:
  assumes "\<And>x. env_sha256 W x \<noteq> []" and "orch_inv oc"
  shows "done_ok (cc_execution_id cx) oc (snd (complete_from_backend W res cx decision candidates oc))"
proof (cases "already_terminal oc (cc_execution_id cx)")
  case (Some r)
  then show ?thesis
    using done_refl [OF assms(2)] by (simp add: complete_from_backend_def)
next
  case None
  let ?eid = "cc_execution_id cx"
  note m = ensure_mid [OF assms(2) None]
  define h1 where "h1 = emit W ''backend.completed'' [(''ok'', PyBool (xr_ok res)), (''message'', PyStr (xr_message res))] False
                       (assign (\<lambda>r. r\<lparr>cr_state := CS_BACKEND_COMPLETED\<rparr>) (ensure_record W cx (xr_ok res) True True oc))"
  define h2 where "h2 = with_graph (\<lambda>i t. project_attempt i t ?eid (cc_attempt_id cx)
                       [(''backend_id'', PyStr (cc_backend_id cx)), (''ok'', PyBool (xr_ok res))]) W h1"
  define h3 where "h3 = (case decision of
                        Some d \<Rightarrow> if d \<noteq> [] then with_graph (\<lambda>i t. project_decision i t ?eid d) W h2 else h2
                      | None \<Rightarrow> h2)"
  define h4 where "h4 = with_graph (\<lambda>i t. project_request i t ?eid (cc_mission_id cx) [(''execution_id'', PyStr ?eid)]) W h3"
  have m2: "mid ?eid oc h2"
    unfolding h2_def h1_def by (auto intro!: mid_intros m)
  then have m4: "mid ?eid oc h4"
    unfolding h4_def h3_def by (auto intro!: mid_intros split: option.split)
  have cancelled: "done_ok ?eid oc (snd (finalise_cancelled W cx True (snd h4)))"
  proof -
    have inv: "orch_inv (snd h4)"
      by (rule done_orch_inv [OF mid_done [OF m4] assms(2)])
    have "already_terminal (snd h4) ?eid = None"
      using m4 by (simp add: already_terminal_def mid_def)
    from finalise_cancelled_done [OF inv this, of W True] show ?thesis
      using m4 by (auto simp: done_ok_def mid_def intro: evidence_grows_trans)
  qed
  have run: "snd (complete_from_backend W res cx decision candidates oc) =
     (if cc_attempt_id cx \<noteq> cc_authoritative_attempt_id cx then
        snd (reject_stale W cx CF_STALE_ATTEMPT ''stale attempt cannot finalise'' oc)
      else if \<not> restore_ok res then
        snd (finalise_terminal W False (usage_from_result res cx)
                   (emit W ''execution.blocked'' [(''reason'', PyStr ''restore_failed'')] False
                     (assign (\<lambda>r. r\<lparr>cr_state := CS_BLOCKED,
                                  cr_failure_class := Some (completion_failure_value CF_RESTORE_FAILED),
                                  cr_detail := Some ''provider route restoration unresolved''\<rparr>)
                       (ensure_record W cx False False True oc))))
      else if cc_cancelled cx then snd (finalise_cancelled W cx True (snd h4))
      else if \<not> xr_ok res then
        snd (finalise_terminal W False (usage_from_result res cx)
                        (emit W ''execution.failed'' [(''backend_ok'', PyBool False)] False
                          (assign (\<lambda>r. r\<lparr>cr_state := CS_FAILED,
                                       cr_failure_class := Some (str_default (xr_failure_class res) ''process_failure''),
                                       cr_detail := Some (xr_message res)\<rparr>) h4)))
      else snd (evidence_stage W cx res candidates h4))"
    unfolding complete_from_backend_def None option.case(1) h4_def h3_def h2_def h1_def Let_def
    by (simp only: case_prod_beta snd_conv if_distrib [of snd])
  show ?thesis
    unfolding run
    by (auto intro!: finalise_done evidence_stage_done reject_stale_done mid_intros m m4 cancelled assms None)
qed

lemma remote_inputs_execution:
  "remote_success_inputs W n cx ty payload cands = Inr (cx1, cs) \<Longrightarrow> cc_execution_id cx1 = cc_execution_id cx"
  by (auto simp: remote_success_inputs_def strict_context_def Let_def bind_result_Inr_iff split: if_splits)

lemma done_advance: "done_ok eid (advance n oc) oc' = done_ok eid oc oc'" "orch_inv (advance n oc) = orch_inv oc"
  by (simp_all add: done_ok_def orch_inv_def held_simps)

lemma remote_success_done:
  assumes "\<And>x. env_sha256 W x \<noteq> []" and "orch_inv oc"
    and "remote_success_inputs W n cx ty payload cands = Inr (cx1, cs)"
  shows "done_ok (cc_execution_id cx) oc (snd (complete_from_backend W res cx1 None cs (advance k oc)))"
  using complete_from_backend_done [OF assms(1), of "advance k oc" cx1] assms(2) remote_inputs_execution [OF assms(3)]
  by (simp add: done_advance)

lemma late_event_done:
  assumes "orch_inv oc" and "already_terminal oc eid = Some r"
  shows "done_ok eid oc (snd (emit W ty p f (r, oc)))"
proof -
  have r: "store_get (oc_store oc) eid = Some r" "cr_execution_id r = eid" "record_in (oc_evidence oc) r"
    using assms by (auto simp: already_terminal_def orch_inv_def split: option.splits if_splits)
  let ?h = "emit W ty p f (r, oc)"
  have "record_in (oc_evidence oc) (fst ?h)"
    using r(3) vouched_cong [of "fst ?h" r] vouched_in_cong [of "fst ?h" r]
    by (simp add: record_in_def record_inv_def held_simps)
  then show ?thesis
    using assms(1) r by (simp add: done_ok_def held_simps orch_inv_def)
qed

lemma complete_from_remote_event_done:
  assumes "\<And>x. env_sha256 W x \<noteq> []" and "orch_inv oc"
  shows "done_ok (cc_execution_id cx) oc (snd (complete_from_remote_event W cx event_type payload candidates oc))"
proof (cases "already_terminal oc (cc_execution_id cx)")
  case (Some r)
  then show ?thesis
    using done_refl [OF assms(2)] late_event_done [OF assms(2) Some]
    by (simp add: complete_from_remote_event_def Let_def)
next
  case None
  let ?eid = "cc_execution_id cx"
  note m = ensure_mid [OF assms(2) None]
  have fail: "mid ?eid oc (emit W ''backend.completed'' [(''ok'', PyBool False), (''remote'', PyBool True)] False
                       (assign (\<lambda>r. r\<lparr>cr_state := CS_FAILED, cr_detail := d, cr_failure_class := c\<rparr>)
                         (ensure_record W cx False True True oc)))" for d c
    by (auto intro!: mid_intros m)
  have prog: "mid ?eid oc (emit W event_type payload False (assign (\<lambda>r. r\<lparr>cr_state := CS_RUNNING\<rparr>) (ensure_record W cx False True True oc)))"
    (is "mid _ _ ?p") by (auto intro!: mid_intros m)
  have save: "done_ok ?eid oc (save_record (fst ?p) (snd ?p))"
    using mid_done [OF prog] prog by (auto simp: done_ok_def mid_def save_record_def)
  show ?thesis
    unfolding complete_from_remote_event_def None option.case(1)
    using reject_stale_done [OF assms(2) None] finalise_cancelled_done [OF assms(2) None] save
    by (auto simp: Let_def case_prod_beta done_refl assms(2) split: sum.split
        intro!: finalise_done mid_done fail remote_success_done assms)
qed

lemma resume_done:
  assumes "orch_inv oc"
  shows "done_ok eid oc (snd (resume W eid oc))"
proof (cases "store_get (oc_store oc) eid")
  case None
  then show ?thesis using done_refl [OF assms] by (simp add: resume_def)
next
  case (Some r)
  show ?thesis
  proof (cases "terminal_state (cr_state r)")
    case True
    then show ?thesis using done_refl [OF assms] Some by (simp add: resume_def)
  next
    case False
    then have m: "mid eid oc (r, oc)"
      using assms Some by (auto simp: mid_def orch_inv_def record_in_def record_inv_def)
    have id: "cc_execution_id (resume_context r) = eid"
      using m by (simp add: resume_context_def mid_def)
    show ?thesis
      using False done_refl [OF assms] run_verification_done [OF m id] finalise_done [OF m]
      by (auto simp: resume_def Some Let_def case_prod_beta split: sum.split)
  qed
qed

section \<open>Reachable states\<close>

text \<open>The public operations, in any order, for any execution and with any arguments. The hash never
  yields the empty text.\<close>

inductive completion_step :: "Orchestrator \<Rightarrow> Orchestrator \<Rightarrow> bool" where
  s_backend: "(\<And>x. env_sha256 W x \<noteq> []) \<Longrightarrow>
     completion_step oc (snd (complete_from_backend W res cx decision candidates oc))"
| s_remote: "(\<And>x. env_sha256 W x \<noteq> []) \<Longrightarrow>
     completion_step oc (snd (complete_from_remote_event W cx event_type payload candidates oc))"
| s_cancel: "completion_step oc (snd (finalise_cancelled W cx cleanup_completed oc))"
| s_resume: "completion_step oc (snd (resume W eid oc))"

inductive_cases completion_step_elim: "completion_step oc oc'"

text \<open>What no later operation may change in a record.\<close>

definition sealed :: "CompletionRecord \<Rightarrow> CompletionRecord \<Rightarrow> bool" where
  "sealed r r' \<longleftrightarrow> cr_execution_id r' = cr_execution_id r \<and> cr_state r' = cr_state r
     \<and> cr_terminal_emitted r' = cr_terminal_emitted r \<and> cr_failure_class r' = cr_failure_class r
     \<and> cr_detail r' = cr_detail r \<and> cr_verification r' = cr_verification r
     \<and> cr_evidence_ids r' = cr_evidence_ids r \<and> cr_usage_finalised r' = cr_usage_finalised r
     \<and> cr_usage_aggregate r' = cr_usage_aggregate r \<and> cr_graph_nodes r' = cr_graph_nodes r
     \<and> (\<exists>evs. cr_events r' = cr_events r @ evs)"

lemma sealed_refl: "sealed r r"
  by (simp add: sealed_def)

lemma sealed_trans: "sealed r r' \<Longrightarrow> sealed r' r'' \<Longrightarrow> sealed r r''"
  by (auto simp: sealed_def)

lemma sealed_inv: "sealed r r' \<Longrightarrow> record_in b r \<Longrightarrow> record_in b r'"
  using vouched_cong [of r' r] vouched_in_cong [of r' r] by (simp add: record_in_def record_inv_def sealed_def)

lemma already_terminal_Some:
  "already_terminal oc eid = Some r \<longleftrightarrow>
     store_get (oc_store oc) eid = Some r \<and> terminal_state (cr_state r) \<and> cr_terminal_emitted r"
  by (auto simp: already_terminal_def split: option.splits)

text \<open>A cancellation that arrives late returns the terminal outcome, but the record it returns has
  already been given the attempt of the caller and a failed backend.\<close>

lemma late_cancel_rewrites_record:
  assumes "orch_inv oc" and "already_terminal oc (cc_execution_id cx) = Some r"
  shows "snd (finalise_cancelled W cx c oc) =
    save_record (r\<lparr>cr_backend_ok := False, cr_restore_ok := True, cr_attempt_id := cc_attempt_id cx,
                   cr_updated_at := env_clock W (oc_ticks oc)\<rparr>) (advance 1 oc)"
  using assms by (simp add: already_terminal_Some finalise_cancelled_def ensure_record_def assign_def Let_def)

lemma late_cancel_done:
  assumes "orch_inv oc" and "already_terminal oc (cc_execution_id cx) = Some r"
  shows "done_ok (cc_execution_id cx) oc (snd (finalise_cancelled W cx c oc))
    \<and> (\<exists>r'. store_get (oc_store (snd (finalise_cancelled W cx c oc))) (cc_execution_id cx) = Some r' \<and> sealed r r')"
proof -
  let ?r = "r\<lparr>cr_backend_ok := False, cr_restore_ok := True, cr_attempt_id := cc_attempt_id cx,
                   cr_updated_at := env_clock W (oc_ticks oc)\<rparr>"
  have r: "cr_execution_id r = cc_execution_id cx" "record_in (oc_evidence oc) r" "evidence_inv (oc_evidence oc)"
    using assms by (auto simp: already_terminal_Some orch_inv_def)
  have s: "sealed r ?r" by (simp add: sealed_def)
  show ?thesis
    unfolding late_cancel_rewrites_record [OF assms]
    using r s sealed_inv [OF s r(2)] by (auto simp: done_ok_def save_record_def held_simps)
qed

lemma finalise_cancelled_step:
  assumes "orch_inv oc"
  shows "done_ok (cc_execution_id cx) oc (snd (finalise_cancelled W cx c oc))"
  using finalise_cancelled_done [OF assms] late_cancel_done [OF assms]
  by (cases "already_terminal oc (cc_execution_id cx)") auto

text \<open>Every step works on one execution; a terminal record of it stays sealed.\<close>

lemma completion_step_done:
  assumes "orch_inv oc" and "completion_step oc oc'"
  shows "\<exists>eid. done_ok eid oc oc' \<and> (\<forall>r. already_terminal oc eid = Some r \<longrightarrow>
           (\<exists>r'. store_get (oc_store oc') eid = Some r' \<and> sealed r r'))"
  using assms(2)
proof cases
  case (s_backend W res cx decision candidates)
  have "\<exists>r'. store_get (oc_store oc') (cc_execution_id cx) = Some r' \<and> sealed r r'"
    if "already_terminal oc (cc_execution_id cx) = Some r" for r
  proof -
    have "oc' = oc"
      using that s_backend(1) by (simp add: complete_from_backend_def)
    with that show ?thesis by (auto simp: already_terminal_Some intro: sealed_refl)
  qed
  then show ?thesis
    using complete_from_backend_done [OF s_backend(2) assms(1)] s_backend(1) by blast
next
  case (s_remote W cx event_type payload candidates)
  have "\<exists>r'. store_get (oc_store oc') (cc_execution_id cx) = Some r' \<and> sealed r r'"
    if a: "already_terminal oc (cc_execution_id cx) = Some r" for r
  proof -
    have r: "store_get (oc_store oc) (cc_execution_id cx) = Some r" "cr_execution_id r = cc_execution_id cx"
      using a assms(1) by (auto simp: already_terminal_Some orch_inv_def)
    have "sealed r (fst (emit W ty p f (r, oc)))" for ty p f
      using emit_events [of W ty p f "(r, oc)"] by (simp add: sealed_def held_simps)
    then show ?thesis
      using r s_remote(1) a by (auto simp: complete_from_remote_event_def Let_def held_simps intro: sealed_refl)
  qed
  then show ?thesis
    using complete_from_remote_event_done [OF s_remote(2) assms(1)] s_remote(1) by blast
next
  case (s_cancel W cx cleanup_completed)
  then show ?thesis
    using finalise_cancelled_step [OF assms(1)] late_cancel_done [OF assms(1)] by blast
next
  case (s_resume W eid)
  have "\<exists>r'. store_get (oc_store oc') eid = Some r' \<and> sealed r r'"
    if "already_terminal oc eid = Some r" for r
    using that s_resume by (auto simp: resume_def already_terminal_Some intro: sealed_refl)
  then show ?thesis
    using resume_done [OF assms(1)] s_resume by blast
qed

lemma completion_step_inv: "completion_step oc oc' \<Longrightarrow> orch_inv oc \<Longrightarrow> orch_inv oc'"
  using completion_step_done done_orch_inv by blast

lemma init_orch_inv: "orch_inv init_Orchestrator"
  by (simp add: orch_inv_def init_Orchestrator_def evidence_inv_def list_accepted_def init_EvidenceBoundary_def store_get_def)

lemma completion_steps_inv: "completion_step\<^sup>*\<^sup>* oc oc' \<Longrightarrow> orch_inv oc \<Longrightarrow> orch_inv oc'"
  by (induction rule: rtranclp_induct) (auto intro: completion_step_inv)

lemma completion_step_sealed:
  assumes "orch_inv oc" and "completion_step oc oc'" and "already_terminal oc k = Some r"
  shows "\<exists>r'. already_terminal oc' k = Some r' \<and> sealed r r'"
proof -
  obtain eid where d: "done_ok eid oc oc'"
    and s: "\<forall>r. already_terminal oc eid = Some r \<longrightarrow> (\<exists>r'. store_get (oc_store oc') eid = Some r' \<and> sealed r r')"
    using completion_step_done [OF assms(1,2)] by blast
  have "\<exists>r'. store_get (oc_store oc') k = Some r' \<and> sealed r r'"
    using assms(3) d s by (cases "k = eid") (auto simp: done_ok_def already_terminal_Some intro: sealed_refl)
  then show ?thesis
    using assms(3) by (auto simp: already_terminal_Some sealed_def)
qed

lemma completion_steps_sealed:
  assumes "completion_step\<^sup>*\<^sup>* oc oc'" and "orch_inv oc" and "already_terminal oc k = Some r"
  shows "\<exists>r'. already_terminal oc' k = Some r' \<and> sealed r r'"
  using assms(1)
proof (induction rule: rtranclp_induct)
  case base
  then show ?case using assms(3) sealed_refl by blast
next
  case (step oc1 oc2)
  then obtain r1 where "already_terminal oc1 k = Some r1" "sealed r r1" by blast
  moreover have "orch_inv oc1"
    using completion_steps_inv [OF step.hyps(1) assms(2)] .
  ultimately show ?case
    using completion_step_sealed [OF _ step.hyps(2)] sealed_trans by blast
qed

section \<open>Properties\<close>

definition example_environment :: environment where
  "example_environment = \<lparr>env_sha256 = (\<lambda>s. ''h'' @ s), env_clock = int, env_fresh = (\<lambda>n. replicate n CHR ''u'')\<rparr>"

definition example_result :: ExecutionResult where
  "example_result = execution_result True ''e1'' ''local'' ''codex'' ES_SUCCEEDED ''done''"

lemma usage_frame [held_simps]:
  "oc_usage (snd (assign f h)) = oc_usage (snd h)" "oc_usage (advance n oc) = oc_usage oc"
  "oc_usage (snd (with_graph g W h)) = oc_usage (snd h)" "oc_usage (snd (emit W ty p force h)) = oc_usage (snd h)"
  by (simp_all add: assign_def save_record_def advance_def with_graph_def emit_def Let_def)

lemma result_stage_fields [held_simps]:
  "cr_evidence_ids (fst (result_stage W h)) = cr_evidence_ids (fst h)"
  "cr_terminal_emitted (fst (result_stage W h)) = cr_terminal_emitted (fst h)"
  by (simp_all add: result_stage_def Let_def case_prod_beta held_simps)

text \<open>A verified run whose usage can be aggregated is completed.\<close>

lemma finalise_completes:
  assumes "\<not> cr_terminal_emitted (fst h)"
    and "fst (finalise_usage (cr_execution_id (fst h)) (cr_organisation_id (fst h)) (cr_project_id (fst h)) (cr_mission_id (fst h))
           (map Fact facts) (oc_usage (snd h))) = Inr ag"
  shows "\<exists>r. store_get (oc_store (snd (finalise_terminal W True facts h))) (cr_execution_id (fst h)) = Some r
    \<and> fst (finalise_terminal W True facts h) = outcome_from_record r \<and> cr_state r = CS_COMPLETED
    \<and> cr_terminal_emitted r \<and> cr_evidence_ids r = cr_evidence_ids (fst h)"
proof -
  define h2 where "h2 = emit W ''execution.finalising'' [] False (assign (\<lambda>r. r\<lparr>cr_state := CS_FINALISING\<rparr>) h)"
  obtain us where u: "finalise_usage (cr_execution_id (fst h2)) (cr_organisation_id (fst h2)) (cr_project_id (fst h2))
      (cr_mission_id (fst h2)) (map Fact facts) (oc_usage (snd h2)) = (Inr ag, us)"
    using assms(2) by (simp add: h2_def held_simps prod_eq_iff)
  define h3 where "h3 = emit W ''usage.finalised'' [(''execution_id'', PyStr (cr_execution_id (fst h2)))] False
                (assign (\<lambda>r. r\<lparr>cr_usage_finalised := True, cr_usage_aggregate := ag\<rparr>) (fst h2, (snd h2)\<lparr>oc_usage := us\<rparr>))"
  have st: "usage_stage W True facts h2 = (True, h3)"
    by (simp add: usage_stage_def Let_def u h3_def)
  define h5 where "h5 = result_stage W (emit W ''execution.completed'' [(''verified'', PyBool True)] False
                      (assign (\<lambda>r. r\<lparr>cr_state := CS_COMPLETED,
                                   cr_detail := Some (str_default (cr_detail r) ''verified completion'')\<rparr>) h3))"
  define h6 where "h6 = assign (\<lambda>r. r\<lparr>cr_terminal_emitted := True,
                             cr_updated_at := env_clock W (oc_ticks (snd h5))\<rparr>) (fst h5, advance 1 (snd h5))"
  have "finalise_terminal W True facts h = (outcome_from_record (fst h6), snd h6)"
    unfolding finalise_terminal_def Let_def if_True h2_def [symmetric] st prod.case h5_def [symmetric] h6_def [symmetric]
    using assms(1) by simp
  moreover have "cr_execution_id (fst h6) = cr_execution_id (fst h)" "cr_state (fst h6) = CS_COMPLETED"
    "cr_evidence_ids (fst h6) = cr_evidence_ids (fst h)" "cr_terminal_emitted (fst h6)"
    by (simp_all add: h6_def h5_def h3_def h2_def held_simps)
  moreover have "store_get (oc_store (snd h6)) (cr_execution_id (fst h6)) = Some (fst h6)"
    by (simp add: h6_def held_simps)
  ultimately show ?thesis by auto
qed

lemma zero_usage:
  assumes "uf_facts uf = [(''wall_clock_seconds'', PyInt 0), (''input_tokens'', PyInt 0), (''output_tokens'', PyInt 0)]"
  shows "\<exists>ag. fst (finalise_usage eid org proj mission [Fact uf] init_UsageFinaliser) = Inr ag"
proof -
  obtain u where rec: "record_attempt uf init_UsageFinaliser = (Inr (usage_as_dict uf), u)"
    and rows: "us_attempt_usage u = [(attempt_key (uf_execution_id uf) (uf_attempt_id uf), usage_as_dict uf)]"
    by (simp add: record_attempt_def init_UsageFinaliser_def foreign_tenant_def)
  have at: "attempts_of eid u \<in> {[], [usage_as_dict uf]}"
    by (simp add: attempts_of_def rows)
  have "fact_value k (usage_as_dict uf) = Inr 0" for k
    using assms by (simp add: fact_value_def usage_as_dict_def dget_default_def dget_def py_or_def)
  then have sums: "fact_sum k [usage_as_dict uf] = Inr 0" "fact_sum k [] = Inr 0" for k
    by (simp_all add: fact_sum_def)
  have fin: "us_finalised init_UsageFinaliser = []"
    by (simp add: init_UsageFinaliser_def)
  show ?thesis
    using at by (elim insertE) (simp_all add: finalise_usage_def read_fact_def Let_def rec fin sums)
qed

lemma usage_fact_facts: "uf_facts (usage_fact cx facts) = facts"
  by (simp add: usage_fact_def)

text \<open>Where a backend success with one unreadable candidate stops.\<close>

lemma unreadable_candidate_stops:
  assumes "cc_attempt_id cx = cc_authoritative_attempt_id cx" and "\<not> cc_cancelled cx" and "restore_ok res"
    and "xr_ok res" and "read_candidate (RawCandidate d) = Inl e"
  shows "fst (complete_from_backend W res cx decision [RawCandidate d] init_Orchestrator) = Inl e
    \<and> (\<exists>r. store_get (oc_store (snd (complete_from_backend W res cx decision [RawCandidate d] init_Orchestrator)))
              (cc_execution_id cx) = Some r \<and> cr_execution_id r = cc_execution_id cx
            \<and> cr_state r = CS_EVIDENCE_PENDING \<and> cr_backend_ok r \<and> cr_restore_ok r
            \<and> \<not> cr_terminal_emitted r \<and> cr_evidence_ids r = [])
    \<and> oc_usage (snd (complete_from_backend W res cx decision [RawCandidate d] init_Orchestrator)) = init_UsageFinaliser"
proof -
  let ?eid = "cc_execution_id cx"
  define h0 where "h0 = ensure_record W cx (xr_ok res) True True init_Orchestrator"
  have h0: "cr_execution_id (fst h0) = ?eid" "cr_backend_ok (fst h0)" "cr_restore_ok (fst h0)"
    "\<not> cr_terminal_emitted (fst h0)" "cr_evidence_ids (fst h0) = []" "oc_usage (snd h0) = init_UsageFinaliser"
    "already_terminal init_Orchestrator ?eid = None"
    using assms(4) by (simp_all add: h0_def ensure_record_def Let_def init_Orchestrator_def store_get_def
        new_record_def save_record_def advance_def already_terminal_def)
  define h4 where "h4 = with_graph (\<lambda>i t. project_request i t ?eid (cc_mission_id cx) [(''execution_id'', PyStr ?eid)]) W
     (case decision of
        Some d \<Rightarrow> if d \<noteq> [] then with_graph (\<lambda>i t. project_decision i t ?eid d) W
              (with_graph (\<lambda>i t. project_attempt i t ?eid (cc_attempt_id cx)
                       [(''backend_id'', PyStr (cc_backend_id cx)), (''ok'', PyBool (xr_ok res))]) W
                 (emit W ''backend.completed'' [(''ok'', PyBool (xr_ok res)), (''message'', PyStr (xr_message res))] False
                       (assign (\<lambda>r. r\<lparr>cr_state := CS_BACKEND_COMPLETED\<rparr>) h0)))
              else with_graph (\<lambda>i t. project_attempt i t ?eid (cc_attempt_id cx)
                       [(''backend_id'', PyStr (cc_backend_id cx)), (''ok'', PyBool (xr_ok res))]) W
                 (emit W ''backend.completed'' [(''ok'', PyBool (xr_ok res)), (''message'', PyStr (xr_message res))] False
                       (assign (\<lambda>r. r\<lparr>cr_state := CS_BACKEND_COMPLETED\<rparr>) h0))
      | None \<Rightarrow> with_graph (\<lambda>i t. project_attempt i t ?eid (cc_attempt_id cx)
                       [(''backend_id'', PyStr (cc_backend_id cx)), (''ok'', PyBool (xr_ok res))]) W
                 (emit W ''backend.completed'' [(''ok'', PyBool (xr_ok res)), (''message'', PyStr (xr_message res))] False
                       (assign (\<lambda>r. r\<lparr>cr_state := CS_BACKEND_COMPLETED\<rparr>) h0)))"
  have run: "complete_from_backend W res cx decision [RawCandidate d] init_Orchestrator
      = evidence_stage W cx res [RawCandidate d] h4"
    unfolding complete_from_backend_def h0(7) option.case(1) Let_def h0_def [symmetric] h4_def
    using assms(1-4) by (simp split: option.split)
  have h4: "cr_execution_id (fst h4) = ?eid" "cr_backend_ok (fst h4)" "cr_restore_ok (fst h4)"
    "\<not> cr_terminal_emitted (fst h4)" "cr_evidence_ids (fst h4) = []" "oc_usage (snd h4) = init_UsageFinaliser"
    using h0 by (simp_all add: h4_def held_simps split: option.split)
  define h1 where "h1 = emit W ''evidence.received'' [] False (assign (\<lambda>r. r\<lparr>cr_state := CS_EVIDENCE_PENDING\<rparr>) h4)"
  have st: "intake_stage W cx [RawCandidate d] h1 = (Inl e, (fst h1, advance 1 ((snd h1)\<lparr>oc_evidence := oc_evidence (snd h1)\<rparr>)))"
    by (simp add: intake_stage_def intake_def Let_def assms(5))
  have "evidence_stage W cx res [RawCandidate d] h4 = (Inl e, advance 1 ((snd h1)\<lparr>oc_evidence := oc_evidence (snd h1)\<rparr>))"
    unfolding evidence_stage_def h1_def [symmetric] Let_def by (simp add: st)
  then show ?thesis
    unfolding run using h4 by (simp add: held_simps h1_def)
qed

text \<open>A verification of a successful backend that asks for no evidence is passed.\<close>

lemma run_verification_completes:
  assumes cx: "cc_verification_strategy cx = ''backend_success_with_evidence''" "cc_required_evidence_types cx = []"
      "to_dict (py_or (dget (cc_metadata cx) ''verification_policy'') (PyDict [])) = Inr []"
    and res: "xr_ok res" and h: "cr_backend_ok (fst h)" "cr_restore_ok (fst h)" "\<not> cr_terminal_emitted (fst h)"
    and usage: "fst (finalise_usage (cr_execution_id (fst h)) (cr_organisation_id (fst h)) (cr_project_id (fst h)) (cr_mission_id (fst h))
           (map Fact (usage_from_result res cx)) (oc_usage (snd h))) = Inr ag"
  shows "\<exists>r oc. run_verification W cx res h = (Inr (outcome_from_record r), oc)
    \<and> store_get (oc_store oc) (cr_execution_id (fst h)) = Some r \<and> cr_state r = CS_COMPLETED
    \<and> cr_terminal_emitted r \<and> cr_evidence_ids r = cr_evidence_ids (fst h)"
proof -
  define h2 where "h2 = emit W ''verification.started'' [] False (assign (\<lambda>r. r\<lparr>cr_state := CS_VERIFYING\<rparr>)
       (emit W ''verification.requested'' [(''strategy'', PyStr (cc_verification_strategy cx))] False
         (assign (\<lambda>r. r\<lparr>cr_state := CS_VERIFICATION_PENDING\<rparr>) h)))"
  let ?q = "verification_request cx res [] h2"
  have "precheck ?q = None" "vq_strategy ?q = ''backend_success_with_evidence''"
    using cx res h by (simp_all add: precheck_def Let_def verification_request_def dget_def h2_def held_simps)
  then have "verify ?q = Inr (backend_success_with_evidence ?q)"
    by (simp add: verify.simps [of ?q])
  moreover have "vr_outcome (backend_success_with_evidence ?q) = VO_VERIFIED"
    using cx res h by (simp add: backend_success_with_evidence_def verification_request_def
        missing_types_def verification_result_def h2_def held_simps)
  ultimately obtain v where v: "verify ?q = Inr v" "vr_outcome v = VO_VERIFIED" by blast
  define h5 where "h5 = assign (apply_verdict v) (emit W (verification_event (vr_outcome v)) (verification_as_dict v) False
      (with_graph (\<lambda>i t. project_verification i t (cc_execution_id cx) (verification_as_dict v)) W
        (assign (\<lambda>r. r\<lparr>cr_verification := verification_as_dict v\<rparr>) h2)))"
  have frame: "cr_execution_id (apply_verdict v r) = cr_execution_id r" "cr_terminal_emitted (apply_verdict v r) = cr_terminal_emitted r"
    "cr_evidence_ids (apply_verdict v r) = cr_evidence_ids r" "cr_organisation_id (apply_verdict v r) = cr_organisation_id r"
    "cr_project_id (apply_verdict v r) = cr_project_id r" "cr_mission_id (apply_verdict v r) = cr_mission_id r" for r
    by (simp_all add: apply_verdict_def Let_def)
  have h5: "cr_execution_id (fst h5) = cr_execution_id (fst h)" "\<not> cr_terminal_emitted (fst h5)"
    "cr_evidence_ids (fst h5) = cr_evidence_ids (fst h)" "cr_organisation_id (fst h5) = cr_organisation_id (fst h)"
    "cr_project_id (fst h5) = cr_project_id (fst h)" "cr_mission_id (fst h5) = cr_mission_id (fst h)" "oc_usage (snd h5) = oc_usage (snd h)"
    using h(3) by (simp_all add: h5_def h2_def held_simps frame)
  let ?fin = "finalise_terminal W True (usage_from_result res cx) h5"
  obtain r where r: "store_get (oc_store (snd ?fin)) (cr_execution_id (fst h)) = Some r" "fst ?fin = outcome_from_record r"
    "cr_state r = CS_COMPLETED" "cr_terminal_emitted r" "cr_evidence_ids r = cr_evidence_ids (fst h)"
    using finalise_completes [OF h5(2), of "usage_from_result res cx" ag W] usage by (auto simp: h5)
  have "run_verification W cx res h = (Inr (outcome_from_record r), snd ?fin)"
    unfolding run_verification_def Let_def h2_def [symmetric] cx(3) bind_result_simps v(1) sum.case h5_def [symmetric]
    using r(2) v(2) by (simp add: case_prod_beta)
  with r show ?thesis by blast
qed

text \<open>A pending record of a successful backend is completed by a restart without any evidence.\<close>

lemma resume_completes:
  assumes "store_get (oc_store oc) eid = Some r" and "cr_execution_id r = eid" and "cr_state r = CS_EVIDENCE_PENDING"
    and "cr_backend_ok r" and "cr_restore_ok r" and "\<not> cr_terminal_emitted r" and "oc_usage oc = init_UsageFinaliser"
  shows "\<exists>out r'. fst (resume W eid oc) = Inr (Some out) \<and> co_ok out \<and> co_evidence_ids out = cr_evidence_ids r
     \<and> store_get (oc_store (snd (resume W eid oc))) eid = Some r' \<and> cr_state r' = CS_COMPLETED \<and> cr_terminal_emitted r'"
proof -
  let ?cx = "resume_context r"
  let ?res = "execution_result (cr_backend_ok r) (cr_execution_id r) (cr_backend_id r)
                 (str_default (cr_harness_id r) ''unknown'') (if cr_backend_ok r then ES_SUCCEEDED else ES_FAILED) ''resumed completion''"
  have "to_dict (py_or (dget (cc_metadata ?cx) ''verification_policy'') (PyDict [])) = Inr []"
    by (simp add: resume_context_def dget_def py_or_def to_dict_def)
  moreover have "usage_from_result ?res ?cx = [usage_fact ?cx
      [(''wall_clock_seconds'', PyInt 0), (''input_tokens'', PyInt 0), (''output_tokens'', PyInt 0)]]"
    by (simp add: usage_from_result_def execution_result_def)
  then obtain ag where "fst (finalise_usage (cr_execution_id r) (cr_organisation_id r) (cr_project_id r)
      (cr_mission_id r) (map Fact (usage_from_result ?res ?cx)) (oc_usage oc)) = Inr ag"
    unfolding assms(7) using zero_usage [OF usage_fact_facts] by fastforce
  ultimately obtain r' oc' where "run_verification W ?cx ?res (r, oc) = (Inr (outcome_from_record r'), oc')"
      "store_get (oc_store oc') eid = Some r'" "cr_state r' = CS_COMPLETED" "cr_terminal_emitted r'" "cr_evidence_ids r' = cr_evidence_ids r"
    using run_verification_completes [of ?cx ?res "(r, oc)" ag W] assms(2,4-6)
    by (auto simp: resume_context_def execution_result_def)
  then show ?thesis
    using assms(1,3) by (simp add: resume_def outcome_from_record_def)
qed

definition bad_candidate :: candidate_input where
  "bad_candidate = RawCandidate [(''sequence'', PyStr ''first'')]"

definition example_stopped :: Orchestrator where
  "example_stopped =
     snd (complete_from_backend example_environment example_result (example_context ''e1'') None [bad_candidate] init_Orchestrator)"

definition example_completed :: Orchestrator where
  "example_completed = snd (resume example_environment ''e1'' example_stopped)"

lemma example_stopped_record:
  "\<exists>r. store_get (oc_store example_stopped) ''e1'' = Some r \<and> cr_execution_id r = ''e1'' \<and> cr_state r = CS_EVIDENCE_PENDING
     \<and> cr_backend_ok r \<and> cr_restore_ok r \<and> \<not> cr_terminal_emitted r \<and> oc_usage example_stopped = init_UsageFinaliser"
proof -
  have "restore_ok example_result" by code_simp
  moreover have "\<exists>e. read_candidate bad_candidate = Inl e"
    by (cases "read_candidate bad_candidate") (simp_all, code_simp)
  ultimately show ?thesis
    using unreadable_candidate_stops [of "example_context ''e1''" example_result "[(''sequence'', PyStr ''first'')]" _ example_environment None]
    by (auto simp: example_stopped_def bad_candidate_def example_context_def example_result_def execution_result_def)
qed

lemma example_completed_record:
  "\<exists>r. store_get (oc_store example_completed) ''e1'' = Some r \<and> cr_state r = CS_COMPLETED \<and> cr_terminal_emitted r"
proof -
  obtain r where "store_get (oc_store example_stopped) ''e1'' = Some r" "cr_execution_id r = ''e1''" "cr_state r = CS_EVIDENCE_PENDING"
    "cr_backend_ok r" "cr_restore_ok r" "\<not> cr_terminal_emitted r" "oc_usage example_stopped = init_UsageFinaliser"
    using example_stopped_record by blast
  from resume_completes [OF this, of example_environment] show ?thesis
    by (auto simp: example_completed_def)
qed

lemma example_completed_steps: "completion_step\<^sup>*\<^sup>* init_Orchestrator example_completed"
proof -
  have "completion_step init_Orchestrator example_stopped"
    unfolding example_stopped_def by (rule s_backend) (simp add: example_environment_def)
  moreover have "completion_step example_stopped example_completed"
    unfolding example_completed_def by (rule s_resume)
  ultimately show ?thesis by auto
qed

text \<open>C2: In every reachable state, an execution is recorded as completed only if the verdict stored in its
  record is the verified answer of the verification service to a request about that very execution,
  which is then attested, on the evidence that the boundary of the orchestrator had accepted for it by
  then (the beginning of what it holds now, and what it holds contradicts none of the identities of the
  execution), and only with its usage finalised and its terminal event emitted.\<close>

theorem completed_requires_verification:
  assumes "completion_step\<^sup>*\<^sup>* init_Orchestrator oc"
    and "store_get (oc_store oc) eid = Some r" and "cr_state r = CS_COMPLETED"
  shows "cr_usage_finalised r \<and> cr_terminal_emitted r \<and>
    (\<exists>q v more. verify q = Inr v \<and> vr_outcome v = VO_VERIFIED \<and> attested q
       \<and> cr_verification r = verification_as_dict v \<and> vq_execution_id q = eid
       \<and> list_accepted (oc_evidence oc) eid = vq_accepted_evidence q @ more
       \<and> (\<forall>e \<in> set (list_accepted (oc_evidence oc) eid). owned e \<and> ee_execution_id e = eid))"
proof -
  have inv: "cr_execution_id r = eid" "record_in (oc_evidence oc) r" "evidence_inv (oc_evidence oc)"
    using completion_steps_inv [OF assms(1) init_orch_inv] assms(2) by (simp_all add: orch_inv_def)
  then have "vouched_in (oc_evidence oc) r" and ended: "cr_usage_finalised r" "cr_terminal_emitted r"
    using assms(3) by (simp_all add: record_in_def record_inv_def)
  then obtain q v more where q: "verify q = Inr v" "vr_outcome v = VO_VERIFIED" "cr_verification r = verification_as_dict v"
    "vq_execution_id q = eid" "list_accepted (oc_evidence oc) eid = vq_accepted_evidence q @ more"
    using inv(1) by (auto simp: vouched_in_def)
  moreover have "attested q"
    by (rule verified_attested) (simp add: verified_def q(1,2))
  moreover have "\<forall>e \<in> set (list_accepted (oc_evidence oc) eid). owned e \<and> ee_execution_id e = eid"
    using inv(3) by (simp add: evidence_inv_def Let_def)
  ultimately show ?thesis
    using ended by blast
qed

theorem completed_requires_verification_witness:
  "\<exists>r q v more. store_get (oc_store example_completed) ''e1'' = Some r \<and> cr_state r = CS_COMPLETED
     \<and> attested q \<and> verify q = Inr v \<and> cr_verification r = verification_as_dict v
     \<and> list_accepted (oc_evidence example_completed) ''e1'' = vq_accepted_evidence q @ more"
  using completed_requires_verification [OF example_completed_steps] example_completed_record by blast

text \<open>C7: A terminal execution is final: once its terminal event was emitted, no later sequence of
  backend results, remote events, cancellations and restarts, from any attempt, changes its state,
  failure class, detail, verdict, evidence, usage or graph nodes; events are only appended.\<close>

theorem terminal_outcome_is_final:
  assumes "completion_step\<^sup>*\<^sup>* init_Orchestrator oc" and "completion_step\<^sup>*\<^sup>* oc oc'"
    and "store_get (oc_store oc) eid = Some r" and "cr_terminal_emitted r"
  shows "\<exists>r'. store_get (oc_store oc') eid = Some r' \<and> sealed r r'"
proof -
  have inv: "orch_inv oc"
    by (rule completion_steps_inv [OF assms(1) init_orch_inv])
  then have "already_terminal oc eid = Some r"
    using assms(3,4) by (simp add: already_terminal_Some orch_inv_def record_in_def record_inv_def)
  from completion_steps_sealed [OF assms(2) inv this] show ?thesis
    by (auto simp: already_terminal_Some)
qed

theorem terminal_outcome_is_final_witness:
  "\<exists>r'. store_get (oc_store (snd (complete_from_remote_event example_environment (example_context ''e1'')
            ''task.failed'' [] [] example_completed))) ''e1'' = Some r' \<and> cr_state r' = CS_COMPLETED"
proof -
  obtain r where r: "store_get (oc_store example_completed) ''e1'' = Some r" "cr_state r = CS_COMPLETED" "cr_terminal_emitted r"
    using example_completed_record by blast
  have "completion_step\<^sup>*\<^sup>* example_completed (snd (complete_from_remote_event example_environment
      (example_context ''e1'') ''task.failed'' [] [] example_completed))"
    by (intro r_into_rtranclp s_remote) (simp add: example_environment_def)
  from terminal_outcome_is_final [OF example_completed_steps this r(1,3)] show ?thesis
    using r(2) by (auto simp: sealed_def)
qed

text \<open>A restart forgets what the execution had to prove. When a backend success is submitted with one
  candidate that cannot be read, the completion raises and leaves the execution pending; the recovery
  then verifies it with the default strategy and reports success with no evidence at all, whatever
  strategy, evidence types or policy the context required.\<close>

theorem resume_skips_required_evidence:
  assumes "cc_attempt_id cx = cc_authoritative_attempt_id cx" and "\<not> cc_cancelled cx" and "restore_ok res"
    and "xr_ok res" and "read_candidate (RawCandidate d) = Inl e"
  shows "(let (r, oc) = complete_from_backend W res cx decision [RawCandidate d] init_Orchestrator
          in r = Inl e \<and> (\<exists>out. fst (resume W' (cc_execution_id cx) oc) = Inr (Some out)
                               \<and> co_ok out \<and> co_evidence_ids out = []))"
proof -
  note s = unreadable_candidate_stops [OF assms, of W decision]
  then obtain r where r: "store_get (oc_store (snd (complete_from_backend W res cx decision [RawCandidate d] init_Orchestrator)))
              (cc_execution_id cx) = Some r" "cr_execution_id r = cc_execution_id cx" "cr_state r = CS_EVIDENCE_PENDING"
      "cr_backend_ok r" "cr_restore_ok r" "\<not> cr_terminal_emitted r" and "cr_evidence_ids r = []"
    by blast
  with resume_completes [OF r, of W'] s show ?thesis
    by (auto simp: case_prod_beta)
qed

theorem resume_skips_required_evidence_witness:
  "\<exists>out. fst (resume example_environment ''e1'' (snd (complete_from_backend example_environment example_result
        ((example_context ''e1'')\<lparr>cc_require_evidence := True, cc_verification_strategy := ''remote_verifier_event''\<rparr>)
        None [bad_candidate] init_Orchestrator))) = Inr (Some out) \<and> co_ok out \<and> co_evidence_ids out = []"
proof -
  let ?cx = "(example_context ''e1'')\<lparr>cc_require_evidence := True, cc_verification_strategy := ''remote_verifier_event''\<rparr>"
  have "restore_ok example_result" by code_simp
  moreover obtain e where "read_candidate bad_candidate = Inl e"
    by (cases "read_candidate bad_candidate") (simp_all, code_simp)
  ultimately show ?thesis
    using resume_skips_required_evidence [of ?cx example_result "[(''sequence'', PyStr ''first'')]" e example_environment None example_environment]
    by (simp add: bad_candidate_def example_context_def example_result_def execution_result_def case_prod_beta)
qed

end
