(* ===== verification/Execution_Cancellation.thy ===== *)
theory Execution_Cancellation
  imports Execution_Models
begin

text \<open>
  The cancellation registry of running executions
  (\<^verbatim>\<open>src/src/joymesh/runtime_v1/execution_routing/cancellation.py\<close>). The table maps an execution
  to a row object; \<^verbatim>\<open>cancel\<close> keeps the object across an \<^verbatim>\<open>await\<close>, while another task may register the
  execution anew, so rows live in a heap and the table holds their indices. \<open>'f\<close> is the type of the
  cancel functions, \<open>'w\<close> the state they act on.
\<close>

record 'f ActiveExecution =
  ax_execution_id :: string
  ax_attempt_id :: string
  ax_backend_id :: string
  ax_harness_id :: "string option"
  ax_cancel_fn :: "'f option"
  ax_cancelled :: bool
  ax_cancel_count :: int
  ax_late_events_ignored :: int
  ax_created_at :: time

record 'f CancellationRegistry =
  cg_active :: "string \<Rightarrow> nat option"
  cg_rows :: "'f ActiveExecution list"

definition init_CancellationRegistry :: "'f CancellationRegistry" where
  "init_CancellationRegistry = \<lparr>cg_active = (\<lambda>_. None), cg_rows = []\<rparr>"

definition active_row :: "'f CancellationRegistry \<Rightarrow> string \<Rightarrow> 'f ActiveExecution option" where
  "active_row g eid = (case cg_active g eid of None \<Rightarrow> None | Some i \<Rightarrow> Some (cg_rows g ! i))"

definition update_row :: "nat \<Rightarrow> ('f ActiveExecution \<Rightarrow> 'f ActiveExecution) \<Rightarrow> 'f CancellationRegistry \<Rightarrow> 'f CancellationRegistry" where
  "update_row i f g = g\<lparr>cg_rows := (cg_rows g)[i := f (cg_rows g ! i)]\<rparr>"

text \<open>\<open>uid\<close> and \<open>now\<close> are the default attempt identifier and the clock.\<close>

definition register_execution ::
  "string \<Rightarrow> time \<Rightarrow> string \<Rightarrow> string \<Rightarrow> string option \<Rightarrow> string option \<Rightarrow> 'f option
   \<Rightarrow> 'f CancellationRegistry \<Rightarrow> 'f CancellationRegistry" where
  "register_execution uid now eid backend harness attempt fn g =
     g\<lparr>cg_active := (cg_active g)(eid \<mapsto> length (cg_rows g)),
       cg_rows := cg_rows g @
         [\<lparr>ax_execution_id = eid,
           ax_attempt_id = (if opt_truthy attempt then the attempt else ''execution_attempt_'' @ uid),
           ax_backend_id = backend, ax_harness_id = harness, ax_cancel_fn = fn, ax_cancelled = False,
           ax_cancel_count = 0, ax_late_events_ignored = 0, ax_created_at = now\<rparr>]\<rparr>"

definition update_attempt ::
  "string \<Rightarrow> string \<Rightarrow> string \<Rightarrow> string option \<Rightarrow> 'f option \<Rightarrow> 'f CancellationRegistry \<Rightarrow> 'f CancellationRegistry" where
  "update_attempt eid attempt backend harness fn g =
     (case cg_active g eid of
        None \<Rightarrow> g
      | Some i \<Rightarrow> update_row i (\<lambda>r. r\<lparr>ax_attempt_id := attempt, ax_backend_id := backend, ax_harness_id := harness,
                   ax_cancel_fn := (if fn = None then ax_cancel_fn r else fn)\<rparr>) g)"

definition is_cancelled :: "'f CancellationRegistry \<Rightarrow> string \<Rightarrow> bool" where
  "is_cancelled g eid = (case active_row g eid of None \<Rightarrow> False | Some r \<Rightarrow> ax_cancelled r)"

definition idle_answer :: "string \<Rightarrow> pydict" where
  "idle_answer eid =
     [(''ok'', PyBool True), (''idempotent'', PyBool True), (''detail'', PyStr ''no active execution''),
      (''execution_id'', PyStr eid)]"

definition repeat_answer :: "string \<Rightarrow> 'f ActiveExecution \<Rightarrow> pydict" where
  "repeat_answer eid r =
     [(''ok'', PyBool True), (''idempotent'', PyBool True), (''detail'', PyStr ''already cancelled''),
      (''execution_id'', PyStr eid), (''attempt_id'', PyStr (ax_attempt_id r)),
      (''backend_id'', PyStr (ax_backend_id r)), (''cancel_count'', PyInt (ax_cancel_count r))]"

definition cancel_answer :: "string \<Rightarrow> pydict \<Rightarrow> 'f ActiveExecution \<Rightarrow> pydict" where
  "cancel_answer eid cleanup r =
     [(''ok'', PyBool True), (''idempotent'', PyBool False), (''execution_id'', PyStr eid),
      (''attempt_id'', PyStr (ax_attempt_id r)), (''backend_id'', PyStr (ax_backend_id r)),
      (''harness_id'', opt_str (ax_harness_id r)), (''cleanup'', PyDict cleanup),
      (''cancel_count'', PyInt (ax_cancel_count r))]"

text \<open>What is done under the lock, before a cancel function is awaited: it answers at once, or hands
  over the row and the function to run.\<close>

definition cancel_begin ::
  "string \<Rightarrow> 'f CancellationRegistry \<Rightarrow> (pydict + nat \<times> 'f option) \<times> 'f CancellationRegistry" where
  "cancel_begin eid g =
     (case cg_active g eid of
        None \<Rightarrow> (Inl (idle_answer eid), g)
      | Some i \<Rightarrow>
          (let g1 = update_row i (\<lambda>r. r\<lparr>ax_cancel_count := ax_cancel_count r + 1\<rparr>) g
           in if ax_cancelled (cg_rows g1 ! i) then (Inl (repeat_answer eid (cg_rows g1 ! i)), g1)
              else
                (let g2 = update_row i (\<lambda>r. r\<lparr>ax_cancelled := True\<rparr>) g1
                 in (Inr (i, ax_cancel_fn (cg_rows g2 ! i)), g2))))"

text \<open>\<open>run\<close> performs a cancel function; what other tasks do to the registry meanwhile is part of it.\<close>

definition cancel_execution ::
  "('f \<Rightarrow> 'w \<times> 'f CancellationRegistry \<Rightarrow> pydict outcome \<times> 'w \<times> 'f CancellationRegistry)
   \<Rightarrow> string \<Rightarrow> 'w \<times> 'f CancellationRegistry \<Rightarrow> pydict outcome \<times> 'w \<times> 'f CancellationRegistry" where
  "cancel_execution run eid wg =
     (let (w, g) = wg in
      case cancel_begin eid g of
        (Inl answer, g1) \<Rightarrow> (Returned answer, w, g1)
      | (Inr (i, None), g2) \<Rightarrow> (Returned (cancel_answer eid [(''cancelled'', PyBool True)] (cg_rows g2 ! i)), w, g2)
      | (Inr (i, Some f), g2) \<Rightarrow>
          (case run f (w, g2) of
             (Returned d, w3, g3) \<Rightarrow> (Returned (cancel_answer eid d (cg_rows g3 ! i)), w3, g3)
           | (Raised e, w3, g3) \<Rightarrow> (Raised e, w3, g3)
           | (Cancelled, w3, g3) \<Rightarrow> (Cancelled, w3, g3)))"

definition note_late_event :: "string \<Rightarrow> 'f CancellationRegistry \<Rightarrow> bool \<times> 'f CancellationRegistry" where
  "note_late_event eid g =
     (case cg_active g eid of
        None \<Rightarrow> (False, g)
      | Some i \<Rightarrow> if \<not> ax_cancelled (cg_rows g ! i) then (False, g)
                 else (True, update_row i (\<lambda>r. r\<lparr>ax_late_events_ignored := ax_late_events_ignored r + 1\<rparr>) g))"

definition clear_execution :: "string \<Rightarrow> 'f CancellationRegistry \<Rightarrow> 'f CancellationRegistry" where
  "clear_execution eid g = g\<lparr>cg_active := (cg_active g)(eid := None)\<rparr>"

section \<open>Lemmas\<close>

definition registry_ok :: "'f CancellationRegistry \<Rightarrow> bool" where
  "registry_ok g \<longleftrightarrow> (\<forall>eid i. cg_active g eid = Some i \<longrightarrow> i < length (cg_rows g))"

text \<open>What tasks may do to the registry while a call is awaited: whatever they register or clear, no
  row is lost and no cancelled row is revived.\<close>

definition registry_grows :: "'f CancellationRegistry \<Rightarrow> 'f CancellationRegistry \<Rightarrow> bool" where
  "registry_grows g g' \<longleftrightarrow> registry_ok g' \<and> length (cg_rows g) \<le> length (cg_rows g')
     \<and> (\<forall>i < length (cg_rows g). ax_cancelled (cg_rows g ! i) \<longrightarrow> ax_cancelled (cg_rows g' ! i))"

lemma registry_grows_refl: "registry_ok g \<Longrightarrow> registry_grows g g"
  by (simp add: registry_grows_def)

lemma registry_grows_trans: "registry_grows g g' \<Longrightarrow> registry_grows g' g'' \<Longrightarrow> registry_grows g g''"
  unfolding registry_grows_def by (meson less_le_trans order_trans)

lemma update_row_grows:
  assumes "registry_ok g" and "\<And>r. ax_cancelled r \<Longrightarrow> ax_cancelled (f r)"
  shows "registry_grows g (update_row i f g)"
proof -
  have "ax_cancelled ((cg_rows g)[i := f (cg_rows g ! i)] ! j)" if "ax_cancelled (cg_rows g ! j)" "j < length (cg_rows g)" for j
    using that assms(2) by (cases "i = j") simp_all
  then show ?thesis
    using assms(1) by (simp add: registry_grows_def registry_ok_def update_row_def)
qed

lemma register_grows: "registry_ok g \<Longrightarrow> registry_grows g (register_execution uid now eid b h a fn g)"
  by (auto simp: registry_grows_def registry_ok_def register_execution_def nth_append less_Suc_eq)

lemma clear_grows: "registry_ok g \<Longrightarrow> registry_grows g (clear_execution eid g)"
  by (simp add: registry_grows_def registry_ok_def clear_execution_def)

lemma update_attempt_grows: "registry_ok g \<Longrightarrow> registry_grows g (update_attempt eid a b h fn g)"
  by (auto simp: update_attempt_def intro!: update_row_grows registry_grows_refl split: option.split)

lemma register_active:
  "active_row (register_execution uid now eid b h a fn g) eid =
     Some \<lparr>ax_execution_id = eid, ax_attempt_id = (if opt_truthy a then the a else ''execution_attempt_'' @ uid),
           ax_backend_id = b, ax_harness_id = h, ax_cancel_fn = fn, ax_cancelled = False,
           ax_cancel_count = 0, ax_late_events_ignored = 0, ax_created_at = now\<rparr>"
  by (simp add: active_row_def register_execution_def)

lemma cleared_not_cancelled: "\<not> is_cancelled (clear_execution eid g) eid"
  by (simp add: is_cancelled_def active_row_def clear_execution_def)

text \<open>A cancellation that is begun in a row marks it; one that is answered changes at most the counter.\<close>

lemma cancel_begin_grows: "registry_ok g \<Longrightarrow> cancel_begin eid g = (r, g') \<Longrightarrow> registry_grows g g'"
  by (auto simp: cancel_begin_def Let_def split: option.splits if_splits
      intro!: update_row_grows registry_grows_refl registry_grows_trans [OF update_row_grows update_row_grows])
     (auto simp: registry_ok_def update_row_def)

lemma cancel_begin_started:
  assumes "registry_ok g" and "cancel_begin eid g = (Inr (i, f), g')"
  shows "i < length (cg_rows g) \<and> \<not> ax_cancelled (cg_rows g ! i) \<and> ax_cancelled (cg_rows g' ! i)"
proof -
  have i: "cg_active g eid = Some i"
    using assms(2) by (auto simp: cancel_begin_def Let_def split: option.splits if_splits)
  then have "i < length (cg_rows g)" using assms(1) by (simp add: registry_ok_def)
  with i assms(2) show ?thesis
    by (auto simp: cancel_begin_def Let_def update_row_def split: if_splits)
qed

lemma cancelled_row_answers:
  assumes "cg_active g eid = Some i" and "i < length (cg_rows g)" and "ax_cancelled (cg_rows g ! i)"
  shows "cancel_execution run eid (w, g) =
    (Returned (repeat_answer eid (let r = cg_rows g ! i in r\<lparr>ax_cancel_count := ax_cancel_count r + 1\<rparr>)), w,
     update_row i (\<lambda>r. r\<lparr>ax_cancel_count := ax_cancel_count r + 1\<rparr>) g)"
  using assms by (simp add: cancel_execution_def cancel_begin_def Let_def update_row_def)

text \<open>The registry under any number of tasks. Everything that one of them does to it between two awaits
  is a step, so that a cancellation may begin while the functions of earlier ones are still running. The
  log holds the row and the function of every cancellation that was begun.\<close>

inductive registry_run :: "(nat \<times> 'f option) list \<Rightarrow> 'f CancellationRegistry \<Rightarrow> bool" where
  r_start: "registry_run [] init_CancellationRegistry"
| r_register: "registry_run begun g \<Longrightarrow> registry_run begun (register_execution uid now eid b h a fn g)"
| r_update: "registry_run begun g \<Longrightarrow> registry_run begun (update_attempt eid a b h fn g)"
| r_late: "registry_run begun g \<Longrightarrow> registry_run begun (snd (note_late_event eid g))"
| r_clear: "registry_run begun g \<Longrightarrow> registry_run begun (clear_execution eid g)"
| r_answered: "registry_run begun g \<Longrightarrow> cancel_begin eid g = (Inl answer, g') \<Longrightarrow> registry_run begun g'"
| r_begun: "registry_run begun g \<Longrightarrow> cancel_begin eid g = (Inr (i, f), g') \<Longrightarrow> registry_run (begun @ [(i, f)]) g'"

definition begun_ok :: "(nat \<times> 'f option) list \<Rightarrow> 'f CancellationRegistry \<Rightarrow> bool" where
  "begun_ok begun g \<longleftrightarrow> registry_ok g \<and> distinct (map fst begun)
     \<and> (\<forall>i \<in> fst ` set begun. i < length (cg_rows g) \<and> ax_cancelled (cg_rows g ! i))"

lemma begun_registry: "begun_ok begun g \<Longrightarrow> registry_ok g"
  by (simp add: begun_ok_def)

lemma begun_grows: "begun_ok begun g \<Longrightarrow> registry_grows g g' \<Longrightarrow> begun_ok begun g'"
  unfolding begun_ok_def registry_grows_def by (meson less_le_trans)

lemma note_late_grows: "registry_ok g \<Longrightarrow> registry_grows g (snd (note_late_event eid g))"
  by (auto simp: note_late_event_def intro!: update_row_grows registry_grows_refl split: option.split)

lemma registry_run_ok: "registry_run begun g \<Longrightarrow> begun_ok begun g"
proof (induction rule: registry_run.induct)
  case r_start
  show ?case by (simp add: begun_ok_def registry_ok_def init_CancellationRegistry_def)
next
  case (r_begun begun g eid i f g')
  have ok: "registry_ok g" using r_begun.IH by (simp add: begun_ok_def)
  note s = cancel_begin_started [OF ok r_begun.hyps(2)]
  have g: "registry_grows g g'" by (rule cancel_begin_grows [OF ok r_begun.hyps(2)])
  have "i \<notin> fst ` set begun" using s r_begun.IH by (auto simp: begun_ok_def)
  moreover have "i < length (cg_rows g')" using s g by (simp add: registry_grows_def)
  ultimately show ?case using s begun_grows [OF r_begun.IH g] by (simp add: begun_ok_def)
qed (blast intro: begun_grows register_grows update_attempt_grows note_late_grows clear_grows cancel_begin_grows begun_registry)+

text \<open>C29: Whatever the tasks do to the registry and however their cancellations overlap, the cancel
  functions of no row are begun twice; and as soon as a cancellation has begun in a row, before its
  function has returned, another cancellation that finds the row registered runs no cancel function,
  changes nothing but the counter and answers that it is already cancelled.\<close>

theorem cancel_runs_once:
  assumes "registry_run begun g"
  shows "distinct (map fst begun)
    \<and> (\<forall>(i, f) \<in> set begun. \<forall>eid run (w :: 'w). cg_active g eid = Some i \<longrightarrow>
         (\<exists>answer. cancel_execution run eid (w, g) =
              (Returned answer, w, update_row i (\<lambda>r. r\<lparr>ax_cancel_count := ax_cancel_count r + 1\<rparr>) g)
            \<and> dget answer ''idempotent'' = PyBool True))"
proof -
  have "begun_ok begun g" by (rule registry_run_ok [OF assms])
  then have "i < length (cg_rows g)" "ax_cancelled (cg_rows g ! i)" if "(i, f) \<in> set begun" for i f
    using that by (auto simp: begun_ok_def)
  then show ?thesis
    using \<open>begun_ok begun g\<close> cancelled_row_answers
    by (fastforce simp: begun_ok_def repeat_answer_def dget_def)
qed

definition example_registry :: "string CancellationRegistry" where
  "example_registry = register_execution ''u1'' 0 ''e1'' ''local'' None None (Some ''local'') init_CancellationRegistry"

text \<open>The function of the first cancellation is still awaited when the second one asks.\<close>

theorem cancel_runs_once_witness:
  "fst (cancel_begin ''e1'' example_registry) = Inr (0, Some ''local'')
   \<and> (\<forall>run. \<exists>answer. fst (cancel_execution run ''e1'' ((), snd (cancel_begin ''e1'' example_registry))) = Returned answer
        \<and> dget answer ''idempotent'' = PyBool True)"
proof -
  obtain g where b: "cancel_begin ''e1'' example_registry = (Inr (0, Some ''local''), g)" and a: "cg_active g ''e1'' = Some 0"
    by (simp add: cancel_begin_def Let_def example_registry_def register_execution_def update_row_def init_CancellationRegistry_def)
  have "registry_run [] example_registry"
    unfolding example_registry_def by (intro r_register r_start)
  then have run: "registry_run ([] @ [(0, Some ''local'')]) g"
    by (rule r_begun [OF _ b])
  have "(0, Some ''local'') \<in> set ([] @ [(0, Some ''local'')])" by simp
  from bspec [OF conjunct2 [OF cancel_runs_once [OF run, where 'w = unit]] this] a
  have once: "\<exists>answer. cancel_execution run ''e1'' ((), g) =
      (Returned answer, (), update_row 0 (\<lambda>r. r\<lparr>ax_cancel_count := ax_cancel_count r + 1\<rparr>) g)
      \<and> dget answer ''idempotent'' = PyBool True" for run
    unfolding prod.case by blast
  have "\<exists>answer. fst (cancel_execution run ''e1'' ((), g)) = Returned answer \<and> dget answer ''idempotent'' = PyBool True" for run
    using once [of run] by (elim exE conjE) (intro exI conjI, erule arg_cong [where f = fst, THEN trans], simp_all)
  then show ?thesis by (simp only: b fst_conv snd_conv) blast
qed

end
