(* ===== verification/Execution_Router.thy ===== *)
theory Execution_Router
  imports Execution_Cancellation "HOL-Library.Product_Lexorder" "HOL-Library.Sublist"
begin

text \<open>
  Running an execution over its chain of backends: the backend registry
  (\<^verbatim>\<open>src/src/joymesh/runtime_v1/execution_routing/registry.py\<close>) and, of \<^verbatim>\<open>router.py\<close>, the entitlement
  checks, the ranking of the backends for a harness and \<^verbatim>\<open>execute_with_fallback\<close>. The decision is an
  argument: the capability scores of \<^verbatim>\<open>select\<close> are floating point numbers and are not modelled; the
  scores of \<open>rank_backends\<close> are small integers.

  A backend is a record of its methods. A method acts on the pair of the state \<open>'w\<close> of the backends
  and the cancellation registry; what other tasks do to the registry while the method is awaited is
  part of the method. A cancel function is named by its backend, and the key of a backend in the
  registry is its \<^verbatim>\<open>backend_id\<close>.
\<close>

section \<open>Backends and their registry\<close>

type_synonym registry_table = "string CancellationRegistry"

type_synonym ('w, 'a) backend_call = "'w \<times> registry_table \<Rightarrow> 'a outcome \<times> 'w \<times> registry_table"

record 'w ExecutionBackend =
  be_capabilities :: "ExecutionCapability list"
  be_supports :: "ExecutionIntent \<Rightarrow> string \<Rightarrow> bool"
  be_health :: "('w, BackendHealth) backend_call"
  be_prepare :: "ExecutionIntent \<Rightarrow> ExecutionDecision \<Rightarrow> ('w, pydict) backend_call"
  be_validate :: "ExecutionIntent \<Rightarrow> ExecutionDecision \<Rightarrow> ('w, unit) backend_call"
  be_execute :: "ExecutionIntent \<Rightarrow> ExecutionDecision \<Rightarrow> pydict \<Rightarrow> ('w, ExecutionResult) backend_call"
  be_cleanup :: "string \<Rightarrow> ('w, unit) backend_call"

record 'w BackendRegistry =
  br_config :: BackendRegistryConfig
  br_backends :: "(string \<times> 'w ExecutionBackend) list"

definition registry_get_backend :: "'w BackendRegistry \<Rightarrow> string \<Rightarrow> 'w ExecutionBackend result" where
  "registry_get_backend reg backend_id =
     (case map_of (br_backends reg) backend_id of
        Some b \<Rightarrow> Inr b
      | None \<Rightarrow> Inl (KeyError (''unknown execution backend: '' @ backend_id)))"

definition enabled_backends :: "'w BackendRegistry \<Rightarrow> (string \<times> 'w ExecutionBackend) list" where
  "enabled_backends reg =
     List.map_filter (\<lambda>i. case map_of (br_backends reg) i of
         None \<Rightarrow> None
       | Some b \<Rightarrow> if i = ''hosted'' \<and> \<not> bc_allow_stub_backends (br_config reg) then None else Some (i, b))
       (bc_enabled_backends (br_config reg))"

definition override_capabilities :: "'w BackendRegistry \<Rightarrow> string \<Rightarrow> ExecutionCapability list option" where
  "override_capabilities reg backend_id = map_of (bc_capability_overrides (br_config reg)) backend_id"

record 'w ExecutionRouter =
  er_registry :: "'w BackendRegistry"
  er_available_harnesses :: "string list"
  er_subscription_allows :: "(string \<times> bool) list"
  er_quota_allows :: "(string \<times> bool) list"

section \<open>Entitlements\<close>

text \<open>An entry that is present and false; an empty table allows everything.\<close>

definition disallowed :: "(string \<times> bool) list \<Rightarrow> string \<Rightarrow> bool" where
  "disallowed table backend_id \<longleftrightarrow> map_of table backend_id = Some False"

text \<open>\<^verbatim>\<open>harness in denied_harnesses\<close>: membership in a sequence or a dictionary, substring of a text.\<close>

definition text_in :: "string \<Rightarrow> pyval \<Rightarrow> bool result" where
  "text_in s v =
     (case v of
        PyStr t \<Rightarrow> Inr (substring s t)
      | PyList xs \<Rightarrow> Inr (PyStr s \<in> set xs)
      | PyDict d \<Rightarrow> Inr (has_key d s)
      | _ \<Rightarrow> Inl (TypeError ''argument is not iterable''))"

text \<open>\<open>_enforce_entitlements\<close>: the reason code and message of an \<^verbatim>\<open>ExecutionRouterError\<close>, if any.\<close>

definition enforce_entitlements ::
  "'w ExecutionRouter \<Rightarrow> ExecutionIntent \<Rightarrow> string option \<Rightarrow> (string \<times> string) option result" where
  "enforce_entitlements rt intent backend =
     (let constraints = ei_subscription_constraints intent;
          blocked = (\<lambda>table. case backend of None \<Rightarrow> False | Some b \<Rightarrow> b \<noteq> [] \<and> disallowed table b);
          name = (case backend of None \<Rightarrow> [] | Some b \<Rightarrow> b)
      in if truthy (dget constraints ''denied'') then
           Inr (Some (''entitlement_required'',
                  py_str (py_or (dget constraints ''detail'') (PyStr ''subscription entitlement required''))))
         else if blocked (er_subscription_allows rt) then
           Inr (Some (''backend_not_entitled'', ''backend not entitled: '' @ name))
         else if blocked (er_quota_allows rt) then
           Inr (Some (''quota_exhausted'', ''quota exhausted for backend: '' @ name))
         else
           (case ei_preferred_harness intent of
              None \<Rightarrow> Inr None
            | Some h \<Rightarrow>
                if h = [] then Inr None
                else bind_result (text_in h (py_or (dget constraints ''denied_harnesses'') (PyList []))) (\<lambda>found.
                     Inr (if found then Some (''harness_not_entitled'', ''harness not entitled: '' @ h) else None))))"

definition entitlement_failure :: "string \<Rightarrow> ExecutionFailureClass" where
  "entitlement_failure reason_code =
     (if reason_code = ''entitlement_required'' then ENTITLEMENT_REQUIRED
      else if reason_code = ''backend_not_entitled'' then BACKEND_NOT_ENTITLED
      else if reason_code = ''harness_not_entitled'' then HARNESS_NOT_ENTITLED
      else if reason_code = ''quota_exhausted'' then QUOTA_EXHAUSTED
      else POLICY_DENIED)"

definition parse_failure :: "string option \<Rightarrow> ExecutionFailureClass" where
  "parse_failure value =
     (case value of
        None \<Rightarrow> PROCESS_FAILURE
      | Some v \<Rightarrow> if v = [] then PROCESS_FAILURE
          else (case find (\<lambda>f. failure_value f = v) all_failures of Some f \<Rightarrow> f | None \<Rightarrow> UNKNOWN_FAILURE))"

section \<open>Ranking the backends of a harness\<close>

definition backend_score :: "'w ExecutionRouter \<Rightarrow> ExecutionIntent \<Rightarrow> string \<Rightarrow> ExecutionCapability list \<Rightarrow> int" where
  "backend_score rt intent i caps =
     (let priority = bc_priority (br_config (er_registry rt));
          plus = (\<lambda>c n. if c then n else (0 :: int))
      in 100 - (if i \<in> set priority then int (index_of i priority) * 5 else 50)
         + plus (ei_cost_preference intent = ''cheapest'' \<and> i = ''local'') 10
         + plus (ei_cost_preference intent = ''fastest'' \<and> i = ''fireconnect'') 5
         + plus (ei_requires_provider_route intent \<and> PROVIDER_ROUTING \<in> set caps) 20
         + plus (ei_locality_preference intent = ''local'' \<and> i = ''local'') 15
         + plus (ei_locality_preference intent = ''remote'' \<and> i = ''joymesh'') 15)"

definition effective_capabilities :: "'w ExecutionRouter \<Rightarrow> string \<Rightarrow> 'w ExecutionBackend \<Rightarrow> ExecutionCapability list" where
  "effective_capabilities rt i b =
     be_capabilities b @ (case override_capabilities (er_registry rt) i of None \<Rightarrow> [] | Some cs \<Rightarrow> cs)"

definition backend_admitted :: "'w ExecutionRouter \<Rightarrow> ExecutionIntent \<Rightarrow> string \<Rightarrow> string \<times> 'w ExecutionBackend \<Rightarrow> bool" where
  "backend_admitted rt intent harness_id ib \<longleftrightarrow>
     \<not> disallowed (er_subscription_allows rt) (fst ib) \<and> be_supports (snd ib) intent harness_id
     \<and> set (ei_required_capabilities intent) \<subseteq> set (effective_capabilities rt (fst ib) (snd ib))"

definition priority_rank :: "string list \<Rightarrow> string \<Rightarrow> int" where
  "priority_rank priority i = (if i \<in> set priority then int (index_of i priority) else 99)"

text \<open>Moving the first entry of the default backend to the front.\<close>

definition default_first :: "string option \<Rightarrow> (string \<times> int \<times> string) list \<Rightarrow> (string \<times> int \<times> string) list" where
  "default_first preferred ranked =
     (case preferred of
        None \<Rightarrow> ranked
      | Some d \<Rightarrow> if d = [] then ranked
          else (case find (\<lambda>r. fst r = d) ranked of None \<Rightarrow> ranked | Some r \<Rightarrow> r # remove1 r ranked))"

definition rank_backends :: "'w ExecutionRouter \<Rightarrow> ExecutionIntent \<Rightarrow> string \<Rightarrow> (string \<times> int \<times> string) list" where
  "rank_backends rt intent harness_id =
     (let cfg = br_config (er_registry rt);
          ranked = map (\<lambda>(i, b). (i, backend_score rt intent i (effective_capabilities rt i b),
                                   ''matched capabilities via '' @ i))
                     (filter (backend_admitted rt intent harness_id) (enabled_backends (er_registry rt)))
      in default_first (bc_default_backend cfg)
           (sort_key (\<lambda>(i, score, _). (- score, priority_rank (bc_priority cfg) i)) ranked))"

section \<open>The run over the backends\<close>

record 'w run_state =
  rn_world :: 'w
  rn_registry :: registry_table
  rn_ticks :: nat
  rn_audits :: "BackendAuditEvent list"
  rn_attempts :: "ExecutionAttemptRecord list"
  rn_attempted :: "string list"
  rn_last_error :: string
  rn_last_failure :: ExecutionFailureClass

record run_env =
  re_clock :: "nat \<Rightarrow> time"
  re_fresh :: "nat \<Rightarrow> string"

definition audit ::
  "run_env \<Rightarrow> ExecutionIntent \<Rightarrow> string \<Rightarrow> string \<Rightarrow> string option \<Rightarrow> string option \<Rightarrow> pydict \<Rightarrow> 'w run_state \<Rightarrow> 'w run_state" where
  "audit V intent event_type backend_id harness reason payload s =
     s\<lparr>rn_audits := rn_audits s @
         [\<lparr>ba_event_type = event_type, ba_execution_id = ei_execution_id intent, ba_backend_id = Some backend_id,
           ba_harness_id = harness, ba_reason = reason, ba_payload = payload, ba_created_at = re_clock V (rn_ticks s)\<rparr>],
       rn_ticks := rn_ticks s + 1\<rparr>"

definition start_attempt :: "run_env \<Rightarrow> ExecutionIntent \<Rightarrow> ExecutionDecision \<Rightarrow> string \<Rightarrow> 'w run_state \<Rightarrow> ExecutionAttemptRecord" where
  "start_attempt V intent decision backend_id s =
     \<lparr>ar_attempt_id = ''execution_attempt_'' @ re_fresh V (rn_ticks s), ar_execution_id = ei_execution_id intent,
      ar_attempt_number = int (length (rn_attempts s)) + 1, ar_backend_id = backend_id,
      ar_harness_id = ed_selected_harness_id decision, ar_started_at = re_clock V (rn_ticks s),
      ar_completed_at = None, ar_failure_class = None, ar_fallback_reason = None,
      ar_backend_execution_ref = None, ar_usage = [], ar_evidence_refs = [], ar_audit_correlation_id = None,
      ar_status = ''started''\<rparr>"

definition complete_attempt ::
  "run_env \<Rightarrow> ExecutionAttemptRecord \<Rightarrow> string \<Rightarrow> string option \<Rightarrow> string option \<Rightarrow> pydict \<Rightarrow> string list
   \<Rightarrow> 'w run_state \<Rightarrow> 'w run_state" where
  "complete_attempt V attempt status failure reason usage refs s =
     s\<lparr>rn_attempts := rn_attempts s @
         [attempt\<lparr>ar_completed_at := Some (re_clock V (rn_ticks s)), ar_failure_class := failure,
                  ar_fallback_reason := reason, ar_backend_execution_ref := None, ar_usage := usage,
                  ar_evidence_refs := refs, ar_audit_correlation_id := None, ar_status := status\<rparr>],
       rn_ticks := rn_ticks s + 1\<rparr>"

definition note_failure :: "string \<Rightarrow> ExecutionFailureClass \<Rightarrow> 'w run_state \<Rightarrow> 'w run_state" where
  "note_failure message failure s = s\<lparr>rn_last_error := message, rn_last_failure := failure\<rparr>"

definition await_call :: "('w, 'a) backend_call \<Rightarrow> 'w run_state \<Rightarrow> 'a outcome \<times> 'w run_state" where
  "await_call f s =
     (case f (rn_world s, rn_registry s) of (r, w, g) \<Rightarrow> (r, s\<lparr>rn_world := w, rn_registry := g\<rparr>))"

text \<open>How a turn of the loop ends: a result is returned, the next backend is tried, the loop is left, or
  an exception or the cancellation of the task leaves the method.\<close>

datatype turn = Return_Result ExecutionResult | Next_Backend | Leave_Loop | Raise_Error py_error | Task_Cancelled

text \<open>Fall back when the failure class admits it.\<close>

definition fall_back ::
  "run_env \<Rightarrow> ExecutionIntent \<Rightarrow> string \<Rightarrow> ExecutionFailureClass \<Rightarrow> string \<Rightarrow> 'w run_state \<Rightarrow> turn \<times> 'w run_state" where
  "fall_back V intent backend_id failure reason s =
     (if may_fallback failure
      then (Next_Backend, audit V intent ''backend.fallback'' backend_id None (Some reason) [] s)
      else (Leave_Loop, s))"

definition result_fields ::
  "bool \<Rightarrow> ExecutionIntent \<Rightarrow> ExecutionDecision \<Rightarrow> string \<Rightarrow> ExecutionStatus \<Rightarrow> string \<Rightarrow> string list \<Rightarrow> 'w run_state
   \<Rightarrow> ExecutionResult" where
  "result_fields good intent decision backend_id status message attempted s =
     (execution_result good (ei_execution_id intent) backend_id (ed_selected_harness_id decision) status message)
       \<lparr>xr_attempted_backends := attempted, xr_decision := Some decision,
        xr_audits := map audit_as_dict (rn_audits s), xr_attempts := map attempt_as_dict (rn_attempts s)\<rparr>"

definition success_result :: "ExecutionIntent \<Rightarrow> ExecutionDecision \<Rightarrow> string \<Rightarrow> ExecutionResult \<Rightarrow> 'w run_state \<Rightarrow> ExecutionResult" where
  "success_result intent decision backend_id res s =
     (result_fields True intent decision backend_id ES_SUCCEEDED (xr_message res) (rn_attempted s) s)
       \<lparr>xr_output := xr_output res, xr_usage := xr_usage res, xr_evidence_refs := xr_evidence_refs res,
        xr_verification := xr_verification res\<rparr>"

text \<open>The body of the \<^verbatim>\<open>try\<close> statement: prepare, validate, execute.\<close>

definition try_backend ::
  "run_env \<Rightarrow> ExecutionIntent \<Rightarrow> ExecutionDecision \<Rightarrow> 'w ExecutionBackend \<Rightarrow> string \<Rightarrow> ExecutionAttemptRecord
   \<Rightarrow> 'w run_state \<Rightarrow> turn outcome \<times> 'w run_state" where
  "try_backend V intent decision b i attempt s0 =
     (let h = Some (ed_selected_harness_id decision); note = (\<lambda>ty. audit V intent ty i h None [])
      in case await_call (be_prepare b intent decision) (note ''backend.preparing'' s0) of
           (Raised e, s1) \<Rightarrow> (Raised e, s1)
         | (Cancelled, s1) \<Rightarrow> (Cancelled, s1)
         | (Returned prepared, s1) \<Rightarrow>
             (case await_call (be_validate b intent decision) s1 of
                (Raised e, s2) \<Rightarrow> (Raised e, s2)
              | (Cancelled, s2) \<Rightarrow> (Cancelled, s2)
              | (Returned _, s2) \<Rightarrow>
                  (case await_call (be_execute b intent decision prepared)
                          (note ''execution.started'' (note ''backend.ready'' s2)) of
                     (Raised e, s3) \<Rightarrow> (Raised e, s3)
                   | (Cancelled, s3) \<Rightarrow> (Cancelled, s3)
                   | (Returned res, s3) \<Rightarrow>
                       (let s4 = complete_attempt V attempt (if xr_ok res then ''succeeded'' else ''failed'')
                                   (xr_failure_class res) None (xr_usage res) (xr_evidence_refs res) s3;
                            s5 = audit V intent (if xr_ok res then ''backend.completed'' else ''backend.failed'')
                                   i h (Some (xr_message res)) [] s4
                        in if xr_ok res then
                             (let s6 = s5\<lparr>rn_registry := clear_execution (ei_execution_id intent) (rn_registry s5)\<rparr>
                              in (Returned (Return_Result (success_result intent decision i res s6)), s6))
                           else
                             (let f = parse_failure (xr_failure_class res);
                                  (t, s6) = fall_back V intent i f (xr_message res) (note_failure (xr_message res) f s5)
                              in (Returned t, s6))))))"

text \<open>The \<^verbatim>\<open>except Exception\<close> clause: every exception counts as a preparation failure.\<close>

definition on_exception ::
  "run_env \<Rightarrow> ExecutionIntent \<Rightarrow> string \<Rightarrow> ExecutionAttemptRecord \<Rightarrow> py_error \<Rightarrow> 'w run_state \<Rightarrow> turn \<times> 'w run_state" where
  "on_exception V intent i attempt e s =
     (let s1 = complete_attempt V attempt ''failed'' (Some (failure_value PREPARATION_FAILURE))
                 (Some (error_name e)) [] [] (note_failure (error_text e) PREPARATION_FAILURE s);
          s2 = audit V intent ''backend.failed'' i None (Some (error_name e))
                 [(''error'', PyStr (take 200 (error_text e)))] s1
      in fall_back V intent i PREPARATION_FAILURE (error_name e) s2)"

text \<open>\<^verbatim>\<open>try ... except ... finally\<close>: the clean-up runs on every path and its exceptions are swallowed.\<close>

definition guarded_backend ::
  "run_env \<Rightarrow> ExecutionIntent \<Rightarrow> ExecutionDecision \<Rightarrow> 'w ExecutionBackend \<Rightarrow> string \<Rightarrow> ExecutionAttemptRecord
   \<Rightarrow> 'w run_state \<Rightarrow> turn \<times> 'w run_state" where
  "guarded_backend V intent decision b i attempt s =
     (let (t, s1) = (case try_backend V intent decision b i attempt s of
                       (Returned t, s1) \<Rightarrow> (t, s1)
                     | (Raised e, s1) \<Rightarrow> on_exception V intent i attempt e s1
                     | (Cancelled, s1) \<Rightarrow> (Task_Cancelled, s1))
      in case await_call (be_cleanup b (ei_execution_id intent)) s1 of
           (Cancelled, s2) \<Rightarrow> (Task_Cancelled, s2)
         | (_, s2) \<Rightarrow> (t, s2))"

definition cancelled_result :: "ExecutionIntent \<Rightarrow> ExecutionDecision \<Rightarrow> string \<Rightarrow> 'w run_state \<Rightarrow> ExecutionResult" where
  "cancelled_result intent decision i s =
     (result_fields False intent decision i ES_CANCELLED ''execution cancelled''
        (if rn_attempted s \<noteq> [] then rn_attempted s else [i]) s)
       \<lparr>xr_failure_class := Some (failure_value EXECUTION_CANCELLED)\<rparr>"

definition unhealthy :: "BackendHealth \<Rightarrow> bool" where
  "unhealthy h \<longleftrightarrow> \<not> bh_healthy h \<or> bh_state h \<in> {''disabled'', ''unsupported''}"

text \<open>One turn of the loop.\<close>

definition backend_turn ::
  "run_env \<Rightarrow> 'w ExecutionRouter \<Rightarrow> ExecutionIntent \<Rightarrow> ExecutionDecision \<Rightarrow> string \<Rightarrow> 'w run_state \<Rightarrow> turn \<times> 'w run_state" where
  "backend_turn V rt intent decision i s =
     (let eid = ei_execution_id intent; harness = ed_selected_harness_id decision
      in if is_cancelled (rn_registry s) eid then
           (let s1 = audit V intent ''backend.cancelled'' i (Some harness) (Some ''cancelled'') [] s
            in (Return_Result (cancelled_result intent decision i s1), s1))
         else (case enforce_entitlements rt intent (Some i) of
           Inl e \<Rightarrow> (Raise_Error e, s)
         | Inr (Some (code, message)) \<Rightarrow>
             (let s1 = audit V intent ''execution.blocked'' i None (Some message) [] s
              in (Return_Result ((result_fields False intent decision i ES_BLOCKED message (rn_attempted s1) s1)
                    \<lparr>xr_failure_class := Some (failure_value (entitlement_failure code))\<rparr>), s1))
         | Inr None \<Rightarrow>
             (let attempt = start_attempt V intent decision i s;
                  s1 = s\<lparr>rn_attempted := rn_attempted s @ [i], rn_ticks := rn_ticks s + 1\<rparr>
              in case registry_get_backend (er_registry rt) i of
                   Inl e \<Rightarrow>
                     (Next_Backend,
                      note_failure (error_text e) BACKEND_UNAVAILABLE
                        (audit V intent ''backend.unavailable'' i None (Some (error_text e)) []
                          (complete_attempt V attempt ''unavailable'' (Some (failure_value BACKEND_UNAVAILABLE))
                             (Some (error_text e)) [] [] s1)))
                 | Inr b \<Rightarrow>
                     (let s2 = s1\<lparr>rn_registry := update_attempt eid (ar_attempt_id attempt) i (Some harness) (Some i) (rn_registry s1)\<rparr>
                      in case await_call (be_health b) s2 of
                           (Raised e, s3) \<Rightarrow> (Raise_Error e, s3)
                         | (Cancelled, s3) \<Rightarrow> (Task_Cancelled, s3)
                         | (Returned health, s3) \<Rightarrow>
                             if unhealthy health then
                               fall_back V intent i BACKEND_UNHEALTHY (bh_detail health)
                                 (note_failure (bh_detail health) BACKEND_UNHEALTHY
                                   (audit V intent ''backend.unavailable'' i None (Some (bh_detail health)) []
                                     (complete_attempt V attempt ''unavailable'' (Some (failure_value BACKEND_UNHEALTHY))
                                        (Some (bh_detail health)) [] [] s3)))
                             else if \<not> be_supports b intent harness then
                               (Next_Backend,
                                note_failure ''capability mismatch'' CAPABILITY_CHANGED
                                  (audit V intent ''backend.failed'' i None (Some ''capability mismatch'') []
                                    (complete_attempt V attempt ''failed'' (Some (failure_value CAPABILITY_CHANGED))
                                       (Some ''capability mismatch'') [] [] s3)))
                             else guarded_backend V intent decision b i attempt s3))))"

definition blocking_failures :: "ExecutionFailureClass list" where
  "blocking_failures =
     [PROVIDER_RESTORE_FAILURE, POLICY_DENIED, WORKSPACE_VIOLATION, BACKEND_UNAVAILABLE, BACKEND_UNHEALTHY,
      ENTITLEMENT_REQUIRED, BACKEND_NOT_ENTITLED, HARNESS_NOT_ENTITLED, QUOTA_EXHAUSTED]"

text \<open>After the loop: every backend failed or the last failure forbids another one.\<close>

definition exhausted :: "ExecutionIntent \<Rightarrow> ExecutionDecision \<Rightarrow> 'w run_state \<Rightarrow> ExecutionResult \<times> 'w run_state" where
  "exhausted intent decision s =
     (let s1 = s\<lparr>rn_registry := clear_execution (ei_execution_id intent) (rn_registry s)\<rparr>;
          status = (if rn_last_failure s1 \<in> set blocking_failures then ES_BLOCKED else ES_FAILED)
      in ((result_fields False intent decision (ed_selected_backend_id decision)
             (if rn_attempted s1 \<noteq> [] then status else ES_BLOCKED)
             (''all backends failed or unavailable: '' @ rn_last_error s1) (rn_attempted s1) s1)
            \<lparr>xr_failure_class := Some (failure_value (rn_last_failure s1))\<rparr>, s1))"

fun backend_loop ::
  "run_env \<Rightarrow> 'w ExecutionRouter \<Rightarrow> ExecutionIntent \<Rightarrow> ExecutionDecision \<Rightarrow> string list \<Rightarrow> 'w run_state
   \<Rightarrow> ExecutionResult outcome \<times> 'w run_state" where
  "backend_loop V rt intent decision [] s =
     (let (r, s1) = exhausted intent decision s in (Returned r, s1))"
| "backend_loop V rt intent decision (i # is) s =
     (case backend_turn V rt intent decision i s of
        (Return_Result r, s1) \<Rightarrow> (Returned r, s1)
      | (Next_Backend, s1) \<Rightarrow> backend_loop V rt intent decision is s1
      | (Leave_Loop, s1) \<Rightarrow> (let (r, s2) = exhausted intent decision s1 in (Returned r, s2))
      | (Raise_Error e, s1) \<Rightarrow> (Raised e, s1)
      | (Task_Cancelled, s1) \<Rightarrow> (Cancelled, s1))"

definition execute_with_fallback ::
  "run_env \<Rightarrow> 'w ExecutionRouter \<Rightarrow> ExecutionIntent \<Rightarrow> ExecutionDecision \<Rightarrow> 'w \<times> registry_table \<Rightarrow> nat
   \<Rightarrow> ExecutionResult outcome \<times> 'w run_state" where
  "execute_with_fallback V rt intent decision wg n =
     (let eid = ei_execution_id intent; i = ed_selected_backend_id decision; h = ed_selected_harness_id decision;
          s0 = audit V intent ''backend.selected'' i (Some h) (Some (ed_reason decision)) []
                 \<lparr>rn_world = fst wg, rn_registry = snd wg, rn_ticks = n, rn_audits = [], rn_attempts = [],
                  rn_attempted = [], rn_last_error = ''no backend attempted'', rn_last_failure = UNKNOWN_FAILURE\<rparr>;
          s1 = s0\<lparr>rn_registry := register_execution (re_fresh V (rn_ticks s0)) (re_clock V (rn_ticks s0)) eid i
                     (Some h) None None (rn_registry s0), rn_ticks := rn_ticks s0 + 1\<rparr>
      in backend_loop V rt intent decision (i # ed_fallback_order decision) s1)"

section \<open>One turn\<close>

named_theorems run_simps \<open>effect of the bookkeeping on the run\<close>

lemma audit_simps [run_simps]:
  "rn_world (audit V it ty i h r p s) = rn_world s" "rn_registry (audit V it ty i h r p s) = rn_registry s"
  "rn_attempts (audit V it ty i h r p s) = rn_attempts s" "rn_attempted (audit V it ty i h r p s) = rn_attempted s"
  "rn_last_failure (audit V it ty i h r p s) = rn_last_failure s"
  by (simp_all add: audit_def)

lemma complete_attempt_simps [run_simps]:
  "rn_world (complete_attempt V a st f r u e s) = rn_world s"
  "rn_registry (complete_attempt V a st f r u e s) = rn_registry s"
  "rn_attempted (complete_attempt V a st f r u e s) = rn_attempted s"
  "rn_attempts (complete_attempt V a st f r u e s) = rn_attempts s @ [a\<lparr>ar_completed_at := Some (re_clock V (rn_ticks s)),
     ar_failure_class := f, ar_fallback_reason := r, ar_backend_execution_ref := None, ar_usage := u,
     ar_evidence_refs := e, ar_audit_correlation_id := None, ar_status := st\<rparr>]"
  by (simp_all add: complete_attempt_def)

lemma note_failure_simps [run_simps]:
  "rn_world (note_failure m f s) = rn_world s" "rn_registry (note_failure m f s) = rn_registry s"
  "rn_attempts (note_failure m f s) = rn_attempts s" "rn_attempted (note_failure m f s) = rn_attempted s"
  "rn_last_failure (note_failure m f s) = f"
  by (simp_all add: note_failure_def)

lemma await_frame:
  assumes "await_call f s = (r, s1)"
  shows "rn_attempts s1 = rn_attempts s" and "rn_attempted s1 = rn_attempted s"
  using assms by (auto simp: await_call_def split: prod.splits)

lemma await_frames:
  "await_call f s = (r, s1) \<Longrightarrow> rn_attempts s1 = rn_attempts s \<and> rn_attempted s1 = rn_attempted s"
  by (simp add: await_frame)

lemma parse_failure_value: "parse_failure (Some (failure_value f)) = f"
proof -
  obtain g where "find (\<lambda>g. failure_value g = failure_value f) all_failures = Some g"
    using all_failures_complete [of f] by (cases "find (\<lambda>g. failure_value g = failure_value f) all_failures") (auto simp: find_None_iff)
  moreover from this have "g = f"
    by (auto simp: find_Some_iff dest: failure_value_inj)
  moreover have "failure_value f \<noteq> []"
    by (cases f) simp_all
  ultimately show ?thesis by (simp add: parse_failure_def)
qed

lemma fall_back_cases:
  assumes "fall_back V intent i f reason s = (t, s1)"
  shows "t = (if may_fallback f then Next_Backend else Leave_Loop) \<and> rn_attempts s1 = rn_attempts s
    \<and> rn_attempted s1 = rn_attempted s \<and> rn_world s1 = rn_world s"
  using assms by (auto simp: fall_back_def run_simps split: if_splits)

text \<open>A failed attempt record after which the chain may go on, or may not.\<close>

definition failed_attempt :: "string \<Rightarrow> bool \<Rightarrow> ExecutionAttemptRecord \<Rightarrow> bool" where
  "failed_attempt i onward a \<longleftrightarrow> ar_backend_id a = i \<and> ar_status a \<noteq> ''succeeded''
     \<and> may_fallback (parse_failure (ar_failure_class a)) = onward"

lemma eligible_failures [simp]:
  "may_fallback PREPARATION_FAILURE" "may_fallback BACKEND_UNAVAILABLE" "may_fallback BACKEND_UNHEALTHY"
  "may_fallback CAPABILITY_CHANGED"
  by (simp_all add: may_fallback_iff FALLBACK_ELIGIBLE_def)

text \<open>What a turn on backend \<open>i\<close> leaves behind.\<close>

definition turn_effect :: "string \<Rightarrow> 'w run_state \<Rightarrow> turn \<Rightarrow> 'w run_state \<Rightarrow> bool" where
  "turn_effect i s t s1 \<longleftrightarrow>
     (case t of
        Next_Backend \<Rightarrow> (\<exists>a. failed_attempt i True a \<and> rn_attempts s1 = rn_attempts s @ [a])
                          \<and> rn_attempted s1 = rn_attempted s @ [i]
      | Leave_Loop \<Rightarrow> (\<exists>a. failed_attempt i False a \<and> rn_attempts s1 = rn_attempts s @ [a])
                        \<and> rn_attempted s1 = rn_attempted s @ [i]
      | Return_Result r \<Rightarrow> xr_attempts r = map attempt_as_dict (rn_attempts s1) \<and>
         (if xr_ok r then (\<exists>a. ar_backend_id a = i \<and> ar_status a = ''succeeded'' \<and> rn_attempts s1 = rn_attempts s @ [a])
                          \<and> rn_attempted s1 = rn_attempted s @ [i]
          else rn_attempts s1 = rn_attempts s \<and> rn_attempted s1 = rn_attempted s)
      | _ \<Rightarrow> True)"

lemma try_backend_effect:
  assumes "try_backend V intent decision b i attempt s = (Returned t, s1)" and "ar_backend_id attempt = i"
    and "rn_attempts s = rn_attempts s0" and "rn_attempted s = rn_attempted s0 @ [i]"
  shows "turn_effect i s0 t s1"
proof -
  let ?h = "Some (ed_selected_harness_id decision)"
  obtain p s2 where p: "await_call (be_prepare b intent decision) (audit V intent ''backend.preparing'' i ?h None [] s) = (Returned p, s2)"
    using assms(1) by (auto simp: try_backend_def Let_def split: prod.splits outcome.splits)
  then obtain u s3 where v: "await_call (be_validate b intent decision) s2 = (Returned u, s3)"
    using assms(1) by (auto simp: try_backend_def Let_def split: prod.splits outcome.splits)
  with p obtain res s4 where x: "await_call (be_execute b intent decision p)
      (audit V intent ''execution.started'' i ?h None [] (audit V intent ''backend.ready'' i ?h None [] s3)) = (Returned res, s4)"
    using assms(1) by (auto simp: try_backend_def Let_def split: prod.splits outcome.splits)
  have fr: "rn_attempts s4 = rn_attempts s0" "rn_attempted s4 = rn_attempted s0 @ [i]"
    using await_frame [OF p] await_frame [OF v] await_frame [OF x] assms(3,4) by (simp_all add: run_simps)
  show ?thesis
  proof (cases "xr_ok res")
    case True
    then show ?thesis
      using assms(1,2) p v x fr
      by (auto simp: try_backend_def Let_def run_simps turn_effect_def success_result_def result_fields_def execution_result_def)
  next
    case False
    let ?f = "parse_failure (xr_failure_class res)"
    define s6 where "s6 = note_failure (xr_message res) ?f (audit V intent ''backend.failed'' i ?h (Some (xr_message res)) []
        (complete_attempt V attempt ''failed'' (xr_failure_class res) None (xr_usage res) (xr_evidence_refs res) s4))"
    have fb: "fall_back V intent i ?f (xr_message res) s6 = (t, s1)"
      using assms(1) p v x False by (auto simp: try_backend_def Let_def s6_def case_prod_beta)
    have "\<exists>a. failed_attempt i (may_fallback ?f) a \<and> rn_attempts s6 = rn_attempts s0 @ [a]"
      "rn_attempted s6 = rn_attempted s0 @ [i]"
      using fr assms(2) by (auto simp: s6_def run_simps failed_attempt_def)
    then show ?thesis
      using fall_back_cases [OF fb] by (cases "may_fallback ?f") (auto simp: turn_effect_def)
  qed
qed

lemma failed_attemptI:
  assumes "ar_backend_id a = i" and "ar_status a \<noteq> ''succeeded''" and "ar_failure_class a = Some (failure_value f)"
  shows "failed_attempt i (may_fallback f) a"
  using assms by (simp add: failed_attempt_def parse_failure_value del: failure_value.simps)

lemma on_exception_effect:
  assumes "on_exception V intent i attempt e s = (t, s1)" and "ar_backend_id attempt = i"
    and "rn_attempts s = rn_attempts s0" and "rn_attempted s = rn_attempted s0 @ [i]"
  shows "t = Next_Backend \<and> turn_effect i s0 t s1"
proof -
  obtain a where a: "rn_attempts s1 = rn_attempts s0 @ [a]" "ar_backend_id a = i" "ar_status a \<noteq> ''succeeded''"
      "ar_failure_class a = Some (failure_value PREPARATION_FAILURE)" and t: "t = Next_Backend"
    and d: "rn_attempted s1 = rn_attempted s0 @ [i]"
    using fall_back_cases [OF assms(1) [unfolded on_exception_def Let_def]] assms(2-4)
    by (auto simp: run_simps)
  show ?thesis
    using failed_attemptI [OF a(2,3,4)] a(1) t d by (auto simp: turn_effect_def)
qed

lemma try_backend_frame:
  assumes "try_backend V intent decision b i attempt s = (Raised x, s1)"
  shows "rn_attempts s1 = rn_attempts s \<and> rn_attempted s1 = rn_attempted s"
  using assms by (auto simp: try_backend_def Let_def run_simps dest!: await_frames split: prod.splits outcome.splits if_splits)

text \<open>The clean-up keeps the attempts; at most it cancels the task.\<close>

lemma guarded_cleanup:
  assumes "guarded_backend V intent decision b i attempt s = (t, s1)"
    and "(case try_backend V intent decision b i attempt s of
            (Returned t, s1) \<Rightarrow> (t, s1)
          | (Raised e, s1) \<Rightarrow> on_exception V intent i attempt e s1
          | (Cancelled, s1) \<Rightarrow> (Task_Cancelled, s1)) = (t2, s2)"
  shows "(t = Task_Cancelled \<or> t = t2) \<and> rn_attempts s1 = rn_attempts s2 \<and> rn_attempted s1 = rn_attempted s2"
  using assms(1) unfolding guarded_backend_def Let_def assms(2)
  by (auto dest!: await_frames split: prod.splits outcome.splits)

lemma turn_effect_frame:
  "turn_effect i s t2 s2 \<Longrightarrow> t = Task_Cancelled \<or> t = t2 \<Longrightarrow> rn_attempts s1 = rn_attempts s2 \<Longrightarrow>
     rn_attempted s1 = rn_attempted s2 \<Longrightarrow> turn_effect i s t s1"
  by (elim disjE) (simp_all add: turn_effect_def split: turn.splits)

lemma guarded_backend_effect:
  assumes "guarded_backend V intent decision b i attempt s = (t, s1)" and "ar_backend_id attempt = i"
    and "rn_attempts s = rn_attempts s0" and "rn_attempted s = rn_attempted s0 @ [i]"
  shows "turn_effect i s0 t s1"
proof -
  obtain r s2 where g: "try_backend V intent decision b i attempt s = (r, s2)" by (metis surj_pair)
  show ?thesis
  proof (cases r)
    case (Returned t2)
    show ?thesis
      using turn_effect_frame [OF try_backend_effect [OF g [unfolded Returned] assms(2-4)]]
        guarded_cleanup [OF assms(1), of t2 s2] g Returned by simp
  next
    case (Raised x)
    obtain q s3 where e: "on_exception V intent i attempt x s2 = (q, s3)" by (metis surj_pair)
    have "turn_effect i s0 q s3"
      using on_exception_effect [OF e assms(2)] try_backend_frame [OF g [unfolded Raised]] assms(3,4) by metis
    from turn_effect_frame [OF this] show ?thesis
      using guarded_cleanup [OF assms(1), of q s3] g Raised e by simp
  next
    case Cancelled
    then show ?thesis
      using guarded_cleanup [OF assms(1), of Task_Cancelled s2] g by (simp add: turn_effect_def)
  qed
qed

lemma skipped_turn:
  assumes "rn_attempts s1 = rn_attempts s @ [a]" and "rn_attempted s1 = rn_attempted s @ [i]" and "ar_backend_id a = i"
    and "ar_status a \<noteq> ''succeeded''" and "ar_failure_class a = Some (failure_value f)" and "may_fallback f"
  shows "turn_effect i s Next_Backend s1"
  using failed_attemptI [OF assms(3-5)] assms(1,2,6) by (auto simp: turn_effect_def)

lemma backend_turn_effect:
  assumes "backend_turn V rt intent decision i s = (t, s1)"
  shows "turn_effect i s t s1"
proof (cases "is_cancelled (rn_registry s) (ei_execution_id intent)")
  case True
  then show ?thesis
    using assms by (auto simp: backend_turn_def Let_def turn_effect_def cancelled_result_def result_fields_def
        execution_result_def run_simps)
next
  case live: False
  show ?thesis
  proof (cases "enforce_entitlements rt intent (Some i)")
    case (Inl e)
    then show ?thesis using assms live by (auto simp: backend_turn_def Let_def turn_effect_def)
  next
    case (Inr blocked)
    let ?a = "start_attempt V intent decision i s"
    let ?s1 = "s\<lparr>rn_attempted := rn_attempted s @ [i], rn_ticks := rn_ticks s + 1\<rparr>"
    have a: "ar_backend_id ?a = i" by (simp add: start_attempt_def)
    show ?thesis
    proof (cases blocked)
      case (Some cm)
      then show ?thesis
        using assms live Inr by (cases cm) (auto simp: backend_turn_def Let_def turn_effect_def result_fields_def
            execution_result_def run_simps)
    next
      case None
      show ?thesis
      proof (cases "registry_get_backend (er_registry rt) i")
        case (Inl e)
        then show ?thesis
          using assms live Inr None a
          by (auto simp: backend_turn_def Let_def run_simps simp del: failure_value.simps
              intro!: skipped_turn [where f = BACKEND_UNAVAILABLE])
      next
        case b: (Inr b)
        let ?s2 = "?s1\<lparr>rn_registry := update_attempt (ei_execution_id intent) (ar_attempt_id ?a) i
            (Some (ed_selected_harness_id decision)) (Some i) (rn_registry ?s1)\<rparr>"
        obtain r s3 where h: "await_call (be_health b) ?s2 = (r, s3)" by (metis surj_pair)
        have fr: "rn_attempts s3 = rn_attempts s" "rn_attempted s3 = rn_attempted s @ [i]"
          using await_frame [OF h] by simp_all
        show ?thesis
        proof (cases r)
          case (Returned health)
          consider (unhealthy) "unhealthy health" | (unsupported) "\<not> unhealthy health" "\<not> be_supports b intent (ed_selected_harness_id decision)"
            | (run) "\<not> unhealthy health" "be_supports b intent (ed_selected_harness_id decision)" by blast
          then show ?thesis
          proof cases
            case unhealthy
            then show ?thesis
              using assms live Inr None b h Returned fr a
              by (auto simp: backend_turn_def Let_def run_simps simp del: failure_value.simps
                  dest!: fall_back_cases intro!: skipped_turn [where f = BACKEND_UNHEALTHY])
          next
            case unsupported
            then show ?thesis
              using assms live Inr None b h Returned fr a
              by (auto simp: backend_turn_def Let_def run_simps simp del: failure_value.simps
                  intro!: skipped_turn [where f = CAPABILITY_CHANGED])
          next
            case run
            then have "guarded_backend V intent decision b i ?a s3 = (t, s1)"
              using assms live Inr None b h Returned by (simp add: backend_turn_def Let_def)
            from guarded_backend_effect [OF this a fr] show ?thesis .
          qed
        qed (use assms live Inr None b h in \<open>auto simp: backend_turn_def Let_def turn_effect_def\<close>)
      qed
    qed
  qed
qed

text \<open>A result that is not a success comes from a cancellation or an entitlement check.\<close>

lemma guarded_result_ok: "guarded_backend V intent decision b i attempt s = (Return_Result r, s1) \<Longrightarrow> xr_ok r"
  by (auto simp: guarded_backend_def try_backend_def on_exception_def fall_back_def Let_def success_result_def
      result_fields_def execution_result_def split: prod.splits outcome.splits if_splits)

lemma refused_turn:
  assumes "backend_turn V rt intent decision i s = (Return_Result r, s1)" and "\<not> xr_ok r"
  shows "is_cancelled (rn_registry s1) (ei_execution_id intent) \<or> (\<exists>cm. enforce_entitlements rt intent (Some i) = Inr (Some cm))"
  using assms
  by (auto simp: backend_turn_def Let_def fall_back_def run_simps dest!: guarded_result_ok
      split: if_splits sum.splits option.splits prod.splits outcome.splits)

text \<open>Why a run over the remaining backends \<open>is\<close> ended, with \<open>news\<close> the attempts it made.\<close>

definition run_ended ::
  "'w ExecutionRouter \<Rightarrow> ExecutionIntent \<Rightarrow> string list \<Rightarrow> ExecutionAttemptRecord list \<Rightarrow> ExecutionResult \<Rightarrow> registry_table \<Rightarrow> bool" where
  "run_ended rt intent is news r g \<longleftrightarrow>
     (if xr_ok r then news \<noteq> [] \<and> ar_status (last news) = ''succeeded''
      else (\<forall>a \<in> set news. ar_status a \<noteq> ''succeeded'') \<and>
        (map ar_backend_id news = is
         \<or> news \<noteq> [] \<and> \<not> may_fallback (parse_failure (ar_failure_class (last news)))
         \<or> (\<exists>i rest. is = map ar_backend_id news @ i # rest
              \<and> (is_cancelled g (ei_execution_id intent) \<or> (\<exists>cm. enforce_entitlements rt intent (Some i) = Inr (Some cm))))))"

definition onward_chain :: "ExecutionAttemptRecord list \<Rightarrow> bool" where
  "onward_chain news \<longleftrightarrow> (\<forall>a \<in> set (butlast news). ar_status a \<noteq> ''succeeded'' \<and> may_fallback (parse_failure (ar_failure_class a)))"

lemma exhausted_facts:
  assumes "exhausted intent decision s = (r, s1)"
  shows "rn_attempts s1 = rn_attempts s" and "rn_attempted s1 = rn_attempted s" and "\<not> xr_ok r"
    and "xr_attempts r = map attempt_as_dict (rn_attempts s1)"
  using assms by (auto simp: exhausted_def Let_def result_fields_def execution_result_def)

lemma backend_loop_effect:
  assumes "backend_loop V rt intent decision is s = (Returned r, s1)"
  shows "\<exists>news. rn_attempts s1 = rn_attempts s @ news \<and> rn_attempted s1 = rn_attempted s @ map ar_backend_id news
    \<and> prefix (map ar_backend_id news) is \<and> onward_chain news \<and> run_ended rt intent is news r (rn_registry s1)
    \<and> xr_attempts r = map attempt_as_dict (rn_attempts s1)"
  using assms
proof (induction "is" arbitrary: s)
  case Nil
  then show ?case
    by (intro exI [of _ "[]"]) (auto simp: run_ended_def onward_chain_def split: prod.splits dest: exhausted_facts)
next
  case (Cons i js)
  obtain t s2 where t: "backend_turn V rt intent decision i s = (t, s2)" by (metis surj_pair)
  note eff = backend_turn_effect [OF t]
  show ?case
  proof (cases t)
    case (Return_Result q)
    with Cons.prems t have e: "q = r" "s2 = s1" by auto
    show ?thesis
    proof (cases "xr_ok r")
      case True
      then obtain a where "ar_backend_id a = i" "ar_status a = ''succeeded''" "rn_attempts s1 = rn_attempts s @ [a]"
          "rn_attempted s1 = rn_attempted s @ [i]" "xr_attempts r = map attempt_as_dict (rn_attempts s1)"
        using eff Return_Result e by (auto simp: turn_effect_def)
      with True show ?thesis
        by (intro exI [of _ "[a]"]) (simp add: run_ended_def onward_chain_def)
    next
      case False
      with t Return_Result e have "is_cancelled (rn_registry s1) (ei_execution_id intent)
          \<or> (\<exists>cm. enforce_entitlements rt intent (Some i) = Inr (Some cm))"
        by (intro refused_turn) simp_all
      with False eff Return_Result e show ?thesis
        by (intro exI [of _ "[]"]) (auto simp: turn_effect_def run_ended_def onward_chain_def)
    qed
  next
    case Next_Backend
    with Cons.prems t have "backend_loop V rt intent decision js s2 = (Returned r, s1)" by simp
    from Cons.IH [OF this] obtain news where n: "rn_attempts s1 = rn_attempts s2 @ news"
        "rn_attempted s1 = rn_attempted s2 @ map ar_backend_id news" "prefix (map ar_backend_id news) js" "onward_chain news"
        "run_ended rt intent js news r (rn_registry s1)" "xr_attempts r = map attempt_as_dict (rn_attempts s1)" by blast
    obtain a where a: "failed_attempt i True a" "rn_attempts s2 = rn_attempts s @ [a]" "rn_attempted s2 = rn_attempted s @ [i]"
      using eff Next_Backend by (auto simp: turn_effect_def)
    have "onward_chain (a # news)"
      using n(4) a(1) by (cases news) (auto simp: onward_chain_def failed_attempt_def)
    moreover have "run_ended rt intent (i # js) (a # news) r (rn_registry s1)"
      using n(5) a(1) by (auto simp: run_ended_def failed_attempt_def)
    ultimately show ?thesis
      using n a by (intro exI [of _ "a # news"]) (simp add: failed_attempt_def)
  next
    case Leave_Loop
    with Cons.prems t have x: "exhausted intent decision s2 = (r, s1)" by (auto split: prod.splits)
    obtain a where "failed_attempt i False a" "rn_attempts s2 = rn_attempts s @ [a]" "rn_attempted s2 = rn_attempted s @ [i]"
      using eff Leave_Loop by (auto simp: turn_effect_def)
    with exhausted_facts [OF x] show ?thesis
      by (intro exI [of _ "[a]"]) (auto simp: failed_attempt_def onward_chain_def run_ended_def)
  qed (use Cons.prems t in auto)
qed

text \<open>C10: The fallback discipline. Whatever the backends answer, the run tries a prefix of the selected
  backend and its fallback order, one attempt each and in that order; every attempt but the last failed
  with a class that admits another backend; and the run succeeds exactly when its last attempt did.
  A run without success has exhausted the order, met a failure that forbids going on, or was cancelled
  or refused before the next backend.\<close>

theorem fallback_discipline:
  assumes "execute_with_fallback V rt intent decision wg n = (Returned r, s)"
  shows "map ar_backend_id (rn_attempts s) = rn_attempted s
    \<and> prefix (rn_attempted s) (ed_selected_backend_id decision # ed_fallback_order decision)
    \<and> onward_chain (rn_attempts s) \<and> xr_attempts r = map attempt_as_dict (rn_attempts s)
    \<and> run_ended rt intent (ed_selected_backend_id decision # ed_fallback_order decision) (rn_attempts s) r (rn_registry s)"
  using backend_loop_effect [OF assms [unfolded execute_with_fallback_def Let_def]]
  by (auto simp: run_simps)

text \<open>An exception of \<^verbatim>\<open>prepare\<close>, \<^verbatim>\<open>validate\<close> or \<^verbatim>\<open>execute\<close> never stops the chain: whatever was raised, the
  attempt is recorded as a preparation failure and the next backend is tried, unless the clean-up
  itself is cancelled.\<close>

theorem raised_failure_falls_back:
  assumes "try_backend V intent decision b i attempt s = (Raised e, s1)"
    and "fst (await_call (be_cleanup b (ei_execution_id intent)) (snd (on_exception V intent i attempt e s1))) \<noteq> Cancelled"
  shows "\<exists>s2. guarded_backend V intent decision b i attempt s = (Next_Backend, s2)
    \<and> rn_attempts s2 \<noteq> rn_attempts s \<and> ar_failure_class (last (rn_attempts s2)) = Some (failure_value PREPARATION_FAILURE)"
proof -
  obtain q s2 where x: "on_exception V intent i attempt e s1 = (q, s2)" by (metis surj_pair)
  obtain u s3 where c: "await_call (be_cleanup b (ei_execution_id intent)) s2 = (u, s3)" by (metis surj_pair)
  have u: "u \<noteq> Cancelled" using assms(2) x c by simp
  have "q = Next_Backend" and "\<exists>a. rn_attempts s2 = rn_attempts s1 @ [a] \<and> ar_failure_class a = Some (failure_value PREPARATION_FAILURE)"
    using fall_back_cases [OF x [unfolded on_exception_def Let_def]] by (simp_all add: run_simps)
  moreover have "guarded_backend V intent decision b i attempt s = (q, s3)"
    using assms(1) x c u by (cases u) (simp_all add: guarded_backend_def Let_def)
  ultimately show ?thesis
    using await_frame [OF c] try_backend_frame [OF assms(1)] by auto
qed

text \<open>C30: A cancelled execution reaches no further backend: at the next turn the run ends as cancelled, with
  the backends and the registry as they were.\<close>

theorem cancelled_run_stops:
  assumes "is_cancelled (rn_registry s) (ei_execution_id intent)"
  shows "\<exists>r s1. backend_loop V rt intent decision (i # is) s = (Returned r, s1)
    \<and> \<not> xr_ok r \<and> xr_status r = ES_CANCELLED \<and> xr_attempts r = map attempt_as_dict (rn_attempts s)
    \<and> rn_world s1 = rn_world s \<and> rn_registry s1 = rn_registry s"
  using assms by (simp add: backend_turn_def Let_def cancelled_result_def result_fields_def execution_result_def run_simps)

section \<open>The ranking\<close>

lemma find_mem: "find P xs = Some x \<Longrightarrow> x \<in> set xs \<and> P x"
  by (auto simp: find_Some_iff)

lemma set_front: "x \<in> set xs \<Longrightarrow> set (x # remove1 x xs) = set xs"
  by (induction xs) auto

lemma default_first_set: "set (default_first d xs) = set xs"
  by (auto simp: default_first_def set_front dest!: find_mem simp del: set_simps split: option.splits)

lemma sorted_wrt_front:
  assumes "sorted_wrt (\<lambda>a b. k a \<le> k b) xs"
  shows "sorted_wrt (\<lambda>a b. d = Some (fst a) \<or> k a \<le> k b) (default_first d xs)"
proof -
  have weak: "sorted_wrt (\<lambda>a b. d = Some (fst a) \<or> k a \<le> k b) ys" if "sorted_wrt (\<lambda>a b. k a \<le> k b) ys" for ys
    using that by (rule sorted_wrt_mono_rel [rotated]) blast
  have "sorted_wrt (\<lambda>a b. k a \<le> k b) (remove1 x xs)" for x
    using assms by (induction xs) (auto dest: notin_set_remove1 [rotated] set_remove1_subset [THEN subsetD])
  then show ?thesis
    using weak assms by (auto simp: default_first_def split: option.splits dest!: find_mem)
qed

definition ranked_entry :: "'w ExecutionRouter \<Rightarrow> ExecutionIntent \<Rightarrow> string \<times> 'w ExecutionBackend \<Rightarrow> string \<times> int \<times> string" where
  "ranked_entry rt intent ib =
     (fst ib, backend_score rt intent (fst ib) (effective_capabilities rt (fst ib) (snd ib)), ''matched capabilities via '' @ fst ib)"

text \<open>The ranking lists exactly the enabled backends that are not excluded by the subscription, support
  the harness and have the required capabilities, with their scores; the default backend comes first
  when it is among them, and the others follow by decreasing score, ties by priority.\<close>

theorem ranking_sound:
  "set (rank_backends rt intent h) =
     ranked_entry rt intent ` {ib \<in> set (enabled_backends (er_registry rt)). backend_admitted rt intent h ib}
   \<and> sorted_wrt (\<lambda>a b. bc_default_backend (br_config (er_registry rt)) = Some (fst a)
       \<or> (- fst (snd a), priority_rank (bc_priority (br_config (er_registry rt))) (fst a))
          \<le> (- fst (snd b), priority_rank (bc_priority (br_config (er_registry rt))) (fst b))) (rank_backends rt intent h)"
proof -
  let ?k = "\<lambda>a :: string \<times> int \<times> string. (- fst (snd a), priority_rank (bc_priority (br_config (er_registry rt))) (fst a))"
  define xs where "xs = sort_key ?k (map (ranked_entry rt intent)
      (filter (backend_admitted rt intent h) (enabled_backends (er_registry rt))))"
  have k: "(\<lambda>(i, score, _). (- score, priority_rank (bc_priority (br_config (er_registry rt))) i)) = ?k"
    by auto
  have e: "(\<lambda>(i, b). (i, backend_score rt intent i (effective_capabilities rt i b), ''matched capabilities via '' @ i))
      = ranked_entry rt intent"
    by (auto simp: ranked_entry_def)
  have "rank_backends rt intent h = default_first (bc_default_backend (br_config (er_registry rt))) xs"
    by (simp only: rank_backends_def Let_def xs_def k e)
  moreover have "sorted_wrt (\<lambda>a b. ?k a \<le> ?k b) xs"
    using sorted_sort_key [of ?k] unfolding xs_def sorted_map by blast
  ultimately show ?thesis
    using sorted_wrt_front [of ?k xs] by (simp add: default_first_set xs_def)
qed

section \<open>Sample runs\<close>

text \<open>Two backends: one whose execution ends with a given outcome, and one that succeeds. The state
  of the backends is the number of their executions.\<close>

definition sample_intent :: ExecutionIntent where
  "sample_intent =
     \<lparr>ei_mission_id = ''m1'', ei_execution_id = ''e1'', ei_prompt = ''p'', ei_workspace_path = ''/w'',
      ei_required_capabilities = [], ei_preferred_model = None, ei_preferred_harness = None,
      ei_requires_provider_route = False, ei_requires_ephemeral_workspace = False,
      ei_estimated_runtime_seconds = None, ei_estimated_token_usage = None, ei_cost_preference = ''balanced'',
      ei_project_id = None, ei_organisation_id = None, ei_workspace_ref = None, ei_execution_authorisation_id = None,
      ei_timeout_seconds = 60, ei_locality_preference = ''auto'', ei_organisation_policy = [],
      ei_subscription_constraints = [], ei_routing_preferences = [], ei_metadata = [], ei_correlation_id = None,
      ei_task_class = None, ei_required_semantic_capabilities = [], ei_task_analysis = []\<rparr>"

definition sample_decision :: ExecutionDecision where
  "sample_decision =
     \<lparr>ed_execution_id = ''e1'', ed_selected_backend_id = ''fireconnect'', ed_selected_harness_id = ''codex'',
      ed_reason = ''r'', ed_fallback_order = [''local'', ''joymesh''], ed_provider_routing_required = False,
      ed_retry_policy = [], ed_registry_revision = ''v1'', ed_decided_at = 0, ed_selected_connector_id = None,
      ed_selected_model_id = None\<rparr>"

definition sample_backend :: "ExecutionResult outcome \<Rightarrow> nat ExecutionBackend" where
  "sample_backend out =
     \<lparr>be_capabilities = [], be_supports = (\<lambda>_ _. True),
      be_health = Pair (Returned \<lparr>bh_healthy = True, bh_backend_id = ''b'', bh_detail = [], bh_capabilities = [], bh_state = ''ready''\<rparr>),
      be_prepare = (\<lambda>_ _. Pair (Returned [])), be_validate = (\<lambda>_ _. Pair (Returned ())),
      be_execute = (\<lambda>_ _ _ (w, g). (out, w + 1, g)), be_cleanup = (\<lambda>_. Pair (Returned ()))\<rparr>"

definition sample_success :: ExecutionResult where
  "sample_success = execution_result True ''e1'' ''local'' ''codex'' ES_SUCCEEDED ''done''"

definition sample_router :: "ExecutionResult outcome \<Rightarrow> nat ExecutionRouter" where
  "sample_router out =
     \<lparr>er_registry = \<lparr>br_config = \<lparr>bc_enabled_backends = [''fireconnect'', ''local''], bc_priority = [''local''],
          bc_default_backend = None, bc_fallback_order = [], bc_capability_overrides = [], bc_registry_revision = ''v1'',
          bc_allow_stub_backends = False\<rparr>,
        br_backends = [(''fireconnect'', sample_backend out), (''local'', sample_backend (Returned sample_success))]\<rparr>,
      er_available_harnesses = [''codex''], er_subscription_allows = [], er_quota_allows = []\<rparr>"

definition sample_env :: run_env where
  "sample_env = \<lparr>re_clock = int, re_fresh = (\<lambda>_. ''u'')\<rparr>"

lemmas sample_simps =
  sample_intent_def sample_decision_def sample_backend_def sample_success_def sample_router_def execution_result_def
  execute_with_fallback_def backend_turn_def guarded_backend_def try_backend_def on_exception_def fall_back_def
  await_call_def unhealthy_def registry_get_backend_def enforce_entitlements_def disallowed_def is_cancelled_def
  active_row_def register_execution_def update_attempt_def update_row_def Let_def dget_def success_result_def
  result_fields_def start_attempt_def

theorem fallback_discipline_witness:
  "\<exists>r s. execute_with_fallback sample_env (sample_router (Raised (LeaseError ''restore_failed'' ''m''))) sample_intent sample_decision
       (0, init_CancellationRegistry) 0 = (Returned r, s)
     \<and> xr_ok r \<and> rn_world s = 2 \<and> rn_attempted s = [''fireconnect'', ''local''] \<and> onward_chain (rn_attempts s)"
proof -
  obtain r s where x: "execute_with_fallback sample_env (sample_router (Raised (LeaseError ''restore_failed'' ''m''))) sample_intent sample_decision
       (0, init_CancellationRegistry) 0 = (Returned r, s)" and y: "xr_ok r" "rn_world s = 2" "rn_attempted s = [''fireconnect'', ''local'']"
    by (simp add: sample_simps run_simps init_CancellationRegistry_def)
  with fallback_discipline [OF x] show ?thesis by blast
qed

definition sample_state :: "nat run_state" where
  "sample_state = \<lparr>rn_world = 0, rn_registry = init_CancellationRegistry, rn_ticks = 0, rn_audits = [], rn_attempts = [],
     rn_attempted = [''fireconnect''], rn_last_error = [], rn_last_failure = UNKNOWN_FAILURE\<rparr>"

theorem raised_failure_falls_back_witness:
  "\<exists>s2. guarded_backend sample_env sample_intent sample_decision
       (sample_backend (Raised (LeaseError ''restore_failed'' ''m''))) ''fireconnect''
       (start_attempt sample_env sample_intent sample_decision ''fireconnect'' sample_state) sample_state = (Next_Backend, s2)"
proof -
  let ?b = "sample_backend (Raised (LeaseError ''restore_failed'' ''m''))"
  let ?a = "start_attempt sample_env sample_intent sample_decision ''fireconnect'' sample_state"
  obtain s1 where x: "try_backend sample_env sample_intent sample_decision ?b ''fireconnect'' ?a sample_state
      = (Raised (LeaseError ''restore_failed'' ''m''), s1)"
    by (simp add: sample_simps)
  have "fst (await_call (be_cleanup ?b (ei_execution_id sample_intent))
      (snd (on_exception sample_env sample_intent ''fireconnect'' ?a (LeaseError ''restore_failed'' ''m'') s1))) \<noteq> Cancelled"
    by (simp add: await_call_def sample_backend_def)
  from raised_failure_falls_back [OF x this] show ?thesis by blast
qed

theorem cancelled_run_stops_witness:
  "\<exists>r s1. backend_loop sample_env (sample_router (Returned sample_success)) sample_intent sample_decision [''local'']
       (sample_state\<lparr>rn_registry := snd (snd (cancel_execution (\<lambda>f. Pair (Returned [])) ''e1''
          ((), register_execution ''u'' 0 ''e1'' ''fireconnect'' None None None init_CancellationRegistry)))\<rparr>) = (Returned r, s1)
     \<and> xr_status r = ES_CANCELLED \<and> rn_world s1 = 0"
proof -
  let ?s = "sample_state\<lparr>rn_registry := snd (snd (cancel_execution (\<lambda>f. Pair (Returned [])) ''e1''
          ((), register_execution ''u'' 0 ''e1'' ''fireconnect'' None None None init_CancellationRegistry)))\<rparr>"
  have "is_cancelled (rn_registry ?s) (ei_execution_id sample_intent)"
    by (simp add: sample_simps cancel_execution_def cancel_begin_def init_CancellationRegistry_def)
  from cancelled_run_stops [OF this] show ?thesis
    by (force simp: sample_state_def)
qed

end
