(* ===== verification/Runtime_Service.thy ===== *)
theory Runtime_Service
  imports Runtime_Store Planning Workers Coding_Worker Retry Completion Execution_Router
begin

text \<open>
  The runtime service (\<^verbatim>\<open>src/src/joymesh/runtime_v1/service.py\<close>): it creates tasks under a policy,
  plans and routes them, submits them to nodes under leases, takes the events of the nodes and
  leaves the terminal outcome to the completion orchestrator.

  The state is one record. Its last component \<open>'w\<close> is the state of the backends, and the router of
  \<open>Execution_Router\<close> runs on the whole record, so that a backend may call back into the service
  (\<open>submit_remote_execution\<close>). What is wired in from outside is a record \<open>wiring\<close>: the environment
  (hash, clock, identifiers), the router with its run environment, the cancel functions of the
  backends (by execution and backend), the decision function \<open>wi_select\<close> of the router (its scores are floating point
  numbers), the prompt analysis and the normalisation of preferences of the planner, and the host
  of the coding worker. The theorems hold for every wiring. A method runs to its end before the next
  one starts; what happens while it awaits a backend is part of the backend.
\<close>

section \<open>State\<close>

text \<open>The counters that no method writes (by provider, by route, by model, route failures and switches)
  are left out.\<close>

record RuntimeMetrics =
  me_connected_nodes :: int
  me_healthy_nodes :: int
  me_queued_tasks :: int
  me_leased_tasks :: int
  me_running_tasks :: int
  me_successful_tasks :: int
  me_failed_tasks :: int
  me_cancelled_tasks :: int
  me_policy_rejections :: int
  me_stale_event_rejections :: int
  me_retry_count :: int
  me_failover_count :: int
  me_tasks_by_connector :: "(string \<times> int) list"
  me_tasks_by_backend :: "(string \<times> int) list"

definition init_RuntimeMetrics :: RuntimeMetrics where
  "init_RuntimeMetrics =
     \<lparr>me_connected_nodes = 0, me_healthy_nodes = 0, me_queued_tasks = 0, me_leased_tasks = 0,
      me_running_tasks = 0, me_successful_tasks = 0, me_failed_tasks = 0, me_cancelled_tasks = 0,
      me_policy_rejections = 0, me_stale_event_rejections = 0, me_retry_count = 0, me_failover_count = 0,
      me_tasks_by_connector = [], me_tasks_by_backend = []\<rparr>"

definition increment :: "string \<Rightarrow> (string \<times> int) list \<Rightarrow> (string \<times> int) list" where
  "increment k d = AList.update k ((case map_of d k of None \<Rightarrow> 0 | Some n \<Rightarrow> n) + 1) d"

record 'w RuntimeService =
  rs_store :: RuntimeStore
  rs_policy :: PolicyEngine
  rs_leases :: LeaseService
  rs_metrics :: RuntimeMetrics
  rs_completion :: Orchestrator
  rs_registry :: registry_table
  rs_nodes :: "(string \<times> SchedulerNodeSnapshot) list"
  rs_task_prompts :: "string \<rightharpoonup> string"
  rs_authoritative_attempts :: "string \<rightharpoonup> string"
  rs_worker_reports :: "(string \<times> WorkerReport) list"
  rs_ticks :: nat
  rs_run_ticks :: nat
  rs_world :: 'w

type_synonym ('w, 'a) service = "('w RuntimeService, 'a) action"

record 'w wiring =
  wi_env :: environment
  wi_run_env :: run_env
  wi_production :: bool
  wi_analyse :: "string \<Rightarrow> pydict \<Rightarrow> TaskAnalysis"
  wi_normalise :: "pydict \<Rightarrow> pydict result"
  wi_select :: "ExecutionIntent \<Rightarrow> 'w RuntimeService \<Rightarrow> ExecutionDecision result"
  wi_router :: "'w RuntimeService ExecutionRouter"
  wi_cancel :: "string \<Rightarrow> string \<Rightarrow> ('w RuntimeService, pydict) backend_call"
  wi_worker :: "'w RuntimeService worker_host"

definition init_RuntimeService :: "RuntimeDatabase option \<Rightarrow> PolicyEngine \<Rightarrow> 'w \<Rightarrow> 'w RuntimeService" where
  "init_RuntimeService database policy w =
     \<lparr>rs_store = init_RuntimeStore database, rs_policy = policy, rs_leases = init_LeaseService 60,
      rs_metrics = init_RuntimeMetrics, rs_completion = init_Orchestrator, rs_registry = init_CancellationRegistry,
      rs_nodes = [], rs_task_prompts = Map.empty, rs_authoritative_attempts = Map.empty, rs_worker_reports = [],
      rs_ticks = 0, rs_run_ticks = 0, rs_world = w\<rparr>"

section \<open>Effects\<close>

definition take_ticks :: "nat \<Rightarrow> ('w, nat) service" where
  "take_ticks k s = (Returned (rs_ticks s), s\<lparr>rs_ticks := rs_ticks s + k\<rparr>)"

definition utc_now :: "'w wiring \<Rightarrow> ('w, time) service" where
  "utc_now R = bind_action (take_ticks 1) (\<lambda>n. act (env_clock (wi_env R) n))"

definition uuid4 :: "'w wiring \<Rightarrow> ('w, string) service" where
  "uuid4 R = bind_action (take_ticks 1) (\<lambda>n. act (env_fresh (wi_env R) n))"

definition on_store :: "(RuntimeStore \<Rightarrow> 'a result \<times> RuntimeStore) \<Rightarrow> ('w, 'a) service" where
  "on_store = on_part rs_store (\<lambda>t s. s\<lparr>rs_store := t\<rparr>)"

definition on_leases :: "(LeaseService \<Rightarrow> LeaseService \<times> 'a result) \<Rightarrow> ('w, 'a) service" where
  "on_leases f = on_part rs_leases (\<lambda>l s. s\<lparr>rs_leases := l\<rparr>) (\<lambda>ls. prod.swap (f ls))"

definition on_completion :: "(Orchestrator \<Rightarrow> 'a result \<times> Orchestrator) \<Rightarrow> ('w, 'a) service" where
  "on_completion = on_part rs_completion (\<lambda>oc s. s\<lparr>rs_completion := oc\<rparr>)"

definition metric :: "(RuntimeMetrics \<Rightarrow> RuntimeMetrics) \<Rightarrow> ('w, unit) service" where
  "metric f = update_state (\<lambda>s. s\<lparr>rs_metrics := f (rs_metrics s)\<rparr>)"

definition task_of :: "string \<Rightarrow> ('w, RuntimeTaskRecord) service" where
  "task_of task_id s = attempt_of (get_task (rs_store s) task_id) s"

definition put_task :: "RuntimeTaskRecord \<Rightarrow> ('w, RuntimeTaskRecord) service" where
  "put_task t = on_store (save_task t)"

text \<open>\<^verbatim>\<open>task.model_copy(update={..., "updated_at": utc_now()})\<close>, saved and returned.\<close>

definition put_updated :: "'w wiring \<Rightarrow> (RuntimeTaskRecord \<Rightarrow> RuntimeTaskRecord) \<Rightarrow> RuntimeTaskRecord \<Rightarrow> ('w, RuntimeTaskRecord) service" where
  "put_updated R f task = bind_action (utc_now R) (\<lambda>now. put_task ((f task)\<lparr>rt_updated_at := now\<rparr>))"

definition audit_task :: "'w wiring \<Rightarrow> string \<Rightarrow> string \<Rightarrow> pydict \<Rightarrow> ('w, unit) service" where
  "audit_task R event_type task_id payload =
     bind_action (take_ticks 1) (\<lambda>n. on_store (store_audit (env_fresh (wi_env R) n) (env_clock (wi_env R) n)
       event_type (Some task_id) payload))"

definition task_event :: "string \<Rightarrow> pydict \<Rightarrow> ('w, unit) service" where
  "task_event task_id event = update_state (\<lambda>s. s\<lparr>rs_store := store_event task_id event (rs_store s)\<rparr>)"

text \<open>The loops over the audits of a result and over the events of an outcome.\<close>

definition note_events :: "'w wiring \<Rightarrow> string \<Rightarrow> string \<Rightarrow> bool \<Rightarrow> pydict list \<Rightarrow> ('w, unit) service" where
  "note_events R fallback task_id visible events =
     for_each (\<lambda>e. bind_action (audit_task R (py_str (py_or (dget e ''event_type'') (PyStr fallback))) task_id e)
       (\<lambda>_. if visible then task_event task_id e else act ())) events"

definition str_list :: "string list \<Rightarrow> pyval" where
  "str_list xs = PyList (map PyStr xs)"

section \<open>Nodes\<close>

definition register_node :: "'w wiring \<Rightarrow> SchedulerNodeSnapshot \<Rightarrow> ('w, unit) service" where
  "register_node R snapshot =
     bind_action (utc_now R) (\<lambda>now. update_state (\<lambda>s.
       let nodes = AList.update (sn_node_id snapshot) snapshot (rs_nodes s);
           online = filter (\<lambda>n. sn_online (snd n)) nodes
       in s\<lparr>rs_nodes := nodes,
            rs_metrics := (rs_metrics s)\<lparr>me_connected_nodes := int (length online),
              me_healthy_nodes := int (length (filter (\<lambda>n. \<not> sn_revoked (snd n) \<and> sn_session_authenticated (snd n)) online))\<rparr>,
            rs_worker_reports := AList.update (sn_node_id snapshot)
              (build_worker_report snapshot None None None 1 now) (rs_worker_reports s)\<rparr>))"

definition latest_worker_report :: "'w RuntimeService \<Rightarrow> string \<Rightarrow> WorkerReport option" where
  "latest_worker_report s worker_id = map_of (rs_worker_reports s) worker_id"

definition register_placement :: "'w wiring \<Rightarrow> WorkspacePlacement \<Rightarrow> ('w, WorkspacePlacement) service" where
  "register_placement R placement = bind_action (uuid4 R) (\<lambda>u. on_store (save_placement u placement))"

definition resolve_workspace_path :: "'w RuntimeService \<Rightarrow> string \<Rightarrow> string" where
  "resolve_workspace_path s workspace_id =
     (let known = concat (map snd (st_placements (rs_store s))) @ concat (map (sn_placements \<circ> snd) (rs_nodes s))
      in case find (\<lambda>p. wp_workspace_id p = workspace_id) known of
           Some p \<Rightarrow> wp_local_path p
         | None \<Rightarrow> ''/tmp/joymesh-workspaces/'' @ workspace_id)"

section \<open>Remote submission\<close>

definition request_from_record :: "RuntimeTaskRecord \<Rightarrow> RuntimeTaskRequest" where
  "request_from_record task =
     \<lparr>rq_workspace_id = rt_workspace_id task, rq_prompt = [],
      rq_requested_capabilities = rt_requested_capabilities task, rq_policy_profile = rt_policy_profile task,
      rq_prohibited_capabilities = rt_prohibited_capabilities task,
      rq_preferred_connectors = rt_preferred_connectors task, rq_required_connector = rt_required_connector task,
      rq_preferred_providers = rt_preferred_providers task, rq_required_provider = rt_required_provider task,
      rq_preferred_nodes = rt_preferred_nodes task, rq_required_node = rt_required_node task,
      rq_timeout_seconds = rt_timeout_seconds task, rq_max_attempts = rt_max_attempts task,
      rq_user_id = rt_user_id task, rq_task_id = rt_task_id task, rq_created_at = rt_created_at task\<rparr>"

definition submission_request :: "'w RuntimeService \<Rightarrow> RuntimeTaskRecord \<Rightarrow> ExecutionDecision \<Rightarrow> RuntimeTaskRequest" where
  "submission_request s task decision =
     (let request = request_from_record task; h = ed_selected_harness_id decision;
          preferred = rq_preferred_connectors request
      in request\<lparr>rq_prompt := (case rs_task_prompts s (rt_task_id task) of None \<Rightarrow> [] | Some p \<Rightarrow> p),
                 rq_preferred_connectors := (if h \<noteq> [] \<and> h \<notin> set preferred then h # preferred else preferred)\<rparr>)"

definition candidate_value :: "RouteCandidate \<Rightarrow> pyval" where
  "candidate_value c =
     PyDict [(''node_id'', PyStr (rc_node_id c)), (''connector_id'', PyStr (rc_connector_id c)),
             (''eligible'', PyBool (rc_eligible c)), (''score'', PyInt (rc_score c)),
             (''rejection_reasons'', str_list (rc_rejection_reasons c)),
             (''scoring_factors'', PyDict (map (\<lambda>(k, v). (k, PyInt v)) (rc_scoring_factors c)))]"

definition queue_submission ::
  "'w wiring \<Rightarrow> ExecutionIntent \<Rightarrow> ExecutionDecision \<Rightarrow> RuntimeTaskRecord \<Rightarrow> RouteCandidate list \<Rightarrow> ('w, pydict) service" where
  "queue_submission R intent decision task candidates =
     (let detail = join ''; '' (case candidates of [] \<Rightarrow> [''no workers available''] | c # _ \<Rightarrow> rc_rejection_reasons c)
      in bind_action (metric (\<lambda>m. m\<lparr>me_queued_tasks := me_queued_tasks m + 1\<rparr>)) (\<lambda>_.
         bind_action (put_updated R (\<lambda>t. t\<lparr>rt_status := QUEUED, rt_detail := Some detail,
             rt_execution_id := Some (ei_execution_id intent),
             rt_selected_backend_id := Some (ed_selected_backend_id decision),
             rt_selected_harness_id := Some (ed_selected_harness_id decision)\<rparr>) task) (\<lambda>_.
         act [(''status'', PyStr ''queued''), (''message'', PyStr detail), (''ok'', PyBool False)])))"

definition leased_record :: "ExecutionIntent \<Rightarrow> ExecutionDecision \<Rightarrow> RouteCandidate \<Rightarrow> RuntimeTaskRecord \<Rightarrow> RuntimeTaskRecord" where
  "leased_record intent decision c task =
     task\<lparr>rt_status := LEASED, rt_selected_node_id := Some (rc_node_id c),
          rt_selected_connector_id := Some (rc_connector_id c), rt_selected_harness_id := Some (rc_connector_id c),
          rt_selected_backend_id := Some (ed_selected_backend_id decision),
          rt_execution_id := Some (ei_execution_id intent),
          rt_execution_decision_reason := Some (ed_reason decision),
          rt_execution_fallback_order := ed_fallback_order decision,
          rt_provider_routing_required := ed_provider_routing_required decision, rt_detail := None\<rparr>"

definition new_attempt :: "string \<Rightarrow> int \<Rightarrow> RouteCandidate \<Rightarrow> TaskLease \<Rightarrow> ExecutionAttempt" where
  "new_attempt attempt_id n c lease =
     \<lparr>ea_attempt_id = attempt_id, ea_task_id = tl_task_id lease, ea_attempt_number = n,
      ea_node_id = rc_node_id c, ea_connector_id = rc_connector_id c, ea_lease_id = tl_lease_id lease,
      ea_execution_origin = REMOTE_NODE, ea_status = ''leased'', ea_started_at = None, ea_terminal_at = None,
      ea_failure_class = None, ea_retry_safe = True\<rparr>"

definition lease_submission ::
  "'w wiring \<Rightarrow> ExecutionIntent \<Rightarrow> ExecutionDecision \<Rightarrow> RuntimeTaskRecord \<Rightarrow> RouteCandidate \<Rightarrow> ('w, pydict) service" where
  "lease_submission R intent decision task c =
     bind_action (uuid4 R) (\<lambda>u. let attempt_id = ''execution_attempt_'' @ u; eid = ei_execution_id intent in
     bind_action (read_state (\<lambda>s. int (length (st_attempts (rs_store s) (rt_task_id task))) + 1)) (\<lambda>n.
     bind_action (take_ticks 2) (\<lambda>k.
     bind_action (on_leases (\<lambda>ls. acquire ls (rt_task_id task) (rc_node_id c) (rc_connector_id c) attempt_id None
         (env_fresh (wi_env R) k) (env_clock (wi_env R) k) (env_clock (wi_env R) (k + 1)))) (\<lambda>lease.
     bind_action (on_store (save_lease lease)) (\<lambda>_.
     bind_action (on_store (save_attempt (new_attempt attempt_id n c lease))) (\<lambda>_.
     bind_action (update_state (\<lambda>s. s\<lparr>rs_authoritative_attempts := (rs_authoritative_attempts s)(eid \<mapsto> attempt_id)\<rparr>)) (\<lambda>_.
     bind_action (audit_task R ''lease.acquired'' (rt_task_id task)
         [(''lease_id'', PyStr (tl_lease_id lease)), (''fencing_token'', PyInt (tl_fencing_token lease)),
          (''node_id'', PyStr (tl_node_id lease)), (''connector_id'', PyStr (tl_connector_id lease)),
          (''attempt_id'', PyStr attempt_id), (''execution_id'', PyStr eid)]) (\<lambda>_.
     bind_action (put_updated R (leased_record intent decision c) task) (\<lambda>_.
     bind_action (task_event (rt_task_id task)
         [(''event_type'', PyStr ''route.selected''), (''execution_id'', PyStr eid),
          (''backend_id'', PyStr (ed_selected_backend_id decision)), (''node_id'', PyStr (rc_node_id c)),
          (''connector_id'', PyStr (rc_connector_id c)), (''harness_id'', PyStr (ed_selected_harness_id decision)),
          (''score'', PyInt (rc_score c)), (''lease_id'', PyStr (tl_lease_id lease)),
          (''fencing_token'', PyInt (tl_fencing_token lease)), (''attempt_id'', PyStr attempt_id)]) (\<lambda>_.
     act [(''status'', PyStr ''leased''), (''ok'', PyBool True), (''execution_id'', PyStr eid),
          (''attempt_id'', PyStr attempt_id), (''lease_id'', PyStr (tl_lease_id lease)),
          (''node_id'', PyStr (rc_node_id c)), (''harness_id'', PyStr (ed_selected_harness_id decision)),
          (''fencing_token'', PyInt (tl_fencing_token lease))]))))))))))"

definition submit_remote_execution ::
  "'w wiring \<Rightarrow> ExecutionIntent \<Rightarrow> ExecutionDecision \<Rightarrow> ('w, pydict) service" where
  "submit_remote_execution R intent decision =
     (let task_id = py_str (py_or (dget (ei_metadata intent) ''runtime_task_id'') (PyStr (ei_mission_id intent)))
      in bind_action (task_of task_id) (\<lambda>task.
         bind_action (\<lambda>s. attempt_of (rank_candidates (wi_production R) (rs_policy s) (submission_request s task decision)
             (map snd (rs_nodes s))) s) (\<lambda>candidates.
         bind_action (take_ticks (length candidates)) (\<lambda>k.
         bind_action (on_store (save_candidates (\<lambda>i. env_fresh (wi_env R) (k + i)) (\<lambda>i. env_clock (wi_env R) (k + i))
             (rt_task_id task) candidates)) (\<lambda>_.
         bind_action (audit_task R ''scheduler.ranked'' (rt_task_id task)
             [(''execution_id'', PyStr (ei_execution_id intent)), (''candidates'', PyList (map candidate_value candidates))]) (\<lambda>_.
         case find rc_eligible candidates of
           None \<Rightarrow> queue_submission R intent decision task candidates
         | Some c \<Rightarrow> lease_submission R intent decision task c))))))"

section \<open>Routing\<close>

text \<open>The scores, their snapshots and the analysis are not part of the model's decision.\<close>

definition decision_as_dict :: "ExecutionDecision \<Rightarrow> pydict" where
  "decision_as_dict d =
     [(''execution_id'', PyStr (ed_execution_id d)), (''selected_backend_id'', PyStr (ed_selected_backend_id d)),
      (''selected_harness_id'', PyStr (ed_selected_harness_id d)),
      (''selected_connector_id'', opt_str (ed_selected_connector_id d)),
      (''selected_model_id'', opt_str (ed_selected_model_id d)), (''reason'', PyStr (ed_reason d)),
      (''fallback_order'', str_list (ed_fallback_order d)),
      (''provider_routing_required'', PyBool (ed_provider_routing_required d)),
      (''retry_policy'', PyDict (ed_retry_policy d)), (''registry_revision'', PyStr (ed_registry_revision d)),
      (''decided_at'', PyInt (ed_decided_at d))]"

text \<open>The router runs on the service itself; the registry travels beside it.\<close>

definition run_backends :: "'w wiring \<Rightarrow> ExecutionIntent \<Rightarrow> ExecutionDecision \<Rightarrow> ('w, ExecutionResult) service" where
  "run_backends R intent decision s =
     (case execute_with_fallback (wi_run_env R) (wi_router R) intent decision (s, rs_registry s) (rs_run_ticks s) of
        (r, run) \<Rightarrow> (r, (rn_world run)\<lparr>rs_registry := rn_registry run, rs_run_ticks := rn_ticks run\<rparr>))"

text \<open>\<^verbatim>\<open>_execute_coding_worker\<close>.\<close>

definition allowed_for :: "RuntimeTaskRecord \<Rightarrow> string \<Rightarrow> bool" where
  "allowed_for task c \<longleftrightarrow> c \<in> set (rt_requested_capabilities task) \<and> c \<notin> set (rt_prohibited_capabilities task)
     \<and> rt_policy_profile task \<notin> {''read_only'', ''production_restricted'', ''ci''}"

definition coding_task :: "RuntimeTaskRecord \<Rightarrow> string \<Rightarrow> string \<Rightarrow> ExecutionIntent \<Rightarrow> CodingWorkerTask" where
  "coding_task task prompt workspace_path intent =
     (let commit = allowed_for task ''git.commit''; push = allowed_for task ''git.push''
      in task_from_runtime (rt_task_id task) prompt workspace_path (rt_mission_id task) (ei_execution_id intent)
           (rt_correlation_id task) commit push (rt_timeout_seconds task)
           ((if commit then [] else [''Do not commit'']) @ (if push then [] else [''Do not push''])
            @ [''Stay inside the repository'']))"

definition coding_execution_result :: "RuntimeTaskRecord \<Rightarrow> ExecutionIntent \<Rightarrow> ExecutionDecision \<Rightarrow> CodingWorkerResult \<Rightarrow> ExecutionResult" where
  "coding_execution_result task intent decision k =
     (let good = (kr_status k = ''completed'')
      in (execution_result good (ei_execution_id intent) ''local'' ''codex''
            (if kr_status k = ''cancelled'' then ES_CANCELLED else if good then ES_SUCCEEDED else ES_FAILED) (kr_summary k))
         \<lparr>xr_attempted_backends := [''local''], xr_decision := Some decision,
          xr_output := [(''coding_worker'', PyDict (coding_result_as_dict k)), (''ok'', PyBool good),
                        (''changed_files'', str_list (kr_changed_files k)), (''tests_run'', tests_value (kr_tests_run k))],
          xr_attempts := [[(''attempt_id'', PyStr (''coding_attempt_'' @ rt_task_id task)),
                           (''execution_id'', PyStr (ei_execution_id intent)), (''backend_id'', PyStr ''local''),
                           (''harness_id'', PyStr ''codex''), (''status'', PyStr (kr_status k))]],
          xr_failure_class := (if good then None else Some (or_str (kr_error k) ''coding_worker_failed'')),
          xr_evidence_refs := map ke_uri (kr_evidence k),
          xr_candidate_verification :=
            [(''changed_files'', str_list (kr_changed_files k)), (''tests_run'', tests_value (kr_tests_run k)),
             (''worker_id'', opt_str (kr_worker_id k)), (''lease_id'', opt_str (kr_lease_id k))]\<rparr>)"

text \<open>The host of the worker: its leases are those of the service, its progress is an event of the task, appended
  by a callback that neither awaits nor raises.\<close>

definition service_worker :: "'w wiring \<Rightarrow> RuntimeTaskRecord \<Rightarrow> ExecutionIntent \<Rightarrow> 'w RuntimeService worker_host" where
  "service_worker R task intent =
     (wi_worker R)\<lparr>wh_leases := rs_leases, wh_set_leases := (\<lambda>l s. s\<lparr>rs_leases := l\<rparr>),
       wh_now := (\<lambda>s. (env_clock (wi_env R) (rs_ticks s), s\<lparr>rs_ticks := rs_ticks s + 1\<rparr>)),
       wh_fresh := (\<lambda>s. (env_fresh (wi_env R) (rs_ticks s), s\<lparr>rs_ticks := rs_ticks s + 1\<rparr>)),
       wh_progress := (\<lambda>label s. (Returned (), s\<lparr>rs_store := store_event (rt_task_id task)
          [(''event_type'', PyStr ''coding_worker.progress''), (''summary'', PyStr label),
           (''execution_id'', PyStr (ei_execution_id intent)), (''task_id'', PyStr (rt_task_id task)),
           (''correlation_id'', opt_str (rt_correlation_id task))] (rs_store s)\<rparr>)),
       wh_cancelled := (\<lambda>_ _. False), wh_discard := (\<lambda>_ s. s)\<rparr>"

definition execute_coding_worker ::
  "'w wiring \<Rightarrow> RuntimeTaskRecord \<Rightarrow> string \<Rightarrow> string \<Rightarrow> ExecutionDecision \<Rightarrow> ExecutionIntent \<Rightarrow> ('w, ExecutionResult) service" where
  "execute_coding_worker R task prompt workspace_path decision intent =
     bind_action (worker_execute (service_worker R task intent) (coding_task task prompt workspace_path intent)) (\<lambda>k.
     bind_action (task_event (rt_task_id task)
       [(''event_type'', PyStr ''coding_worker.result''), (''execution_id'', PyStr (ei_execution_id intent)),
        (''result'', PyDict (coding_result_as_dict k))]) (\<lambda>_.
     act (coding_execution_result task intent decision k)))"

definition completion_context ::
  "RuntimeTaskRecord \<Rightarrow> string \<Rightarrow> string \<Rightarrow> string \<Rightarrow> string \<Rightarrow> string option \<Rightarrow> CompletionContext" where
  "completion_context task execution_id attempt_id authoritative backend_id harness_id =
     \<lparr>cc_organisation_id = None, cc_project_id = Some (rt_workspace_id task),
      cc_mission_id = or_str (rt_mission_id task) (rt_task_id task), cc_execution_id = execution_id,
      cc_attempt_id = attempt_id, cc_authoritative_attempt_id = authoritative, cc_backend_id = backend_id,
      cc_harness_id = harness_id, cc_correlation_id = Some (or_str (rt_correlation_id task) (rt_task_id task)),
      cc_user_id = Some (rt_user_id task), cc_cancelled = False, cc_require_evidence = False,
      cc_verification_strategy = ''backend_success_with_evidence'', cc_required_evidence_types = [],
      cc_max_evidence_bytes = 2000000, cc_metadata = []\<rparr>"

text \<open>The attempt identifiers of a result are texts.\<close>

definition result_attempt :: "RuntimeTaskRecord \<Rightarrow> ExecutionResult \<Rightarrow> string result" where
  "result_attempt task res =
     (if xr_attempts res = [] then Inr (''execution_attempt_'' @ or_str (rt_execution_id task) (rt_task_id task))
      else (case map_of (last (xr_attempts res)) ''attempt_id'' of
              None \<Rightarrow> Inl (KeyError ''attempt_id'')
            | Some v \<Rightarrow> Inr (py_str v)))"

definition offline_failure :: "ExecutionResult \<Rightarrow> bool" where
  "offline_failure res \<longleftrightarrow> substring ''offline'' (xr_message res)"

text \<open>The last part of \<^verbatim>\<open>route_task\<close>: what the task becomes, from the result and the outcome.\<close>

definition settle_task ::
  "'w wiring \<Rightarrow> RuntimeTaskRecord \<Rightarrow> ExecutionResult \<Rightarrow> CompletionOutcome \<Rightarrow> ('w, RuntimeTaskRecord) service" where
  "settle_task R task res out =
     (let detail = Some (if co_detail out \<noteq> [] then co_detail out else xr_message res)
      in if co_ok out \<and> co_state out = CS_COMPLETED then
           bind_action (metric (\<lambda>m. m\<lparr>me_successful_tasks := me_successful_tasks m + 1\<rparr>)) (\<lambda>_.
           put_updated R (\<lambda>t. t\<lparr>rt_status := SUCCEEDED, rt_selected_backend_id := Some (xr_backend_id res),
             rt_selected_harness_id := Some (xr_harness_id res), rt_selected_connector_id := Some (xr_harness_id res),
             rt_detail := Some (co_detail out)\<rparr>) task)
         else bind_action (attempt_of (to_dict (py_or (dget (xr_output res) ''submission'') (PyDict [])))) (\<lambda>submission.
           if co_state out = CS_BLOCKED \<or> xr_status res = ES_BLOCKED \<or> (\<not> xr_ok res \<and> offline_failure res) then
             (let queued = (dget submission ''status'' = PyStr ''queued'' \<or> offline_failure res)
              in bind_action (if queued then metric (\<lambda>m. m\<lparr>me_queued_tasks := me_queued_tasks m + 1\<rparr>) else act ()) (\<lambda>_.
                 put_updated R (\<lambda>t. t\<lparr>rt_status := (if queued then QUEUED else REJECTED), rt_detail := detail\<rparr>) task))
           else if dget submission ''status'' = PyStr ''rejected'' then
             put_updated R (\<lambda>t. t\<lparr>rt_status := REJECTED, rt_detail := detail\<rparr>) task
           else
             bind_action (metric (\<lambda>m. m\<lparr>me_failed_tasks := me_failed_tasks m + 1\<rparr>)) (\<lambda>_.
             put_updated R (\<lambda>t. t\<lparr>rt_status := FAILED, rt_detail := detail,
               rt_selected_backend_id := Some (xr_backend_id res),
               rt_selected_harness_id := Some (xr_harness_id res)\<rparr>) task)))"

definition complete_task ::
  "'w wiring \<Rightarrow> string \<Rightarrow> RuntimeTaskRecord \<Rightarrow> ExecutionDecision \<Rightarrow> ExecutionResult \<Rightarrow> ('w, RuntimeTaskRecord) service" where
  "complete_task R task_id task decision res =
     bind_action (attempt_of (result_attempt task res)) (\<lambda>attempt_id.
     bind_action (update_state (\<lambda>s. s\<lparr>rs_authoritative_attempts :=
         (rs_authoritative_attempts s)(xr_execution_id res \<mapsto> attempt_id)\<rparr>)) (\<lambda>_.
     bind_action (on_completion (complete_from_backend (wi_env R) res
         (completion_context task (xr_execution_id res) attempt_id attempt_id (xr_backend_id res) (Some (xr_harness_id res)))
         (Some (decision_as_dict decision)) [])) (\<lambda>out.
     bind_action (note_events R ''completion.event'' task_id True (co_events out)) (\<lambda>_.
     settle_task R task res out))))"

definition leased_task :: "string \<Rightarrow> ('w, RuntimeTaskRecord) service" where
  "leased_task task_id =
     bind_action (task_of task_id) (\<lambda>t.
     bind_action (metric (\<lambda>m. m\<lparr>me_leased_tasks := me_leased_tasks m + 1,
         me_tasks_by_connector := (if opt_truthy (rt_selected_connector_id t)
           then increment (the (rt_selected_connector_id t)) (me_tasks_by_connector m)
           else me_tasks_by_connector m)\<rparr>)) (\<lambda>_.
     act t))"

definition decided_task :: "'w wiring \<Rightarrow> string \<Rightarrow> RuntimeTaskRecord \<Rightarrow> ExecutionDecision \<Rightarrow> ('w, RuntimeTaskRecord) service" where
  "decided_task R task_id task d =
     bind_action (put_updated R (\<lambda>t. t\<lparr>rt_execution_id := Some (ed_execution_id d),
         rt_selected_backend_id := Some (ed_selected_backend_id d),
         rt_selected_harness_id := Some (ed_selected_harness_id d),
         rt_selected_connector_id := Some (or_str (ed_selected_connector_id d) (ed_selected_harness_id d)),
         rt_execution_decision_reason := Some (ed_reason d), rt_execution_fallback_order := ed_fallback_order d,
         rt_provider_routing_required := ed_provider_routing_required d\<rparr>) task) (\<lambda>t1.
     bind_action (audit_task R ''backend.selected'' task_id (decision_as_dict d)) (\<lambda>_.
     bind_action (metric (\<lambda>m. m\<lparr>me_tasks_by_backend := increment (ed_selected_backend_id d) (me_tasks_by_backend m)\<rparr>)) (\<lambda>_.
     bind_action (task_event task_id
         [(''event_type'', PyStr ''backend.selected''), (''execution_id'', PyStr (ed_execution_id d)),
          (''backend_id'', PyStr (ed_selected_backend_id d)), (''harness_id'', PyStr (ed_selected_harness_id d)),
          (''reason'', PyStr (ed_reason d)), (''fallback_order'', str_list (ed_fallback_order d))]) (\<lambda>_.
     if ed_provider_routing_required d then
       put_task (t1\<lparr>rt_selected_provider_id := Some ''fireworks'',
         rt_selected_provider_route_manager_id := Some ''fireconnect'',
         rt_provider_selection_reason := Some ''provider_routing_required_via_execution_router''\<rparr>)
     else act t1))))"

text \<open>The part of \<^verbatim>\<open>route_task\<close> after the decision.\<close>

definition perform_task ::
  "'w wiring \<Rightarrow> string \<Rightarrow> string \<Rightarrow> string \<Rightarrow> ExecutionIntent \<Rightarrow> ExecutionDecision \<Rightarrow> RuntimeTaskRecord
   \<Rightarrow> ('w, RuntimeTaskRecord) service" where
  "perform_task R task_id prompt workspace_path intent d t1 =
     bind_action (if ed_selected_backend_id d = ''local'' \<and> ed_selected_harness_id d = ''codex''
                  then execute_coding_worker R t1 prompt workspace_path d intent
                  else run_backends R intent d) (\<lambda>res.
     bind_action (note_events R ''backend.event'' task_id True (xr_audits res)) (\<lambda>_.
     if ed_selected_backend_id d = ''joymesh'' \<and> xr_ok res then leased_task task_id
     else complete_task R task_id t1 d res))"

definition route_task :: "'w wiring \<Rightarrow> string \<Rightarrow> ('w, RuntimeTaskRecord) service" where
  "route_task R task_id =
     bind_action (task_of task_id) (\<lambda>task.
     bind_action (read_state (\<lambda>s. (case rs_task_prompts s task_id of None \<Rightarrow> [] | Some p \<Rightarrow> p,
         resolve_workspace_path s (rt_workspace_id task),
         rs_nodes s \<noteq> [] \<or> opt_truthy (rt_required_node task)))) (\<lambda>(prompt, path, remote).
     bind_action (uuid4 R) (\<lambda>u.
     bind_action (attempt_of (plan (wi_analyse R) (wi_normalise R) u
         (mission_spec_from_task task prompt path (Some (rt_workspace_id task)) (if remote then ''remote'' else ''local'') remote))) (\<lambda>intent.
     bind_action (audit_task R ''execution.planned'' task_id
         [(''execution_id'', PyStr (ei_execution_id intent)),
          (''required_capabilities'', str_list (sort (map capability_value (ei_required_capabilities intent)))),
          (''preferred_harness'', opt_str (ei_preferred_harness intent)),
          (''requires_provider_route'', PyBool (ei_requires_provider_route intent))]) (\<lambda>_.
     bind_action (read_state (wi_select R intent)) (\<lambda>decision.
     case decision of
       Inl e \<Rightarrow>
         bind_action (put_updated R (\<lambda>t. t\<lparr>rt_status := REJECTED, rt_detail := Some (error_text e),
             rt_execution_id := Some (ei_execution_id intent)\<rparr>) task) (\<lambda>rejected.
         bind_action (audit_task R ''execution.blocked'' task_id
             [(''execution_id'', PyStr (ei_execution_id intent)), (''error'', PyStr (take 200 (error_text e)))]) (\<lambda>_.
         act rejected))
     | Inr d \<Rightarrow> bind_action (decided_task R task_id task d) (perform_task R task_id prompt path intent d)))))))"

section \<open>Creating and approving tasks\<close>

record CreateRuntimeTaskBody =
  cb_workspace_id :: string
  cb_prompt :: string
  cb_correlation_id :: "string option"
  cb_mission_id :: "string option"
  cb_execution_id :: "string option"
  cb_trace_id :: "string option"
  cb_actor_id :: "string option"
  cb_idempotency_key :: "string option"
  cb_policy_profile :: string
  cb_requested_capabilities :: "string list"
  cb_prohibited_capabilities :: "string list"
  cb_preferred_connectors :: "string list"
  cb_required_connector :: "string option"
  cb_preferred_providers :: "string list"
  cb_required_provider :: "string option"
  cb_preferred_nodes :: "string list"
  cb_required_node :: "string option"
  cb_timeout_seconds :: int
  cb_max_attempts :: int

definition request_from_body :: "CreateRuntimeTaskBody \<Rightarrow> string \<Rightarrow> string \<Rightarrow> time \<Rightarrow> RuntimeTaskRequest" where
  "request_from_body body user_id task_id now =
     \<lparr>rq_workspace_id = cb_workspace_id body, rq_prompt = cb_prompt body,
      rq_requested_capabilities = remdups (cb_requested_capabilities body), rq_policy_profile = cb_policy_profile body,
      rq_prohibited_capabilities = remdups (cb_prohibited_capabilities body),
      rq_preferred_connectors = cb_preferred_connectors body, rq_required_connector = cb_required_connector body,
      rq_preferred_providers = cb_preferred_providers body, rq_required_provider = cb_required_provider body,
      rq_preferred_nodes = cb_preferred_nodes body, rq_required_node = cb_required_node body,
      rq_timeout_seconds = cb_timeout_seconds body, rq_max_attempts = cb_max_attempts body,
      rq_user_id = user_id, rq_task_id = task_id, rq_created_at = now\<rparr>"

definition integration_metadata :: "CreateRuntimeTaskBody \<Rightarrow> pydict" where
  "integration_metadata body =
     List.map_filter (\<lambda>(k, v). map_option (\<lambda>s. (k, PyStr s)) v)
       [(''mission_id'', cb_mission_id body), (''execution_id'', cb_execution_id body),
        (''trace_id'', cb_trace_id body), (''actor_id'', cb_actor_id body),
        (''idempotency_key'', cb_idempotency_key body)]"

definition new_task ::
  "(string \<Rightarrow> string) \<Rightarrow> CreateRuntimeTaskBody \<Rightarrow> RuntimeTaskRequest \<Rightarrow> string list \<Rightarrow> RuntimeTaskStatus \<Rightarrow> bool
   \<Rightarrow> string option \<Rightarrow> time \<Rightarrow> time \<Rightarrow> RuntimeTaskRecord" where
  "new_task sha256 body request expanded status approval detail created updated =
     \<lparr>rt_task_id = rq_task_id request, rt_correlation_id = Some (or_str (cb_correlation_id body) (rq_task_id request)),
      rt_mission_id = cb_mission_id body, rt_trace_id = cb_trace_id body, rt_metadata = integration_metadata body,
      rt_workspace_id = rq_workspace_id request, rt_user_id = rq_user_id request,
      rt_prompt_digest = sha256 (rq_prompt request), rt_prompt_size = int (length (rq_prompt request)),
      rt_requested_capabilities = sort (rq_requested_capabilities request),
      rt_prohibited_capabilities = sort (rq_prohibited_capabilities request),
      rt_expanded_capabilities = expanded, rt_policy_profile = rq_policy_profile request,
      rt_preferred_connectors = rq_preferred_connectors request, rt_required_connector = rq_required_connector request,
      rt_preferred_providers = rq_preferred_providers request, rt_required_provider = rq_required_provider request,
      rt_preferred_nodes = rq_preferred_nodes request, rt_required_node = rq_required_node request,
      rt_timeout_seconds = rq_timeout_seconds request, rt_max_attempts = rq_max_attempts request,
      rt_status = status, rt_selected_node_id = None, rt_selected_connector_id = None,
      rt_selected_backend_id = None, rt_selected_harness_id = None, rt_execution_id = None,
      rt_execution_decision_reason = None, rt_execution_fallback_order = [], rt_provider_routing_required = False,
      rt_selected_provider_id = None, rt_selected_provider_route_id = None,
      rt_selected_provider_route_manager_id = None, rt_selected_model_id = None,
      rt_provider_selection_reason = None, rt_approval_required = approval, rt_created_at = created,
      rt_updated_at = updated, rt_detail = detail\<rparr>"

definition save_new_task ::
  "'w wiring \<Rightarrow> CreateRuntimeTaskBody \<Rightarrow> RuntimeTaskRequest \<Rightarrow> string list \<Rightarrow> RuntimeTaskStatus \<Rightarrow> bool \<Rightarrow> string option
   \<Rightarrow> ('w, RuntimeTaskRecord) service" where
  "save_new_task R body request expanded status approval detail =
     bind_action (utc_now R) (\<lambda>created. bind_action (utc_now R) (\<lambda>updated.
       put_task (new_task (env_sha256 (wi_env R)) body request expanded status approval detail created updated)))"

definition queue_new_task :: "'w wiring \<Rightarrow> RuntimeTaskRecord \<Rightarrow> ('w, RuntimeTaskRecord) service" where
  "queue_new_task R task =
     bind_action (put_updated R (\<lambda>t. t\<lparr>rt_status := QUEUED,
         rt_detail := Some ''Queued for routing when workers available''\<rparr>) task) (\<lambda>queued.
     bind_action (audit_task R ''task.queued'' (rt_task_id task) [(''reason'', PyStr ''skip_routing_requested'')]) (\<lambda>_.
     bind_action (task_event (rt_task_id task) [(''event_type'', PyStr ''accepted''), (''status'', PyStr ''queued''),
         (''detail'', PyStr ''Task accepted and queued'')]) (\<lambda>_.
     bind_action (metric (\<lambda>m. m\<lparr>me_queued_tasks := me_queued_tasks m + 1\<rparr>)) (\<lambda>_. act queued))))"

text \<open>The capabilities are expanded with the built-in table, not with the table of the policy.\<close>

definition admit_task ::
  "'w wiring \<Rightarrow> CreateRuntimeTaskBody \<Rightarrow> RuntimeTaskRequest \<Rightarrow> bool \<Rightarrow> PolicyDecision \<Rightarrow> ('w, RuntimeTaskRecord) service" where
  "admit_task R body request skip_routing decision =
     bind_action (attempt_of (expand_capabilities (CapabilityRegistry None) (rq_requested_capabilities request)
         (rq_prohibited_capabilities request))) (\<lambda>expanded.
     bind_action (audit_task R ''capabilities.expanded'' (rq_task_id request) [(''expanded'', str_list (sort expanded))]) (\<lambda>_.
     let approval = (pd_approval_requirements decision \<noteq> [])
     in bind_action (save_new_task R body request (sort expanded) (if approval then APPROVAL_REQUIRED else ROUTING)
            approval None) (\<lambda>task.
        if approval then act task
        else if skip_routing then queue_new_task R task
        else route_task R (rt_task_id task))))"

definition create_task ::
  "'w wiring \<Rightarrow> CreateRuntimeTaskBody \<Rightarrow> string \<Rightarrow> bool \<Rightarrow> ('w, RuntimeTaskRecord) service" where
  "create_task R body user_id skip_routing =
     bind_action (take_ticks 1) (\<lambda>n.
     let request = request_from_body body user_id (env_fresh (wi_env R) n) (env_clock (wi_env R) n);
         task_id = rq_task_id request
     in bind_action (update_state (\<lambda>s. s\<lparr>rs_task_prompts := (rs_task_prompts s)(task_id \<mapsto> cb_prompt body)\<rparr>)) (\<lambda>_.
        bind_action (audit_task R ''task.created'' task_id
          ([(''prompt_digest'', PyStr (env_sha256 (wi_env R) (rq_prompt request))),
            (''prompt_size'', PyInt (int (length (rq_prompt request)))),
            (''policy_profile'', PyStr (rq_policy_profile request)),
            (''requested_capabilities'', str_list (sort (rq_requested_capabilities request))),
            (''prohibited_capabilities'', str_list (sort (rq_prohibited_capabilities request))),
            (''correlation_id'', PyStr (or_str (cb_correlation_id body) task_id))] @ integration_metadata body)) (\<lambda>_.
        bind_action (\<lambda>s. attempt_of (evaluate (rs_policy s) request None) s) (\<lambda>decision.
        bind_action (audit_task R ''policy.evaluated'' task_id
          [(''allowed'', PyBool (pd_allowed decision)), (''reasons'', str_list (pd_reasons decision)),
           (''granted'', str_list (sort (pd_granted_capabilities decision))),
           (''denied'', str_list (sort (pd_denied_capabilities decision))),
           (''approvals'', str_list (pd_approval_requirements decision))]) (\<lambda>_.
        if \<not> pd_allowed decision then
          bind_action (metric (\<lambda>m. m\<lparr>me_policy_rejections := me_policy_rejections m + 1\<rparr>)) (\<lambda>_.
          save_new_task R body request [] REJECTED False (Some (join ''; '' (pd_reasons decision))))
        else admit_task R body request skip_routing decision)))))"

definition approve_task :: "'w wiring \<Rightarrow> string \<Rightarrow> ('w, RuntimeTaskRecord) service" where
  "approve_task R task_id =
     bind_action (task_of task_id) (\<lambda>task.
       if rt_status task \<noteq> APPROVAL_REQUIRED then fail (PermissionError ''task is not awaiting approval'')
       else
         bind_action (put_updated R (\<lambda>t. t\<lparr>rt_status := ROUTING, rt_approval_required := False\<rparr>) task) (\<lambda>_.
         bind_action (audit_task R ''task.approved'' task_id []) (\<lambda>_. route_task R task_id)))"

section \<open>Events of the nodes\<close>

definition read_lease :: "'w wiring \<Rightarrow> string \<Rightarrow> ('w, TaskLease option) service" where
  "read_lease R task_id =
     bind_action (utc_now R) (\<lambda>now. on_leases (\<lambda>ls. let (ls1, l) = active_lease ls task_id now in (ls1, Inr l)))"

definition stale_event :: "'w wiring \<Rightarrow> string \<Rightarrow> pydict \<Rightarrow> ('w, unit) service" where
  "stale_event R task_id payload =
     bind_action (metric (\<lambda>m. m\<lparr>me_stale_event_rejections := me_stale_event_rejections m + 1\<rparr>))
       (\<lambda>_. audit_task R ''event.stale_rejected'' task_id payload)"

definition mark_offered :: "'w wiring \<Rightarrow> string \<Rightarrow> int \<Rightarrow> ('w, RuntimeTaskRecord) service" where
  "mark_offered R task_id fencing_token =
     bind_action (read_lease R task_id) (\<lambda>lease.
       case lease of
         Some l \<Rightarrow>
           if tl_fencing_token l \<noteq> fencing_token then
             bind_action (stale_event R task_id [(''fencing_token'', PyInt fencing_token)])
               (\<lambda>_. fail (PermissionError ''stale fencing token''))
           else
             bind_action (task_of task_id) (\<lambda>task.
             bind_action (put_updated R (\<lambda>t. t\<lparr>rt_status := OFFERED\<rparr>) task) (\<lambda>updated.
             bind_action (audit_task R ''task.offered'' task_id [(''lease_id'', PyStr (tl_lease_id l))]) (\<lambda>_.
             act updated)))
       | None \<Rightarrow>
           bind_action (stale_event R task_id [(''fencing_token'', PyInt fencing_token)])
             (\<lambda>_. fail (PermissionError ''stale fencing token'')))"

definition COMPLETION_EVENTS :: "string list" where
  "COMPLETION_EVENTS =
     [''task.succeeded'', ''task.failed'', ''task.cancelled'', ''verification.completed'',
      ''execution.completed'', ''execution.failed'', ''execution.cancelled'']"

definition terminal_status :: "RuntimeTaskStatus \<Rightarrow> bool" where
  "terminal_status st \<longleftrightarrow> st \<in> {SUCCEEDED, FAILED, CANCELLED, REJECTED}"

definition status_value :: "RuntimeTaskStatus \<Rightarrow> string" where
  "status_value st =
     (case st of
        PENDING \<Rightarrow> ''pending'' | APPROVAL_REQUIRED \<Rightarrow> ''approval_required'' | ROUTING \<Rightarrow> ''routing''
      | QUEUED \<Rightarrow> ''queued'' | LEASED \<Rightarrow> ''leased'' | OFFERED \<Rightarrow> ''offered'' | ACCEPTED \<Rightarrow> ''accepted''
      | RUNNING \<Rightarrow> ''running'' | RECONCILING \<Rightarrow> ''reconciling'' | SUCCEEDED \<Rightarrow> ''succeeded''
      | FAILED \<Rightarrow> ''failed'' | CANCELLED \<Rightarrow> ''cancelled'' | REJECTED \<Rightarrow> ''rejected'')"

text \<open>The evidence a node gives with its event.\<close>

definition event_evidence ::
  "'w wiring \<Rightarrow> RuntimeTaskRecord \<Rightarrow> string \<Rightarrow> string \<Rightarrow> string \<Rightarrow> pydict \<Rightarrow> ('w, candidate_input list) service" where
  "event_evidence R task execution_id attempt_id event_type payload =
     (let provenance = [(''execution_id'', PyStr execution_id), (''attempt_id'', PyStr attempt_id),
                        (''mission_id'', PyStr (rt_task_id task)), (''project_id'', PyStr (rt_workspace_id task))];
          candidate = (\<lambda>body.
            bind_action (attempt_of (py_int (py_or (dget payload ''sequence'') (PyInt 1)))) (\<lambda>seq.
            bind_action (uuid4 R) (\<lambda>u.
            act [Candidate (new_candidate u ''remote_verification'' None 0 seq provenance body)])))
      in case dget payload ''verification'' of
           PyDict body \<Rightarrow> candidate body
         | _ \<Rightarrow> if event_type = ''task.succeeded'' \<and> dget payload ''verified'' = PyBool True
                then candidate [(''outcome'', PyStr ''verified''), (''passed'', PyBool True)]
                else act [])"

definition event_context :: "RuntimeTaskRecord \<Rightarrow> string \<Rightarrow> string \<Rightarrow> string \<Rightarrow> string \<Rightarrow> CompletionContext" where
  "event_context task execution_id attempt_id authoritative event_type =
     (completion_context task execution_id attempt_id authoritative
        (or_str (rt_selected_backend_id task) ''joymesh'')
        (if opt_truthy (rt_selected_harness_id task) then rt_selected_harness_id task else rt_selected_connector_id task))
       \<lparr>cc_cancelled := (event_type \<in> {''task.cancelled'', ''execution.cancelled''}), cc_require_evidence := True,
        cc_verification_strategy := ''remote_verifier_event'',
        cc_required_evidence_types := [''remote_verification'']\<rparr>"

definition outcome_status :: "CompletionOutcome \<Rightarrow> RuntimeTaskStatus" where
  "outcome_status out =
     (if co_state out = CS_COMPLETED then SUCCEEDED
      else if co_state out = CS_CANCELLED then CANCELLED else FAILED)"

definition stale_outcome :: "CompletionOutcome \<Rightarrow> bool" where
  "stale_outcome out \<longleftrightarrow> co_failure_class out \<in> Some ` completion_failure_value ` {CF_STALE_ATTEMPT, CF_SUPERSEDED_ATTEMPT, CF_LATE_EVENT}"

definition count_terminal :: "RuntimeTaskStatus \<Rightarrow> RuntimeMetrics \<Rightarrow> RuntimeMetrics" where
  "count_terminal st m =
     (if st = SUCCEEDED then m\<lparr>me_successful_tasks := me_successful_tasks m + 1\<rparr>
      else if st = FAILED then m\<lparr>me_failed_tasks := me_failed_tasks m + 1\<rparr>
      else m\<lparr>me_cancelled_tasks := me_cancelled_tasks m + 1\<rparr>)"

text \<open>The last part of \<^verbatim>\<open>ingest_node_event\<close>; the status set here is always terminal.\<close>

definition settle_event ::
  "'w wiring \<Rightarrow> string \<Rightarrow> int \<Rightarrow> string \<Rightarrow> RuntimeTaskRecord \<Rightarrow> CompletionOutcome \<Rightarrow> ('w, RuntimeTaskRecord) service" where
  "settle_event R task_id fencing_token event_type task out =
     (if stale_outcome out then
        bind_action (metric (\<lambda>m. m\<lparr>me_stale_event_rejections := me_stale_event_rejections m + 1\<rparr>)) (\<lambda>_. act task)
      else if terminal_status (rt_status task) then act task
      else
        (let st = outcome_status out
         in bind_action (put_updated R (\<lambda>t. t\<lparr>rt_status := st, rt_detail := Some (co_detail out)\<rparr>) task) (\<lambda>updated.
            bind_action (utc_now R) (\<lambda>now.
            bind_action (on_leases (\<lambda>ls. release ls task_id fencing_token now)) (\<lambda>_.
            bind_action (metric (count_terminal st)) (\<lambda>_.
            bind_action (audit_task R ''task.terminal'' task_id
                [(''status'', PyStr (status_value st)), (''event_type'', PyStr event_type),
                 (''completion_state'', PyStr (completion_state_value (co_state out))), (''verified'', PyBool (co_ok out))]) (\<lambda>_.
            act updated)))))))"

definition complete_event ::
  "'w wiring \<Rightarrow> string \<Rightarrow> string \<Rightarrow> int \<Rightarrow> string \<Rightarrow> pydict \<Rightarrow> RuntimeTaskRecord \<Rightarrow> ('w, RuntimeTaskRecord) service" where
  "complete_event R task_id attempt_id fencing_token event_type payload task =
     (let execution_id = or_str (rt_execution_id task) task_id
      in bind_action (read_state (\<lambda>s. case rs_authoritative_attempts s execution_id of None \<Rightarrow> attempt_id | Some a \<Rightarrow> a)) (\<lambda>authoritative.
         bind_action (event_evidence R task execution_id attempt_id event_type payload) (\<lambda>candidates.
         bind_action (on_completion (complete_from_remote_event (wi_env R)
             (event_context task execution_id attempt_id authoritative event_type) event_type payload candidates)) (\<lambda>out.
         bind_action (note_events R ''completion.event'' task_id True (co_events out)) (\<lambda>_.
         settle_event R task_id fencing_token event_type task out)))))"

definition ingest_node_event ::
  "'w wiring \<Rightarrow> string \<Rightarrow> string \<Rightarrow> string \<Rightarrow> int \<Rightarrow> string \<Rightarrow> pydict \<Rightarrow> ('w, RuntimeTaskRecord) service" where
  "ingest_node_event R task_id attempt_id lease_id fencing_token event_type payload =
     bind_action (utc_now R) (\<lambda>now s.
       case validate_event (rs_leases s) task_id lease_id fencing_token attempt_id now of
         (ls, Inl e) \<Rightarrow>
           bind_action (stale_event R task_id
               [(''event_type'', PyStr event_type), (''fencing_token'', PyInt fencing_token),
                (''lease_id'', PyStr lease_id), (''attempt_id'', PyStr attempt_id)]) (\<lambda>_. fail e) (s\<lparr>rs_leases := ls\<rparr>)
       | (ls, Inr _) \<Rightarrow>
           bind_action (task_of task_id) (\<lambda>task.
           bind_action (task_event task_id [(''event_type'', PyStr event_type), (''payload'', PyDict payload),
               (''attempt_id'', PyStr attempt_id)]) (\<lambda>_.
           if event_type = ''task.accepted'' then put_updated R (\<lambda>t. t\<lparr>rt_status := ACCEPTED\<rparr>) task
           else if event_type = ''task.started'' then
             bind_action (utc_now R) (\<lambda>now2.
             bind_action (metric (\<lambda>m. m\<lparr>me_running_tasks := me_running_tasks m + 1\<rparr>)) (\<lambda>_.
             put_task (task\<lparr>rt_status := RUNNING, rt_updated_at := now2\<rparr>)))
           else if event_type \<notin> set COMPLETION_EVENTS then act task
           else complete_event R task_id attempt_id fencing_token event_type payload task)) (s\<lparr>rs_leases := ls\<rparr>))"

section \<open>Cancelling and retrying\<close>

definition cancel_backends :: "'w wiring \<Rightarrow> string \<Rightarrow> ('w, pydict) service" where
  "cancel_backends R execution_id s =
     (case cancel_execution (wi_cancel R execution_id) execution_id (s, rs_registry s) of
        (r, s1, g) \<Rightarrow> (r, s1\<lparr>rs_registry := g\<rparr>))"

definition cancel_task :: "'w wiring \<Rightarrow> string \<Rightarrow> ('w, RuntimeTaskRecord) service" where
  "cancel_task R task_id =
     bind_action (task_of task_id) (\<lambda>task.
       if terminal_status (rt_status task) then act task
       else
         (let execution_id = or_str (rt_execution_id task) task_id
          in bind_action (cancel_backends R execution_id) (\<lambda>answer.
             bind_action (audit_task R ''backend.cancelled'' task_id answer) (\<lambda>_.
             bind_action (task_event task_id (dmerge [(''event_type'', PyStr ''backend.cancelled''),
                 (''execution_id'', PyStr execution_id)] answer)) (\<lambda>_.
             bind_action (read_lease R task_id) (\<lambda>lease.
             bind_action (case lease of
                 Some l \<Rightarrow> if tl_status l = LEASE_ACTIVE
                   then bind_action (utc_now R) (\<lambda>now. bind_action (on_leases (\<lambda>ls. release ls task_id (tl_fencing_token l) now)) (\<lambda>_. act ()))
                   else act ()
               | None \<Rightarrow> act ()) (\<lambda>_.
             bind_action (read_state (\<lambda>s. case rs_authoritative_attempts s execution_id of None \<Rightarrow> execution_id | Some a \<Rightarrow> a)) (\<lambda>attempt_id.
             bind_action (on_completion (\<lambda>oc. let (out, oc1) = finalise_cancelled (wi_env R)
                 ((completion_context task execution_id attempt_id attempt_id (or_str (rt_selected_backend_id task) ''unknown'')
                    (if opt_truthy (rt_selected_harness_id task) then rt_selected_harness_id task
                     else rt_selected_connector_id task))\<lparr>cc_cancelled := True\<rparr>) True oc in (Inr out, oc1))) (\<lambda>out.
             bind_action (note_events R ''completion.event'' task_id False (co_events out)) (\<lambda>_.
             bind_action (utc_now R) (\<lambda>now.
             bind_action (metric (\<lambda>m. m\<lparr>me_cancelled_tasks := me_cancelled_tasks m + 1\<rparr>)) (\<lambda>_.
             bind_action (put_task (task\<lparr>rt_status := CANCELLED, rt_updated_at := now, rt_detail := Some ''user_cancelled''\<rparr>)) (\<lambda>cancelled.
             bind_action (audit_task R ''task.cancelled'' task_id [(''failure_class'', PyStr ''user_cancelled'')]) (\<lambda>_.
             act cancelled))))))))))))))"

definition retry_task :: "'w wiring \<Rightarrow> string \<Rightarrow> FailureClass \<Rightarrow> ('w, RuntimeTaskRecord) service" where
  "retry_task R task_id failure_class =
     bind_action (task_of task_id) (\<lambda>task.
     bind_action (read_state (\<lambda>s. decide_retry task failure_class (int (length (st_attempts (rs_store s) task_id)))
         (rt_status task \<in> {RUNNING, ACCEPTED}) False)) (\<lambda>decision.
     bind_action (audit_task R ''retry.decided'' task_id
         [(''retry'', PyBool (rd_retry decision)), (''reason'', PyStr (rd_reason decision))]) (\<lambda>_.
     if \<not> rd_retry decision then fail (PermissionError (rd_reason decision))
     else
       bind_action (metric (\<lambda>m. m\<lparr>me_retry_count := me_retry_count m + 1, me_failover_count := me_failover_count m + 1\<rparr>)) (\<lambda>_.
       bind_action (put_updated R (\<lambda>t. t\<lparr>rt_status := ROUTING, rt_detail := None\<rparr>) task) (\<lambda>_.
       route_task R task_id)))))"

end
