(* ===== verification/Completion_Outcomes.thy ===== *)
theory Completion_Outcomes
  imports Completion
begin

text \<open>
  What a caller of the completion orchestrator may conclude from an outcome: an outcome with the
  state COMPLETED speaks of the stored record of its execution. This is the part of the contract of
  \<open>Completion\<close> that the runtime service relies on.
\<close>

definition reports :: "string \<Rightarrow> CompletionOutcome \<Rightarrow> Orchestrator \<Rightarrow> bool" where
  "reports eid out oc \<longleftrightarrow>
     (co_state out = CS_COMPLETED \<longrightarrow> (\<exists>r. store_get (oc_store oc) eid = Some r \<and> cr_state r = CS_COMPLETED))"

definition reports_result :: "string \<Rightarrow> CompletionOutcome result \<times> Orchestrator \<Rightarrow> bool" where
  "reports_result eid p \<longleftrightarrow> (\<forall>out. fst p = Inr out \<longrightarrow> reports eid out (snd p))"

lemma reports_record: "store_get (oc_store oc) eid = Some r \<Longrightarrow> reports eid (outcome_from_record r) oc"
  by (simp add: reports_def outcome_from_record_def)

lemma reports_other: "co_state out \<noteq> CS_COMPLETED \<Longrightarrow> reports eid out oc"
  by (simp add: reports_def)

lemma reports_result_Inr: "reports_result eid (Inr out, oc) = reports eid out oc"
  by (simp add: reports_result_def)

lemma reports_result_Inl: "reports_result eid (Inl e, oc)"
  by (simp add: reports_result_def)

lemma reports_result_if:
  "(b \<Longrightarrow> reports_result eid x) \<Longrightarrow> (\<not> b \<Longrightarrow> reports_result eid y) \<Longrightarrow> reports_result eid (if b then x else y)"
  by simp

lemma reports_result_pair: "reports eid (fst p) (snd p) \<Longrightarrow> reports_result eid (let (out, oc) = p in (Inr out, oc))"
  by (simp add: case_prod_beta reports_result_Inr)

lemma finalise_reports:
  assumes "mid eid oc h"
  shows "reports eid (fst (finalise_terminal W success facts h)) (snd (finalise_terminal W success facts h))"
proof -
  have eid: "cr_execution_id (fst h) = eid" and open_record: "\<not> cr_terminal_emitted (fst h)"
    using assms by (simp_all add: mid_def)
  define h1 where "h1 = assign (\<lambda>r. r\<lparr>cr_state := if success then CS_FINALISING
                 else if terminal_state (cr_state r) then cr_state r else CS_FAILED\<rparr>) h"
  define h2 where "h2 = (if success then emit W ''execution.finalising'' [] False h1 else h1)"
  obtain success1 h3 where u: "usage_stage W success facts h2 = (success1, h3)" by (metis surj_pair)
  have "mid eid oc h1"
    using assms unfolding h1_def by (intro mid_assign) (auto simp: mid_def)
  then have "mid eid oc h2" unfolding h2_def by (auto intro: mid_emit)
  then have "mid eid oc h3" using u by (rule usage_stage_mid(1))
  then have eid3: "cr_execution_id (fst h3) = eid" by (simp add: mid_def)
  define h4 where "h4 = (if success1 then
                    emit W ''execution.completed'' [(''verified'', PyBool True)] False
                      (assign (\<lambda>r. r\<lparr>cr_state := CS_COMPLETED,
                                   cr_detail := Some (str_default (cr_detail r) ''verified completion'')\<rparr>) h3)
                  else if cr_state (fst h3) = CS_FINALISING then assign (\<lambda>r. r\<lparr>cr_state := CS_FAILED\<rparr>) h3
                  else h3)"
  define h5 where "h5 = result_stage W h4"
  define h6 where "h6 = assign (\<lambda>r. r\<lparr>cr_terminal_emitted := True,
                             cr_updated_at := env_clock W (oc_ticks (snd h5))\<rparr>) (fst h5, advance 1 (snd h5))"
  have run: "finalise_terminal W success facts h = (outcome_from_record (fst h6), snd h6)"
    unfolding finalise_terminal_def Let_def h1_def [symmetric] h2_def [symmetric] u prod.case h4_def [symmetric]
      h5_def [symmetric] h6_def [symmetric]
    using open_record by simp
  have "cr_execution_id (fst h4) = eid" by (simp add: h4_def held_simps eid3)
  then have "store_get (oc_store (snd h6)) eid = Some (fst h6)" by (simp add: h6_def h5_def held_simps)
  then show ?thesis unfolding run by (simp add: reports_record)
qed

lemma reject_stale_reports:
  assumes "orch_inv oc" and "already_terminal oc (cc_execution_id cx) = None"
  shows "reports (cc_execution_id cx) (fst (reject_stale W cx reason detail oc)) (snd (reject_stale W cx reason detail oc))"
  using mid_emit [OF ensure_mid [OF assms]]
  by (auto simp: reject_stale_def Let_def reports_def mid_def outcome_from_record_def split: option.splits)

lemma finalise_cancelled_reports:
  assumes "orch_inv oc" and "already_terminal oc (cc_execution_id cx) = None"
  shows "reports (cc_execution_id cx) (fst (finalise_cancelled W cx c oc)) (snd (finalise_cancelled W cx c oc))"
proof -
  have m: "mid (cc_execution_id cx) oc (ensure_record W cx False True True oc)"
    by (rule ensure_mid [OF assms])
  then have "\<not> cr_terminal_emitted (fst (ensure_record W cx False True True oc))" by (simp add: mid_def)
  then show ?thesis
    unfolding finalise_cancelled_def Let_def by (auto intro!: finalise_reports mid_intros m)
qed

lemma run_verification_reports:
  assumes "mid eid oc h"
  shows "reports_result eid (run_verification W cx res h)"
proof -
  define h2 where "h2 = emit W ''verification.started'' [] False (assign (\<lambda>r. r\<lparr>cr_state := CS_VERIFYING\<rparr>)
       (emit W ''verification.requested'' [(''strategy'', PyStr (cc_verification_strategy cx))] False
         (assign (\<lambda>r. r\<lparr>cr_state := CS_VERIFICATION_PENDING\<rparr>) h)))"
  have m2: "mid eid oc h2"
    unfolding h2_def by (auto intro!: mid_intros assms)
  let ?policy = "to_dict (py_or (dget (cc_metadata cx) ''verification_policy'') (PyDict []))"
  show ?thesis
  proof (cases "bind_result ?policy (\<lambda>policy. verify (verification_request cx res policy h2))")
    case (Inl e)
    then show ?thesis
      by (simp add: run_verification_def Let_def h2_def [symmetric] reports_result_Inl)
  next
    case (Inr v)
    have frame: "cr_execution_id (apply_verdict v r) = cr_execution_id r"
      "cr_terminal_emitted (apply_verdict v r) = cr_terminal_emitted r" "cr_state (apply_verdict v r) \<noteq> CS_COMPLETED" for r
      by (auto simp: apply_verdict_def Let_def verdict_state_def split: VerificationOutcome.splits)
    have "mid eid oc (assign (apply_verdict v) (emit W (verification_event (vr_outcome v)) (verification_as_dict v) False
      (with_graph (\<lambda>i t. project_verification i t (cc_execution_id cx) (verification_as_dict v)) W
        (assign (\<lambda>r. r\<lparr>cr_verification := verification_as_dict v\<rparr>) h2))))"
      using m2 by (auto intro!: mid_intros simp: frame) (simp add: mid_def)
    from finalise_reports [OF this] show ?thesis
      using Inr by (simp add: run_verification_def Let_def h2_def [symmetric] case_prod_beta reports_result_Inr)
  qed
qed

lemma evidence_stage_reports:
  assumes "mid eid oc h" and "\<And>x. env_sha256 W x \<noteq> []" and "cc_execution_id cx = eid"
  shows "reports_result eid (evidence_stage W cx res candidates h)"
proof -
  define h1 where "h1 = emit W ''evidence.received'' [] False (assign (\<lambda>r. r\<lparr>cr_state := CS_EVIDENCE_PENDING\<rparr>) h)"
  have m1: "mid eid oc h1"
    unfolding h1_def by (auto intro!: mid_intros assms)
  obtain inputs h2 where p: "(if candidates \<noteq> [] then (candidates, h1)
             else let cs = candidates_from_result W (oc_ticks (snd h1)) res
                  in (map Candidate cs, (fst h1, advance (length cs) (snd h1)))) = (inputs, h2)"
    by (metis surj_pair)
  have m2: "mid eid oc h2"
    using p m1 mid_ticks [OF m1] by (auto simp: Let_def split: if_splits)
  obtain ir h3 where st: "intake_stage W cx inputs h2 = (ir, h3)" by (metis surj_pair)
  have m3: "mid eid oc h3"
    using intake_stage_mid [OF assms(2) m2, of cx inputs] st assms(3) by simp
  have run: "evidence_stage W cx res candidates h =
      (case intake_stage W cx inputs h2 of
           (Inl e, h3) \<Rightarrow> (Inl e, snd h3)
         | (Inr (accepted, rejected), h3) \<Rightarrow>
             (let h4 = fold (note_rejected W (cc_execution_id cx)) rejected
                         (fold (note_accepted W (cc_execution_id cx)) accepted h3)
              in if cc_require_evidence cx \<and> accepted = [] then
                   (let (out, oc) = finalise_terminal W False (usage_from_result res cx)
                          (emit W ''execution.failed'' [(''reason'', PyStr ''evidence_missing'')] False
                            (assign (\<lambda>r. r\<lparr>cr_state := CS_FAILED,
                                         cr_failure_class := Some (completion_failure_value CF_EVIDENCE_MISSING),
                                         cr_detail := Some ''required evidence missing or rejected''\<rparr>) h4))
                    in (Inr out, oc))
                 else run_verification W cx res (assign (\<lambda>r. r\<lparr>cr_state := CS_EVIDENCE_ACCEPTED\<rparr>) h4)))"
    unfolding evidence_stage_def h1_def [symmetric]
    by (subst Let_def, subst p) simp
  show ?thesis
  proof (cases ir)
    case (Inl e)
    then show ?thesis using run st by (simp add: reports_result_Inl)
  next
    case (Inr ar)
    obtain acc rej where ar: "ar = (acc, rej)" by (metis surj_pair)
    have m4: "mid eid oc (fold (note_rejected W (cc_execution_id cx)) rej (fold (note_accepted W (cc_execution_id cx)) acc h3))"
      by (intro mid_fold mid_note_accepted mid_note_rejected m3)
    let ?h4 = "fold (note_rejected W (cc_execution_id cx)) rej (fold (note_accepted W (cc_execution_id cx)) acc h3)"
    have a: "mid eid oc (assign (\<lambda>r. r\<lparr>cr_state := CS_EVIDENCE_ACCEPTED\<rparr>) ?h4)"
      by (auto intro!: mid_intros m4)
    have b: "mid eid oc (emit W ''execution.failed'' [(''reason'', PyStr ''evidence_missing'')] False
                            (assign (\<lambda>r. r\<lparr>cr_state := CS_FAILED,
                                         cr_failure_class := Some (completion_failure_value CF_EVIDENCE_MISSING),
                                         cr_detail := Some ''required evidence missing or rejected''\<rparr>) ?h4))"
      by (auto intro!: mid_intros m4)
    show ?thesis
      unfolding run st Inr ar prod.case sum.case Let_def [of ?h4]
      by (intro reports_result_if reports_result_pair finalise_reports [OF b] run_verification_reports [OF a])
  qed
qed

lemma complete_from_backend_reports:
  assumes "\<And>x. env_sha256 W x \<noteq> []" and "orch_inv oc"
  shows "reports_result (cc_execution_id cx) (complete_from_backend W res cx decision candidates oc)"
proof (cases "already_terminal oc (cc_execution_id cx)")
  case (Some r)
  then have "store_get (oc_store oc) (cc_execution_id cx) = Some r" by (simp add: already_terminal_Some)
  with Some show ?thesis
    by (simp only: complete_from_backend_def option.case reports_result_Inr reports_record)
next
  case None
  let ?eid = "cc_execution_id cx"
  note m = ensure_mid [OF assms(2) None]
  define h1 where "h1 = emit W ''backend.completed'' [(''ok'', PyBool (xr_ok res)), (''message'', PyStr (xr_message res))] False
                       (assign (\<lambda>r. r\<lparr>cr_state := CS_BACKEND_COMPLETED\<rparr>) (ensure_record W cx (xr_ok res) True True oc))"
  define h2 where "h2 = with_graph (\<lambda>i t. project_attempt i t ?eid (cc_attempt_id cx)
                       [(''backend_id'', PyStr (cc_backend_id cx)), (''ok'', PyBool (xr_ok res))]) W h1"
  define h3 where "h3 = (case decision of
                        Some d \<Rightarrow> if d \<noteq> [] then with_graph (\<lambda>i t. project_decision i t ?eid d) W h2 else h2
                      | None \<Rightarrow> h2)"
  define h4 where "h4 = with_graph (\<lambda>i t. project_request i t ?eid (cc_mission_id cx) [(''execution_id'', PyStr ?eid)]) W h3"
  have m2: "mid ?eid oc h2"
    unfolding h2_def h1_def by (auto intro!: mid_intros m)
  then have m4: "mid ?eid oc h4"
    unfolding h4_def h3_def by (auto intro!: mid_intros split: option.split)
  have inv: "orch_inv (snd h4)"
    by (rule done_orch_inv [OF mid_done [OF m4] assms(2)])
  have c: "already_terminal (snd h4) ?eid = None"
    using m4 by (simp add: already_terminal_def mid_def)
  have f: "mid ?eid oc (emit W ''execution.failed'' [(''backend_ok'', PyBool False)] False
                          (assign (\<lambda>r. r\<lparr>cr_state := CS_FAILED,
                                       cr_failure_class := Some (str_default (xr_failure_class res) ''process_failure''),
                                       cr_detail := Some (xr_message res)\<rparr>) h4))"
    by (auto intro!: mid_intros m4)
  have b: "mid ?eid oc (emit W ''execution.blocked'' [(''reason'', PyStr ''restore_failed'')] False
                     (assign (\<lambda>r. r\<lparr>cr_state := CS_BLOCKED,
                                  cr_failure_class := Some (completion_failure_value CF_RESTORE_FAILED),
                                  cr_detail := Some ''provider route restoration unresolved''\<rparr>)
                       (ensure_record W cx False False True oc)))"
    by (auto intro!: mid_intros m)
  show ?thesis
    unfolding complete_from_backend_def None option.case(1) h1_def [symmetric] Let_def [of "cc_execution_id cx"] Let_def [of h1]
    unfolding h2_def [symmetric] Let_def [of h2] h3_def [symmetric] Let_def [of h3] h4_def [symmetric] Let_def [of h4]
    by (intro reports_result_if reports_result_pair reject_stale_reports finalise_reports [OF b] finalise_reports [OF f]
        finalise_cancelled_reports [OF inv c] evidence_stage_reports [OF m4] assms None refl)
qed

lemma complete_from_remote_event_reports:
  assumes "\<And>x. env_sha256 W x \<noteq> []" and "orch_inv oc"
  shows "reports_result (cc_execution_id cx) (complete_from_remote_event W cx event_type payload candidates oc)"
proof (cases "already_terminal oc (cc_execution_id cx)")
  case (Some r)
  then have "store_get (oc_store oc) (cc_execution_id cx) = Some r" "cr_execution_id r = cc_execution_id cx"
    using assms(2) by (auto simp: already_terminal_Some orch_inv_def)
  then show ?thesis
    using Some by (simp add: complete_from_remote_event_def Let_def reports_result_Inr reports_record held_simps)
next
  case None
  let ?eid = "cc_execution_id cx"
  note m = ensure_mid [OF assms(2) None]
  have failed: "mid ?eid oc (emit W ''backend.completed'' [(''ok'', PyBool False), (''remote'', PyBool True)] False
                       (assign (\<lambda>r. r\<lparr>cr_state := CS_FAILED, cr_detail := d, cr_failure_class := c\<rparr>)
                         (ensure_record W cx False True True oc)))" for d c
    by (auto intro!: mid_intros m)
  have success: "reports_result ?eid (complete_from_backend W synthetic cx1 None cs (advance k oc))"
    if "remote_success_inputs W n cx ty payload cands = Inr (cx1, cs)" for synthetic cx1 cs n ty cands k
    using complete_from_backend_reports [OF assms(1), of "advance k oc" cx1] remote_inputs_execution [OF that] assms(2)
    by (simp add: done_advance)
  show ?thesis
    unfolding complete_from_remote_event_def None option.case(1)
  proof (intro reports_result_if reports_result_pair reject_stale_reports finalise_cancelled_reports assms None, goal_cases)
    case 1
    show ?case
      unfolding Let_def by (cases "usage_from_payload payload cx")
        (auto simp: reports_result_Inl case_prod_beta reports_result_Inr intro!: finalise_reports [OF failed])
  next
    case 2
    show ?case unfolding Let_def by (simp add: reports_result_Inr reports_other held_simps)
  next
    case 3
    show ?case
      unfolding Let_def
      by (cases "remote_success_inputs W (oc_ticks oc) cx event_type payload candidates")
         (auto simp: reports_result_Inl intro: success)
  qed
qed

section \<open>Success without accepted evidence\<close>

text \<open>An outcome of an execution that failed for want of evidence.\<close>

definition unproven :: "CompletionOutcome \<Rightarrow> bool" where
  "unproven out \<longleftrightarrow> co_state out \<in> {CS_FAILED, CS_BLOCKED}
     \<and> co_failure_class out \<in> Some ` completion_failure_value ` {CF_EVIDENCE_MISSING, CF_USAGE_FINALISATION_FAILED}"

lemma usage_stage_failed:
  assumes "usage_stage W False facts h = (good, h1)" and "cr_state (fst h) = CS_FAILED"
    and "cr_failure_class (fst h) = Some (completion_failure_value CF_EVIDENCE_MISSING)"
  shows "\<not> good \<and> cr_state (fst h1) \<in> {CS_FAILED, CS_BLOCKED}
    \<and> cr_failure_class (fst h1) \<in> Some ` completion_failure_value ` {CF_EVIDENCE_MISSING, CF_USAGE_FINALISATION_FAILED}"
proof -
  obtain r us where u: "finalise_usage (cr_execution_id (fst h)) (cr_organisation_id (fst h)) (cr_project_id (fst h))
      (cr_mission_id (fst h)) (map Fact facts) (oc_usage (snd h)) = (r, us)" by (metis surj_pair)
  show ?thesis
    using assms by (cases r) (auto simp: usage_stage_def Let_def u held_simps)
qed

lemma finalise_unproven:
  assumes "\<not> cr_terminal_emitted (fst h)" and "cr_state (fst h) = CS_FAILED"
    and "cr_failure_class (fst h) = Some (completion_failure_value CF_EVIDENCE_MISSING)"
  shows "unproven (fst (finalise_terminal W False facts h))"
proof -
  define h1 where "h1 = assign (\<lambda>r. r\<lparr>cr_state := if terminal_state (cr_state r) then cr_state r else CS_FAILED\<rparr>) h"
  obtain good h3 where u: "usage_stage W False facts h1 = (good, h3)" by (metis surj_pair)
  have h3: "\<not> good" "cr_state (fst h3) \<in> {CS_FAILED, CS_BLOCKED}"
      "cr_failure_class (fst h3) \<in> Some ` completion_failure_value ` {CF_EVIDENCE_MISSING, CF_USAGE_FINALISATION_FAILED}"
    using usage_stage_failed [OF u] assms(2,3) by (auto simp: held_simps h1_def)
  then have open_state: "cr_state (fst h3) \<noteq> CS_FINALISING" by auto
  define h5 where "h5 = result_stage W h3"
  define h6 where "h6 = assign (\<lambda>r. r\<lparr>cr_terminal_emitted := True,
                             cr_updated_at := env_clock W (oc_ticks (snd h5))\<rparr>) (fst h5, advance 1 (snd h5))"
  have run: "fst (finalise_terminal W False facts h) = outcome_from_record (fst h6)"
    unfolding finalise_terminal_def Let_def h1_def [symmetric] if_False u prod.case
    using assms(1) h3(1) open_state by (simp add: h6_def h5_def)
  have "cr_state (fst h6) = cr_state (fst h3)" "cr_failure_class (fst h6) = cr_failure_class (fst h3)"
    by (simp_all add: h6_def h5_def result_stage_def Let_def held_simps case_prod_beta)
  then show ?thesis
    using h3(2,3) unfolding run unproven_def outcome_from_record_def by simp
qed

lemma note_fields:
  "cr_terminal_emitted (fst (note_accepted W eid e h)) = cr_terminal_emitted (fst h)"
  "cr_terminal_emitted (fst (note_rejected W eid e h)) = cr_terminal_emitted (fst h)"
  by (simp_all add: note_accepted_def note_rejected_def held_simps)

lemma evidence_stage_unproven:
  assumes "cc_require_evidence cx" and "decision_reason cx CS_EVIDENCE_PENDING c \<noteq> None" and "\<not> cr_terminal_emitted (fst h)"
  shows "\<exists>out oc. evidence_stage W cx res [Candidate c] h = (Inr out, oc) \<and> unproven out"
proof -
  define h1 where "h1 = emit W ''evidence.received'' [] False (assign (\<lambda>r. r\<lparr>cr_state := CS_EVIDENCE_PENDING\<rparr>) h)"
  have s1: "cr_state (fst h1) = CS_EVIDENCE_PENDING" "\<not> cr_terminal_emitted (fst h1)"
    using assms(3) by (simp_all add: h1_def held_simps)
  obtain e good stored b1 where a: "accept_one (env_sha256 W) (env_clock W (oc_ticks (snd h1) + 0)) cx CS_EVIDENCE_PENDING
      (cc_backend_id cx) (cc_harness_id cx) c (oc_evidence (snd h1)) = ((e, good, stored), b1)" by (metis surj_pair)
  have g: "\<not> good" using decision_reason_rejects(1) [OF a assms(2)] .
  obtain oc1 where i: "intake_stage W cx [Candidate c] h1 = (Inr ([], [e]), (fst h1, oc1))"
    using intake_one [where now = "\<lambda>i. env_clock W (oc_ticks (snd h1) + i)", OF a] g
    by (simp add: intake_stage_def Let_def s1)
  define h4 where "h4 = emit W ''execution.failed'' [(''reason'', PyStr ''evidence_missing'')] False
       (assign (\<lambda>r. r\<lparr>cr_state := CS_FAILED, cr_failure_class := Some (completion_failure_value CF_EVIDENCE_MISSING),
          cr_detail := Some ''required evidence missing or rejected''\<rparr>) (note_rejected W (cc_execution_id cx) e (fst h1, oc1)))"
  have "unproven (fst (finalise_terminal W False (usage_from_result res cx) h4))"
    by (rule finalise_unproven) (simp_all add: h4_def held_simps note_fields s1)
  moreover have "evidence_stage W cx res [Candidate c] h
      = (Inr (fst (finalise_terminal W False (usage_from_result res cx) h4)), snd (finalise_terminal W False (usage_from_result res cx) h4))"
    using assms(1) i by (simp add: evidence_stage_def Let_def h1_def [symmetric] h4_def case_prod_beta)
  ultimately show ?thesis by blast
qed

lemma backend_unproven:
  assumes "orch_inv oc" and "already_terminal oc (cc_execution_id cx) = None"
    and "cc_attempt_id cx = cc_authoritative_attempt_id cx" and "restore_ok res" and "\<not> cc_cancelled cx" and "xr_ok res"
    and "cc_require_evidence cx" and "decision_reason cx CS_EVIDENCE_PENDING c \<noteq> None"
  shows "\<exists>out oc'. complete_from_backend W res cx decision [Candidate c] oc = (Inr out, oc') \<and> unproven out"
proof -
  have "\<not> cr_terminal_emitted (fst (ensure_record W cx (xr_ok res) True True oc))"
    using ensure_mid [OF assms(1,2), of W] by (simp add: mid_def)
  then have "\<exists>out oc'. evidence_stage W cx res [Candidate c] h = (Inr out, oc') \<and> unproven out"
    if "cr_terminal_emitted (fst h) = cr_terminal_emitted (fst (ensure_record W cx (xr_ok res) True True oc))" for h
    using evidence_stage_unproven [OF assms(7,8)] that by blast
  then show ?thesis
    using assms(2-6) by (auto simp: complete_from_backend_def Let_def held_simps split: option.split)
qed

text \<open>A remote success whose only evidence names another mission.\<close>

lemma remote_unproven:
  assumes "orch_inv oc" and "already_terminal oc (cc_execution_id cx) = None"
    and "cc_attempt_id cx = cc_authoritative_attempt_id cx" and "\<not> cc_cancelled cx" and "cc_require_evidence cx"
    and "\<not> has_key payload ''restored''" and "claim_differs c ''mission_id'' (cc_mission_id cx)"
  shows "\<exists>out oc'. complete_from_remote_event W cx ''task.succeeded'' payload [Candidate c] oc = (Inr out, oc') \<and> unproven out"
proof -
  let ?res = "(execution_result True (cc_execution_id cx) (cc_backend_id cx)
                    (str_default (cc_harness_id cx) ''unknown'') ES_SUCCEEDED ''remote backend reported success'')
                    \<lparr>xr_output := payload\<rparr>"
  define cx1 where "cx1 = (if truthy (dget payload ''verification'')
    then strict_context cx (opt_strs (cc_required_evidence_types cx) [''remote_verification'']) else cx)"
  have i: "remote_success_inputs W (oc_ticks oc) cx ''task.succeeded'' payload [Candidate c] = Inr (cx1, [Candidate c])"
    using assms(5) by (simp add: remote_success_inputs_def cx1_def)
  have f: "cc_execution_id cx1 = cc_execution_id cx" "cc_attempt_id cx1 = cc_attempt_id cx" "cc_mission_id cx1 = cc_mission_id cx"
      "cc_authoritative_attempt_id cx1 = cc_authoritative_attempt_id cx" "\<not> cc_cancelled cx1" "cc_require_evidence cx1"
    using assms(4,5) by (simp_all add: cx1_def strict_context_def)
  have d: "decision_reason cx1 CS_EVIDENCE_PENDING c \<noteq> None"
    using assms(7) f(3) decision_reason_None(4) [where cx = cx1 and st = CS_EVIDENCE_PENDING and c = c] by auto
  have "restore_ok ?res" "xr_ok ?res" using assms(6) by (simp_all add: restore_ok_def execution_result_def)
  moreover have "orch_inv (advance 1 oc)" "already_terminal (advance 1 oc) (cc_execution_id cx1) = None"
    using assms(1,2) f(1) by (simp_all add: orch_inv_def already_terminal_def held_simps)
  ultimately obtain out oc' where "complete_from_backend W ?res cx1 None [Candidate c] (advance 1 oc) = (Inr out, oc')" "unproven out"
    using backend_unproven [of "advance 1 oc" cx1 ?res c W None] d f assms(3) by auto
  then show ?thesis
    using assms(2,3) i by (simp add: complete_from_remote_event_def Let_def)
qed

section \<open>Success\<close>

lemma candidates_read:
  "\<exists>accepted rejected b'. intake_loop sha now n cx st bk hn (map Candidate cs) a r b = (Inr (accepted, rejected), b')"
proof (induction cs arbitrary: n a r b)
  case (Cons c cs)
  obtain e good stored b1 where "accept_one sha (now n) cx st bk hn c b = ((e, good, stored), b1)" by (metis surj_pair)
  then show ?case using Cons.IH by (simp add: Let_def read_candidate_def)
qed simp

lemma note_record:
  "cr_backend_ok (fst (note_accepted W eid e h)) = cr_backend_ok (fst h)" "cr_backend_ok (fst (note_rejected W eid e h)) = cr_backend_ok (fst h)"
  "cr_restore_ok (fst (note_accepted W eid e h)) = cr_restore_ok (fst h)" "cr_restore_ok (fst (note_rejected W eid e h)) = cr_restore_ok (fst h)"
  "oc_usage (snd (note_accepted W eid e h)) = oc_usage (snd h)" "oc_usage (snd (note_rejected W eid e h)) = oc_usage (snd h)"
  by (simp_all add: note_accepted_def note_rejected_def held_simps)

lemma fold_keeps: "(\<And>x h. f (g x h) = f h) \<Longrightarrow> f (fold g xs h) = f h"
  by (induction xs arbitrary: h) simp_all

text \<open>The finaliser can aggregate the usage that a result reports.\<close>

definition usage_accepted :: "ExecutionResult \<Rightarrow> CompletionContext \<Rightarrow> UsageFinaliser \<Rightarrow> bool" where
  "usage_accepted res cx u \<longleftrightarrow> (\<forall>eid org project mission.
     \<exists>ag. fst (finalise_usage eid org project mission (map Fact (usage_from_result res cx)) u) = Inr ag)"

text \<open>What a context asks for when a backend's success is enough.\<close>

definition plain_context :: "CompletionContext \<Rightarrow> bool" where
  "plain_context cx \<longleftrightarrow> cc_attempt_id cx = cc_authoritative_attempt_id cx \<and> \<not> cc_cancelled cx \<and> \<not> cc_require_evidence cx
     \<and> cc_verification_strategy cx = ''backend_success_with_evidence'' \<and> cc_required_evidence_types cx = [] \<and> cc_metadata cx = []"

lemma evidence_stage_completes:
  assumes "plain_context cx" and "xr_ok res" and "cr_backend_ok (fst h)" and "cr_restore_ok (fst h)"
    and "\<not> cr_terminal_emitted (fst h)" and "usage_accepted res cx (oc_usage (snd h))"
  shows "\<exists>out oc. evidence_stage W cx res [] h = (Inr out, oc) \<and> co_ok out \<and> co_state out = CS_COMPLETED"
proof -
  define h1 where "h1 = emit W ''evidence.received'' [] False (assign (\<lambda>r. r\<lparr>cr_state := CS_EVIDENCE_PENDING\<rparr>) h)"
  define cs where "cs = candidates_from_result W (oc_ticks (snd h1)) res"
  define h2 where "h2 = (fst h1, advance (length cs) (snd h1))"
  obtain accepted rejected b where i: "intake (env_sha256 W) (\<lambda>i. env_clock W (oc_ticks (snd h2) + i)) cx (cr_state (fst h2))
      (cc_backend_id cx) (cc_harness_id cx) (map Candidate cs) (oc_evidence (snd h2)) = (Inr (accepted, rejected), b)"
    unfolding intake_def using candidates_read by blast
  define h3 where "h3 = (fst h2, advance (length cs) ((snd h2)\<lparr>oc_evidence := b\<rparr>))"
  have st: "intake_stage W cx (map Candidate cs) h2 = (Inr (accepted, rejected), h3)"
    using i by (simp add: intake_stage_def Let_def h3_def)
  define h4 where "h4 = assign (\<lambda>r. r\<lparr>cr_state := CS_EVIDENCE_ACCEPTED\<rparr>) (fold (note_rejected W (cc_execution_id cx)) rejected
      (fold (note_accepted W (cc_execution_id cx)) accepted h3))"
  have e: "evidence_stage W cx res [] h = run_verification W cx res h4"
    using assms(1) st by (simp add: evidence_stage_def Let_def h1_def [symmetric] cs_def [symmetric] h2_def [symmetric] h4_def plain_context_def)
  have h4: "cr_backend_ok (fst h4)" "cr_restore_ok (fst h4)" "\<not> cr_terminal_emitted (fst h4)" "oc_usage (snd h4) = oc_usage (snd h)"
    using assms(3-5)
    by (simp_all add: h4_def held_simps fold_keeps [where f = "\<lambda>h. cr_backend_ok (fst h)"] fold_keeps [where f = "\<lambda>h. cr_restore_ok (fst h)"]
        fold_keeps [where f = "\<lambda>h. cr_terminal_emitted (fst h)"] fold_keeps [where f = "\<lambda>h. oc_usage (snd h)"] note_record note_fields h3_def h2_def h1_def)
  have policy: "to_dict (py_or (dget (cc_metadata cx) ''verification_policy'') (PyDict [])) = Inr []"
    using assms(1) by (simp add: plain_context_def dget_def py_or_def to_dict_def)
  obtain ag where "fst (finalise_usage (cr_execution_id (fst h4)) (cr_organisation_id (fst h4)) (cr_project_id (fst h4)) (cr_mission_id (fst h4))
      (map Fact (usage_from_result res cx)) (oc_usage (snd h4))) = Inr ag"
    using assms(6) unfolding usage_accepted_def h4(4) by blast
  from run_verification_completes [OF _ _ policy assms(2) h4(1-3) this, of W] assms(1)
  obtain r oc where "run_verification W cx res h4 = (Inr (outcome_from_record r), oc)" "cr_state r = CS_COMPLETED"
    by (auto simp: plain_context_def)
  then show ?thesis unfolding e by (simp add: outcome_from_record_def)
qed

text \<open>A successful backend completes an execution that is not yet finished.\<close>

lemma backend_completes:
  assumes "orch_inv oc" and "already_terminal oc (cc_execution_id cx) = None" and "plain_context cx" and "restore_ok res" and "xr_ok res"
    and "usage_accepted res cx (oc_usage oc)"
  shows "\<exists>out oc'. complete_from_backend W res cx decision [] oc = (Inr out, oc') \<and> co_ok out \<and> co_state out = CS_COMPLETED"
proof -
  define h0 where "h0 = ensure_record W cx (xr_ok res) True True oc"
  have "\<not> cr_terminal_emitted (fst h0)"
    using ensure_mid [OF assms(1,2), of W] by (simp add: mid_def h0_def)
  moreover have "cr_backend_ok (fst h0)" "cr_restore_ok (fst h0)" "oc_usage (snd h0) = oc_usage oc"
    using assms(5) by (simp_all add: h0_def ensure_record_def Let_def new_record_def save_record_def advance_def assign_def split: option.split)
  moreover define P where "P = (\<lambda>x :: CompletionOutcome result \<times> Orchestrator. \<exists>out oc'. x = (Inr out, oc') \<and> co_ok out \<and> co_state out = CS_COMPLETED)"
  ultimately have e: "P (evidence_stage W cx res [] h)"
    if "cr_terminal_emitted (fst h) = cr_terminal_emitted (fst h0)" "cr_backend_ok (fst h) = cr_backend_ok (fst h0)"
      "cr_restore_ok (fst h) = cr_restore_ok (fst h0)" "oc_usage (snd h) = oc_usage (snd h0)" for h
    using evidence_stage_completes [OF assms(3,5)] assms(6) that unfolding P_def by simp
  have "P (complete_from_backend W res cx decision [] oc)"
    using assms(2-5) unfolding complete_from_backend_def Let_def h0_def [symmetric]
    by (cases decision) (auto simp: plain_context_def held_simps intro!: e)
  then show ?thesis unfolding P_def .
qed

text \<open>A result without figures of its own is always aggregated by a fresh finaliser.\<close>

lemma usage_accepted_init: "xr_usage res = [] \<Longrightarrow> usage_accepted res cx init_UsageFinaliser"
  using zero_usage [OF usage_fact_facts] by (simp add: usage_accepted_def usage_from_result_def)

end
