(* ===== verification/Service_Invariants.thy ===== *)
theory Service_Invariants
  imports Runtime_Service Completion_Outcomes
begin

text \<open>
  The invariant of the runtime service: a task is marked as succeeded only while the completion
  orchestrator holds a completed record of its execution. The invariant speaks of the \<open>core\<close> of the
  state, the tasks and the completion records; most actions leave it alone (\<open>frames\<close>). A triple
  \<open>hoare P m Q\<close> says that the invariant holds however \<open>m\<close> ends and that \<open>Q\<close> holds of what it returned.
  The locale \<open>wired\<close> states what the service relies on in its surroundings.
\<close>

section \<open>The core and the invariant\<close>

definition core :: "'w RuntimeService \<Rightarrow> (string \<rightharpoonup> RuntimeTaskRecord) \<times> Orchestrator" where
  "core s = (st_tasks (rs_store s), rs_completion s)"

definition completed_in :: "Orchestrator \<Rightarrow> string \<Rightarrow> bool" where
  "completed_in oc e \<longleftrightarrow> (\<exists>r. store_get (oc_store oc) e = Some r \<and> cr_state r = CS_COMPLETED)"

definition execution_of :: "RuntimeTaskRecord \<Rightarrow> string" where
  "execution_of t = or_str (rt_execution_id t) (rt_task_id t)"

definition core_inv :: "(string \<rightharpoonup> RuntimeTaskRecord) \<times> Orchestrator \<Rightarrow> bool" where
  "core_inv c \<longleftrightarrow> orch_inv (snd c) \<and> (\<forall>k t. fst c k = Some t \<longrightarrow> rt_task_id t = k
     \<and> (rt_status t = SUCCEEDED \<longrightarrow> completed_in (snd c) (execution_of t)))"

definition service_inv :: "'w RuntimeService \<Rightarrow> bool" where
  "service_inv s \<longleftrightarrow> core_inv (core s)"

definition frames :: "('w, 'a) service \<Rightarrow> bool" where
  "frames m \<longleftrightarrow> (\<forall>s. core (snd (m s)) = core s)"

lemma frames_bind: "frames m \<Longrightarrow> (\<And>x. frames (f x)) \<Longrightarrow> frames (bind_action m f)"
  unfolding frames_def bind_action_def by (auto split: prod.splits outcome.splits) (metis snd_conv)+

lemma frames_each: "(\<And>x. frames (f x)) \<Longrightarrow> frames (for_each f xs)"
  by (induction xs) (auto simp: frames_def intro!: frames_bind [unfolded frames_def, rule_format])

lemma frames_basic:
  "frames (act x)" "frames (fail e)" "frames (attempt_of r)" "frames (read_state h)" "frames (take_ticks n)" "frames (metric g)"
  by (cases r; simp add: frames_def core_def take_ticks_def metric_def)+

lemma frames_part: "(\<And>p s. core (put p s) = core s) \<Longrightarrow> frames (on_part get put f)"
  by (auto simp: frames_def on_part_def split: prod.splits sum.splits)

lemma frames_leases: "frames (on_leases f)"
  unfolding on_leases_def by (rule frames_part) (simp add: core_def)

lemma frames_store:
  assumes "\<And>t. st_tasks (snd (f t)) = st_tasks t"
  shows "frames (on_store f)"
  using assms by (auto simp: frames_def on_store_def on_part_def core_def split: prod.splits sum.splits) (metis snd_conv)+

lemma frames_update: "(\<And>s. core (g s) = core s) \<Longrightarrow> frames (update_state g)"
  by (simp add: frames_def)

lemma frames_utc_now: "frames (utc_now R)" and frames_uuid4: "frames (uuid4 R)"
  by (simp_all add: utc_now_def uuid4_def frames_bind frames_basic)

lemma frames_audit: "frames (audit_task R ty k p)"
  by (simp add: audit_task_def frames_bind frames_basic frames_store store_simps)

lemma frames_event: "frames (task_event k e)"
  unfolding task_event_def by (rule frames_update) (simp add: core_def store_simps)

lemma frames_if: "frames m \<Longrightarrow> frames n \<Longrightarrow> frames (if b then m else n)"
  by simp

lemmas frames_rules = frames_bind frames_each frames_basic frames_leases frames_utc_now frames_uuid4 frames_audit
  frames_event frames_if

lemma frames_note_events: "frames (note_events R fallback k v es)"
  unfolding note_events_def by (intro frames_rules)

lemma frames_read_lease: "frames (read_lease R k)"
  unfolding read_lease_def by (intro frames_rules)

lemma frames_stale_event: "frames (stale_event R k p)"
  unfolding stale_event_def by (intro frames_rules)

lemma frames_event_evidence: "frames (event_evidence R t e a ty p)"
  unfolding event_evidence_def Let_def by (auto split: pyval.split intro!: frames_rules)

lemma frames_task_of: "frames (task_of k)"
  by (auto simp: frames_def task_of_def attempt_of_def split: sum.split)

section \<open>Triples\<close>

definition hoare :: "('w RuntimeService \<Rightarrow> bool) \<Rightarrow> ('w, 'a) service \<Rightarrow> ('a \<Rightarrow> 'w RuntimeService \<Rightarrow> bool) \<Rightarrow> bool" where
  "hoare P m Q \<longleftrightarrow> (\<forall>s. P s \<longrightarrow> service_inv (snd (m s)) \<and> (\<forall>x. fst (m s) = Returned x \<longrightarrow> Q x (snd (m s))))"

text \<open>Assertions on the core that imply the invariant.\<close>

definition also_core :: "((string \<rightharpoonup> RuntimeTaskRecord) \<times> Orchestrator \<Rightarrow> bool) \<Rightarrow> 'w RuntimeService \<Rightarrow> bool" where
  "also_core p s \<longleftrightarrow> service_inv s \<and> p (core s)"

lemma also_core_True: "also_core (\<lambda>_. True) = service_inv"
  by (auto simp: also_core_def)

lemma hoare_bind:
  assumes "hoare P m Q" and "\<And>x. hoare (Q x) (f x) Z"
  shows "hoare P (bind_action m f) Z"
  using assms unfolding hoare_def bind_action_def by (auto split: prod.splits outcome.splits)

lemma hoare_frame: "frames m \<Longrightarrow> hoare (also_core p) m (\<lambda>_. also_core p)"
  by (auto simp: hoare_def also_core_def service_inv_def frames_def)

lemma hoare_frame_bind: "frames m \<Longrightarrow> (\<And>x. hoare (also_core p) (f x) Z) \<Longrightarrow> hoare (also_core p) (bind_action m f) Z"
  by (rule hoare_bind [OF hoare_frame])

lemma hoare_read: "(\<And>s. P s \<Longrightarrow> hoare P (f (h s)) Q) \<Longrightarrow> hoare P (bind_action (read_state h) f) Q"
  by (simp add: hoare_def)

lemma hoare_conseq: "hoare P m Q \<Longrightarrow> (\<And>s. P' s \<Longrightarrow> P s) \<Longrightarrow> (\<And>x s. Q x s \<Longrightarrow> Q' x s) \<Longrightarrow> hoare P' m Q'"
  by (auto simp: hoare_def)

lemma hoare_act: "(\<And>s. P s \<Longrightarrow> service_inv s \<and> Q x s) \<Longrightarrow> hoare P (act x) Q"
  by (simp add: hoare_def)

lemma hoare_if: "(b \<Longrightarrow> hoare P m Q) \<Longrightarrow> (\<not> b \<Longrightarrow> hoare P n Q) \<Longrightarrow> hoare P (if b then m else n) Q"
  by simp

lemma hoare_framed: "frames m \<Longrightarrow> hoare (also_core p) m (\<lambda>_ _. True)"
  by (auto simp: hoare_def also_core_def service_inv_def frames_def)

lemma hoare_keeps: "keeps service_inv m \<longleftrightarrow> hoare service_inv m (\<lambda>_ _. True)"
  by (simp add: keeps_def hoare_def)

section \<open>Saving tasks\<close>

lemma put_task_state:
  "st_tasks (rs_store (snd (put_task t s))) = (st_tasks (rs_store s))(rt_task_id t \<mapsto> t)"
  "rs_completion (snd (put_task t s)) = rs_completion s"
  "fst (put_task t s) = Returned x \<Longrightarrow> x = t"
  using store_tasks(1) [of t "rs_store s"]
  by (auto simp: put_task_def on_store_def on_part_def save_task_def in_session_def split: prod.splits sum.splits option.splits)

lemma put_task_inv:
  assumes "service_inv s" and "rt_status t = SUCCEEDED \<Longrightarrow> completed_in (rs_completion s) (execution_of t)"
  shows "service_inv (snd (put_task t s))"
  using assms by (auto simp: service_inv_def core_def core_inv_def put_task_state)

text \<open>No task of this key is marked as succeeded.\<close>

definition unsettled :: "string \<Rightarrow> (string \<rightharpoonup> RuntimeTaskRecord) \<times> Orchestrator \<Rightarrow> bool" where
  "unsettled k c \<longleftrightarrow> (\<forall>t. fst c k = Some t \<longrightarrow> rt_status t \<noteq> SUCCEEDED)"

lemma hoare_put_open:
  assumes "rt_status t \<noteq> SUCCEEDED"
  shows "hoare service_inv (put_task t) (\<lambda>x s. also_core (unsettled (rt_task_id t)) s \<and> x = t)"
  unfolding hoare_def
proof (intro allI impI conjI)
  fix s assume s: "service_inv s"
  show i: "service_inv (snd (put_task t s))" using put_task_inv [OF s, of t] assms by blast
  fix x assume "fst (put_task t s) = Returned x"
  then show "x = t" by (rule put_task_state(3))
  show "also_core (unsettled (rt_task_id t)) (snd (put_task t s))"
    using i assms by (simp add: also_core_def unsettled_def core_def put_task_state)
qed

lemma hoare_put_updated:
  assumes "rt_status (f task) \<noteq> SUCCEEDED"
  shows "hoare service_inv (put_updated R f task)
    (\<lambda>x s. also_core (unsettled (rt_task_id (f task))) s \<and> (\<exists>now. x = (f task)\<lparr>rt_updated_at := now\<rparr>))"
  unfolding put_updated_def
proof (rule hoare_bind [where Q = "\<lambda>_. service_inv"])
  show "hoare service_inv (utc_now R) (\<lambda>_. service_inv)"
    using hoare_frame [OF frames_utc_now, of "\<lambda>_. True"] by (simp add: also_core_True)
  fix now
  show "hoare service_inv (put_task ((f task)\<lparr>rt_updated_at := now\<rparr>))
    (\<lambda>x s. also_core (unsettled (rt_task_id (f task))) s \<and> (\<exists>now. x = (f task)\<lparr>rt_updated_at := now\<rparr>))"
    using hoare_put_open [of "(f task)\<lparr>rt_updated_at := now\<rparr>"] assms by (auto elim: hoare_conseq)
qed

lemma hoare_put_succeeded:
  assumes "execution_of (f task) = e"
  shows "hoare (also_core (\<lambda>c. completed_in (snd c) e)) (put_updated R f task) (\<lambda>_ _. True)"
  unfolding put_updated_def
proof (rule hoare_frame_bind [OF frames_utc_now])
  fix now
  have "execution_of ((f task)\<lparr>rt_updated_at := now\<rparr>) = e" using assms by (simp add: execution_of_def)
  then show "hoare (also_core (\<lambda>c. completed_in (snd c) e)) (put_task ((f task)\<lparr>rt_updated_at := now\<rparr>)) (\<lambda>_ _. True)"
    by (auto simp: hoare_def also_core_def core_def intro!: put_task_inv)
qed

lemma hoare_task_of:
  "hoare (also_core p) (task_of k) (\<lambda>t s. also_core p s \<and> rt_task_id t = k \<and> st_tasks (rs_store s) k = Some t)"
  using hoare_frame [OF frames_task_of, of p k]
  by (auto simp: hoare_def task_of_def get_task_def also_core_def service_inv_def core_inv_def core_def attempt_of_def
      split: option.splits sum.splits)

section \<open>Completion\<close>

lemma completed_step:
  assumes "completion_step oc oc'" and "orch_inv oc" and "completed_in oc e"
  shows "completed_in oc' e"
proof -
  obtain r where r: "store_get (oc_store oc) e = Some r" "cr_state r = CS_COMPLETED"
    using assms(3) by (auto simp: completed_in_def)
  then have "already_terminal oc e = Some r"
    using assms(2) by (auto simp: already_terminal_Some orch_inv_def record_in_def record_inv_def)
  from completion_step_sealed [OF assms(2,1) this] r show ?thesis
    by (auto simp: completed_in_def already_terminal_Some sealed_def)
qed

lemma completion_inv:
  assumes "service_inv s" and "completion_step (rs_completion s) oc"
  shows "service_inv (s\<lparr>rs_completion := oc\<rparr>)"
  using assms completed_step [OF assms(2)] completion_step_inv [OF assms(2)]
  by (auto simp: service_inv_def core_def core_inv_def)

lemma hoare_completion:
  assumes "\<And>oc. completion_step oc (snd (f oc))" and "\<And>oc. orch_inv oc \<Longrightarrow> reports_result e (f oc)"
  shows "hoare service_inv (on_completion f)
    (\<lambda>out. also_core (\<lambda>c. co_state out = CS_COMPLETED \<longrightarrow> completed_in (snd c) e))"
  unfolding hoare_def
proof (intro allI impI conjI)
  fix s :: "'w RuntimeService"
  assume s: "service_inv s"
  have eq: "snd (on_completion f s) = s\<lparr>rs_completion := snd (f (rs_completion s))\<rparr>"
    by (simp add: on_completion_def on_part_def split: prod.splits sum.splits)
  show i: "service_inv (snd (on_completion f s))"
    unfolding eq by (rule completion_inv [OF s assms(1)])
  fix out
  assume "fst (on_completion f s) = Returned out"
  then have "fst (f (rs_completion s)) = Inr out"
    by (auto simp: on_completion_def on_part_def split: prod.splits sum.splits)
  moreover have "orch_inv (rs_completion s)" using s by (simp add: service_inv_def core_def core_inv_def)
  ultimately have "reports e out (snd (f (rs_completion s)))"
    using assms(2) by (auto simp: reports_result_def)
  with i show "also_core (\<lambda>c. co_state out = CS_COMPLETED \<longrightarrow> completed_in (snd c) e) (snd (on_completion f s))"
    by (auto simp: also_core_def core_def eq reports_def completed_in_def)
qed

section \<open>The run over the backends\<close>

definition call_keeps :: "('w \<Rightarrow> bool) \<Rightarrow> ('w, 'a) backend_call \<Rightarrow> bool" where
  "call_keeps I f \<longleftrightarrow> (\<forall>w g. I w \<longrightarrow> I (fst (snd (f (w, g)))))"

definition backend_keeps :: "('w \<Rightarrow> bool) \<Rightarrow> 'w ExecutionBackend \<Rightarrow> bool" where
  "backend_keeps I b \<longleftrightarrow> call_keeps I (be_health b) \<and> (\<forall>i d. call_keeps I (be_prepare b i d))
     \<and> (\<forall>i d. call_keeps I (be_validate b i d)) \<and> (\<forall>i d p. call_keeps I (be_execute b i d p))
     \<and> (\<forall>e. call_keeps I (be_cleanup b e))"

definition safe :: "('w \<Rightarrow> bool) \<Rightarrow> 'w run_state \<Rightarrow> bool" where
  "safe I s \<longleftrightarrow> I (rn_world s)"

lemma safe_simps [simp]:
  "safe I (audit V it ty i h r p s) = safe I s" "safe I (complete_attempt V a st f r u es s) = safe I s"
  "safe I (note_failure m fc s) = safe I s" "safe I (snd (fall_back V it i fc m s)) = safe I s"
  "safe I (s\<lparr>rn_registry := g\<rparr>) = safe I s" "safe I (s\<lparr>rn_attempted := at, rn_ticks := n\<rparr>) = safe I s"
  "safe I (snd (on_exception V it i a e s)) = safe I s" "safe I (snd (exhausted it d s)) = safe I s"
  by (simp_all add: safe_def run_simps fall_back_def on_exception_def exhausted_def Let_def)

lemma await_keeps:
  assumes "call_keeps I f" and "safe I s"
  shows "safe I (snd (await_call f s))"
  using assms by (simp add: call_keeps_def safe_def await_call_def split: prod.splits) (metis fst_conv snd_conv)

lemma try_backend_keeps:
  assumes "backend_keeps I b" and "safe I s"
  shows "safe I (snd (try_backend V it d b i a s))"
proof -
  let ?h = "Some (ed_selected_harness_id d)"
  obtain r1 s1 where p: "await_call (be_prepare b it d) (audit V it ''backend.preparing'' i ?h None [] s) = (r1, s1)"
    by (metis surj_pair)
  have s1: "safe I s1"
    using await_keeps [of I "be_prepare b it d" "audit V it ''backend.preparing'' i ?h None [] s"] p assms
    by (simp add: backend_keeps_def)
  obtain r2 s2 where v: "await_call (be_validate b it d) s1 = (r2, s2)" by (metis surj_pair)
  have s2: "safe I s2"
    using await_keeps [of I "be_validate b it d" s1] v s1 assms(1) by (simp add: backend_keeps_def)
  let ?s2 = "audit V it ''execution.started'' i ?h None [] (audit V it ''backend.ready'' i ?h None [] s2)"
  have s3: "safe I (snd (await_call (be_execute b it d x) ?s2))" for x
    using await_keeps [of I "be_execute b it d x" ?s2] s2 assms(1) by (simp add: backend_keeps_def)
  show ?thesis
  proof (cases r1)
    case (Returned x)
    obtain r3 s3' where e: "await_call (be_execute b it d x) ?s2 = (r3, s3')" by (metis surj_pair)
    then have "safe I s3'" using s3 [of x] by simp
    then show ?thesis
      using p v e Returned s1 s2 by (cases r2; cases r3) (simp_all add: try_backend_def Let_def case_prod_beta)
  qed (use p s1 in \<open>simp_all add: try_backend_def Let_def\<close>)
qed

lemma guarded_keeps:
  assumes "backend_keeps I b" and "safe I s"
  shows "safe I (snd (guarded_backend V it d b i a s))"
proof -
  obtain t s1 where t: "try_backend V it d b i a s = (t, s1)" by (metis surj_pair)
  have s1: "safe I s1" using try_backend_keeps [OF assms, of V it d i a] t by simp
  define u where "u = (case t of Returned t \<Rightarrow> (t, s1) | Raised e \<Rightarrow> on_exception V it i a e s1 | Cancelled \<Rightarrow> (Task_Cancelled, s1))"
  have "safe I (snd u)" using s1 by (simp add: u_def split: outcome.split)
  then have "safe I (snd (await_call (be_cleanup b (ei_execution_id it)) (snd u)))"
    using assms(1) by (intro await_keeps) (simp_all add: backend_keeps_def)
  moreover have "snd (guarded_backend V it d b i a s) = snd (await_call (be_cleanup b (ei_execution_id it)) (snd u))"
    by (simp add: guarded_backend_def t u_def case_prod_beta split: outcome.split prod.split)
  ultimately show ?thesis by simp
qed

lemma turn_keeps:
  assumes "\<And>b. registry_get_backend (er_registry rt) i = Inr b \<Longrightarrow> backend_keeps I b" and "safe I s"
  shows "safe I (snd (backend_turn V rt it d i s))"
proof (cases "registry_get_backend (er_registry rt) i")
  case (Inl e)
  then show ?thesis
    using assms(2) by (simp add: backend_turn_def Let_def split: sum.split option.split)
next
  case (Inr b)
  let ?s1 = "(s\<lparr>rn_attempted := rn_attempted s @ [i], rn_ticks := rn_ticks s + 1\<rparr>)
    \<lparr>rn_registry := update_attempt (ei_execution_id it) (ar_attempt_id (start_attempt V it d i s)) i
       (Some (ed_selected_harness_id d)) (Some i) (rn_registry s)\<rparr>"
  obtain r s3 where h: "await_call (be_health b) ?s1 = (r, s3)" by (metis surj_pair)
  have "safe I s3"
    using await_keeps [of I "be_health b" ?s1] h assms(1) [OF Inr] assms(2) by (simp add: backend_keeps_def)
  then show ?thesis
    using assms(2) Inr h guarded_keeps [OF assms(1) [OF Inr]]
    by (auto simp: backend_turn_def Let_def split: sum.split option.split outcome.split)
qed

lemma loop_keeps:
  assumes "\<And>i b. registry_get_backend (er_registry rt) i = Inr b \<Longrightarrow> backend_keeps I b" and "safe I s"
  shows "safe I (snd (backend_loop V rt it d is s))"
  using assms(2)
proof (induction "is" arbitrary: s)
  case (Cons i "is")
  obtain t s1 where t: "backend_turn V rt it d i s = (t, s1)" by (metis surj_pair)
  have "safe I (snd (backend_turn V rt it d i s))" by (rule turn_keeps) (rule assms(1), assumption, rule Cons.prems)
  then have "safe I s1" using t by simp
  then show ?case
    using Cons.IH t safe_simps(8) [of I it d s1] by (cases t) (simp_all add: case_prod_beta)
qed (simp add: case_prod_beta)

lemma execute_keeps:
  assumes "\<And>i b. registry_get_backend (er_registry rt) i = Inr b \<Longrightarrow> backend_keeps I b" and "I w"
  shows "I (rn_world (snd (execute_with_fallback V rt it d (w, g) n)))"
proof -
  have "safe I (snd (execute_with_fallback V rt it d (w, g) n))"
    unfolding execute_with_fallback_def Let_def
    by (rule loop_keeps [OF assms(1)]) (use assms(2) in \<open>simp_all add: safe_def run_simps\<close>)
  then show ?thesis by (simp add: safe_def)
qed

text \<open>Every result speaks of the execution of the intent.\<close>

lemma result_execution: "xr_execution_id (result_fields good it d i st m at s) = ei_execution_id it"
  by (simp add: result_fields_def execution_result_def)

lemma guarded_execution:
  "guarded_backend V it d b i a s = (Return_Result r, s1) \<Longrightarrow> xr_execution_id r = ei_execution_id it"
  by (auto simp: guarded_backend_def try_backend_def on_exception_def fall_back_def Let_def success_result_def
      result_execution split: prod.splits outcome.splits if_splits)

lemma turn_execution:
  "backend_turn V rt it d i s = (Return_Result r, s1) \<Longrightarrow> xr_execution_id r = ei_execution_id it"
  by (auto simp: backend_turn_def Let_def result_execution cancelled_result_def fall_back_def
      split: if_splits sum.splits option.splits prod.splits outcome.splits dest: guarded_execution)

lemma loop_execution:
  "backend_loop V rt it d is s = (Returned r, s1) \<Longrightarrow> xr_execution_id r = ei_execution_id it"
proof (induction "is" arbitrary: s)
  case (Cons i "is")
  obtain t s2 where t: "backend_turn V rt it d i s = (t, s2)" by (metis surj_pair)
  then show ?case
    using Cons by (cases t) (auto simp: exhausted_def Let_def result_execution dest: turn_execution)
qed (auto simp: exhausted_def Let_def result_execution)

section \<open>The coding worker\<close>

lemma outside_keeps: "keeps I m \<Longrightarrow> keeps (\<lambda>st. I (fst st)) (outside m)"
  by (auto simp: keeps_def outside_def split: prod.splits)

lemma worker_keeps:
  assumes set_ls: "\<And>ls s. I s \<Longrightarrow> I (wh_set_leases H ls s)" and now: "\<And>s. I s \<Longrightarrow> I (snd (wh_now H s))"
    and new: "\<And>s. I s \<Longrightarrow> I (snd (wh_fresh H s))" and prog: "\<And>l s. I s \<Longrightarrow> I (snd (wh_progress H l s))"
    and disc: "\<And>k s. I s \<Longrightarrow> I (wh_discard H k s)" and run: "\<And>p c. keeps I (wh_adapter H p c)"
  shows "keeps I (worker_execute H task)"
proof -
  have clock: "keeps I (clock_read H)" and fr: "keeps I (fresh_read H)"
    using now new by (auto simp: keeps_def clock_read_def fresh_read_def split: prod.splits) (metis snd_conv)+
  have call: "keeps I (lease_call H f)" for f :: "LeaseService \<Rightarrow> LeaseService \<times> 'b result"
    unfolding lease_call_def by (rule keeps_on_part) (rule set_ls)
  have beats: "keeps I (handle_heartbeat H l)" "keeps I (handle_release H l)" for l
    unfolding handle_heartbeat_def handle_release_def by (intro keeps_rules clock call)+
  have acq: "keeps I (acquire_exclusive_lease H a b c)" for a b c
    unfolding acquire_exclusive_lease_def Let_def by (intro keeps_rules clock call fr)
  let ?J = "\<lambda>st. I (fst st)"
  have em: "keeps ?J (emit_progress H l)" for l
    using prog by (auto simp: keeps_def emit_progress_def case_prod_beta)
  have bt: "keeps ?J (beat H l)" for l unfolding beat_def by (intro outside_keeps beats)
  have fin: "keeps ?J (finished a b c d e)" for a b c d e unfolding finished_def by (rule keeps_read)
  have unl: "keeps ?J (unless_cancelled H t l m)" if "keeps ?J m" for t l m
    unfolding unless_cancelled_def by (intro keeps_rules fin that)
  have files: "keeps ?J (\<lambda>st. attempt_of (r st) st)" for r :: "_ \<Rightarrow> 'c result"
    by (auto simp: keeps_def attempt_of_def split: sum.split)
  have finish: "keeps ?J (worker_finish H t l sf an)" for t l sf an
    unfolding worker_finish_def Let_def by (intro keeps_rules em bt files unl)
  have wrun: "keeps ?J (worker_run H t l sf)" for t l sf
  proof -
    have "?J (snd (worker_run H t l sf st))" if i: "?J st" for st
    proof -
      obtain r st1 where r: "outside (wh_adapter H (build_codex_prompt t) (adapter_context t sf)) st = (r, st1)"
        by (cases "outside (wh_adapter H (build_codex_prompt t) (adapter_context t sf)) st")
      have j: "?J st1" using keepsD [OF outside_keeps [OF run], of st] i r by (metis snd_conv)
      have "?J (snd (bind_action (beat H l) (\<lambda>_. finished t ''failed'' m (Some c) l) st1))" for m c
        by (rule keepsD [OF keeps_bind [OF bt fin] j])
      then show ?thesis
        using j keepsD [OF finish, of st1] r by (auto simp: worker_run_def split: outcome.splits py_error.splits)
    qed
    then show ?thesis by (simp add: keeps_def)
  qed
  have body: "keeps ?J (worker_body H t l)" for t l
    unfolding worker_body_def by (intro keeps_rules em bt files unl wrun)
  have guard: "?J (snd (worker_guarded H t l st))" if "?J st" for t l st
    using keepsD [OF body, of st t l] that
    by (auto simp: worker_guarded_def finished_def split: prod.splits outcome.splits py_error.splits)
  have clean: "I (worker_cleanup H t l s)" if "I s" for t l s
    unfolding worker_cleanup_def by (intro disc keepsD [OF beats(2)] that)
  show ?thesis
    unfolding worker_execute_def
  proof (rule keeps_bind [OF acq])
    fix h
    show "keeps I (case h of None \<Rightarrow> act (worker_result task ''failed'' ''duplicate task lease prevented''
                       (Some ''duplicate task lease prevented'') None [])
       | Some lease \<Rightarrow> (\<lambda>s. case emit_progress H (PUBLIC_PROGRESS_EVENTS ! 0) (s, []) of
                  (Returned _, st) \<Rightarrow>
                    (let (r, st1) = worker_guarded H task lease st in (r, worker_cleanup H task lease (fst st1)))
                | (Raised e, st) \<Rightarrow> (Raised e, fst st)
                | (Cancelled, st) \<Rightarrow> (Cancelled, fst st)))"
    proof (cases h)
      case (Some lease)
      have "I (worker_cleanup H task lease (fst (snd (worker_guarded H task lease st))))" if "?J st" for st
        by (intro clean guard that)
      moreover have "?J (snd (emit_progress H (PUBLIC_PROGRESS_EVENTS ! 0) (s, [])))" if "I s" for s
        using keepsD [OF em, of "(s, [])"] that by simp
      ultimately show ?thesis
        using Some by (auto simp: keeps_def split: prod.splits outcome.splits) (metis fst_conv snd_conv)+
    qed (simp add: keeps_act)
  qed
qed

section \<open>What the service relies on\<close>

text \<open>The hash is never empty; the backends, their cancel functions and the harness of the coding worker
  keep the invariant; a decision is about its intent.\<close>

locale wired =
  fixes R :: "'w wiring"
  assumes sha: "env_sha256 (wi_env R) x \<noteq> []"
    and backends: "registry_get_backend (er_registry (wi_router R)) i = Inr b \<Longrightarrow> backend_keeps service_inv b"
    and cancels: "call_keeps service_inv (wi_cancel R e i)"
    and adapter: "keeps service_inv (wh_adapter (wi_worker R) prompt context)"
    and decides: "wi_select R intent s = Inr d \<Longrightarrow> ed_execution_id d = ei_execution_id intent"
begin

lemma run_backends_hoare:
  "hoare service_inv (run_backends R intent d) (\<lambda>res s. service_inv s \<and> xr_execution_id res = ei_execution_id intent)"
  unfolding hoare_def
proof (intro allI impI)
  fix s :: "'w RuntimeService"
  assume s: "service_inv s"
  obtain r run where e: "execute_with_fallback (wi_run_env R) (wi_router R) intent d (s, rs_registry s) (rs_run_ticks s) = (r, run)"
    by (metis surj_pair)
  have "service_inv (rn_world run)"
    using execute_keeps [where I = service_inv and V = "wi_run_env R" and rt = "wi_router R" and it = intent and d = d
        and g = "rs_registry s" and n = "rs_run_ticks s", OF backends s] e by simp
  then have "service_inv ((rn_world run)\<lparr>rs_registry := rn_registry run, rs_run_ticks := rn_ticks run\<rparr>)"
    by (simp add: service_inv_def core_def)
  moreover have "xr_execution_id x = ei_execution_id intent" if "r = Returned x" for x
    by (rule loop_execution [OF e [unfolded that execute_with_fallback_def Let_def]])
  ultimately show "service_inv (snd (run_backends R intent d s)) \<and> (\<forall>x. fst (run_backends R intent d s) = Returned x \<longrightarrow>
      service_inv (snd (run_backends R intent d s)) \<and> xr_execution_id x = ei_execution_id intent)"
    using e by (simp add: run_backends_def)
qed

lemma coding_worker_hoare:
  "hoare service_inv (execute_coding_worker R t prompt path d intent)
     (\<lambda>res s. service_inv s \<and> xr_execution_id res = ei_execution_id intent)"
  unfolding execute_coding_worker_def
proof (rule hoare_bind [where Q = "\<lambda>_. service_inv"])
  let ?H = "service_worker R t intent"
  have "keeps service_inv (worker_execute ?H (coding_task t prompt path intent))"
    by (rule worker_keeps)
       (simp_all add: service_worker_def adapter, simp_all add: service_inv_def core_def store_simps)
  then show "hoare service_inv (worker_execute ?H (coding_task t prompt path intent)) (\<lambda>_. service_inv)"
    by (simp add: keeps_def hoare_def)
  fix k
  show "hoare service_inv (bind_action (task_event (rt_task_id t)
       [(''event_type'', PyStr ''coding_worker.result''), (''execution_id'', PyStr (ei_execution_id intent)),
        (''result'', PyDict (coding_result_as_dict k))]) (\<lambda>_. act (coding_execution_result t intent d k)))
     (\<lambda>res s. service_inv s \<and> xr_execution_id res = ei_execution_id intent)"
    unfolding also_core_True [symmetric]
    by (intro hoare_frame_bind frames_event hoare_act)
       (simp add: also_core_def coding_execution_result_def Let_def execution_result_def)
qed

lemma settle_task_hoare:
  assumes "rt_status t \<noteq> SUCCEEDED"
  shows "hoare (also_core (\<lambda>c. co_state out = CS_COMPLETED \<longrightarrow> completed_in (snd c) (execution_of t)))
    (settle_task R t res out) (\<lambda>_ _. True)"
proof -
  let ?P = "also_core (\<lambda>c. co_state out = CS_COMPLETED \<longrightarrow> completed_in (snd c) (execution_of t)) :: 'w RuntimeService \<Rightarrow> bool"
  have open_put: "hoare ?P (put_updated R f t) (\<lambda>_ _. True)" if "rt_status (f t) \<noteq> SUCCEEDED" for f
    using hoare_put_updated [of f t R, OF that] by (rule hoare_conseq) (auto simp: also_core_def)
  have done_put: "hoare ?P (put_updated R f t) (\<lambda>_ _. True)"
    if "execution_of (f t) = execution_of t" "co_state out = CS_COMPLETED" for f
    using hoare_put_succeeded [of f t, OF that(1)] by (rule hoare_conseq) (auto simp: also_core_def that(2))
  show ?thesis
    unfolding settle_task_def Let_def
    by (intro hoare_if hoare_frame_bind frames_basic frames_if open_put done_put) (auto simp: execution_of_def)
qed

lemma complete_task_hoare:
  assumes "rt_status t \<noteq> SUCCEEDED" and "execution_of t = xr_execution_id res"
  shows "hoare service_inv (complete_task R k t d res) (\<lambda>_ _. True)"
proof -
  let ?cx = "\<lambda>a. completion_context t (xr_execution_id res) a a (xr_backend_id res) (Some (xr_harness_id res))"
  have cx: "cc_execution_id (?cx a) = execution_of t" for a
    by (simp add: completion_context_def assms(2))
  have st: "completion_step oc (snd (complete_from_backend (wi_env R) res (?cx a) dd [] oc))" for oc a dd
    by (rule completion_step.s_backend) (rule sha)
  have rep: "reports_result (execution_of t) (complete_from_backend (wi_env R) res (?cx a) dd [] oc)" if "orch_inv oc" for oc a dd
    using complete_from_backend_reports [OF sha that, of "?cx a"] by (simp add: cx)
  have 1: "hoare (also_core (\<lambda>_. True)) (bind_action (on_completion (complete_from_backend (wi_env R) res (?cx a)
         (Some (decision_as_dict d)) [])) (\<lambda>out. bind_action (note_events R ''completion.event'' k True (co_events out)) (\<lambda>_.
     settle_task R t res out))) (\<lambda>_ _. True)" for a
    unfolding also_core_True
    by (rule hoare_bind [OF hoare_completion [OF st rep]])
       (assumption, rule hoare_frame_bind [OF frames_note_events settle_task_hoare [OF assms(1)]])
  show ?thesis
    unfolding complete_task_def also_core_True [symmetric]
    by (intro hoare_frame_bind frames_basic frames_update 1) (simp add: core_def)
qed

lemma decided_task_hoare:
  assumes "rt_status t \<noteq> SUCCEEDED"
  shows "hoare service_inv (decided_task R k t d)
    (\<lambda>t1 s. service_inv s \<and> rt_status t1 \<noteq> SUCCEEDED \<and> rt_execution_id t1 = Some (ed_execution_id d))"
  unfolding decided_task_def
proof (rule hoare_bind [OF hoare_put_updated])
  fix t1
  let ?p = "\<lambda>_ :: (string \<rightharpoonup> RuntimeTaskRecord) \<times> Orchestrator. True"
  let ?f = "\<lambda>t. t\<lparr>rt_execution_id := Some (ed_execution_id d),
         rt_selected_backend_id := Some (ed_selected_backend_id d),
         rt_selected_harness_id := Some (ed_selected_harness_id d),
         rt_selected_connector_id := Some (or_str (ed_selected_connector_id d) (ed_selected_harness_id d)),
         rt_execution_decision_reason := Some (ed_reason d), rt_execution_fallback_order := ed_fallback_order d,
         rt_provider_routing_required := ed_provider_routing_required d\<rparr>"
  let ?rest = "bind_action (audit_task R ''backend.selected'' k (decision_as_dict d)) (\<lambda>_.
     bind_action (metric (\<lambda>m. m\<lparr>me_tasks_by_backend := increment (ed_selected_backend_id d) (me_tasks_by_backend m)\<rparr>)) (\<lambda>_.
     bind_action (task_event k
         [(''event_type'', PyStr ''backend.selected''), (''execution_id'', PyStr (ed_execution_id d)),
          (''backend_id'', PyStr (ed_selected_backend_id d)), (''harness_id'', PyStr (ed_selected_harness_id d)),
          (''reason'', PyStr (ed_reason d)), (''fallback_order'', str_list (ed_fallback_order d))]) (\<lambda>_.
     if ed_provider_routing_required d then
       put_task (t1\<lparr>rt_selected_provider_id := Some ''fireworks'',
         rt_selected_provider_route_manager_id := Some ''fireconnect'',
         rt_provider_selection_reason := Some ''provider_routing_required_via_execution_router''\<rparr>)
     else act t1)))"
  have "hoare (also_core ?p) ?rest (\<lambda>t2 s. service_inv s \<and> rt_status t2 \<noteq> SUCCEEDED \<and> rt_execution_id t2 = Some (ed_execution_id d))"
    if "rt_status t1 \<noteq> SUCCEEDED" "rt_execution_id t1 = Some (ed_execution_id d)"
    unfolding also_core_True
    using that hoare_put_open [of "t1\<lparr>rt_selected_provider_id := Some ''fireworks'',
         rt_selected_provider_route_manager_id := Some ''fireconnect'',
         rt_provider_selection_reason := Some ''provider_routing_required_via_execution_router''\<rparr>"]
    by (intro hoare_frame_bind [where p = ?p, unfolded also_core_True] frames_audit frames_basic frames_event hoare_if hoare_act)
       (auto elim!: hoare_conseq simp: also_core_def)
  then show "hoare (\<lambda>s. also_core (unsettled (rt_task_id (?f t))) s \<and> (\<exists>now. t1 = (?f t)\<lparr>rt_updated_at := now\<rparr>)) ?rest
      (\<lambda>t2 s. service_inv s \<and> rt_status t2 \<noteq> SUCCEEDED \<and> rt_execution_id t2 = Some (ed_execution_id d))"
    unfolding hoare_def using assms by (auto simp: also_core_def)
qed (simp add: assms)

lemma perform_task_hoare:
  assumes "rt_status t \<noteq> SUCCEEDED" and "rt_execution_id t = Some (ei_execution_id intent)" and "ei_execution_id intent \<noteq> []"
  shows "hoare service_inv (perform_task R k prompt path intent d t) (\<lambda>_ _. True)"
proof -
  have e: "execution_of t = ei_execution_id intent" using assms(2,3) by (simp add: execution_of_def or_str_def)
  have tail: "hoare (also_core (\<lambda>_. True)) (if ed_selected_backend_id d = ''joymesh'' \<and> xr_ok res then leased_task k
      else complete_task R k t d res) (\<lambda>_ _. True)" if "xr_execution_id res = ei_execution_id intent" for res
    using complete_task_hoare [OF assms(1), of res k d] e that
    by (auto simp: leased_task_def also_core_True
        intro!: hoare_framed [where p = "\<lambda>_. True", unfolded also_core_True] frames_bind frames_task_of frames_basic)
  have rest: "hoare (\<lambda>s. service_inv s \<and> xr_execution_id res = ei_execution_id intent)
     (bind_action (note_events R ''backend.event'' k True (xr_audits res)) (\<lambda>_.
       if ed_selected_backend_id d = ''joymesh'' \<and> xr_ok res then leased_task k
       else complete_task R k t d res)) (\<lambda>_ _. True)" for res
  proof (cases "xr_execution_id res = ei_execution_id intent")
    case True
    from hoare_frame_bind [OF frames_note_events tail [OF True]] show ?thesis
      by (rule hoare_conseq) (auto simp: also_core_True)
  qed (simp add: hoare_def)
  show ?thesis
    unfolding perform_task_def
    by (rule hoare_bind [OF _ rest]) (intro hoare_if coding_worker_hoare run_backends_hoare)
qed

lemma route_task_hoare: "hoare (also_core (unsettled k)) (route_task R k) (\<lambda>_ _. True)"
  unfolding route_task_def
proof (rule hoare_bind [OF hoare_task_of])
  fix t
  let ?body = "bind_action (read_state (\<lambda>s. (case rs_task_prompts s k of None \<Rightarrow> [] | Some p \<Rightarrow> p,
         resolve_workspace_path s (rt_workspace_id t),
         rs_nodes s \<noteq> [] \<or> opt_truthy (rt_required_node t)))) (\<lambda>(prompt, path, remote).
     bind_action (uuid4 R) (\<lambda>u.
     bind_action (attempt_of (plan (wi_analyse R) (wi_normalise R) u
         (mission_spec_from_task t prompt path (Some (rt_workspace_id t)) (if remote then ''remote'' else ''local'') remote))) (\<lambda>intent.
     bind_action (audit_task R ''execution.planned'' k
         [(''execution_id'', PyStr (ei_execution_id intent)),
          (''required_capabilities'', str_list (sort (map capability_value (ei_required_capabilities intent)))),
          (''preferred_harness'', opt_str (ei_preferred_harness intent)),
          (''requires_provider_route'', PyBool (ei_requires_provider_route intent))]) (\<lambda>_.
     bind_action (read_state (wi_select R intent)) (\<lambda>decision.
     case decision of
       Inl e \<Rightarrow>
         bind_action (put_updated R (\<lambda>t. t\<lparr>rt_status := REJECTED, rt_detail := Some (error_text e),
             rt_execution_id := Some (ei_execution_id intent)\<rparr>) t) (\<lambda>rejected.
         bind_action (audit_task R ''execution.blocked'' k
             [(''execution_id'', PyStr (ei_execution_id intent)), (''error'', PyStr (take 200 (error_text e)))]) (\<lambda>_.
         act rejected))
     | Inr d \<Rightarrow> bind_action (decided_task R k t d) (perform_task R k prompt path intent d))))))"
  have chosen: "hoare service_inv (bind_action (decided_task R k t d) (perform_task R k prompt path intent d)) (\<lambda>_ _. True)"
    if "rt_status t \<noteq> SUCCEEDED" "ed_execution_id d = ei_execution_id intent" "ei_execution_id intent \<noteq> []" for d prompt path intent
  proof (rule hoare_bind [OF decided_task_hoare [OF that(1)]])
    fix t1
    show "hoare (\<lambda>s. service_inv s \<and> rt_status t1 \<noteq> SUCCEEDED \<and> rt_execution_id t1 = Some (ed_execution_id d))
        (perform_task R k prompt path intent d t1) (\<lambda>_ _. True)"
      using perform_task_hoare [of t1 intent k prompt path d] that(2,3) by (auto simp: hoare_def)
  qed
  have rejected: "hoare service_inv (bind_action (put_updated R f t) (\<lambda>x. bind_action (audit_task R ty k p) (\<lambda>_. act x))) (\<lambda>_ _. True)"
    if "rt_status (f t) \<noteq> SUCCEEDED" for f ty p
    by (rule hoare_bind [OF hoare_put_updated [of f t R, OF that]])
       (auto simp: hoare_def also_core_def service_inv_def frames_bind [OF frames_audit frames_basic(1), unfolded frames_def, rule_format])
  have select: "hoare service_inv (bind_action (read_state (wi_select R intent)) (\<lambda>decision.
     case decision of
       Inl e \<Rightarrow>
         bind_action (put_updated R (\<lambda>t. t\<lparr>rt_status := REJECTED, rt_detail := Some (error_text e),
             rt_execution_id := Some (ei_execution_id intent)\<rparr>) t) (\<lambda>rejected.
         bind_action (audit_task R ''execution.blocked'' k
             [(''execution_id'', PyStr (ei_execution_id intent)), (''error'', PyStr (take 200 (error_text e)))]) (\<lambda>_.
         act rejected))
     | Inr d \<Rightarrow> bind_action (decided_task R k t d) (perform_task R k prompt path intent d))) (\<lambda>_ _. True)"
    if "rt_status t \<noteq> SUCCEEDED" "ei_execution_id intent \<noteq> []" for intent prompt path
  proof (rule hoare_read)
    fix s :: "'w RuntimeService"
    show "hoare service_inv (case wi_select R intent s of
       Inl e \<Rightarrow>
         bind_action (put_updated R (\<lambda>t. t\<lparr>rt_status := REJECTED, rt_detail := Some (error_text e),
             rt_execution_id := Some (ei_execution_id intent)\<rparr>) t) (\<lambda>rejected.
         bind_action (audit_task R ''execution.blocked'' k
             [(''execution_id'', PyStr (ei_execution_id intent)), (''error'', PyStr (take 200 (error_text e)))]) (\<lambda>_.
         act rejected))
     | Inr d \<Rightarrow> bind_action (decided_task R k t d) (perform_task R k prompt path intent d)) (\<lambda>_ _. True)"
      using rejected chosen [OF that(1) decides that(2)] by (cases "wi_select R intent s") simp_all
  qed
  have "hoare service_inv ?body (\<lambda>_ _. True)" if "rt_status t \<noteq> SUCCEEDED"
  proof -
    have planned: "hoare (also_core (\<lambda>_. True)) (bind_action (attempt_of (plan a n u m)) f) (\<lambda>_ _. True)"
      if "\<And>intent. ei_execution_id intent \<noteq> [] \<Longrightarrow> hoare (also_core (\<lambda>_. True)) (f intent) (\<lambda>_ _. True)"
      for a n u m and f :: "ExecutionIntent \<Rightarrow> ('w, RuntimeTaskRecord) service"
      using that plan_fields(1) [of a n u m] by (cases "plan a n u m") (auto simp: hoare_def also_core_def)
    show ?thesis
      unfolding also_core_True [symmetric]
      by (rule hoare_frame_bind [OF frames_basic(4)], unfold case_prod_beta, rule hoare_frame_bind [OF frames_uuid4],
          rule planned, rule hoare_frame_bind [OF frames_audit]) (use select [OF that] in \<open>simp only: also_core_True\<close>)
  qed
  then show "hoare (\<lambda>s. also_core (unsettled k) s \<and> rt_task_id t = k \<and> st_tasks (rs_store s) k = Some t) ?body (\<lambda>_ _. True)"
    unfolding hoare_def by (auto simp: also_core_def unsettled_def core_def)
qed

end

end
