(* ===== verification/Service_Operations.thy ===== *)
theory Service_Operations
  imports Service_Invariants
begin

text \<open>
  The public methods of the runtime service keep its invariant, under the laws of the locale \<open>wired\<close>;
  so does every sequence of them (\<open>service_step\<close>).
\<close>

section \<open>Rules for actions that start from the invariant\<close>

lemma hoare_pure: "(A \<Longrightarrow> hoare P m Q) \<Longrightarrow> hoare (\<lambda>s. P s \<and> A) m Q"
  by (auto simp: hoare_def)

lemma inv_act: "hoare service_inv (act x) (\<lambda>_ _. True)"
  by (simp add: hoare_def)

lemma inv_fail: "hoare service_inv (fail e) (\<lambda>_ _. True)"
  by (simp add: hoare_def)

lemma inv_framed: "frames m \<Longrightarrow> hoare service_inv m (\<lambda>_ _. True)"
  using hoare_framed [of m "\<lambda>_. True"] by (simp add: also_core_True)

lemma inv_frame: "frames m \<Longrightarrow> (\<And>x. hoare service_inv (f x) Z) \<Longrightarrow> hoare service_inv (bind_action m f) Z"
  using hoare_frame_bind [of m "\<lambda>_. True" f Z] by (simp add: also_core_True)

lemma inv_then: "hoare P m (\<lambda>_ _. True) \<Longrightarrow> (\<And>x. hoare service_inv (f x) Z) \<Longrightarrow> hoare P (bind_action m f) Z"
  by (rule hoare_bind [where Q = "\<lambda>_. service_inv"]) (auto simp: hoare_def)

lemma inv_task:
  assumes "\<And>t. rt_task_id t = k \<Longrightarrow> hoare service_inv (f t) Z"
  shows "hoare service_inv (bind_action (task_of k) f) Z"
proof (rule hoare_bind [where Q = "\<lambda>t s. service_inv s \<and> rt_task_id t = k"])
  show "hoare service_inv (task_of k) (\<lambda>t s. service_inv s \<and> rt_task_id t = k)"
    using hoare_task_of [of "\<lambda>_. True" k] by (rule hoare_conseq) (simp_all add: also_core_True)
qed (rule hoare_pure, rule assms)

lemma inv_put: "rt_status t \<noteq> SUCCEEDED \<Longrightarrow> hoare service_inv (put_task t) (\<lambda>_ _. True)"
  by (rule hoare_conseq [OF hoare_put_open]) simp_all

lemma inv_put_updated: "rt_status (f t) \<noteq> SUCCEEDED \<Longrightarrow> hoare service_inv (put_updated R f t) (\<lambda>_ _. True)"
  by (rule hoare_conseq [OF hoare_put_updated]) simp_all

text \<open>A task that is saved with another status than succeeded may be routed.\<close>

lemma inv_reopen:
  assumes "rt_status (f t) \<noteq> SUCCEEDED" and "rt_task_id (f t) = k"
    and "\<And>x. hoare (also_core (unsettled k)) (g x) Z"
  shows "hoare service_inv (bind_action (put_updated R f t) g) Z"
  by (rule hoare_bind [OF hoare_put_updated [where f = f and task = t, OF assms(1)]], rule hoare_conseq [OF assms(3)]) (simp_all add: assms(2))

lemma frames_policy: "frames (\<lambda>s. attempt_of (h s) s)"
  by (auto simp: frames_def attempt_of_def split: sum.split)

lemma frames_prompt: "frames (update_state (\<lambda>s. s\<lparr>rs_task_prompts := g s\<rparr>))"
  by (rule frames_update) (simp add: core_def)

lemma frames_attempts: "frames (update_state (\<lambda>s. s\<lparr>rs_authoritative_attempts := g s\<rparr>))"
  by (rule frames_update) (simp add: core_def)

lemma frames_rows:
  "frames (on_store (save_candidates ids clocks k cs))" "frames (on_store (save_lease l))"
  "frames (on_store (save_attempt a))" "frames (on_store (save_placement u p))"
  by (rule frames_store, simp add: store_simps)+

lemmas frames_more = frames_rules frames_policy frames_prompt frames_attempts frames_rows frames_read_lease frames_stale_event
  frames_event_evidence frames_note_events frames_task_of

lemma inv_leases:
  assumes "\<And>r. hoare service_inv (f r) Z"
  shows "hoare service_inv (\<lambda>s. f (h s) (s\<lparr>rs_leases := l s\<rparr>)) Z"
  using assms unfolding hoare_def by (simp add: service_inv_def core_def)

lemmas inv_frames = inv_frame [OF frames_audit] inv_frame [OF frames_event] inv_frame [OF frames_basic(3)]
  inv_frame [OF frames_basic(4)] inv_frame [OF frames_basic(5)] inv_frame [OF frames_basic(6)] inv_frame [OF frames_leases]
  inv_frame [OF frames_utc_now] inv_frame [OF frames_uuid4] inv_frame [OF frames_policy] inv_frame [OF frames_prompt]
  inv_frame [OF frames_attempts] inv_frame [OF frames_rows(1)] inv_frame [OF frames_rows(2)] inv_frame [OF frames_rows(3)]
  inv_frame [OF frames_read_lease] inv_frame [OF frames_stale_event] inv_frame [OF frames_event_evidence]
  inv_frame [OF frames_note_events]

lemmas inv_steps = inv_act inv_fail inv_task inv_then [OF inv_put_updated] inv_then [OF inv_put] hoare_if

section \<open>The methods\<close>

lemma register_node_inv: "hoare service_inv (register_node R snapshot) (\<lambda>_ _. True)"
  unfolding register_node_def Let_def
  by (intro inv_framed frames_more) (rule frames_update, simp add: core_def)

lemma register_placement_inv: "hoare service_inv (register_placement R placement) (\<lambda>_ _. True)"
  unfolding register_placement_def by (intro inv_framed frames_more)

lemma mark_offered_inv: "hoare service_inv (mark_offered R k token) (\<lambda>_ _. True)"
  unfolding mark_offered_def
proof (rule inv_frame [OF frames_read_lease])
  fix l
  show "hoare service_inv (case l of
         Some l \<Rightarrow>
           if tl_fencing_token l \<noteq> token then
             bind_action (stale_event R k [(''fencing_token'', PyInt token)])
               (\<lambda>_. fail (PermissionError ''stale fencing token''))
           else
             bind_action (task_of k) (\<lambda>task.
             bind_action (put_updated R (\<lambda>t. t\<lparr>rt_status := OFFERED\<rparr>) task) (\<lambda>updated.
             bind_action (audit_task R ''task.offered'' k [(''lease_id'', PyStr (tl_lease_id l))]) (\<lambda>_.
             act updated)))
       | None \<Rightarrow>
           bind_action (stale_event R k [(''fencing_token'', PyInt token)])
             (\<lambda>_. fail (PermissionError ''stale fencing token''))) (\<lambda>_ _. True)"
    by (cases l) (simp_all only: option.case, (rule inv_frames | rule inv_steps | simp)+)
qed

lemma queue_submission_inv: "hoare service_inv (queue_submission R intent d t cs) (\<lambda>_ _. True)"
  unfolding queue_submission_def Let_def by (rule inv_frames | rule inv_steps | simp)+

lemma lease_submission_inv: "hoare service_inv (lease_submission R intent d t c) (\<lambda>_ _. True)"
  unfolding lease_submission_def Let_def by (rule inv_frames | rule inv_steps | simp add: leased_record_def)+

lemma submit_remote_inv: "hoare service_inv (submit_remote_execution R intent d) (\<lambda>_ _. True)"
  unfolding submit_remote_execution_def Let_def
  by (rule inv_frames | rule inv_steps | simp add: queue_submission_inv lease_submission_inv split: option.split)+

lemma save_new_task_inv:
  assumes "status \<noteq> SUCCEEDED"
  shows "hoare service_inv (save_new_task R body request expanded status approval detail)
    (\<lambda>t s. also_core (unsettled (rt_task_id t)) s \<and> rt_status t \<noteq> SUCCEEDED)"
  unfolding save_new_task_def
  by (rule inv_frames)+ (rule hoare_conseq [OF hoare_put_open], use assms in \<open>auto simp: new_task_def\<close>)

lemma queue_new_task_inv: "hoare service_inv (queue_new_task R t) (\<lambda>_ _. True)"
  unfolding queue_new_task_def by (rule inv_frames | rule inv_steps | simp)+

section \<open>The methods that complete or route tasks\<close>

context wired
begin

lemma admit_task_inv: "hoare service_inv (admit_task R body request skip_routing d) (\<lambda>_ _. True)"
  unfolding admit_task_def Let_def
proof (rule inv_frames, rule inv_frames, rule hoare_bind [OF save_new_task_inv])
  fix t
  show "hoare (\<lambda>s. also_core (unsettled (rt_task_id t)) s \<and> rt_status t \<noteq> SUCCEEDED)
     (if pd_approval_requirements d \<noteq> [] then act t
        else if skip_routing then queue_new_task R t else route_task R (rt_task_id t)) (\<lambda>_ _. True)"
    using hoare_conseq [OF queue_new_task_inv, of "\<lambda>s. also_core (unsettled (rt_task_id t)) s \<and> rt_status t \<noteq> SUCCEEDED" "\<lambda>_ _. True" R t]
      hoare_conseq [OF route_task_hoare, of "\<lambda>s. also_core (unsettled (rt_task_id t)) s \<and> rt_status t \<noteq> SUCCEEDED" "rt_task_id t" "\<lambda>_ _. True"]
    by (auto simp: also_core_def hoare_def)
qed simp

lemma create_task_inv: "hoare service_inv (create_task R body user_id skip_routing) (\<lambda>_ _. True)"
  unfolding create_task_def Let_def
proof (rule inv_frames)+
  fix n x xa xb and d :: PolicyDecision
  let ?rq = "request_from_body body user_id (env_fresh (wi_env R) n) (env_clock (wi_env R) n)"
  have "hoare service_inv (save_new_task R body ?rq [] REJECTED False (Some (join ''; '' (pd_reasons d)))) (\<lambda>_ _. True)"
    by (rule hoare_conseq [OF save_new_task_inv]) simp_all
  then show "hoare service_inv (if \<not> pd_allowed d then
          bind_action (metric (\<lambda>m. m\<lparr>me_policy_rejections := me_policy_rejections m + 1\<rparr>)) (\<lambda>_.
          save_new_task R body ?rq [] REJECTED False (Some (join ''; '' (pd_reasons d))))
        else admit_task R body ?rq skip_routing d) (\<lambda>_ _. True)"
    by (simp add: admit_task_inv inv_frame [OF frames_basic(6)])
qed

lemma approve_task_inv: "hoare service_inv (approve_task R k) (\<lambda>_ _. True)"
  unfolding approve_task_def
  by (rule inv_task, rule hoare_if, rule inv_fail, rule inv_reopen [where k = k])
     (simp_all add: hoare_frame_bind [OF frames_audit] route_task_hoare)

lemma retry_task_inv: "hoare service_inv (retry_task R k fc) (\<lambda>_ _. True)"
  unfolding retry_task_def
  by (rule inv_task, rule inv_frames, rule inv_frames, rule hoare_if, rule inv_fail, rule inv_frames, rule inv_reopen [where k = k])
     (simp_all add: route_task_hoare)

lemma settle_event_inv:
  assumes "rt_task_id t = k"
  shows "hoare (also_core (\<lambda>c. co_state out = CS_COMPLETED \<longrightarrow> completed_in (snd c) (execution_of t)))
    (settle_event R k token ty t out) (\<lambda>_ _. True)"
proof -
  let ?P = "also_core (\<lambda>c. co_state out = CS_COMPLETED \<longrightarrow> completed_in (snd c) (execution_of t)) :: 'w RuntimeService \<Rightarrow> bool"
  let ?f = "\<lambda>t. t\<lparr>rt_status := outcome_status out, rt_detail := Some (co_detail out)\<rparr>"
  have put: "hoare ?P (put_updated R ?f t) (\<lambda>_ _. True)"
  proof (cases "co_state out = CS_COMPLETED")
    case True
    have "execution_of (?f t) = execution_of t" by (simp add: execution_of_def)
    from hoare_put_succeeded [of ?f t, OF this] show ?thesis
      by (rule hoare_conseq) (auto simp: also_core_def True)
  next
    case False
    then have "rt_status (?f t) \<noteq> SUCCEEDED" by (simp add: outcome_status_def)
    from inv_put_updated [of ?f t R, OF this] show ?thesis
      by (rule hoare_conseq) (auto simp: also_core_def)
  qed
  show ?thesis
    unfolding settle_event_def Let_def
    by (rule hoare_if, intro hoare_framed frames_more, rule hoare_if, intro hoare_framed frames_more, rule inv_then [OF put])
       (rule inv_frames | rule inv_steps)+
qed

lemma complete_event_inv:
  assumes "rt_task_id t = k"
  shows "hoare service_inv (complete_event R k a token ty payload t) (\<lambda>_ _. True)"
  unfolding complete_event_def Let_def
proof (rule inv_frames, rule inv_frames)
  fix b cands
  let ?cx = "event_context t (or_str (rt_execution_id t) k) a b ty"
  have cx: "cc_execution_id ?cx = execution_of t"
    by (simp add: event_context_def completion_context_def execution_of_def assms)
  have st: "completion_step oc (snd (complete_from_remote_event (wi_env R) ?cx ty payload cands oc))" for oc
    by (rule completion_step.s_remote) (rule sha)
  have rep: "reports_result (execution_of t) (complete_from_remote_event (wi_env R) ?cx ty payload cands oc)" if "orch_inv oc" for oc
    using complete_from_remote_event_reports [OF sha that, of ?cx] by (simp add: cx)
  show "hoare service_inv (bind_action (on_completion (complete_from_remote_event (wi_env R) ?cx ty payload cands)) (\<lambda>out.
         bind_action (note_events R ''completion.event'' k True (co_events out)) (\<lambda>_.
         settle_event R k token ty t out))) (\<lambda>_ _. True)"
    by (rule hoare_bind [OF hoare_completion [OF st rep]], assumption,
        rule hoare_frame_bind [OF frames_note_events settle_event_inv [OF assms]])
qed

lemma ingest_node_event_inv: "hoare service_inv (ingest_node_event R k a l token ty payload) (\<lambda>_ _. True)"
  unfolding ingest_node_event_def
proof (rule inv_frames)
  fix now
  let ?m = "\<lambda>r. case r of
       Inl e \<Rightarrow> bind_action (stale_event R k
               [(''event_type'', PyStr ty), (''fencing_token'', PyInt token),
                (''lease_id'', PyStr l), (''attempt_id'', PyStr a)]) (\<lambda>_. fail e)
     | Inr _ \<Rightarrow>
           bind_action (task_of k) (\<lambda>task.
           bind_action (task_event k [(''event_type'', PyStr ty), (''payload'', PyDict payload),
               (''attempt_id'', PyStr a)]) (\<lambda>_.
           if ty = ''task.accepted'' then put_updated R (\<lambda>t. t\<lparr>rt_status := ACCEPTED\<rparr>) task
           else if ty = ''task.started'' then
             bind_action (utc_now R) (\<lambda>now2.
             bind_action (metric (\<lambda>m. m\<lparr>me_running_tasks := me_running_tasks m + 1\<rparr>)) (\<lambda>_.
             put_task (task\<lparr>rt_status := RUNNING, rt_updated_at := now2\<rparr>)))
           else if ty \<notin> set COMPLETION_EVENTS then act task
           else complete_event R k a token ty payload task))"
  have m: "hoare service_inv (?m r) (\<lambda>_ _. True)" for r
    by (cases r) (simp_all only: sum.case, (rule inv_frames | rule inv_steps | rule inv_put_updated | rule inv_put
        | rule complete_event_inv | simp)+)
  show "hoare service_inv (\<lambda>s. case validate_event (rs_leases s) k l token a now of
         (ls, Inl e) \<Rightarrow>
           bind_action (stale_event R k
               [(''event_type'', PyStr ty), (''fencing_token'', PyInt token),
                (''lease_id'', PyStr l), (''attempt_id'', PyStr a)]) (\<lambda>_. fail e) (s\<lparr>rs_leases := ls\<rparr>)
       | (ls, Inr _) \<Rightarrow>
           bind_action (task_of k) (\<lambda>task.
           bind_action (task_event k [(''event_type'', PyStr ty), (''payload'', PyDict payload),
               (''attempt_id'', PyStr a)]) (\<lambda>_.
           if ty = ''task.accepted'' then put_updated R (\<lambda>t. t\<lparr>rt_status := ACCEPTED\<rparr>) task
           else if ty = ''task.started'' then
             bind_action (utc_now R) (\<lambda>now2.
             bind_action (metric (\<lambda>m. m\<lparr>me_running_tasks := me_running_tasks m + 1\<rparr>)) (\<lambda>_.
             put_task (task\<lparr>rt_status := RUNNING, rt_updated_at := now2\<rparr>)))
           else if ty \<notin> set COMPLETION_EVENTS then act task
           else complete_event R k a token ty payload task)) (s\<lparr>rs_leases := ls\<rparr>)) (\<lambda>_ _. True)" (is "hoare _ ?g _")
  proof -
    have "?g = (\<lambda>s. ?m (snd (validate_event (rs_leases s) k l token a now)) (s\<lparr>rs_leases := fst (validate_event (rs_leases s) k l token a now)\<rparr>))"
      by (rule ext) (auto split: prod.split sum.split)
    then show ?thesis
      using inv_leases [where f = ?m and h = "\<lambda>s. snd (validate_event (rs_leases s) k l token a now)"
          and l = "\<lambda>s. fst (validate_event (rs_leases s) k l token a now)", OF m] by simp
  qed
qed

lemma cancel_backends_inv: "hoare service_inv (cancel_backends R e) (\<lambda>_ _. True)"
  unfolding hoare_def
proof (intro allI impI conjI TrueI)
  fix s :: "'w RuntimeService"
  assume s: "service_inv s"
  have keep: "service_inv w" if "wi_cancel R e i (s, g) = (r, w, g')" for i g r w g'
    using cancels [of e i] s that by (simp add: call_keeps_def) (metis fst_conv snd_conv)
  have "service_inv (fst (snd (cancel_execution (wi_cancel R e) e (s, rs_registry s))))"
    using s by (auto simp: cancel_execution_def cancel_begin_def Let_def intro: keep split: option.split prod.split outcome.split)
  then show "service_inv (snd (cancel_backends R e s))"
    by (auto simp: cancel_backends_def service_inv_def core_def split: prod.splits)
qed

lemma hoare_cancelled:
  "hoare service_inv (on_completion (\<lambda>oc. case finalise_cancelled W cx True oc of (out, oc1) \<Rightarrow> (Inr out, oc1))) (\<lambda>_ _. True)"
  unfolding hoare_def
proof (intro allI impI conjI TrueI)
  fix s
  assume "service_inv s"
  from completion_inv [OF this completion_step.s_cancel [of "rs_completion s" W cx True]]
  show "service_inv (snd (on_completion (\<lambda>oc. case finalise_cancelled W cx True oc of (out, oc1) \<Rightarrow> (Inr out, oc1)) s))"
    by (simp add: on_completion_def on_part_def case_prod_beta)
qed

lemma cancel_task_inv: "hoare service_inv (cancel_task R k) (\<lambda>_ _. True)"
proof -
  have release: "frames (case l of
                 Some l \<Rightarrow> if tl_status l = LEASE_ACTIVE
                   then bind_action (utc_now R) (\<lambda>now. bind_action (on_leases (\<lambda>ls. release ls k (tl_fencing_token l) now)) (\<lambda>_. act ()))
                   else act ()
               | None \<Rightarrow> act ())" for l
    by (cases l) (simp_all add: frames_more)
  show ?thesis
    unfolding cancel_task_def Let_def
    by (rule inv_frames | rule inv_steps | rule inv_frame [OF release] | rule inv_then [OF cancel_backends_inv]
        | rule inv_then [OF hoare_cancelled] | (simp; fail))+
qed

end

section \<open>Runs of the service\<close>

text \<open>The methods that the API calls, each with the state it leaves, whether it returns or raises.\<close>

inductive service_step :: "'w wiring \<Rightarrow> 'w RuntimeService \<Rightarrow> 'w RuntimeService \<Rightarrow> bool" for R where
  s_node: "service_step R s (snd (register_node R snapshot s))"
| s_placement: "service_step R s (snd (register_placement R placement s))"
| s_create: "service_step R s (snd (create_task R body user_id skip_routing s))"
| s_approve: "service_step R s (snd (approve_task R task_id s))"
| s_offered: "service_step R s (snd (mark_offered R task_id fencing_token s))"
| s_event: "service_step R s (snd (ingest_node_event R task_id attempt_id lease_id fencing_token event_type payload s))"
| s_cancelled: "service_step R s (snd (cancel_task R task_id s))"
| s_retry: "service_step R s (snd (retry_task R task_id failure_class s))"

lemma hoare_inv: "hoare service_inv m (\<lambda>_ _. True) \<Longrightarrow> service_inv s \<Longrightarrow> service_inv (snd (m s))"
  by (simp add: hoare_def)

lemma service_inv_init: "service_inv (init_RuntimeService database policy w)"
  by (simp add: service_inv_def core_inv_def core_def init_RuntimeService_def init_RuntimeStore_def init_orch_inv)

context wired
begin

lemma step_inv: "service_step R s s' \<Longrightarrow> service_inv s \<Longrightarrow> service_inv s'"
  by (induction rule: service_step.induct)
     (erule hoare_inv [rotated], rule register_node_inv register_placement_inv create_task_inv approve_task_inv mark_offered_inv
        ingest_node_event_inv cancel_task_inv retry_task_inv)+

lemma steps_inv: "(service_step R)\<^sup>*\<^sup>* s s' \<Longrightarrow> service_inv s \<Longrightarrow> service_inv s'"
  by (induction rule: rtranclp_induct) (auto intro: step_inv)

end

section \<open>An example\<close>

definition example_decision :: "ExecutionIntent \<Rightarrow> ExecutionDecision" where
  "example_decision intent =
     \<lparr>ed_execution_id = ei_execution_id intent, ed_selected_backend_id = ''local'', ed_selected_harness_id = ''codex'',
      ed_reason = ''only choice'', ed_fallback_order = [], ed_provider_routing_required = False, ed_retry_policy = [],
      ed_registry_revision = ''default'', ed_decided_at = 0, ed_selected_connector_id = None, ed_selected_model_id = None\<rparr>"

definition example_config :: BackendRegistryConfig where
  "example_config =
     \<lparr>bc_enabled_backends = [''local''], bc_priority = [''local''], bc_default_backend = None, bc_fallback_order = [],
      bc_capability_overrides = [], bc_registry_revision = ''default'', bc_allow_stub_backends = False\<rparr>"

definition example_wiring :: "'w wiring" where
  "example_wiring =
     \<lparr>wi_env = example_environment, wi_run_env = \<lparr>re_clock = int, re_fresh = (\<lambda>n. replicate n CHR ''r'')\<rparr>, wi_production = False,
      wi_analyse = (\<lambda>_ _. example_analysis), wi_normalise = Inr, wi_select = (\<lambda>intent s. Inr (example_decision intent)),
      wi_router = \<lparr>er_registry = \<lparr>br_config = example_config, br_backends = []\<rparr>,
        er_available_harnesses = [''codex''], er_subscription_allows = [], er_quota_allows = []\<rparr>,
      wi_cancel = (\<lambda>_ _. Pair (Returned [])),
      wi_worker = \<lparr>wh_leases = rs_leases, wh_set_leases = (\<lambda>_ s. s), wh_now = (\<lambda>s. (0, s)), wh_fresh = (\<lambda>s. ([], s)),
        wh_progress = (\<lambda>_ s. (Returned (), s)), wh_cancelled = (\<lambda>_ _. False), wh_discard = (\<lambda>_ s. s),
        wh_filesystem = (\<lambda>_. example_files), wh_adapter = (\<lambda>_ _ s. (Returned [(''ok'', PyBool True)], s)),
        wh_tests = (\<lambda>_. [])\<rparr>\<rparr>"

definition example_body :: CreateRuntimeTaskBody where
  "example_body =
     \<lparr>cb_workspace_id = ''w1'', cb_prompt = ''go'', cb_correlation_id = None, cb_mission_id = None, cb_execution_id = None,
      cb_trace_id = None, cb_actor_id = None, cb_idempotency_key = None, cb_policy_profile = ''developer'',
      cb_requested_capabilities = [''repository.read''], cb_prohibited_capabilities = [], cb_preferred_connectors = [],
      cb_required_connector = None, cb_preferred_providers = [], cb_required_provider = None, cb_preferred_nodes = [],
      cb_required_node = None, cb_timeout_seconds = 300, cb_max_attempts = 2\<rparr>"

definition example_service :: "'w \<Rightarrow> 'w RuntimeService" where
  "example_service w = init_RuntimeService None (init_PolicyEngine None None (Some False) None) w"

end
