(* ===== verification/Service_Behaviour.thy ===== *)
theory Service_Behaviour
  imports Service_Operations
begin

text \<open>
  What the methods of the runtime service do on particular paths: tasks that may not run do not run,
  stale events change nothing; and where the code departs from that.
\<close>

section \<open>Actions that leave most of the service alone\<close>

text \<open>The parts that running a task involves.\<close>

definition machinery :: "'w RuntimeService \<Rightarrow> LeaseService \<times> Orchestrator \<times> registry_table \<times> PolicyEngine \<times> 'w" where
  "machinery s = (rs_leases s, rs_completion s, rs_registry s, rs_policy s, rs_world s)"

definition idle :: "('w, 'a) service \<Rightarrow> bool" where
  "idle m \<longleftrightarrow> (\<forall>s. machinery (snd (m s)) = machinery s)"

lemma idle_bind: "idle m \<Longrightarrow> (\<And>x. idle (f x)) \<Longrightarrow> idle (bind_action m f)"
  unfolding idle_def bind_action_def by (auto split: prod.splits outcome.splits) (metis snd_conv)+

lemma idle_each: "(\<And>x. idle (f x)) \<Longrightarrow> idle (for_each f xs)"
  by (induction xs) (auto simp: idle_def intro!: idle_bind [unfolded idle_def, rule_format])

lemma idle_basic:
  "idle (act x)" "idle (fail e)" "idle (attempt_of r)" "idle (read_state h)" "idle (take_ticks n)" "idle (metric g)"
  "idle (task_event k ev)" "idle (task_of k)" "idle (on_store f)"
  by (cases r; simp add: idle_def machinery_def take_ticks_def metric_def task_event_def task_of_def attempt_of_def
      on_store_def on_part_def split: sum.split prod.split)+

lemma idle_time: "idle (utc_now R)" "idle (uuid4 R)" "idle (audit_task R ty k p)" "idle (put_task t)"
  by (simp_all add: utc_now_def uuid4_def audit_task_def put_task_def idle_bind idle_basic)

lemmas idle_rules = idle_bind idle_each idle_basic idle_time

lemma idle_put_updated: "idle (put_updated R f t)"
  unfolding put_updated_def by (intro idle_rules)

lemma idle_save_new: "idle (save_new_task R body request expanded status approval detail)"
  unfolding save_new_task_def by (intro idle_rules)

lemma idle_queue_new: "idle (queue_new_task R t)"
  unfolding queue_new_task_def by (intro idle_rules idle_put_updated)

lemma bind_ticks: "bind_action (take_ticks k) f s = f (rs_ticks s) (s\<lparr>rs_ticks := rs_ticks s + k\<rparr>)"
  by (simp add: take_ticks_def bind_action_def)

lemma bind_now: "bind_action (utc_now R) f x = f (env_clock (wi_env R) (rs_ticks x)) (x\<lparr>rs_ticks := rs_ticks x + 1\<rparr>)"
  by (simp add: utc_now_def bind_action_def take_ticks_def)

lemma bind_leases: "g (rs_leases x) = (ls, Inr y) \<Longrightarrow> bind_action (on_leases g) f x = f y (x\<lparr>rs_leases := ls\<rparr>)"
  by (simp add: on_leases_def on_part_def bind_action_def)

lemma bind_action_assoc: "bind_action (bind_action m f) g = bind_action m (\<lambda>x. bind_action (f x) g)"
  by (rule ext) (simp add: bind_action_def split: prod.split outcome.split)

lemma bind_update: "bind_action (update_state f) g s = g () (f s)"
  by (simp add: bind_action_def)

section \<open>Tasks that may not run\<close>

lemma admit_idle:
  assumes "pd_approval_requirements d \<noteq> [] \<or> skip_routing"
  shows "idle (admit_task R body request skip_routing d)"
  unfolding admit_task_def Let_def
  using assms by (auto intro!: idle_rules idle_save_new idle_queue_new)

text \<open>C4: A task that is denied by the policy, needs an approval or is only queued does not run. Creating it
  leaves the leases, the completion records, the running executions and the state of the backends as
  they were, whatever the store does.\<close>

theorem unapproved_tasks_do_not_run:
  assumes "evaluate (rs_policy s) (request_from_body body user_id (env_fresh (wi_env R) (rs_ticks s))
      (env_clock (wi_env R) (rs_ticks s))) None = Inr d"
    and "\<not> pd_allowed d \<or> pd_approval_requirements d \<noteq> [] \<or> skip_routing"
  shows "machinery (snd (create_task R body user_id skip_routing s)) = machinery s"
proof -
  let ?rq = "request_from_body body user_id (env_fresh (wi_env R) (rs_ticks s)) (env_clock (wi_env R) (rs_ticks s))"
  let ?I = "\<lambda>s'. machinery s' = machinery s"
  have k: "keeps ?I m" if "idle m" for m :: "('a, 'b) service"
    using that by (simp add: keeps_def idle_def)
  have verdict: "yields ?I (\<lambda>s. attempt_of (evaluate (rs_policy s) ?rq None) s) (\<lambda>x s. x = d)"
    using assms(1) by (auto simp: yields_def machinery_def)
  let ?rest = "\<lambda>x. if \<not> pd_allowed x then
          bind_action (metric (\<lambda>m. m\<lparr>me_policy_rejections := me_policy_rejections m + 1\<rparr>)) (\<lambda>_.
          save_new_task R body ?rq [] REJECTED False (Some (join ''; '' (pd_reasons x))))
        else admit_task R body ?rq skip_routing x"
  have rest: "idle (?rest d)"
    using assms(2) by (auto intro!: idle_rules idle_save_new admit_idle)
  have tail: "keeps ?I (bind_action (update_state (\<lambda>s. s\<lparr>rs_task_prompts := g s\<rparr>)) (\<lambda>_. bind_action (audit_task R a k p) (\<lambda>_.
      bind_action (\<lambda>s. attempt_of (evaluate (rs_policy s) ?rq None) s) (\<lambda>x. bind_action (audit_task R b k (q x)) (\<lambda>_. ?rest x)))))"
    for g a b k p q
  proof (rule keeps_bind [OF _ keeps_bind [OF _ keeps_bind_yields [OF verdict]]])
    show "keeps ?I (update_state (\<lambda>s. s\<lparr>rs_task_prompts := g s\<rparr>))" by (rule keeps_update) (simp add: machinery_def)
    show "keeps ?I (audit_task R a k p)" by (intro k idle_rules)
    fix x s'
    assume "?I s'" and x: "x = d"
    have "idle (bind_action (audit_task R b k (q d)) (\<lambda>_. ?rest d))" by (intro idle_bind rest idle_rules)
    from k [OF this] \<open>?I s'\<close> show "?I (snd (bind_action (audit_task R b k (q x)) (\<lambda>_. ?rest x) s'))"
      unfolding x by (rule keepsD)
  qed
  show ?thesis
    unfolding create_task_def Let_def bind_ticks
    by (rule keepsD [OF tail]) (simp add: machinery_def)
qed

theorem unapproved_tasks_do_not_run_witness:
  "machinery (snd (create_task example_wiring (example_body\<lparr>cb_requested_capabilities := [''repository.write'']\<rparr>) ''u'' False
     (example_service ()))) = machinery (example_service ())"
proof -
  let ?b = "example_body\<lparr>cb_requested_capabilities := [''repository.write'']\<rparr>"
  let ?rq = "request_from_body ?b ''u'' [] 0"
  have "case evaluate (init_PolicyEngine None None (Some False) None) ?rq None of Inl _ \<Rightarrow> False
    | Inr d \<Rightarrow> pd_approval_requirements d \<noteq> []"
    by code_simp
  then obtain d where d: "evaluate (init_PolicyEngine None None (Some False) None) ?rq None = Inr d" "pd_approval_requirements d \<noteq> []"
    by (auto split: sum.splits)
  then show ?thesis
    using unapproved_tasks_do_not_run [of "example_service ()" ?b "''u''" example_wiring d False]
    by (simp add: example_service_def init_RuntimeService_def example_wiring_def example_environment_def)
qed

section \<open>Actions that return\<close>

text \<open>Without a database the bookkeeping always returns; it leaves all of this alone.\<close>

definition outlook :: "'w RuntimeService \<Rightarrow> _" where
  "outlook s = (core s, st_attempts (rs_store s), st_database (rs_store s), rs_leases s, rs_authoritative_attempts s, rs_policy s,
     rs_world s, rs_registry s, rs_nodes s, rs_task_prompts s, rs_run_ticks s)"

definition quiet :: "('w, 'a) service \<Rightarrow> bool" where
  "quiet m \<longleftrightarrow> (\<forall>s. st_database (rs_store s) = None \<longrightarrow> (\<exists>x. fst (m s) = Returned x) \<and> outlook (snd (m s)) = outlook s)"

lemma quietE:
  assumes "quiet m" and "st_database (rs_store s) = None"
  obtains x s1 where "m s = (Returned x, s1)" and "outlook s1 = outlook s" and "st_database (rs_store s1) = None"
proof (cases "m s")
  case (Pair r s1)
  with assms obtain x where "r = Returned x" "outlook s1 = outlook s" by (auto simp: quiet_def) (metis fst_conv snd_conv)+
  with Pair that assms(2) show thesis by (simp add: outlook_def)
qed

lemma quiet_bind: "quiet (m :: ('w, 'a) service) \<Longrightarrow> (\<And>x. quiet (f x)) \<Longrightarrow> quiet (bind_action m f)"
  unfolding quiet_def [of "bind_action m f"]
proof (intro allI impI)
  fix s :: "'w RuntimeService"
  assume m: "quiet m" and f: "\<And>x. quiet (f x)" and s: "st_database (rs_store s) = None"
  obtain x s1 where 1: "m s = (Returned x, s1)" "outlook s1 = outlook s" "st_database (rs_store s1) = None"
    using m s by (rule quietE)
  obtain y s2 where "f x s1 = (Returned y, s2)" "outlook s2 = outlook s1" using f 1(3) by (rule quietE)
  with 1 show "(\<exists>x. fst (bind_action m f s) = Returned x) \<and> outlook (snd (bind_action m f s)) = outlook s" by simp
qed

lemma quiet_basic: "quiet (act x)" "quiet (read_state h)" "quiet (take_ticks n)" "quiet (metric g)" "quiet (task_event k ev)"
  by (simp_all add: quiet_def outlook_def core_def take_ticks_def metric_def task_event_def store_event_def)

lemma quiet_each: "(\<And>x. quiet (f x)) \<Longrightarrow> quiet (for_each f xs)"
  by (induction xs) (simp_all add: quiet_basic quiet_bind)

lemma quiet_time: "quiet (utc_now R)" "quiet (uuid4 R)"
  by (simp_all add: utc_now_def uuid4_def quiet_bind quiet_basic)

lemma quiet_audit: "quiet (audit_task R ty k p)"
  unfolding audit_task_def
  by (intro quiet_bind quiet_basic) (simp add: quiet_def on_store_def on_part_def store_audit_def in_session_def Let_def outlook_def core_def)

lemma quiet_note_events: "quiet (note_events R fallback k visible es)"
  unfolding note_events_def by (intro quiet_each quiet_bind quiet_audit) (simp add: quiet_basic)

lemma quiet_stale: "quiet (stale_event R k p)"
  unfolding stale_event_def by (intro quiet_bind quiet_basic quiet_audit)

lemma put_task_runs:
  assumes "st_database (rs_store s) = None"
  shows "put_task t s = (Returned t, s\<lparr>rs_store := (rs_store s)\<lparr>st_tasks := (st_tasks (rs_store s))(rt_task_id t \<mapsto> t)\<rparr>\<rparr>)"
  using assms by (simp add: put_task_def on_store_def on_part_def save_task_def in_session_def)

lemma put_updated_runs:
  "put_updated R f t s = put_task ((f t)\<lparr>rt_updated_at := env_clock (wi_env R) (rs_ticks s)\<rparr>) (s\<lparr>rs_ticks := rs_ticks s + 1\<rparr>)"
  by (simp add: put_updated_def utc_now_def bind_action_def take_ticks_def)

lemma task_of_runs: "st_tasks (rs_store s) k = Some t \<Longrightarrow> task_of k s = (Returned t, s)"
  by (simp add: task_of_def get_task_def)

lemma task_of_bind: "st_tasks (rs_store s) k = Some t \<Longrightarrow> bind_action (task_of k) f s = f t s"
  by (simp add: task_of_runs)

text \<open>Running through the bookkeeping: \<open>quiet_run\<close> and \<open>quiet_after\<close> step over it.\<close>

lemma quiet_unit_run:
  assumes "quiet (m :: ('w, unit) service)" and "st_database (rs_store s) = None"
  shows "bind_action m f s = f () (snd (m s))"
proof -
  obtain x s1 where "m s = (Returned x, s1)" using assms by (rule quietE)
  then show ?thesis by simp
qed

lemmas quiet_units = quiet_audit quiet_basic(4) quiet_basic(5) quiet_note_events quiet_stale
lemmas quiet_run = quiet_units [THEN quiet_unit_run]

lemma quiet_unit_after:
  assumes "quiet (m :: ('w, unit) service)" and "st_database (rs_store s) = None"
  shows "st_tasks (rs_store (snd (m s))) = st_tasks (rs_store s)" "st_database (rs_store (snd (m s))) = None"
    "rs_leases (snd (m s)) = rs_leases s" "rs_completion (snd (m s)) = rs_completion s"
    "st_attempts (rs_store (snd (m s))) = st_attempts (rs_store s)" "rs_world (snd (m s)) = rs_world s"
    "rs_authoritative_attempts (snd (m s)) = rs_authoritative_attempts s" "rs_registry (snd (m s)) = rs_registry s"
    "rs_nodes (snd (m s)) = rs_nodes s" "rs_task_prompts (snd (m s)) = rs_task_prompts s" "rs_run_ticks (snd (m s)) = rs_run_ticks s"
    "rs_policy (snd (m s)) = rs_policy s"
proof -
  obtain x s1 where "m s = (Returned x, s1)" "outlook s1 = outlook s" "st_database (rs_store s1) = None" using assms by (rule quietE)
  then show "st_tasks (rs_store (snd (m s))) = st_tasks (rs_store s)" "st_database (rs_store (snd (m s))) = None"
    "rs_leases (snd (m s)) = rs_leases s" "rs_completion (snd (m s)) = rs_completion s"
    "st_attempts (rs_store (snd (m s))) = st_attempts (rs_store s)" "rs_world (snd (m s)) = rs_world s"
    "rs_authoritative_attempts (snd (m s)) = rs_authoritative_attempts s" "rs_registry (snd (m s)) = rs_registry s"
    "rs_nodes (snd (m s)) = rs_nodes s" "rs_task_prompts (snd (m s)) = rs_task_prompts s" "rs_run_ticks (snd (m s)) = rs_run_ticks s"
    "rs_policy (snd (m s)) = rs_policy s"
    by (simp_all add: outlook_def core_def)
qed

lemmas quiet_after = quiet_units [THEN quiet_unit_after(1)] quiet_units [THEN quiet_unit_after(2)] quiet_units [THEN quiet_unit_after(3)]
  quiet_units [THEN quiet_unit_after(4)] quiet_units [THEN quiet_unit_after(5)] quiet_units [THEN quiet_unit_after(6)]
  quiet_units [THEN quiet_unit_after(7)] quiet_units [THEN quiet_unit_after(8)] quiet_units [THEN quiet_unit_after(9)]
  quiet_units [THEN quiet_unit_after(10)] quiet_units [THEN quiet_unit_after(11)] quiet_units [THEN quiet_unit_after(12)]

lemma put_updated_bind:
  assumes "st_database (rs_store s) = None"
  shows "bind_action (put_updated R f t) g s =
    (let now = env_clock (wi_env R) (rs_ticks s); x = (f t)\<lparr>rt_updated_at := now\<rparr>
     in g x (s\<lparr>rs_ticks := rs_ticks s + 1,
               rs_store := (rs_store s)\<lparr>st_tasks := (st_tasks (rs_store s))(rt_task_id (f t) \<mapsto> x)\<rparr>\<rparr>))"
  using assms by (simp add: bind_action_def put_updated_runs put_task_runs Let_def)

section \<open>Success\<close>

lemma bind_completion: "g (rs_completion x) = (Inr y, oc) \<Longrightarrow> bind_action (on_completion g) f x = f y (x\<lparr>rs_completion := oc\<rparr>)"
  by (simp add: on_completion_def on_part_def bind_action_def)

lemma settle_task_done:
  assumes "st_database (rs_store s) = None" and "co_ok out" and "co_state out = CS_COMPLETED"
  shows "\<exists>t' s'. settle_task R t res out s = (Returned t', s') \<and> rt_status t' = SUCCEEDED
    \<and> st_tasks (rs_store s') (rt_task_id t) = Some t' \<and> rt_execution_id t' = rt_execution_id t"
proof -
  let ?s = "snd (metric (\<lambda>m. m\<lparr>me_successful_tasks := me_successful_tasks m + 1\<rparr>) s)"
  have "st_database (rs_store ?s) = None" using assms(1) by (simp add: quiet_after)
  then show ?thesis
    using assms by (simp add: settle_task_def Let_def quiet_run put_updated_runs put_task_runs)
qed

lemma complete_task_succeeds:
  assumes inv: "orch_inv (rs_completion s)" and db: "st_database (rs_store s) = None" and "xr_ok res" and "restore_ok res"
    and a: "result_attempt t res = Inr a" and "already_terminal (rs_completion s) (xr_execution_id res) = None"
    and "\<And>cx. usage_accepted res cx (oc_usage (rs_completion s))"
  shows "\<exists>t' s'. complete_task R k t d res s = (Returned t', s') \<and> rt_status t' = SUCCEEDED
    \<and> st_tasks (rs_store s') (rt_task_id t) = Some t' \<and> rt_execution_id t' = rt_execution_id t"
proof -
  let ?cx = "completion_context t (xr_execution_id res) a a (xr_backend_id res) (Some (xr_harness_id res))"
  let ?s = "s\<lparr>rs_authoritative_attempts := (rs_authoritative_attempts s)(xr_execution_id res \<mapsto> a)\<rparr>"
  have "plain_context ?cx" "cc_execution_id ?cx = xr_execution_id res" by (simp_all add: plain_context_def completion_context_def)
  then obtain out oc where out: "complete_from_backend (wi_env R) res ?cx (Some (decision_as_dict d)) [] (rs_completion s) = (Inr out, oc)"
      "co_ok out" "co_state out = CS_COMPLETED"
    using backend_completes [of "rs_completion s" ?cx res "wi_env R"] assms by metis
  let ?s1 = "?s\<lparr>rs_completion := oc\<rparr>"
  let ?s2 = "snd (note_events R ''completion.event'' k True (co_events out) ?s1)"
  have s1: "st_database (rs_store ?s1) = None" using db by simp
  have "complete_task R k t d res s = settle_task R t res out ?s2"
    using out(1) a s1 by (simp add: complete_task_def bind_completion quiet_run)
  moreover have "st_database (rs_store ?s2) = None" using quiet_unit_after(2) [OF quiet_note_events s1] .
  ultimately show ?thesis using settle_task_done [OF _ out(2,3)] by metis
qed

lemma perform_task_runs:
  assumes "ed_selected_backend_id d \<noteq> ''joymesh''" and "\<not> (ed_selected_backend_id d = ''local'' \<and> ed_selected_harness_id d = ''codex'')"
    and "run_backends R intent d s = (Returned res, s1)" and "st_database (rs_store s1) = None"
  shows "perform_task R k prompt path intent d t s
    = complete_task R k t d res (snd (note_events R ''backend.event'' k True (xr_audits res) s1))"
  using assms by (auto simp: perform_task_def quiet_run)

text \<open>C3: The success of a backend completes the task. When the chain of backends (other than the remote one, which
  only hands the task over) returns a success whose provider route was restored, and the execution has
  no final record yet and its usage can be aggregated, the task is \<open>SUCCEEDED\<close>, in the answer and in the
  store.\<close>

theorem backend_success_completes_task:
  assumes "ed_selected_backend_id d \<noteq> ''joymesh''" and "\<not> (ed_selected_backend_id d = ''local'' \<and> ed_selected_harness_id d = ''codex'')"
    and "run_backends R intent d s = (Returned res, s1)" and "service_inv s1" and "st_database (rs_store s1) = None"
    and "xr_ok res" and "restore_ok res" and "result_attempt t res = Inr a"
    and "already_terminal (rs_completion s1) (xr_execution_id res) = None"
    and "\<And>cx. usage_accepted res cx (oc_usage (rs_completion s1))"
  shows "\<exists>t' s'. perform_task R k prompt path intent d t s = (Returned t', s') \<and> rt_status t' = SUCCEEDED
    \<and> st_tasks (rs_store s') (rt_task_id t) = Some t'"
proof -
  let ?s2 = "snd (note_events R ''backend.event'' k True (xr_audits res) s1)"
  have "perform_task R k prompt path intent d t s = complete_task R k t d res ?s2"
    by (rule perform_task_runs [OF assms(1-3,5)])
  moreover have "rs_completion ?s2 = rs_completion s1" "st_database (rs_store ?s2) = None"
    using quiet_unit_after [OF quiet_note_events assms(5)] by simp_all
  moreover have "orch_inv (rs_completion s1)" using assms(4) by (simp add: service_inv_def core_inv_def core_def)
  ultimately show ?thesis using complete_task_succeeds [of ?s2 res t a R k d] assms(6-10) by auto
qed

section \<open>Creating a task that may run\<close>

text \<open>What a task runs on: everything but the tasks, the clock and the books.\<close>

definition background :: "'w RuntimeService \<Rightarrow> _" where
  "background s = (rs_completion s, st_database (rs_store s), rs_leases s, rs_policy s, rs_world s, rs_registry s, rs_nodes s,
     rs_task_prompts s, rs_run_ticks s)"

lemma quiet_background: "quiet m \<Longrightarrow> st_database (rs_store s) = None \<Longrightarrow> background (snd (m s)) = background s"
  by (erule (1) quietE) (simp add: outlook_def core_def background_def)

lemma save_new_task_runs:
  assumes "st_database (rs_store s) = None"
  shows "\<exists>t s1. bind_action (save_new_task R body rq expanded st approval detail) f s = f t s1
    \<and> (\<exists>created updated. t = new_task (env_sha256 (wi_env R)) body rq expanded st approval detail created updated)
    \<and> st_tasks (rs_store s1) (rq_task_id rq) = Some t \<and> background s1 = background s"
proof -
  let ?t = "new_task (env_sha256 (wi_env R)) body rq expanded st approval detail (env_clock (wi_env R) (rs_ticks s)) (env_clock (wi_env R) (rs_ticks s + 1))"
  let ?s = "s\<lparr>rs_ticks := rs_ticks s + 2, rs_store := (rs_store s)\<lparr>st_tasks := (st_tasks (rs_store s))(rq_task_id rq \<mapsto> ?t)\<rparr>\<rparr>"
  have "save_new_task R body rq expanded st approval detail s = (Returned ?t, ?s)"
    using assms by (simp add: save_new_task_def bind_now put_task_runs) (simp add: new_task_def)
  then have "bind_action (save_new_task R body rq expanded st approval detail) f s = f ?t ?s" by simp
  moreover have "background ?s = background s" by (simp add: background_def)
  ultimately show ?thesis by fastforce
qed

lemma new_task_id: "rt_task_id (new_task sha body rq expanded st approval detail created updated) = rq_task_id rq"
  by (simp add: new_task_def)

lemma create_task_runs:
  fixes s :: "'w RuntimeService"
  assumes rq: "rq = request_from_body body user (env_fresh (wi_env R) (rs_ticks s)) (env_clock (wi_env R) (rs_ticks s))"
    and db: "st_database (rs_store s) = None" and ev: "evaluate (rs_policy s) rq None = Inr d"
    and d: "pd_allowed d" "pd_approval_requirements d = []"
    and ex: "expand_capabilities (CapabilityRegistry None) (rq_requested_capabilities rq) (rq_prohibited_capabilities rq) = Inr expanded"
  shows "\<exists>t s1. create_task R body user False s = route_task R (rq_task_id rq) s1
    \<and> (\<exists>created updated. t = new_task (env_sha256 (wi_env R)) body rq (sort expanded) ROUTING False None created updated)
    \<and> st_tasks (rs_store s1) (rq_task_id rq) = Some t
    \<and> background s1 = background (s\<lparr>rs_task_prompts := (rs_task_prompts s)(rq_task_id rq \<mapsto> cb_prompt body)\<rparr>)"
proof -
  let ?k = "rq_task_id rq"
  define s1 where "s1 = s\<lparr>rs_ticks := rs_ticks s + 1, rs_task_prompts := (rs_task_prompts (s\<lparr>rs_ticks := rs_ticks s + 1\<rparr>))(?k \<mapsto> cb_prompt body)\<rparr>"
  have b1: "background s1 = background (s\<lparr>rs_task_prompts := (rs_task_prompts s)(?k \<mapsto> cb_prompt body)\<rparr>)"
    by (simp add: s1_def background_def)
  define p1 where "p1 = [(''prompt_digest'', PyStr (env_sha256 (wi_env R) (rq_prompt rq))), (''prompt_size'', PyInt (int (length (rq_prompt rq)))),
      (''policy_profile'', PyStr (rq_policy_profile rq)), (''requested_capabilities'', str_list (sort (rq_requested_capabilities rq))),
      (''prohibited_capabilities'', str_list (sort (rq_prohibited_capabilities rq))),
      (''correlation_id'', PyStr (or_str (cb_correlation_id body) (rq_task_id rq)))] @ integration_metadata body"
  have "create_task R body user False s = bind_action (audit_task R ''task.created'' ?k p1) (\<lambda>_.
        bind_action (\<lambda>s. attempt_of (evaluate (rs_policy s) rq None) s) (\<lambda>decision.
        bind_action (audit_task R ''policy.evaluated'' ?k
          [(''allowed'', PyBool (pd_allowed decision)), (''reasons'', str_list (pd_reasons decision)),
           (''granted'', str_list (sort (pd_granted_capabilities decision))),
           (''denied'', str_list (sort (pd_denied_capabilities decision))),
           (''approvals'', str_list (pd_approval_requirements decision))]) (\<lambda>_.
        if \<not> pd_allowed decision then
          bind_action (metric (\<lambda>m. m\<lparr>me_policy_rejections := me_policy_rejections m + 1\<rparr>)) (\<lambda>_.
          save_new_task R body rq [] REJECTED False (Some (join ''; '' (pd_reasons decision))))
        else admit_task R body rq False decision))) s1"
    by (simp only: create_task_def Let_def bind_ticks rq [symmetric] bind_update s1_def p1_def)
  moreover define s2 where "s2 = snd (audit_task R ''task.created'' ?k p1 s1)"
  ultimately have c2: "create_task R body user False s = admit_task R body rq False d (snd (audit_task R ''policy.evaluated'' ?k
          [(''allowed'', PyBool (pd_allowed d)), (''reasons'', str_list (pd_reasons d)),
           (''granted'', str_list (sort (pd_granted_capabilities d))),
           (''denied'', str_list (sort (pd_denied_capabilities d))),
           (''approvals'', str_list (pd_approval_requirements d))] s2))"
    using db ev d(1) by (simp add: quiet_run quiet_after s1_def attempt_of_def)
  define s3 where "s3 = snd (audit_task R ''policy.evaluated'' ?k
          [(''allowed'', PyBool (pd_allowed d)), (''reasons'', str_list (pd_reasons d)),
           (''granted'', str_list (sort (pd_granted_capabilities d))),
           (''denied'', str_list (sort (pd_denied_capabilities d))),
           (''approvals'', str_list (pd_approval_requirements d))] s2)"
  define s4 where "s4 = snd (audit_task R ''capabilities.expanded'' ?k [(''expanded'', str_list (sort expanded))] s3)"
  have db': "st_database (rs_store s1) = None" "st_database (rs_store s2) = None" "st_database (rs_store s3) = None" "st_database (rs_store s4) = None"
    using db by (simp_all add: s1_def s2_def s3_def s4_def quiet_after)
  have b: "background s4 = background s1"
    unfolding s4_def quiet_background [OF quiet_audit db'(3)] unfolding s3_def quiet_background [OF quiet_audit db'(2)]
    unfolding s2_def quiet_background [OF quiet_audit db'(1)] ..
  have "create_task R body user False s = bind_action (save_new_task R body rq (sort expanded) ROUTING False None)
      (\<lambda>task. route_task R (rt_task_id task)) s4"
    unfolding c2 s3_def [symmetric] using d(2) ex db'(3) by (simp add: admit_task_def Let_def quiet_run s4_def attempt_of_def)
  moreover obtain t s5 created updated where "bind_action (save_new_task R body rq (sort expanded) ROUTING False None)
      (\<lambda>task. route_task R (rt_task_id task)) s4 = route_task R (rt_task_id t) s5"
      "t = new_task (env_sha256 (wi_env R)) body rq (sort expanded) ROUTING False None created updated"
      "st_tasks (rs_store s5) ?k = Some t" "background s5 = background s4"
    using save_new_task_runs [OF db'(4), of R body rq "sort expanded" ROUTING False None "\<lambda>task. route_task R (rt_task_id task)"] by blast
  moreover from this(2) have "rt_task_id t = ?k" by (simp add: new_task_id)
  ultimately show ?thesis using b b1 by (intro exI [of _ t] exI [of _ s5]) auto
qed

text \<open>From the plan and the decision to the run.\<close>

lemma decided_task_runs:
  assumes "st_database (rs_store s) = None"
  shows "\<exists>t1 s1. bind_action (decided_task R k t d) f s = f t1 s1 \<and> rt_task_id t1 = rt_task_id t
    \<and> rt_execution_id t1 = Some (ed_execution_id d) \<and> st_tasks (rs_store s1) (rt_task_id t) = Some t1 \<and> background s1 = background s"
proof -
  define t1 where "t1 = t\<lparr>rt_execution_id := Some (ed_execution_id d), rt_selected_backend_id := Some (ed_selected_backend_id d),
         rt_selected_harness_id := Some (ed_selected_harness_id d),
         rt_selected_connector_id := Some (or_str (ed_selected_connector_id d) (ed_selected_harness_id d)),
         rt_execution_decision_reason := Some (ed_reason d), rt_execution_fallback_order := ed_fallback_order d,
         rt_provider_routing_required := ed_provider_routing_required d, rt_updated_at := env_clock (wi_env R) (rs_ticks s)\<rparr>"
  define s1 where "s1 = s\<lparr>rs_ticks := rs_ticks s + 1, rs_store := (rs_store s)\<lparr>st_tasks := (st_tasks (rs_store s))(rt_task_id t \<mapsto> t1)\<rparr>\<rparr>"
  define m where "m = bind_action (audit_task R ''backend.selected'' k (decision_as_dict d)) (\<lambda>_.
     bind_action (metric (\<lambda>m. m\<lparr>me_tasks_by_backend := increment (ed_selected_backend_id d) (me_tasks_by_backend m)\<rparr>)) (\<lambda>_.
       task_event k
         [(''event_type'', PyStr ''backend.selected''), (''execution_id'', PyStr (ed_execution_id d)),
          (''backend_id'', PyStr (ed_selected_backend_id d)), (''harness_id'', PyStr (ed_selected_harness_id d)),
          (''reason'', PyStr (ed_reason d)), (''fallback_order'', str_list (ed_fallback_order d))] :: ('a, unit) service))"
  define s2 where "s2 = snd (m s1)"
  have db: "st_database (rs_store s1) = None" using assms by (simp add: s1_def)
  have m: "quiet m" unfolding m_def by (intro quiet_bind quiet_audit quiet_basic)
  have 2: "st_tasks (rs_store s2) (rt_task_id t) = Some t1" "st_database (rs_store s2) = None" "background s2 = background s1"
    using quiet_unit_after(1,2) [OF m db] quiet_background [OF m db] by (simp_all add: s2_def) (simp add: s1_def)
  have 1: "background s1 = background s" by (simp add: s1_def background_def)
  define t2 where "t2 = t1\<lparr>rt_selected_provider_id := Some ''fireworks'', rt_selected_provider_route_manager_id := Some ''fireconnect'',
         rt_provider_selection_reason := Some ''provider_routing_required_via_execution_router''\<rparr>"
  have "decided_task R k t d s = bind_action m (\<lambda>_. if ed_provider_routing_required d then put_task t2 else act t1) s1"
    using assms by (simp add: decided_task_def put_updated_bind Let_def m_def bind_action_assoc t1_def s1_def t2_def)
  also have "\<dots> = (if ed_provider_routing_required d then put_task t2 else act t1) s2"
    unfolding s2_def by (rule quiet_unit_run [OF m db])
  finally have "\<exists>t' s'. decided_task R k t d s = (Returned t', s') \<and> rt_task_id t' = rt_task_id t
    \<and> rt_execution_id t' = Some (ed_execution_id d) \<and> st_tasks (rs_store s') (rt_task_id t) = Some t' \<and> background s' = background s"
    using 2 1 by (simp add: put_task_runs t2_def background_def) (simp add: t1_def)
  then show ?thesis by fastforce
qed

lemma route_task_runs:
  fixes s :: "'w RuntimeService"
  defines "prompt \<equiv> \<lambda>s k. case rs_task_prompts s k of None \<Rightarrow> [] | Some p \<Rightarrow> p"
    and "remote \<equiv> \<lambda>s t. rs_nodes s \<noteq> [] \<or> opt_truthy (rt_required_node t)"
  assumes db: "st_database (rs_store s) = None" and t: "st_tasks (rs_store s) k = Some t" "rt_task_id t = k"
    and p: "\<And>u path. plan (wi_analyse R) (wi_normalise R) u (mission_spec_from_task t (prompt s k) path (Some (rt_workspace_id t))
        (if remote s t then ''remote'' else ''local'') (remote s t)) = Inr (intent u path)"
    and sel: "\<And>u path s. wi_select R (intent u path) s = Inr (d u path)"
  shows "\<exists>u path t1 s1. route_task R k s = perform_task R k (prompt s k) path (intent u path) (d u path) t1 s1
    \<and> rt_task_id t1 = k \<and> rt_execution_id t1 = Some (ed_execution_id (d u path)) \<and> st_tasks (rs_store s1) k = Some t1
    \<and> background s1 = background s"
proof -
  let ?u = "env_fresh (wi_env R) (rs_ticks s)" and ?path = "resolve_workspace_path s (rt_workspace_id t)"
  let ?it = "intent ?u ?path" and ?d = "d ?u ?path"
  define s1 where "s1 = s\<lparr>rs_ticks := rs_ticks s + 1\<rparr>"
  define a where "a = (audit_task R ''execution.planned'' k
         [(''execution_id'', PyStr (ei_execution_id ?it)),
          (''required_capabilities'', str_list (sort (map capability_value (ei_required_capabilities ?it)))),
          (''preferred_harness'', opt_str (ei_preferred_harness ?it)),
          (''requires_provider_route'', PyBool (ei_requires_provider_route ?it))] :: ('w, unit) service)"
  have a: "quiet a" unfolding a_def by (rule quiet_audit)
  have s1: "st_database (rs_store s1) = None" "background s1 = background s" using db by (simp_all add: s1_def background_def)
  have "bind_action (uuid4 R) f s = f ?u s1" for f :: "_ \<Rightarrow> ('w, RuntimeTaskRecord) service"
    by (simp add: uuid4_def bind_action_def take_ticks_def s1_def)
  moreover have "bind_action (read_state (wi_select R ?it)) g = g (Inr ?d)" for g :: "_ \<Rightarrow> ('w, RuntimeTaskRecord) service"
    by (rule ext) (simp add: sel)
  ultimately have "route_task R k s = bind_action a (\<lambda>_. bind_action (decided_task R k t ?d) (perform_task R k (prompt s k) ?path ?it ?d)) s1"
    using p [of ?u ?path] by (simp add: route_task_def task_of_bind [OF t(1)] a_def prompt_def remote_def attempt_of_def)
  also have "\<dots> = bind_action (decided_task R k t ?d) (perform_task R k (prompt s k) ?path ?it ?d) (snd (a s1))"
    by (rule quiet_unit_run [OF a s1(1)])
  finally have r: "route_task R k s = bind_action (decided_task R k t ?d) (perform_task R k (prompt s k) ?path ?it ?d) (snd (a s1))" .
  have s2: "st_database (rs_store (snd (a s1))) = None" "background (snd (a s1)) = background s"
    using quiet_unit_after(2) [OF a s1(1)] quiet_background [OF a s1(1)] s1(2) by simp_all
  from decided_task_runs [OF s2(1), of R k t ?d "perform_task R k (prompt s k) ?path ?it ?d"] r s2(2) t(2) show ?thesis by metis
qed

section \<open>Retrying\<close>

lemma retry_after_timeout:
  "rd_retry (decide_retry t OFFER_TIMEOUT n started False) \<longleftrightarrow> n < rt_max_attempts t \<and> \<not> started"
  by (auto simp: decide_retry_def retry_decision_def SAFE_BEFORE_START_def Let_def)

text \<open>C36: Retrying needs no approval and no policy decision. Without a database, a retry after an offer
  time-out (which is what the API always reports) asks two things only: whether the task is accepted or
  running, and whether attempts are left. If it is neither and there are, the task is set to routing and
  run, be it awaiting approval, rejected by the policy, cancelled by the user or succeeded; otherwise the
  retry is refused and no task changes.\<close>

theorem retry_skips_approval:
  assumes "st_database (rs_store s) = None" and "st_tasks (rs_store s) k = Some t" and "rt_task_id t = k"
  shows "if rt_status t \<notin> {RUNNING, ACCEPTED} \<and> int (length (st_attempts (rs_store s) k)) < rt_max_attempts t
    then \<exists>s1 now. retry_task R k OFFER_TIMEOUT s = route_task R k s1
      \<and> st_tasks (rs_store s1) k = Some (t\<lparr>rt_status := ROUTING, rt_detail := None, rt_updated_at := now\<rparr>)
    else \<exists>why s1. retry_task R k OFFER_TIMEOUT s = (Raised (PermissionError why), s1)
      \<and> st_tasks (rs_store s1) = st_tasks (rs_store s)"
proof -
  let ?d = "decide_retry t OFFER_TIMEOUT (int (length (st_attempts (rs_store s) k))) (rt_status t \<in> {RUNNING, ACCEPTED}) False"
  define s0 where "s0 = snd (audit_task R ''retry.decided'' k [(''retry'', PyBool (rd_retry ?d)), (''reason'', PyStr (rd_reason ?d))] s)"
  show ?thesis
  proof (cases "rd_retry ?d")
    case True
    define s2 where "s2 = snd (metric (\<lambda>m. m\<lparr>me_retry_count := me_retry_count m + 1, me_failover_count := me_failover_count m + 1\<rparr>) s0)"
    have db: "st_database (rs_store s2) = None" using assms(1) by (simp add: s2_def s0_def quiet_after)
    let ?t = "t\<lparr>rt_status := ROUTING, rt_detail := None, rt_updated_at := env_clock (wi_env R) (rs_ticks s2)\<rparr>"
    let ?s3 = "s2\<lparr>rs_ticks := rs_ticks s2 + 1,
        rs_store := (rs_store s2)\<lparr>st_tasks := (st_tasks (rs_store s2))(rt_task_id t \<mapsto> ?t)\<rparr>\<rparr>"
    have "retry_task R k OFFER_TIMEOUT s = route_task R k ?s3"
      using True assms(1) db unfolding s2_def s0_def
      by (simp add: retry_task_def task_of_bind [OF assms(2)] quiet_run quiet_after put_updated_bind)
    moreover have "st_tasks (rs_store ?s3) k = Some ?t" using assms(3) by simp
    ultimately have "\<exists>s1 now. retry_task R k OFFER_TIMEOUT s = route_task R k s1
        \<and> st_tasks (rs_store s1) k = Some (t\<lparr>rt_status := ROUTING, rt_detail := None, rt_updated_at := now\<rparr>)" by blast
    with True show ?thesis unfolding retry_after_timeout by simp
  next
    case False
    have "retry_task R k OFFER_TIMEOUT s = (Raised (PermissionError (rd_reason ?d)), s0)"
      using False assms(1) by (simp add: s0_def retry_task_def task_of_bind [OF assms(2)] quiet_run quiet_after)
    moreover have "st_tasks (rs_store s0) = st_tasks (rs_store s)"
      using assms(1) by (simp add: s0_def quiet_after)
    ultimately show ?thesis using False unfolding retry_after_timeout by auto
  qed
qed

section \<open>Offers\<close>

text \<open>An offer is accepted under a lease that is no longer active. The method asks only whether the token is
  that of the last lease of the task; with a lease that was released or has expired, a task that has
  already succeeded, failed or been cancelled becomes an offered one again.\<close>

theorem offer_reopens_terminal_task:
  assumes "st_database (rs_store s) = None" and "st_tasks (rs_store s) k = Some t" and "rt_task_id t = k"
    and "ls_active (rs_leases s) k = Some l"
  shows "\<exists>s1 now. mark_offered R k (tl_fencing_token l) s = (Returned (t\<lparr>rt_status := OFFERED, rt_updated_at := now\<rparr>), s1)
    \<and> st_tasks (rs_store s1) k = Some (t\<lparr>rt_status := OFFERED, rt_updated_at := now\<rparr>)"
proof -
  obtain l' s1 where 1: "read_lease R k s = (Returned (Some l'), s1)" "tl_fencing_token l' = tl_fencing_token l"
      "rs_store s1 = rs_store s"
    using assms(4) by (cases "tl_expires_at l \<le> env_clock (wi_env R) (rs_ticks s)")
      (auto simp: read_lease_def utc_now_def bind_action_def take_ticks_def on_leases_def on_part_def active_lease_def Let_def)
  let ?t = "t\<lparr>rt_status := OFFERED, rt_updated_at := env_clock (wi_env R) (rs_ticks s1)\<rparr>"
  let ?s2 = "s1\<lparr>rs_ticks := rs_ticks s1 + 1, rs_store := (rs_store s1)\<lparr>st_tasks := (st_tasks (rs_store s1))(k \<mapsto> ?t)\<rparr>\<rparr>"
  have db: "st_database (rs_store ?s2) = None" using assms(1) 1(3) by simp
  have "mark_offered R k (tl_fencing_token l) s = (Returned ?t, snd (audit_task R ''task.offered'' k [(''lease_id'', PyStr (tl_lease_id l'))] ?s2))"
    using 1 assms(1-3) by (simp add: mark_offered_def task_of_bind [of s1 k t] put_updated_bind quiet_run Let_def)
  moreover have "st_tasks (rs_store (snd (audit_task R ''task.offered'' k p ?s2))) k = Some ?t" for p
    using quiet_unit_after(1) [OF quiet_audit db] by simp
  ultimately show ?thesis by blast
qed

section \<open>Stale events\<close>

lemma idle_stale: "idle (stale_event R k p)"
  unfolding stale_event_def by (intro idle_rules)

lemma stale_event_keeps:
  "core (snd (stale_event R k p s)) = core s" "st_events (rs_store (snd (stale_event R k p s))) = st_events (rs_store s)"
  "machinery (snd (stale_event R k p s)) = machinery s"
proof -
  show "core (snd (stale_event R k p s)) = core s" using frames_stale_event [of R k p] by (simp add: frames_def)
  show "machinery (snd (stale_event R k p s)) = machinery s"
    using idle_stale [of R k p] by (simp add: idle_def)
  show "st_events (rs_store (snd (stale_event R k p s))) = st_events (rs_store s)"
    by (simp add: stale_event_def metric_def audit_task_def take_ticks_def on_store_def on_part_def store_audit_def Let_def
        bind_action_def in_session_def split: option.split prod.split sum.split)
qed

text \<open>C5: A node whose lease has been superseded changes nothing. After any history of the lease service, an
  event that carries a token below the current one is refused, whatever it says and however much later
  it comes: no task, completion record or visible event changes, nor does the state of the backends.\<close>

theorem superseded_node_changes_nothing:
  assumes "lease_step\<^sup>*\<^sup>* (init_LeaseService ttl) (rs_leases s)" and "tok < lease_counter (rs_leases s) k"
  shows "(\<forall>t. fst (ingest_node_event R k a l tok ty payload s) \<noteq> Returned t)
    \<and> core (snd (ingest_node_event R k a l tok ty payload s)) = core s
    \<and> st_events (rs_store (snd (ingest_node_event R k a l tok ty payload s))) = st_events (rs_store s)
    \<and> rs_world (snd (ingest_node_event R k a l tok ty payload s)) = rs_world s"
proof -
  have "lease_holder (rs_leases s) k \<noteq> Some tok"
    using task_leases.superseded_token_never_returns [OF reachable_lease_inv [OF assms(1)] rtranclp.rtrancl_refl assms(2)] .
  then obtain ls e where v: "validate_event (rs_leases s) k l tok a (env_clock (wi_env R) (rs_ticks s)) = (ls, Inl e)"
    using token_op_accepts(3) [of "rs_leases s" k l tok a "env_clock (wi_env R) (rs_ticks s)"]
    by (cases "validate_event (rs_leases s) k l tok a (env_clock (wi_env R) (rs_ticks s))"; cases "snd (validate_event (rs_leases s) k l tok a (env_clock (wi_env R) (rs_ticks s)))") auto
  let ?s = "s\<lparr>rs_ticks := rs_ticks s + 1, rs_leases := ls\<rparr>"
  let ?p = "[(''event_type'', PyStr ty), (''fencing_token'', PyInt tok), (''lease_id'', PyStr l), (''attempt_id'', PyStr a)]"
  have i: "ingest_node_event R k a l tok ty payload s = bind_action (stale_event R k ?p) (\<lambda>_. fail e) ?s"
    using v by (simp add: ingest_node_event_def utc_now_def bind_action_def take_ticks_def)
  have f: "snd (bind_action m (\<lambda>_. fail e) x) = snd (m x)" "fst (bind_action m (\<lambda>_. fail e) x) \<noteq> Returned t"
    for m :: "('w, unit) service" and x and t :: RuntimeTaskRecord
    by (simp_all add: bind_action_def split: prod.split outcome.split)
  show ?thesis
    unfolding i f using stale_event_keeps [of R k ?p ?s] f(2) by (auto simp: core_def machinery_def)
qed

section \<open>Missions of their own\<close>

text \<open>The evidence of an event names the task as its mission.\<close>

lemma event_evidence_runs:
  assumes "dget payload ''verified'' = PyBool True \<or> (\<exists>b. dget payload ''verification'' = PyDict b)"
    and "py_int (py_or (dget payload ''sequence'') (PyInt 1)) = Inr n"
  shows "\<exists>c. event_evidence R t e a ''task.succeeded'' payload s = (Returned [Candidate c], s\<lparr>rs_ticks := rs_ticks s + 1\<rparr>)
    \<and> dget (ce_provenance c) ''mission_id'' = PyStr (rt_task_id t)"
proof -
  let ?pv = "[(''execution_id'', PyStr e), (''attempt_id'', PyStr a), (''mission_id'', PyStr (rt_task_id t)),
     (''project_id'', PyStr (rt_workspace_id t))]"
  let ?c = "\<lambda>body. new_candidate (env_fresh (wi_env R) (rs_ticks s)) ''remote_verification'' None 0 n ?pv body"
  have u: "bind_action (uuid4 R) f s = f (env_fresh (wi_env R) (rs_ticks s)) (s\<lparr>rs_ticks := rs_ticks s + 1\<rparr>)" for f :: "_ \<Rightarrow> ('a, 'b) service"
    by (simp add: uuid4_def bind_action_def take_ticks_def)
  have pv: "dget (ce_provenance (?c body)) ''mission_id'' = PyStr (rt_task_id t)" for body
    by (simp add: new_candidate_def dget_def)
  show ?thesis
  proof (cases "\<exists>b. dget payload ''verification'' = PyDict b")
    case True
    then obtain b where "dget payload ''verification'' = PyDict b" by blast
    with assms(2) have "event_evidence R t e a ''task.succeeded'' payload s = (Returned [Candidate (?c b)], s\<lparr>rs_ticks := rs_ticks s + 1\<rparr>)"
      by (simp add: event_evidence_def u)
    with pv show ?thesis by blast
  next
    case False
    with assms have "event_evidence R t e a ''task.succeeded'' payload s
        = (Returned [Candidate (?c [(''outcome'', PyStr ''verified''), (''passed'', PyBool True)])], s\<lparr>rs_ticks := rs_ticks s + 1\<rparr>)"
      by (cases "dget payload ''verification''") (simp_all add: event_evidence_def u)
    with pv show ?thesis by blast
  qed
qed

lemma release_runs:
  assumes "ls_active ls k = Some l" and "tl_fencing_token l = tok"
  shows "\<exists>l' ls'. release ls k tok now = (ls', Inr l')"
  using assms by (auto simp: release_def active_lease_def Let_def)

lemma settle_unproven:
  assumes "st_database (rs_store s) = None" and "unproven out" and "\<not> terminal_status (rt_status t)" and "rt_task_id t = k"
    and "ls_active (rs_leases s) k = Some l" and "tl_fencing_token l = tok"
  shows "\<exists>t' s'. settle_event R k tok ty t out s = (Returned t', s') \<and> rt_status t' = FAILED \<and> st_tasks (rs_store s') k = Some t'"
proof -
  have st: "outcome_status out = FAILED" "\<not> stale_outcome out"
    using assms(2) by (auto simp: unproven_def outcome_status_def stale_outcome_def)
  let ?t = "t\<lparr>rt_status := FAILED, rt_detail := Some (co_detail out), rt_updated_at := env_clock (wi_env R) (rs_ticks s)\<rparr>"
  let ?s1 = "s\<lparr>rs_ticks := rs_ticks s + 1, rs_store := (rs_store s)\<lparr>st_tasks := (st_tasks (rs_store s))(k \<mapsto> ?t)\<rparr>\<rparr>"
  obtain l' ls' where r: "release (rs_leases s) k tok (env_clock (wi_env R) (rs_ticks s + 1)) = (ls', Inr l')"
    using release_runs [OF assms(5,6)] by blast
  let ?s2 = "?s1\<lparr>rs_ticks := rs_ticks s + 2, rs_leases := ls'\<rparr>"
  let ?s3 = "snd (metric (count_terminal FAILED) ?s2)"
  have db: "st_database (rs_store ?s2) = None" "st_database (rs_store ?s3) = None"
    using assms(1) quiet_unit_after(2) [OF quiet_basic(4), of ?s2] by simp_all
  have "settle_event R k tok ty t out s = (Returned ?t, snd (audit_task R ''task.terminal'' k
        [(''status'', PyStr (status_value FAILED)), (''event_type'', PyStr ty),
         (''completion_state'', PyStr (completion_state_value (co_state out))), (''verified'', PyBool (co_ok out))] ?s3))"
    using assms(1,3,4) st db r by (simp add: settle_event_def Let_def put_updated_bind bind_now bind_leases quiet_run)
  moreover have "st_tasks (rs_store (snd (audit_task R ''task.terminal'' k p ?s3))) k = Some ?t" for p
    using quiet_unit_after(1) [OF quiet_audit db(2)] quiet_unit_after(1) [OF quiet_basic(4) db(1)] by simp
  ultimately show ?thesis by auto
qed

lemma complete_event_unproven:
  fixes s :: "'w RuntimeService"
  assumes inv: "orch_inv (rs_completion s)" and db: "st_database (rs_store s) = None" and "rt_task_id t = k" "k \<noteq> []"
    and m: "rt_mission_id t = Some m" "m \<noteq> []" "m \<noteq> k"
    and open_task: "\<not> terminal_status (rt_status t)" "already_terminal (rs_completion s) (execution_of t) = None"
    and attempt: "rs_authoritative_attempts s (execution_of t) \<in> {None, Some a}"
    and proof_given: "dget payload ''verified'' = PyBool True \<or> (\<exists>b. dget payload ''verification'' = PyDict b)"
    and seq: "py_int (py_or (dget payload ''sequence'') (PyInt 1)) = Inr n" and "\<not> has_key payload ''restored''"
    and lease: "ls_active (rs_leases s) k = Some l" "tl_fencing_token l = tok"
  shows "\<exists>t' s'. complete_event R k a tok ''task.succeeded'' payload t s = (Returned t', s')
    \<and> rt_status t' = FAILED \<and> st_tasks (rs_store s') k = Some t'"
proof -
  let ?cx = "event_context t (execution_of t) a a ''task.succeeded''"
  obtain c where c: "event_evidence R t (execution_of t) a ''task.succeeded'' payload s = (Returned [Candidate c], s\<lparr>rs_ticks := rs_ticks s + 1\<rparr>)"
      "dget (ce_provenance c) ''mission_id'' = PyStr k"
    using event_evidence_runs [OF proof_given seq] assms(3) by metis
  have cx: "cc_execution_id ?cx = execution_of t" "cc_attempt_id ?cx = a" "cc_authoritative_attempt_id ?cx = a"
      "\<not> cc_cancelled ?cx" "cc_require_evidence ?cx" "cc_mission_id ?cx = m"
    using m by (simp_all add: event_context_def completion_context_def or_str_def)
  have "claim_differs c ''mission_id'' (cc_mission_id ?cx)"
    using c(2) m(3) assms(4) cx(6) by (simp add: claim_differs_def)
  then obtain out oc where out: "complete_from_remote_event (wi_env R) ?cx ''task.succeeded'' payload [Candidate c] (rs_completion s) = (Inr out, oc)"
      "unproven out"
    using remote_unproven [of "rs_completion s" ?cx payload c "wi_env R"] inv open_task(2) cx assms(13) by auto
  let ?s1 = "s\<lparr>rs_ticks := rs_ticks s + 1, rs_completion := oc\<rparr>"
  let ?s2 = "snd (note_events R ''completion.event'' k True (co_events out) ?s1)"
  have s1: "st_database (rs_store ?s1) = None" using db by simp
  have e: "or_str (rt_execution_id t) k = execution_of t" using assms(3) by (simp add: execution_of_def)
  have au: "(case rs_authoritative_attempts s (execution_of t) of None \<Rightarrow> a | Some b \<Rightarrow> b) = a" using attempt by auto
  have "complete_event R k a tok ''task.succeeded'' payload t s = settle_event R k tok ''task.succeeded'' t out ?s2"
    using out(1) c(1) au s1 by (simp add: complete_event_def Let_def e bind_completion quiet_run)
  moreover have "st_database (rs_store ?s2) = None" "ls_active (rs_leases ?s2) k = Some l"
    using quiet_unit_after(2,3) [OF quiet_note_events s1] lease(1) by simp_all
  ultimately show ?thesis
    using settle_unproven [OF _ out(2) open_task(1) assms(3) _ lease(2)] by simp
qed

lemma validate_event_holds:
  "validate_event ls k lid tok a now = (ls', Inr l) \<Longrightarrow> ls_active ls' k = Some l \<and> tl_fencing_token l = tok"
  by (auto simp: validate_event_def active_lease_def Let_def split: option.splits if_splits)

text \<open>C34: A node cannot complete a task that has a mission of its own. The evidence made from its event names the
  task's identifier as the mission while the completion is for the mission of the task, so the evidence
  is refused: the event \<open>task.succeeded\<close>, with a verification, a valid lease and the authoritative
  attempt, fails the task.\<close>

theorem own_mission_fails:
  fixes s :: "'w RuntimeService"
  assumes "service_inv s" and "st_database (rs_store s) = None" and "st_tasks (rs_store s) k = Some t" and "k \<noteq> []"
    and "rt_mission_id t = Some m" and "m \<noteq> []" and "m \<noteq> k"
    and "\<not> terminal_status (rt_status t)" and "already_terminal (rs_completion s) (execution_of t) = None"
    and "snd (validate_event (rs_leases s) k lid tok a (env_clock (wi_env R) (rs_ticks s))) = Inr l"
    and "rs_authoritative_attempts s (execution_of t) \<in> {None, Some a}"
    and "dget payload ''verified'' = PyBool True \<or> (\<exists>b. dget payload ''verification'' = PyDict b)"
    and "py_int (py_or (dget payload ''sequence'') (PyInt 1)) = Inr n" and "\<not> has_key payload ''restored''"
  shows "\<exists>t' s'. ingest_node_event R k a lid tok ''task.succeeded'' payload s = (Returned t', s')
    \<and> rt_status t' = FAILED \<and> st_tasks (rs_store s') k = Some t'"
proof -
  let ?ev = "[(''event_type'', PyStr ''task.succeeded''), (''payload'', PyDict payload), (''attempt_id'', PyStr a)]"
  obtain ls where v: "validate_event (rs_leases s) k lid tok a (env_clock (wi_env R) (rs_ticks s)) = (ls, Inr l)"
    using assms(10) by (metis prod.collapse)
  define s1 where "s1 = s\<lparr>rs_ticks := rs_ticks s + 1, rs_leases := ls\<rparr>"
  define s2 where "s2 = snd (task_event k ?ev s1)"
  have db: "st_database (rs_store s1) = None" using assms(2) by (simp add: s1_def)
  have s1: "st_tasks (rs_store s1) k = Some t" using assms(3) by (simp add: s1_def)
  have "bind_action (task_event k ?ev) f s1 = f () s2" for f :: "unit \<Rightarrow> ('w, RuntimeTaskRecord) service"
    unfolding s2_def using quiet_basic(5) db by (rule quiet_unit_run)
  then have i: "ingest_node_event R k a lid tok ''task.succeeded'' payload s = complete_event R k a tok ''task.succeeded'' payload t s2"
    using v by (simp add: ingest_node_event_def bind_now COMPLETION_EVENTS_def s1_def task_of_bind [where t = t] assms(3))
  have s2: "st_database (rs_store s2) = None" "rs_leases s2 = ls" "rs_completion s2 = rs_completion s"
      "rs_authoritative_attempts s2 = rs_authoritative_attempts s"
    using quiet_unit_after [OF quiet_basic(5) db, of k ?ev] by (simp_all add: s2_def) (simp_all add: s1_def)
  have t: "rt_task_id t = k" "orch_inv (rs_completion s)"
    using assms(1,3) by (simp_all add: service_inv_def core_inv_def core_def)
  show ?thesis
    unfolding i
    using validate_event_holds [OF v] assms s2 t by (intro complete_event_unproven [where m = m and n = n and l = l]) simp_all
qed

section \<open>Success of another backend\<close>

text \<open>C35: A success after a fall-back is lost. When the task was routed to the remote backend and another backend
  of the chain ran it instead, the service looks at the backend it had selected, not at the one that
  produced the result: it returns the task as it stands in the store, without completing it. No
  completion record is made and the task keeps its status.\<close>

theorem fallback_success_lost:
  assumes "ed_selected_backend_id d = ''joymesh''" and "run_backends R intent d s = (Returned res, s1)" and "xr_ok res"
    and "xr_backend_id res \<noteq> ''joymesh''" and "st_database (rs_store s1) = None" and "st_tasks (rs_store s1) k = Some t"
  shows "\<exists>s2. perform_task R k prompt path intent d t1 s = (Returned t, s2) \<and> core s2 = core s1 \<and> rs_leases s2 = rs_leases s1"
proof -
  define s2 where "s2 = snd (note_events R ''backend.event'' k True (xr_audits res) s1)"
  have 2: "st_tasks (rs_store s2) k = Some t" "st_database (rs_store s2) = None" "core s2 = core s1" "rs_leases s2 = rs_leases s1"
    using quiet_unit_after [OF quiet_note_events assms(5), of R "''backend.event''" k True "xr_audits res"] assms(5,6)
    by (simp_all add: s2_def core_def)
  have "perform_task R k prompt path intent d t1 s = leased_task k s2"
    using assms(1-3,5) by (simp add: perform_task_def quiet_run s2_def)
  also have "\<exists>s3. leased_task k s2 = (Returned t, s3) \<and> core s3 = core s2 \<and> rs_leases s3 = rs_leases s2"
    using 2(1) by (simp add: leased_task_def task_of_bind metric_def core_def)
  finally show ?thesis using 2 by auto
qed

section \<open>The coding worker inside the service\<close>

text \<open>The service provides the surroundings that the coding worker relies on.\<close>

interpretation service_coding: worker_laws "service_worker R task intent" for R task intent
  by unfold_locales (simp_all add: service_worker_def store_event_def)

text \<open>A harness that outlives the lease makes the execution of the task fail.\<close>

lemma slow_harness_fails:
  assumes "slow_adapter (service_worker R task intent) (rt_task_id task)"
    and "execute_coding_worker R task prompt path d intent s = (Returned res, s1)"
  shows "\<not> xr_ok res \<and> xr_status res \<noteq> ES_SUCCEEDED"
proof -
  have k: "ck_task_id (coding_task task prompt path intent) = rt_task_id task"
    by (simp add: coding_task_def task_from_runtime_def Let_def)
  obtain w s2 where "worker_execute (service_worker R task intent) (coding_task task prompt path intent) s = (Returned w, s2)"
      "res = coding_execution_result task intent d w"
    using assms(2) by (auto simp: execute_coding_worker_def bind_returned)
  then show ?thesis
    using service_coding.execute_lapsed [of R task intent "coding_task task prompt path intent"] assms(1) k
    by (simp add: coding_execution_result_def execution_result_def Let_def)
qed

text \<open>Its progress callback returns, so the coding worker inside the service gives every lease back.\<close>

lemma service_worker_releases:
  assumes "acquire_exclusive_lease (service_worker R task intent) (ck_task_id work)
      (if ck_worker_id work = [] then ''local-codex-worker'' else ck_worker_id work) ''codex'' s = (Returned (Some lease), s1)"
    and "worker_execute (service_worker R task intent) work s = (r, s2)"
    and "ls_active (rs_leases s2) (ck_task_id work) = Some l" and "tl_fencing_token l = tl_fencing_token lease"
  shows "tl_status l = LEASE_RELEASED"
proof -
  have "fst (wh_progress (service_worker R task intent) label s1) = Returned ()"
    and "wh_leases (service_worker R task intent) = rs_leases" for label
    by (simp_all add: service_worker_def)
  with service_coding.execute_releases [OF assms(1) _ assms(2)] assms(3,4) show ?thesis by simp
qed

section \<open>Concrete runs\<close>

text \<open>A service that holds one task under a lease.\<close>

definition leased_service :: "RuntimeTaskRecord \<Rightarrow> unit RuntimeService" where
  "leased_service t = (example_service ())
     \<lparr>rs_store := (init_RuntimeStore None)\<lparr>st_tasks := [rt_task_id t \<mapsto> t]\<rparr>,
      rs_leases := fst (acquire (init_LeaseService 60) (rt_task_id t) ''n1'' ''codex'' ''a1'' None ''l1'' 0 0)\<rparr>"

lemma leased_service_simps:
  "rs_store (leased_service t) = (init_RuntimeStore None)\<lparr>st_tasks := [rt_task_id t \<mapsto> t]\<rparr>"
  "rs_leases (leased_service t) = fst (acquire (init_LeaseService 60) (rt_task_id t) ''n1'' ''codex'' ''a1'' None ''l1'' 0 0)"
  "rs_completion (leased_service t) = init_Orchestrator" "rs_ticks (leased_service t) = 0"
  "rs_authoritative_attempts (leased_service t) = Map.empty"
  by (simp_all add: leased_service_def example_service_def init_RuntimeService_def)

lemma first_lease:
  "acquire (init_LeaseService 60) k ''n1'' ''codex'' ''a1'' None ''l1'' 0 0 =
     (\<lparr>ls_ttl_seconds = 60, ls_active = [k \<mapsto> the (ls_active (fst (acquire (init_LeaseService 60) k ''n1'' ''codex'' ''a1'' None ''l1'' 0 0)) k)],
       ls_tokens = [k \<mapsto> 1]\<rparr>, Inr (the (ls_active (fst (acquire (init_LeaseService 60) k ''n1'' ''codex'' ''a1'' None ''l1'' 0 0)) k)))"
  by (simp add: acquire_def active_lease_def init_LeaseService_def Let_def)

text \<open>A task that awaits approval is run; a running one is not.\<close>

theorem retry_skips_approval_witness:
  "(\<exists>s1 now. retry_task example_wiring ''t1'' OFFER_TIMEOUT (leased_service (example_task\<lparr>rt_status := APPROVAL_REQUIRED\<rparr>)) = route_task example_wiring ''t1'' s1
      \<and> st_tasks (rs_store s1) ''t1'' = Some (example_task\<lparr>rt_status := ROUTING, rt_detail := None, rt_updated_at := now\<rparr>))
   \<and> (\<exists>why s1. retry_task example_wiring ''t1'' OFFER_TIMEOUT (leased_service (example_task\<lparr>rt_status := RUNNING\<rparr>)) = (Raised (PermissionError why), s1))"
  using retry_skips_approval [of "leased_service (example_task\<lparr>rt_status := APPROVAL_REQUIRED\<rparr>)" "''t1''" "example_task\<lparr>rt_status := APPROVAL_REQUIRED\<rparr>" example_wiring]
    retry_skips_approval [of "leased_service (example_task\<lparr>rt_status := RUNNING\<rparr>)" "''t1''" "example_task\<lparr>rt_status := RUNNING\<rparr>" example_wiring]
  by (auto simp: leased_service_simps init_RuntimeStore_def example_task_def)

theorem offer_reopens_terminal_task_witness:
  "\<exists>s1 now. mark_offered example_wiring ''t1'' 1 (leased_service (example_task\<lparr>rt_status := CANCELLED\<rparr>))
      = (Returned (example_task\<lparr>rt_status := OFFERED, rt_updated_at := now\<rparr>), s1)"
  using offer_reopens_terminal_task [of "leased_service (example_task\<lparr>rt_status := CANCELLED\<rparr>)" "''t1''" "example_task\<lparr>rt_status := CANCELLED\<rparr>" _ example_wiring]
  by (auto simp: leased_service_simps init_RuntimeStore_def example_task_def acquire_def active_lease_def init_LeaseService_def Let_def)

theorem superseded_node_changes_nothing_witness:
  "core (snd (ingest_node_event example_wiring ''t1'' ''a0'' ''l0'' 0 ''task.succeeded'' [] (leased_service example_task)))
     = core (leased_service example_task)"
proof -
  have "lease_step (init_LeaseService 60) (rs_leases (leased_service example_task))"
    unfolding leased_service_simps by (rule step_acquire)
  then have "lease_step\<^sup>*\<^sup>* (init_LeaseService 60) (rs_leases (leased_service example_task))" by blast
  moreover have "0 < lease_counter (rs_leases (leased_service example_task)) ''t1''"
    by (simp add: leased_service_simps example_task_def lease_counter_def acquire_def active_lease_def init_LeaseService_def Let_def)
  ultimately show ?thesis by (rule superseded_node_changes_nothing [THEN conjunct2, THEN conjunct1])
qed

theorem own_mission_fails_witness:
  "\<exists>t' s'. ingest_node_event example_wiring ''t1'' ''a1'' ''l1'' 1 ''task.succeeded'' [(''verified'', PyBool True)]
      (leased_service (example_task\<lparr>rt_mission_id := Some ''m1'', rt_status := RUNNING\<rparr>)) = (Returned t', s') \<and> rt_status t' = FAILED"
proof -
  let ?t = "example_task\<lparr>rt_mission_id := Some ''m1'', rt_status := RUNNING\<rparr>"
  let ?s = "leased_service ?t"
  have inv: "service_inv ?s"
    by (auto simp: service_inv_def core_inv_def core_def leased_service_simps init_RuntimeStore_def init_orch_inv)
  have l: "\<exists>l. snd (validate_event (rs_leases ?s) ''t1'' ''l1'' 1 ''a1'' (env_clock (wi_env (example_wiring :: unit wiring)) (rs_ticks ?s))) = Inr l"
    by (simp add: leased_service_simps example_task_def validate_event_def acquire_def active_lease_def init_LeaseService_def Let_def
        example_wiring_def example_environment_def)
  then obtain l where l: "snd (validate_event (rs_leases ?s) ''t1'' ''l1'' 1 ''a1'' (env_clock (wi_env (example_wiring :: unit wiring)) (rs_ticks ?s))) = Inr l"
    by blast
  have t: "already_terminal (rs_completion ?s) (execution_of ?t) = None" "st_database (rs_store ?s) = None"
      "st_tasks (rs_store ?s) ''t1'' = Some ?t" "rs_authoritative_attempts ?s (execution_of ?t) \<in> {None, Some ''a1''}"
    by (simp_all add: leased_service_simps init_RuntimeStore_def init_Orchestrator_def already_terminal_def store_get_def example_task_def)
  have "\<exists>t' s'. ingest_node_event example_wiring ''t1'' ''a1'' ''l1'' 1 ''task.succeeded'' [(''verified'', PyBool True)] ?s = (Returned t', s')
      \<and> rt_status t' = FAILED \<and> st_tasks (rs_store s') ''t1'' = Some t'"
    by (rule own_mission_fails [OF inv t(2) t(3) _ _ _ _ _ t(1) l t(4), where n = 1 and m = "''m1''"]) (simp_all add: dget_def py_or_def terminal_status_def has_key_def)
  then show ?thesis by blast
qed

text \<open>A chain in which the remote backend cannot take the task and the local one runs it.\<close>

definition counted_backend :: "ExecutionResult outcome \<Rightarrow> nat RuntimeService ExecutionBackend" where
  "counted_backend out =
     \<lparr>be_capabilities = [], be_supports = (\<lambda>_ _. True),
      be_health = Pair (Returned \<lparr>bh_healthy = True, bh_backend_id = ''b'', bh_detail = [], bh_capabilities = [], bh_state = ''ready''\<rparr>),
      be_prepare = (\<lambda>_ _. Pair (Returned [])), be_validate = (\<lambda>_ _. Pair (Returned ())),
      be_execute = (\<lambda>_ _ _ (w, g). (out, w\<lparr>rs_world := rs_world w + 1\<rparr>, g)), be_cleanup = (\<lambda>_. Pair (Returned ()))\<rparr>"

definition fallback_wiring :: "nat wiring" where
  "fallback_wiring = example_wiring\<lparr>wi_run_env := sample_env,
     wi_router := \<lparr>er_registry = \<lparr>br_config = example_config\<lparr>bc_enabled_backends := [''joymesh'', ''local'']\<rparr>,
        br_backends = [(''joymesh'', counted_backend (Raised (RuntimeError ''no node''))), (''local'', counted_backend (Returned sample_success))]\<rparr>,
      er_available_harnesses = [''codex''], er_subscription_allows = [], er_quota_allows = []\<rparr>\<rparr>"

theorem fallback_success_lost_witness:
  "\<exists>s2. perform_task fallback_wiring ''t1'' ''p'' ''/w'' sample_intent (sample_decision\<lparr>ed_selected_backend_id := ''joymesh'', ed_fallback_order := [''local'']\<rparr>)
      example_task ((example_service (0::nat))\<lparr>rs_store := (init_RuntimeStore None)\<lparr>st_tasks := [''t1'' \<mapsto> example_task\<lparr>rt_status := QUEUED\<rparr>]\<rparr>\<rparr>)
      = (Returned (example_task\<lparr>rt_status := QUEUED\<rparr>), s2) \<and> oc_store (rs_completion s2) = []"
proof -
  let ?d = "sample_decision\<lparr>ed_selected_backend_id := ''joymesh'', ed_fallback_order := [''local'']\<rparr>"
  let ?s = "(example_service (0::nat))\<lparr>rs_store := (init_RuntimeStore None)\<lparr>st_tasks := [''t1'' \<mapsto> example_task\<lparr>rt_status := QUEUED\<rparr>]\<rparr>\<rparr>"
  have s: "rs_completion ?s = init_Orchestrator" "rs_run_ticks ?s = 0" "rs_registry ?s = init_CancellationRegistry"
      "rs_store ?s = (init_RuntimeStore None)\<lparr>st_tasks := [''t1'' \<mapsto> example_task\<lparr>rt_status := QUEUED\<rparr>]\<rparr>"
    by (simp_all add: example_service_def init_RuntimeService_def)
  obtain r run where r: "execute_with_fallback sample_env (wi_router fallback_wiring) sample_intent ?d (?s, init_CancellationRegistry) 0 = (Returned r, run)"
    and x: "xr_ok r" "xr_backend_id r = ''local''" "rs_store (rn_world run) = rs_store ?s" "rs_completion (rn_world run) = init_Orchestrator"
    using s by (simp add: fallback_wiring_def counted_backend_def example_config_def sample_simps run_simps init_CancellationRegistry_def)
  let ?s1 = "(rn_world run)\<lparr>rs_registry := rn_registry run, rs_run_ticks := rn_ticks run\<rparr>"
  have b: "run_backends fallback_wiring sample_intent ?d ?s = (Returned r, ?s1)"
    using r s by (simp add: run_backends_def fallback_wiring_def)
  have 1: "st_database (rs_store ?s1) = None" "st_tasks (rs_store ?s1) ''t1'' = Some (example_task\<lparr>rt_status := QUEUED\<rparr>)"
    using x(3) s(4) by (simp_all add: init_RuntimeStore_def)
  have "ed_selected_backend_id ?d = ''joymesh''" "xr_backend_id r \<noteq> ''joymesh''" using x(2) by simp_all
  then obtain s2 where "perform_task fallback_wiring ''t1'' ''p'' ''/w'' sample_intent ?d example_task ?s = (Returned (example_task\<lparr>rt_status := QUEUED\<rparr>), s2)"
      "core s2 = core ?s1"
    using fallback_success_lost [OF _ b x(1) _ 1] by blast
  with x(4) show ?thesis by (auto simp: core_def init_Orchestrator_def)
qed

theorem backend_success_completes_task_witness:
  "\<exists>t' s'. perform_task fallback_wiring ''t1'' ''p'' ''/w'' sample_intent (sample_decision\<lparr>ed_selected_backend_id := ''local'', ed_selected_harness_id := ''claude''\<rparr>)
      example_task ((example_service (0::nat))\<lparr>rs_store := (init_RuntimeStore None)\<lparr>st_tasks := [''t1'' \<mapsto> example_task]\<rparr>\<rparr>) = (Returned t', s')
    \<and> rt_status t' = SUCCEEDED"
proof -
  let ?d = "sample_decision\<lparr>ed_selected_backend_id := ''local'', ed_selected_harness_id := ''claude''\<rparr>"
  let ?s = "(example_service (0::nat))\<lparr>rs_store := (init_RuntimeStore None)\<lparr>st_tasks := [''t1'' \<mapsto> example_task]\<rparr>\<rparr>"
  have s: "rs_completion ?s = init_Orchestrator" "rs_run_ticks ?s = 0" "rs_registry ?s = init_CancellationRegistry"
      "rs_store ?s = (init_RuntimeStore None)\<lparr>st_tasks := [''t1'' \<mapsto> example_task]\<rparr>"
    by (simp_all add: example_service_def init_RuntimeService_def)
  obtain r run where r: "execute_with_fallback sample_env (wi_router fallback_wiring) sample_intent ?d (?s, init_CancellationRegistry) 0 = (Returned r, run)"
    and x: "xr_ok r" "restore_ok r" "xr_usage r = []" "\<exists>a. result_attempt example_task r = Inr a" "rs_store (rn_world run) = rs_store ?s"
      "rs_completion (rn_world run) = init_Orchestrator"
    using s by (simp add: fallback_wiring_def counted_backend_def example_config_def sample_simps run_simps init_CancellationRegistry_def
        restore_ok_def has_key_def result_attempt_def attempt_as_dict_def)
  let ?s1 = "(rn_world run)\<lparr>rs_registry := rn_registry run, rs_run_ticks := rn_ticks run\<rparr>"
  have b: "run_backends fallback_wiring sample_intent ?d ?s = (Returned r, ?s1)"
    using r s by (simp add: run_backends_def fallback_wiring_def)
  have inv: "service_inv ?s1" "st_database (rs_store ?s1) = None"
    using x(5,6) s(4) by (auto simp: service_inv_def core_inv_def core_def init_RuntimeStore_def init_orch_inv example_task_def)
  obtain a where a: "result_attempt example_task r = Inr a" using x(4) by blast
  have "already_terminal (rs_completion ?s1) (xr_execution_id r) = None" "usage_accepted r cx (oc_usage (rs_completion ?s1))" for cx
    using usage_accepted_init [OF x(3)] x(6) by (simp_all add: init_Orchestrator_def already_terminal_def store_get_def)
  then show ?thesis
    using backend_success_completes_task [OF _ _ b inv x(1,2) a] by fastforce
qed

end
