(* ===== verification/Process_Runner.thy ===== *)
theory Process_Runner
  imports Security "HOL-Library.Sublist"
begin

text \<open>
  Running a harness process: \<^verbatim>\<open>src/src/joymesh/runtime_v1/execution_routing/process_runner.py\<close> and
  \<^verbatim>\<open>terminate_process_tree\<close> of \<^verbatim>\<open>src/src/joymesh/connectors/process_utils.py\<close>.

  The file system, the environment of the interpreter, SHA-256 and the decoding of bytes are a record
  of functions; a path is resolved to its parts. Starting a process and awaiting it are functions on
  the state \<open>'s\<close> of the whole program, because other tasks run meanwhile; \<open>get\<close> and \<open>put\<close> reach the
  runner in it. The table of processes is the list of its keys.
\<close>

section \<open>Stopping a process\<close>

datatype stop_signal = SIGINT | SIGTERM | SIGKILL

fun signal_name :: "stop_signal \<Rightarrow> string" where
  "signal_name SIGINT = ''SIGINT''"
| "signal_name SIGTERM = ''SIGTERM''"
| "signal_name SIGKILL = ''SIGKILL''"

text \<open>\<open>exits k\<close>: the process ends within two seconds of the signal. The signals sent are returned too.\<close>

definition stopped_answer :: "int \<Rightarrow> bool \<Rightarrow> stop_signal option \<Rightarrow> pydict" where
  "stopped_answer pid lingering sent =
     [(''cancelled'', PyBool True), (''lingering'', PyBool lingering), (''pid'', PyInt pid)]
     @ (case sent of None \<Rightarrow> [] | Some k \<Rightarrow> [(''signal'', PyStr (signal_name k))])"

definition terminate_process_tree :: "int option \<Rightarrow> int \<Rightarrow> (stop_signal \<Rightarrow> bool) \<Rightarrow> stop_signal list \<times> pydict" where
  "terminate_process_tree returncode pid exits =
     (if returncode \<noteq> None then ([], stopped_answer pid False None)
      else if exits SIGINT then ([SIGINT], stopped_answer pid False (Some SIGINT))
      else if exits SIGTERM then ([SIGINT, SIGTERM], stopped_answer pid False (Some SIGTERM))
      else ([SIGINT, SIGTERM, SIGKILL], stopped_answer pid (\<not> exits SIGKILL) (Some SIGKILL)))"

section \<open>The runner\<close>

record ProcessRunRequest =
  rq_argv :: "string list"
  rq_cwd :: string
  rq_timeout_seconds :: int
  rq_extra_env_keys :: "string list"
  rq_extra_env :: "(string \<times> string) list"
  rq_max_stdout_bytes :: int
  rq_max_stderr_bytes :: int
  rq_run_id :: string

definition process_run_request :: "string list \<Rightarrow> string \<Rightarrow> int \<Rightarrow> (string \<times> string) list \<Rightarrow> string \<Rightarrow> ProcessRunRequest" where
  "process_run_request argv cwd timeout extra run_id =
     \<lparr>rq_argv = argv, rq_cwd = cwd, rq_timeout_seconds = timeout, rq_extra_env_keys = map fst extra,
      rq_extra_env = extra, rq_max_stdout_bytes = 8000000, rq_max_stderr_bytes = 2000000, rq_run_id = run_id\<rparr>"

record ProcessRunResult =
  rr_ok :: bool
  rr_run_id :: string
  rr_returncode :: "int option"
  rr_timed_out :: bool
  rr_cancelled :: bool
  rr_stdout :: string
  rr_stderr :: string
  rr_stdout_digest :: string
  rr_stderr_digest :: string
  rr_truncated :: bool
  rr_lingering :: bool
  rr_classification :: string

definition run_result_as_dict :: "ProcessRunResult \<Rightarrow> pydict" where
  "run_result_as_dict r =
     [(''ok'', PyBool (rr_ok r)), (''run_id'', PyStr (rr_run_id r)),
      (''returncode'', (case rr_returncode r of None \<Rightarrow> PyNone | Some n \<Rightarrow> PyInt n)),
      (''timed_out'', PyBool (rr_timed_out r)), (''cancelled'', PyBool (rr_cancelled r)),
      (''stdout_digest'', PyStr (rr_stdout_digest r)), (''stderr_digest'', PyStr (rr_stderr_digest r)),
      (''truncated'', PyBool (rr_truncated r)), (''lingering'', PyBool (rr_lingering r)),
      (''classification'', PyStr (rr_classification r)),
      (''stdout_preview'', PyStr (redact_secrets (take 500 (rr_stdout r)))),
      (''stderr_preview'', PyStr (redact_secrets (take 500 (rr_stderr r))))]"

record SafeProcessRunner =
  pr_processes :: "string list"
  pr_cancelled :: "string list"

definition init_SafeProcessRunner :: SafeProcessRunner where
  "init_SafeProcessRunner = \<lparr>pr_processes = [], pr_cancelled = []\<rparr>"

definition process_started :: "string \<Rightarrow> SafeProcessRunner \<Rightarrow> SafeProcessRunner" where
  "process_started run_id rn = rn\<lparr>pr_processes := List.insert run_id (pr_processes rn)\<rparr>"

text \<open>The \<^verbatim>\<open>finally\<close> of a run.\<close>

definition process_ended :: "string \<Rightarrow> SafeProcessRunner \<Rightarrow> SafeProcessRunner" where
  "process_ended run_id rn =
     rn\<lparr>pr_processes := removeAll run_id (pr_processes rn), pr_cancelled := removeAll run_id (pr_cancelled rn)\<rparr>"

record host =
  ho_resolve :: "string \<Rightarrow> string list option"
  ho_resolve_root :: "string \<Rightarrow> string list"
  ho_is_dir :: "string list \<Rightarrow> bool"
  ho_environ :: "(string \<times> string) list"
  ho_parent_dir :: "string \<Rightarrow> string"
  ho_which :: "string \<Rightarrow> string option"
  ho_decode :: "string \<Rightarrow> string"
  ho_sha256 :: "string \<Rightarrow> string"

text \<open>The parts of a path as written: empty parts and \<^verbatim>\<open>.\<close> are dropped, \<^verbatim>\<open>..\<close> is kept.\<close>

fun split_path :: "string \<Rightarrow> string list" where
  "split_path [] = [[]]"
| "split_path (c # s) =
     (if c = CHR ''/'' then [] # split_path s
      else (case split_path s of [] \<Rightarrow> [[c]] | p # ps \<Rightarrow> (c # p) # ps))"

definition has_traversal :: "string \<Rightarrow> bool" where
  "has_traversal cwd \<longleftrightarrow> ''..'' \<in> set (split_path cwd)"

definition validate_cwd :: "host \<Rightarrow> string \<Rightarrow> string list \<Rightarrow> string list result" where
  "validate_cwd H cwd allowed_roots =
     (case ho_resolve H cwd of
        None \<Rightarrow> Inl (ProcessRunnerError ''workspace_unavailable'' (''cwd unavailable: '' @ cwd))
      | Some resolved \<Rightarrow>
          if \<not> ho_is_dir H resolved then
            Inl (ProcessRunnerError ''workspace_unavailable'' (''cwd is not a directory: '' @ cwd))
          else if has_traversal cwd then
            Inl (ProcessRunnerError ''workspace_traversal'' ''path traversal rejected'')
          else if allowed_roots \<noteq> [] \<and> \<not> list_ex (\<lambda>r. prefix (ho_resolve_root H r) resolved) allowed_roots then
            Inl (ProcessRunnerError ''workspace_escape'' ''cwd escapes allowed roots'')
          else Inr resolved)"

definition child_environment :: "host \<Rightarrow> ProcessRunRequest \<Rightarrow> (string \<times> string) list" where
  "child_environment H rq =
     fold (\<lambda>(k, v) env. if k \<in> fst ` set env \<or> k \<in> set (rq_extra_env_keys rq) then AList.update k v env else env)
       (rq_extra_env rq) (filter_environment (ho_environ H) None (rq_extra_env_keys rq))"

definition classify_exit :: "int option \<Rightarrow> bool \<Rightarrow> bool \<Rightarrow> string" where
  "classify_exit returncode timed_out cancelled =
     (if cancelled then ''cancelled'' else if timed_out then ''timeout''
      else if returncode = Some 0 then ''ok'' else if returncode = None then ''unknown'' else ''process_failure'')"

text \<open>How awaiting a process ended.\<close>

record child_end =
  ce_timed_out :: bool
  ce_lingering :: bool
  ce_returncode :: "int option"
  ce_stdout :: string
  ce_stderr :: string

record 's process_host =
  ph_host :: host
  ph_get :: "'s \<Rightarrow> SafeProcessRunner"
  ph_map :: "(SafeProcessRunner \<Rightarrow> SafeProcessRunner) \<Rightarrow> 's \<Rightarrow> 's"
  ph_spawn :: "string list \<Rightarrow> string list \<Rightarrow> (string \<times> string) list \<Rightarrow> 's \<Rightarrow> unit outcome \<times> 's"
  ph_communicate :: "string \<Rightarrow> int \<Rightarrow> 's \<Rightarrow> child_end outcome \<times> 's"
  ph_terminate :: "string \<Rightarrow> 's \<Rightarrow> pydict outcome \<times> 's"

definition take_bytes :: "int \<Rightarrow> string \<Rightarrow> string" where
  "take_bytes limit s = (if int (length s) > limit then take (nat limit) s else s)"

definition run_result :: "host \<Rightarrow> ProcessRunRequest \<Rightarrow> bool \<Rightarrow> child_end \<Rightarrow> ProcessRunResult" where
  "run_result H rq cancelled e =
     (let out = ho_decode H (take_bytes (rq_max_stdout_bytes rq) (ce_stdout e));
          err = ho_decode H (take_bytes (rq_max_stderr_bytes rq) (ce_stderr e));
          cls = classify_exit (ce_returncode e) (ce_timed_out e) cancelled
      in \<lparr>rr_ok = (cls = ''ok'' \<and> ce_returncode e = Some 0), rr_run_id = rq_run_id rq, rr_returncode = ce_returncode e,
          rr_timed_out = ce_timed_out e, rr_cancelled = cancelled, rr_stdout = out, rr_stderr = err,
          rr_stdout_digest = ho_sha256 H out, rr_stderr_digest = ho_sha256 H err,
          rr_truncated = (int (length (ce_stdout e)) > rq_max_stdout_bytes rq
                          \<or> int (length (ce_stderr e)) > rq_max_stderr_bytes rq),
          rr_lingering = ce_lingering e, rr_classification = cls\<rparr>)"

definition run_process :: "'s process_host \<Rightarrow> ProcessRunRequest \<Rightarrow> 's \<Rightarrow> ProcessRunResult outcome \<times> 's" where
  "run_process P rq s =
     (let H = ph_host P; i = rq_run_id rq
      in if rq_argv rq = [] then (Raised (ProcessRunnerError ''invalid_argv'' ''argv must be non-empty''), s)
         else case validate_cwd H (rq_cwd rq) [] of
           Inl e \<Rightarrow> (Raised e, s)
         | Inr cwd \<Rightarrow>
             (case ph_spawn P (rq_argv rq) cwd (child_environment H rq) s of
                (Raised e, s1) \<Rightarrow> (Raised e, s1)
              | (Cancelled, s1) \<Rightarrow> (Cancelled, s1)
              | (Returned _, s1) \<Rightarrow>
                  (case ph_communicate P i (rq_timeout_seconds rq) (ph_map P (process_started i) s1) of
                     (Raised e, s2) \<Rightarrow> (Raised e, ph_map P (process_ended i) s2)
                   | (Cancelled, s2) \<Rightarrow> (Cancelled, ph_map P (process_ended i) s2)
                   | (Returned e, s2) \<Rightarrow>
                       (Returned (run_result H rq (i \<in> set (pr_cancelled (ph_get P s2))) e),
                        ph_map P (process_ended i) s2))))"

text \<open>\<^verbatim>\<open>cancel\<close>: the mark is set whether or not a process runs.\<close>

definition runner_cancel :: "'s process_host \<Rightarrow> string \<Rightarrow> 's \<Rightarrow> pydict outcome \<times> 's" where
  "runner_cancel P i s =
     (let s1 = ph_map P (\<lambda>rn. rn\<lparr>pr_cancelled := List.insert i (pr_cancelled rn)\<rparr>) s
      in if i \<in> set (pr_processes (ph_get P s1)) then ph_terminate P i s1
         else (Returned [(''cancelled'', PyBool True), (''lingering'', PyBool False),
                         (''detail'', PyStr ''no active process'')], s1))"

section \<open>Streaming\<close>

text \<open>\<^verbatim>\<open>stream_lines\<close>: the events that the iterations so far have yielded. An iteration first looks at
  the cancellation mark, then reads a line (an empty one at the end of the output) or stalls until
  the time-out. \<open>rc\<close> is the exit status.\<close>

datatype line_read = Line_Read string | Read_Stalled

definition stream_event :: "string \<Rightarrow> int \<Rightarrow> pydict \<Rightarrow> pydict" where
  "stream_event ty sequence extra = (''event_type'', PyStr ty) # (''sequence'', PyInt sequence) # extra"

definition strip_newlines :: "string \<Rightarrow> string" where
  "strip_newlines s = rev (dropWhile (\<lambda>c. c = char_of (10 :: nat)) (rev s))"

fun stream_loop :: "host \<Rightarrow> int \<Rightarrow> int option \<Rightarrow> int \<Rightarrow> int \<Rightarrow> (bool \<times> line_read) list \<Rightarrow> pydict list" where
  "stream_loop H limit rc sequence collected [] = []"
| "stream_loop H limit rc sequence collected ((cancelled, r) # rest) =
     (if cancelled then [stream_event ''execution.cancelled'' (sequence + 1) [(''line'', PyStr [])]]
      else case r of
        Read_Stalled \<Rightarrow> [stream_event ''execution.failed'' (sequence + 1) [(''reason'', PyStr ''timeout'')]]
      | Line_Read line \<Rightarrow>
          if line = [] then
            [stream_event (if rc = Some 0 then ''execution.completed'' else ''execution.failed'') (sequence + 1)
               [(''returncode'', (case rc of None \<Rightarrow> PyNone | Some n \<Rightarrow> PyInt n))]]
          else if collected + int (length line) > limit then
            [stream_event ''execution.failed'' (sequence + 1) [(''reason'', PyStr ''output_limit'')]]
          else stream_event ''execution.output'' (sequence + 1)
                 [(''line'', PyStr (redact_secrets (strip_newlines (ho_decode H line))))]
               # stream_loop H limit rc (sequence + 1) (collected + int (length line)) rest)"

section \<open>Lemmas\<close>

text \<open>A runner inside a state.\<close>

locale runner_state =
  fixes get :: "'s \<Rightarrow> SafeProcessRunner" and upd :: "(SafeProcessRunner \<Rightarrow> SafeProcessRunner) \<Rightarrow> 's \<Rightarrow> 's"
  assumes get_upd: "get (upd f s) = f (get s)"
begin

lemma ended_free:
  "run_id \<notin> set (pr_processes (get (upd (process_ended run_id) s)))
   \<and> run_id \<notin> set (pr_cancelled (get (upd (process_ended run_id) s)))"
  by (simp add: get_upd process_ended_def)

text \<open>However a run ends, it leaves neither its process nor its cancellation mark behind.\<close>

lemma run_leaves_nothing:
  assumes "ph_get P = get" and "ph_map P = upd" and "run_process P rq s = (r, s1)"
    and "validate_cwd (ph_host P) (rq_cwd rq) [] = Inr cwd" and "rq_argv rq \<noteq> []"
    and "ph_spawn P (rq_argv rq) cwd (child_environment (ph_host P) rq) s = (Returned (), s0)"
  shows "rq_run_id rq \<notin> set (pr_processes (get s1)) \<and> rq_run_id rq \<notin> set (pr_cancelled (get s1))"
  using assms ended_free by (auto simp: run_process_def Let_def split: outcome.splits prod.splits)

lemma idle_cancel_marks:
  assumes "ph_get P = get" and "ph_map P = upd" and "i \<notin> set (pr_processes (get s))"
  shows "\<exists>answer s1. runner_cancel P i s = (Returned answer, s1) \<and> i \<in> set (pr_cancelled (get s1))
    \<and> pr_processes (get s1) = pr_processes (get s)"
  using assms by (simp add: runner_cancel_def Let_def get_upd)

end

lemma fold_update_keys:
  "fst ` set (fold (\<lambda>(k, v) env. if k \<in> fst ` set env \<or> k \<in> X then AList.update k v env else env) extra env)
     \<subseteq> fst ` set env \<union> fst ` set extra"
proof (induction extra arbitrary: env)
  case (Cons e extra)
  obtain j w where e: "e = (j, w)" by (cases e)
  show ?case
    using Cons.IH [of "if j \<in> fst ` set env \<or> j \<in> X then AList.update j w env else env"]
    by (auto simp: e dom_update split: if_splits)
qed simp

text \<open>The environment of a harness process holds, besides the variables of the request's own
  \<^verbatim>\<open>extra_env\<close>, only variables of the interpreter that are on the safe list, asked for, or JoyMesh's own,
  and none with the name of a secret.\<close>

theorem child_environment_safe:
  "\<forall>k \<in> fst ` set (child_environment H rq). k \<in> fst ` set (rq_extra_env rq)
     \<or> (k \<in> fst ` set (ho_environ H) \<and> \<not> is_denied_secret_key k
        \<and> (k \<in> set SAFE_ENVIRONMENT_KEYS \<or> k \<in> set (rq_extra_env_keys rq) \<or> starts_with ''JOYMESH_'' k))"
proof
  fix k
  assume "k \<in> fst ` set (child_environment H rq)"
  then have "k \<in> fst ` set (filter_environment (ho_environ H) None (rq_extra_env_keys rq)) \<union> fst ` set (rq_extra_env rq)"
    unfolding child_environment_def using fold_update_keys by (rule subsetD [rotated])
  then show "k \<in> fst ` set (rq_extra_env rq)
     \<or> (k \<in> fst ` set (ho_environ H) \<and> \<not> is_denied_secret_key k
        \<and> (k \<in> set SAFE_ENVIRONMENT_KEYS \<or> k \<in> set (rq_extra_env_keys rq) \<or> starts_with ''JOYMESH_'' k))"
    by (auto simp: filter_environment_def)
qed

definition sample_host :: host where
  "sample_host = \<lparr>ho_resolve = (\<lambda>p. Some (split_path p)), ho_resolve_root = (\<lambda>_. [[]]), ho_is_dir = (\<lambda>_. True),
     ho_environ = [(''PATH'', ''/bin''), (''OPENAI_API_KEY'', ''k''), (''EDITOR'', ''vi'')],
     ho_parent_dir = (\<lambda>_. ''/''), ho_which = (\<lambda>_. None), ho_decode = (\<lambda>s. s), ho_sha256 = (\<lambda>s. s)\<rparr>"

theorem child_environment_safe_witness:
  "''OPENAI_API_KEY'' \<notin> fst ` set (child_environment sample_host (process_run_request [''codex''] ''/w'' 60 [] ''e1''))"
proof
  assume m: "''OPENAI_API_KEY'' \<in> fst ` set (child_environment sample_host (process_run_request [''codex''] ''/w'' 60 [] ''e1''))"
  have "is_denied_secret_key ''OPENAI_API_KEY''" by code_simp
  with m child_environment_safe [of sample_host "process_run_request [''codex''] ''/w'' 60 [] ''e1''"] show False
    by (fastforce simp: process_run_request_def)
qed

definition output_event :: "pydict \<Rightarrow> bool" where
  "output_event e \<longleftrightarrow> dget e ''event_type'' = PyStr ''execution.output''"

fun line_size :: "bool \<times> line_read \<Rightarrow> int" where
  "line_size (_, Line_Read l) = int (length l)"
| "line_size (_, Read_Stalled) = 0"

lemma stream_event_get:
  "dget (stream_event ty n extra) ''event_type'' = PyStr ty" "dget (stream_event ty n extra) ''sequence'' = PyInt n"
  by (simp_all add: stream_event_def dget_def)

text \<open>C31: A stream numbers its events consecutively, ends with its first event that is no output, and the lines
  it has passed on are the first ones of the process and never exceed the limit.\<close>

theorem stream_bounded:
  assumes "collected \<le> limit"
  shows "map (\<lambda>e. dget e ''sequence'') (stream_loop H limit rc sequence collected reads)
       = map (\<lambda>k. PyInt (sequence + 1 + int k)) [0..<length (stream_loop H limit rc sequence collected reads)]
    \<and> (\<forall>e \<in> set (butlast (stream_loop H limit rc sequence collected reads)). output_event e)
    \<and> collected + sum_list (map line_size
        (take (length (filter output_event (stream_loop H limit rc sequence collected reads))) reads)) \<le> limit"
  using assms
proof (induction H limit rc sequence collected reads rule: stream_loop.induct)
  case (2 H limit rc sequence collected cancelled r rest)
  show ?case
  proof (cases "\<not> cancelled \<and> (\<exists>l. r = Line_Read l \<and> l \<noteq> [] \<and> collected + int (length l) \<le> limit)")
    case True
    then obtain l where l: "\<not> cancelled" "r = Line_Read l" "l \<noteq> []" "\<not> limit < collected + int (length l)" by auto
    note IH = "2.IH" [OF l(1) l(2) l(3) l(4)]
    have c: "[0..<Suc n] = 0 # map Suc [0..<n]" for n
      by (simp add: upt_conv_Cons map_Suc_upt del: upt_Suc)
    show ?thesis
      using IH l by (simp add: stream_event_get output_event_def c comp_def algebra_simps del: upt_Suc)
  next
    case False
    then show ?thesis
      using "2.prems" by (auto simp: stream_event_get output_event_def split: line_read.splits)
  qed
qed simp

definition sample_reads :: "(bool \<times> line_read) list" where
  "sample_reads = [(False, Line_Read ''ab''), (False, Line_Read ''cde''), (False, Line_Read [])]"

theorem stream_bounded_witness:
  "length (stream_loop sample_host 4 (Some 0) 0 0 sample_reads) = 2
   \<and> sum_list (map line_size (take (length (filter output_event (stream_loop sample_host 4 (Some 0) 0 0 sample_reads))) sample_reads)) \<le> 4"
proof
  show "length (stream_loop sample_host 4 (Some 0) 0 0 sample_reads) = 2"
    by (simp add: sample_reads_def)
qed (use stream_bounded [of 0 4 sample_host "Some 0" 0 sample_reads] in simp)

section \<open>Marks that stay\<close>

text \<open>What awaiting a process may do to the runner: the mark of a run is not taken away by others.\<close>

definition marks_kept :: "'s process_host \<Rightarrow> string \<Rightarrow> bool" where
  "marks_kept P i \<longleftrightarrow>
     (\<forall>f s. ph_get P (ph_map P f s) = f (ph_get P s))
     \<and> (\<forall>a d env s. i \<in> set (pr_cancelled (ph_get P s)) \<longrightarrow> i \<in> set (pr_cancelled (ph_get P (snd (ph_spawn P a d env s)))))
     \<and> (\<forall>j t s. i \<in> set (pr_cancelled (ph_get P s)) \<longrightarrow> i \<in> set (pr_cancelled (ph_get P (snd (ph_communicate P j t s)))))
     \<and> (\<forall>j s. i \<in> set (pr_cancelled (ph_get P s)) \<longrightarrow> i \<in> set (pr_cancelled (ph_get P (snd (ph_terminate P j s)))))"

lemma marks_kept_spawn:
  "marks_kept P i \<Longrightarrow> ph_spawn P a d env s = (r, s1) \<Longrightarrow> i \<in> set (pr_cancelled (ph_get P s)) \<Longrightarrow> i \<in> set (pr_cancelled (ph_get P s1))"
  unfolding marks_kept_def by (metis snd_conv)

lemma marks_kept_communicate:
  "marks_kept P i \<Longrightarrow> ph_communicate P j t s = (r, s1) \<Longrightarrow> i \<in> set (pr_cancelled (ph_get P s)) \<Longrightarrow> i \<in> set (pr_cancelled (ph_get P s1))"
  unfolding marks_kept_def by (metis snd_conv)

lemma marks_kept_map: "marks_kept P i \<Longrightarrow> ph_get P (ph_map P f s) = f (ph_get P s)"
  by (simp add: marks_kept_def)

lemma marked_cancel:
  assumes "marks_kept P i" and "runner_cancel P i s = (r, s1)"
  shows "i \<in> set (pr_cancelled (ph_get P s1))"
proof -
  have "i \<in> set (pr_cancelled (ph_get P (ph_map P (\<lambda>rn. rn\<lparr>pr_cancelled := List.insert i (pr_cancelled rn)\<rparr>) s)))"
    using assms(1) by (simp add: marks_kept_map)
  moreover have "i \<in> set (pr_cancelled (ph_get P (snd (ph_terminate P j s))))" if "i \<in> set (pr_cancelled (ph_get P s))" for j s
    using assms(1) that by (simp add: marks_kept_def)
  ultimately show ?thesis
    using assms(2) by (auto simp: runner_cancel_def Let_def split: if_splits) (metis snd_conv)
qed

lemma run_result_cancelled: "\<not> rr_ok (run_result H rq True e) \<and> rr_classification (run_result H rq True e) = ''cancelled''"
  by (simp add: run_result_def Let_def classify_exit_def)

text \<open>A run whose mark is already set is reported as cancelled, whatever its process did.\<close>

lemma marked_run_cancelled:
  assumes "marks_kept P (rq_run_id rq)" and "rq_run_id rq \<in> set (pr_cancelled (ph_get P s))"
    and "run_process P rq s = (Returned r, s1)"
  shows "\<not> rr_ok r \<and> rr_classification r = ''cancelled''"
proof -
  obtain d where d: "validate_cwd (ph_host P) (rq_cwd rq) [] = Inr d"
    using assms(3) by (auto simp: run_process_def Let_def split: if_splits sum.splits)
  obtain u s2 where sp: "ph_spawn P (rq_argv rq) d (child_environment (ph_host P) rq) s = (u, s2)" by (metis surj_pair)
  obtain e s3 where co: "ph_communicate P (rq_run_id rq) (rq_timeout_seconds rq) (ph_map P (process_started (rq_run_id rq)) s2) = (e, s3)"
    by (metis surj_pair)
  have "rq_run_id rq \<in> set (pr_cancelled (ph_get P s3))"
    using marks_kept_communicate [OF assms(1) co] marks_kept_spawn [OF assms(1) sp assms(2)] assms(1)
    by (simp add: marks_kept_map process_started_def)
  then show ?thesis
    using assms(3) d sp co run_result_cancelled
    by (auto simp: run_process_def Let_def split: if_splits outcome.splits)
qed

text \<open>A cancellation is remembered until the next run ends, whether or not it found a process: a run that
  starts later under the same identifier is reported as cancelled, whatever its process does, an exit with status zero included.\<close>

theorem idle_cancel_fails_next_run:
  assumes "marks_kept P (rq_run_id rq)" and "runner_cancel P (rq_run_id rq) s = (answer, s1)"
    and "run_process P rq s1 = (Returned r, s2)"
  shows "\<not> rr_ok r \<and> rr_classification r = ''cancelled''"
  by (rule marked_run_cancelled [OF assms(1) marked_cancel [OF assms(1,2)] assms(3)])

definition sample_process_host :: "SafeProcessRunner process_host" where
  "sample_process_host =
     \<lparr>ph_host = sample_host, ph_get = (\<lambda>s. s), ph_map = (\<lambda>f. f), ph_spawn = (\<lambda>_ _ _. Pair (Returned ())),
      ph_communicate = (\<lambda>_ _. Pair (Returned \<lparr>ce_timed_out = False, ce_lingering = False, ce_returncode = Some 0,
                                               ce_stdout = ''done'', ce_stderr = []\<rparr>)),
      ph_terminate = (\<lambda>_. Pair (Returned []))\<rparr>"

theorem idle_cancel_fails_next_run_witness:
  "\<exists>r s. run_process sample_process_host (process_run_request [''codex''] ''/w'' 60 [] ''e1'')
       (snd (runner_cancel sample_process_host ''e1'' init_SafeProcessRunner)) = (Returned r, s)
     \<and> rr_returncode r = Some 0 \<and> \<not> rr_ok r"
proof -
  let ?rq = "process_run_request [''codex''] ''/w'' 60 [] ''e1''"
  have k: "marks_kept sample_process_host (rq_run_id ?rq)"
    by (simp add: marks_kept_def sample_process_host_def)
  have v: "validate_cwd sample_host ''/w'' [] = Inr [[], ''w'']"
    by (simp add: validate_cwd_def sample_host_def has_traversal_def)
  obtain a s1 where c: "runner_cancel sample_process_host (rq_run_id ?rq) init_SafeProcessRunner = (a, s1)" by (metis surj_pair)
  obtain r s2 where x: "run_process sample_process_host ?rq s1 = (Returned r, s2)" "rr_returncode r = Some 0"
    using v by (simp add: run_process_def Let_def process_run_request_def sample_process_host_def run_result_def)
  have "\<not> rr_ok r"
    by (rule conjunct1 [OF idle_cancel_fails_next_run [OF k c x(1)]])
  with c x show ?thesis by (auto simp: process_run_request_def)
qed

end
