(* ===== verification/Harness.thy ===== *)
theory Harness
  imports Process_Runner
begin

text \<open>
  Harness adapters: \<^verbatim>\<open>src/src/joymesh/runtime_v1/execution_routing/harness.py\<close>. A
  \<open>ConnectorHarnessAdapter\<close> is an adapter with a connector; the connector is the protocol object that
  detects the harness and builds its command line, and enters as a record of its methods. Seconds are
  integers. The streaming methods are not modelled.
\<close>

section \<open>Adapters\<close>

record ConnectorDiscovery =
  dc_installed :: bool
  dc_usable :: bool
  dc_version :: "string option"
  dc_executable_path :: "string option"
  dc_fingerprint :: "string option"
  dc_reason_code :: "string option"

record 's harness_connector =
  hc_discover :: "'s \<Rightarrow> ConnectorDiscovery outcome \<times> 's"
  hc_build_exec_argv :: "string \<Rightarrow> string \<Rightarrow> string \<Rightarrow> bool \<Rightarrow> string list result"
  hc_execution_environment :: "bool \<Rightarrow> (string \<times> string) list"
  hc_parse_events :: "(string \<Rightarrow> pyval list result) option"

record 's HarnessAdapter =
  ha_harness_id :: string
  ha_display_name :: string
  ha_execute_fn :: "(string \<Rightarrow> pydict \<Rightarrow> 's \<Rightarrow> pydict outcome \<times> 's) option"
  ha_supported :: bool
  ha_unsupported_reason :: "string option"
  ha_connector :: "'s harness_connector option"
  ha_allowed_roots :: "string list"

definition plain_adapter :: "string \<Rightarrow> string \<Rightarrow> (string \<Rightarrow> pydict \<Rightarrow> 's \<Rightarrow> pydict outcome \<times> 's) option \<Rightarrow> bool
    \<Rightarrow> string option \<Rightarrow> 's HarnessAdapter" where
  "plain_adapter harness_id display_name execute_fn supported reason =
     \<lparr>ha_harness_id = harness_id, ha_display_name = display_name, ha_execute_fn = execute_fn, ha_supported = supported,
      ha_unsupported_reason = reason, ha_connector = None, ha_allowed_roots = []\<rparr>"

definition connector_adapter :: "string \<Rightarrow> string \<Rightarrow> 's harness_connector \<Rightarrow> string list \<Rightarrow> 's HarnessAdapter" where
  "connector_adapter harness_id display_name connector roots =
     \<lparr>ha_harness_id = harness_id, ha_display_name = display_name, ha_execute_fn = None, ha_supported = True,
      ha_unsupported_reason = None, ha_connector = Some connector, ha_allowed_roots = roots\<rparr>"

definition reason_or :: "string option \<Rightarrow> string \<Rightarrow> string" where
  "reason_or r d = (if opt_truthy r then the r else d)"

section \<open>The plain adapter\<close>

definition plain_validate :: "'s HarnessAdapter \<Rightarrow> unit result" where
  "plain_validate A =
     (if ha_supported A then Inr ()
      else Inl (RuntimeError (reason_or (ha_unsupported_reason A) (ha_harness_id A @ '' unsupported''))))"

definition stub_answer :: "'s HarnessAdapter \<Rightarrow> string \<Rightarrow> pydict" where
  "stub_answer A prompt =
     [(''ok'', PyBool True), (''harness_id'', PyStr (ha_harness_id A)),
      (''message'', PyStr ''harness adapter stub completed''),
      (''prompt_digest'', PyStr (digits_of (length prompt))), (''stub'', PyBool True)]"

definition plain_execute :: "'s HarnessAdapter \<Rightarrow> string \<Rightarrow> pydict \<Rightarrow> 's \<Rightarrow> pydict outcome \<times> 's" where
  "plain_execute A prompt context s =
     (case plain_validate A of
        Inl e \<Rightarrow> (Raised e, s)
      | Inr _ \<Rightarrow> (case ha_execute_fn A of Some f \<Rightarrow> f prompt context s | None \<Rightarrow> (Returned (stub_answer A prompt), s)))"

section \<open>The adapter of a connector\<close>

definition connector_validate ::
  "'s process_host \<Rightarrow> 's HarnessAdapter \<Rightarrow> 's harness_connector \<Rightarrow> pydict \<Rightarrow> 's \<Rightarrow> unit outcome \<times> 's" where
  "connector_validate P A C context s =
     (let workspace = py_str (py_or (dget context ''workspace_path'') (PyStr []))
      in if workspace = [] then (Raised (ProcessRunnerError ''workspace_unavailable'' ''workspace_path required''), s)
         else case validate_cwd (ph_host P) workspace
                     (if ha_allowed_roots A = [] then [ho_parent_dir (ph_host P) workspace] else ha_allowed_roots A) of
           Inl e \<Rightarrow> (Raised e, s)
         | Inr _ \<Rightarrow>
             (case hc_discover C s of
                (Raised e, s1) \<Rightarrow> (Raised e, s1)
              | (Cancelled, s1) \<Rightarrow> (Cancelled, s1)
              | (Returned d, s1) \<Rightarrow>
                  if dc_usable d then (Returned (), s1)
                  else (Raised (RuntimeError (ha_harness_id A @ '' not usable: '' @ reason_or (dc_reason_code d) ''unavailable'')), s1)))"

record HarnessPrepared =
  hp_executable :: string
  hp_argv_redacted :: "string list"
  hp_argv :: "string list"
  hp_version :: "string option"
  hp_fingerprint :: "string option"

definition read_only_flag :: "pydict \<Rightarrow> bool" where
  "read_only_flag context = truthy (dget_default context ''read_only'' (PyBool True))"

definition connector_prepare ::
  "'s process_host \<Rightarrow> 's HarnessAdapter \<Rightarrow> 's harness_connector \<Rightarrow> string \<Rightarrow> pydict \<Rightarrow> 's \<Rightarrow> HarnessPrepared outcome \<times> 's" where
  "connector_prepare P A C prompt context s =
     (case connector_validate P A C context s of
        (Raised e, s1) \<Rightarrow> (Raised e, s1)
      | (Cancelled, s1) \<Rightarrow> (Cancelled, s1)
      | (Returned _, s1) \<Rightarrow>
          (case hc_discover C s1 of
             (Raised e, s2) \<Rightarrow> (Raised e, s2)
           | (Cancelled, s2) \<Rightarrow> (Cancelled, s2)
           | (Returned d, s2) \<Rightarrow>
               (let executable = (if opt_truthy (dc_executable_path d) then dc_executable_path d
                                  else ho_which (ph_host P) (ha_harness_id A))
                in if \<not> opt_truthy executable then
                     (Raised (RuntimeError (ha_harness_id A @ '' executable not found'')), s2)
                   else case hc_build_exec_argv C (the executable) prompt (py_str (dget context ''workspace_path''))
                               (read_only_flag context) of
                     Inl e \<Rightarrow> (Raised e, s2)
                   | Inr argv \<Rightarrow>
                       (Returned \<lparr>hp_executable = the executable,
                                  hp_argv_redacted = (if argv = [] then [] else butlast argv @ [''<PROMPT>'']),
                                  hp_argv = argv, hp_version = dc_version d, hp_fingerprint = dc_fingerprint d\<rparr>, s2))))"

definition harness_answer :: "'s HarnessAdapter \<Rightarrow> 's harness_connector \<Rightarrow> HarnessPrepared \<Rightarrow> ProcessRunResult \<Rightarrow> pydict" where
  "harness_answer A C prepared r =
     (let events = (case hc_parse_events C of
                      None \<Rightarrow> []
                    | Some parse \<Rightarrow> if rr_stdout r = [] then [] else (case parse (rr_stdout r) of Inl _ \<Rightarrow> [] | Inr es \<Rightarrow> es))
      in [(''ok'', PyBool (rr_ok r)), (''harness_id'', PyStr (ha_harness_id A)),
          (''message'', PyStr (if rr_ok r then ''harness execution completed'' else rr_classification r)),
          (''failure_class'', if rr_ok r then PyNone else PyStr (rr_classification r)),
          (''process'', PyDict (run_result_as_dict r @ [(''stdout'', PyStr (rr_stdout r)), (''stderr'', PyStr (rr_stderr r))])),
          (''events'', PyList events), (''version'', opt_str (hp_version prepared)), (''stub'', PyBool False)])"

text \<open>\<open>uid\<close> is the identifier generated when the context names none.\<close>

definition connector_execute ::
  "'s process_host \<Rightarrow> string \<Rightarrow> 's HarnessAdapter \<Rightarrow> 's harness_connector \<Rightarrow> string \<Rightarrow> pydict \<Rightarrow> 's \<Rightarrow> pydict outcome \<times> 's" where
  "connector_execute P uid A C prompt context s =
     (case connector_prepare P A C prompt context s of
        (Raised e, s1) \<Rightarrow> (Raised e, s1)
      | (Cancelled, s1) \<Rightarrow> (Cancelled, s1)
      | (Returned prepared, s1) \<Rightarrow>
          (case py_int (py_or (dget context ''timeout_seconds'') (PyInt 300)) of
             Inl e \<Rightarrow> (Raised e, s1)
           | Inr timeout \<Rightarrow>
               (case run_process P (process_run_request (hp_argv prepared) (py_str (dget context ''workspace_path'')) timeout
                       (hc_execution_environment C True) (py_str (py_or (dget context ''execution_id'') (PyStr uid)))) s1 of
                  (Raised e, s2) \<Rightarrow> (Raised e, s2)
                | (Cancelled, s2) \<Rightarrow> (Cancelled, s2)
                | (Returned r, s2) \<Rightarrow> (Returned (harness_answer A C prepared r), s2))))"

text \<open>\<^verbatim>\<open>run\<close> and \<^verbatim>\<open>cancel\<close>, whichever class the adapter has.\<close>

definition harness_run :: "'s process_host \<Rightarrow> string \<Rightarrow> 's HarnessAdapter \<Rightarrow> string \<Rightarrow> pydict \<Rightarrow> 's \<Rightarrow> pydict outcome \<times> 's" where
  "harness_run P uid A prompt context s =
     (case ha_connector A of
        None \<Rightarrow> plain_execute A prompt context s
      | Some C \<Rightarrow> connector_execute P uid A C prompt context s)"

definition harness_cancel :: "'s process_host \<Rightarrow> 's HarnessAdapter \<Rightarrow> string \<Rightarrow> 's \<Rightarrow> pydict outcome \<times> 's" where
  "harness_cancel P A eid s =
     (case ha_connector A of
        None \<Rightarrow> (Returned [(''cancelled'', PyBool True), (''lingering'', PyBool False), (''detail'', PyStr ''stub'')], s)
      | Some _ \<Rightarrow> runner_cancel P eid s)"

section \<open>The built-in adapters\<close>

definition KNOWN_HARNESSES :: "string list" where
  "KNOWN_HARNESSES = [''claude'', ''codex'', ''cursor'', ''grok'', ''opencode'', ''vscode'']"

definition PROCESS_BACKED_HARNESSES :: "string list" where
  "PROCESS_BACKED_HARNESSES = [''codex'', ''opencode'', ''claude'', ''cursor'', ''grok'']"

definition letter :: "char \<Rightarrow> bool" where
  "letter c \<longleftrightarrow> (let n = of_char c :: nat in 65 \<le> n \<and> n \<le> 90 \<or> 97 \<le> n \<and> n \<le> 122)"

definition upper_char :: "char \<Rightarrow> char" where
  "upper_char c = (let n = of_char c :: nat in if 97 \<le> n \<and> n \<le> 122 then char_of (n - 32) else c)"

fun py_title :: "bool \<Rightarrow> string \<Rightarrow> string" where
  "py_title inside [] = []"
| "py_title inside (c # s) = (if inside then lower_char c else upper_char c) # py_title (letter c) s"

definition display_name_of :: "string \<Rightarrow> string" where
  "display_name_of h = py_title False (map (\<lambda>c. if c = CHR ''-'' then CHR '' '' else c) h)"

definition builtin_adapter ::
  "(string \<times> (string \<Rightarrow> pydict \<Rightarrow> 's \<Rightarrow> pydict outcome \<times> 's)) list \<Rightarrow> (string \<times> string \<times> 's harness_connector) list
   \<Rightarrow> string list \<Rightarrow> bool \<Rightarrow> string \<Rightarrow> 's HarnessAdapter" where
  "builtin_adapter executors connectors roots real h =
     (case map_of executors h of
        Some f \<Rightarrow> plain_adapter h (display_name_of h) (Some f) True None
      | None \<Rightarrow>
          (case map_of connectors h of
             Some (name, C) \<Rightarrow>
               if real \<and> h \<in> set PROCESS_BACKED_HARNESSES then connector_adapter h name C roots
               else plain_adapter h (display_name_of h) None (h \<noteq> ''vscode'')
                      (if h = ''vscode'' then Some ''vscode has no Runtime v1 non-interactive connector contract'' else None)
           | None \<Rightarrow>
               plain_adapter h (display_name_of h) None
                 (h \<noteq> ''vscode'' \<and> \<not> (real \<and> h \<notin> set PROCESS_BACKED_HARNESSES))
                 (if h = ''vscode'' then Some ''vscode has no Runtime v1 non-interactive connector contract''
                  else if real then Some (h @ '' has no Runtime v1 connector'') else None)))"

definition builtin_harness_adapters ::
  "(string \<times> (string \<Rightarrow> pydict \<Rightarrow> 's \<Rightarrow> pydict outcome \<times> 's)) list \<Rightarrow> (string \<times> string \<times> 's harness_connector) list
   \<Rightarrow> string list \<Rightarrow> bool \<Rightarrow> (string \<times> 's HarnessAdapter) list" where
  "builtin_harness_adapters executors connectors roots real =
     map (\<lambda>h. (h, builtin_adapter executors connectors roots real h)) KNOWN_HARNESSES"

end
