(* ===== verification/Backends.thy ===== *)
theory Backends
  imports Harness Execution_Router Route_Coordinator
begin

text \<open>
  The execution backends: \<^verbatim>\<open>local.py\<close>, \<^verbatim>\<open>joymesh.py\<close> (with the hosted stub) and \<^verbatim>\<open>fireconnect.py\<close> under
  \<^verbatim>\<open>src/src/joymesh/runtime_v1/execution_routing/backends/\<close>. Each is a record of functions of
  \<open>Execution_Router\<close>. The local and the FireConnect backend run harness adapters on a process host;
  the JoyMesh backend keeps its submissions and events in a part of the state \<open>'w\<close>, reached by \<open>jg\<close>
  and \<open>ju\<close>; the provider-route service of the FireConnect backend is an argument.
\<close>

section \<open>Common parts\<close>

definition backend_result ::
  "bool \<Rightarrow> ExecutionIntent \<Rightarrow> ExecutionDecision \<Rightarrow> string \<Rightarrow> ExecutionStatus \<Rightarrow> string \<Rightarrow> pydict \<Rightarrow> string option \<Rightarrow> ExecutionResult" where
  "backend_result good intent decision backend status message output failure =
     (execution_result good (ei_execution_id intent) backend (ed_selected_harness_id decision) status message)
       \<lparr>xr_attempted_backends := [backend], xr_decision := Some decision, xr_output := output, xr_failure_class := failure\<rparr>"

definition missing_capabilities :: "ExecutionIntent \<Rightarrow> ExecutionCapability list \<Rightarrow> bool" where
  "missing_capabilities intent caps \<longleftrightarrow> \<not> set (ei_required_capabilities intent) \<subseteq> set caps"

definition simple_health :: "string \<Rightarrow> bool \<Rightarrow> string \<Rightarrow> string \<Rightarrow> ExecutionCapability list \<Rightarrow> BackendHealth" where
  "simple_health i healthy good bad caps =
     \<lparr>bh_healthy = healthy, bh_backend_id = i, bh_detail = (if healthy then good else bad), bh_capabilities = caps,
      bh_state = (if healthy then ''healthy'' else ''unhealthy'')\<rparr>"

text \<open>\<^verbatim>\<open>validate\<close> of the backends: support first, then health.\<close>

definition validate_backend :: "bool \<Rightarrow> string \<Rightarrow> BackendHealth \<Rightarrow> unit result" where
  "validate_backend supported message health =
     (if \<not> supported then Inl (RuntimeError message)
      else if \<not> bh_healthy health then Inl (RuntimeError (bh_detail health)) else Inr ())"

definition answered_ok :: "pydict \<Rightarrow> bool" where
  "answered_ok output = truthy (dget_default output ''ok'' (PyBool True))"

fun cancel_all :: "'s process_host \<Rightarrow> (string \<times> 's HarnessAdapter) list \<Rightarrow> string \<Rightarrow> 's \<Rightarrow> unit outcome \<times> 's" where
  "cancel_all P [] eid s = (Returned (), s)"
| "cancel_all P ((h, A) # rest) eid s =
     (case harness_cancel P A eid s of
        (Returned _, s1) \<Rightarrow> cancel_all P rest eid s1
      | (Raised e, s1) \<Rightarrow> (Raised e, s1)
      | (Cancelled, s1) \<Rightarrow> (Cancelled, s1))"

definition adapter_for :: "(string \<times> 's HarnessAdapter) list \<Rightarrow> string \<Rightarrow> 's HarnessAdapter" where
  "adapter_for harnesses h =
     (case map_of harnesses h of Some A \<Rightarrow> A | None \<Rightarrow> plain_adapter h h None True None)"

section \<open>The local backend\<close>

definition LOCAL_CAPABILITIES :: "ExecutionCapability list" where
  "LOCAL_CAPABILITIES = [FILESYSTEM, LOCAL_PROCESS, STREAMING, SANDBOX, PERSISTENT_WORKSPACE, EPHEMERAL_WORKSPACE]"

definition local_harnesses :: "(string \<times> 's HarnessAdapter) list \<Rightarrow> string list option \<Rightarrow> string list" where
  "local_harnesses harnesses supported =
     (case supported of Some hs \<Rightarrow> hs | None \<Rightarrow> if harnesses \<noteq> [] then map fst harnesses else KNOWN_HARNESSES)"

definition local_supports :: "(string \<times> 's HarnessAdapter) list \<Rightarrow> string list option \<Rightarrow> ExecutionIntent \<Rightarrow> string \<Rightarrow> bool" where
  "local_supports harnesses supported intent h \<longleftrightarrow>
     \<not> ei_requires_provider_route intent
     \<and> PROVIDER_ROUTING \<notin> set (ei_required_capabilities intent)
     \<and> REMOTE_WORKER \<notin> set (ei_required_capabilities intent)
     \<and> ei_locality_preference intent \<noteq> ''remote''
     \<and> (h \<in> set (local_harnesses harnesses supported) \<or> has_key harnesses h)
     \<and> \<not> missing_capabilities intent LOCAL_CAPABILITIES"

definition local_health :: "bool \<Rightarrow> BackendHealth" where
  "local_health healthy =
     simple_health ''local'' healthy ''local backend ready'' ''local backend unavailable'' LOCAL_CAPABILITIES"

definition policy_profile_of :: "ExecutionIntent \<Rightarrow> string" where
  "policy_profile_of intent = py_str (py_or (dget (ei_organisation_policy intent) ''policy_profile'') (PyStr ''read_only''))"

definition local_context :: "ExecutionIntent \<Rightarrow> pydict" where
  "local_context intent =
     [(''execution_id'', PyStr (ei_execution_id intent)), (''workspace_path'', PyStr (ei_workspace_path intent)),
      (''backend_id'', PyStr ''local''), (''provider_routing'', PyBool False),
      (''timeout_seconds'', PyInt (ei_timeout_seconds intent)),
      (''read_only'', PyBool (policy_profile_of intent \<in> {''read_only'', ''production_restricted''})),
      (''policy_profile'', PyStr (policy_profile_of intent))]"

definition local_answer :: "ExecutionIntent \<Rightarrow> ExecutionDecision \<Rightarrow> pydict \<Rightarrow> ExecutionResult" where
  "local_answer intent decision output =
     backend_result (answered_ok output) intent decision ''local'' (if answered_ok output then ES_SUCCEEDED else ES_FAILED)
       (py_str (py_or (dget output ''message'') (PyStr ''local execution completed''))) output
       (if answered_ok output then None
        else Some (py_str (py_or (dget output ''failure_class'') (PyStr (failure_value PROCESS_FAILURE)))))"

definition local_process_error :: "ExecutionIntent \<Rightarrow> ExecutionDecision \<Rightarrow> string \<Rightarrow> string \<Rightarrow> ExecutionResult" where
  "local_process_error intent decision code message =
     backend_result False intent decision ''local'' ES_FAILED message [(''reason_code'', PyStr code)]
       (Some (failure_value (if starts_with ''workspace'' code then WORKSPACE_VIOLATION else PREPARATION_FAILURE)))"

definition local_execute ::
  "('w \<times> registry_table) process_host \<Rightarrow> string \<Rightarrow> (string \<times> ('w \<times> registry_table) HarnessAdapter) list \<Rightarrow> string list option \<Rightarrow> bool
   \<Rightarrow> ExecutionIntent \<Rightarrow> ExecutionDecision \<Rightarrow> pydict \<Rightarrow> ('w, ExecutionResult) backend_call" where
  "local_execute P uid harnesses supported healthy intent decision prepared s =
     (let h = ed_selected_harness_id decision
      in case validate_backend (local_supports harnesses supported intent h)
                ''local backend does not support this intent/harness'' (local_health healthy) of
           Inl e \<Rightarrow> (Raised e, s)
         | Inr _ \<Rightarrow>
             (case harness_run P uid (adapter_for harnesses h) (ei_prompt intent) (local_context intent) s of
                (Raised (ProcessRunnerError code message), s1) \<Rightarrow> (Returned (local_process_error intent decision code message), s1)
              | (Raised e, s1) \<Rightarrow> (Raised e, s1)
              | (Cancelled, s1) \<Rightarrow> (Cancelled, s1)
              | (Returned output, s1) \<Rightarrow> (Returned (local_answer intent decision output), s1)))"

definition local_backend ::
  "('w \<times> registry_table) process_host \<Rightarrow> string \<Rightarrow> (string \<times> ('w \<times> registry_table) HarnessAdapter) list \<Rightarrow> string list option \<Rightarrow> bool
   \<Rightarrow> 'w ExecutionBackend" where
  "local_backend P uid harnesses supported healthy =
     \<lparr>be_capabilities = LOCAL_CAPABILITIES,
      be_supports = local_supports harnesses supported,
      be_health = Pair (Returned (local_health healthy)),
      be_prepare = (\<lambda>intent decision. Pair (Returned [(''mode'', PyStr ''local''), (''harness_id'', PyStr (ed_selected_harness_id decision))])),
      be_validate = (\<lambda>intent decision s.
        (case validate_backend (local_supports harnesses supported intent (ed_selected_harness_id decision))
                ''local backend does not support this intent/harness'' (local_health healthy) of
           Inl e \<Rightarrow> Raised e | Inr u \<Rightarrow> Returned u, s)),
      be_execute = local_execute P uid harnesses supported healthy,
      be_cleanup = cancel_all P harnesses\<rparr>"

section \<open>The FireConnect backend\<close>

definition FIRECONNECT_CAPABILITIES :: "ExecutionCapability list" where
  "FIRECONNECT_CAPABILITIES =
     [INTERNET, FILESYSTEM, PROVIDER_ROUTING, STREAMING, SANDBOX, LOCAL_PROCESS, PERSISTENT_WORKSPACE, EPHEMERAL_WORKSPACE]"

text \<open>The arguments of the constructor. \<open>fc_discover\<close> is the discovery of the route manager:
  \<^verbatim>\<open>installed and usable\<close> and the reason code.\<close>

record 'w FireConnectBackend =
  fc_run_temporary :: "string \<Rightarrow> string \<Rightarrow> ('w, pydict) backend_call \<Rightarrow> string option \<Rightarrow> string
      \<Rightarrow> ('w, pydict ProviderRouteLifecycleResult) backend_call"
  fc_harnesses :: "(string \<times> ('w \<times> registry_table) HarnessAdapter) list"
  fc_healthy :: bool
  fc_manager_id :: string
  fc_supported :: "string list"
  fc_health_probe :: "('w, BackendHealth) backend_call option"
  fc_skip_live_probe :: bool
  fc_discover :: "('w, bool \<times> string option) backend_call"

definition fireconnect_supported :: "string list option \<Rightarrow> string list" where
  "fireconnect_supported supported =
     (case supported of None \<Rightarrow> [''codex'', ''claude'', ''opencode'', ''cursor'']
      | Some hs \<Rightarrow> if hs = [] then [''codex'', ''claude'', ''opencode'', ''cursor''] else hs)"

definition fireconnect_supports :: "'w FireConnectBackend \<Rightarrow> ExecutionIntent \<Rightarrow> string \<Rightarrow> bool" where
  "fireconnect_supports B intent h \<longleftrightarrow>
     h \<in> set (fc_supported B) \<and> \<not> missing_capabilities intent FIRECONNECT_CAPABILITIES"

definition fireconnect_state :: "bool \<Rightarrow> string \<Rightarrow> string \<Rightarrow> BackendHealth" where
  "fireconnect_state healthy detail state =
     \<lparr>bh_healthy = healthy, bh_backend_id = ''fireconnect'', bh_detail = detail,
      bh_capabilities = FIRECONNECT_CAPABILITIES, bh_state = state\<rparr>"

definition fireconnect_health :: "'w FireConnectBackend \<Rightarrow> ('w, BackendHealth) backend_call" where
  "fireconnect_health B s =
     (if \<not> fc_healthy B then
        (Returned (fireconnect_state False ''fireconnect backend marked unavailable'' ''unhealthy''), s)
      else case fc_health_probe B of
        Some probe \<Rightarrow> probe s
      | None \<Rightarrow>
          if fc_skip_live_probe B then
            (Returned (fireconnect_state True ''fireconnect health assumed (no live probe)'' ''unknown''), s)
          else (case fc_discover B s of
            (Returned (healthy, code), s1) \<Rightarrow>
              (Returned (fireconnect_state healthy
                 (if healthy then ''fireconnect provider-route manager usable''
                  else ''fireconnect unavailable: '' @ reason_or code ''not usable'')
                 (if healthy then ''healthy'' else ''unhealthy'')), s1)
          | (Raised e, s1) \<Rightarrow>
              (Returned (fireconnect_state False (''fireconnect health probe failed: '' @ error_name e) ''unhealthy''), s1)
          | (Cancelled, s1) \<Rightarrow> (Cancelled, s1)))"

definition fireconnect_validate :: "'w FireConnectBackend \<Rightarrow> ExecutionIntent \<Rightarrow> ExecutionDecision \<Rightarrow> ('w, unit) backend_call" where
  "fireconnect_validate B intent decision s =
     (if \<not> fireconnect_supports B intent (ed_selected_harness_id decision) then
        (Raised (RuntimeError ''fireconnect backend does not support this intent/harness''), s)
      else case fireconnect_health B s of
        (Raised e, s1) \<Rightarrow> (Raised e, s1)
      | (Cancelled, s1) \<Rightarrow> (Cancelled, s1)
      | (Returned h, s1) \<Rightarrow> if bh_healthy h then (Returned (), s1) else (Raised (RuntimeError (bh_detail h)), s1))"

definition fireconnect_context :: "ExecutionIntent \<Rightarrow> ExecutionDecision \<Rightarrow> pydict" where
  "fireconnect_context intent decision =
     [(''execution_id'', PyStr (ei_execution_id intent)), (''workspace_path'', PyStr (ei_workspace_path intent)),
      (''backend_id'', PyStr ''fireconnect''), (''provider_routing'', PyBool (ed_provider_routing_required decision)),
      (''model'', opt_str (ei_preferred_model intent)), (''timeout_seconds'', PyInt (ei_timeout_seconds intent)),
      (''read_only'', PyBool True)]"

definition or_message :: "string \<Rightarrow> string \<Rightarrow> string" where
  "or_message m d = (if m = [] then d else m)"

text \<open>The result after a temporary route.\<close>

definition routed_answer :: "ExecutionIntent \<Rightarrow> ExecutionDecision \<Rightarrow> pydict ProviderRouteLifecycleResult \<Rightarrow> ExecutionResult" where
  "routed_answer intent decision l =
     (let output = (case lr_execution_result l of
            Some d \<Rightarrow> d
          | None \<Rightarrow> [(''ok'', PyBool (lr_ok l)), (''message'', PyStr (lr_message l)),
                     (''restored'', PyBool (lr_restoration_verified l)), (''result'', PyNone)])
      in if \<not> lr_restoration_verified l then
           backend_result False intent decision ''fireconnect'' ES_BLOCKED
             (or_message (lr_message l) ''provider route restoration failed'') output
             (Some (failure_value PROVIDER_RESTORE_FAILURE))
         else if lr_reason_code l = Some ''connector_blocked'' then
           backend_result False intent decision ''fireconnect'' ES_FAILED
             (or_message (lr_message l) ''connector blocked'') output (Some (failure_value CONNECTOR_BLOCKED))
         else (let good = (lr_ok l \<and> answered_ok output)
               in backend_result good intent decision ''fireconnect'' (if good then ES_SUCCEEDED else ES_FAILED)
                    (lr_message l) output (if good then None else Some (failure_value PROCESS_FAILURE))))"

definition native_answer :: "ExecutionIntent \<Rightarrow> ExecutionDecision \<Rightarrow> pydict \<Rightarrow> ExecutionResult" where
  "native_answer intent decision output =
     backend_result (answered_ok output) intent decision ''fireconnect'' (if answered_ok output then ES_SUCCEEDED else ES_FAILED)
       (py_str (py_or (dget output ''message'') (PyStr ''fireconnect execution completed''))) output None"

definition fireconnect_execute ::
  "('w \<times> registry_table) process_host \<Rightarrow> string \<Rightarrow> 'w FireConnectBackend \<Rightarrow> ExecutionIntent \<Rightarrow> ExecutionDecision \<Rightarrow> pydict
   \<Rightarrow> ('w, ExecutionResult) backend_call" where
  "fireconnect_execute P uid B intent decision prepared s =
     (case fireconnect_validate B intent decision s of
        (Raised e, s1) \<Rightarrow> (Raised e, s1)
      | (Cancelled, s1) \<Rightarrow> (Cancelled, s1)
      | (Returned _, s1) \<Rightarrow>
          (let h = ed_selected_harness_id decision;
               run_harness = harness_run P uid (adapter_for (fc_harnesses B) h) (ei_prompt intent) (fireconnect_context intent decision)
           in if ed_provider_routing_required decision \<or> ei_requires_provider_route intent then
                (case fc_run_temporary B (fc_manager_id B) h run_harness (ei_preferred_model intent) (ei_execution_id intent) s1 of
                   (Raised e, s2) \<Rightarrow> (Raised e, s2)
                 | (Cancelled, s2) \<Rightarrow> (Cancelled, s2)
                 | (Returned l, s2) \<Rightarrow> (Returned (routed_answer intent decision l), s2))
              else (case run_harness s1 of
                   (Raised e, s2) \<Rightarrow> (Raised e, s2)
                 | (Cancelled, s2) \<Rightarrow> (Cancelled, s2)
                 | (Returned output, s2) \<Rightarrow> (Returned (native_answer intent decision output), s2))))"

definition fireconnect_backend :: "('w \<times> registry_table) process_host \<Rightarrow> string \<Rightarrow> 'w FireConnectBackend \<Rightarrow> 'w ExecutionBackend" where
  "fireconnect_backend P uid B =
     \<lparr>be_capabilities = FIRECONNECT_CAPABILITIES, be_supports = fireconnect_supports B, be_health = fireconnect_health B,
      be_prepare = (\<lambda>intent decision. Pair (Returned
         [(''mode'', PyStr ''fireconnect''), (''harness_id'', PyStr (ed_selected_harness_id decision)),
          (''provider_routing_required'', PyBool (ed_provider_routing_required decision)),
          (''manager_id'', PyStr (fc_manager_id B))])),
      be_validate = fireconnect_validate B, be_execute = fireconnect_execute P uid B,
      be_cleanup = cancel_all P (fc_harnesses B)\<rparr>"

section \<open>Marks across backends\<close>

lemma cancel_all_marks:
  assumes "marks_kept P eid" and "(\<exists>hA \<in> set hs. ha_connector (snd hA) \<noteq> None)"
    and "cancel_all P hs eid s = (r, s1)"
  shows "eid \<in> set (pr_cancelled (ph_get P s1))"
proof -
  have keep: "eid \<in> set (pr_cancelled (ph_get P s1))"
    if "cancel_all P hs eid s = (r, s1)" "eid \<in> set (pr_cancelled (ph_get P s))" for hs s r s1
    using that
  proof (induction hs arbitrary: s)
    case (Cons hA hs)
    obtain h A where hA: "hA = (h, A)" by (cases hA)
    obtain u s2 where u: "harness_cancel P A eid s = (u, s2)" by (metis surj_pair)
    have "eid \<in> set (pr_cancelled (ph_get P s2))"
      using u Cons.prems(2) marked_cancel [OF assms(1)] by (auto simp: harness_cancel_def split: option.splits)
    with Cons u hA show ?case by (auto split: outcome.splits)
  qed simp
  show ?thesis
    using assms(2,3)
  proof (induction hs arbitrary: s)
    case (Cons hA hs)
    obtain h A where hA: "hA = (h, A)" by (cases hA)
    obtain u s2 where u: "harness_cancel P A eid s = (u, s2)" by (metis surj_pair)
    show ?case
    proof (cases "ha_connector A")
      case None
      then have "u \<noteq> Cancelled \<and> (\<forall>e. u \<noteq> Raised e)" using u by (auto simp: harness_cancel_def)
      with Cons u hA None show ?thesis by (auto split: outcome.splits)
    next
      case (Some C)
      then have "eid \<in> set (pr_cancelled (ph_get P s2))"
        using u marked_cancel [OF assms(1)] by (simp add: harness_cancel_def)
      with Cons.prems(2) u hA keep show ?thesis by (auto split: outcome.splits)
    qed
  qed simp
qed

definition discovery_keeps_marks :: "'s process_host \<Rightarrow> 's harness_connector \<Rightarrow> string \<Rightarrow> bool" where
  "discovery_keeps_marks P C i \<longleftrightarrow>
     (\<forall>s. i \<in> set (pr_cancelled (ph_get P s)) \<longrightarrow> i \<in> set (pr_cancelled (ph_get P (snd (hc_discover C s)))))"

lemma discovered_mark:
  "discovery_keeps_marks P C i \<Longrightarrow> hc_discover C s = (d, s1) \<Longrightarrow> i \<in> set (pr_cancelled (ph_get P s)) \<Longrightarrow> i \<in> set (pr_cancelled (ph_get P s1))"
  unfolding discovery_keeps_marks_def by (metis snd_conv)

lemma prepared_mark:
  assumes "discovery_keeps_marks P C i" and "connector_prepare P A C prompt context s = (r, s1)"
    and "i \<in> set (pr_cancelled (ph_get P s))"
  shows "i \<in> set (pr_cancelled (ph_get P s1))"
  using assms(2,3)
  by (auto simp: connector_prepare_def connector_validate_def Let_def
      split: if_splits outcome.splits prod.splits sum.splits dest: discovered_mark [OF assms(1)])

lemma marked_connector_run:
  assumes "marks_kept P eid" and "discovery_keeps_marks P C eid" and "eid \<in> set (pr_cancelled (ph_get P s))" and "eid \<noteq> []"
    and "dget context ''execution_id'' = PyStr eid" and "connector_execute P uid A C prompt context s = (Returned output, s1)"
  shows "dget output ''ok'' = PyBool False \<and> dget output ''failure_class'' = PyStr ''cancelled''"
proof -
  obtain prepared s2 where p: "connector_prepare P A C prompt context s = (Returned prepared, s2)"
    using assms(6) by (auto simp: connector_execute_def split: outcome.splits prod.splits)
  then obtain t where t: "py_int (py_or (dget context ''timeout_seconds'') (PyInt 300)) = Inr t"
    using assms(6) by (auto simp: connector_execute_def split: outcome.splits sum.splits)
  let ?rq = "process_run_request (hp_argv prepared) (py_str (dget context ''workspace_path'')) t (hc_execution_environment C True)
      (py_str (py_or (dget context ''execution_id'') (PyStr uid)))"
  have i: "rq_run_id ?rq = eid"
    using assms(4,5) by (simp add: process_run_request_def py_or_def)
  obtain r where r: "run_process P ?rq s2 = (Returned r, s1)" "output = harness_answer A C prepared r"
    using assms(6) p t by (auto simp: connector_execute_def split: outcome.splits prod.splits)
  have "eid \<in> set (pr_cancelled (ph_get P s2))"
    using prepared_mark [OF assms(2) p assms(3)] .
  with r(1) i assms(1) have "\<not> rr_ok r \<and> rr_classification r = ''cancelled''"
    by (intro marked_run_cancelled [of P ?rq s2 r s1]) simp_all
  with r(2) show ?thesis by (simp add: harness_answer_def Let_def dget_def)
qed

lemma marked_local_run:
  assumes "marks_kept P (ei_execution_id intent)" and "map_of harnesses (ed_selected_harness_id decision) = Some A"
    and "ha_connector A = Some C" and "discovery_keeps_marks P C (ei_execution_id intent)" and "ei_execution_id intent \<noteq> []"
    and "ei_execution_id intent \<in> set (pr_cancelled (ph_get P s))"
    and "local_execute P uid harnesses supported healthy intent decision prepared s = (Returned r, s1)"
  shows "\<not> xr_ok r"
proof -
  have c: "dget (local_context intent) ''execution_id'' = PyStr (ei_execution_id intent)"
    by (simp add: local_context_def dget_def)
  obtain u s2 where run: "harness_run P uid A (ei_prompt intent) (local_context intent) s = (u, s2)" by (metis surj_pair)
  have "dget ans ''ok'' = PyBool False" if "u = Returned ans" for ans
    using marked_connector_run [OF assms(1,4,6,5) c] run that assms(3) by (simp add: harness_run_def)
  then have "\<not> answered_ok ans" if "u = Returned ans" for ans
    using that unfolding answered_ok_def dget_default_def dget_def by (auto split: option.splits)
  with run assms(2,7) show ?thesis
    by (auto simp: local_execute_def Let_def adapter_for_def local_answer_def local_process_error_def backend_result_def
        execution_result_def split: sum.splits outcome.splits py_error.splits)
qed

section \<open>A run that falls back to the local backend\<close>

definition run_marked :: "('w \<times> registry_table) process_host \<Rightarrow> string \<Rightarrow> 'w run_state \<Rightarrow> bool" where
  "run_marked P eid s \<longleftrightarrow> eid \<in> set (pr_cancelled (ph_get P (rn_world s, rn_registry s)))"

lemma run_marked_audit [simp]: "run_marked P eid (audit V it ty i h r p s) = run_marked P eid s"
  by (simp add: run_marked_def run_simps)

lemma run_marked_await: "await_call f s = (r, s1) \<Longrightarrow> f (rn_world s, rn_registry s) = (r, rn_world s1, rn_registry s1)"
  by (auto simp: await_call_def split: prod.splits)

lemma await_pure: "await_call (Pair r) s = (r, s)"
  by (simp add: await_call_def)

lemma cleanup_marks:
  assumes "marks_kept P (ei_execution_id intent)" and "\<exists>hA \<in> set hs. ha_connector (snd hA) \<noteq> None"
    and "be_cleanup b = cancel_all P hs" and "guarded_backend V intent decision b i attempt s = (t, s1)"
  shows "run_marked P (ei_execution_id intent) s1"
proof -
  obtain q s2 where "await_call (be_cleanup b (ei_execution_id intent)) s2 = (q, s1)"
    using assms(4) by (auto simp: guarded_backend_def Let_def split: prod.splits outcome.splits)
  from run_marked_await [OF this] show ?thesis
    using cancel_all_marks [OF assms(1,2)] assms(3) by (metis run_marked_def)
qed

lemma marked_local_try:
  assumes "marks_kept P (ei_execution_id intent)" and "map_of harnesses (ed_selected_harness_id decision) = Some A"
    and "ha_connector A = Some C" and "discovery_keeps_marks P C (ei_execution_id intent)" and "ei_execution_id intent \<noteq> []"
    and "run_marked P (ei_execution_id intent) s"
    and "try_backend V intent decision (local_backend P uid harnesses supported healthy) j attempt s = (Returned t, s1)"
  shows "t \<noteq> Return_Result r"
proof -
  let ?b = "local_backend P uid harnesses supported healthy"
  let ?h = "Some (ed_selected_harness_id decision)"
  have v: "await_call (be_validate ?b intent decision) s2 = (u, s3) \<Longrightarrow> s3 = s2" for s2 u s3
    by (auto simp: local_backend_def await_call_def split: sum.splits)
  obtain p where prep: "await_call (be_prepare ?b intent decision) s2 = (Returned p, s2)" for s2 :: "'a run_state"
    by (simp add: local_backend_def await_pure)
  obtain u s3 where val: "await_call (be_validate ?b intent decision) (audit V intent ''backend.preparing'' j ?h None [] s) = (Returned u, s3)"
    using assms(7) prep by (auto simp: try_backend_def Let_def split: prod.splits outcome.splits)
  define s4 where "s4 = audit V intent ''execution.started'' j ?h None [] (audit V intent ''backend.ready'' j ?h None [] s3)"
  obtain res s5 where run: "await_call (be_execute ?b intent decision p) s4 = (Returned res, s5)"
    using assms(7) prep val by (auto simp: try_backend_def Let_def s4_def split: prod.splits outcome.splits)
  have "run_marked P (ei_execution_id intent) s4"
    using v [OF val] assms(6) by (simp add: s4_def)
  then have "\<not> xr_ok res"
    using marked_local_run [OF assms(1-5)] run_marked_await [OF run] by (auto simp: run_marked_def local_backend_def)
  with assms(7) prep val run show ?thesis
    by (auto simp: try_backend_def Let_def s4_def fall_back_def split: prod.splits if_splits)
qed

text \<open>C32: An execution identifier serves the local backend only once. The clean-up after a run over process
  adapters, a successful run too, marks the execution as cancelled in the process runner that the
  adapters share; a later turn on the local backend under the same identifier, the next one of the
  fallback chain or one of a repeated execution, cannot succeed, whatever its process does.\<close>

theorem rerun_after_cleanup_fails:
  assumes "marks_kept P (ei_execution_id intent)" and "\<And>w g g'. ph_get P (w, g) = ph_get P (w, g')"
    and "\<exists>hA \<in> set hs. ha_connector (snd hA) \<noteq> None" and "be_cleanup b = cancel_all P hs"
    and "guarded_backend V intent decision' b i attempt s = (t, s0)"
    and "set (pr_cancelled (ph_get P (rn_world s0, rn_registry s0))) \<subseteq> set (pr_cancelled (ph_get P (rn_world s1, rn_registry s1)))"
    and "registry_get_backend (er_registry rt) j = Inr (local_backend P uid harnesses supported healthy)"
    and "map_of harnesses (ed_selected_harness_id decision) = Some A" and "ha_connector A = Some C"
    and "discovery_keeps_marks P C (ei_execution_id intent)" and "ei_execution_id intent \<noteq> []"
  shows "\<not> (\<exists>r s2. backend_turn V rt intent decision j s1 = (Return_Result r, s2) \<and> xr_ok r)"
proof
  assume "\<exists>r s2. backend_turn V rt intent decision j s1 = (Return_Result r, s2) \<and> xr_ok r"
  then obtain r s2 where good: "backend_turn V rt intent decision j s1 = (Return_Result r, s2)" "xr_ok r" by blast
  let ?b = "local_backend P uid harnesses supported healthy"
  have m1: "run_marked P (ei_execution_id intent) s1"
    using cleanup_marks [OF assms(1,3,4,5)] assms(6) by (auto simp: run_marked_def)
  define a where "a = start_attempt V intent decision j s1"
  define s3 where "s3 = s1\<lparr>rn_attempted := rn_attempted s1 @ [j], rn_ticks := rn_ticks s1 + 1,
      rn_registry := update_attempt (ei_execution_id intent) (ar_attempt_id a) j (Some (ed_selected_harness_id decision)) (Some j) (rn_registry s1)\<rparr>"
  have h: "await_call (be_health ?b) s = (Returned (local_health healthy), s)" for s
    by (simp add: local_backend_def await_pure)
  have g: "guarded_backend V intent decision ?b j a s3 = (Return_Result r, s2)"
    using good assms(7) h
    by (auto simp: backend_turn_def Let_def a_def s3_def fall_back_def cancelled_result_def result_fields_def execution_result_def
        split: if_splits sum.splits option.splits prod.splits)
  have m3: "run_marked P (ei_execution_id intent) s3"
    using m1 assms(2) by (simp add: run_marked_def s3_def) metis
  obtain u s4 where u: "try_backend V intent decision ?b j a s3 = (u, s4)" by (metis surj_pair)
  have "u \<noteq> Returned (Return_Result r)"
    using marked_local_try [OF assms(1) assms(8-11) m3] u by blast
  with g u show False
    by (auto simp: guarded_backend_def on_exception_def fall_back_def Let_def split: prod.splits outcome.splits if_splits)
qed

section \<open>A sample deployment\<close>

type_synonym sample_world = SafeProcessRunner

definition deployed_host :: "(sample_world \<times> registry_table) process_host" where
  "deployed_host =
     \<lparr>ph_host = sample_host, ph_get = fst, ph_map = (\<lambda>f (w, g). (f w, g)), ph_spawn = (\<lambda>_ _ _. Pair (Returned ())),
      ph_communicate = (\<lambda>_ _. Pair (Returned \<lparr>ce_timed_out = False, ce_lingering = False, ce_returncode = Some 0,
                                               ce_stdout = ''done'', ce_stderr = []\<rparr>)),
      ph_terminate = (\<lambda>_. Pair (Returned []))\<rparr>"

interpretation deployed: runner_state "ph_get deployed_host" "ph_map deployed_host"
  by unfold_locales (auto simp: deployed_host_def)

definition deployed_connector :: "(sample_world \<times> registry_table) harness_connector" where
  "deployed_connector =
     \<lparr>hc_discover = Pair (Returned \<lparr>dc_installed = True, dc_usable = True, dc_version = None, dc_executable_path = Some ''/bin/codex'',
                                 dc_fingerprint = None, dc_reason_code = None\<rparr>),
      hc_build_exec_argv = (\<lambda>e p w ro. Inr [e, p]), hc_execution_environment = (\<lambda>_. []), hc_parse_events = None\<rparr>"

definition deployed_harnesses :: "(string \<times> (sample_world \<times> registry_table) HarnessAdapter) list" where
  "deployed_harnesses = [(''codex'', connector_adapter ''codex'' ''Codex'' deployed_connector [])]"

definition deployed_local :: "sample_world ExecutionBackend" where
  "deployed_local = local_backend deployed_host ''u'' deployed_harnesses None True"

definition deployed_router :: "sample_world ExecutionRouter" where
  "deployed_router =
     \<lparr>er_registry = \<lparr>br_config = \<lparr>bc_enabled_backends = [''local''], bc_priority = [''local''],
          bc_default_backend = None, bc_fallback_order = [], bc_capability_overrides = [], bc_registry_revision = ''v1'',
          bc_allow_stub_backends = False\<rparr>, br_backends = [(''local'', deployed_local)]\<rparr>,
      er_available_harnesses = [''codex''], er_subscription_allows = [], er_quota_allows = []\<rparr>"

definition deployed_state :: "sample_world run_state" where
  "deployed_state = \<lparr>rn_world = init_SafeProcessRunner, rn_registry = init_CancellationRegistry, rn_ticks = 0, rn_audits = [],
     rn_attempts = [], rn_attempted = [], rn_last_error = [], rn_last_failure = UNKNOWN_FAILURE\<rparr>"

lemmas deployed_simps =
  deployed_host_def deployed_connector_def deployed_harnesses_def deployed_local_def deployed_router_def connector_adapter_def

lemma deployed_marks_kept: "marks_kept deployed_host i"
  by (auto simp: marks_kept_def deployed_host_def)

lemma deployed_first_run_succeeds:
  "\<exists>r s1. guarded_backend sample_env sample_intent sample_decision deployed_local ''local''
     (start_attempt sample_env sample_intent sample_decision ''local'' deployed_state) deployed_state = (Return_Result r, s1) \<and> xr_ok r"
proof -
  have v: "validate_cwd sample_host ''/w'' x = Inr [[], ''w'']" for x
    by (auto simp: validate_cwd_def sample_host_def has_traversal_def list_ex_iff neq_Nil_conv)
  have run: "\<exists>out s1. connector_execute deployed_host ''u'' (connector_adapter ''codex'' ''Codex'' deployed_connector []) deployed_connector
      (ei_prompt sample_intent) (local_context sample_intent) (init_SafeProcessRunner, g) = (Returned out, s1)
      \<and> dget out ''ok'' = PyBool True" for g
    by (simp add: v connector_execute_def connector_prepare_def connector_validate_def local_context_def sample_intent_def
        deployed_simps Let_def py_or_def dget_def run_process_def process_run_request_def opt_truthy_def policy_profile_of_def
        harness_answer_def run_result_def classify_exit_def init_SafeProcessRunner_def process_started_def)
  have ok: "validate_backend (local_supports deployed_harnesses None sample_intent ''codex'') m (local_health True) = Inr ()" for m
    by (simp add: validate_backend_def local_supports_def sample_intent_def local_harnesses_def deployed_harnesses_def
        missing_capabilities_def local_health_def simple_health_def)
  have ad: "adapter_for deployed_harnesses ''codex'' = connector_adapter ''codex'' ''Codex'' deployed_connector []"
      "ha_connector (connector_adapter ''codex'' ''Codex'' deployed_connector []) = Some deployed_connector"
    by (simp_all add: adapter_for_def deployed_harnesses_def connector_adapter_def)
  have exec: "\<exists>r s1. local_execute deployed_host ''u'' deployed_harnesses None True sample_intent sample_decision p (init_SafeProcessRunner, g)
      = (Returned r, s1) \<and> xr_ok r" for p g
  proof -
    obtain out s1 where "connector_execute deployed_host ''u'' (connector_adapter ''codex'' ''Codex'' deployed_connector []) deployed_connector
        (ei_prompt sample_intent) (local_context sample_intent) (init_SafeProcessRunner, g) = (Returned out, s1)"
      and "dget out ''ok'' = PyBool True" using run by blast
    moreover from this have "answered_ok out"
      unfolding answered_ok_def dget_default_def dget_def by (auto split: option.splits)
    ultimately show ?thesis
      using ad by (simp add: local_execute_def ok Let_def sample_decision_def harness_run_def local_answer_def
          backend_result_def execution_result_def)
  qed
  obtain r s1 where x: "local_execute deployed_host ''u'' deployed_harnesses None True sample_intent sample_decision
      [(''mode'', PyStr ''local''), (''harness_id'', PyStr ''codex'')] (init_SafeProcessRunner, init_CancellationRegistry) = (Returned r, s1)"
    and "xr_ok r" using exec by blast
  have clean: "\<exists>s'. cancel_all deployed_host deployed_harnesses eid s = (Returned (), s')" for eid s
    by (simp add: deployed_harnesses_def connector_adapter_def harness_cancel_def runner_cancel_def Let_def deployed_host_def split: prod.splits)
  have prep: "be_prepare deployed_local sample_intent sample_decision =
      Pair (Returned [(''mode'', PyStr ''local''), (''harness_id'', PyStr ''codex'')])"
    and val: "be_validate deployed_local sample_intent sample_decision = Pair (Returned ())"
    and ex: "be_execute deployed_local = local_execute deployed_host ''u'' deployed_harnesses None True"
    and cl: "be_cleanup deployed_local = cancel_all deployed_host deployed_harnesses"
    using ok by (auto simp: deployed_local_def local_backend_def sample_decision_def)
  have ax: "\<exists>s4. await_call (local_execute deployed_host ''u'' deployed_harnesses None True sample_intent sample_decision
      [(''mode'', PyStr ''local''), (''harness_id'', PyStr ''codex'')]) s3 = (Returned r, s4)"
    if "rn_world s3 = init_SafeProcessRunner" "rn_registry s3 = init_CancellationRegistry" for s3
    using x that by (cases s1) (auto simp: await_call_def)
  have ac: "\<exists>s4. await_call (cancel_all deployed_host deployed_harnesses eid) s3 = (Returned (), s4)" for eid and s3 :: "sample_world run_state"
    using clean [of eid "(rn_world s3, rn_registry s3)"] by (auto simp: await_call_def)
  let ?n = "\<lambda>ty. audit sample_env sample_intent ty ''local'' (Some (ed_selected_harness_id sample_decision)) None []"
  obtain s4 where s4: "await_call (local_execute deployed_host ''u'' deployed_harnesses None True sample_intent sample_decision
      [(''mode'', PyStr ''local''), (''harness_id'', PyStr ''codex'')])
      (?n ''execution.started'' (?n ''backend.ready'' (?n ''backend.preparing'' deployed_state))) = (Returned r, s4)"
    using ax by (fastforce simp: run_simps deployed_state_def)
  then obtain r' s5 where tr: "try_backend sample_env sample_intent sample_decision deployed_local ''local''
      (start_attempt sample_env sample_intent sample_decision ''local'' deployed_state) deployed_state
      = (Returned (Return_Result r'), s5)" "xr_ok r'"
    using \<open>xr_ok r\<close> by (auto simp: try_backend_def prep val ex await_pure Let_def success_result_def result_fields_def execution_result_def)
  obtain s6 where "await_call (cancel_all deployed_host deployed_harnesses (ei_execution_id sample_intent)) s5 = (Returned (), s6)"
    using ac by blast
  with tr show ?thesis
    by (auto simp: guarded_backend_def cl Let_def)
qed

theorem rerun_after_cleanup_fails_witness:
  "\<exists>r s0. guarded_backend sample_env sample_intent sample_decision deployed_local ''local''
       (start_attempt sample_env sample_intent sample_decision ''local'' deployed_state) deployed_state = (Return_Result r, s0) \<and> xr_ok r
     \<and> \<not> (\<exists>r s2. backend_turn sample_env deployed_router sample_intent sample_decision ''local'' s0 = (Return_Result r, s2) \<and> xr_ok r)"
proof -
  let ?a = "start_attempt sample_env sample_intent sample_decision ''local'' deployed_state"
  obtain r s0 where g: "guarded_backend sample_env sample_intent sample_decision deployed_local ''local'' ?a deployed_state = (Return_Result r, s0)"
    and good: "xr_ok r" using deployed_first_run_succeeds by blast
  have get: "ph_get deployed_host (w, x) = ph_get deployed_host (w, y)" for w :: sample_world and x y
    by (simp add: deployed_host_def)
  have clean: "be_cleanup deployed_local = cancel_all deployed_host deployed_harnesses"
    by (simp add: deployed_local_def local_backend_def)
  have conn: "\<exists>hA \<in> set deployed_harnesses. ha_connector (snd hA) \<noteq> None"
    by (simp add: deployed_harnesses_def connector_adapter_def)
  have reg: "registry_get_backend (er_registry deployed_router) ''local'' = Inr (local_backend deployed_host ''u'' deployed_harnesses None True)"
    by (simp add: registry_get_backend_def deployed_router_def deployed_local_def)
  have ad: "map_of deployed_harnesses (ed_selected_harness_id sample_decision) = Some (connector_adapter ''codex'' ''Codex'' deployed_connector [])"
    by (simp add: deployed_harnesses_def sample_decision_def)
  have disc: "discovery_keeps_marks deployed_host deployed_connector (ei_execution_id sample_intent)"
    by (simp add: discovery_keeps_marks_def deployed_connector_def)
  have "\<not> (\<exists>r s2. backend_turn sample_env deployed_router sample_intent sample_decision ''local'' s0 = (Return_Result r, s2) \<and> xr_ok r)"
    by (rule rerun_after_cleanup_fails [OF deployed_marks_kept get conn clean g subset_refl reg ad _ disc])
       (simp_all add: connector_adapter_def sample_intent_def)
  with g good show ?thesis by blast
qed

end
