(* ===== verification/Remote_Backends.thy ===== *)
theory Remote_Backends
  imports Backends
begin

text \<open>
  The JoyMesh backend with its submissions and events, and the hosted stub
  (\<^verbatim>\<open>src/src/joymesh/runtime_v1/execution_routing/backends/joymesh.py\<close>). The bridge to the runtime
  service (\<^verbatim>\<open>submit_fn\<close>) is an argument; generated identifiers are too.
\<close>

section \<open>Submissions\<close>

record JoyMeshState =
  jm_submissions :: "(string \<times> pydict) list"
  jm_events :: "(string \<times> (string \<times> pydict) list) list"

definition init_JoyMeshState :: JoyMeshState where
  "init_JoyMeshState = \<lparr>jm_submissions = [], jm_events = []\<rparr>"

definition set_submission :: "string \<Rightarrow> pydict \<Rightarrow> JoyMeshState \<Rightarrow> JoyMeshState" where
  "set_submission eid row j = j\<lparr>jm_submissions := AList.update eid row (jm_submissions j)\<rparr>"

definition events_of :: "JoyMeshState \<Rightarrow> string \<Rightarrow> (string \<times> pydict) list" where
  "events_of j eid = (case map_of (jm_events j) eid of None \<Rightarrow> [] | Some es \<Rightarrow> es)"

definition append_event :: "string \<Rightarrow> string \<Rightarrow> pydict \<Rightarrow> JoyMeshState \<Rightarrow> JoyMeshState" where
  "append_event eid ty payload j = j\<lparr>jm_events := AList.update eid (events_of j eid @ [(ty, payload)]) (jm_events j)\<rparr>"

definition claim :: "string \<Rightarrow> string \<Rightarrow> JoyMeshState \<Rightarrow> pydict result \<times> JoyMeshState" where
  "claim eid worker_id j =
     (case map_of (jm_submissions j) eid of
        None \<Rightarrow> (Inl (KeyError (''unknown execution '' @ eid)), j)
      | Some row \<Rightarrow>
          (let row1 = dmerge row [(''status'', PyStr ''claimed''), (''worker_id'', PyStr worker_id)]
           in (Inr row1, append_event eid ''execution.started'' [(''worker_id'', PyStr worker_id)] (set_submission eid row1 j))))"

definition renew_lease :: "string \<Rightarrow> JoyMeshState \<Rightarrow> pydict result \<times> JoyMeshState" where
  "renew_lease eid j =
     (case map_of (jm_submissions j) eid of
        None \<Rightarrow> (Inl (KeyError (''unknown execution '' @ eid)), j)
      | Some row \<Rightarrow> (let row1 = dmerge row [(''lease_renewed'', PyBool True)] in (Inr row1, set_submission eid row1 j)))"

definition stream_output :: "JoyMeshState \<Rightarrow> string \<Rightarrow> pydict" where
  "stream_output j eid =
     (let row = (case map_of (jm_submissions j) eid of None \<Rightarrow> [] | Some r \<Rightarrow> r);
          known_row = (if row = [] then [(''execution_id'', PyStr eid)] else row)
      in [(''execution_id'', PyStr eid),
          (''chunks'', PyList (map (\<lambda>(ty, p). PyDict [(''event_type'', PyStr ty), (''payload'', PyDict p)]) (events_of j eid))),
          (''status'', dget known_row ''status'')])"

text \<open>Lists and dictionaries cannot be looked up in a set.\<close>

definition verify_completion :: "JoyMeshState \<Rightarrow> string \<Rightarrow> bool result" where
  "verify_completion j eid =
     (case map_of (jm_submissions j) eid of
        None \<Rightarrow> Inr False
      | Some row \<Rightarrow>
          if row = [] then Inr False
          else (case dget row ''status'' of
             PyList _ \<Rightarrow> Inl (TypeError ''unhashable type'')
           | PyDict _ \<Rightarrow> Inl (TypeError ''unhashable type'')
           | v \<Rightarrow> Inr (v \<in> PyStr ` {''completed'', ''claimed'', ''submitted'', ''verified''})))"

definition cancel_submission :: "string \<Rightarrow> JoyMeshState \<Rightarrow> JoyMeshState" where
  "cancel_submission eid j =
     (case map_of (jm_submissions j) eid of
        None \<Rightarrow> j
      | Some row \<Rightarrow> append_event eid ''backend.cancelled'' [] (set_submission eid (dmerge row [(''status'', PyStr ''cancelled'')]) j))"

definition drop_submission :: "string \<Rightarrow> JoyMeshState \<Rightarrow> JoyMeshState" where
  "drop_submission eid j = j\<lparr>jm_submissions := AList.delete eid (jm_submissions j), jm_events := AList.delete eid (jm_events j)\<rparr>"

section \<open>Remote events\<close>

text \<open>\<^verbatim>\<open>isinstance(v, int)\<close>: integers and booleans. \<^verbatim>\<open>isdigit\<close> also accepts the superscript digits.\<close>

definition int_instance :: "pyval \<Rightarrow> bool" where
  "int_instance v = (case v of PyInt _ \<Rightarrow> True | PyBool _ \<Rightarrow> True | _ \<Rightarrow> False)"

definition py_isdigit :: "string \<Rightarrow> bool" where
  "py_isdigit s \<longleftrightarrow> s \<noteq> [] \<and> list_all (\<lambda>c. digit c \<or> (of_char c :: nat) \<in> {178, 179, 185}) s"

definition same_fingerprint :: "string \<Rightarrow> pydict \<Rightarrow> string \<times> pydict \<Rightarrow> bool" where
  "same_fingerprint ty payload item \<longleftrightarrow>
     fst item = ty \<and> py_str (dget (snd item) ''sequence'') = py_str (dget payload ''sequence'')
     \<and> py_str (dget (snd item) ''event_id'') = py_str (dget payload ''event_id'')"

definition event_sequences :: "(string \<times> pydict) list \<Rightarrow> int list result" where
  "event_sequences existing =
     map_result (\<lambda>item. py_int (py_or (dget (snd item) ''sequence'') (PyInt 0)))
       (filter (\<lambda>item. int_instance (dget (snd item) ''sequence'')
                  \<or> py_isdigit (py_str (py_or (dget (snd item) ''sequence'') (PyStr [])))) existing)"

text \<open>The order check: its own exception is caught again, and passed on for integers only.\<close>

definition out_of_order :: "pyval \<Rightarrow> int list \<Rightarrow> bool" where
  "out_of_order incoming sequences \<longleftrightarrow>
     incoming \<noteq> PyNone \<and> sequences \<noteq> [] \<and> int_instance incoming
     \<and> (case py_int incoming of Inl _ \<Rightarrow> False | Inr n \<Rightarrow> n < Max (set sequences))"

definition ingest_event :: "string \<Rightarrow> string \<Rightarrow> pydict \<Rightarrow> JoyMeshState \<Rightarrow> unit result \<times> JoyMeshState" where
  "ingest_event eid ty payload j0 =
     (let existing = events_of j0 eid;
          j = j0\<lparr>jm_events := AList.update eid existing (jm_events j0)\<rparr>
      in if list_ex (same_fingerprint ty payload) existing then (Inr (), j)
         else case event_sequences existing of
           Inl e \<Rightarrow> (Inl e, j)
         | Inr sequences \<Rightarrow>
             if out_of_order (dget payload ''sequence'') sequences then (Inl (ValueError ''out-of-order remote event''), j)
             else
               (let j1 = append_event eid ty payload j;
                    row = (case map_of (jm_submissions j1) eid of None \<Rightarrow> [(''execution_id'', PyStr eid)] | Some r \<Rightarrow> r)
                in (Inr (), if ty \<in> {''execution.completed'', ''task.succeeded''}
                            then set_submission eid (dmerge row [(''status'', PyStr ''completed'')]) j1 else j1)))"

section \<open>The JoyMesh backend\<close>

text \<open>\<open>jb_get\<close> and \<open>jb_map\<close> reach the backend's own state; \<open>jb_fresh\<close> yields the lease and attempt
  identifiers of a submission.\<close>

record 'w JoyMeshBackend =
  jb_healthy :: bool
  jb_submit_fn :: "(ExecutionIntent \<Rightarrow> ExecutionDecision \<Rightarrow> ('w, pydict) backend_call) option"
  jb_get :: "'w \<Rightarrow> JoyMeshState"
  jb_map :: "(JoyMeshState \<Rightarrow> JoyMeshState) \<Rightarrow> 'w \<Rightarrow> 'w"
  jb_fresh :: "'w \<Rightarrow> string \<times> string"

definition JOYMESH_CAPABILITIES :: "ExecutionCapability list" where
  "JOYMESH_CAPABILITIES =
     [REMOTE_WORKER, STREAMING, LONG_RUNNING, INTERNET, EPHEMERAL_WORKSPACE, FILESYSTEM, PERSISTENT_WORKSPACE]"

definition joymesh_supports :: "ExecutionIntent \<Rightarrow> string \<Rightarrow> bool" where
  "joymesh_supports intent h \<longleftrightarrow>
     \<not> ei_requires_provider_route intent \<and> ei_locality_preference intent \<noteq> ''local''
     \<and> \<not> missing_capabilities intent JOYMESH_CAPABILITIES"

definition joymesh_health :: "bool \<Rightarrow> BackendHealth" where
  "joymesh_health healthy =
     simple_health ''joymesh'' healthy ''joymesh workers reachable'' ''joymesh workers unavailable'' JOYMESH_CAPABILITIES"

definition joymesh_validate :: "'w JoyMeshBackend \<Rightarrow> ExecutionIntent \<Rightarrow> ExecutionDecision \<Rightarrow> unit result" where
  "joymesh_validate B intent decision =
     validate_backend (joymesh_supports intent (ed_selected_harness_id decision))
       ''joymesh backend does not support this intent'' (joymesh_health (jb_healthy B))"

definition submission_payload :: "ExecutionIntent \<Rightarrow> ExecutionDecision \<Rightarrow> string \<times> string \<Rightarrow> pydict" where
  "submission_payload intent decision ids =
     [(''execution_id'', PyStr (ei_execution_id intent)), (''mission_id'', PyStr (ei_mission_id intent)),
      (''harness_id'', PyStr (ed_selected_harness_id decision)), (''status'', PyStr ''submitted''),
      (''lease_id'', PyStr (''lease_'' @ take 12 (fst ids))), (''attempt_id'', PyStr (''execution_attempt_'' @ snd ids))]"

definition submit :: "'w JoyMeshBackend \<Rightarrow> ExecutionIntent \<Rightarrow> ExecutionDecision \<Rightarrow> ('w, pydict) backend_call" where
  "submit B intent decision s =
     (let save = (\<lambda>payload (w, g). (jb_map B (set_submission (ei_execution_id intent) payload) w, g))
      in case jb_submit_fn B of
           Some f \<Rightarrow>
             (case f intent decision s of
                (Raised e, s1) \<Rightarrow> (Raised e, s1)
              | (Cancelled, s1) \<Rightarrow> (Cancelled, s1)
              | (Returned payload, s1) \<Rightarrow> (Returned payload, save payload s1))
         | None \<Rightarrow>
             (let payload = submission_payload intent decision (jb_fresh B (fst s)) in (Returned payload, save payload s)))"

text \<open>The answer when the submission went to the runtime service.\<close>

definition leased_answer :: "ExecutionIntent \<Rightarrow> ExecutionDecision \<Rightarrow> pydict \<Rightarrow> ExecutionResult" where
  "leased_answer intent decision submission =
     (let status = py_str (py_or (dget submission ''status'') (PyStr ''leased''));
          good = status \<in> {''leased'', ''submitted'', ''claimed'', ''completed'', ''verified''}
      in backend_result good intent decision ''joymesh''
           (if status = ''queued'' then ES_BLOCKED else if good then ES_SUCCEEDED else ES_FAILED)
           (py_str (py_or (dget submission ''message'') (PyStr ''joymesh remote execution leased'')))
           [(''submission'', PyDict submission), (''remote'', PyBool True), (''completion_verified'', PyBool False),
            (''awaiting_node_events'', PyBool good)]
           (if good then None else Some ''backend_unavailable''))"

text \<open>Without the runtime service: claim by a worker that does not exist, and complete.\<close>

definition foundation_run ::
  "'w JoyMeshBackend \<Rightarrow> ExecutionIntent \<Rightarrow> ExecutionDecision \<Rightarrow> pydict \<Rightarrow> ('w, ExecutionResult) backend_call" where
  "foundation_run B intent decision submission s =
     (let (w, g) = s; eid = ei_execution_id intent; (c, j1) = claim eid ''foundation-worker'' (jb_get B w)
      in case c of
           Inl e \<Rightarrow> (Raised e, s)
         | Inr claimed \<Rightarrow>
             (let j2 = append_event eid ''execution.completed'' []
                         (set_submission eid (dmerge claimed [(''status'', PyStr ''completed''),
                            (''message'', PyStr ''joymesh foundation execution recorded'')]) j1);
                  s1 = (jb_map B (\<lambda>_. j2) w, g)
              in case verify_completion j2 eid of
                   Inl e \<Rightarrow> (Raised e, s1)
                 | Inr done \<Rightarrow>
                     (Returned ((backend_result True intent decision ''joymesh'' ES_SUCCEEDED ''joymesh foundation execution completed''
                        [(''submission'', PyDict submission), (''claim'', PyDict claimed), (''completion_verified'', PyBool done)] None)
                        \<lparr>xr_verification := [(''completed'', PyBool True), (''mode'', PyStr ''foundation'')]\<rparr>), s1)))"

definition joymesh_execute ::
  "'w JoyMeshBackend \<Rightarrow> ExecutionIntent \<Rightarrow> ExecutionDecision \<Rightarrow> pydict \<Rightarrow> ('w, ExecutionResult) backend_call" where
  "joymesh_execute B intent decision prepared s =
     (case joymesh_validate B intent decision of
        Inl e \<Rightarrow> (Raised e, s)
      | Inr _ \<Rightarrow>
          (case (if prepared \<noteq> [] then (Returned prepared, s) else submit B intent decision s) of
             (Raised e, s1) \<Rightarrow> (Raised e, s1)
           | (Cancelled, s1) \<Rightarrow> (Cancelled, s1)
           | (Returned submission, s1) \<Rightarrow>
               if jb_submit_fn B \<noteq> None then (Returned (leased_answer intent decision submission), s1)
               else foundation_run B intent decision submission s1))"

definition joymesh_backend :: "'w JoyMeshBackend \<Rightarrow> 'w ExecutionBackend" where
  "joymesh_backend B =
     \<lparr>be_capabilities = JOYMESH_CAPABILITIES, be_supports = joymesh_supports,
      be_health = Pair (Returned (joymesh_health (jb_healthy B))),
      be_prepare = submit B,
      be_validate = (\<lambda>intent decision s. (case joymesh_validate B intent decision of Inl e \<Rightarrow> Raised e | Inr u \<Rightarrow> Returned u, s)),
      be_execute = joymesh_execute B,
      be_cleanup = (\<lambda>eid (w, g). (Returned (), jb_map B (drop_submission eid) w, g))\<rparr>"

section \<open>The hosted stub\<close>

definition HOSTED_CAPABILITIES :: "ExecutionCapability list" where
  "HOSTED_CAPABILITIES = [INTERNET, STREAMING, LONG_RUNNING, SANDBOX]"

definition hosted_health :: "bool \<Rightarrow> BackendHealth" where
  "hosted_health enabled =
     (let state = (if enabled then ''unsupported'' else ''disabled'')
      in \<lparr>bh_healthy = False, bh_backend_id = ''hosted'', bh_detail = ''hosted backend '' @ state,
          bh_capabilities = HOSTED_CAPABILITIES, bh_state = state\<rparr>)"

definition hosted_backend :: "bool \<Rightarrow> 'w ExecutionBackend" where
  "hosted_backend enabled =
     \<lparr>be_capabilities = HOSTED_CAPABILITIES, be_supports = (\<lambda>_ _. False),
      be_health = Pair (Returned (hosted_health enabled)),
      be_prepare = (\<lambda>_ _. Pair (Raised (RuntimeError ''hosted backend stub cannot prepare execution''))),
      be_validate = (\<lambda>_ _. Pair (Raised (RuntimeError ''hosted backend stub cannot validate execution''))),
      be_execute = (\<lambda>intent decision _. Pair (Returned
        (backend_result False intent decision ''hosted'' ES_BLOCKED ''hosted backend stub is disabled''
           [(''mode'', PyStr ''hosted''), (''stub'', PyBool True)] (Some ''backend_unavailable'')))),
      be_cleanup = (\<lambda>_. Pair (Returned ()))\<rparr>"

section \<open>What the router relies on\<close>

text \<open>The contract of a backend: it supports only what it has the capabilities for, and its results are
  about the execution it was asked for, in its own name, and successful exactly when they say so.\<close>

locale backend_contract =
  fixes b :: "'w ExecutionBackend" and i :: string
  assumes supports_capable: "be_supports b intent h \<Longrightarrow> set (ei_required_capabilities intent) \<subseteq> set (be_capabilities b)"
    and result_own: "be_execute b intent decision p s = (Returned r, s1) \<Longrightarrow>
      xr_execution_id r = ei_execution_id intent \<and> xr_backend_id r = i \<and> (xr_ok r \<longleftrightarrow> xr_status r = ES_SUCCEEDED)"
begin

text \<open>The configured extra capabilities never admit a backend that would be refused without them.\<close>

lemma admitted_without_override:
  "backend_admitted rt intent h (i, b) \<longleftrightarrow>
     \<not> disallowed (er_subscription_allows rt) i \<and> be_supports b intent h"
  using supports_capable [of intent h] by (auto simp: backend_admitted_def effective_capabilities_def)

end

lemma backend_result_fields:
  "xr_execution_id (backend_result g it d b st m out f) = ei_execution_id it"
  "xr_backend_id (backend_result g it d b st m out f) = b"
  "xr_ok (backend_result g it d b st m out f) = g" "xr_status (backend_result g it d b st m out f) = st"
  "xr_failure_class (backend_result g it d b st m out f) = f" "xr_output (backend_result g it d b st m out f) = out"
  by (simp_all add: backend_result_def execution_result_def)

interpretation local_contract: backend_contract "local_backend P uid hs supported healthy" "''local''"
proof
  fix intent h
  show "be_supports (local_backend P uid hs supported healthy) intent h \<Longrightarrow>
      set (ei_required_capabilities intent) \<subseteq> set (be_capabilities (local_backend P uid hs supported healthy))"
    by (simp add: local_backend_def local_supports_def missing_capabilities_def)
next
  fix intent decision p s r s1
  assume "be_execute (local_backend P uid hs supported healthy) intent decision p s = (Returned r, s1)"
  then show "xr_execution_id r = ei_execution_id intent \<and> xr_backend_id r = ''local'' \<and> (xr_ok r \<longleftrightarrow> xr_status r = ES_SUCCEEDED)"
    by (auto simp: local_backend_def local_execute_def Let_def local_answer_def local_process_error_def backend_result_fields
        split: sum.splits outcome.splits py_error.splits prod.splits if_splits)
qed

interpretation fireconnect_contract: backend_contract "fireconnect_backend P uid B" "''fireconnect''"
proof
  fix intent h
  show "be_supports (fireconnect_backend P uid B) intent h \<Longrightarrow>
      set (ei_required_capabilities intent) \<subseteq> set (be_capabilities (fireconnect_backend P uid B))"
    by (simp add: fireconnect_backend_def fireconnect_supports_def missing_capabilities_def)
next
  fix intent decision p s r s1
  assume "be_execute (fireconnect_backend P uid B) intent decision p s = (Returned r, s1)"
  then show "xr_execution_id r = ei_execution_id intent \<and> xr_backend_id r = ''fireconnect'' \<and> (xr_ok r \<longleftrightarrow> xr_status r = ES_SUCCEEDED)"
    by (auto simp: fireconnect_backend_def fireconnect_execute_def Let_def routed_answer_def native_answer_def backend_result_fields
        split: outcome.splits prod.splits if_splits)
qed

lemma leased_answer_fields:
  "xr_execution_id (leased_answer it d sub) = ei_execution_id it" "xr_backend_id (leased_answer it d sub) = ''joymesh''"
  "xr_ok (leased_answer it d sub) \<longleftrightarrow> xr_status (leased_answer it d sub) = ES_SUCCEEDED"
  by (auto simp: leased_answer_def Let_def backend_result_fields)

interpretation joymesh_contract: backend_contract "joymesh_backend B" "''joymesh''"
proof
  fix intent h
  show "be_supports (joymesh_backend B) intent h \<Longrightarrow>
      set (ei_required_capabilities intent) \<subseteq> set (be_capabilities (joymesh_backend B))"
    by (simp add: joymesh_backend_def joymesh_supports_def missing_capabilities_def)
next
  fix intent decision p s r s1
  assume "be_execute (joymesh_backend B) intent decision p s = (Returned r, s1)"
  then show "xr_execution_id r = ei_execution_id intent \<and> xr_backend_id r = ''joymesh'' \<and> (xr_ok r \<longleftrightarrow> xr_status r = ES_SUCCEEDED)"
    by (auto simp: joymesh_backend_def joymesh_execute_def foundation_run_def Let_def leased_answer_fields backend_result_fields
        split: sum.splits outcome.splits prod.splits if_splits)
qed

interpretation hosted_contract: backend_contract "hosted_backend enabled" "''hosted''"
  by unfold_locales (auto simp: hosted_backend_def backend_result_fields)

section \<open>Runs over the built-in backends\<close>

definition builtin_backends ::
  "('w \<times> registry_table) process_host \<Rightarrow> string \<Rightarrow> (string \<times> ('w \<times> registry_table) HarnessAdapter) list \<Rightarrow> 'w FireConnectBackend
   \<Rightarrow> 'w JoyMeshBackend \<Rightarrow> (string \<times> 'w ExecutionBackend) list" where
  "builtin_backends P uid harnesses F J =
     [(''local'', local_backend P uid harnesses None True), (''fireconnect'', fireconnect_backend P uid F),
      (''joymesh'', joymesh_backend J), (''hosted'', hosted_backend False)]"

lemma builtin_capable:
  assumes "map_of (builtin_backends P uid harnesses F J) i = Some b" and "be_supports b intent h"
  shows "set (ei_required_capabilities intent) \<subseteq> set (be_capabilities b)"
  using assms local_contract.supports_capable fireconnect_contract.supports_capable joymesh_contract.supports_capable
    hosted_contract.supports_capable
  unfolding builtin_backends_def by (fastforce split: if_splits)

lemma guarded_result_own: "guarded_backend V intent decision b i attempt s = (Return_Result r, s1) \<Longrightarrow> xr_backend_id r = i"
  by (auto simp: guarded_backend_def try_backend_def on_exception_def fall_back_def Let_def success_result_def
      result_fields_def execution_result_def split: prod.splits outcome.splits if_splits)

lemma successful_turn:
  assumes "backend_turn V rt intent decision i s = (Return_Result r, s1)" and "xr_ok r"
  shows "enforce_entitlements rt intent (Some i) = Inr None \<and> xr_backend_id r = i
    \<and> (\<exists>b. registry_get_backend (er_registry rt) i = Inr b \<and> be_supports b intent (ed_selected_harness_id decision))"
  using assms
  by (auto simp: backend_turn_def Let_def fall_back_def cancelled_result_def result_fields_def execution_result_def
      dest: guarded_result_own split: if_splits sum.splits option.splits prod.splits outcome.splits)

lemma successful_loop:
  assumes "backend_loop V rt intent decision is s = (Returned r, s1)" and "xr_ok r"
  shows "xr_backend_id r \<in> set is \<and> enforce_entitlements rt intent (Some (xr_backend_id r)) = Inr None
    \<and> (\<exists>b. registry_get_backend (er_registry rt) (xr_backend_id r) = Inr b
           \<and> be_supports b intent (ed_selected_harness_id decision))"
  using assms
proof (induction "is" arbitrary: s)
  case Nil
  then show ?case by (auto dest: exhausted_facts split: prod.splits)
next
  case (Cons i js)
  obtain t s2 where t: "backend_turn V rt intent decision i s = (t, s2)" by (metis surj_pair)
  with Cons show ?case
    using successful_turn [of V rt intent decision i s _ s2]
    by (auto dest: exhausted_facts split: turn.splits prod.splits)
qed

lemma entitled_backend:
  "enforce_entitlements rt intent (Some i) = Inr None \<Longrightarrow> i \<noteq> [] \<Longrightarrow>
     \<not> truthy (dget (ei_subscription_constraints intent) ''denied'')
     \<and> map_of (er_subscription_allows rt) i \<noteq> Some False \<and> map_of (er_quota_allows rt) i \<noteq> Some False"
  by (auto simp: enforce_entitlements_def disallowed_def Let_def split: if_splits)

text \<open>C11: A successful execution over the built-in backends ran on a backend of its own fallback chain that
  supports the harness, has every required capability, and is excluded neither by the subscription nor
  by the quota.\<close>

theorem success_is_entitled_and_capable:
  assumes "br_backends (er_registry rt) = builtin_backends P uid harnesses F J"
    and "execute_with_fallback V rt intent decision wg n = (Returned r, s)" and "xr_ok r"
  shows "xr_backend_id r \<in> set (ed_selected_backend_id decision # ed_fallback_order decision)
    \<and> (\<exists>b. map_of (builtin_backends P uid harnesses F J) (xr_backend_id r) = Some b
           \<and> be_supports b intent (ed_selected_harness_id decision)
           \<and> set (ei_required_capabilities intent) \<subseteq> set (be_capabilities b))
    \<and> \<not> truthy (dget (ei_subscription_constraints intent) ''denied'')
    \<and> map_of (er_subscription_allows rt) (xr_backend_id r) \<noteq> Some False
    \<and> map_of (er_quota_allows rt) (xr_backend_id r) \<noteq> Some False"
proof -
  have l: "xr_backend_id r \<in> set (ed_selected_backend_id decision # ed_fallback_order decision)"
      "enforce_entitlements rt intent (Some (xr_backend_id r)) = Inr None"
      "\<exists>b. registry_get_backend (er_registry rt) (xr_backend_id r) = Inr b
           \<and> be_supports b intent (ed_selected_harness_id decision)"
    using successful_loop [OF assms(2) [unfolded execute_with_fallback_def Let_def] assms(3)] by blast+
  then obtain b where b: "map_of (builtin_backends P uid harnesses F J) (xr_backend_id r) = Some b"
      "be_supports b intent (ed_selected_harness_id decision)"
    using assms(1) by (auto simp: registry_get_backend_def split: option.splits)
  then have "xr_backend_id r \<noteq> []"
    by (auto simp: builtin_backends_def split: if_splits)
  with l b builtin_capable [OF b] show ?thesis
    using entitled_backend [OF l(2)] by auto
qed

text \<open>The capability overrides of the configuration never make a built-in backend eligible: a backend
  without a required capability of its own refuses the intent itself.\<close>

theorem overrides_never_admit:
  assumes "(i, b) \<in> set (builtin_backends P uid harnesses F J)"
  shows "backend_admitted rt intent h (i, b)
    = backend_admitted (rt\<lparr>er_registry := (er_registry rt)\<lparr>br_config := (br_config (er_registry rt))\<lparr>bc_capability_overrides := []\<rparr>\<rparr>\<rparr>)
        intent h (i, b)"
  using assms
  by (auto simp: builtin_backends_def local_contract.admitted_without_override fireconnect_contract.admitted_without_override
      joymesh_contract.admitted_without_override hosted_contract.admitted_without_override)

section \<open>Remote events and submissions\<close>

lemma events_of_update [simp]: "events_of (j\<lparr>jm_events := AList.update eid es (jm_events j)\<rparr>) eid = es"
  by (simp add: events_of_def)

lemma events_of_submission [simp]: "events_of (set_submission k row j) eid = events_of j eid"
  by (simp add: events_of_def set_submission_def)

lemma events_of_append [simp]: "events_of (append_event eid ty p j) eid = events_of j eid @ [(ty, p)]"
  by (simp add: append_event_def events_of_def)

lemma known_events: "map_of (jm_events j) eid = Some es \<Longrightarrow> j\<lparr>jm_events := AList.update eid es (jm_events j)\<rparr> = j"
  by (simp add: update_triv)

lemma same_fingerprint_self: "same_fingerprint ty p (ty, p)"
  by (simp add: same_fingerprint_def)

text \<open>What else may happen to the backend's state: events of any execution, among them other events of
  \<open>eid\<close>, claims, renewals, results and cancellations, and the clean-up of other executions.\<close>

inductive submission_step :: "string \<Rightarrow> JoyMeshState \<Rightarrow> JoyMeshState \<Rightarrow> bool" for eid where
  j_event: "submission_step eid j (snd (ingest_event e ty p j))"
| j_submit: "submission_step eid j (set_submission e row j)"
| j_claim: "submission_step eid j (snd (claim e worker j))"
| j_renew: "submission_step eid j (snd (renew_lease e j))"
| j_result: "submission_step eid j (append_event e ty p j)"
| j_cancel: "submission_step eid j (cancel_submission e j)"
| j_cleanup: "e \<noteq> eid \<Longrightarrow> submission_step eid j (drop_submission e j)"

definition seen_event :: "string \<Rightarrow> string \<Rightarrow> pydict \<Rightarrow> JoyMeshState \<Rightarrow> bool" where
  "seen_event eid ty payload j \<longleftrightarrow>
     (\<exists>es. map_of (jm_events j) eid = Some es \<and> list_ex (same_fingerprint ty payload) es)"

lemma seen_append: "seen_event eid ty payload j \<Longrightarrow> seen_event eid ty payload (append_event e t p j)"
  by (auto simp: seen_event_def append_event_def events_of_def)

lemma seen_submission [simp]: "seen_event eid ty payload (set_submission e row j) = seen_event eid ty payload j"
  by (simp add: seen_event_def set_submission_def)

lemma seen_known: "seen_event eid ty payload (j\<lparr>jm_events := AList.update e (events_of j e) (jm_events j)\<rparr>)"
  if "seen_event eid ty payload j"
  using that by (auto simp: seen_event_def events_of_def)

lemma seen_ingest: "seen_event eid ty payload j \<Longrightarrow> seen_event eid ty payload (snd (ingest_event e t p j))"
  by (auto simp: ingest_event_def Let_def seen_known seen_append split: sum.split)

lemma seen_drop: "seen_event eid ty payload j \<Longrightarrow> e \<noteq> eid \<Longrightarrow> seen_event eid ty payload (drop_submission e j)"
  by (simp add: seen_event_def drop_submission_def delete_conv')

lemma seen_step: "submission_step eid j j' \<Longrightarrow> seen_event eid ty payload j \<Longrightarrow> seen_event eid ty payload j'"
  by (induction rule: submission_step.induct)
     (auto simp: seen_ingest seen_append seen_drop claim_def renew_lease_def cancel_submission_def Let_def split: option.split)

lemma seen_steps: "(submission_step eid)\<^sup>*\<^sup>* j j' \<Longrightarrow> seen_event eid ty payload j \<Longrightarrow> seen_event eid ty payload j'"
  by (induction rule: rtranclp_induct) (auto intro: seen_step)

lemma ingest_seen: "ingest_event eid ty payload j = (Inr (), j1) \<Longrightarrow> seen_event eid ty payload j1"
  by (auto simp: ingest_event_def Let_def seen_event_def append_event_def set_submission_def same_fingerprint_self
      split: sum.splits if_splits)

lemma seen_ignored: "seen_event eid ty payload j \<Longrightarrow> ingest_event eid ty payload j = (Inr (), j)"
  by (auto simp: seen_event_def ingest_event_def Let_def events_of_def known_events)

text \<open>C33: Ingesting a remote event is idempotent: an event that was accepted is ignored whenever it arrives
  again, whatever other events, claims, renewals, results, cancellations and clean-ups of other
  executions came in between; only the clean-up of its own execution forgets it.\<close>

theorem remote_event_idempotent:
  assumes "ingest_event eid ty payload j = (Inr (), j1)" and "(submission_step eid)\<^sup>*\<^sup>* j1 j2"
  shows "ingest_event eid ty payload j2 = (Inr (), j2)"
  by (rule seen_ignored [OF seen_steps [OF assms(2) ingest_seen [OF assms(1)]]])

definition redelivery_state :: "JoyMeshState" where
  "redelivery_state = snd (ingest_event ''e1'' ''execution.output'' [(''sequence'', PyInt 1)] init_JoyMeshState)"

text \<open>The redelivery comes after another event of the same execution.\<close>

theorem remote_event_idempotent_witness:
  "let j2 = snd (ingest_event ''e1'' ''execution.output'' [(''sequence'', PyInt 2)] redelivery_state)
   in length (events_of j2 ''e1'') = 2
      \<and> ingest_event ''e1'' ''execution.output'' [(''sequence'', PyInt 1)] j2 = (Inr (), j2)"
proof -
  have first: "ingest_event ''e1'' ''execution.output'' [(''sequence'', PyInt 1)] init_JoyMeshState = (Inr (), redelivery_state)"
    unfolding redelivery_state_def
    by (simp add: ingest_event_def Let_def init_JoyMeshState_def events_of_def event_sequences_def out_of_order_def)
  have "length (events_of (snd (ingest_event ''e1'' ''execution.output'' [(''sequence'', PyInt 2)] redelivery_state)) ''e1'') = 2"
    by code_simp
  then show ?thesis
    using remote_event_idempotent [OF first r_into_rtranclp [of "submission_step ''e1''", OF j_event]] by (simp add: Let_def)
qed

text \<open>After the clean-up of its execution, which the router performs at the end of every attempt, any event is new.\<close>

theorem cleanup_forgets_events:
  "fst (ingest_event eid ty payload (drop_submission eid j)) = Inr ()
   \<and> events_of (snd (ingest_event eid ty payload (drop_submission eid j))) eid = [(ty, payload)]"
  by (simp add: ingest_event_def Let_def drop_submission_def events_of_def event_sequences_def out_of_order_def
      append_event_def set_submission_def delete_conv')

text \<open>The order of remote events is checked for integers only. An event whose sequence number is lower than
  one already accepted is rejected when the number is an integer and accepted when it is the same
  number as text.\<close>

theorem text_sequence_bypasses_order:
  assumes "event_sequences (events_of j eid) = Inr sequences" and "m \<in> set sequences" and "n < m"
    and "\<not> list_ex (same_fingerprint ty [(''sequence'', PyInt n)]) (events_of j eid)"
  shows "fst (ingest_event eid ty [(''sequence'', PyInt n)] j) = Inl (ValueError ''out-of-order remote event'')
    \<and> fst (ingest_event eid ty [(''sequence'', PyStr (int_str n))] j) = Inr ()"
proof -
  have "n < Max (set sequences)" "sequences \<noteq> []"
    using assms(2,3) by (auto intro: less_le_trans Max_ge)
  moreover have "same_fingerprint ty [(''sequence'', PyStr (int_str n))] = same_fingerprint ty [(''sequence'', PyInt n)]"
    by (auto simp: same_fingerprint_def dget_def)
  ultimately show ?thesis
    using assms by (simp add: ingest_event_def Let_def out_of_order_def int_instance_def dget_def)
qed

definition ordered_state :: JoyMeshState where
  "ordered_state = snd (ingest_event ''e1'' ''execution.output'' [(''sequence'', PyInt 5)] init_JoyMeshState)"

theorem text_sequence_bypasses_order_witness:
  "fst (ingest_event ''e1'' ''execution.output'' [(''sequence'', PyInt 2)] ordered_state) = Inl (ValueError ''out-of-order remote event'')
   \<and> fst (ingest_event ''e1'' ''execution.output'' [(''sequence'', PyStr (int_str 2))] ordered_state) = Inr ()"
proof -
  have e: "events_of ordered_state ''e1'' = [(''execution.output'', [(''sequence'', PyInt 5)])]"
    by (simp add: ordered_state_def ingest_event_def Let_def init_JoyMeshState_def events_of_def event_sequences_def
        out_of_order_def append_event_def)
  have s: "event_sequences (events_of ordered_state ''e1'') = Inr [5]"
    by (simp add: e event_sequences_def int_instance_def dget_def py_or_def)
  have d: "\<not> list_ex (same_fingerprint ''execution.output'' [(''sequence'', PyInt 2)]) (events_of ordered_state ''e1'')"
    by (simp add: e same_fingerprint_def dget_def int_str_def) code_simp
  show ?thesis
    by (rule text_sequence_bypasses_order [OF s _ _ d, of 5]) simp_all
qed

lemma submit_unbridged:
  "jb_submit_fn B = None \<Longrightarrow> submit B intent decision (w, g) = (Returned (submission_payload intent decision (jb_fresh B w)),
     jb_map B (set_submission (ei_execution_id intent) (submission_payload intent decision (jb_fresh B w))) w, g)"
  by (simp add: submit_def Let_def)

lemma foundation_execute:
  assumes "jb_submit_fn B = None" and "joymesh_validate B intent decision = Inr ()" and "p \<noteq> []"
    and "\<And>f w. jb_get B (jb_map B f w) = f (jb_get B w)"
  shows "\<exists>r f. joymesh_execute B intent decision p (jb_map B (set_submission (ei_execution_id intent) p) w, g)
      = (Returned r, jb_map B f (jb_map B (set_submission (ei_execution_id intent) p) w), g)
      \<and> xr_ok r \<and> dget (xr_verification r) ''completed'' = PyBool True"
  using assms(1-3)
  by (auto simp: joymesh_execute_def foundation_run_def Let_def claim_def assms(4) set_submission_def verify_completion_def
      append_event_def dmerge_def dget_def backend_result_fields)

text \<open>Without the bridge to the runtime service, the JoyMesh backend reports success and a completed
  verification for an execution that no worker has seen: it claims its own submission and marks it
  completed.\<close>

theorem foundation_success_without_worker:
  assumes "jb_submit_fn B = None" and "jb_healthy B" and "joymesh_supports intent (ed_selected_harness_id decision)"
    and "\<And>f w. jb_get B (jb_map B f w) = f (jb_get B w)"
  shows "\<exists>p s1 r s2. submit B intent decision s = (Returned p, s1) \<and> joymesh_execute B intent decision p s1 = (Returned r, s2)
    \<and> xr_ok r \<and> dget (xr_verification r) ''completed'' = PyBool True \<and> snd s2 = snd s
    \<and> (\<exists>f. fst s2 = jb_map B f (jb_map B (set_submission (ei_execution_id intent) p) (fst s)))"
proof -
  obtain w g where s: "s = (w, g)" by (cases s)
  have v: "joymesh_validate B intent decision = Inr ()"
    using assms(2,3) by (simp add: joymesh_validate_def validate_backend_def joymesh_health_def simple_health_def)
  have "submission_payload intent decision (jb_fresh B w) \<noteq> []" by (simp add: submission_payload_def)
  from foundation_execute [OF assms(1) v this assms(4), of w g] show ?thesis
    unfolding s submit_unbridged [OF assms(1)] by auto
qed

text \<open>A submission that the runtime service can only queue is given to the next backend as well: the
  queued answer counts as an unavailable backend, and the clean-up forgets the submission without
  withdrawing it.\<close>

theorem queued_submission_falls_back:
  assumes "jb_submit_fn B = Some f" and "joymesh_validate B intent decision = Inr ()"
    and "f intent decision (rn_world s, rn_registry s) = (Returned payload, w, g)" and "dget payload ''status'' = PyStr ''queued''"
  shows "\<exists>s1. guarded_backend V intent decision (joymesh_backend B) i attempt s = (Next_Backend, s1)
    \<and> rn_world s1 = jb_map B (drop_submission (ei_execution_id intent)) (jb_map B (set_submission (ei_execution_id intent) payload) w)
    \<and> rn_registry s1 = g"
proof -
  let ?h = "Some (ed_selected_harness_id decision)"
  let ?b = "joymesh_backend B"
  let ?w = "jb_map B (set_submission (ei_execution_id intent) payload) w"
  have ne: "payload \<noteq> []" using assms(4) by (auto simp: dget_def)
  have ans: "\<not> xr_ok (leased_answer intent decision payload)"
      "xr_failure_class (leased_answer intent decision payload) = Some (failure_value BACKEND_UNAVAILABLE)"
    using assms(4) by (simp_all add: leased_answer_def Let_def py_or_def backend_result_fields)
  define s1 where "s1 = audit V intent ''backend.preparing'' i ?h None [] s"
  have prep: "await_call (be_prepare ?b intent decision) s1 = (Returned payload, s1\<lparr>rn_world := ?w, rn_registry := g\<rparr>)"
    using assms(1,3) by (simp add: joymesh_backend_def await_call_def submit_def Let_def s1_def run_simps)
  have val: "await_call (be_validate ?b intent decision) q = (Returned (), q)" for q
    using assms(2) by (simp add: joymesh_backend_def await_call_def)
  have ex: "await_call (be_execute ?b intent decision payload) q = (Returned (leased_answer intent decision payload), q)" for q
    using assms(1,2) ne by (simp add: joymesh_backend_def await_call_def joymesh_execute_def)
  have cl: "await_call (be_cleanup ?b (ei_execution_id intent)) q
      = (Returned (), q\<lparr>rn_world := jb_map B (drop_submission (ei_execution_id intent)) (rn_world q)\<rparr>)" for q :: "'a run_state"
    by (simp add: joymesh_backend_def await_call_def)
  obtain q where "try_backend V intent decision ?b i attempt s = (Returned Next_Backend, q)" "rn_world q = ?w" "rn_registry q = g"
    using prep val ex ans by (simp add: try_backend_def Let_def s1_def parse_failure_value fall_back_def run_simps
        del: failure_value.simps split: prod.splits)
  then show ?thesis
    by (simp add: guarded_backend_def cl)
qed

lemma foundation_guarded:
  assumes "jb_submit_fn B = None" and "joymesh_validate B intent decision = Inr ()"
    and "\<And>f w. jb_get B (jb_map B f w) = f (jb_get B w)"
  shows "\<exists>r s1. guarded_backend V intent decision (joymesh_backend B) i attempt s = (Return_Result r, s1) \<and> xr_ok r"
proof -
  let ?h = "Some (ed_selected_harness_id decision)"
  let ?b = "joymesh_backend B"
  let ?p = "submission_payload intent decision (jb_fresh B (rn_world s))"
  let ?w = "jb_map B (set_submission (ei_execution_id intent) ?p) (rn_world s)"
  have ne: "?p \<noteq> []" by (simp add: submission_payload_def)
  define s1 where "s1 = audit V intent ''backend.preparing'' i ?h None [] s"
  have prep: "await_call (be_prepare ?b intent decision) s1 = (Returned ?p, s1\<lparr>rn_world := ?w\<rparr>)"
    by (simp add: joymesh_backend_def await_call_def submit_unbridged [OF assms(1)] s1_def run_simps)
  have val: "await_call (be_validate ?b intent decision) q = (Returned (), q)" for q
    using assms(2) by (simp add: joymesh_backend_def await_call_def)
  have ex: "\<exists>r q1. await_call (be_execute ?b intent decision ?p) q = (Returned r, q1) \<and> xr_ok r" if "rn_world q = ?w" for q
    using foundation_execute [OF assms(1,2) ne assms(3), of "rn_world s" "rn_registry q"] that
    by (auto simp: joymesh_backend_def await_call_def)
  have cl: "\<exists>q1. await_call (be_cleanup ?b (ei_execution_id intent)) q = (Returned (), q1)" for q :: "'a run_state"
    by (simp add: joymesh_backend_def await_call_def)
  let ?n = "\<lambda>ty. audit V intent ty i ?h None []"
  obtain r q1 where q1: "await_call (be_execute ?b intent decision ?p) (?n ''execution.started'' (?n ''backend.ready'' (s1\<lparr>rn_world := ?w\<rparr>)))
      = (Returned r, q1)" "xr_ok r"
    using ex [of "?n ''execution.started'' (?n ''backend.ready'' (s1\<lparr>rn_world := ?w\<rparr>))"] by (auto simp: run_simps)
  then obtain r' q2 where "try_backend V intent decision ?b i attempt s = (Returned (Return_Result r'), q2)" "xr_ok r'"
    using prep val by (auto simp: try_backend_def Let_def s1_def success_result_def result_fields_def execution_result_def)
  with cl [of q2] show ?thesis by (auto simp: guarded_backend_def)
qed

section \<open>A sample deployment\<close>

definition remote_backend :: "JoyMeshState JoyMeshBackend" where
  "remote_backend = \<lparr>jb_healthy = True, jb_submit_fn = None, jb_get = (\<lambda>w. w), jb_map = (\<lambda>f. f), jb_fresh = (\<lambda>_. (''l'', ''a''))\<rparr>"

definition bridged_backend :: "JoyMeshState JoyMeshBackend" where
  "bridged_backend = remote_backend\<lparr>jb_submit_fn := Some (\<lambda>_ _. Pair (Returned [(''status'', PyStr ''queued'')]))\<rparr>"

definition remote_host :: "(JoyMeshState \<times> registry_table) process_host" where
  "remote_host =
     \<lparr>ph_host = sample_host, ph_get = (\<lambda>_. init_SafeProcessRunner), ph_map = (\<lambda>_ s. s), ph_spawn = (\<lambda>_ _ _. Pair Cancelled),
      ph_communicate = (\<lambda>_ _. Pair Cancelled), ph_terminate = (\<lambda>_. Pair Cancelled)\<rparr>"

definition idle_fireconnect :: "'w FireConnectBackend" where
  "idle_fireconnect =
     \<lparr>fc_run_temporary = (\<lambda>_ _ _ _ _. Pair Cancelled), fc_harnesses = [], fc_healthy = False, fc_manager_id = ''fireconnect'',
      fc_supported = fireconnect_supported None, fc_health_probe = None, fc_skip_live_probe = True, fc_discover = Pair Cancelled\<rparr>"

definition remote_router :: "JoyMeshState ExecutionRouter" where
  "remote_router =
     \<lparr>er_registry = \<lparr>br_config = \<lparr>bc_enabled_backends = [''joymesh''], bc_priority = [''joymesh''],
          bc_default_backend = None, bc_fallback_order = [], bc_capability_overrides = [(''joymesh'', [GPU])],
          bc_registry_revision = ''v1'', bc_allow_stub_backends = False\<rparr>,
        br_backends = builtin_backends remote_host ''u'' [] idle_fireconnect remote_backend\<rparr>,
      er_available_harnesses = [''codex''], er_subscription_allows = [], er_quota_allows = []\<rparr>"

definition remote_decision :: ExecutionDecision where
  "remote_decision = sample_decision\<lparr>ed_selected_backend_id := ''hosted'', ed_fallback_order := [''joymesh'']\<rparr>"

lemma remote_supported: "joymesh_supports sample_intent h"
  by (simp add: joymesh_supports_def sample_intent_def missing_capabilities_def)

theorem foundation_success_without_worker_witness:
  "\<exists>p s1 r s2. submit remote_backend sample_intent sample_decision (init_JoyMeshState, init_CancellationRegistry) = (Returned p, s1)
     \<and> joymesh_execute remote_backend sample_intent sample_decision p s1 = (Returned r, s2) \<and> xr_ok r"
  using foundation_success_without_worker [of remote_backend sample_intent sample_decision "(init_JoyMeshState, init_CancellationRegistry)"]
    remote_supported by (auto simp: remote_backend_def)

definition remote_state :: "JoyMeshState run_state" where
  "remote_state = \<lparr>rn_world = init_JoyMeshState, rn_registry = init_CancellationRegistry, rn_ticks = 0, rn_audits = [],
     rn_attempts = [], rn_attempted = [], rn_last_error = [], rn_last_failure = UNKNOWN_FAILURE\<rparr>"

lemma remote_valid: "jb_healthy B \<Longrightarrow> joymesh_validate B sample_intent d = Inr ()"
  using remote_supported by (simp add: joymesh_validate_def validate_backend_def joymesh_health_def simple_health_def)

theorem queued_submission_falls_back_witness:
  "\<exists>s1. guarded_backend sample_env sample_intent sample_decision (joymesh_backend bridged_backend) ''joymesh''
       (start_attempt sample_env sample_intent sample_decision ''joymesh'' remote_state) remote_state = (Next_Backend, s1)"
  using queued_submission_falls_back [of bridged_backend "\<lambda>_ _. Pair (Returned [(''status'', PyStr ''queued'')])" sample_intent sample_decision
      remote_state "[(''status'', PyStr ''queued'')]" "rn_world remote_state" "rn_registry remote_state" sample_env "''joymesh''"
      "start_attempt sample_env sample_intent sample_decision ''joymesh'' remote_state"]
    remote_valid [of bridged_backend]
  by (auto simp: bridged_backend_def remote_backend_def dget_def)

lemma remote_backend_unbridged: "jb_submit_fn remote_backend = None"
  by (simp add: remote_backend_def)

lemma remote_entitled: "enforce_entitlements remote_router sample_intent (Some i) = Inr None"
  by (simp add: enforce_entitlements_def Let_def sample_intent_def remote_router_def disallowed_def dget_def)

lemma remote_registered:
  "registry_get_backend (er_registry remote_router) ''hosted'' = Inr (hosted_backend False)"
  "registry_get_backend (er_registry remote_router) ''joymesh'' = Inr (joymesh_backend remote_backend)"
  by (simp_all add: registry_get_backend_def remote_router_def builtin_backends_def)

lemma update_row_cancelled:
  "(\<And>r. ax_cancelled (f r) = ax_cancelled r) \<Longrightarrow> ax_cancelled (cg_rows (update_row i f g) ! j) = ax_cancelled (cg_rows g ! j)"
  by (cases "i < length (cg_rows g)"; cases "i = j") (simp_all add: update_row_def list_update_beyond)

lemma is_cancelled_update_attempt [simp]: "is_cancelled (update_attempt eid a b h f g) e = is_cancelled g e"
proof -
  have "cg_active (update_row i u g) = cg_active g" for i u by (simp add: update_row_def)
  then show ?thesis
    by (simp add: is_cancelled_def active_row_def update_attempt_def update_row_cancelled split: option.split)
qed

lemma hosted_turn:
  assumes "\<not> is_cancelled (rn_registry s) ''e1''"
  shows "\<exists>s1. backend_turn sample_env remote_router sample_intent remote_decision ''hosted'' s = (Next_Backend, s1)
    \<and> \<not> is_cancelled (rn_registry s1) ''e1''"
proof -
  have "unhealthy (hosted_health False)" and "ei_execution_id sample_intent = ''e1''"
    by (simp_all add: unhealthy_def hosted_health_def Let_def sample_intent_def)
  with assms show ?thesis
    by (simp add: backend_turn_def Let_def remote_entitled remote_registered hosted_backend_def await_pure fall_back_def run_simps)
qed

lemma joymesh_turn:
  assumes "\<not> is_cancelled (rn_registry s) ''e1''"
  shows "\<exists>r s1. backend_turn sample_env remote_router sample_intent remote_decision ''joymesh'' s = (Return_Result r, s1)
    \<and> xr_ok r \<and> xr_backend_id r = ''joymesh''"
proof -
  have fresh: "jb_get remote_backend (jb_map remote_backend f w) = f (jb_get remote_backend w)" for f w
    by (simp add: remote_backend_def)
  have v: "joymesh_validate remote_backend sample_intent remote_decision = Inr ()"
    by (rule remote_valid) (simp add: remote_backend_def)
  have eid: "ei_execution_id sample_intent = ''e1''" by (simp add: sample_intent_def)
  define a where "a = start_attempt sample_env sample_intent remote_decision ''joymesh'' s"
  define s3 where "s3 = s\<lparr>rn_attempted := rn_attempted s @ [''joymesh''], rn_ticks := rn_ticks s + 1,
      rn_registry := update_attempt ''e1'' (ar_attempt_id a) ''joymesh'' (Some (ed_selected_harness_id remote_decision)) (Some ''joymesh'') (rn_registry s)\<rparr>"
  have turn: "backend_turn sample_env remote_router sample_intent remote_decision ''joymesh'' s
      = guarded_backend sample_env sample_intent remote_decision (joymesh_backend remote_backend) ''joymesh'' a s3"
    using assms remote_supported
    by (simp add: backend_turn_def Let_def eid remote_entitled remote_registered a_def s3_def joymesh_backend_def await_pure
        joymesh_health_def simple_health_def unhealthy_def remote_backend_def)
  show ?thesis
    unfolding turn using foundation_guarded [OF _ v fresh] guarded_result_own by (metis remote_backend_unbridged)
qed

lemma remote_run:
  "\<exists>r s. execute_with_fallback sample_env remote_router sample_intent remote_decision (init_JoyMeshState, init_CancellationRegistry) 0
     = (Returned r, s) \<and> xr_ok r \<and> xr_backend_id r = ''joymesh''"
proof -
  have d: "ed_selected_backend_id remote_decision = ''hosted''" "ed_fallback_order remote_decision = [''joymesh'']"
    by (simp_all add: remote_decision_def)
  let ?s0 = "audit sample_env sample_intent ''backend.selected'' ''hosted'' (Some (ed_selected_harness_id remote_decision))
      (Some (ed_reason remote_decision)) []
      \<lparr>rn_world = init_JoyMeshState, rn_registry = init_CancellationRegistry, rn_ticks = 0, rn_audits = [], rn_attempts = [],
       rn_attempted = [], rn_last_error = ''no backend attempted'', rn_last_failure = UNKNOWN_FAILURE\<rparr>"
  let ?g = "register_execution (re_fresh sample_env (rn_ticks ?s0)) (re_clock sample_env (rn_ticks ?s0)) (ei_execution_id sample_intent)
      ''hosted'' (Some (ed_selected_harness_id remote_decision)) None None init_CancellationRegistry"
  let ?q = "\<lambda>g. ?s0\<lparr>rn_registry := g, rn_ticks := rn_ticks ?s0 + 1\<rparr>"
  have g: "\<not> is_cancelled ?g ''e1''"
    by (simp add: is_cancelled_def active_row_def register_execution_def sample_intent_def)
  obtain s1 where h: "backend_turn sample_env remote_router sample_intent remote_decision ''hosted'' (?q ?g) = (Next_Backend, s1)"
      "\<not> is_cancelled (rn_registry s1) ''e1''"
    using hosted_turn [of "?q ?g"] g by auto
  obtain r s2 where "backend_turn sample_env remote_router sample_intent remote_decision ''joymesh'' s1 = (Return_Result r, s2)"
      "xr_ok r" "xr_backend_id r = ''joymesh''"
    using joymesh_turn [OF h(2)] by blast
  with h(1) show ?thesis
    by (simp add: execute_with_fallback_def Let_def d run_simps)
qed

theorem success_is_entitled_and_capable_witness:
  "\<exists>r s. execute_with_fallback sample_env remote_router sample_intent remote_decision (init_JoyMeshState, init_CancellationRegistry) 0
       = (Returned r, s) \<and> xr_ok r \<and> xr_backend_id r = ''joymesh''
     \<and> (\<exists>b. map_of (builtin_backends remote_host ''u'' [] idle_fireconnect remote_backend) (xr_backend_id r) = Some b
          \<and> set (ei_required_capabilities sample_intent) \<subseteq> set (be_capabilities b))"
proof -
  have reg: "br_backends (er_registry remote_router) = builtin_backends remote_host ''u'' [] idle_fireconnect remote_backend"
    by (simp add: remote_router_def)
  obtain r s where x: "execute_with_fallback sample_env remote_router sample_intent remote_decision
      (init_JoyMeshState, init_CancellationRegistry) 0 = (Returned r, s)" and r: "xr_ok r" "xr_backend_id r = ''joymesh''"
    using remote_run by blast
  with success_is_entitled_and_capable [OF reg x] show ?thesis by blast
qed

theorem overrides_never_admit_witness:
  "\<not> backend_admitted remote_router (sample_intent\<lparr>ei_required_capabilities := [GPU]\<rparr>) ''codex'' (''joymesh'', joymesh_backend remote_backend)"
proof -
  have m: "(''joymesh'', joymesh_backend remote_backend) \<in> set (builtin_backends remote_host ''u'' [] idle_fireconnect remote_backend)"
    by (simp add: builtin_backends_def)
  show ?thesis
    unfolding overrides_never_admit [OF m, of remote_router "sample_intent\<lparr>ei_required_capabilities := [GPU]\<rparr>" "''codex''"]
    by (simp add: backend_admitted_def effective_capabilities_def override_capabilities_def joymesh_backend_def JOYMESH_CAPABILITIES_def)
qed

end
