(* ===== verification/Deployment.thy ===== *)
theory Deployment
  imports Service_Behaviour Remote_Backends
begin

text \<open>
  The composition of the runtime service with the built-in backends, as \<^verbatim>\<open>RuntimeService.__post_init__\<close>
  (\<^verbatim>\<open>service.py\<close>) and \<^verbatim>\<open>BackendRegistry.__init__\<close> (\<^verbatim>\<open>registry.py\<close>) build it: the JoyMesh backend submits to
  the service itself, the local and the FireConnect backend run harness processes on a machine. The
  machine is the component \<open>'w\<close> of the service; a process, a connector or the state of the JoyMesh
  backend cannot touch anything else. Reachable states of the composed system keep the invariant of
  \<open>Service_Invariants\<close>.
\<close>

section \<open>The machine\<close>

record 'w machine =
  ma_host :: "'w process_host"
  ma_worker_host :: "'w process_host"
  ma_connectors :: "(string \<times> string \<times> 'w harness_connector) list"
  ma_codex :: "'w harness_connector"
  ma_joymesh :: "'w \<Rightarrow> JoyMeshState"
  ma_update_joymesh :: "(JoyMeshState \<Rightarrow> JoyMeshState) \<Rightarrow> 'w \<Rightarrow> 'w"
  ma_routes :: "string \<Rightarrow> string \<Rightarrow> ('w RuntimeService, pydict) backend_call \<Rightarrow> string option \<Rightarrow> string
      \<Rightarrow> ('w RuntimeService, pydict ProviderRouteLifecycleResult) backend_call"
  ma_uid :: string

text \<open>A call of the machine, seen from the service.\<close>

definition on_machine :: "('w \<Rightarrow> 'a outcome \<times> 'w) \<Rightarrow> ('w RuntimeService, 'a) backend_call" where
  "on_machine f sg = (case f (rs_world (fst sg)) of (r, w) \<Rightarrow> (r, (fst sg)\<lparr>rs_world := w\<rparr>, snd sg))"

definition service_host :: "'w process_host \<Rightarrow> ('w RuntimeService \<times> registry_table) process_host" where
  "service_host P =
     \<lparr>ph_host = ph_host P, ph_get = (\<lambda>sg. ph_get P (rs_world (fst sg))),
      ph_map = (\<lambda>f sg. ((fst sg)\<lparr>rs_world := ph_map P f (rs_world (fst sg))\<rparr>, snd sg)),
      ph_spawn = (\<lambda>argv cwd env. on_machine (ph_spawn P argv cwd env)),
      ph_communicate = (\<lambda>i timeout. on_machine (ph_communicate P i timeout)),
      ph_terminate = (\<lambda>i. on_machine (ph_terminate P i))\<rparr>"

definition service_connector :: "'w harness_connector \<Rightarrow> ('w RuntimeService \<times> registry_table) harness_connector" where
  "service_connector C =
     \<lparr>hc_discover = on_machine (hc_discover C), hc_build_exec_argv = hc_build_exec_argv C,
      hc_execution_environment = hc_execution_environment C, hc_parse_events = hc_parse_events C\<rparr>"

definition machine_harnesses :: "'w machine \<Rightarrow> (string \<times> ('w RuntimeService \<times> registry_table) HarnessAdapter) list" where
  "machine_harnesses M =
     builtin_harness_adapters [] (map (\<lambda>(h, name, C). (h, name, service_connector C)) (ma_connectors M)) [] True"

text \<open>\<^verbatim>\<open>BackendRegistry.__init__\<close>: the backends share their adapters; FireConnect is not probed.\<close>

definition machine_fireconnect :: "'w machine \<Rightarrow> 'w RuntimeService FireConnectBackend" where
  "machine_fireconnect M =
     \<lparr>fc_run_temporary = ma_routes M, fc_harnesses = machine_harnesses M, fc_healthy = True,
      fc_manager_id = ''fireconnect'', fc_supported = fireconnect_supported None, fc_health_probe = None,
      fc_skip_live_probe = True, fc_discover = Pair (Returned (True, None))\<rparr>"

text \<open>\<^verbatim>\<open>joymesh._submit_fn = self._submit_remote_execution\<close>. With a submit function the backend makes no
  identifiers of its own, so \<open>jb_fresh\<close> below is never read.\<close>

definition submit_to_service :: "'w wiring \<Rightarrow> ExecutionIntent \<Rightarrow> ExecutionDecision \<Rightarrow> ('w RuntimeService, pydict) backend_call" where
  "submit_to_service R intent decision sg =
     (case submit_remote_execution R intent decision (fst sg) of (r, s) \<Rightarrow> (r, s, snd sg))"

definition machine_joymesh :: "'w machine \<Rightarrow> 'w wiring \<Rightarrow> 'w RuntimeService JoyMeshBackend" where
  "machine_joymesh M R =
     \<lparr>jb_healthy = True, jb_submit_fn = Some (submit_to_service R),
      jb_get = (\<lambda>s. ma_joymesh M (rs_world s)),
      jb_map = (\<lambda>f s. s\<lparr>rs_world := ma_update_joymesh M f (rs_world s)\<rparr>),
      jb_fresh = (\<lambda>s. ([], []))\<rparr>"

definition machine_backends :: "'w machine \<Rightarrow> 'w wiring \<Rightarrow> (string \<times> 'w RuntimeService ExecutionBackend) list" where
  "machine_backends M R =
     builtin_backends (service_host (ma_host M)) (ma_uid M) (machine_harnesses M) (machine_fireconnect M) (machine_joymesh M R)"

text \<open>\<^verbatim>\<open>_cancel_backend\<close> over the cancel methods of the backends, which return nothing.\<close>

definition cancel_backend :: "'w machine \<Rightarrow> string \<Rightarrow> string \<Rightarrow> ('w RuntimeService, pydict) backend_call" where
  "cancel_backend M execution_id backend_id sg =
     (let answer = [(''cancelled'', PyBool True), (''execution_id'', PyStr execution_id)]
      in if backend_id \<in> {''local'', ''fireconnect''} then
           (case cancel_all (service_host (ma_host M)) (machine_harnesses M) execution_id sg of
              (Returned _, sg1) \<Rightarrow> (Returned answer, sg1)
            | (Raised e, sg1) \<Rightarrow> (Raised e, sg1)
            | (Cancelled, sg1) \<Rightarrow> (Cancelled, sg1))
         else if backend_id = ''joymesh'' then
           (Returned answer, (fst sg)\<lparr>rs_world := ma_update_joymesh M (cancel_submission execution_id) (rs_world (fst sg))\<rparr>, snd sg)
         else (Returned answer, sg))"

text \<open>The adapter of the coding worker runs on a process runner of its own.\<close>

definition worker_adapter :: "'w machine \<Rightarrow> string \<Rightarrow> pydict \<Rightarrow> ('w, pydict) service" where
  "worker_adapter M prompt context s =
     (case harness_run (service_host (ma_worker_host M)) (ma_uid M)
             (connector_adapter ''codex'' ''OpenAI Codex CLI'' (service_connector (ma_codex M)) []) prompt context
             (s, rs_registry s) of
        (r, sg) \<Rightarrow> (r, fst sg))"

definition post_init :: "'w machine \<Rightarrow> 'w wiring \<Rightarrow> 'w wiring" where
  "post_init M R =
     R\<lparr>wi_router := (wi_router R)\<lparr>er_registry := (er_registry (wi_router R))\<lparr>br_backends := machine_backends M R\<rparr>\<rparr>,
       wi_cancel := cancel_backend M,
       wi_worker := (wi_worker R)\<lparr>wh_adapter := worker_adapter M\<rparr>\<rparr>"

section \<open>The machine leaves the service alone\<close>

definition calm :: "('w RuntimeService, 'a) backend_call \<Rightarrow> bool" where
  "calm f \<longleftrightarrow> (\<forall>sg. core (fst (snd (f sg))) = core (fst sg))"

lemma calmI: "(\<And>s g r s1 g1. f (s, g) = (r, s1, g1) \<Longrightarrow> core s1 = core s) \<Longrightarrow> calm f"
  by (simp add: calm_def) (metis prod.collapse)

lemma calmD: "calm f \<Longrightarrow> f sg = (r, sg1) \<Longrightarrow> core (fst sg1) = core (fst sg)"
  unfolding calm_def by (metis snd_conv)

lemma core_world [simp]: "core (s\<lparr>rs_world := w\<rparr>) = core s"
  by (simp add: core_def)

lemma calm_on_machine: "calm (on_machine f)"
  by (simp add: calm_def on_machine_def split: prod.split)

lemma calm_keeps: "calm f \<Longrightarrow> call_keeps service_inv f"
  by (simp add: calm_def call_keeps_def service_inv_def)

lemma calm_run_process: "calm (run_process (service_host P) rq)"
  unfolding calm_def run_process_def Let_def
  by (auto simp: service_host_def split: sum.split prod.splits outcome.split
      dest!: calmD [OF calm_on_machine])

lemma calm_runner_cancel: "calm (runner_cancel (service_host P) i)"
  unfolding calm_def runner_cancel_def Let_def
  by (auto simp: service_host_def calm_on_machine [unfolded calm_def, rule_format])

lemma calm_validate: "calm (connector_validate P A (service_connector C) context)"
  unfolding calm_def connector_validate_def Let_def
  by (auto simp: service_connector_def split: sum.split prod.splits outcome.split dest!: calmD [OF calm_on_machine])

lemma calm_prepare: "calm (connector_prepare P A (service_connector C) prompt context)"
  unfolding calm_def connector_prepare_def Let_def
  by (auto split: sum.split prod.splits outcome.split dest!: calmD [OF calm_validate])
     (auto simp: service_connector_def dest!: calmD [OF calm_on_machine])

definition calm_adapter :: "('w RuntimeService \<times> registry_table) HarnessAdapter \<Rightarrow> bool" where
  "calm_adapter A \<longleftrightarrow> ha_execute_fn A = None \<and> (\<forall>C. ha_connector A = Some C \<longrightarrow> (\<exists>D. C = service_connector D))"

lemma calm_harness_run: "calm_adapter A \<Longrightarrow> calm (harness_run (service_host P) uid A prompt context)"
  unfolding calm_def
proof
  fix sg
  assume a: "calm_adapter A"
  show "core (fst (snd (harness_run (service_host P) uid A prompt context sg))) = core (fst sg)"
  proof (cases "ha_connector A")
    case None
    with a show ?thesis by (simp add: harness_run_def plain_execute_def calm_adapter_def split: sum.split)
  next
    case (Some C)
    with a obtain D where "C = service_connector D" by (auto simp: calm_adapter_def)
    with Some show ?thesis
      by (auto simp: harness_run_def connector_execute_def split: prod.splits outcome.splits sum.splits
          dest!: calmD [OF calm_prepare] calmD [OF calm_run_process])
  qed
qed

lemma calm_cancel_all: "calm (cancel_all (service_host P) hs eid)"
  unfolding calm_def
proof
  fix sg
  show "core (fst (snd (cancel_all (service_host P) hs eid sg))) = core (fst sg)"
    by (induction "service_host P" hs eid sg rule: cancel_all.induct)
       (auto simp: harness_cancel_def split: prod.splits outcome.splits option.splits dest!: calmD [OF calm_runner_cancel])
qed

lemma builtin_calm: "calm_adapter (builtin_adapter [] (map (\<lambda>(h, name, C). (h, name, service_connector C)) cs) roots real h)"
proof -
  have "\<exists>D. C = service_connector D" if "map_of (map (\<lambda>(h, name, C). (h, name, service_connector C)) cs) h = Some (name, C)" for name C
    using map_of_SomeD [OF that] by auto
  then show ?thesis
    by (auto simp: builtin_adapter_def calm_adapter_def plain_adapter_def connector_adapter_def split: option.split)
qed

lemma calm_harnesses: "calm_adapter (adapter_for (machine_harnesses M) h)"
proof (cases "map_of (machine_harnesses M) h")
  case None
  then show ?thesis by (simp add: adapter_for_def calm_adapter_def plain_adapter_def)
next
  case (Some A)
  from map_of_SomeD [OF this] have "calm_adapter A"
    by (auto simp: machine_harnesses_def builtin_harness_adapters_def builtin_calm)
  with Some show ?thesis by (simp add: adapter_for_def)
qed

lemma calm_return: "calm (Pair (r :: 'a outcome))" "calm (\<lambda>s. (r, s))"
  by (simp_all add: calm_def)

lemma local_keeps: "backend_keeps service_inv (local_backend (service_host P) uid (machine_harnesses M) hs healthy)"
proof -
  have "calm (local_execute (service_host P) uid (machine_harnesses M) hs healthy it d p)" for it d p
    unfolding calm_def local_execute_def Let_def
    by (auto split: sum.split prod.splits outcome.splits py_error.splits dest!: calmD [OF calm_harness_run [OF calm_harnesses]])
  then show ?thesis
    by (simp add: backend_keeps_def local_backend_def calm_keeps calm_return calm_cancel_all)
qed

lemma hosted_keeps: "backend_keeps service_inv (hosted_backend enabled)"
  by (simp add: backend_keeps_def hosted_backend_def calm_keeps calm_return)

lemma fireconnect_keeps:
  assumes "\<And>m h work model e. calm work \<Longrightarrow> calm (ma_routes M m h work model e)"
  shows "backend_keeps service_inv (fireconnect_backend (service_host P) uid (machine_fireconnect M))"
proof -
  let ?F = "machine_fireconnect M"
  have h: "calm (fireconnect_health ?F)"
    by (simp add: calm_def fireconnect_health_def machine_fireconnect_def)
  have v: "calm (fireconnect_validate ?F it d)" for it d
    unfolding calm_def fireconnect_validate_def by (auto split: prod.splits outcome.splits dest!: calmD [OF h])
  have "calm (fireconnect_execute (service_host P) uid ?F it d p)" for it d p
  proof -
    let ?work = "harness_run (service_host P) uid (adapter_for (fc_harnesses ?F) (ed_selected_harness_id d)) (ei_prompt it)
      (fireconnect_context it d)"
    have w: "calm ?work" by (simp add: machine_fireconnect_def calm_harness_run calm_harnesses)
    have r: "calm (fc_run_temporary ?F m h ?work model e)" for m h model e
      using assms [OF w] by (simp add: machine_fireconnect_def)
    show ?thesis
      unfolding calm_def fireconnect_execute_def Let_def
      by (auto split: prod.splits outcome.splits dest!: calmD [OF v] calmD [OF w] calmD [OF r])
  qed
  with h v show ?thesis
    by (simp add: backend_keeps_def fireconnect_backend_def calm_keeps calm_return calm_cancel_all)
qed

lemma submit_keeps: "call_keeps service_inv (submit_to_service R it d)"
  using submit_remote_inv [of R it d] by (auto simp: call_keeps_def submit_to_service_def hoare_def split: prod.split)

lemma joymesh_keeps: "backend_keeps service_inv (joymesh_backend (machine_joymesh M R))"
proof -
  let ?J = "machine_joymesh M R"
  have j: "jb_submit_fn ?J = Some (submit_to_service R)" "service_inv (jb_map ?J f s) = service_inv s" for f s
    by (simp_all add: machine_joymesh_def service_inv_def)
  have s: "call_keeps service_inv (submit ?J it d)" for it d
  proof -
    have "service_inv (fst (snd (submit ?J it d (w, g))))" if w: "service_inv w" for w g
    proof -
      obtain r w1 g1 where e: "submit_to_service R it d (w, g) = (r, w1, g1)" by (metis surj_pair)
      then have "service_inv w1" using submit_keeps [of R it d] w by (auto simp: call_keeps_def) (metis fst_conv snd_conv)
      then show ?thesis using e by (simp add: submit_def j split: outcome.split)
    qed
    then show ?thesis by (simp add: call_keeps_def)
  qed
  have "call_keeps service_inv (joymesh_execute ?J it d p)" for it d p
  proof -
    have "service_inv (fst (snd (joymesh_execute ?J it d p (w, g))))" if w: "service_inv w" for w g
    proof -
      obtain r w1 g1 where e: "submit ?J it d (w, g) = (r, w1, g1)" by (metis surj_pair)
      then have "service_inv w1" using s [of it d] w by (auto simp: call_keeps_def) (metis fst_conv snd_conv)
      then show ?thesis using e w by (simp add: joymesh_execute_def j split: sum.split outcome.split)
    qed
    then show ?thesis by (simp add: call_keeps_def)
  qed
  with s show ?thesis
    by (simp add: backend_keeps_def joymesh_backend_def calm_keeps calm_return) (simp add: call_keeps_def j)
qed

section \<open>The composed system\<close>

lemma post_init_simps [simp]:
  "wi_env (post_init M R) = wi_env R" "wi_production (post_init M R) = wi_production R"
  "wi_select (post_init M R) = wi_select R" "wi_cancel (post_init M R) = cancel_backend M"
  "wh_adapter (wi_worker (post_init M R)) = worker_adapter M"
  "br_backends (er_registry (wi_router (post_init M R))) = machine_backends M R"
  by (simp_all add: post_init_def)

text \<open>The bridge calls the method of the composed service.\<close>

lemma submit_post_init: "submit_remote_execution (post_init M R) = submit_remote_execution R"
  by (rule ext, rule ext) (simp only: submit_remote_execution_def queue_submission_def lease_submission_def put_updated_def
      utc_now_def uuid4_def audit_task_def post_init_simps)

text \<open>What the deployment relies on: the hash is never empty, a temporary provider route does nothing to
  the service beyond the work it is given, and a decision is about its intent.\<close>

locale deployment =
  fixes M :: "'w machine" and R :: "'w wiring"
  assumes hash: "env_sha256 (wi_env R) x \<noteq> []"
    and routes: "calm work \<Longrightarrow> calm (ma_routes M manager connector work model execution)"
    and decision: "wi_select R intent s = Inr d \<Longrightarrow> ed_execution_id d = ei_execution_id intent"

sublocale deployment \<subseteq> wired "post_init M R"
proof
  fix i b
  assume "registry_get_backend (er_registry (wi_router (post_init M R))) i = Inr b"
  then have "map_of (machine_backends M R) i = Some b" by (auto simp: registry_get_backend_def split: option.splits)
  then show "backend_keeps service_inv b"
    using local_keeps fireconnect_keeps [OF routes] joymesh_keeps hosted_keeps
    by (auto simp: machine_backends_def builtin_backends_def split: if_splits)
next
  fix e i
  show "call_keeps service_inv (wi_cancel (post_init M R) e i)"
    by (rule calm_keeps) (auto simp: calm_def cancel_backend_def Let_def split: prod.splits outcome.splits dest!: calmD [OF calm_cancel_all])
next
  fix prompt cx
  have "calm_adapter (connector_adapter ''codex'' ''OpenAI Codex CLI'' (service_connector (ma_codex M)) [])"
    by (auto simp: calm_adapter_def connector_adapter_def)
  then show "keeps service_inv (wh_adapter (wi_worker (post_init M R)) prompt cx)"
    by (auto simp: keeps_def worker_adapter_def service_inv_def split: prod.splits dest!: calmD [OF calm_harness_run])
qed (simp_all add: hash decision)

context deployment
begin

lemma reachable_inv: "(service_step (post_init M R))\<^sup>*\<^sup>* (init_RuntimeService database policy w) s \<Longrightarrow> service_inv s"
  by (rule steps_inv [OF _ service_inv_init])

end

lemma completed_record:
  assumes "service_inv s" and "st_tasks (rs_store s) k = Some t" and "rt_status t = SUCCEEDED"
  shows "\<exists>r. store_get (oc_store (rs_completion s)) (execution_of t) = Some r \<and> cr_state r = CS_COMPLETED
    \<and> vouched r \<and> cr_usage_finalised r \<and> cr_terminal_emitted r"
  using assms by (auto simp: service_inv_def core_inv_def core_def completed_in_def orch_inv_def record_in_def record_inv_def) metis

text \<open>C1: A task that has succeeded was verified. In every state the deployed service reaches from its start - the
  service with its built-in backends, whatever the processes, nodes and clients do and whatever the
  database answers -, a task with status \<open>SUCCEEDED\<close> has a completion record in state \<open>COMPLETED\<close>: a
  verification of accepted evidence that belongs to this execution vouches for it, its usage is final
  and its terminal event has been emitted.\<close>

theorem succeeded_tasks_are_verified:
  assumes "deployment M R" and "(service_step (post_init M R))\<^sup>*\<^sup>* (init_RuntimeService database policy w) s"
    and "st_tasks (rs_store s) k = Some t" and "rt_status t = SUCCEEDED"
  shows "\<exists>r. store_get (oc_store (rs_completion s)) (execution_of t) = Some r \<and> cr_state r = CS_COMPLETED
    \<and> vouched r \<and> cr_usage_finalised r \<and> cr_terminal_emitted r"
proof -
  have "service_inv s" using deployment.reachable_inv [OF assms(1,2)] .
  from completed_record [OF this assms(3,4)] show ?thesis .
qed

section \<open>A run of the deployed service\<close>

text \<open>A machine whose temporary provider routes succeed.\<close>

definition routed_success :: "pydict ProviderRouteLifecycleResult" where
  "routed_success = \<lparr>lr_ok = True, lr_lease = None, lr_original_state = [], lr_restored = True, lr_restoration_verified = True,
     lr_execution_result = Some [(''ok'', PyBool True)], lr_reason_code = None, lr_message = ''done'', lr_audits = []\<rparr>"

definition sample_process :: "('j \<times> SafeProcessRunner) process_host" where
  "sample_process =
     \<lparr>ph_host = sample_host, ph_get = snd, ph_map = (\<lambda>f (j, r). (j, f r)), ph_spawn = (\<lambda>_ _ _. Pair (Returned ())),
      ph_communicate = (\<lambda>_ _. Pair (Returned \<lparr>ce_timed_out = False, ce_lingering = False, ce_returncode = Some 0,
                                               ce_stdout = ''done'', ce_stderr = []\<rparr>)),
      ph_terminate = (\<lambda>_. Pair (Returned []))\<rparr>"

definition sample_codex :: "'s harness_connector" where
  "sample_codex =
     \<lparr>hc_discover = Pair (Returned \<lparr>dc_installed = True, dc_usable = True, dc_version = None,
         dc_executable_path = Some ''/bin/codex'', dc_fingerprint = None, dc_reason_code = None\<rparr>),
      hc_build_exec_argv = (\<lambda>e p w r. Inr [e, ''exec'', p]), hc_execution_environment = (\<lambda>_. []), hc_parse_events = None\<rparr>"

definition sample_machine :: "(JoyMeshState \<times> SafeProcessRunner) machine" where
  "sample_machine =
     \<lparr>ma_host = sample_process, ma_worker_host = sample_process, ma_connectors = [], ma_codex = sample_codex, ma_joymesh = fst,
      ma_update_joymesh = (\<lambda>f (j, r). (f j, r)), ma_routes = (\<lambda>_ _ _ _ _. Pair (Returned routed_success)), ma_uid = ''x''\<rparr>"

definition routed_decision :: "ExecutionIntent \<Rightarrow> ExecutionDecision" where
  "routed_decision intent = (example_decision intent)\<lparr>ed_selected_backend_id := ''fireconnect'', ed_provider_routing_required := True\<rparr>"

definition sample_wiring :: "(JoyMeshState \<times> SafeProcessRunner) wiring" where
  "sample_wiring = example_wiring\<lparr>wi_env := example_environment\<lparr>env_fresh := \<lambda>n. CHR ''t'' # replicate n CHR ''u''\<rparr>,
     wi_select := \<lambda>intent s. Inr (routed_decision intent)\<rparr>"

interpretation sample: deployment sample_machine sample_wiring
  by unfold_locales (simp_all add: sample_machine_def sample_wiring_def example_wiring_def example_environment_def calm_return
      routed_decision_def example_decision_def)

definition sample_start :: "(JoyMeshState \<times> SafeProcessRunner) RuntimeService" where
  "sample_start = example_service (init_JoyMeshState, init_SafeProcessRunner)"

lemma machine_cancels: "cancel_all P (machine_harnesses sample_machine) eid s = (Returned (), s)"
  by (simp add: machine_harnesses_def builtin_harness_adapters_def sample_machine_def builtin_adapter_def plain_adapter_def harness_cancel_def KNOWN_HARNESSES_def)

text \<open>A backend that answers without touching its surroundings.\<close>

lemma pure_backend_succeeds:
  assumes prep: "\<And>q. be_prepare b it d q = (Returned p, q)" and val: "\<And>q. be_validate b it d q = (Returned (), q)"
    and ex: "\<And>q. be_execute b it d p q = (Returned r0, q)" and ok: "xr_ok r0" and cl: "\<And>q. be_cleanup b (ei_execution_id it) q = (Returned (), q)"
  shows "\<exists>r s1. guarded_backend V it d b i a s = (Return_Result r, s1) \<and> rn_world s1 = rn_world s \<and> xr_ok r \<and> xr_execution_id r = ei_execution_id it
    \<and> xr_output r = xr_output r0 \<and> xr_usage r = xr_usage r0 \<and> xr_failure_class r = None \<and> xr_restore_status r = None
    \<and> (\<exists>as a'. xr_attempts r = as @ [attempt_as_dict a'])"
proof -
  let ?n = "\<lambda>ty. audit V it ty i (Some (ed_selected_harness_id d)) None []"
  define s1 where "s1 = ?n ''execution.started'' (?n ''backend.ready'' (?n ''backend.preparing'' s))"
  define s2 where "s2 = complete_attempt V a ''succeeded'' (xr_failure_class r0) None (xr_usage r0) (xr_evidence_refs r0) s1"
  define s3 where "s3 = audit V it ''backend.completed'' i (Some (ed_selected_harness_id d)) (Some (xr_message r0)) [] s2"
  define s4 where "s4 = s3\<lparr>rn_registry := clear_execution (ei_execution_id it) (rn_registry s3)\<rparr>"
  have aw: "await_call f q = (r, q)" if "\<And>x. f x = (r, x)" for f :: "('a, 'b) backend_call" and r and q
    using that by (simp add: await_call_def)
  have t: "try_backend V it d b i a s = (Returned (Return_Result (success_result it d i r0 s4)), s4)"
    unfolding try_backend_def Let_def aw [OF prep] prod.case outcome.case aw [OF val] 
    using ok by (simp add: await_call_def ex s4_def s3_def s2_def s1_def)
  have "guarded_backend V it d b i a s = (Return_Result (success_result it d i r0 s4), s4)"
    by (simp add: guarded_backend_def t await_call_def cl)
  moreover have "rn_world s4 = rn_world s" "\<exists>as a'. rn_attempts s4 = as @ [a']"
    by (simp_all add: s4_def s3_def s2_def s1_def run_simps)
  ultimately show ?thesis
    by (auto simp: success_result_def result_fields_def execution_result_def)
qed

lemma sample_turn:
  fixes q :: "(JoyMeshState \<times> SafeProcessRunner) RuntimeService run_state"
  assumes "\<not> is_cancelled (rn_registry q) (ei_execution_id it)" and "set (ei_required_capabilities it) \<subseteq> set FIRECONNECT_CAPABILITIES"
    and "ei_subscription_constraints it = []"
  shows "\<exists>r q1. backend_turn V (wi_router (post_init sample_machine sample_wiring)) it (routed_decision it) ''fireconnect'' q = (Return_Result r, q1)
    \<and> rn_world q1 = rn_world q \<and> xr_ok r \<and> xr_execution_id r = ei_execution_id it \<and> restore_ok r \<and> xr_usage r = []
    \<and> (\<forall>t. \<exists>a. result_attempt t r = Inr a)"
proof -
  let ?rt = "wi_router (post_init sample_machine sample_wiring)" and ?d = "routed_decision it"
  define b where "b = fireconnect_backend (service_host sample_process) ''x'' (machine_fireconnect sample_machine)"
  have d: "ed_selected_harness_id ?d = ''codex''" "ed_provider_routing_required ?d" by (simp_all add: routed_decision_def example_decision_def)
  have h: "fireconnect_supports (machine_fireconnect sample_machine) it ''codex''"
    using assms(2) by (auto simp: fireconnect_supports_def machine_fireconnect_def fireconnect_supported_def missing_capabilities_def)
  have e: "enforce_entitlements ?rt it (Some ''fireconnect'') = Inr None"
    using assms(3) by (simp add: enforce_entitlements_def disallowed_def post_init_def sample_wiring_def example_wiring_def dget_def
        py_or_def text_in_def split: option.split)
  have g: "registry_get_backend (er_registry ?rt) ''fireconnect'' = Inr b"
    by (simp add: registry_get_backend_def machine_backends_def builtin_backends_def sample_machine_def b_def)
  have v: "fireconnect_validate (machine_fireconnect sample_machine) it ?d x = (Returned (), x)"
      "fireconnect_health (machine_fireconnect sample_machine) x = (Returned (fireconnect_state True ''fireconnect health assumed (no live probe)'' ''unknown''), x)" for x
    using h by (simp_all add: fireconnect_validate_def d fireconnect_health_def machine_fireconnect_def fireconnect_state_def)
  have x: "be_execute b it ?d p x = (Returned (routed_answer it ?d routed_success), x)" for p x
    by (simp add: b_def fireconnect_backend_def fireconnect_execute_def v d) (simp add: machine_fireconnect_def sample_machine_def)
  have r0: "xr_ok (routed_answer it ?d routed_success)" "xr_output (routed_answer it ?d routed_success) = [(''ok'', PyBool True)]"
      "xr_usage (routed_answer it ?d routed_success) = []"
    by (simp_all add: routed_answer_def routed_success_def answered_ok_def backend_result_def execution_result_def dget_def dget_default_def)
  obtain a q1 where t: "backend_turn V ?rt it ?d ''fireconnect'' q = guarded_backend V it ?d b ''fireconnect'' a q1" "rn_world q1 = rn_world q"
    using assms(1) h e g d
    by (simp add: backend_turn_def Let_def b_def fireconnect_backend_def v fireconnect_state_def unhealthy_def await_call_def)
  obtain p where "\<And>x. be_prepare b it ?d x = (Returned p, x)" by (simp add: b_def fireconnect_backend_def)
  moreover have "be_validate b it ?d x = (Returned (), x)" "be_cleanup b e x = (Returned (), x)" for x e
    by (simp_all add: b_def fireconnect_backend_def v) (simp add: machine_fireconnect_def machine_cancels)
  ultimately obtain r q2 as a' where "guarded_backend V it ?d b ''fireconnect'' a q1 = (Return_Result r, q2)" "rn_world q2 = rn_world q1" "xr_ok r"
      "xr_execution_id r = ei_execution_id it" "xr_output r = [(''ok'', PyBool True)]" "xr_usage r = []" "xr_failure_class r = None"
      "xr_restore_status r = None" "xr_attempts r = as @ [attempt_as_dict a']"
    using pure_backend_succeeds [of b it ?d p "routed_answer it ?d routed_success" V "''fireconnect''" a q1] x r0 by auto
  then show ?thesis
    unfolding t using t(2) by (simp add: restore_ok_def has_key_def result_attempt_def attempt_as_dict_def)
qed

lemma sample_run:
  fixes s :: "(JoyMeshState \<times> SafeProcessRunner) RuntimeService"
  assumes "rs_registry s = init_CancellationRegistry" and "set (ei_required_capabilities it) \<subseteq> set FIRECONNECT_CAPABILITIES"
    and "ei_subscription_constraints it = []"
  shows "\<exists>r s1. run_backends (post_init sample_machine sample_wiring) it (routed_decision it) s = (Returned r, s1)
    \<and> rs_store s1 = rs_store s \<and> rs_completion s1 = rs_completion s
    \<and> xr_ok r \<and> xr_execution_id r = ei_execution_id it \<and> restore_ok r \<and> xr_usage r = [] \<and> (\<forall>t. \<exists>a. result_attempt t r = Inr a)"
proof -
  let ?R = "post_init sample_machine sample_wiring" and ?V = "wi_run_env (post_init sample_machine sample_wiring)"
  let ?s0 = "audit ?V it ''backend.selected'' ''fireconnect'' (Some ''codex'') (Some ''only choice'') []
      \<lparr>rn_world = s, rn_registry = init_CancellationRegistry, rn_ticks = rs_run_ticks s, rn_audits = [], rn_attempts = [],
       rn_attempted = [], rn_last_error = ''no backend attempted'', rn_last_failure = UNKNOWN_FAILURE\<rparr>"
  let ?g = "register_execution (re_fresh ?V (rn_ticks ?s0)) (re_clock ?V (rn_ticks ?s0)) (ei_execution_id it)
      ''fireconnect'' (Some ''codex'') None None init_CancellationRegistry"
  let ?q = "\<lambda>g. ?s0\<lparr>rn_registry := g, rn_ticks := rn_ticks ?s0 + 1\<rparr>"
  have d: "ed_selected_backend_id (routed_decision it) = ''fireconnect''" "ed_selected_harness_id (routed_decision it) = ''codex''"
      "ed_reason (routed_decision it) = ''only choice''" "ed_fallback_order (routed_decision it) = []"
    by (simp_all add: routed_decision_def example_decision_def)
  have g: "\<not> is_cancelled ?g (ei_execution_id it)" by (simp add: is_cancelled_def active_row_def register_execution_def)
  have w: "rn_world (?q x) = s" for x by (simp add: run_simps)
  obtain r q1 where r: "backend_turn ?V (wi_router ?R) it (routed_decision it) ''fireconnect'' (?q ?g) = (Return_Result r, q1)"
      "rn_world q1 = s" "xr_ok r" "xr_execution_id r = ei_execution_id it" "restore_ok r" "xr_usage r = []" "\<forall>t. \<exists>a. result_attempt t r = Inr a"
    using sample_turn [of "?q ?g" it ?V] g assms(2,3) w by auto
  from r(1) have "execute_with_fallback ?V (wi_router ?R) it (routed_decision it) (s, rs_registry s) (rs_run_ticks s) = (Returned r, q1)"
    by (simp add: execute_with_fallback_def Let_def d assms(1) run_simps)
  with r show ?thesis by (simp add: run_backends_def)
qed

text \<open>The request of the sample run is allowed and its capabilities ask nothing of a backend.\<close>

definition sample_request :: RuntimeTaskRequest where
  "sample_request = request_from_body example_body ''u'' ''t'' 0"

lemma sample_allowed:
  "\<exists>d. evaluate (init_PolicyEngine None None (Some False) None) sample_request None = Inr d \<and> pd_allowed d \<and> pd_approval_requirements d = []"
proof -
  have "case evaluate (init_PolicyEngine None None (Some False) None) sample_request None of Inl _ \<Rightarrow> False
    | Inr d \<Rightarrow> pd_allowed d \<and> pd_approval_requirements d = []" by code_simp
  then show ?thesis by (auto split: sum.splits)
qed

lemma sample_expanded:
  "\<exists>cs. expand_capabilities (CapabilityRegistry None) (rq_requested_capabilities sample_request) (rq_prohibited_capabilities sample_request) = Inr cs
    \<and> cs \<noteq> [] \<and> List.map_filter map_runtime_capability (sort cs) = []"
proof -
  have "case expand_capabilities (CapabilityRegistry None) (rq_requested_capabilities sample_request) (rq_prohibited_capabilities sample_request) of
      Inl _ \<Rightarrow> False | Inr cs \<Rightarrow> cs \<noteq> [] \<and> List.map_filter map_runtime_capability (sort cs) = []" by code_simp
  then show ?thesis by (auto split: sum.splits)
qed

lemma sample_succeeds:
  "\<exists>t s. create_task (post_init sample_machine sample_wiring) example_body ''u'' False sample_start = (Returned t, s)
    \<and> rt_status t = SUCCEEDED \<and> st_tasks (rs_store s) ''t'' = Some t"
proof -
  let ?R = "post_init sample_machine sample_wiring"
  have rq: "sample_request = request_from_body example_body ''u'' (env_fresh (wi_env ?R) (rs_ticks sample_start)) (env_clock (wi_env ?R) (rs_ticks sample_start))"
    by (simp add: sample_request_def sample_wiring_def sample_start_def example_service_def init_RuntimeService_def example_environment_def)
  have k: "rq_task_id sample_request = ''t''" by (simp add: sample_request_def request_from_body_def)
  have s0: "st_database (rs_store sample_start) = None" "rs_policy sample_start = init_PolicyEngine None None (Some False) None"
      "rs_registry sample_start = init_CancellationRegistry" "rs_completion sample_start = init_Orchestrator" "rs_nodes sample_start = []"
    by (simp_all add: sample_start_def example_service_def init_RuntimeService_def init_RuntimeStore_def)
  obtain d where d: "evaluate (rs_policy sample_start) sample_request None = Inr d" "pd_allowed d" "pd_approval_requirements d = []"
    unfolding s0(2) using sample_allowed by blast
  obtain cs where x: "expand_capabilities (CapabilityRegistry None) (rq_requested_capabilities sample_request) (rq_prohibited_capabilities sample_request) = Inr cs"
      "cs \<noteq> []" "List.map_filter map_runtime_capability (sort cs) = []"
    using sample_expanded by blast
  obtain t s1 where c: "create_task ?R example_body ''u'' False sample_start = route_task ?R ''t'' s1" "st_tasks (rs_store s1) ''t'' = Some t"
      "\<exists>c u. t = new_task (env_sha256 (wi_env ?R)) example_body sample_request (sort cs) ROUTING False None c u"
      "background s1 = background (sample_start\<lparr>rs_task_prompts := (rs_task_prompts sample_start)(''t'' \<mapsto> cb_prompt example_body)\<rparr>)"
    using create_task_runs [OF rq s0(1) d x(1)] unfolding k by blast
  have t: "rt_task_id t = ''t''" "rt_required_node t = None" "rt_required_provider t = None" "rt_expanded_capabilities t = sort cs"
    using c(3) by (auto simp: new_task_def sample_request_def request_from_body_def example_body_def)
  have s1: "st_database (rs_store s1) = None" "rs_registry s1 = init_CancellationRegistry" "rs_completion s1 = init_Orchestrator" "rs_nodes s1 = []"
    using c(4) s0 by (simp_all add: background_def)
  define spec where "spec = (\<lambda>path. mission_spec_from_task t (case rs_task_prompts s1 ''t'' of None \<Rightarrow> [] | Some p \<Rightarrow> p) path (Some (rt_workspace_id t)) ''local'' False)"
  have caps: "set (plan_capabilities (spec path) example_analysis) \<subseteq> set FIRECONNECT_CAPABILITIES" for path
    using t x by (simp add: set_plan_capabilities spec_def mission_task_fields example_analysis_def FIRECONNECT_CAPABILITIES_def foreign_provider_def)
      (simp add: mission_spec_from_task_def mission_spec_def)
  obtain intent where p: "\<And>u path. plan (wi_analyse ?R) (wi_normalise ?R) u (spec path) = Inr (intent u path)"
      "\<And>u path. ei_required_capabilities (intent u path) = plan_capabilities (spec path) example_analysis"
      "\<And>u path. ei_subscription_constraints (intent u path) = []"
    by (simp add: plan_def Let_def post_init_def sample_wiring_def example_wiring_def spec_def) (simp add: mission_spec_from_task_def mission_spec_def)
  have sel: "wi_select ?R (intent u path) s = Inr (routed_decision (intent u path))" for u path s
    by (simp add: sample_wiring_def)
  have "\<not> (rs_nodes s1 \<noteq> [] \<or> opt_truthy (rt_required_node t))" using s1(4) t(2) by (simp add: opt_truthy_def)
  then have plan: "plan (wi_analyse ?R) (wi_normalise ?R) u (mission_spec_from_task t (case rs_task_prompts s1 ''t'' of None \<Rightarrow> [] | Some p \<Rightarrow> p) path
      (Some (rt_workspace_id t)) (if rs_nodes s1 \<noteq> [] \<or> opt_truthy (rt_required_node t) then ''remote'' else ''local'')
      (rs_nodes s1 \<noteq> [] \<or> opt_truthy (rt_required_node t))) = Inr (intent u path)" for u path
    using p(1) [of u path] unfolding spec_def by (simp only: if_False)
  obtain u path t1 s2 where r: "route_task ?R ''t'' s1 = perform_task ?R ''t'' (case rs_task_prompts s1 ''t'' of None \<Rightarrow> [] | Some p \<Rightarrow> p) path
      (intent u path) (routed_decision (intent u path)) t1 s2" "rt_task_id t1 = ''t''" "background s2 = background s1"
    using route_task_runs [OF s1(1) c(2) t(1) plan sel] by blast
  let ?it = "intent u path"
  have s2: "st_database (rs_store s2) = None" "rs_registry s2 = init_CancellationRegistry" "rs_completion s2 = init_Orchestrator"
    using r(3) s1 by (simp_all add: background_def)
  obtain res s3 where run: "run_backends ?R ?it (routed_decision ?it) s2 = (Returned res, s3)" "rs_store s3 = rs_store s2"
      "rs_completion s3 = init_Orchestrator" "xr_ok res" "restore_ok res" "xr_usage res = []" "\<forall>t. \<exists>a. result_attempt t res = Inr a"
    using sample_run [OF s2(2)] caps p(2,3) s2(3) by metis
  have db: "st_database (rs_store s3) = None" using run(2) s2(1) by simp
  let ?s4 = "snd (note_events ?R ''backend.event'' ''t'' True (xr_audits res) s3)"
  have s4: "rs_completion ?s4 = init_Orchestrator" "st_database (rs_store ?s4) = None"
    using quiet_unit_after(2,4) [OF quiet_note_events db] run(3) by simp_all
  have "ed_selected_backend_id (routed_decision ?it) = ''fireconnect''" by (simp add: routed_decision_def)
  then have "perform_task ?R ''t'' prompt path ?it (routed_decision ?it) t1 s2 = complete_task ?R ''t'' t1 (routed_decision ?it) res ?s4" for prompt
    by (intro perform_task_runs [OF _ _ run(1) db]) simp_all
  moreover have "usage_accepted res cx (oc_usage (rs_completion ?s4))" for cx
    using usage_accepted_init [OF run(6)] by (simp add: s4 init_Orchestrator_def)
  moreover have "already_terminal (rs_completion ?s4) e = None" for e
    by (simp add: s4 init_Orchestrator_def already_terminal_def store_get_def)
  moreover obtain a where "result_attempt t1 res = Inr a" using run(7) by blast
  ultimately show ?thesis
    using complete_task_succeeds [of ?s4 res t1 a ?R "''t''" "routed_decision ?it"] run(4,5) s4 init_orch_inv r(1,2) c(1) by auto
qed

theorem succeeded_tasks_are_verified_witness:
  "\<exists>t s r. create_task (post_init sample_machine sample_wiring) example_body ''u'' False sample_start = (Returned t, s)
    \<and> rt_status t = SUCCEEDED \<and> store_get (oc_store (rs_completion s)) (execution_of t) = Some r \<and> vouched r"
proof -
  obtain t s where t: "create_task (post_init sample_machine sample_wiring) example_body ''u'' False sample_start = (Returned t, s)"
      "rt_status t = SUCCEEDED" "st_tasks (rs_store s) ''t'' = Some t"
    using sample_succeeds by blast
  have "service_step (post_init sample_machine sample_wiring) sample_start s"
    using s_create [of "post_init sample_machine sample_wiring" sample_start example_body "''u''" False] t(1) by simp
  then have "(service_step (post_init sample_machine sample_wiring))\<^sup>*\<^sup>* (init_RuntimeService None (init_PolicyEngine None None (Some False) None)
      (init_JoyMeshState, init_SafeProcessRunner)) s"
    by (simp add: sample_start_def example_service_def)
  from succeeded_tasks_are_verified [OF sample.deployment_axioms this t(3,2)] t show ?thesis by blast
qed

end
