(* ===== verification/Socket_Delivery.thy ===== *)
theory Socket_Delivery
  imports Delivery_Worker
begin

text \<open>
  Delivery over a Unix domain socket (\<^verbatim>\<open>transports/unix_socket.py\<close>, \<^verbatim>\<open>transports/protocol.py\<close> and
  \<^verbatim>\<open>envelope_from_dict\<close> of \<^verbatim>\<open>intake.py\<close> under \<^verbatim>\<open>src/src/joymesh/delivery/\<close>): the server that hands what it
  reads to the intake, the client that the worker uses as its transport, and the connection between
  them. Messages are the dictionaries of the JSON lines. Every exchange has a fate that the surroundings
  choose: the answer comes in time, too late or never, the connection ends or breaks, or the waiting
  task is cancelled. The answers that arrived and were not yet read are part of the state, since the
  protocol does not say which request an answer belongs to. There is one client, closing a connection
  is not interrupted, and the socket file and the listening socket are not modelled.
\<close>

section \<open>Messages\<close>

fun ack_status_value :: "DeliveryAckStatus \<Rightarrow> string" where
  "ack_status_value PENDING = ''pending''"
| "ack_status_value SENT = ''sent''"
| "ack_status_value ACKED = ''acked''"
| "ack_status_value FAILED = ''failed''"
| "ack_status_value DROPPED = ''dropped''"

definition parse_ack_status :: "pyval \<Rightarrow> DeliveryAckStatus result" where
  "parse_ack_status v =
     (case find (\<lambda>k. v = PyStr (ack_status_value k)) [PENDING, SENT, ACKED, FAILED, DROPPED] of
        Some k \<Rightarrow> Inr k
      | None \<Rightarrow> Inl (ValueError (py_repr v @ '' is not a valid DeliveryAckStatus'')))"

text \<open>A time is its ISO text, which is never empty; another text is not a time.\<close>

fun observed_field :: "time \<Rightarrow> pyval \<Rightarrow> time result" where
  "observed_field now (PyInt t) = Inr t"
| "observed_field now v =
     (if truthy v then Inl (ValueError (''Invalid isoformat string: '' @ str_repr (py_str v))) else Inr now)"

text \<open>The fields that the dataclasses declare as text or None and as a mapping are passed on as they are;
  a value of another type, which \<^verbatim>\<open>as_dict\<close> never writes, is reported as a type error here.\<close>

definition publisher_from_dict :: "pydict \<Rightarrow> PublisherIdentity result" where
  "publisher_from_dict publisher =
     bind_result (opt_str_field (dget publisher ''public_key'')) (\<lambda>key.
     Inr \<lparr>pub_publisher_id = py_str (dget_default publisher ''publisher_id'' (PyStr [])),
          pub_public_key = key,
          pub_instance_id = py_str (dget_default publisher ''instance_id'' (PyStr ''unknown'')),
          pub_organisation_id = py_str (dget_default publisher ''organisation_id'' (PyStr ''local''))\<rparr>)"

definition envelope_from_dict :: "time \<Rightarrow> pydict \<Rightarrow> DeliveryEnvelope result" where
  "envelope_from_dict now data =
     bind_result (subscript data ''envelope_id'') (\<lambda>envelope_id.
     bind_result (bind_result (subscript data ''kind'') parse_kind) (\<lambda>kind.
     bind_result (bind_result (subscript data ''sequence'') py_int) (\<lambda>sequence.
     bind_result (observed_field now (dget data ''observed_at'')) (\<lambda>observed_at.
     bind_result (bind_result (mapping_field (dget data ''publisher'')) publisher_from_dict) (\<lambda>publisher.
     bind_result (case py_or (dget data ''payload'') (PyDict []) of PyDict d \<Rightarrow> Inr d
                  | _ \<Rightarrow> Inl (TypeError ''payload'')) (\<lambda>payload.
     bind_result (py_int (dget_default data ''schema_version'' (PyInt 1))) (\<lambda>schema_version.
     bind_result (py_int (dget_default data ''transport_version'' (PyInt TRANSPORT_VERSION))) (\<lambda>transport_version.
     bind_result (opt_str_field (dget data ''signature'')) (\<lambda>signature.
     bind_result (opt_str_field (dget data ''key_id'')) (\<lambda>key_id.
     bind_result (opt_str_field (dget data ''signature_algorithm'')) (\<lambda>algorithm.
     Inr \<lparr>env_envelope_id = py_str envelope_id, env_kind = kind, env_sequence = sequence,
          env_observed_at = observed_at, env_publisher = publisher, env_payload = payload,
          env_payload_hash = py_str (dget_default data ''payload_hash'' (PyStr [])),
          env_schema_version = schema_version, env_transport_version = transport_version,
          env_signature = signature, env_key_id = key_id, env_signature_algorithm = algorithm,
          env_idempotency_key = py_str (py_or (dget data ''idempotency_key'') envelope_id)\<rparr>)))))))))))"

text \<open>\<^verbatim>\<open>TransportVersionError\<close> is a \<^verbatim>\<open>RuntimeError\<close>.\<close>

definition assert_compatible_version :: "int \<Rightarrow> unit result" where
  "assert_compatible_version remote =
     (if remote \<noteq> TRANSPORT_VERSION then
        Inl (RuntimeError (''transport version mismatch: local='' @ int_str TRANSPORT_VERSION
          @ '' remote='' @ int_str remote))
      else Inr ())"

section \<open>The server\<close>

text \<open>The handler of \<^verbatim>\<open>publish\<close> in \<^verbatim>\<open>_dispatch\<close>: what becomes of an exception. One that is not caught ends
  the connection.\<close>

fun refused_answer :: "pydict \<Rightarrow> py_error \<Rightarrow> pydict result" where
  "refused_answer data (IntakeRejected code detail) =
     Inr [(''type'', PyStr ''ack''), (''envelope_id'', dget data ''envelope_id''),
          (''status'', PyStr (ack_status_value DROPPED)), (''code'', PyStr code), (''detail'', PyStr detail)]"
| "refused_answer data (KeyError k) =
     Inr [(''type'', PyStr ''error''), (''code'', PyStr ''invalid_envelope''), (''detail'', PyStr (error_text (KeyError k)))]"
| "refused_answer data (TypeError m) =
     Inr [(''type'', PyStr ''error''), (''code'', PyStr ''invalid_envelope''), (''detail'', PyStr m)]"
| "refused_answer data (ValueError m) =
     Inr [(''type'', PyStr ''error''), (''code'', PyStr ''invalid_envelope''), (''detail'', PyStr m)]"
| "refused_answer data e = Inl e"

definition dispatch_publish ::
  "(string \<Rightarrow> string) \<Rightarrow> time \<times> time \<Rightarrow> pydict \<Rightarrow> RuntimeStateIntakeService
   \<Rightarrow> pydict result \<times> RuntimeStateIntakeService" where
  "dispatch_publish sha256 now data svc =
     (case envelope_from_dict (fst now) data of
        Inl e \<Rightarrow> (refused_answer data e, svc)
      | Inr envelope \<Rightarrow>
          (case accept sha256 (snd now) envelope svc of
             (Inl e, svc1) \<Rightarrow> (refused_answer data e, svc1)
           | (Inr status, svc1) \<Rightarrow>
               (Inr [(''type'', PyStr ''ack''), (''envelope_id'', PyStr (env_envelope_id envelope)),
                     (''status'', PyStr (ack_status_value status))], svc1)))"

definition dispatch ::
  "(string \<Rightarrow> string) \<Rightarrow> time \<times> time \<Rightarrow> pydict \<Rightarrow> RuntimeStateIntakeService
   \<Rightarrow> pydict result \<times> RuntimeStateIntakeService" where
  "dispatch sha256 now message svc =
     (if dget message ''type'' = PyStr ''hello'' then
        (bind_result (py_int (dget_default message ''transport_version'' (PyInt 0))) (\<lambda>remote.
           case assert_compatible_version remote of
             Inl e \<Rightarrow> Inr [(''type'', PyStr ''error''), (''code'', PyStr ''transport_version_mismatch''),
                          (''detail'', PyStr (error_text e))]
           | Inr _ \<Rightarrow> Inr [(''type'', PyStr ''hello_ok''), (''transport_version'', PyInt TRANSPORT_VERSION)]), svc)
      else if dget message ''type'' = PyStr ''heartbeat'' then
        (Inr [(''type'', PyStr ''heartbeat_ok''), (''transport_version'', PyInt TRANSPORT_VERSION)], svc)
      else if dget message ''type'' = PyStr ''publish'' then
        (case mapping_field (dget message ''envelope'') of
           Inl e \<Rightarrow> (Inl e, svc)
         | Inr data \<Rightarrow> dispatch_publish sha256 now data svc)
      else
        (Inr [(''type'', PyStr ''error''), (''detail'', PyStr (''unknown message type: '' @ py_str (dget message ''type'')))], svc))"

section \<open>The connection\<close>

text \<open>What becomes of an exchange: the server answers before the time-out, or after it; it never reads the
  request; it closes its end; writing fails; or the client's task is cancelled while it waits, the
  request being served or not. And what becomes of opening a connection.\<close>

datatype exchange_fate = Prompt | Slow | Lost | Shut | Broken string | Interrupted bool

datatype open_fate = Opened | Refused string | OpenTimeout | OpenCancelled

record delivery_link =
  dl_open :: "nat \<Rightarrow> open_fate"
  dl_fate :: "nat \<Rightarrow> exchange_fate"
  dl_clock :: "nat \<Rightarrow> time"
  dl_served :: "nat \<Rightarrow> time \<times> time"
  dl_sha256 :: "string \<Rightarrow> string"

text \<open>The client (\<open>us_connected\<close>: \<^verbatim>\<open>_writer\<close> is not None), the answers it has not read, whether the server's
  end is open, and the intake.\<close>

record UnixSocketDeliveryTransport =
  us_connected :: bool
  us_version :: int
  us_last_error :: "string option"
  us_unread :: "pydict list"
  us_open :: bool
  us_intake :: RuntimeStateIntakeService
  us_ticks :: nat

definition init_UnixSocketDeliveryTransport :: "RuntimeStateIntakeService \<Rightarrow> UnixSocketDeliveryTransport" where
  "init_UnixSocketDeliveryTransport svc =
     \<lparr>us_connected = False, us_version = TRANSPORT_VERSION, us_last_error = None, us_unread = [],
      us_open = False, us_intake = svc, us_ticks = 0\<rparr>"

text \<open>One round of the loop of \<^verbatim>\<open>_handle\<close>. An answer to a connection that the client has closed is lost.\<close>

definition serve :: "delivery_link \<Rightarrow> nat \<Rightarrow> pydict \<Rightarrow> UnixSocketDeliveryTransport \<Rightarrow> UnixSocketDeliveryTransport" where
  "serve L n message t =
     (if \<not> us_open t then t
      else case dispatch (dl_sha256 L) (dl_served L n) message (us_intake t) of
             (Inr response, svc) \<Rightarrow>
               t\<lparr>us_intake := svc, us_unread := (if us_connected t then us_unread t @ [response] else us_unread t)\<rparr>
           | (Inl e, svc) \<Rightarrow> t\<lparr>us_intake := svc, us_open := False\<rparr>)"

section \<open>The client\<close>

definition socket_close :: "UnixSocketDeliveryTransport \<Rightarrow> UnixSocketDeliveryTransport" where
  "socket_close t = t\<lparr>us_connected := False, us_unread := []\<rparr>"

text \<open>\<^verbatim>\<open>readline\<close> under a time-out, with what follows when it does not return a line.\<close>

definition receive :: "(UnixSocketDeliveryTransport, pydict) action" where
  "receive t =
     (case us_unread t of
        response # rest \<Rightarrow> (Returned response, t\<lparr>us_unread := rest\<rparr>)
      | [] \<Rightarrow> (Raised (ConnectionError (if us_open t then ''unix delivery socket read timeout''
                                         else ''unix delivery socket closed'')), socket_close t))"

definition exchange :: "delivery_link \<Rightarrow> pydict \<Rightarrow> (UnixSocketDeliveryTransport, pydict) action" where
  "exchange L message t0 =
     (let n = us_ticks t0; t = t0\<lparr>us_ticks := Suc n\<rparr>
      in case dl_fate L n of
           Prompt \<Rightarrow> receive (serve L n message t)
         | Slow \<Rightarrow> (case receive t of (r, t1) \<Rightarrow> (r, serve L n message t1))
         | Lost \<Rightarrow> receive t
         | Shut \<Rightarrow> receive (t\<lparr>us_open := False\<rparr>)
         | Broken e \<Rightarrow> (Raised (ConnectionError e), t)
         | Interrupted served \<Rightarrow> (Cancelled, if served then serve L n message t else t))"

definition is_error :: "pydict \<Rightarrow> bool" where
  "is_error response \<longleftrightarrow> dget response ''type'' = PyStr ''error''"

definition error_detail :: "pydict \<Rightarrow> string" where
  "error_detail response = py_str (py_or (dget response ''detail'') (PyStr ''transport error''))"

text \<open>\<^verbatim>\<open>_roundtrip\<close>.\<close>

definition roundtrip :: "delivery_link \<Rightarrow> pydict \<Rightarrow> (UnixSocketDeliveryTransport, pydict) action" where
  "roundtrip L message t0 =
     (if \<not> us_connected t0 then fail (AssertionError []) t0
      else bind_action (exchange L message) (\<lambda>response.
        if is_error response then
          (if dget message ''type'' = PyStr ''hello'' then act response
           else fail (RuntimeError (error_detail response)))
        else if has_key response ''transport_version'' then
          bind_action (attempt_of (py_int (dget response ''transport_version''))) (\<lambda>v.
          bind_action (update_state (\<lambda>t. t\<lparr>us_version := v\<rparr>)) (\<lambda>_.
          bind_action (attempt_of (assert_compatible_version v)) (\<lambda>_. act response)))
        else act response) t0)"

definition hello_message :: pydict where
  "hello_message = [(''type'', PyStr ''hello''), (''transport_version'', PyInt TRANSPORT_VERSION)]"

definition greet :: "delivery_link \<Rightarrow> (UnixSocketDeliveryTransport, unit) action" where
  "greet L =
     bind_action (roundtrip L hello_message) (\<lambda>response.
     if is_error response then
       bind_action (update_state socket_close) (\<lambda>_.
       fail (ConnectionError (py_str (py_or (dget response ''code'') (PyStr ''transport_error''))
         @ '': '' @ py_str (dget response ''detail''))))
     else update_state (\<lambda>t. t\<lparr>us_last_error := None\<rparr>))"

text \<open>The guarded block of \<^verbatim>\<open>connect\<close>, and \<^verbatim>\<open>connect\<close>. A \<^verbatim>\<open>ConnectionError\<close> is an \<^verbatim>\<open>OSError\<close>, so the one that
  the block raises itself is wrapped again.\<close>

definition open_connection :: "delivery_link \<Rightarrow> (UnixSocketDeliveryTransport, unit) action" where
  "open_connection L t0 =
     (let n = us_ticks t0; t = t0\<lparr>us_ticks := Suc n\<rparr>
      in case dl_open L n of
           Refused e \<Rightarrow> (Raised (ConnectionError e), t)
         | OpenTimeout \<Rightarrow> (Raised (TimeoutError []), t)
         | OpenCancelled \<Rightarrow> (Cancelled, t)
         | Opened \<Rightarrow>
             greet L (t\<lparr>us_connected := True, us_open := True, us_unread := []\<rparr>))"

definition socket_connect :: "delivery_link \<Rightarrow> (UnixSocketDeliveryTransport, unit) action" where
  "socket_connect L t =
     (if us_connected t then act () t
      else case open_connection L t of
             (Raised (TimeoutError m), t1) \<Rightarrow>
               (Raised (ConnectionError ''unix delivery socket connect timeout''),
                socket_close (t1\<lparr>us_last_error := Some ''connect_timeout''\<rparr>))
           | (Raised (ConnectionError m), t1) \<Rightarrow>
               (Raised (ConnectionError (''unix delivery socket unavailable: '' @ m)),
                socket_close (t1\<lparr>us_last_error := Some m\<rparr>))
           | r \<Rightarrow> r)"

definition ensure :: "delivery_link \<Rightarrow> (UnixSocketDeliveryTransport, unit) action" where
  "ensure L t = (if \<not> us_connected t then socket_connect L t else act () t)"

definition publish_message :: "DeliveryEnvelope \<Rightarrow> pydict" where
  "publish_message envelope = [(''type'', PyStr ''publish''), (''envelope'', PyDict (envelope_as_dict envelope))]"

definition socket_publish :: "delivery_link \<Rightarrow> DeliveryEnvelope \<Rightarrow> (UnixSocketDeliveryTransport, DeliveryAck) action" where
  "socket_publish L envelope =
     bind_action (ensure L) (\<lambda>_.
     bind_action (roundtrip L (publish_message envelope)) (\<lambda>response.
     if is_error response then
       bind_action (update_state socket_close) (\<lambda>_. fail (ConnectionError (error_detail response)))
     else
       bind_action (attempt_of (parse_ack_status (dget_default response ''status'' (PyStr ''acked'')))) (\<lambda>status.
       bind_action (read_state (\<lambda>t. dl_clock L (us_ticks t))) (\<lambda>now.
       act \<lparr>ack_envelope_id = env_envelope_id envelope, ack_status = status, ack_received_at = now,
            ack_detail = (case dget response ''detail'' of PyStr d \<Rightarrow> Some d | _ \<Rightarrow> None)\<rparr>))))"

definition socket_heartbeat :: "delivery_link \<Rightarrow> (UnixSocketDeliveryTransport, unit) action" where
  "socket_heartbeat L =
     bind_action (ensure L) (\<lambda>_.
     bind_action (roundtrip L [(''type'', PyStr ''heartbeat'')]) (\<lambda>_. act ()))"

definition unix_transport :: "delivery_link \<Rightarrow> UnixSocketDeliveryTransport DeliveryTransport" where
  "unix_transport L =
     \<lparr>tr_connect = socket_connect L, tr_close = (\<lambda>t. (Returned (), socket_close t)),
      tr_publish = socket_publish L, tr_heartbeat = socket_heartbeat L\<rparr>"

definition socket_health :: "string \<Rightarrow> UnixSocketDeliveryTransport \<Rightarrow> pydict" where
  "socket_health path t =
     [(''transport'', PyStr ''unix_socket''), (''socket_path'', PyStr path), (''connected'', PyBool (us_connected t)),
      (''last_error'', opt_str (us_last_error t)), (''negotiated_version'', PyInt (us_version t))]"

section \<open>Messages read back\<close>

lemma publisher_read_back: "publisher_from_dict (publisher_as_dict p) = Inr p"
  by (simp add: publisher_from_dict_def publisher_as_dict_def dget_def dget_default_def)

lemma envelope_read_back: "envelope_from_dict now (envelope_as_dict e) = Inr (e\<lparr>env_idempotency_key := envelope_key e\<rparr>)"
proof (cases "env_payload e")
  case Nil
  then show ?thesis
    by (simp add: envelope_from_dict_def envelope_as_dict_def dget_def dget_default_def subscript_def
        publisher_read_back py_or_def) (auto simp: envelope_key_def)
next
  case Cons
  then show ?thesis
    by (simp add: envelope_from_dict_def envelope_as_dict_def dget_def dget_default_def subscript_def
        publisher_read_back py_or_def) (auto simp: envelope_key_def)
qed

lemma parse_ack_status_value [simp]: "parse_ack_status (PyStr (ack_status_value k)) = Inr k"
  by (cases k) (auto simp: parse_ack_status_def)

lemma envelope_key_kept [simp]: "envelope_key (e\<lparr>env_idempotency_key := envelope_key e\<rparr>) = envelope_key e"
  by (simp add: envelope_key_def)

lemma stored_as_key [simp]: "stored_as (e\<lparr>env_idempotency_key := envelope_key e\<rparr>) = stored_as e"
  by (simp add: stored_as_def fun_eq_iff)

text \<open>What the server does with the message of a publication.\<close>

lemma dispatch_publish_message:
  "dispatch sha256 now (publish_message e) svc =
     (case accept sha256 (snd now) (e\<lparr>env_idempotency_key := envelope_key e\<rparr>) svc of
        (Inl x, svc1) \<Rightarrow> (refused_answer (envelope_as_dict e) x, svc1)
      | (Inr status, svc1) \<Rightarrow>
          (Inr [(''type'', PyStr ''ack''), (''envelope_id'', PyStr (env_envelope_id e)),
                (''status'', PyStr (ack_status_value status))], svc1))"
  by (simp add: dispatch_def publish_message_def dget_def dispatch_publish_def envelope_read_back split: prod.split sum.split)

lemma dispatch_rows: "\<exists>news. is_rows (snd (dispatch sha256 now message svc)) = is_rows svc @ news"
  using accept_acked_iff_stored(1)
  by (fastforce simp: dispatch_def dispatch_publish_def split: sum.split prod.split)

text \<open>A refusal never reads as an acknowledgement.\<close>

lemma refused_status:
  assumes "refused_answer data x = Inr response"
  shows "is_error response \<or> parse_ack_status (dget_default response ''status'' (PyStr ''acked'')) = Inr DROPPED"
  using assms parse_ack_status_value [of DROPPED]
  by (cases x) (auto simp: is_error_def dget_def dget_default_def)

lemma dispatch_acknowledges:
  assumes "dispatch sha256 now (publish_message e) svc = (Inr response, svc')" and "\<not> is_error response"
    and "parse_ack_status (dget_default response ''status'' (PyStr ''acked'')) = Inr ACKED"
  shows "\<exists>r \<in> set (is_rows svc'). stored_as e r"
proof -
  obtain res svc1 where a: "accept sha256 (snd now) (e\<lparr>env_idempotency_key := envelope_key e\<rparr>) svc = (res, svc1)"
    by (metis surj_pair)
  show ?thesis
  proof (cases res)
    case (Inl x)
    then show ?thesis using assms a refused_status [of "envelope_as_dict e" x response]
      by (auto simp: dispatch_publish_message)
  next
    case (Inr st)
    then show ?thesis using assms(1) a accept_acked_iff_stored(2) [OF a Inr]
      by (simp add: dispatch_publish_message)
  qed
qed

section \<open>A link without interruptions\<close>

definition calm_link :: "delivery_link \<Rightarrow> bool" where
  "calm_link L \<longleftrightarrow> (\<forall>n served. dl_fate L n \<noteq> Interrupted served)"

definition nothing_unread :: "UnixSocketDeliveryTransport \<Rightarrow> bool" where
  "nothing_unread t \<longleftrightarrow> us_unread t = []"

text \<open>The rows of the intake are only added to.\<close>

definition grown :: "UnixSocketDeliveryTransport \<Rightarrow> UnixSocketDeliveryTransport \<Rightarrow> bool" where
  "grown t t' \<longleftrightarrow> (\<exists>news. is_rows (us_intake t') = is_rows (us_intake t) @ news)"

definition delivered :: "UnixSocketDeliveryTransport \<Rightarrow> DeliveryEnvelope \<Rightarrow> bool" where
  "delivered t e \<longleftrightarrow> (\<exists>r \<in> set (is_rows (us_intake t)). stored_as e r)"

lemma grown_refl [simp]: "grown t t"
  by (simp add: grown_def)

lemma grown_trans: "grown t t1 \<Longrightarrow> grown t1 t2 \<Longrightarrow> grown t t2"
  by (auto simp: grown_def)

lemma grown_delivered: "grown t t' \<Longrightarrow> delivered t e \<Longrightarrow> delivered t' e"
  by (auto simp: grown_def delivered_def)

lemma closed [simp]:
  "us_intake (socket_close t) = us_intake t" "nothing_unread (socket_close t)" "\<not> us_connected (socket_close t)"
  by (simp_all add: socket_close_def nothing_unread_def)

lemma grown_serve: "grown t (serve L n message t)"
proof -
  obtain res svc where d: "dispatch (dl_sha256 L) (dl_served L n) message (us_intake t) = (res, svc)" by (metis surj_pair)
  show ?thesis
    using dispatch_rows [of "dl_sha256 L" "dl_served L n" message "us_intake t"] d
    by (auto simp: serve_def grown_def split: sum.split)
qed

lemma receive_intake: "us_intake (snd (receive t)) = us_intake t"
  by (simp add: receive_def split: list.split)

lemma grown_exchange: "grown t (snd (exchange L message t))"
proof -
  let ?n = "us_ticks t" and ?t = "t\<lparr>us_ticks := Suc (us_ticks t)\<rparr>"
  have "grown t (serve L ?n message ?t)" using grown_serve [of ?t L ?n message] by (simp add: grown_def)
  moreover have "grown t (snd (receive t1))" if "grown t t1" for t1 using that by (simp add: grown_def receive_intake)
  moreover have "grown t ?t" "grown t (?t\<lparr>us_open := False\<rparr>)" by (simp_all add: grown_def)
  moreover have "snd (case receive ?t of (r, t1) \<Rightarrow> (r, serve L ?n message t1)) = serve L ?n message (snd (receive ?t))"
    by (simp split: prod.split)
  ultimately show ?thesis
    using grown_trans [OF _ grown_serve, of t "snd (receive ?t)" L ?n message]
    by (cases "dl_fate L ?n") (simp_all add: exchange_def Let_def)
qed

text \<open>The answer that an exchange returns is the answer to its own request.\<close>

lemma exchange_calm:
  assumes "calm_link L" and "nothing_unread t" and "exchange L message t = (r, t')"
  shows "nothing_unread t'"
    and "r = Returned response \<Longrightarrow>
      \<exists>svc. dispatch (dl_sha256 L) (dl_served L (us_ticks t)) message (us_intake t) = (Inr response, svc) \<and> us_intake t' = svc"
proof -
  let ?n = "us_ticks t" and ?t = "t\<lparr>us_ticks := Suc (us_ticks t)\<rparr>"
  obtain res svc where d: "dispatch (dl_sha256 L) (dl_served L ?n) message (us_intake t) = (res, svc)" by (metis surj_pair)
  note defs = exchange_def Let_def nothing_unread_def receive_def serve_def socket_close_def
  show "nothing_unread t'"
    using assms d by (cases "dl_fate L ?n"; cases res) (auto simp: defs calm_link_def split: if_splits)
  show "\<exists>svc. dispatch (dl_sha256 L) (dl_served L ?n) message (us_intake t) = (Inr response, svc) \<and> us_intake t' = svc"
    if "r = Returned response"
    using that assms d by (cases "dl_fate L ?n"; cases res) (auto simp: defs calm_link_def split: if_splits)
qed

text \<open>Both facts for the operations of the client, by the shape of the code.\<close>

definition adds :: "(UnixSocketDeliveryTransport, 'a) action \<Rightarrow> bool" where
  "adds m \<longleftrightarrow> (\<forall>t. grown t (snd (m t)))"

lemma adds_bind: "adds m \<Longrightarrow> (\<And>x. adds (f x)) \<Longrightarrow> adds (bind_action m f)"
  unfolding adds_def bind_action_def by (auto split: prod.splits outcome.splits) (metis grown_trans snd_conv)+

lemma adds_act: "adds (act x)" and adds_fail: "adds (fail e)" and adds_read: "adds (read_state g)"
  by (simp_all add: adds_def)

lemma adds_attempt: "adds (attempt_of r)"
  by (cases r) (simp_all add: adds_act adds_fail)

lemma adds_update: "(\<And>t. us_intake (g t) = us_intake t) \<Longrightarrow> adds (update_state g)"
  by (simp add: adds_def grown_def)

lemma adds_if: "adds m \<Longrightarrow> adds n \<Longrightarrow> adds (if b then m else n)"
  and adds_cond: "adds m \<Longrightarrow> adds n \<Longrightarrow> adds (\<lambda>t. if c t then m t else n t)"
  by (simp_all add: adds_def)

lemmas adds_rules = adds_bind adds_act adds_fail adds_read adds_attempt adds_update adds_if

lemma keeps_cond: "keeps I m \<Longrightarrow> keeps I n \<Longrightarrow> keeps I (\<lambda>t. if c t then m t else n t)"
  by (simp add: keeps_def)

lemma adds_exchange: "adds (exchange L message)"
  by (simp add: adds_def grown_exchange)

lemma keeps_exchange: "calm_link L \<Longrightarrow> keeps nothing_unread (exchange L message)"
  using exchange_calm(1) by (fastforce simp: keeps_def intro: surjective_pairing)

lemma adds_roundtrip: "adds (roundtrip L message)"
  unfolding roundtrip_def by (rule adds_cond [OF adds_fail]) (auto intro!: adds_rules adds_exchange)

lemma unread_kept [simp]:
  "nothing_unread (t\<lparr>us_version := v\<rparr>) = nothing_unread t" "nothing_unread (t\<lparr>us_last_error := e\<rparr>) = nothing_unread t"
  "nothing_unread (t\<lparr>us_ticks := n\<rparr>) = nothing_unread t"
  by (simp_all add: nothing_unread_def)

lemma keeps_roundtrip: "calm_link L \<Longrightarrow> keeps nothing_unread (roundtrip L message)"
  unfolding roundtrip_def by (rule keeps_cond [OF keeps_fail]) (auto intro!: keeps_rules keeps_exchange keeps_update)

text \<open>The error branches of \<^verbatim>\<open>connect\<close> only note the error and close.\<close>

lemma connect_intake:
  "\<not> us_connected t \<Longrightarrow> us_intake (snd (socket_connect L t)) = us_intake (snd (open_connection L t))"
  by (auto simp: socket_connect_def split: prod.split outcome.split py_error.split)

lemma adds_connect: "adds (socket_connect L)"
proof -
  have g: "adds (greet L)" unfolding greet_def by (auto intro!: adds_rules adds_roundtrip)
  have o: "grown t (snd (open_connection L t))" for t
    using g [unfolded adds_def, rule_format, of "t\<lparr>us_ticks := Suc (us_ticks t), us_connected := True, us_open := True, us_unread := []\<rparr>"]
    by (auto simp: open_connection_def Let_def grown_def split: open_fate.split)
  have "grown t (snd (socket_connect L t))" for t
    using o [of t] connect_intake [of t L] by (cases "us_connected t") (simp_all add: grown_def socket_connect_def)
  then show ?thesis by (simp add: adds_def)
qed

lemma keeps_connect:
  assumes "calm_link L"
  shows "keeps nothing_unread (socket_connect L)"
proof -
  have g: "keeps nothing_unread (greet L)"
    unfolding greet_def by (auto intro!: keeps_rules keeps_roundtrip [OF assms] keeps_update)
  have o: "nothing_unread (snd (open_connection L t))" if "nothing_unread t" for t
    using that g [unfolded keeps_def, rule_format, of "t\<lparr>us_ticks := Suc (us_ticks t), us_connected := True, us_open := True, us_unread := []\<rparr>"]
    by (auto simp: open_connection_def Let_def nothing_unread_def split: open_fate.split)
  show ?thesis
    using o by (auto simp: keeps_def socket_connect_def split: prod.split outcome.split py_error.split) (metis snd_conv)+
qed

lemma adds_ensure: "adds (ensure L)"
  unfolding ensure_def by (rule adds_cond [OF adds_connect adds_act])

lemma keeps_ensure: "calm_link L \<Longrightarrow> keeps nothing_unread (ensure L)"
  unfolding ensure_def by (rule keeps_cond [OF keeps_connect keeps_act])

lemma adds_publish: "adds (socket_publish L e)"
  unfolding socket_publish_def by (auto intro!: adds_rules adds_ensure adds_roundtrip)

lemma adds_heartbeat: "adds (socket_heartbeat L)"
  unfolding socket_heartbeat_def by (auto intro!: adds_rules adds_ensure adds_roundtrip)

lemma keeps_publish: "calm_link L \<Longrightarrow> keeps nothing_unread (socket_publish L e)"
  unfolding socket_publish_def by (auto intro!: keeps_rules keeps_ensure keeps_roundtrip keeps_update)

lemma keeps_heartbeat: "calm_link L \<Longrightarrow> keeps nothing_unread (socket_heartbeat L)"
  unfolding socket_heartbeat_def by (auto intro!: keeps_rules keeps_ensure keeps_roundtrip keeps_update)

text \<open>An acknowledged publication is in the intake.\<close>

lemma roundtrip_answer:
  assumes "calm_link L" and "nothing_unread t" and "roundtrip L message t = (Returned response, t')"
  shows "\<exists>now. dispatch (dl_sha256 L) now message (us_intake t) = (Inr response, us_intake t')"
proof -
  have c: "us_connected t" using assms(3) by (auto simp: roundtrip_def split: if_splits)
  obtain r t1 where e: "exchange L message t = (r, t1)" by (metis surj_pair)
  then obtain x where r: "r = Returned x" using assms(3) c by (cases r) (auto simp: roundtrip_def)
  have "x = response \<and> us_intake t' = us_intake t1"
    using assms(3) c e r
    by (auto simp: roundtrip_def bind_action_def attempt_of_def split: if_splits sum.splits prod.splits outcome.splits)
  then have "dispatch (dl_sha256 L) (dl_served L (us_ticks t)) message (us_intake t) = (Inr response, us_intake t')"
    using exchange_calm(2) [OF assms(1,2) e r] by simp
  then show ?thesis by blast
qed

lemma publish_acknowledged:
  assumes "calm_link L" and "nothing_unread t" and "socket_publish L e t = (Returned ack, t')" and "ack_status ack = ACKED"
  shows "delivered t' e"
proof -
  obtain x t1 where 1: "ensure L t = (Returned x, t1)"
    using assms(3) by (cases "ensure L t"; cases "fst (ensure L t)") (auto simp: socket_publish_def)
  then obtain response t2 where 2: "roundtrip L (publish_message e) t1 = (Returned response, t2)"
    using assms(3) by (cases "roundtrip L (publish_message e) t1"; cases "fst (roundtrip L (publish_message e) t1)")
      (auto simp: socket_publish_def)
  have "nothing_unread t1" using keepsD [OF keeps_ensure [OF assms(1)] assms(2)] 1 by (metis snd_conv)
  then obtain now where d: "dispatch (dl_sha256 L) now (publish_message e) (us_intake t1) = (Inr response, us_intake t2)"
    using roundtrip_answer [OF assms(1) _ 2] by blast
  have "\<not> is_error response \<and> parse_ack_status (dget_default response ''status'' (PyStr ''acked'')) = Inr ACKED \<and> t' = t2"
    using assms(3,4) 1 2
    by (auto simp: socket_publish_def bind_action_def attempt_of_def split: if_splits sum.splits prod.splits outcome.splits)
  with dispatch_acknowledges [OF d] show ?thesis by (simp add: delivered_def)
qed

section \<open>Transports that record what they acknowledge\<close>

text \<open>What happens to a worker: the loop's rounds, flushes that other code asks for, heartbeats, and
  everything that happens to the outbox in between.\<close>

inductive delivery_step :: "'t DeliveryTransport \<Rightarrow> (nat \<Rightarrow> time) \<Rightarrow> 't DeliveryWorker \<Rightarrow> 't DeliveryWorker \<Rightarrow> bool"
  for T clock where
  flush: "delivery_step T clock w (snd (flush_once T clock w))"
| round: "delivery_step T clock w (snd (run_round T clock w))"
| beat: "delivery_step T clock w (snd (worker_heartbeat T w))"
| outbox: "outbox_step (dw_outbox w) ob \<Longrightarrow> delivery_step T clock w (w\<lparr>dw_outbox := ob\<rparr>)"

lemma worker_heartbeat_outbox: "dw_outbox (snd (worker_heartbeat T w)) = dw_outbox w"
  by (auto simp: worker_heartbeat_def Let_def split: prod.split outcome.split)

lemma delivery_step_ok:
  assumes "delivery_step T clock w w'" and "outbox_ok (dw_outbox w)"
  shows "outbox_ok (dw_outbox w')"
proof -
  have "outbox_ok (dw_outbox (snd (flush_once T clock w)))"
    using steps_ok [OF flush_once_steps [OF _ assms(2)] assms(2)] by (metis prod.collapse)
  with assms show ?thesis
    by (cases rule: delivery_step.cases) (simp_all add: run_round_outbox worker_heartbeat_outbox outbox_step_ok)
qed

lemma delivery_steps_ok: "(delivery_step T clock)\<^sup>*\<^sup>* w w' \<Longrightarrow> outbox_ok (dw_outbox w) \<Longrightarrow> outbox_ok (dw_outbox w')"
  by (induction rule: rtranclp_induct) (auto intro: delivery_step_ok)

locale recording_transport =
  fixes T :: "'t DeliveryTransport" and sound :: "'t \<Rightarrow> bool" and stored :: "'t \<Rightarrow> DeliveryEnvelope \<Rightarrow> bool"
  assumes connect_sound: "sound t \<Longrightarrow> tr_connect T t = (r, t') \<Longrightarrow> sound t' \<and> (\<forall>x. stored t x \<longrightarrow> stored t' x)"
    and close_sound: "sound t \<Longrightarrow> tr_close T t = (r, t') \<Longrightarrow> sound t' \<and> (\<forall>x. stored t x \<longrightarrow> stored t' x)"
    and publish_sound: "sound t \<Longrightarrow> tr_publish T e t = (ra, t') \<Longrightarrow> sound t' \<and> (\<forall>x. stored t x \<longrightarrow> stored t' x)"
    and heartbeat_sound: "sound t \<Longrightarrow> tr_heartbeat T t = (r, t') \<Longrightarrow> sound t' \<and> (\<forall>x. stored t x \<longrightarrow> stored t' x)"
    and publish_stores: "sound t \<Longrightarrow> tr_publish T e t = (Returned ack, t') \<Longrightarrow> ack_status ack = ACKED \<Longrightarrow> stored t' e"
begin

definition onward :: "'t \<Rightarrow> 't \<Rightarrow> bool" where
  "onward t t' \<longleftrightarrow> sound t' \<and> (\<forall>x. stored t x \<longrightarrow> stored t' x)"

lemma onward_trans: "onward t t1 \<Longrightarrow> onward t1 t2 \<Longrightarrow> onward t t2"
  and onward_refl: "sound t \<Longrightarrow> onward t t"
  and onward_sound: "onward t t' \<Longrightarrow> sound t'"
  by (simp_all add: onward_def)

lemmas steps_onward = connect_sound [folded onward_def] close_sound [folded onward_def]
  publish_sound [folded onward_def] heartbeat_sound [folded onward_def]

lemma flush_record_onward:
  assumes "sound (dw_transport w)" and "flush_record T clock rec w = (out, w')"
  shows "onward (dw_transport w) (dw_transport w')"
    and "out = Returned 1 \<Longrightarrow> stored (dw_transport w') (or_envelope rec)"
proof -
  let ?w = "w_mark_sent clock (env_envelope_id (or_envelope rec)) (if or_attempts rec > 0 then w_replay w else w)"
  obtain r t where p: "tr_publish T (or_envelope rec) (dw_transport w) = (r, t)" by (metis surj_pair)
  have t: "dw_transport ?w = dw_transport w" by simp
  have o: "onward (dw_transport w) t" using steps_onward(3) [OF assms(1) p] .
  obtain r2 t2 where c: "tr_close T t = (r2, t2)" by (metis surj_pair)
  have o2: "onward (dw_transport w) t2" using onward_trans [OF o steps_onward(2) [OF onward_sound [OF o] c]] .
  show "onward (dw_transport w) (dw_transport w')"
    using assms p t c o o2 onward_refl [OF assms(1)]
    by (cases r; cases r2) (auto simp: flush_record_def Let_def split: if_splits)
  show "out = Returned 1 \<Longrightarrow> stored (dw_transport w') (or_envelope rec)"
    using assms p t c publish_stores [OF assms(1), of "or_envelope rec"]
    by (cases r; cases r2) (auto simp: flush_record_def Let_def split: if_splits)
qed

text \<open>An entry that leaves the outbox in the loop is stored at its end.\<close>

lemma flush_loop_onward:
  assumes "sound (dw_transport w)" and "flush_loop T clock recs d w = (out, w')"
  shows "onward (dw_transport w) (dw_transport w')"
    and "i \<in> row_envelope_id ` set (ob_rows (dw_outbox w)) \<Longrightarrow> i \<notin> row_envelope_id ` set (ob_rows (dw_outbox w'))
      \<Longrightarrow> \<exists>rec \<in> set recs. env_envelope_id (or_envelope rec) = i \<and> stored (dw_transport w') (or_envelope rec)"
proof -
  have "onward (dw_transport w) (dw_transport w') \<and>
      (i \<in> row_envelope_id ` set (ob_rows (dw_outbox w)) \<longrightarrow> i \<notin> row_envelope_id ` set (ob_rows (dw_outbox w'))
      \<longrightarrow> (\<exists>rec \<in> set recs. env_envelope_id (or_envelope rec) = i \<and> stored (dw_transport w') (or_envelope rec)))"
    using assms
  proof (induction recs arbitrary: d w)
    case (Cons rec recs)
    obtain r w1 where fr: "flush_record T clock rec w = (r, w1)" by (metis surj_pair)
    have 1: "onward (dw_transport w) (dw_transport w1)" using flush_record_onward(1) [OF Cons.prems(1) fr] .
    note ids = effect_ids [OF flush_record_effect [OF fr]]
    show ?case
    proof (cases r)
      case (Returned n)
      then have "flush_loop T clock recs (d + n) w1 = (out, w')" using Cons.prems(2) fr by simp
      note IH = Cons.IH [OF onward_sound [OF 1] this]
      have "onward (dw_transport w) (dw_transport w')" using onward_trans [OF 1] IH by blast
      moreover have "stored (dw_transport w') (or_envelope rec)" if "r = Returned 1"
        using flush_record_onward(2) [OF Cons.prems(1) fr that] IH by (simp add: onward_def)
      ultimately show ?thesis using IH ids by (auto split: if_splits)
    qed (use Cons.prems(2) fr 1 ids in auto)
  qed (auto intro: onward_refl)
  then show "onward (dw_transport w) (dw_transport w')"
    and "i \<in> row_envelope_id ` set (ob_rows (dw_outbox w)) \<Longrightarrow> i \<notin> row_envelope_id ` set (ob_rows (dw_outbox w'))
      \<Longrightarrow> \<exists>rec \<in> set recs. env_envelope_id (or_envelope rec) = i \<and> stored (dw_transport w') (or_envelope rec)"
    by blast+
qed

lemma flush_once_onward:
  assumes "sound (dw_transport w)" and "flush_once T clock w = (out, w')"
  shows "onward (dw_transport w) (dw_transport w')"
proof -
  obtain r t where c: "tr_connect T (dw_transport w) = (r, t)" by (metis surj_pair)
  note o = steps_onward(1) [OF assms(1) c]
  show ?thesis
    using assms c o flush_loop_onward(1) [of "w\<lparr>dw_transport := t\<rparr>" clock _ 0 out w'] onward_trans [OF o] onward_sound [OF o]
    by (cases r) (auto simp: flush_once_def Let_def split: sum.splits)
qed

lemma flush_once_stores:
  assumes "sound (dw_transport w)" and "flush_once T clock w = (out, w')" and "outbox_ok (dw_outbox w)"
    and "r \<in> set (ob_rows (dw_outbox w))" and "row_envelope_id r \<notin> row_envelope_id ` set (ob_rows (dw_outbox w'))"
  shows "\<exists>rec. row_to_record r = Inr rec \<and> stored (dw_transport w') (or_envelope rec)"
  using assms(2,3)
proof (cases rule: flush_once_cases)
  case (2 t recs)
  have s: "sound (dw_transport (w\<lparr>dw_transport := t\<rparr>))" using steps_onward(1) [OF assms(1) 2(3)] onward_sound by simp
  obtain rec where rec: "rec \<in> set recs" "env_envelope_id (or_envelope rec) = row_envelope_id r"
      "stored (dw_transport w') (or_envelope rec)"
    using flush_loop_onward(2) [OF s 2(2), of "row_envelope_id r"] assms(4,5) by auto
  obtain q where q: "q \<in> set (pending_rows (dw_batch_size w) (dw_outbox w))" "row_to_record q = Inr rec"
      "env_envelope_id (or_envelope rec) = row_envelope_id q"
    using pending_record_row [OF assms(3) 2(1) rec(1)] .
  then have "q = r"
    using pending_rows_subset [OF q(1)] assms(3,4) rec(2) by (auto simp: outbox_ok_def distinct_map dest: inj_onD)
  then show ?thesis using q rec by blast
qed (use assms in auto)

lemma worker_heartbeat_onward:
  assumes "sound (dw_transport w)" and "worker_heartbeat T w = (out, w')"
  shows "onward (dw_transport w) (dw_transport w') \<and> dw_outbox w' = dw_outbox w"
proof -
  obtain r t where h: "tr_heartbeat T (dw_transport w) = (r, t)" by (metis surj_pair)
  obtain r2 t2 where c: "tr_close T t = (r2, t2)" by (metis surj_pair)
  note o = steps_onward(4) [OF assms(1) h]
  note o2 = onward_trans [OF o steps_onward(2) [OF onward_sound [OF o] c]]
  show ?thesis using assms(2) h c o o2 by (cases r; cases r2) (auto simp: worker_heartbeat_def Let_def)
qed

lemma run_round_onward:
  assumes "sound (dw_transport w)"
  shows "onward (dw_transport w) (dw_transport (snd (run_round T clock w)))"
proof -
  obtain r w1 where f: "flush_once T clock w = (r, w1)" by (metis surj_pair)
  obtain r2 w2 where h: "worker_heartbeat T w1 = (r2, w2)" by (metis surj_pair)
  note o = flush_once_onward [OF assms f]
  note o2 = onward_trans [OF o] worker_heartbeat_onward [OF onward_sound [OF o] h]
  then show ?thesis using f h o by (cases r; cases r2) (auto simp: run_round_def)
qed

lemma delivery_step_onward:
  assumes "delivery_step T clock w w'" and "sound (dw_transport w)"
  shows "onward (dw_transport w) (dw_transport w')"
  using assms(1)
proof (cases rule: delivery_step.cases)
  case flush
  then show ?thesis using flush_once_onward [OF assms(2)] by (metis surj_pair snd_conv)
next
  case round
  then show ?thesis using run_round_onward [OF assms(2)] by simp
next
  case beat
  then show ?thesis using worker_heartbeat_onward [OF assms(2)] by (metis surj_pair snd_conv)
next
  case (outbox ob)
  then show ?thesis using assms(2) onward_refl by simp
qed

lemma delivery_steps_onward:
  "(delivery_step T clock)\<^sup>*\<^sup>* w w' \<Longrightarrow> sound (dw_transport w) \<Longrightarrow> onward (dw_transport w) (dw_transport w')"
proof (induction rule: rtranclp_induct)
  case (step w1 w2)
  then show ?case using delivery_step_onward [OF step.hyps(2)] onward_trans onward_sound by blast
qed (simp add: onward_refl)

lemma removed_entries_stored:
  assumes "(delivery_step T clock)\<^sup>*\<^sup>* w0 w" and "sound (dw_transport w0)" and "outbox_ok (dw_outbox w0)"
    and "flush_once T clock w = (out, w')"
    and "r \<in> set (ob_rows (dw_outbox w))" and "row_envelope_id r \<notin> row_envelope_id ` set (ob_rows (dw_outbox w'))"
    and "(delivery_step T clock)\<^sup>*\<^sup>* w' w''"
  shows "\<exists>rec. row_to_record r = Inr rec \<and> stored (dw_transport w'') (or_envelope rec)"
proof -
  have w: "sound (dw_transport w)" "outbox_ok (dw_outbox w)"
    using delivery_steps_onward [OF assms(1,2)] onward_sound delivery_steps_ok [OF assms(1,3)] by blast+
  have "sound (dw_transport w')" using flush_once_onward [OF w(1) assms(4)] onward_sound by blast
  then have "onward (dw_transport w') (dw_transport w'')" using delivery_steps_onward [OF assms(7)] by blast
  then show ?thesis using flush_once_stores [OF w(1) assms(4) w(2) assms(5,6)] by (auto simp: onward_def)
qed

end

text \<open>The memory transport keeps what it acknowledges.\<close>

interpretation memory_record: recording_transport "memory_transport now" "\<lambda>_. True" "\<lambda>t e. e \<in> set (mt_published t)"
  by unfold_locales
    (auto simp: memory_transport_def memory_connect_def memory_close_def memory_publish_def memory_heartbeat_def Let_def
      split: if_splits)

text \<open>So does the socket, over a link on which no task is cancelled while it waits.\<close>

locale calm_delivery =
  fixes L :: delivery_link
  assumes calm: "calm_link L"

sublocale calm_delivery \<subseteq> socket: recording_transport "unix_transport L" nothing_unread delivered
proof
  note k = keepsD [OF keeps_connect [OF calm]] keepsD [OF keeps_publish [OF calm]] keepsD [OF keeps_heartbeat [OF calm]]
  note a = adds_connect [of L] adds_publish [of L] adds_heartbeat [of L]
  show "nothing_unread t' \<and> (\<forall>x. delivered t x \<longrightarrow> delivered t' x)"
    if "nothing_unread t" "tr_connect (unix_transport L) t = (r, t')" for t r t'
    using that k(1) [of t] a(1) grown_delivered [of t t'] by (auto simp: unix_transport_def adds_def) (metis snd_conv)+
  show "nothing_unread t' \<and> (\<forall>x. delivered t x \<longrightarrow> delivered t' x)"
    if "nothing_unread t" "tr_close (unix_transport L) t = (r, t')" for t r t'
    using that by (auto simp: unix_transport_def delivered_def)
  show "nothing_unread t' \<and> (\<forall>x. delivered t x \<longrightarrow> delivered t' x)"
    if "nothing_unread t" "tr_publish (unix_transport L) e t = (r, t')" for t e r t'
    using that k(2) [of t e] a(2) grown_delivered [of t t'] by (auto simp: unix_transport_def adds_def) (metis snd_conv)+
  show "nothing_unread t' \<and> (\<forall>x. delivered t x \<longrightarrow> delivered t' x)"
    if "nothing_unread t" "tr_heartbeat (unix_transport L) t = (r, t')" for t r t'
    using that k(3) [of t] a(3) grown_delivered [of t t'] by (auto simp: unix_transport_def adds_def) (metis snd_conv)+
  show "delivered t' e"
    if "nothing_unread t" "tr_publish (unix_transport L) e t = (Returned ack, t')" "ack_status ack = ACKED" for t e ack t'
    using that publish_acknowledged [OF calm that(1)] by (simp add: unix_transport_def)
qed

context calm_delivery
begin

lemma removed_entries_delivered:
  assumes "(delivery_step (unix_transport L) clock)\<^sup>*\<^sup>* w0 w" and "nothing_unread (dw_transport w0)" and "outbox_ok (dw_outbox w0)"
    and "flush_once (unix_transport L) clock w = (out, w')"
    and "r \<in> set (ob_rows (dw_outbox w))" and "row_envelope_id r \<notin> row_envelope_id ` set (ob_rows (dw_outbox w'))"
    and "(delivery_step (unix_transport L) clock)\<^sup>*\<^sup>* w' w''"
  shows "\<exists>rec. row_to_record r = Inr rec \<and> delivered (dw_transport w'') (or_envelope rec)"
  using socket.removed_entries_stored [OF assms] .

end

text \<open>A link that answers every exchange in time.\<close>

definition prompt_link :: delivery_link where
  "prompt_link = \<lparr>dl_open = (\<lambda>_. Opened), dl_fate = (\<lambda>_. Prompt), dl_clock = (\<lambda>n. int n),
     dl_served = (\<lambda>n. (int n, int n)), dl_sha256 = (\<lambda>s. s)\<rparr>"

interpretation prompt: calm_delivery prompt_link
  by unfold_locales (simp add: calm_link_def prompt_link_def)

section \<open>Properties\<close>

text \<open>C37: An envelope survives the socket. The server reads back from the message of the client an envelope that
  differs at most in its idempotency key, which is written out as the identifier when it is empty: the
  key under which the intake stores it, the bytes that the publisher signed and the dictionary that is
  stored are those of the envelope that was sent.\<close>

theorem envelope_survives_socket:
  "\<exists>e'. envelope_from_dict now (as_dict (dget (publish_message e) ''envelope'')) = Inr e'
     \<and> e'\<lparr>env_idempotency_key := env_idempotency_key e\<rparr> = e \<and> envelope_key e' = envelope_key e
     \<and> canonical_signed_bytes e' = canonical_signed_bytes e \<and> envelope_as_dict e' = envelope_as_dict e"
proof -
  have "as_dict (dget (publish_message e) ''envelope'') = envelope_as_dict e" by (simp add: publish_message_def dget_def)
  moreover have "envelope_as_dict (e\<lparr>env_idempotency_key := envelope_key e\<rparr>) = envelope_as_dict e"
    by (simp add: envelope_as_dict_def)
  ultimately show ?thesis
    using envelope_read_back [of now e] by (intro exI [of _ "e\<lparr>env_idempotency_key := envelope_key e\<rparr>"])
      (simp add: canonical_signed_bytes_def)
qed

text \<open>C6: What leaves the outbox over the socket is in the intake. Whatever happened before - rounds, flushes,
  heartbeats, publications -, and whatever the link does to the exchanges, except that no task is
  cancelled while it waits for an answer: an entry that a flush removes from the outbox is stored in the
  intake with its idempotency key and its payload hash, and stays there.\<close>

theorem flushed_entries_reach_intake:
  assumes "calm_link L"
    and "(delivery_step (unix_transport L) clock)\<^sup>*\<^sup>*
           (init_DeliveryWorker (init_DeliveryOutbox k) (init_UnixSocketDeliveryTransport svc) batch attempts) w"
    and "flush_once (unix_transport L) clock w = (out, w')"
    and "r \<in> set (ob_rows (dw_outbox w))" and "row_envelope_id r \<notin> row_envelope_id ` set (ob_rows (dw_outbox w'))"
    and "(delivery_step (unix_transport L) clock)\<^sup>*\<^sup>* w' w''"
  shows "\<exists>row \<in> set (is_rows (us_intake (dw_transport w''))).
     in_idempotency_key row = row_idempotency_key r \<and> in_payload_hash row = row_payload_hash r"
proof -
  have cd: "calm_delivery L" using assms(1) by (rule calm_delivery.intro)
  have ok: "outbox_ok (dw_outbox (init_DeliveryWorker (init_DeliveryOutbox k) t batch attempts))" for t :: UnixSocketDeliveryTransport
    using outbox_reachable_ok [OF rtranclp.rtrancl_refl] by (simp add: init_DeliveryWorker_def)
  obtain rec where rec: "row_to_record r = Inr rec" "delivered (dw_transport w'') (or_envelope rec)"
    using calm_delivery.removed_entries_delivered [OF cd assms(2) _ ok assms(3-6)]
    by (auto simp: init_DeliveryWorker_def init_UnixSocketDeliveryTransport_def nothing_unread_def)
  have "row_ok r" using delivery_steps_ok [OF assms(2) ok] assms(4) by (simp add: outbox_ok_def)
  with rec(1) have "row_idempotency_key r = envelope_key (or_envelope rec) \<and> row_payload_hash r = env_payload_hash (or_envelope rec)"
    by (auto simp: row_ok_def row_to_record_def envelope_roundtrip)
  then show ?thesis using rec(2) by (simp add: delivered_def stored_as_def)
qed

definition example_intake :: RuntimeStateIntakeService where
  "example_intake = init_RuntimeStateIntakeService None (Some ''joymesh'')"

definition socket_worker :: "DeliveryOutbox \<Rightarrow> UnixSocketDeliveryTransport DeliveryWorker" where
  "socket_worker ob = init_DeliveryWorker ob (init_UnixSocketDeliveryTransport example_intake) 32 8"

theorem flushed_entries_reach_intake_witness:
  "\<exists>row \<in> set (is_rows (us_intake (dw_transport (snd (flush_once (unix_transport prompt_link) (\<lambda>n. int n)
       (socket_worker example_outbox)))))).
     in_idempotency_key row = row_idempotency_key (hd (ob_rows example_outbox))"
proof -
  let ?T = "unix_transport prompt_link" and ?w = "socket_worker example_outbox"
  let ?w' = "snd (flush_once ?T (\<lambda>n. int n) ?w)"
  have "outbox_step (init_DeliveryOutbox 4) example_outbox"
    unfolding example_outbox_def publish_event_def by (rule outbox_step.publish)
  then have "delivery_step ?T (\<lambda>n. int n) (socket_worker (init_DeliveryOutbox 4)) (socket_worker (init_DeliveryOutbox 4)\<lparr>dw_outbox := example_outbox\<rparr>)"
    by (intro delivery_step.outbox) (simp add: socket_worker_def init_DeliveryWorker_def)
  then have step: "(delivery_step ?T (\<lambda>n. int n))\<^sup>*\<^sup>* (socket_worker (init_DeliveryOutbox 4)) ?w"
    by (simp add: socket_worker_def init_DeliveryWorker_def r_into_rtranclp)
  have gone: "ob_rows (dw_outbox ?w') = []" by code_simp
  have "ob_rows (dw_outbox ?w) \<noteq> []" by code_simp
  then have mem: "hd (ob_rows example_outbox) \<in> set (ob_rows (dw_outbox ?w))"
    by (simp add: socket_worker_def init_DeliveryWorker_def)
  from flushed_entries_reach_intake [OF prompt.calm step [unfolded socket_worker_def [of "init_DeliveryOutbox 4"]] prod.collapse [symmetric] mem _ rtranclp.rtrancl_refl] gone
  show ?thesis by auto
qed

text \<open>C38: A cancelled publication confirms another envelope. When the task that publishes is cancelled while it
  waits, the connection stays open with the answer unread; the next publication takes that answer for
  its own, since the client compares no identifiers: an envelope that the intake refuses is
  acknowledged as stored.\<close>

theorem cancelled_publish_confirms_next:
  assumes "us_connected t" and "us_open t" and "nothing_unread t"
    and "dl_fate L (us_ticks t) = Interrupted True" and "dl_fate L (Suc (us_ticks t)) = Prompt"
    and "accept (dl_sha256 L) (snd (dl_served L (us_ticks t))) (e\<lparr>env_idempotency_key := envelope_key e\<rparr>) (us_intake t) = (Inr ACKED, svc1)"
    and "accept (dl_sha256 L) (snd (dl_served L (Suc (us_ticks t)))) (e2\<lparr>env_idempotency_key := envelope_key e2\<rparr>) svc1
           = (Inl (IntakeRejected code detail), svc2)"
  shows "\<exists>t1 t2 ack. socket_publish L e t = (Cancelled, t1) \<and> socket_publish L e2 t1 = (Returned ack, t2)
     \<and> ack_status ack = ACKED \<and> ack_envelope_id ack = env_envelope_id e2 \<and> us_intake t2 = svc1"
proof -
  let ?answer = "[(''type'', PyStr ''ack''), (''envelope_id'', PyStr (env_envelope_id e)), (''status'', PyStr (ack_status_value ACKED))]"
  let ?t1 = "t\<lparr>us_ticks := Suc (us_ticks t), us_intake := svc1, us_unread := [?answer]\<rparr>"
  have 1: "socket_publish L e t = (Cancelled, ?t1)"
    using assms(1-4,6)
    by (simp add: socket_publish_def ensure_def bind_action_def roundtrip_def exchange_def Let_def serve_def
        dispatch_publish_message nothing_unread_def)
  have "svc2 = svc1" using accept_acked_iff_stored(3) [OF assms(7) refl] .
  then have "\<exists>t2. roundtrip L (publish_message e2) ?t1 = (Returned ?answer, t2) \<and> us_intake t2 = svc1"
    using assms(1,2,5,7)
    by (simp add: roundtrip_def exchange_def Let_def serve_def dispatch_publish_message receive_def
        bind_action_def is_error_def dget_def has_key_def)
  then obtain t2 where 2: "roundtrip L (publish_message e2) ?t1 = (Returned ?answer, t2)" "us_intake t2 = svc1" by blast
  have "ensure L ?t1 = (Returned (), ?t1)" using assms(1) by (simp add: ensure_def)
  then have "\<exists>ack. socket_publish L e2 ?t1 = (Returned ack, t2) \<and> ack_status ack = ACKED \<and> ack_envelope_id ack = env_envelope_id e2"
    using 2(1) parse_ack_status_value [of ACKED]
    by (simp add: socket_publish_def is_error_def dget_def dget_default_def)
  with 1 2(2) show ?thesis by blast
qed

theorem cancelled_publish_confirms_next_witness:
  "\<exists>t1 t2 ack. socket_publish (prompt_link\<lparr>dl_fate := (\<lambda>n. if n = 2 then Interrupted True else Prompt)\<rparr>) example_delivery
       ((init_UnixSocketDeliveryTransport example_intake)\<lparr>us_connected := True, us_open := True, us_ticks := 2\<rparr>) = (Cancelled, t1)
     \<and> socket_publish (prompt_link\<lparr>dl_fate := (\<lambda>n. if n = 2 then Interrupted True else Prompt)\<rparr>)
         (example_delivery\<lparr>env_payload_hash := ''x''\<rparr>) t1 = (Returned ack, t2)
     \<and> ack_status ack = ACKED"
proof -
  let ?e = "example_delivery\<lparr>env_idempotency_key := envelope_key example_delivery\<rparr>"
  let ?e2 = "example_delivery\<lparr>env_payload_hash := ''x''\<rparr>"
  have a: "accept (\<lambda>s. s) 2 ?e example_intake = (Inr ACKED, snd (accept (\<lambda>s. s) 2 ?e example_intake))"
    by (rule prod_eqI; code_simp)
  let ?svc1 = "snd (accept (\<lambda>s. s) 2 ?e example_intake)"
  have b: "accept (\<lambda>s. s) 3 (?e2\<lparr>env_idempotency_key := envelope_key ?e2\<rparr>) ?svc1
      = (Inl (IntakeRejected ''payload_hash_mismatch'' ''payload hash does not match payload body''),
         snd (accept (\<lambda>s. s) 3 (?e2\<lparr>env_idempotency_key := envelope_key ?e2\<rparr>) ?svc1))"
    by (rule prod_eqI; code_simp)
  show ?thesis
    using cancelled_publish_confirms_next [where t = "(init_UnixSocketDeliveryTransport example_intake)\<lparr>us_connected := True, us_open := True, us_ticks := 2\<rparr>"
        and L = "prompt_link\<lparr>dl_fate := (\<lambda>n. if n = 2 then Interrupted True else Prompt)\<rparr>" and e = example_delivery and ?e2.0 = ?e2
        and ?svc1.0 = "snd (accept (\<lambda>s. s) 2 ?e example_intake)"] a b
    by (simp add: prompt_link_def nothing_unread_def init_UnixSocketDeliveryTransport_def) blast
qed

end
