(* ===== verification/Message_Security.thy ===== *)
theory Message_Security
  imports Canonical_JSON
begin

text \<open>
  Signed messages, approvals and replay detection of the control plane
  (\<^verbatim>\<open>src/src/joymesh/control_plane/security.py\<close> with the contracts of \<^verbatim>\<open>contracts.py\<close> it works on).
  Ed25519 and SHA-256 are functions of a record; what is relied on is that a signature made with a
  private key verifies with its public key, and, where a theorem says so, that nobody else can make
  one. \<^verbatim>\<open>hmac.compare_digest\<close> compares texts (it raises for texts that are not ASCII, and a key or signature
  that is not base64 raises where it is decoded; here such a text is simply different, such a signature
  invalid). Every reading of the clock is an argument.
\<close>

section \<open>Errors and primitives\<close>

text \<open>\<^verbatim>\<open>ReplayDetectedError\<close> and \<^verbatim>\<open>ExpiredMessageError\<close> are \<^verbatim>\<open>PermissionError\<close>s; a bad signature raises
  \<^verbatim>\<open>InvalidSignature\<close>, which is not.\<close>

datatype security_error =
    ReplayDetectedError string
  | ExpiredMessageError string
  | Denied string
  | InvalidSignature
  | Missing string

record crypto =
  cr_sha256 :: "string \<Rightarrow> string"
  cr_public :: "string \<Rightarrow> string"
  cr_sign :: "string \<Rightarrow> string \<Rightarrow> string"
  cr_verify :: "string \<Rightarrow> string \<Rightarrow> string \<Rightarrow> bool"

definition sound_signatures :: "crypto \<Rightarrow> bool" where
  "sound_signatures C \<longleftrightarrow> (\<forall>m k. cr_verify C m (cr_sign C m k) (cr_public C k))"

text \<open>\<^verbatim>\<open>verify_bytes\<close>.\<close>

definition verify_bytes :: "crypto \<Rightarrow> string \<Rightarrow> string \<Rightarrow> string \<Rightarrow> security_error + unit" where
  "verify_bytes C message signature public_key =
     (if cr_verify C message signature public_key then Inr () else Inl InvalidSignature)"

definition canonical_json :: "string list \<Rightarrow> pydict \<Rightarrow> string" where
  "canonical_json exclude data = json_dumps (PyDict (filter (\<lambda>(k, v). k \<notin> set exclude) data))"

definition sha256_digest :: "crypto \<Rightarrow> string list \<Rightarrow> pydict \<Rightarrow> string" where
  "sha256_digest C exclude data = cr_sha256 C (canonical_json exclude data)"

section \<open>Replay detection\<close>

type_synonym NonceStore = "(string \<times> time) list"

definition consume :: "time \<Rightarrow> string \<Rightarrow> time \<Rightarrow> NonceStore \<Rightarrow> (security_error + unit) \<times> NonceStore" where
  "consume now nonce expires_at seen0 =
     (let seen = filter (\<lambda>(key, expiry). expiry > now) seen0
      in if has_key seen nonce then (Inl (ReplayDetectedError ''message nonce has already been used''), seen)
         else (Inr (), AList.update nonce expires_at seen))"

section \<open>Remote tasks\<close>

record RemoteTaskEnvelope =
  re_id :: string
  re_task_context_id :: string
  re_organisation_id :: string
  re_workspace_id :: string
  re_node_id :: string
  re_user_id :: string
  re_browser_session_id :: string
  re_harness_id :: string
  re_task :: string
  re_required_capabilities :: "string list"
  re_approval_id :: "string option"
  re_nonce :: string
  re_issued_at :: time
  re_expires_at :: time
  re_key_id :: string
  re_signature :: string

definition remote_envelope_dict :: "RemoteTaskEnvelope \<Rightarrow> pydict" where
  "remote_envelope_dict e =
     [(''protocol_version'', PyStr ''1''), (''id'', PyStr (re_id e)),
      (''task_context_id'', PyStr (re_task_context_id e)), (''organisation_id'', PyStr (re_organisation_id e)),
      (''workspace_id'', PyStr (re_workspace_id e)), (''node_id'', PyStr (re_node_id e)),
      (''user_id'', PyStr (re_user_id e)), (''browser_session_id'', PyStr (re_browser_session_id e)),
      (''harness_id'', PyStr (re_harness_id e)), (''task'', PyStr (re_task e)),
      (''required_capabilities'', PyList (map PyStr (re_required_capabilities e))),
      (''approval_id'', opt_str (re_approval_id e)), (''nonce'', PyStr (re_nonce e)),
      (''issued_at'', PyInt (re_issued_at e)), (''expires_at'', PyInt (re_expires_at e)),
      (''key_id'', PyStr (re_key_id e)), (''signature'', PyStr (re_signature e))]"

definition sign_task_envelope :: "crypto \<Rightarrow> RemoteTaskEnvelope \<Rightarrow> string \<Rightarrow> RemoteTaskEnvelope" where
  "sign_task_envelope C e private_key =
     e\<lparr>re_signature := cr_sign C (canonical_json [''signature''] (remote_envelope_dict e)) private_key\<rparr>"

definition verify_envelope :: "crypto \<Rightarrow> time \<Rightarrow> RemoteTaskEnvelope \<Rightarrow> string \<Rightarrow> security_error + unit" where
  "verify_envelope C now e public_key =
     (if re_expires_at e \<le> now then Inl (ExpiredMessageError ''remote task envelope has expired'')
      else verify_bytes C (canonical_json [''signature''] (remote_envelope_dict e)) (re_signature e) public_key)"

section \<open>Connector tasks\<close>

text \<open>What the gateway offers to a node when a connector is to be installed or changed. It is signed with the
  same key as the remote tasks.\<close>

record ConnectorTaskEnvelope =
  cn_task_id :: string
  cn_plan_id :: string
  cn_node_id :: string
  cn_connector_id :: string
  cn_connector_revision :: string
  cn_action :: string
  cn_plan_hash :: string
  cn_executable :: string
  cn_arguments :: "string list"
  cn_method_id :: string
  cn_package_source :: string
  cn_expected_executables :: "string list"
  cn_download_digest :: "string option"
  cn_risk_level :: string
  cn_nonce :: string
  cn_issued_at :: time
  cn_expires_at :: time
  cn_key_id :: string
  cn_signature :: string
  cn_idempotency_key :: string

definition connector_envelope_dict :: "ConnectorTaskEnvelope \<Rightarrow> pydict" where
  "connector_envelope_dict e =
     [(''protocol_version'', PyStr ''1''), (''task_id'', PyStr (cn_task_id e)), (''plan_id'', PyStr (cn_plan_id e)),
      (''node_id'', PyStr (cn_node_id e)), (''connector_id'', PyStr (cn_connector_id e)),
      (''connector_revision'', PyStr (cn_connector_revision e)), (''action'', PyStr (cn_action e)),
      (''plan_hash'', PyStr (cn_plan_hash e)), (''executable'', PyStr (cn_executable e)),
      (''arguments'', PyList (map PyStr (cn_arguments e))), (''method_id'', PyStr (cn_method_id e)),
      (''package_source'', PyStr (cn_package_source e)),
      (''expected_executables'', PyList (map PyStr (cn_expected_executables e))),
      (''download_digest'', opt_str (cn_download_digest e)), (''risk_level'', PyStr (cn_risk_level e)),
      (''nonce'', PyStr (cn_nonce e)), (''issued_at'', PyInt (cn_issued_at e)), (''expires_at'', PyInt (cn_expires_at e)),
      (''key_id'', PyStr (cn_key_id e)), (''signature'', PyStr (cn_signature e)),
      (''idempotency_key'', PyStr (cn_idempotency_key e))]"

definition sign_connector_envelope :: "crypto \<Rightarrow> ConnectorTaskEnvelope \<Rightarrow> string \<Rightarrow> ConnectorTaskEnvelope" where
  "sign_connector_envelope C e private_key =
     e\<lparr>cn_signature := cr_sign C (canonical_json [''signature''] (connector_envelope_dict e)) private_key\<rparr>"

definition verify_connector_envelope :: "crypto \<Rightarrow> time \<Rightarrow> ConnectorTaskEnvelope \<Rightarrow> string \<Rightarrow> security_error + unit" where
  "verify_connector_envelope C now e public_key =
     (if cn_expires_at e \<le> now then Inl (ExpiredMessageError ''connector task envelope has expired'')
      else verify_bytes C (canonical_json [''signature''] (connector_envelope_dict e)) (cn_signature e) public_key)"

section \<open>Plans and approvals\<close>

datatype RiskLevel = RISK_LOW | RISK_MEDIUM | RISK_HIGH | RISK_CRITICAL

fun risk_value :: "RiskLevel \<Rightarrow> string" where
  "risk_value RISK_LOW = ''low''"
| "risk_value RISK_MEDIUM = ''medium''"
| "risk_value RISK_HIGH = ''high''"
| "risk_value RISK_CRITICAL = ''critical''"

record PlanCommand =
  pc_executable :: string
  pc_args :: "string list"
  pc_working_directory :: string
  pc_environment :: "(string \<times> string) list"

record ActionPlan =
  ap_id :: string
  ap_user_id :: string
  ap_browser_session_id :: string
  ap_node_id :: string
  ap_harness_id :: string
  ap_action :: string
  ap_command :: PlanCommand
  ap_risk :: RiskLevel
  ap_expires_at :: time
  ap_plan_hash :: string

record ApprovalDecision =
  ad_id :: string
  ad_plan_id :: string
  ad_plan_hash :: string
  ad_user_id :: string
  ad_browser_session_id :: string
  ad_node_id :: string
  ad_approved :: bool
  ad_decided_at :: time
  ad_expires_at :: time

definition command_dict :: "PlanCommand \<Rightarrow> pydict" where
  "command_dict c =
     [(''executable'', PyStr (pc_executable c)), (''args'', PyList (map PyStr (pc_args c))),
      (''working_directory'', PyStr (pc_working_directory c)),
      (''environment'', PyDict (map (\<lambda>(k, v). (k, PyStr v)) (pc_environment c)))]"

definition plan_dict :: "ActionPlan \<Rightarrow> pydict" where
  "plan_dict p =
     [(''id'', PyStr (ap_id p)), (''user_id'', PyStr (ap_user_id p)),
      (''browser_session_id'', PyStr (ap_browser_session_id p)), (''node_id'', PyStr (ap_node_id p)),
      (''harness_id'', PyStr (ap_harness_id p)), (''action'', PyStr (ap_action p)),
      (''command'', PyDict (command_dict (ap_command p))), (''risk'', PyStr (risk_value (ap_risk p))),
      (''expires_at'', PyInt (ap_expires_at p)), (''plan_hash'', PyStr (ap_plan_hash p))]"

definition plan_digest :: "crypto \<Rightarrow> ActionPlan \<Rightarrow> string" where
  "plan_digest C p = sha256_digest C [''plan_hash''] (plan_dict p)"

definition bind_plan :: "crypto \<Rightarrow> ActionPlan \<Rightarrow> ActionPlan" where
  "bind_plan C p = p\<lparr>ap_plan_hash := plan_digest C p\<rparr>"

text \<open>The clock is read once for the plan and, unless it has expired, again for the decision.\<close>

definition verify_approval :: "crypto \<Rightarrow> time \<Rightarrow> time \<Rightarrow> ActionPlan \<Rightarrow> ApprovalDecision \<Rightarrow> security_error + unit" where
  "verify_approval C now now' p d =
     (if ap_expires_at p \<le> now \<or> ad_expires_at d \<le> now' then Inl (ExpiredMessageError ''plan or approval has expired'')
      else if \<not> ad_approved d then Inl (Denied ''action was not approved'')
      else if ap_plan_hash p \<noteq> plan_digest C p then Inl (Denied ''plan hash is invalid'')
      else if \<not> (ad_plan_id d = ap_id p \<and> ad_plan_hash d = ap_plan_hash p \<and> ad_user_id d = ap_user_id p
                 \<and> ad_browser_session_id d = ap_browser_session_id p \<and> ad_node_id d = ap_node_id p) then
        Inl (Denied ''approval is not bound to this exact plan'')
      else Inr ())"

text \<open>\<^verbatim>\<open>verify_pkce\<close>; \<open>encode\<close> is the unpadded URL-safe base64 of a digest.\<close>

definition verify_pkce :: "crypto \<Rightarrow> (string \<Rightarrow> string) \<Rightarrow> string \<Rightarrow> string \<Rightarrow> bool" where
  "verify_pkce C encode verifier challenge \<longleftrightarrow> encode (cr_sha256 C verifier) = challenge"

section \<open>Lemmas\<close>

text \<open>A consumed nonce is refused until it expires.\<close>

lemma map_of_live:
  "distinct (map fst seen) \<Longrightarrow>
     map_of (filter (\<lambda>(key, expiry). expiry > now) seen) n = (case map_of seen n of Some e \<Rightarrow> if e > now then Some e else None | None \<Rightarrow> None)"
proof (induction seen)
  case (Cons p seen)
  have "map_of seen (fst p) = None" using Cons.prems by (simp add: map_of_eq_None_iff)
  then show ?case using Cons by (cases p) (auto split: option.splits)
qed simp

lemma consume_distinct: "distinct (map fst seen) \<Longrightarrow> distinct (map fst (snd (consume now n e seen)))"
  by (simp add: consume_def Let_def distinct_map_filter distinct_update)

lemma live_key:
  fixes seen :: NonceStore
  assumes "distinct (map fst seen)"
  shows "has_key (filter (\<lambda>(key, expiry). expiry > now) seen) n \<longleftrightarrow> (\<exists>e. map_of seen n = Some e \<and> now < e)"
proof -
  have "has_key d n \<longleftrightarrow> map_of d n \<noteq> None" for d :: NonceStore by (auto simp: has_key_def map_of_eq_None_iff)
  then show ?thesis using map_of_live [OF assms, of now n] by (simp split: option.split)
qed

lemma consume_fresh:
  assumes "distinct (map fst seen)" and "consume now n e seen = (Inr (), seen')"
  shows "map_of seen n = Some e' \<Longrightarrow> e' \<le> now" and "map_of seen' n = Some e"
  using assms live_key [OF assms(1), of now n] by (auto simp: consume_def Let_def update_conv' split: if_splits)

lemma consume_remembers:
  assumes "distinct (map fst seen)" and "map_of seen n = Some e" and "now < e"
  shows "map_of (snd (consume now m f seen)) n = Some e" and "fst (consume now n f seen) \<noteq> Inr ()"
  using assms live_key [OF assms(1), of now n] map_of_live [OF assms(1), of now n] live_key [OF assms(1), of now m]
  by (auto simp: consume_def Let_def update_conv')

text \<open>The canonical text of an envelope determines everything but the signature.\<close>

lemma opt_str_sorted [simp]: "json_sort (opt_str x) = opt_str x"
  by (cases x) (simp_all add: opt_str_def)

lemma opt_str_inj [simp]: "opt_str x = opt_str y \<longleftrightarrow> x = y"
  by (cases x; cases y) (simp_all add: opt_str_def)

lemma canonical_json_eq:
  assumes "dict_ok d" and "dict_ok d'" and "canonical_json ex d = canonical_json ex d'" and "k \<notin> set ex"
  shows "map_option json_sort (map_of d k) = map_option json_sort (map_of d' k)"
proof -
  let ?f = "filter (\<lambda>(k, v). k \<notin> set ex)" and ?g = "map (\<lambda>kv. (fst kv, json_sort (snd kv)))"
  have ok: "dict_ok (?g (?f x))" if "dict_ok x" for x
    using that by (simp add: dict_ok_def comp_def distinct_map_filter)
  have "sort_key fst (?g (?f d)) = sort_key fst (?g (?f d'))"
    using assms(3) by (simp add: canonical_json_def json_dumps_inj)
  then have "map_of (?g (?f d)) k = map_of (?g (?f d')) k"
    using sort_key_dict_eq_iff [OF ok [OF assms(1)] ok [OF assms(2)]] by simp
  moreover have "map_of (?g (?f x)) k = map_option json_sort (map_of x k)" for x :: pydict
    using assms(4) by (induction x) auto
  ultimately show ?thesis by simp
qed

lemma envelope_text_inj:
  assumes "canonical_json [''signature''] (remote_envelope_dict e) = canonical_json [''signature''] (remote_envelope_dict e')"
  shows "e\<lparr>re_signature := re_signature e'\<rparr> = e'"
proof -
  have ok: "dict_ok (remote_envelope_dict x)" for x by (simp add: dict_ok_def remote_envelope_dict_def)
  let ?keys = "[''id'', ''task_context_id'', ''organisation_id'', ''workspace_id'', ''node_id'', ''user_id'',
    ''browser_session_id'', ''harness_id'', ''task'', ''required_capabilities'', ''approval_id'', ''nonce'',
    ''issued_at'', ''expires_at'', ''key_id'']"
  have "map_option json_sort (map_of (remote_envelope_dict e) k) = map_option json_sort (map_of (remote_envelope_dict e') k)"
    if "k \<in> set ?keys" for k
    using that by (intro canonical_json_eq [OF ok ok assms]) auto
  then have "map (\<lambda>k. map_option json_sort (map_of (remote_envelope_dict e) k)) ?keys
      = map (\<lambda>k. map_option json_sort (map_of (remote_envelope_dict e') k)) ?keys"
    by (rule map_cong [OF refl])
  then show ?thesis by (simp add: remote_envelope_dict_def comp_def inj_map_eq_map inj_def)
qed

text \<open>The two kinds of envelopes have no text in common: only one of them has a \<^verbatim>\<open>task_id\<close>.\<close>

lemma envelope_texts_differ:
  "canonical_json [''signature''] (remote_envelope_dict e) \<noteq> canonical_json [''signature''] (connector_envelope_dict c)"
proof
  assume eq: "canonical_json [''signature''] (remote_envelope_dict e) = canonical_json [''signature''] (connector_envelope_dict c)"
  have "dict_ok (remote_envelope_dict e)" "dict_ok (connector_envelope_dict c)"
    by (simp_all add: dict_ok_def remote_envelope_dict_def connector_envelope_dict_def)
  from canonical_json_eq [OF this eq, of "''task_id''"] show False
    by (simp add: remote_envelope_dict_def connector_envelope_dict_def)
qed

end
