(* ===== verification/Approvals.thy ===== *)
theory Approvals
  imports Message_Security
begin

text \<open>
  Approvals of execution directives (\<^verbatim>\<open>src/src/joymesh/execution/approval.py\<close>): a request is bound to an
  execution, an attempt and a directive, a response is signed, and an accepted response is remembered
  by its nonce. Times are integers; identifiers from \<^verbatim>\<open>uuid4\<close> and every reading of the clock are
  arguments. In signed texts a time stands for its ISO text.
\<close>

section \<open>The service\<close>

record ExecutionApprovalRequest =
  eq_approval_id :: string
  eq_execution_id :: string
  eq_attempt_id :: string
  eq_directive_hash :: string
  eq_reason :: string
  eq_created_at :: time
  eq_expires_at :: time
  eq_nonce :: string

record ExecutionApprovalResponse =
  er_approval_id :: string
  er_execution_id :: string
  er_attempt_id :: string
  er_directive_hash :: string
  er_approved :: bool
  er_nonce :: string
  er_expires_at :: time
  er_signature :: string
  er_public_key :: string

record ApprovalContinuationService =
  ac_default_ttl_seconds :: int
  ac_private_key :: string
  ac_public_key :: string
  ac_seen_nonces :: NonceStore
  ac_pending :: "(string \<times> ExecutionApprovalRequest) list"

definition init_ApprovalContinuationService :: "crypto \<Rightarrow> string \<Rightarrow> int \<Rightarrow> ApprovalContinuationService" where
  "init_ApprovalContinuationService C private_key ttl =
     \<lparr>ac_default_ttl_seconds = max 30 ttl, ac_private_key = private_key, ac_public_key = cr_public C private_key,
      ac_seen_nonces = [], ac_pending = []\<rparr>"

definition directive_hash :: "crypto \<Rightarrow> pydict \<Rightarrow> string" where
  "directive_hash C payload = cr_sha256 C (json_dumps (PyDict payload))"

definition request_approval ::
  "crypto \<Rightarrow> string \<Rightarrow> string \<Rightarrow> time \<Rightarrow> time \<Rightarrow> string \<Rightarrow> string \<Rightarrow> pydict \<Rightarrow> string \<Rightarrow> time option
   \<Rightarrow> ApprovalContinuationService \<Rightarrow> ExecutionApprovalRequest \<times> ApprovalContinuationService" where
  "request_approval C approval_id nonce now now' execution_id attempt_id payload reason expires_at svc =
     (let request = \<lparr>eq_approval_id = approval_id, eq_execution_id = execution_id, eq_attempt_id = attempt_id,
            eq_directive_hash = directive_hash C payload, eq_reason = reason, eq_created_at = now',
            eq_expires_at = (case expires_at of Some e \<Rightarrow> e | None \<Rightarrow> now + ac_default_ttl_seconds svc),
            eq_nonce = nonce\<rparr>
      in (request, svc\<lparr>ac_pending := AList.update approval_id request (ac_pending svc)\<rparr>))"

text \<open>The text that is signed: it does not contain the public key.\<close>

definition approval_text :: "string \<Rightarrow> string \<Rightarrow> string \<Rightarrow> string \<Rightarrow> bool \<Rightarrow> string \<Rightarrow> time \<Rightarrow> string" where
  "approval_text approval_id execution_id attempt_id hash approved nonce expires_at =
     json_dumps (PyDict
       [(''approval_id'', PyStr approval_id), (''execution_id'', PyStr execution_id), (''attempt_id'', PyStr attempt_id),
        (''directive_hash'', PyStr hash), (''approved'', PyBool approved), (''nonce'', PyStr nonce),
        (''expires_at'', PyInt expires_at)])"

definition response_text :: "ExecutionApprovalResponse \<Rightarrow> string" where
  "response_text r = approval_text (er_approval_id r) (er_execution_id r) (er_attempt_id r) (er_directive_hash r)
     (er_approved r) (er_nonce r) (er_expires_at r)"

definition sign_response ::
  "crypto \<Rightarrow> time \<Rightarrow> ExecutionApprovalRequest \<Rightarrow> bool \<Rightarrow> ApprovalContinuationService
   \<Rightarrow> security_error + ExecutionApprovalResponse" where
  "sign_response C now request approved svc =
     (if eq_expires_at request \<le> now then Inl (ExpiredMessageError ''approval request has expired'')
      else Inr \<lparr>er_approval_id = eq_approval_id request, er_execution_id = eq_execution_id request,
                er_attempt_id = eq_attempt_id request, er_directive_hash = eq_directive_hash request,
                er_approved = approved, er_nonce = eq_nonce request, er_expires_at = eq_expires_at request,
                er_signature = cr_sign C (approval_text (eq_approval_id request) (eq_execution_id request)
                    (eq_attempt_id request) (eq_directive_hash request) approved (eq_nonce request) (eq_expires_at request))
                  (ac_private_key svc),
                er_public_key = ac_public_key svc\<rparr>)"

text \<open>The clock is read for the expiry of the response and again for that of the nonces.\<close>

definition verify_response ::
  "crypto \<Rightarrow> time \<Rightarrow> time \<Rightarrow> ExecutionApprovalResponse \<Rightarrow> string \<Rightarrow> string \<Rightarrow> string
   \<Rightarrow> ApprovalContinuationService \<Rightarrow> (security_error + unit) \<times> ApprovalContinuationService" where
  "verify_response C now now' r execution_id attempt_id hash svc =
     (if er_expires_at r \<le> now then (Inl (ExpiredMessageError ''approval response has expired''), svc)
      else
        let svc1 = svc\<lparr>ac_seen_nonces := filter (\<lambda>(key, expiry). expiry > now') (ac_seen_nonces svc)\<rparr>
        in if has_key (ac_seen_nonces svc1) (er_nonce r) then
             (Inl (ReplayDetectedError ''approval nonce has already been used''), svc1)
           else if \<not> (er_execution_id r = execution_id \<and> er_attempt_id r = attempt_id \<and> er_directive_hash r = hash) then
             (Inl (Denied ''approval is not bound to this execution''), svc1)
           else case verify_bytes C (response_text r) (er_signature r) (er_public_key r) of
                  Inl e \<Rightarrow> (Inl e, svc1)
                | Inr _ \<Rightarrow>
                    if \<not> er_approved r then (Inl (Denied ''execution was not approved''), svc1)
                    else (Inr (), svc1\<lparr>ac_seen_nonces := AList.update (er_nonce r) (er_expires_at r) (ac_seen_nonces svc1),
                                        ac_pending := AList.delete (er_approval_id r) (ac_pending svc1)\<rparr>))"

section \<open>Presentations of responses\<close>

record approval_presentation =
  pa_now :: time
  pa_now' :: time
  pa_response :: ExecutionApprovalResponse
  pa_execution_id :: string
  pa_attempt_id :: string
  pa_directive_hash :: string

definition verify_presented ::
  "crypto \<Rightarrow> approval_presentation \<Rightarrow> ApprovalContinuationService \<Rightarrow> (security_error + unit) \<times> ApprovalContinuationService" where
  "verify_presented C p svc =
     verify_response C (pa_now p) (pa_now' p) (pa_response p) (pa_execution_id p) (pa_attempt_id p) (pa_directive_hash p) svc"

text \<open>The responses that are accepted when several are presented one after the other.\<close>

fun accepted_responses ::
  "crypto \<Rightarrow> approval_presentation list \<Rightarrow> ApprovalContinuationService \<Rightarrow> ExecutionApprovalResponse list" where
  "accepted_responses C [] svc = []"
| "accepted_responses C (p # ps) svc =
     (case verify_presented C p svc of
        (Inr _, svc1) \<Rightarrow> pa_response p # accepted_responses C ps svc1
      | (Inl _, svc1) \<Rightarrow> accepted_responses C ps svc1)"

text \<open>A presentation does not straddle the expiry of its response: the two readings of the clock fall on
  the same side of it.\<close>

definition clear_of_expiry :: "approval_presentation \<Rightarrow> bool" where
  "clear_of_expiry p \<longleftrightarrow> \<not> (pa_now p < er_expires_at (pa_response p) \<and> er_expires_at (pa_response p) \<le> pa_now' p)"

text \<open>\<open>remembered T seen r\<close>: at time \<open>T\<close> the response \<open>r\<close> has expired or its nonce is known.\<close>

definition remembered :: "time \<Rightarrow> NonceStore \<Rightarrow> ExecutionApprovalResponse \<Rightarrow> bool" where
  "remembered T seen r \<longleftrightarrow> (T < er_expires_at r \<longrightarrow> map_of seen (er_nonce r) = Some (er_expires_at r))"

lemma verify_presented_distinct:
  "distinct (map fst (ac_seen_nonces svc)) \<Longrightarrow> distinct (map fst (ac_seen_nonces (snd (verify_presented C p svc))))"
  by (auto simp: verify_presented_def verify_response_def Let_def distinct_map_filter distinct_update split: sum.split)

lemma verify_presented_remembered:
  assumes "distinct (map fst (ac_seen_nonces svc))" and "remembered T (ac_seen_nonces svc) r" and "T \<le> pa_now' p"
  shows "remembered (pa_now' p) (ac_seen_nonces (snd (verify_presented C p svc))) r"
proof -
  have l: "remembered (pa_now' p) (filter (\<lambda>(key, expiry). expiry > pa_now' p) (ac_seen_nonces svc)) r"
    using assms by (auto simp: remembered_def map_of_live simp del: map_of_eq_Some_iff)
  have "has_key (filter (\<lambda>(key, expiry). expiry > pa_now' p) (ac_seen_nonces svc)) (er_nonce r)" if "pa_now' p < er_expires_at r"
    using assms that live_key [OF assms(1)] by (auto simp: remembered_def simp del: map_of_eq_Some_iff)
  then show ?thesis
    using l assms(2,3)
    by (auto simp: verify_presented_def verify_response_def Let_def remembered_def update_conv' split: sum.split)
qed

lemma verify_presented_remembers:
  assumes "distinct (map fst (ac_seen_nonces svc))" and "verify_presented C p svc = (Inr (), svc')"
  shows "remembered (pa_now' p) (ac_seen_nonces svc') (pa_response p)"
  using assms by (auto simp: verify_presented_def verify_response_def Let_def remembered_def update_conv' split: if_splits sum.splits)

lemma verify_presented_replayed:
  assumes "distinct (map fst (ac_seen_nonces svc))" and "remembered T (ac_seen_nonces svc) (pa_response p)"
    and "T \<le> pa_now' p" and "clear_of_expiry p"
  shows "fst (verify_presented C p svc) \<noteq> Inr ()"
  using assms live_key [OF assms(1), of "pa_now' p" "er_nonce (pa_response p)"]
  by (auto simp: verify_presented_def verify_response_def Let_def remembered_def clear_of_expiry_def)

lemma accepted_responses_new:
  assumes "distinct (map fst (ac_seen_nonces svc))" and "\<forall>r \<in> set old. remembered T (ac_seen_nonces svc) r"
    and "sorted (T # map pa_now' ps)" and "\<forall>p \<in> set ps. clear_of_expiry p"
  shows "distinct (accepted_responses C ps svc) \<and> set (accepted_responses C ps svc) \<inter> set old = {}"
  using assms
proof (induction ps arbitrary: svc old T)
  case (Cons p ps)
  obtain r svc1 where v: "verify_presented C p svc = (r, svc1)" by (metis surj_pair)
  have d: "distinct (map fst (ac_seen_nonces svc1))" using verify_presented_distinct [OF Cons.prems(1), of C p] v by simp
  have T: "T \<le> pa_now' p" "sorted (pa_now' p # map pa_now' ps)" using Cons.prems(3) by auto
  have old: "\<forall>x \<in> set old. remembered (pa_now' p) (ac_seen_nonces svc1) x"
    using verify_presented_remembered [OF Cons.prems(1) _ T(1), of _ C] Cons.prems(2) v by (metis snd_conv)
  show ?case
  proof (cases r)
    case (Inl e)
    then show ?thesis using Cons.IH [OF d old T(2)] Cons.prems(4) v by simp
  next
    case (Inr u)
    then have "verify_presented C p svc = (Inr (), svc1)" using v by simp
    note new = verify_presented_remembers [OF Cons.prems(1) this]
    have "\<forall>x \<in> set (pa_response p # old). remembered (pa_now' p) (ac_seen_nonces svc1) x" using old new by simp
    note IH = Cons.IH [OF d this T(2)]
    have "pa_response p \<notin> set old"
      using verify_presented_replayed [OF Cons.prems(1) _ T(1), of C] Cons.prems(2,4) v Inr by auto
    then show ?thesis using IH Cons.prems(4) v Inr by auto
  qed
qed simp

section \<open>Properties\<close>

text \<open>C39: An approval is accepted at most once. However responses are presented, at times that do not go
  back, and unless the two readings of the clock within one call lie on different sides of the expiry,
  no response is accepted twice.\<close>

theorem approval_accepted_once:
  assumes "sorted (map pa_now' ps)" and "\<forall>p \<in> set ps. clear_of_expiry p"
  shows "distinct (accepted_responses C ps (init_ApprovalContinuationService C private_key ttl))"
proof (cases ps)
  case (Cons p qs)
  let ?svc = "init_ApprovalContinuationService C private_key ttl"
  have d: "distinct (map fst (ac_seen_nonces ?svc))" by (simp add: init_ApprovalContinuationService_def)
  have t: "sorted (pa_now' p # map pa_now' ps)" using assms(1) Cons by simp
  show ?thesis using accepted_responses_new [OF d _ t assms(2), of "[]" C] by simp
qed simp

text \<open>Between the readings an approval is accepted again. When a response is presented again just before
  it expires, so that the first reading of the clock still precedes the expiry and the second does not,
  its nonce is forgotten before it is looked up, and the replay is accepted.\<close>

theorem approval_replayed_at_expiry:
  assumes "verify_response C now now' r execution_id attempt_id hash svc = (Inr (), svc1)"
    and "distinct (map fst (ac_seen_nonces svc))"
    and "now2 < er_expires_at r" and "er_expires_at r \<le> now2'"
  shows "fst (verify_response C now2 now2' r execution_id attempt_id hash svc1) = Inr ()"
proof -
  have 1: "map_of (ac_seen_nonces svc1) (er_nonce r) = Some (er_expires_at r)" "distinct (map fst (ac_seen_nonces svc1))"
    using assms(1,2) by (auto simp: verify_response_def Let_def update_conv' distinct_map_filter distinct_update split: if_splits sum.splits)
  then have "\<not> has_key (filter (\<lambda>(key, expiry). expiry > now2') (ac_seen_nonces svc1)) (er_nonce r)"
    using live_key [OF 1(2), of now2' "er_nonce r"] assms(4) by (simp del: map_of_eq_Some_iff)
  then show ?thesis
    using assms(1,3) by (auto simp: verify_response_def Let_def split: if_splits sum.splits)
qed

text \<open>A response that somebody makes with a key of their own.\<close>

definition forged_response :: "crypto \<Rightarrow> string \<Rightarrow> string \<Rightarrow> string \<Rightarrow> time \<Rightarrow> string \<Rightarrow> string \<Rightarrow> string \<Rightarrow> ExecutionApprovalResponse" where
  "forged_response C key approval_id nonce expires_at execution_id attempt_id hash =
     \<lparr>er_approval_id = approval_id, er_execution_id = execution_id, er_attempt_id = attempt_id,
      er_directive_hash = hash, er_approved = True, er_nonce = nonce, er_expires_at = expires_at,
      er_signature = cr_sign C (approval_text approval_id execution_id attempt_id hash True nonce expires_at) key,
      er_public_key = cr_public C key\<rparr>"

text \<open>C40: Anybody can approve. The signature is checked against the public key that the response itself brings
  along, which the signed text does not even contain, and the pending requests are not consulted: a
  response made with any private key, for a request that was never made, is accepted.\<close>

theorem forged_approval_accepted:
  assumes "sound_signatures C" and "now < expires_at" and "\<not> has_key (ac_seen_nonces svc) nonce"
  shows "fst (verify_response C now now' (forged_response C key approval_id nonce expires_at execution_id attempt_id hash)
     execution_id attempt_id hash svc) = Inr ()"
  using assms
  by (auto simp: verify_response_def forged_response_def verify_bytes_def response_text_def sound_signatures_def
      Let_def has_key_def)

text \<open>A toy signature scheme for the examples: the public key is the private key written backwards.\<close>

definition toy_crypto :: crypto where
  "toy_crypto = \<lparr>cr_sha256 = (\<lambda>s. s), cr_public = rev, cr_sign = (\<lambda>m k. k @ ''#'' @ m),
     cr_verify = (\<lambda>m s p. s = rev p @ ''#'' @ m)\<rparr>"

lemma toy_sound: "sound_signatures toy_crypto"
  by (simp add: sound_signatures_def toy_crypto_def)

definition toy_service :: ApprovalContinuationService where
  "toy_service = init_ApprovalContinuationService toy_crypto ''ab'' 900"

theorem forged_approval_accepted_witness:
  "fst (verify_response toy_crypto 5 6 (forged_response toy_crypto ''xy'' ''none'' ''n1'' 100 ''e1'' ''a1'' ''h'') ''e1'' ''a1'' ''h''
     toy_service) = Inr () \<and> cr_public toy_crypto ''xy'' \<noteq> ac_public_key toy_service \<and> ac_pending toy_service = []"
  using forged_approval_accepted [OF toy_sound, of 5 100 toy_service "''n1''"]
  by (simp add: toy_service_def init_ApprovalContinuationService_def has_key_def toy_crypto_def)

theorem approval_replayed_at_expiry_witness:
  "\<exists>svc1. fst (verify_response toy_crypto 99 100 (forged_response toy_crypto ''ab'' ''p1'' ''n1'' 100 ''e1'' ''a1'' ''h'')
     ''e1'' ''a1'' ''h'' svc1) = Inr ()"
proof -
  let ?r = "forged_response toy_crypto ''ab'' ''p1'' ''n1'' 100 ''e1'' ''a1'' ''h''"
  obtain x svc1 where v: "verify_response toy_crypto 5 6 ?r ''e1'' ''a1'' ''h'' toy_service = (x, svc1)" by (metis surj_pair)
  have "fst (verify_response toy_crypto 5 6 ?r ''e1'' ''a1'' ''h'' toy_service) = Inr ()" by code_simp
  with v have "verify_response toy_crypto 5 6 ?r ''e1'' ''a1'' ''h'' toy_service = (Inr (), svc1)" by simp
  from approval_replayed_at_expiry [OF this, of 99 100] show ?thesis
    by (auto simp: toy_service_def init_ApprovalContinuationService_def forged_response_def)
qed

theorem approval_accepted_once_witness:
  "\<exists>r. accepted_responses toy_crypto
     [\<lparr>pa_now = 5, pa_now' = 6, pa_response = r, pa_execution_id = ''e1'', pa_attempt_id = ''a1'', pa_directive_hash = ''h''\<rparr>,
      \<lparr>pa_now = 7, pa_now' = 8, pa_response = r, pa_execution_id = ''e1'', pa_attempt_id = ''a1'', pa_directive_hash = ''h''\<rparr>]
     toy_service = [r]"
proof -
  let ?r = "forged_response toy_crypto ''ab'' ''p1'' ''n1'' 100 ''e1'' ''a1'' ''h''"
  let ?ps = "[\<lparr>pa_now = 5, pa_now' = 6, pa_response = ?r, pa_execution_id = ''e1'', pa_attempt_id = ''a1'', pa_directive_hash = ''h''\<rparr>,
      \<lparr>pa_now = 7, pa_now' = 8, pa_response = ?r, pa_execution_id = ''e1'', pa_attempt_id = ''a1'', pa_directive_hash = ''h''\<rparr>]"
  have 1: "fst (verify_presented toy_crypto (hd ?ps) toy_service) = Inr ()" by code_simp
  then obtain svc1 where "verify_presented toy_crypto (hd ?ps) toy_service = (Inr (), svc1)" by (metis prod.collapse)
  then have "accepted_responses toy_crypto ?ps toy_service = ?r # accepted_responses toy_crypto (tl ?ps) svc1" by simp
  moreover have "accepted_responses toy_crypto (tl ?ps) svc1 \<in> {[], [?r]}" by (auto split: prod.split sum.split)
  moreover have "distinct (accepted_responses toy_crypto ?ps toy_service)"
    unfolding toy_service_def by (rule approval_accepted_once) (auto simp: clear_of_expiry_def forged_response_def)
  ultimately have "accepted_responses toy_crypto ?ps toy_service = [?r]" by (auto simp del: accepted_responses.simps)
  then show ?thesis by blast
qed

end
