(* ===== verification/Control_Plane.thy ===== *)
theory Control_Plane
  imports Message_Security
begin

text \<open>
  The control plane and the node's side of remote tasks: pairing and registration of nodes, workspace
  grants, approvals, remote tasks and revocation (\<^verbatim>\<open>ControlPlane\<close> in
  \<^verbatim>\<open>src/src/joymesh/control_plane/service.py\<close>, without the onboarding progress) and
  \<^verbatim>\<open>NodeTaskValidator\<close> of \<^verbatim>\<open>node.py\<close>. Dictionaries are association lists in insertion order; times are
  seconds; identifiers, secrets and clock readings are arguments. Resolving a path inside a workspace
  root is an argument.
\<close>

section \<open>State\<close>

record PairingSession =
  ps_id :: string
  ps_organisation_id :: string
  ps_workspace_id :: string
  ps_user_code :: string
  ps_device_code_hash :: string
  ps_code_challenge :: string
  ps_expires_at :: time
  ps_interval_seconds :: int
  ps_approved_by_user_id :: "string option"

record NodeRegistration =
  nr_id :: string
  nr_organisation_id :: string
  nr_workspace_id :: string
  nr_name :: string
  nr_public_key :: string
  nr_key_id :: string
  nr_platform :: string
  nr_version :: string
  nr_created_at :: time
  nr_revoked_at :: "time option"

record WorkspaceGrant =
  wg_id :: string
  wg_workspace_id :: string
  wg_node_id :: string
  wg_root_path :: string
  wg_allow_read :: bool
  wg_allow_write :: bool
  wg_allow_shell :: bool
  wg_created_at :: time
  wg_revoked_at :: "time option"

text \<open>The identifier and the time of an audit event are left out.\<close>

record AuditEvent =
  ae_organisation_id :: string
  ae_actor_id :: string
  ae_action :: string
  ae_target_type :: string
  ae_target_id :: string
  ae_outcome :: string
  ae_metadata :: pydict

record ControlPlane =
  cp_pairings :: "(string \<times> PairingSession) list"
  cp_nodes :: "(string \<times> NodeRegistration) list"
  cp_grants :: "(string \<times> WorkspaceGrant) list"
  cp_plans :: "(string \<times> ActionPlan) list"
  cp_approvals :: "(string \<times> ApprovalDecision) list"
  cp_tasks :: "(string \<times> RemoteTaskEnvelope) list"
  cp_audit :: "AuditEvent list"
  cp_nonces :: NonceStore

definition init_ControlPlane :: ControlPlane where
  "init_ControlPlane = \<lparr>cp_pairings = [], cp_nodes = [], cp_grants = [], cp_plans = [], cp_approvals = [],
     cp_tasks = [], cp_audit = [], cp_nonces = []\<rparr>"

text \<open>\<^verbatim>\<open>_audit\<close>.\<close>

definition audit_entry :: "string \<Rightarrow> string option \<Rightarrow> string \<Rightarrow> string \<Rightarrow> string \<Rightarrow> pydict \<Rightarrow> ControlPlane \<Rightarrow> ControlPlane" where
  "audit_entry organisation_id actor_id action_name target_type target_id metadata s =
     s\<lparr>cp_audit := cp_audit s @ [\<lparr>ae_organisation_id = organisation_id,
         ae_actor_id = (if opt_truthy actor_id then the actor_id else ''system''), ae_action = action_name,
         ae_target_type = target_type, ae_target_id = target_id, ae_outcome = ''success'', ae_metadata = metadata\<rparr>]\<rparr>"

section \<open>Pairing\<close>

definition begin_pairing ::
  "crypto \<Rightarrow> string \<Rightarrow> string \<Rightarrow> string \<Rightarrow> time \<Rightarrow> string \<Rightarrow> string \<Rightarrow> string \<Rightarrow> ControlPlane
   \<Rightarrow> (PairingSession \<times> string) \<times> ControlPlane" where
  "begin_pairing C pairing_id user_code device_code now organisation_id workspace_id code_challenge s =
     (let pairing = \<lparr>ps_id = pairing_id, ps_organisation_id = organisation_id, ps_workspace_id = workspace_id,
            ps_user_code = user_code, ps_device_code_hash = cr_sha256 C device_code, ps_code_challenge = code_challenge,
            ps_expires_at = now + 600, ps_interval_seconds = 5, ps_approved_by_user_id = None\<rparr>
      in ((pairing, device_code), s\<lparr>cp_pairings := AList.update pairing_id pairing (cp_pairings s)\<rparr>))"

text \<open>The status, whether it is approved, and the node. The first choice of a node in the code is always
  replaced or excluded by the second, except for an approval by a user with the empty identifier.\<close>

definition pairing_status ::
  "time \<Rightarrow> string \<Rightarrow> ControlPlane \<Rightarrow> security_error + string \<times> bool \<times> NodeRegistration option" where
  "pairing_status now pairing_id s =
     (case map_of (cp_pairings s) pairing_id of
        None \<Rightarrow> Inl (Missing ''pairing session not found'')
      | Some pairing \<Rightarrow>
          let expired = (ps_expires_at pairing \<le> now);
              candidates = filter (\<lambda>n. nr_workspace_id n = ps_workspace_id pairing
                 \<and> nr_organisation_id n = ps_organisation_id pairing \<and> nr_revoked_at n = None) (map snd (cp_nodes s));
              node = (if opt_truthy (ps_approved_by_user_id pairing) then
                        (if candidates = [] then None else Some (last candidates))
                      else if ps_approved_by_user_id pairing \<noteq> None \<and> candidates \<noteq> [] then Some (hd candidates)
                      else None);
              status = (if expired \<and> node = None then ''expired''
                        else if opt_truthy (ps_approved_by_user_id pairing) \<and> node = None then ''approved_waiting_for_node''
                        else if node \<noteq> None then ''paired'' else ''pending'')
          in Inr (status, ps_approved_by_user_id pairing \<noteq> None, node))"

definition cancel_pairing :: "time \<Rightarrow> string \<Rightarrow> ControlPlane \<Rightarrow> (security_error + unit) \<times> ControlPlane" where
  "cancel_pairing now pairing_id s =
     (case map_of (cp_pairings s) pairing_id of
        None \<Rightarrow> (Inl (Missing ''pairing session not found''), s)
      | Some pairing \<Rightarrow>
          (Inr (), s\<lparr>cp_pairings := AList.update pairing_id (pairing\<lparr>ps_expires_at := now\<rparr>) (cp_pairings s)\<rparr>))"

definition approve_pairing :: "time \<Rightarrow> string \<Rightarrow> string \<Rightarrow> ControlPlane \<Rightarrow> (security_error + PairingSession) \<times> ControlPlane" where
  "approve_pairing now pairing_id user_id s =
     (case map_of (cp_pairings s) pairing_id of
        None \<Rightarrow> (Inl (Missing pairing_id), s)
      | Some pairing \<Rightarrow>
          if ps_expires_at pairing \<le> now then (Inl (Denied ''pairing session expired''), s)
          else let updated = pairing\<lparr>ps_approved_by_user_id := Some user_id\<rparr>
               in (Inr updated, s\<lparr>cp_pairings := AList.update pairing_id updated (cp_pairings s)\<rparr>))"

text \<open>What a node says of itself, and the identifier and time of its registration.\<close>

record node_details =
  nd_id :: string
  nd_name :: string
  nd_public_key :: string
  nd_key_id :: string
  nd_platform :: string
  nd_version :: string
  nd_created_at :: time

definition register_paired_node ::
  "crypto \<Rightarrow> time \<Rightarrow> string \<Rightarrow> string \<Rightarrow> node_details \<Rightarrow> ControlPlane \<Rightarrow> (security_error + NodeRegistration) \<times> ControlPlane" where
  "register_paired_node C now pairing_id device_code d s =
     (case map_of (cp_pairings s) pairing_id of
        None \<Rightarrow> (Inl (Missing pairing_id), s)
      | Some pairing \<Rightarrow>
          if ps_expires_at pairing \<le> now \<or> ps_approved_by_user_id pairing = None then
            (Inl (Denied ''pairing is not approved''), s)
          else if cr_sha256 C device_code \<noteq> ps_device_code_hash pairing then (Inl (Denied ''invalid device code''), s)
          else let node = \<lparr>nr_id = nd_id d, nr_organisation_id = ps_organisation_id pairing,
                     nr_workspace_id = ps_workspace_id pairing, nr_name = nd_name d, nr_public_key = nd_public_key d,
                     nr_key_id = nd_key_id d, nr_platform = nd_platform d, nr_version = nd_version d,
                     nr_created_at = nd_created_at d, nr_revoked_at = None\<rparr>
               in (Inr node, audit_entry (nr_organisation_id node) (ps_approved_by_user_id pairing) ''node.register''
                     ''node'' (nr_id node) [] (s\<lparr>cp_nodes := AList.update (nr_id node) node (cp_nodes s)\<rparr>)))"

section \<open>Grants, plans and tasks\<close>

text \<open>The grant is stored before the node is looked up.\<close>

definition grant_workspace :: "WorkspaceGrant \<Rightarrow> string \<Rightarrow> ControlPlane \<Rightarrow> (security_error + WorkspaceGrant) \<times> ControlPlane" where
  "grant_workspace grant actor_id s =
     (let s1 = s\<lparr>cp_grants := AList.update (wg_id grant) grant (cp_grants s)\<rparr>
      in case map_of (cp_nodes s1) (wg_node_id grant) of
           None \<Rightarrow> (Inl (Missing (wg_node_id grant)), s1)
         | Some node \<Rightarrow>
             (Inr grant, audit_entry (nr_organisation_id node) (Some actor_id) ''workspace.grant'' ''workspace_grant''
                (wg_id grant) [] s1))"

definition save_plan :: "ActionPlan \<Rightarrow> ControlPlane \<Rightarrow> ControlPlane" where
  "save_plan plan s = s\<lparr>cp_plans := AList.update (ap_id plan) plan (cp_plans s)\<rparr>"

definition decide :: "crypto \<Rightarrow> time \<Rightarrow> time \<Rightarrow> ApprovalDecision \<Rightarrow> ControlPlane \<Rightarrow> (security_error + ApprovalDecision) \<times> ControlPlane" where
  "decide C now now' decision s =
     (case map_of (cp_plans s) (ad_plan_id decision) of
        None \<Rightarrow> (Inl (Missing (ad_plan_id decision)), s)
      | Some plan \<Rightarrow>
          (case verify_approval C now now' plan decision of
             Inl e \<Rightarrow> (Inl e, s)
           | Inr _ \<Rightarrow> (Inr decision, s\<lparr>cp_approvals := AList.update (ad_id decision) decision (cp_approvals s)\<rparr>)))"

definition live_grant :: "string \<Rightarrow> string \<Rightarrow> WorkspaceGrant \<Rightarrow> bool" where
  "live_grant node_id workspace_id grant \<longleftrightarrow>
     wg_node_id grant = node_id \<and> wg_workspace_id grant = workspace_id \<and> wg_revoked_at grant = None"

definition create_remote_task ::
  "crypto \<Rightarrow> time \<Rightarrow> string \<Rightarrow> RemoteTaskEnvelope \<Rightarrow> ControlPlane \<Rightarrow> (security_error + RemoteTaskEnvelope) \<times> ControlPlane" where
  "create_remote_task C now private_key e s =
     (case map_of (cp_nodes s) (re_node_id e) of
        None \<Rightarrow> (Inl (Denied ''node is unavailable or revoked''), s)
      | Some node \<Rightarrow>
          if nr_revoked_at node \<noteq> None then (Inl (Denied ''node is unavailable or revoked''), s)
          else if nr_organisation_id node \<noteq> re_organisation_id e then
            (Inl (Denied ''cross-organisation task rejected''), s)
          else if filter (live_grant (nr_id node) (re_workspace_id e)) (map snd (cp_grants s)) = [] then
            (Inl (Denied ''workspace has not been granted to this node''), s)
          else (case consume now (re_nonce e) (re_expires_at e) (cp_nonces s) of
                  (Inl x, seen) \<Rightarrow> (Inl x, s\<lparr>cp_nonces := seen\<rparr>)
                | (Inr _, seen) \<Rightarrow>
                    let signed = sign_task_envelope C e private_key
                    in (Inr signed, audit_entry (re_organisation_id signed) (Some (re_user_id signed)) ''remote_task.create''
                          ''remote_task'' (re_id signed) [(''harness_id'', PyStr (re_harness_id signed))]
                          (s\<lparr>cp_nonces := seen, cp_tasks := AList.update (re_id signed) signed (cp_tasks s)\<rparr>))))"

definition revoke_node :: "time \<Rightarrow> string \<Rightarrow> string \<Rightarrow> ControlPlane \<Rightarrow> (security_error + NodeRegistration) \<times> ControlPlane" where
  "revoke_node now node_id actor_id s =
     (case map_of (cp_nodes s) node_id of
        None \<Rightarrow> (Inl (Missing node_id), s)
      | Some node \<Rightarrow>
          let updated = node\<lparr>nr_revoked_at := Some now\<rparr>
          in (Inr updated, audit_entry (nr_organisation_id node) (Some actor_id) ''node.revoke'' ''node'' node_id []
                (s\<lparr>cp_nodes := AList.update node_id updated (cp_nodes s)\<rparr>)))"

text \<open>Any sequence of operations, with the list of the envelopes that were signed. Identifiers from \<^verbatim>\<open>uuid4\<close>
  are new.\<close>

inductive cp_step :: "crypto \<Rightarrow> ControlPlane \<Rightarrow> ControlPlane \<Rightarrow> bool" for C where
  pair: "map_of (cp_pairings s) i = None \<Longrightarrow> cp_step C s (snd (begin_pairing C i u d now org ws ch s))"
| cancel: "cp_step C s (snd (cancel_pairing now i s))"
| approve: "cp_step C s (snd (approve_pairing now i user s))"
| register: "map_of (cp_nodes s) (nd_id det) = None \<Longrightarrow> cp_step C s (snd (register_paired_node C now i d det s))"
| grant: "cp_step C s (snd (grant_workspace g actor s))"
| plan: "cp_step C s (save_plan p s)"
| decision: "cp_step C s (snd (decide C now now' dec s))"
| revoke: "cp_step C s (snd (revoke_node now n actor s))"

text \<open>The gateway signs connector tasks with the same key \<open>K\<close>; \<open>cs\<close> lists them.\<close>

inductive cp_run :: "crypto \<Rightarrow> string \<Rightarrow> RemoteTaskEnvelope list \<Rightarrow> ConnectorTaskEnvelope list \<Rightarrow> ControlPlane \<Rightarrow> bool" for C K where
  start: "cp_run C K [] [] init_ControlPlane"
| operation: "cp_run C K l cs s \<Longrightarrow> cp_step C s s' \<Longrightarrow> cp_run C K l cs s'"
| signed: "cp_run C K l cs s \<Longrightarrow> create_remote_task C now K e s = (Inr e', s') \<Longrightarrow> cp_run C K (e' # l) cs s'"
| refused: "cp_run C K l cs s \<Longrightarrow> create_remote_task C now K e s = (Inl x, s') \<Longrightarrow> cp_run C K l cs s'"
| offered: "cp_run C K l cs s \<Longrightarrow> cp_run C K l (sign_connector_envelope C c K # cs) s"

text \<open>The texts that were signed.\<close>

definition signed_texts :: "RemoteTaskEnvelope list \<Rightarrow> ConnectorTaskEnvelope list \<Rightarrow> string set" where
  "signed_texts l cs = (\<lambda>t. canonical_json [''signature''] (remote_envelope_dict t)) ` set l
     \<union> (\<lambda>c. canonical_json [''signature''] (connector_envelope_dict c)) ` set cs"

section \<open>The node's validator\<close>

record NodeTaskValidator =
  nv_public_key :: string
  nv_nonces :: NonceStore

definition validate_task ::
  "crypto \<Rightarrow> time \<Rightarrow> time \<Rightarrow> (string \<Rightarrow> string \<Rightarrow> security_error + string) \<Rightarrow> RemoteTaskEnvelope \<Rightarrow> string
   \<Rightarrow> WorkspaceGrant list \<Rightarrow> string \<Rightarrow> NodeTaskValidator \<Rightarrow> (security_error + string) \<times> NodeTaskValidator" where
  "validate_task C now now' resolve e node_id grants requested_path v =
     (case verify_envelope C now e (nv_public_key v) of
        Inl x \<Rightarrow> (Inl x, v)
      | Inr _ \<Rightarrow>
          (case consume now' (re_nonce e) (re_expires_at e) (nv_nonces v) of
             (Inl x, seen) \<Rightarrow> (Inl x, v\<lparr>nv_nonces := seen\<rparr>)
           | (Inr _, seen) \<Rightarrow>
               (if re_node_id e \<noteq> node_id then Inl (Denied ''task is addressed to another node'')
                else case find (live_grant node_id (re_workspace_id e)) grants of
                       None \<Rightarrow> Inl (Denied ''workspace permission is missing or revoked'')
                     | Some grant \<Rightarrow> resolve (wg_root_path grant) requested_path,
                v\<lparr>nv_nonces := seen\<rparr>)))"

section \<open>Invariants\<close>

text \<open>Every node was registered with an approved pairing of its organisation and workspace.\<close>

definition paired :: "ControlPlane \<Rightarrow> NodeRegistration \<Rightarrow> bool" where
  "paired s n \<longleftrightarrow> (\<exists>p \<in> snd ` set (cp_pairings s). ps_organisation_id p = nr_organisation_id n
     \<and> ps_workspace_id p = nr_workspace_id n \<and> ps_approved_by_user_id p \<noteq> None)"

definition cp_inv :: "ControlPlane \<Rightarrow> bool" where
  "cp_inv s \<longleftrightarrow> distinct (map fst (cp_pairings s)) \<and> distinct (map fst (cp_nodes s))
     \<and> (\<forall>i n. map_of (cp_nodes s) i = Some n \<longrightarrow> nr_id n = i \<and> paired s n)"

definition task_node :: "ControlPlane \<Rightarrow> RemoteTaskEnvelope \<Rightarrow> bool" where
  "task_node s t \<longleftrightarrow> (\<exists>n. map_of (cp_nodes s) (re_node_id t) = Some n \<and> nr_organisation_id n = re_organisation_id t)"

lemma audited [simp]:
  "cp_pairings (audit_entry a b c d e f s) = cp_pairings s" "cp_nodes (audit_entry a b c d e f s) = cp_nodes s"
  "cp_tasks (audit_entry a b c d e f s) = cp_tasks s"
  by (simp_all add: audit_entry_def)

text \<open>A pairing that is replaced keeps its organisation and workspace, and its approval unless it is made one.\<close>

lemma paired_update:
  assumes "paired s n" and "distinct (map fst (cp_pairings s))" and "cp_pairings s' = AList.update i q (cp_pairings s)"
    and "\<And>p. map_of (cp_pairings s) i = Some p \<Longrightarrow> ps_organisation_id q = ps_organisation_id p
      \<and> ps_workspace_id q = ps_workspace_id p \<and> (ps_approved_by_user_id p \<noteq> None \<longrightarrow> ps_approved_by_user_id q \<noteq> None)"
  shows "paired s' n"
proof -
  obtain j p where p: "map_of (cp_pairings s) j = Some p" "ps_organisation_id p = nr_organisation_id n"
      "ps_workspace_id p = nr_workspace_id n" "ps_approved_by_user_id p \<noteq> None"
    using assms(1,2) by (auto simp: paired_def)
  have "map_of (cp_pairings s') j = Some (if j = i then q else p)" using p(1) assms(3) by (simp add: update_conv')
  from image_eqI [OF _ map_of_SomeD [OF this], where f = snd]
  have "(if j = i then q else p) \<in> snd ` set (cp_pairings s')" by simp
  moreover have "ps_organisation_id (if j = i then q else p) = nr_organisation_id n
      \<and> ps_workspace_id (if j = i then q else p) = nr_workspace_id n \<and> ps_approved_by_user_id (if j = i then q else p) \<noteq> None"
  proof (cases "j = i")
    case True
    with p assms(4) [of p] show ?thesis by simp
  qed (use p in simp)
  ultimately show ?thesis unfolding paired_def by (rule bexI [rotated])
qed

lemma paired_same: "cp_pairings s' = cp_pairings s \<Longrightarrow> paired s' n = paired s n"
  by (simp add: paired_def)

lemma pairings_updated:
  assumes "cp_inv s" and "cp_pairings s' = AList.update i q (cp_pairings s)" and "cp_nodes s' = cp_nodes s"
    and "\<And>p. map_of (cp_pairings s) i = Some p \<Longrightarrow> ps_organisation_id q = ps_organisation_id p
      \<and> ps_workspace_id q = ps_workspace_id p \<and> (ps_approved_by_user_id p \<noteq> None \<longrightarrow> ps_approved_by_user_id q \<noteq> None)"
  shows "cp_inv s'"
  unfolding cp_inv_def
proof (intro conjI allI impI)
  show "distinct (map fst (cp_pairings s'))" using assms(1,2) by (simp add: cp_inv_def distinct_update)
  show "distinct (map fst (cp_nodes s'))" using assms(1,3) by (simp add: cp_inv_def)
  fix j n
  assume "map_of (cp_nodes s') j = Some n"
  then have n: "nr_id n = j" "paired s n" using assms(1,3) unfolding cp_inv_def by metis+
  show "nr_id n = j" by (rule n(1))
  have "distinct (map fst (cp_pairings s))" using assms(1) by (simp add: cp_inv_def)
  from paired_update [OF n(2) this assms(2,4)] show "paired s' n" .
qed

lemma node_updated:
  assumes "cp_inv s" and "cp_pairings s' = cp_pairings s" and "cp_nodes s' = AList.update i n (cp_nodes s)"
    and "nr_id n = i" and "paired s n"
  shows "cp_inv s'"
  unfolding cp_inv_def
proof (intro conjI allI impI)
  show "distinct (map fst (cp_pairings s'))" using assms(1,2) by (simp add: cp_inv_def)
  show "distinct (map fst (cp_nodes s'))" using assms(1,3) by (simp add: cp_inv_def distinct_update)
  fix j m
  assume "map_of (cp_nodes s') j = Some m"
  then have "j = i \<and> m = n \<or> map_of (cp_nodes s) j = Some m" using assms(3) by (auto simp: update_conv' split: if_splits)
  then have "nr_id m = j \<and> paired s m" using assms(1,4,5) unfolding cp_inv_def by metis
  then show "nr_id m = j" "paired s' m" using paired_same [OF assms(2)] by simp_all
qed

lemma cp_unchanged: "cp_inv s \<Longrightarrow> cp_pairings s' = cp_pairings s \<Longrightarrow> cp_nodes s' = cp_nodes s \<Longrightarrow> cp_inv s'"
  by (simp add: cp_inv_def paired_def)

lemma cp_step_inv:
  assumes "cp_step C s s'" and "cp_inv s"
  shows "cp_inv s'"
  using assms(1)
proof (cases rule: cp_step.cases)
  case (pair i u d now org ws ch)
  show ?thesis unfolding pair by (rule pairings_updated [OF assms(2)]) (use pair in \<open>auto simp: begin_pairing_def Let_def\<close>)
next
  case (cancel now i)
  show ?thesis
  proof (cases "map_of (cp_pairings s) i")
    case (Some p)
    show ?thesis unfolding cancel by (rule pairings_updated [OF assms(2)]) (use Some in \<open>auto simp: cancel_pairing_def\<close>)
  qed (use cancel assms(2) in \<open>simp add: cancel_pairing_def\<close>)
next
  case (approve now i user)
  show ?thesis
  proof (cases "map_of (cp_pairings s) i")
    case (Some p)
    show ?thesis
    proof (cases "ps_expires_at p \<le> now")
      case False
      show ?thesis unfolding approve
        by (rule pairings_updated [OF assms(2)]) (use Some False in \<open>auto simp: approve_pairing_def Let_def\<close>)
    qed (use approve assms(2) Some in \<open>simp add: approve_pairing_def\<close>)
  qed (use approve assms(2) in \<open>simp add: approve_pairing_def\<close>)
next
  case (register det now i d)
  show ?thesis
  proof (cases "fst (register_paired_node C now i d det s)")
    case (Inl e)
    then have "snd (register_paired_node C now i d det s) = s"
      by (auto simp: register_paired_node_def Let_def split: option.splits if_splits)
    then show ?thesis using register assms(2) by simp
  next
    case (Inr n)
    then obtain p where p: "map_of (cp_pairings s) i = Some p" "ps_approved_by_user_id p \<noteq> None"
        "nr_organisation_id n = ps_organisation_id p" "nr_workspace_id n = ps_workspace_id p" "nr_id n = nd_id det"
        "cp_nodes s' = AList.update (nd_id det) n (cp_nodes s)" "cp_pairings s' = cp_pairings s"
      using register by (auto simp: register_paired_node_def Let_def split: option.splits if_splits)
    then have "paired s n" unfolding paired_def using image_eqI [OF _ map_of_SomeD [OF p(1)], where f = snd] by (intro bexI [of _ p]) auto
    then show ?thesis using node_updated [OF assms(2) p(7,6,5)] by simp
  qed
next
  case (revoke now n actor)
  show ?thesis
  proof (cases "map_of (cp_nodes s) n")
    case (Some r)
    then have r: "nr_id r = n" "paired s r" using assms(2) by (simp_all add: cp_inv_def)
    show ?thesis unfolding revoke
      by (rule node_updated [OF assms(2), where i = n and n = "r\<lparr>nr_revoked_at := Some now\<rparr>"])
        (use Some r in \<open>auto simp: revoke_node_def Let_def paired_def\<close>)
  qed (use revoke assms(2) in \<open>simp add: revoke_node_def\<close>)
qed (auto intro!: cp_unchanged [OF assms(2)] simp: grant_workspace_def save_plan_def decide_def Let_def split: option.split sum.split)

text \<open>A registered node stays registered, in its organisation.\<close>

lemma cp_step_task_node:
  assumes "cp_step C s s'" and "task_node s t"
  shows "task_node s' t"
proof -
  have same: "task_node s' t" if "cp_nodes s' = cp_nodes s" using that assms(2) by (simp add: task_node_def)
  show ?thesis
    using assms(1)
  proof (cases rule: cp_step.cases)
    case (register det now i d)
    have "cp_nodes s' = cp_nodes s \<or> (\<exists>n. cp_nodes s' = AList.update (nd_id det) n (cp_nodes s))"
      unfolding register by (auto simp: register_paired_node_def Let_def split: option.split)
    then show ?thesis
      using same assms(2) register(2) by (auto simp: task_node_def update_conv')
  next
    case (revoke now n actor)
    show ?thesis
    proof (cases "map_of (cp_nodes s) n")
      case None
      then have "s' = s" using revoke by (simp add: revoke_node_def)
      then show ?thesis using assms(2) by simp
    next
      case (Some r)
      then have "cp_nodes s' = AList.update n (r\<lparr>nr_revoked_at := Some now\<rparr>) (cp_nodes s)"
        using revoke by (simp add: revoke_node_def Let_def)
      then show ?thesis using assms(2) Some by (auto simp: task_node_def update_conv')
    qed
  qed (use assms(2) in \<open>auto simp: task_node_def begin_pairing_def cancel_pairing_def approve_pairing_def grant_workspace_def
      save_plan_def decide_def Let_def split: option.split sum.split\<close>)
qed

lemma created_task:
  assumes "create_remote_task C now K e s = (r, s')"
  shows "cp_nodes s' = cp_nodes s" "cp_pairings s' = cp_pairings s" "r = Inr t \<Longrightarrow> task_node s t"
    and "r = Inr t \<Longrightarrow> t = sign_task_envelope C e K"
  using assms
  by (auto simp: create_remote_task_def Let_def task_node_def sign_task_envelope_def split: option.splits if_splits sum.splits prod.splits)

lemma cp_run_inv: "cp_run C K l cs s \<Longrightarrow> cp_inv s \<and> (\<forall>t \<in> set l. task_node s t)"
proof (induction rule: cp_run.induct)
  case start
  show ?case by (simp add: cp_inv_def init_ControlPlane_def)
next
  case (operation l cs s s')
  then show ?case using cp_step_inv cp_step_task_node by blast
next
  case (signed l cs s now e e' s')
  note c = created_task [OF signed.hyps(2)]
  have "task_node s' t = task_node s t" for t using c(1) by (simp add: task_node_def)
  then show ?case using signed.IH cp_unchanged [OF _ c(2,1)] c(3) by auto
next
  case (refused l cs s now e x s')
  note c = created_task [OF refused.hyps(2)]
  have "task_node s' t = task_node s t" for t using c(1) by (simp add: task_node_def)
  then show ?case using refused.IH cp_unchanged [OF _ c(2,1)] by auto
qed simp

section \<open>Properties\<close>

text \<open>C9: A task that a node accepts was authorised. Suppose the signature that is presented is not a forgery:
  if it verifies under the key of the control plane, then what it signs is a text that was signed with
  that key, be it a remote task or one of the connector tasks of the gateway. Then an envelope that passes
  the node's validator is one of the remote tasks that the control plane issued (a connector task is never
  taken for one), field by field except for the signature; it names this node, which
  was registered with an approved pairing of the organisation of the task; the node's own grants
  contain a live one for the workspace; and it had not expired.\<close>

theorem validated_task_is_authorised:
  assumes "cp_run C K l cs s" and "nv_public_key v = cr_public C K"
    and "cr_verify C (canonical_json [''signature''] (remote_envelope_dict e)) (re_signature e) (cr_public C K)
      \<Longrightarrow> canonical_json [''signature''] (remote_envelope_dict e) \<in> signed_texts l cs"
    and "validate_task C now now' resolve e node_id grants path v = (Inr root, v')"
  shows "(\<exists>t \<in> set l. e\<lparr>re_signature := re_signature t\<rparr> = t) \<and> re_node_id e = node_id \<and> now < re_expires_at e
     \<and> (\<exists>n. map_of (cp_nodes s) node_id = Some n \<and> nr_organisation_id n = re_organisation_id e
          \<and> (\<exists>p \<in> snd ` set (cp_pairings s). ps_organisation_id p = re_organisation_id e
               \<and> ps_workspace_id p = nr_workspace_id n \<and> ps_approved_by_user_id p \<noteq> None))
     \<and> (\<exists>g \<in> set grants. live_grant node_id (re_workspace_id e) g)"
proof -
  have v: "verify_envelope C now e (cr_public C K) = Inr ()" "re_node_id e = node_id"
      "find (live_grant node_id (re_workspace_id e)) grants \<noteq> None"
    using assms(2,4) by (auto simp: validate_task_def split: sum.splits prod.splits if_splits option.splits)
  then have "now < re_expires_at e" "cr_verify C (canonical_json [''signature''] (remote_envelope_dict e)) (re_signature e) (cr_public C K)"
    by (auto simp: verify_envelope_def verify_bytes_def split: if_splits)
  moreover from assms(3) [OF this(2)] obtain t where t: "t \<in> set l" "e\<lparr>re_signature := re_signature t\<rparr> = t"
    using envelope_text_inj [of e] envelope_texts_differ [of e] by (auto simp: signed_texts_def)
  moreover have "task_node s t" and i: "cp_inv s" using cp_run_inv [OF assms(1)] t(1) by auto
  moreover have "re_node_id t = node_id" "re_organisation_id t = re_organisation_id e"
    using arg_cong [OF t(2), of re_node_id] arg_cong [OF t(2), of re_organisation_id] v(2) by simp_all
  ultimately obtain n where n: "map_of (cp_nodes s) node_id = Some n" "nr_organisation_id n = re_organisation_id e"
    by (auto simp: task_node_def)
  have "paired s n" using i n(1) by (simp add: cp_inv_def)
  moreover have "\<exists>g \<in> set grants. live_grant node_id (re_workspace_id e) g"
    using v(3) by (auto simp: find_None_iff)
  ultimately show ?thesis using t n v(2) \<open>now < re_expires_at e\<close> by (auto simp: paired_def)
qed

definition example_envelope :: RemoteTaskEnvelope where
  "example_envelope = \<lparr>re_id = ''t1'', re_task_context_id = ''c1'', re_organisation_id = ''o1'', re_workspace_id = ''w1'',
     re_node_id = ''n1'', re_user_id = ''u1'', re_browser_session_id = ''b1'', re_harness_id = ''codex'', re_task = ''fix it'',
     re_required_capabilities = [''edit''], re_approval_id = None, re_nonce = ''x1'', re_issued_at = 20, re_expires_at = 320,
     re_key_id = ''k1'', re_signature = []\<rparr>"

definition example_crypto :: crypto where
  "example_crypto = \<lparr>cr_sha256 = (\<lambda>s. s), cr_public = rev, cr_sign = (\<lambda>m k. k @ m),
     cr_verify = (\<lambda>m sig p. sig = rev p @ m)\<rparr>"

definition example_offer :: ConnectorTaskEnvelope where
  "example_offer = \<lparr>cn_task_id = ''ct1'', cn_plan_id = ''pl1'', cn_node_id = ''n1'', cn_connector_id = ''codex'',
     cn_connector_revision = ''1'', cn_action = ''install'', cn_plan_hash = ''h'', cn_executable = ''npm'', cn_arguments = [''install''],
     cn_method_id = ''m1'', cn_package_source = ''npm'', cn_expected_executables = [''codex''], cn_download_digest = None,
     cn_risk_level = ''medium'', cn_nonce = ''x2'', cn_issued_at = 20, cn_expires_at = 920, cn_key_id = ''k1'', cn_signature = [],
     cn_idempotency_key = ''i1''\<rparr>"

definition example_grant :: WorkspaceGrant where
  "example_grant = \<lparr>wg_id = ''g1'', wg_workspace_id = ''w1'', wg_node_id = ''n1'', wg_root_path = ''/w'', wg_allow_read = True,
     wg_allow_write = True, wg_allow_shell = False, wg_created_at = 15, wg_revoked_at = None\<rparr>"

definition example_details :: node_details where
  "example_details = \<lparr>nd_id = ''n1'', nd_name = ''mac'', nd_public_key = ''pk'', nd_key_id = ''k'', nd_platform = ''darwin'',
     nd_version = ''1'', nd_created_at = 12\<rparr>"

text \<open>A pairing that is approved, a node registered with it and granted a workspace.\<close>

definition example_plane :: ControlPlane where
  "example_plane =
     snd (grant_workspace example_grant ''u1'' (snd (register_paired_node example_crypto 12 ''p1'' ''code'' example_details
       (snd (approve_pairing 11 ''p1'' ''u1'' (snd (begin_pairing example_crypto ''p1'' ''A-B'' ''code'' 10 ''o1'' ''w1'' ''ch''
         init_ControlPlane)))))))"

lemma example_plane_run: "cp_run example_crypto ''sk'' [] [] example_plane"
proof -
  let ?s1 = "snd (begin_pairing example_crypto ''p1'' ''A-B'' ''code'' 10 ''o1'' ''w1'' ''ch'' init_ControlPlane)"
  let ?s2 = "snd (approve_pairing 11 ''p1'' ''u1'' ?s1)"
  have "cp_step example_crypto init_ControlPlane ?s1" by (rule cp_step.pair) (simp add: init_ControlPlane_def)
  then have 1: "cp_run example_crypto ''sk'' [] [] ?s1" by (rule cp_run.operation [OF cp_run.start])
  have 2: "cp_run example_crypto ''sk'' [] [] ?s2" by (rule cp_run.operation [OF 1 cp_step.approve])
  have "cp_nodes ?s2 = []" by code_simp
  then have 3: "cp_run example_crypto ''sk'' [] [] (snd (register_paired_node example_crypto 12 ''p1'' ''code'' example_details ?s2))"
    by (intro cp_run.operation [OF 2 cp_step.register]) simp
  show ?thesis unfolding example_plane_def by (rule cp_run.operation [OF 3 cp_step.grant])
qed

text \<open>A connector task was signed as well; the signatures are correct, as those of Ed25519 are.\<close>

theorem validated_task_is_authorised_witness:
  "sound_signatures example_crypto \<and> (\<exists>e n. fst (validate_task example_crypto 21 22 (\<lambda>r p. Inr (r @ p)) e ''n1'' [example_grant] ''/a'' \<lparr>nv_public_key = ''ks'', nv_nonces = []\<rparr>)
       = Inr ''/w/a'' \<and> map_of (cp_nodes (snd (create_remote_task example_crypto 20 ''sk'' example_envelope example_plane))) ''n1'' = Some n
     \<and> nr_organisation_id n = re_organisation_id e)"
proof -
  let ?C = example_crypto and ?r = "create_remote_task example_crypto 20 ''sk'' example_envelope example_plane"
  let ?e = "sign_task_envelope example_crypto example_envelope ''sk''" and ?v = "\<lparr>nv_public_key = ''ks'', nv_nonces = []\<rparr>"
  have "\<not> (case fst ?r of Inl _ \<Rightarrow> True | Inr _ \<Rightarrow> False)" by code_simp
  then obtain t s where r: "?r = (Inr t, s)" by (cases ?r; cases "fst ?r") auto
  have run: "cp_run ?C ''sk'' [t] [sign_connector_envelope ?C example_offer ''sk''] s"
    by (rule cp_run.signed [OF cp_run.offered [OF example_plane_run] r])
  have t: "t = ?e" by (rule created_task(4) [OF r refl])
  have key: "nv_public_key ?v = cr_public ?C ''sk''" by (simp add: example_crypto_def)
  have unforged: "canonical_json [''signature''] (remote_envelope_dict ?e) \<in> signed_texts [t] cs" for cs
    using t by (simp add: signed_texts_def)
  have f: "fst (validate_task ?C 21 22 (\<lambda>r p. Inr (r @ p)) ?e ''n1'' [example_grant] ''/a'' ?v) = Inr ''/w/a''" by code_simp
  then obtain v' where "validate_task ?C 21 22 (\<lambda>r p. Inr (r @ p)) ?e ''n1'' [example_grant] ''/a'' ?v = (Inr ''/w/a'', v')"
    by (metis prod.collapse)
  from validated_task_is_authorised [OF run key _ this] unforged
  have "\<exists>n. map_of (cp_nodes s) ''n1'' = Some n \<and> nr_organisation_id n = re_organisation_id ?e" by blast
  moreover have "sound_signatures ?C" by (simp add: sound_signatures_def example_crypto_def)
  ultimately show ?thesis using f r by auto
qed

text \<open>A pairing is not used up: while it has not expired, the device code registers any number of nodes, with any keys.
  The code challenge that was given when it began is never asked for.\<close>

theorem pairing_registers_again:
  assumes "map_of (cp_pairings s) i = Some p" and "ps_approved_by_user_id p \<noteq> None"
    and "now < ps_expires_at p" and "now' < ps_expires_at p" and "cr_sha256 C code = ps_device_code_hash p"
  shows "\<exists>n s1 n' s2. register_paired_node C now i code d s = (Inr n, s1) \<and> register_paired_node C now' i code d' s1 = (Inr n', s2)
     \<and> nr_public_key n = nd_public_key d \<and> nr_public_key n' = nd_public_key d'"
  using assms by (simp add: register_paired_node_def Let_def)

theorem pairing_registers_again_witness:
  "\<exists>n s1 n' s2. register_paired_node example_crypto 13 ''p1'' ''code'' example_details example_plane = (Inr n, s1)
     \<and> register_paired_node example_crypto 14 ''p1'' ''code'' (example_details\<lparr>nd_id := ''n2'', nd_public_key := ''other''\<rparr>) s1 = (Inr n', s2)
     \<and> nr_public_key n' = ''other''"
proof -
  have "map_of (cp_pairings example_plane) ''p1'' \<noteq> None \<and> ps_approved_by_user_id (the (map_of (cp_pairings example_plane) ''p1'')) = Some ''u1''
      \<and> ps_expires_at (the (map_of (cp_pairings example_plane) ''p1'')) = 610
      \<and> ps_device_code_hash (the (map_of (cp_pairings example_plane) ''p1'')) = ''code''"
    by code_simp
  then obtain p where "map_of (cp_pairings example_plane) ''p1'' = Some p" "ps_approved_by_user_id p \<noteq> None"
      "ps_expires_at p = 610" "ps_device_code_hash p = ''code''" by auto
  moreover have "cr_sha256 example_crypto c = c" for c by (simp add: example_crypto_def)
  ultimately show ?thesis
    using pairing_registers_again [where C = example_crypto and d = example_details and d' = "example_details\<lparr>nd_id := ''n2'', nd_public_key := ''other''\<rparr>"
        and s = example_plane and i = "''p1''" and now = 13 and now' = 14 and code = "''code''"]
    by fastforce
qed

end
