(* ===== verification/Spec2Isabelle.thy ===== *)
theory Spec2Isabelle
  imports Capabilities Policy Scheduler Leases Retry Route_Leases Delivery_Worker Route_Selection Security
    Route_Coordinator Deployment Socket_Delivery Approvals Control_Plane
begin

text \<open>
  \<^bold>\<open>Verification of the JoyMesh runtime.\<close> JoyMesh delegates coding tasks to agents on several machines.
  A task is expanded to capabilities and checked against a policy, ranked onto nodes and leased; an
  execution intent is routed over a chain of backends that run a harness (a coding agent's process),
  possibly behind a provider route that is switched for the time of the run; the outcome is turned
  into accepted evidence, a verification verdict and finalised usage; and signed reports about all of
  this are delivered to a control plane. All paths below are under \<^verbatim>\<open>src/src/joymesh/\<close>.

  \<^bold>\<open>The theories\<close>, in the order of their imports:
  \<^item> \<open>JM_Prelude\<close>: Python values, dictionaries as association lists, exceptions as the datatype
    \<open>py_error\<close>, results (\<open>Inl\<close> an exception), outcomes of awaited calls (returned, raised, cancelled),
    conversions such as \<^verbatim>\<open>str\<close>, \<^verbatim>\<open>int\<close>, \<^verbatim>\<open>repr\<close>, and the lemmas about them that all components use.
  \<^item> \<open>Capabilities\<close>, \<open>Policy\<close> (\<^verbatim>\<open>runtime_v1/capabilities.py\<close>, \<^verbatim>\<open>policy.py\<close>): the capability table, its closure under
    dependencies, the policy decision over it.
  \<^item> \<open>Runtime_Models\<close>, \<open>Scheduler\<close>, \<open>Leases\<close>, \<open>Retry\<close> (\<^verbatim>\<open>runtime_v1/models.py\<close>, \<^verbatim>\<open>scheduler.py\<close>, \<^verbatim>\<open>leases.py\<close>,
    \<^verbatim>\<open>retry.py\<close>): task records, candidate ranking, task leases with fencing tokens as a step relation,
    the retry decision.
  \<^item> \<open>Route_Leases\<close> (\<^verbatim>\<open>runtime_v1/provider_routes/lease_store.py\<close>): the lease store of provider routes in its
    in-memory and its database form, each with a step relation and an invariant; the two disagree on
    late renewals, which is a theorem.
  \<^item> \<open>Route_Selection\<close>, \<open>Security\<close>, \<open>Route_Coordinator\<close> (\<^verbatim>\<open>selection.py\<close>, \<^verbatim>\<open>coordinator.py\<close>, \<^verbatim>\<open>authority.py\<close> in the same
    directory, and \<^verbatim>\<open>security.py\<close>): choosing a route, redaction and environment filter, and the lifecycle
    lease - enable - execute - restore - release over the locale \<open>lease_contract\<close>, which both stores
    interpret.
  \<^item> \<open>Privacy\<close>, \<open>Canonical_JSON\<close>, \<open>Outbox\<close>, \<open>Delivery_Worker\<close> (\<^verbatim>\<open>delivery/\<close>): the privacy guard, canonical JSON and its
    injectivity, the bounded outbox with compaction, the worker that flushes it, the intake on the
    other side.
  \<^item> \<open>Socket_Delivery\<close> (\<^verbatim>\<open>delivery/transports/unix_socket.py\<close>): the client and the server of the Unix socket, with
    every exchange answered, delayed, lost, cut or cancelled as an argument says; the contract
    \<open>recording_transport\<close> of a transport, which the memory and the socket transport interpret.
  \<^item> \<open>Execution_Models\<close>, \<open>Execution_Cancellation\<close>, \<open>Execution_Router\<close> (\<^verbatim>\<open>runtime_v1/execution_routing/models.py\<close>,
    \<^verbatim>\<open>failures.py\<close>, \<^verbatim>\<open>cancellation.py\<close>, \<^verbatim>\<open>registry.py\<close>, \<^verbatim>\<open>router.py\<close>): intents, decisions, results; the registry of
    running executions; ranking, entitlements and the run over the fallback chain.
  \<^item> \<open>Process_Runner\<close>, \<open>Harness\<close>, \<open>Backends\<close>, \<open>Remote_Backends\<close> (\<^verbatim>\<open>process_runner.py\<close>, \<^verbatim>\<open>harness.py\<close>, \<^verbatim>\<open>backends/\<close>): the
    runner of harness processes, the adapters, and the four backends, which interpret the locale
    \<open>backend_contract\<close> that the properties of the router rest on.
  \<^item> \<open>Completion_Models\<close>, \<open>Evidence\<close>, \<open>Verification\<close>, \<open>Usage\<close>, \<open>Completion\<close> (\<^verbatim>\<open>runtime_v1/completion/\<close>): the evidence
    boundary, verification through nested policies, usage and the mission graph, and the orchestrator
    with its terminal states, restart and late events.

  \<^item> \<open>Completion_Outcomes\<close>: when a completion succeeds and when it does not, for the callers of the
    orchestrator.
  \<^item> \<open>Runtime_Store\<close>, \<open>Planning\<close> (\<^verbatim>\<open>runtime_v1/store.py\<close>, \<^verbatim>\<open>execution_routing/bridge.py\<close>, \<^verbatim>\<open>planner.py\<close>): tasks, leases,
    attempts and events in dictionaries and in database rows whose constraints may be violated; the
    mission and the intent made from a task.
  \<^item> \<open>Workers\<close>, \<open>Coding_Worker\<close> (\<^verbatim>\<open>runtime_v1/workers/reporting.py\<close>, \<^verbatim>\<open>contracts/workers.py\<close>, \<^verbatim>\<open>coding_worker/\<close>): worker reports,
    the lease validator, and the worker that runs the codex harness in a repository under a lease, over
    the locale \<open>worker_laws\<close>, which the service interprets.
  \<^item> \<open>Runtime_Service\<close>, \<open>Service_Invariants\<close>, \<open>Service_Operations\<close>, \<open>Service_Behaviour\<close> (\<^verbatim>\<open>runtime_v1/service.py\<close>): the
    service that creates, approves, routes, offers, completes, cancels and retries tasks. Its state
    holds the states of the policy, the lease service, the store, the cancellation registry and the
    completion orchestrator, and a component \<open>'w\<close> for whatever lies beyond; its methods are actions that
    return, raise or are cancelled. The invariant is proved method by method and for the step relation
    \<open>service_step\<close>; \<open>Service_Behaviour\<close> holds what single methods do.
  \<^item> \<open>Deployment\<close>: the service composed with the four backends as \<^verbatim>\<open>__post_init__\<close> composes them, over a
    machine that runs the processes, with a complete run of a task as its example.
  \<^item> \<open>Message_Security\<close>, \<open>Approvals\<close>, \<open>Control_Plane\<close> (\<^verbatim>\<open>control_plane/security.py\<close>, \<^verbatim>\<open>service.py\<close>, \<^verbatim>\<open>node.py\<close>,
    \<^verbatim>\<open>execution/approval.py\<close>): signatures of remote and connector tasks, nonces and approvals as functions of a record of primitives; the
    approvals of execution directives; pairing, grants and signed remote tasks on the control plane, and
    the validator on the node.

  \<^bold>\<open>What the lemmas show.\<close> Per component: an invariant that every operation keeps, and what each operation
  returns on each branch. Across components: the record of a completed execution holds the verified
  verdict of an attested request, on the evidence that the boundary had accepted for it; terminal outcomes never change; a lease of a route is released on every
  way out of the lifecycle and no route is changed outside of one; the lease of the coding worker is
  released on every way out that follows its first progress report; no registration is cancelled
  twice, however cancellations overlap; an accepted remote event is ignored until its execution is
  cleaned up; a run over backends goes on only
  after failures that admit it and succeeds only on an entitled, capable backend; the outbox keeps its
  bound, only acknowledged entries leave it, and over a socket on which no task is cancelled they are
  then stored by the intake; the rows of the database are those of the records in
  memory; a task that succeeds in any reachable state of the deployed service has a verified, finalised
  completion, a success of a backend does complete its task, and a task without its approval does not
  run; a remote task that a node accepts was signed by the control plane for that node, provided that
  its signature is not a forgery: a signature that verifies was made over a text that was signed with
  the key, which also signs connector tasks. Several theorems state behaviour that contradicts a
  comment or an intention; the manifest lists them as findings.

  \<^bold>\<open>Conventions.\<close> Times are integers, and ISO texts of times are the integers too. Identifiers from
  \<^verbatim>\<open>uuid4\<close> and clock readings are arguments or functions of a running counter. Frozen sets are lists.
  JSON columns are dictionaries; numbers in payloads are integers. Strings are lists of 8-bit
  characters. A database transaction is one step, except for the stale query of \<open>db_acquire\<close>, which is
  separated from its insert. An \<^verbatim>\<open>await\<close> is sequential unless a function of the surroundings is given for
  what other tasks do meanwhile, or the code between two awaits is a step of its own, as in the
  registry of cancellations (\<open>cancel_begin\<close>, \<open>registry_run\<close>). SHA-256, HMAC, the file system, processes, transports, route managers
  and connectors are parameters. Loops of the code are structural recursions or functions with a
  measure; \<open>poll_lease\<close> takes fuel, since it polls until its deadline: its fuel is the number of polls, and
  one more than the units of the time-out is enough once the clock advances with every sleep
  (\<open>lifecycle_terminates\<close>). The methods of the runtime service are taken one at a time: another method
  may not begin while one of them awaits. Where a theorem of \<open>Service_Behaviour\<close> speaks of a service
  without a database, that is the configuration without a session factory, in which saving cannot
  raise; the invariants hold with a database as well.

  \<^bold>\<open>Not modelled.\<close> Floating point: \<^verbatim>\<open>ExecutionRouter.select\<close> and the scores of \<^verbatim>\<open>capability_routing/\<close>; the
  service takes the decision as a parameter. Regular expressions over the output of a harness. The HTTP
  API, the command line, configuration and persistence glue (\<^verbatim>\<open>api.py\<close>, \<^verbatim>\<open>cli.py\<close>, \<^verbatim>\<open>config.py\<close>,
  \<^verbatim>\<open>persistence.py\<close>); the argv builders and parsers of the individual harnesses (\<^verbatim>\<open>harnesses/\<close>,
  \<^verbatim>\<open>runtime_v1/connectors/\<close>), which are parameters of the adapters; the older local service (\<^verbatim>\<open>service.py\<close>,
  \<^verbatim>\<open>runtime.py\<close>, \<^verbatim>\<open>routing.py\<close>), which \<^verbatim>\<open>runtime_v1\<close> replaces; the node side of connectors and the gateway
  of the control plane, which are network and process glue; telemetry, legal, quota and onboarding.
\<close>

end
